(* ===== verification/Prelude.thy ===== *)
theory Prelude
  imports Complex_Main "HOL-Library.AList" "HOL-Library.List_Lexorder" "HOL-Library.Char_ord"
begin

text \<open>
  Shared vocabulary of the development.
  \<^item> Python exceptions as a datatype, outcomes as sums, and the sequencing of calls that both
    return or raise and change state (a raise keeps the state reached so far, as in Python).
  \<^item> Python dictionaries as insertion-ordered association lists, with the lemmas about reads
    after writes, key order and sums over values that every component uses.
  \<^item> String helpers: truthiness of optional strings, joins, prefixes, substrings, decimal text.
  \<^item> Two interfaces as locales: an invariant kept by every command of a system, and a store in
    which a command may add entries but never change an existing one.
\<close>

section \<open>Exceptions and outcomes\<close>

datatype py_exn =
    InvariantError string
  | StateError string
  | AttributionError string
  | NotFoundError string
  | TenantIsolationError string
  | AuthorityError string
  | AuthorizationError string
  | LedgerLogError string
  | WorkflowNotFoundError string
  | WorkflowStateError string
  | WorkflowConflictError string
  | DurabilityGuardError string
  | PrivacySentinelError string
  | DigestError string
  | PolicyError string
  | ReconcileError string
  | IntegrityError string
  | KeyError string
  | ValueError string
  | TypeError string
  | AttributeError string
  | NotImplementedError string
  | InvalidOperation

type_synonym 'a outcome = "py_exn + 'a"

text \<open>
  A call that may raise and that changes a state returns the outcome and the state reached.
  \<open>and_then r f\<close> runs \<open>f\<close> on the value of \<open>r\<close>; an exception skips \<open>f\<close> and keeps the state in
  which it was raised.
\<close>

definition and_then ::
  "'a outcome \<times> 's \<Rightarrow> ('a \<Rightarrow> 's \<Rightarrow> 'b outcome \<times> 's) \<Rightarrow> 'b outcome \<times> 's" where
  "and_then r f = (case r of (Inl e, s) \<Rightarrow> (Inl e, s) | (Inr a, s) \<Rightarrow> f a s)"

lemma and_then_Inl [simp]: "and_then (Inl e, s) f = (Inl e, s)"
  by (simp add: and_then_def)

lemma and_then_Inr [simp]: "and_then (Inr a, s) f = f a s"
  by (simp add: and_then_def)

lemma and_then_split:
  "P (and_then r f) \<longleftrightarrow>
    (\<forall>e s. r = (Inl e, s) \<longrightarrow> P (Inl e, s)) \<and> (\<forall>a s. r = (Inr a, s) \<longrightarrow> P (f a s))"
  by (cases r; cases "fst r") (auto simp: and_then_def)

lemma and_then_InrE:
  assumes "and_then r f = (Inr b, t)"
  obtains a s where "r = (Inr a, s)" and "f a s = (Inr b, t)"
  using assms by (cases r; cases "fst r") (auto simp: and_then_def)

text \<open>
  \<open>post Q r\<close>: the outcome and the state of a call satisfy \<open>Q\<close>. The rules follow the shape of the
  code, so that a long chain of guards is split without simplifying its branches.
\<close>

definition post :: "('a outcome \<Rightarrow> 's \<Rightarrow> bool) \<Rightarrow> 'a outcome \<times> 's \<Rightarrow> bool" where
  "post Q r = Q (fst r) (snd r)"

lemma post_if: "(b \<Longrightarrow> post Q r) \<Longrightarrow> (\<not> b \<Longrightarrow> post Q s) \<Longrightarrow> post Q (if b then r else s)"
  by simp

lemma post_case_sum:
  "(\<And>x. v = Inl x \<Longrightarrow> post Q (f x)) \<Longrightarrow> (\<And>y. v = Inr y \<Longrightarrow> post Q (g y)) \<Longrightarrow>
     post Q (case v of Inl x \<Rightarrow> f x | Inr y \<Rightarrow> g y)"
  by (cases v) simp_all

lemma post_case_option:
  "(w = None \<Longrightarrow> post Q r) \<Longrightarrow> (\<And>y. w = Some y \<Longrightarrow> post Q (h y)) \<Longrightarrow>
     post Q (case w of None \<Rightarrow> r | Some y \<Rightarrow> h y)"
  by (cases w) simp_all

lemma post_let: "post Q (k z) \<Longrightarrow> post Q (Let z k)"
  by simp

lemma post_case_prod: "post Q (l (fst p) (snd p)) \<Longrightarrow> post Q (case p of (m, n) \<Rightarrow> l m n)"
  by (cases p) simp

lemma post_pair: "Q v s \<Longrightarrow> post Q (v, s)"
  by (simp add: post_def)

lemmas post_branch = post_if post_case_sum post_case_option post_let post_case_prod

lemma postD: "post Q r \<Longrightarrow> r = (v, s) \<Longrightarrow> Q v s"
  by (simp add: post_def)

section \<open>Dictionaries\<close>

text \<open>
  A Python dictionary keeps its keys in insertion order; storing under a key that is present
  keeps the key's place. \<open>AList.update\<close> does the same on an association list.
\<close>

type_synonym ('k, 'v) dict = "('k \<times> 'v) list"

abbreviation dget :: "('k, 'v) dict \<Rightarrow> 'k \<Rightarrow> 'v option" where
  "dget \<equiv> map_of"

definition dset :: "'k \<Rightarrow> 'v \<Rightarrow> ('k, 'v) dict \<Rightarrow> ('k, 'v) dict" where
  "dset k v d = AList.update k v d"

definition dhas :: "('k, 'v) dict \<Rightarrow> 'k \<Rightarrow> bool" where
  "dhas d k = (case dget d k of None \<Rightarrow> False | Some _ \<Rightarrow> True)"

definition dvalues :: "('k, 'v) dict \<Rightarrow> 'v list" where
  "dvalues d = map snd d"

definition dfilter :: "('v \<Rightarrow> bool) \<Rightarrow> ('k, 'v) dict \<Rightarrow> ('k, 'v) dict" where
  "dfilter P d = filter (\<lambda>kv. P (snd kv)) d"

definition dict_ok :: "('k, 'v) dict \<Rightarrow> bool" where
  "dict_ok d = distinct (map fst d)"

lemma dhas_iff [simp]: "dhas d k \<longleftrightarrow> dget d k \<noteq> None"
  by (simp add: dhas_def split: option.splits)

lemma dget_dset: "dget (dset k v d) = (dget d)(k \<mapsto> v)"
  by (simp add: dset_def update_conv')

lemma dget_dset_app [simp]: "dget (dset k v d) j = (if j = k then Some v else dget d j)"
  by (simp add: dget_dset)

lemma dset_Nil [simp]: "dset k v [] = [(k, v)]"
  by (simp add: dset_def)

lemma dset_Cons [simp]:
  "dset k v ((j, w) # d) = (if j = k then (k, v) # d else (j, w) # dset k v d)"
  by (simp add: dset_def)

lemma dset_fresh: "dget d k = None \<Longrightarrow> dset k v d = d @ [(k, v)]"
  by (induction d) auto

lemma dict_ok_Nil [simp]: "dict_ok []"
  by (simp add: dict_ok_def)

lemma dict_ok_dset [simp]: "dict_ok d \<Longrightarrow> dict_ok (dset k v d)"
  by (simp add: dict_ok_def dset_def distinct_update)

lemma dict_ok_dfilter [simp]: "dict_ok d \<Longrightarrow> dict_ok (dfilter P d)"
  by (simp add: dict_ok_def dfilter_def distinct_map_filter)

lemma dget_dfilter:
  "dict_ok d \<Longrightarrow>
    dget (dfilter P d) k = (case dget d k of None \<Rightarrow> None | Some v \<Rightarrow> if P v then Some v else None)"
proof (induction d)
  case (Cons kv d)
  obtain j w where kv: "kv = (j, w)" by (cases kv)
  have "j \<notin> fst ` set d" using Cons.prems by (simp add: dict_ok_def kv)
  then have "dget d j = None" by (simp add: map_of_eq_None_iff)
  moreover have "dict_ok d" using Cons.prems by (simp add: dict_ok_def)
  ultimately show ?case using Cons.IH
    by (auto simp: dfilter_def kv split: option.splits)
qed (simp add: dfilter_def)

lemma dget_dfilter_SomeD: "dict_ok d \<Longrightarrow> dget (dfilter P d) k = Some v \<Longrightarrow> dget d k = Some v \<and> P v"
  by (auto simp: dget_dfilter split: option.splits if_splits)

lemma dvalues_simps [simp]:
  "dvalues [] = []" "dvalues ((k, v) # d) = v # dvalues d" "dvalues (d @ e) = dvalues d @ dvalues e"
  by (simp_all add: dvalues_def)

lemma dvalues_dfilter [simp]: "dvalues (dfilter P d) = filter P (dvalues d)"
  by (induction d) (auto simp: dfilter_def)

lemma dfilter_simps [simp]:
  "dfilter P [] = []"
  "dfilter P ((k, v) # d) = (if P v then (k, v) # dfilter P d else dfilter P d)"
  by (simp_all add: dfilter_def)

lemma in_dvalues_iff: "dict_ok d \<Longrightarrow> v \<in> set (dvalues d) \<longleftrightarrow> (\<exists>k. dget d k = Some v)"
  by (force simp: dvalues_def dict_ok_def map_of_eq_Some_iff)

lemma dget_in_dvalues: "dget d k = Some v \<Longrightarrow> v \<in> set (dvalues d)"
  by (force simp: dvalues_def dest: map_of_SomeD)

lemma set_dvalues_dset: "set (dvalues (dset k v d)) \<subseteq> insert v (set (dvalues d))"
  by (induction d) (auto split: if_splits)

lemma dget_dfilter_None: "dget d k = None \<Longrightarrow> dget (dfilter P d) k = None"
  by (induction d) (auto split: if_splits)

text \<open>A property of every entry of a dictionary.\<close>

definition dall :: "('k \<Rightarrow> 'v \<Rightarrow> bool) \<Rightarrow> ('k, 'v) dict \<Rightarrow> bool" where
  "dall P d = list_all (\<lambda>(k, v). P k v) d"

lemma dall_simps [simp]: "dall P []" "dall P ((k, v) # d) \<longleftrightarrow> P k v \<and> dall P d"
  by (simp_all add: dall_def)

lemma dall_dset [intro]: "dall P d \<Longrightarrow> P k v \<Longrightarrow> dall P (dset k v d)"
  by (induction d) (auto split: if_splits)

lemma dall_dfilter [intro]: "dall P d \<Longrightarrow> dall P (dfilter Q d)"
  by (induction d) auto

lemma dall_mono: "dall P d \<Longrightarrow> (\<And>k v. P k v \<Longrightarrow> Q k v) \<Longrightarrow> dall Q d"
  by (induction d) auto

lemma dall_dget: "dall P d \<Longrightarrow> dget d k = Some v \<Longrightarrow> P k v"
  by (induction d) (auto split: if_splits)

lemma dall_dvalues: "dall P d \<Longrightarrow> v \<in> set (dvalues d) \<Longrightarrow> \<exists>k. P k v"
  by (induction d) auto

lemma dall_dgetI: "dict_ok d \<Longrightarrow> (\<And>k v. dget d k = Some v \<Longrightarrow> P k v) \<Longrightarrow> dall P d"
  by (force simp: dall_def list_all_iff dict_ok_def map_of_eq_Some_iff)

subsection \<open>Sums over the values of a dictionary\<close>

definition sum_where :: "('v \<Rightarrow> bool) \<Rightarrow> ('v \<Rightarrow> int) \<Rightarrow> ('k, 'v) dict \<Rightarrow> int" where
  "sum_where P f d = sum_list (map f (filter P (dvalues d)))"

lemma sum_where_simps [simp]:
  "sum_where P f [] = 0"
  "sum_where P f ((k, v) # d) = (if P v then f v else 0) + sum_where P f d"
  "sum_where P f (d @ e) = sum_where P f d + sum_where P f e"
  by (simp_all add: sum_where_def)

lemma sum_where_dset_new:
  "dget d k = None \<Longrightarrow>
    sum_where P f (dset k v d) = sum_where P f d + (if P v then f v else 0)"
  by (simp add: dset_fresh)

lemma sum_where_dset_old:
  "dget d k = Some w \<Longrightarrow>
    sum_where P f (dset k v d) =
      sum_where P f d - (if P w then f w else 0) + (if P v then f v else 0)"
  by (induction d) (auto split: if_splits)

lemma sum_where_dfilter [simp]:
  "sum_where P f (dfilter Q d) = sum_where (\<lambda>v. P v \<and> Q v) f d"
  by (induction d) auto

lemma sum_where_nonneg: "(\<And>v. v \<in> set (dvalues d) \<Longrightarrow> P v \<Longrightarrow> 0 \<le> f v) \<Longrightarrow> 0 \<le> sum_where P f d"
  by (induction d) fastforce+

lemma sum_where_cong:
  "(\<And>v. v \<in> set (dvalues d) \<Longrightarrow> P v \<longleftrightarrow> Q v) \<Longrightarrow> (\<And>v. v \<in> set (dvalues d) \<Longrightarrow> f v = g v) \<Longrightarrow>
    sum_where P f d = sum_where Q g d"
  by (induction d) auto

lemma sum_where_mono:
  "(\<And>v. v \<in> set (dvalues d) \<Longrightarrow> P v \<Longrightarrow> Q v) \<Longrightarrow> (\<And>v. v \<in> set (dvalues d) \<Longrightarrow> 0 \<le> f v) \<Longrightarrow>
    sum_where P f d \<le> sum_where Q f d"
proof (induction d)
  case (Cons kv d)
  obtain k v where "kv = (k, v)" by (cases kv)
  with Cons show ?case by (fastforce intro: add_mono)
qed simp

lemma sum_where_split:
  "sum_where P f d = sum_where (\<lambda>v. P v \<and> Q v) f d + sum_where (\<lambda>v. P v \<and> \<not> Q v) f d"
  by (induction d) auto

lemma sum_where_none: "(\<And>v. v \<in> set (dvalues d) \<Longrightarrow> \<not> P v) \<Longrightarrow> sum_where P f d = 0"
  by (induction d) auto

section \<open>Strings\<close>

text \<open>
  A Python string is a list of characters (code points below 256). \<open>present\<close> is the truth value
  of an optional string: \<open>None\<close> and the empty string are false.
\<close>

definition present :: "string option \<Rightarrow> bool" where
  "present s = (case s of None \<Rightarrow> False | Some t \<Rightarrow> t \<noteq> [])"

definition or_else :: "string option \<Rightarrow> string option \<Rightarrow> string option" where
  "or_else a b = (if present a then a else b)"

fun join_with :: "string \<Rightarrow> string list \<Rightarrow> string" where
  "join_with sep [] = []"
| "join_with sep [s] = s"
| "join_with sep (s # t # ts) = s @ sep @ join_with sep (t # ts)"

fun starts_with :: "string \<Rightarrow> string \<Rightarrow> bool" where
  "starts_with [] s = True"
| "starts_with (c # cs) [] = False"
| "starts_with (c # cs) (d # ds) = (c = d \<and> starts_with cs ds)"

fun has_substring :: "string \<Rightarrow> string \<Rightarrow> bool" where
  "has_substring m [] = (m = [])"
| "has_substring m (c # cs) = (starts_with m (c # cs) \<or> has_substring m cs)"

text \<open>\<^verbatim>\<open>str.lower\<close> on ASCII letters, which is all the texts it is compared with contain.\<close>

definition lower_char :: "char \<Rightarrow> char" where
  "lower_char c = (let n = of_char c :: nat in if 65 \<le> n \<and> n \<le> 90 then char_of (n + 32) else c)"

definition digit_char :: "nat \<Rightarrow> char" where
  "digit_char n = char_of (48 + n mod 10)"

fun str_of_nat :: "nat \<Rightarrow> string" where
  "str_of_nat n = (if n < 10 then [digit_char n] else str_of_nat (n div 10) @ [digit_char n])"

declare str_of_nat.simps [simp del]

definition str_of_int :: "int \<Rightarrow> string" where
  "str_of_int i = (if i < 0 then ''-'' @ str_of_nat (nat (- i)) else str_of_nat (nat i))"

lemma starts_with_iff: "starts_with p s \<longleftrightarrow> (\<exists>t. s = p @ t)"
  by (induction p s rule: starts_with.induct) auto

lemma has_substring_iff: "has_substring m s \<longleftrightarrow> (\<exists>u t. s = u @ m @ t)"
proof (induction s)
  case (Cons c cs)
  show ?case
  proof
    assume "has_substring m (c # cs)"
    then consider "starts_with m (c # cs)" | "has_substring m cs" by auto
    then show "\<exists>u t. c # cs = u @ m @ t"
    proof cases
      case 1
      then show ?thesis by (force simp: starts_with_iff)
    next
      case 2
      then show ?thesis using Cons.IH by (metis append_Cons)
    qed
  next
    assume "\<exists>u t. c # cs = u @ m @ t"
    then obtain u t where eq: "c # cs = u @ m @ t" by blast
    show "has_substring m (c # cs)"
    proof (cases u)
      case Nil
      with eq have "starts_with m (c # cs)" by (simp add: starts_with_iff)
      then show ?thesis by simp
    next
      case (Cons a u')
      with eq have "cs = u' @ m @ t" by simp
      with Cons.IH show ?thesis by auto
    qed
  qed
qed simp

lemma present_simps [simp]: "\<not> present None" "present (Some t) \<longleftrightarrow> t \<noteq> []"
  by (simp_all add: present_def)

section \<open>Interfaces shared by the components\<close>

text \<open>
  \<open>run step s cs\<close> is the state after the commands \<open>cs\<close>; \<open>run_ok\<close> says that each command meets its
  side condition in the state in which it runs.
\<close>

fun run :: "('s \<Rightarrow> 'c \<Rightarrow> 's) \<Rightarrow> 's \<Rightarrow> 'c list \<Rightarrow> 's" where
  "run step s [] = s"
| "run step s (c # cs) = run step (step s c) cs"

fun run_ok :: "('s \<Rightarrow> 'c \<Rightarrow> 's) \<Rightarrow> ('s \<Rightarrow> 'c \<Rightarrow> bool) \<Rightarrow> 's \<Rightarrow> 'c list \<Rightarrow> bool" where
  "run_ok step ok s [] = True"
| "run_ok step ok s (c # cs) = (ok s c \<and> run_ok step ok (step s c) cs)"

lemma run_append: "run step s (cs @ ds) = run step (run step s cs) ds"
  by (induction cs arbitrary: s) auto

lemma run_ok_append:
  "run_ok step ok s (cs @ ds) \<longleftrightarrow> run_ok step ok s cs \<and> run_ok step ok (run step s cs) ds"
  by (induction cs arbitrary: s) auto

lemma run_ok_True [simp]: "run_ok step (\<lambda>_ _. True) s cs"
  by (induction cs arbitrary: s) auto

locale kept_invariant =
  fixes step :: "'s \<Rightarrow> 'c \<Rightarrow> 's"
    and ok :: "'s \<Rightarrow> 'c \<Rightarrow> bool"
    and inv :: "'s \<Rightarrow> bool"
  assumes step_keeps: "inv s \<Longrightarrow> ok s c \<Longrightarrow> inv (step s c)"
begin

lemma run_keeps: "inv s \<Longrightarrow> run_ok step ok s cs \<Longrightarrow> inv (run step s cs)"
  by (induction cs arbitrary: s) (auto intro: step_keeps)

end

locale append_only_store =
  fixes step :: "'s \<Rightarrow> 'c \<Rightarrow> 's"
    and ok :: "'s \<Rightarrow> 'c \<Rightarrow> bool"
    and entry :: "'s \<Rightarrow> 'k \<Rightarrow> 'v option"
  assumes step_retains: "ok s c \<Longrightarrow> entry s k = Some v \<Longrightarrow> entry (step s c) k = Some v"
begin

lemma run_retains:
  "run_ok step ok s cs \<Longrightarrow> entry s k = Some v \<Longrightarrow> entry (run step s cs) k = Some v"
  by (induction cs arbitrary: s) (auto intro: step_retains)

lemma run_dom_mono: "run_ok step ok s cs \<Longrightarrow> dom (entry s) \<subseteq> dom (entry (run step s cs))"
  using run_retains by fastforce

end

end
