(* ===== verification/Json.thy ===== *)
theory Json
  imports Prelude "HOL-Library.Multiset"
begin

text \<open>
  JSON values as the code builds them (dictionaries, lists, strings, integers, booleans, \<open>None\<close>),
  the canonical rendering \<^verbatim>\<open>json.dumps(payload, sort_keys=True, separators=(",", ":"), default=str)\<close>
  that every receipt hash is taken of, and the dictionary reads the code does on payloads.
  Decimal amounts enter a payload as their text. The digest itself is a parameter of the model.
\<close>

datatype json =
    JNull
  | JBool bool
  | JInt int
  | JStr string
  | JList "json list"
  | JObj "(string \<times> json) list"

section \<open>Canonical rendering\<close>

definition hex_digit :: "nat \<Rightarrow> char" where
  "hex_digit n = ''0123456789abcdef'' ! (n mod 16)"

text \<open>The escapes of \<^verbatim>\<open>json.dumps\<close> with \<^verbatim>\<open>ensure_ascii\<close>, for code points below 256.\<close>

definition escape_char :: "char \<Rightarrow> string" where
  "escape_char c =
     (let n = (of_char c :: nat) in
      if n = 34 then [char_of (92::nat), c]
      else if n = 92 then [c, c]
      else if n = 10 then [char_of (92::nat), CHR ''n'']
      else if n = 13 then [char_of (92::nat), CHR ''r'']
      else if n = 9 then [char_of (92::nat), CHR ''t'']
      else if n = 12 then [char_of (92::nat), CHR ''f'']
      else if n = 8 then [char_of (92::nat), CHR ''b'']
      else if 32 \<le> n \<and> n < 127 then [c]
      else [char_of (92::nat), CHR ''u'', CHR ''0'', CHR ''0'', hex_digit (n div 16), hex_digit n])"

definition quote_str :: "string \<Rightarrow> string" where
  "quote_str s = [char_of (34::nat)] @ concat (map escape_char s) @ [char_of (34::nat)]"

primrec sort_keys :: "json \<Rightarrow> json" where
  "sort_keys JNull = JNull"
| "sort_keys (JBool b) = JBool b"
| "sort_keys (JInt i) = JInt i"
| "sort_keys (JStr s) = JStr s"
| "sort_keys (JList js) = JList (map sort_keys js)"
| "sort_keys (JObj kvs) = JObj (sort_key fst (map (map_prod id sort_keys) kvs))"

primrec render :: "json \<Rightarrow> string" where
  "render JNull = ''null''"
| "render (JBool b) = (if b then ''true'' else ''false'')"
| "render (JInt i) = str_of_int i"
| "render (JStr s) = quote_str s"
| "render (JList js) = ''['' @ join_with '','' (map render js) @ '']''"
| "render (JObj kvs) =
     ''{'' @ join_with '','' (map (\<lambda>(k, t). quote_str k @ '':'' @ t) (map (map_prod id render) kvs)) @ ''}''"

definition dumps_canonical :: "json \<Rightarrow> string" where
  "dumps_canonical j = render (sort_keys j)"

text \<open>\<open>sha\<close> is \<^verbatim>\<open>hashlib.sha256(...).hexdigest()\<close>, a parameter.\<close>

definition stable_hash :: "(string \<Rightarrow> string) \<Rightarrow> json \<Rightarrow> string" where
  "stable_hash sha payload = sha (dumps_canonical payload)"

section \<open>Reads and updates of payload dictionaries\<close>

definition jget :: "json \<Rightarrow> string \<Rightarrow> json option" where
  "jget j k = (case j of JObj kvs \<Rightarrow> dget kvs k | _ \<Rightarrow> None)"

definition jfield :: "json \<Rightarrow> string \<Rightarrow> json outcome" where
  "jfield j k =
     (case j of
        JObj kvs \<Rightarrow> (case dget kvs k of None \<Rightarrow> Inl (KeyError k) | Some v \<Rightarrow> Inr v)
      | _ \<Rightarrow> Inl (TypeError ''object is not subscriptable''))"

text \<open>Truth value of a JSON value, as \<^verbatim>\<open>if x\<close> and \<^verbatim>\<open>x or y\<close> read it.\<close>

fun truthy :: "json \<Rightarrow> bool" where
  "truthy JNull = False"
| "truthy (JBool b) = b"
| "truthy (JInt i) = (i \<noteq> 0)"
| "truthy (JStr s) = (s \<noteq> [])"
| "truthy (JList js) = (js \<noteq> [])"
| "truthy (JObj kvs) = (kvs \<noteq> [])"

definition opt_str :: "string option \<Rightarrow> json" where
  "opt_str s = (case s of None \<Rightarrow> JNull | Some t \<Rightarrow> JStr t)"

text \<open>\<^verbatim>\<open>{**a, **b}\<close>\<close>

definition obj_merge :: "(string \<times> json) list \<Rightarrow> (string \<times> json) list \<Rightarrow> (string \<times> json) list" where
  "obj_merge a b = fold (\<lambda>(k, v) d. dset k v d) b a"

lemma jget_JObj [simp]: "jget (JObj kvs) k = dget kvs k"
  by (simp add: jget_def)

lemma jfield_JObj [simp]:
  "jfield (JObj kvs) k = (case dget kvs k of None \<Rightarrow> Inl (KeyError k) | Some v \<Rightarrow> Inr v)"
  by (simp add: jfield_def)

lemma opt_str_inject [simp]: "opt_str a = opt_str b \<longleftrightarrow> a = b"
  by (cases a; cases b) (simp_all add: opt_str_def)

lemma dget_obj_merge:
  "dict_ok b \<Longrightarrow> dget (obj_merge a b) k = (case dget b k of None \<Rightarrow> dget a k | Some v \<Rightarrow> Some v)"
proof (induction b arbitrary: a)
  case (Cons kv b)
  obtain j w where kv: "kv = (j, w)" by (cases kv)
  have ok: "dict_ok b" and new: "dget b j = None"
    using Cons.prems by (auto simp: dict_ok_def kv map_of_eq_None_iff)
  have "obj_merge a (kv # b) = obj_merge (dset j w a) b"
    by (simp add: obj_merge_def kv)
  then show ?case using Cons.IH [OF ok, of "dset j w a"] new
    by (auto simp: kv split: option.splits)
qed (simp add: obj_merge_def)

section \<open>The rendering does not depend on the order of insertion\<close>

lemma sort_key_fst_mset:
  assumes "mset xs = mset ys" and "distinct (map fst xs)"
  shows "sort_key fst xs = sort_key fst (ys :: (string \<times> 'a) list)"
proof (rule sort_key_inj_key_eq)
  show "mset xs = mset (sort_key fst ys)" using assms(1) by simp
  show "inj_on fst (set xs)" using assms(2) by (simp add: distinct_map)
  show "sorted (map fst (sort_key fst ys))" by simp
qed

lemma map_fst_map_prod_id [simp]: "map fst (map (map_prod id f) xs) = map fst xs"
  by (induction xs) auto

text \<open>The canonical text of a dictionary, and so every receipt hash and idempotency key taken
  of it, depends on which keys map to which values and not on the order in which the keys were
  inserted.\<close>

theorem stable_hash_order_independent:
  assumes "mset kvs = mset kvs'" and "distinct (map fst kvs)"
  shows "stable_hash sha (JObj kvs) = stable_hash sha (JObj kvs')"
proof -
  let ?f = "map (map_prod id sort_keys)"
  have "mset (?f kvs) = mset (?f kvs')" using assms(1) by simp
  moreover have "distinct (map fst (?f kvs))" using assms(2) by simp
  ultimately have "sort_key fst (?f kvs) = sort_key fst (?f kvs')"
    by (rule sort_key_fst_mset)
  then show ?thesis by (simp add: stable_hash_def dumps_canonical_def)
qed

theorem stable_hash_order_independent_witness:
  "stable_hash (\<lambda>s. s) (JObj [(''b'', JInt 2), (''a'', JStr ''x'')]) =
   stable_hash (\<lambda>s. s) (JObj [(''a'', JStr ''x''), (''b'', JInt 2)])"
  by (rule stable_hash_order_independent) simp_all

end
