(* ===== verification/Money.thy ===== *)
theory Money
  imports Prelude
begin

text \<open>
  Decimal money. \<^verbatim>\<open>money()\<close> quantizes to two decimals under the default decimal context (precision
  28, half-even rounding), so an amount that passed \<^verbatim>\<open>money()\<close> is a whole number of cents and is
  modelled as an \<open>int\<close>. A raw argument (\<^verbatim>\<open>Decimal | str | int | float\<close>) is the finite number it
  denotes, a rational. Sums and differences of amounts are exact in the context as long as they
  have at most 28 digits; the quotient and the product of the pro-rata split are rounded to 28
  significant digits, which \<open>dec28\<close> does.
\<close>

type_synonym cents = int

section \<open>Half-even rounding\<close>

definition round_half_even :: "rat \<Rightarrow> int" where
  "round_half_even x =
     (let f = \<lfloor>x\<rfloor>; r = x - of_int f in
      if r < 1/2 then f else if r > 1/2 then f + 1 else if even f then f else f + 1)"

lemma round_half_even_of_int [simp]: "round_half_even (of_int n) = n"
  by (simp add: round_half_even_def)

lemma round_half_even_error: "\<bar>of_int (round_half_even x) - x\<bar> \<le> 1/2"
proof -
  have "of_int \<lfloor>x\<rfloor> \<le> x" "x < of_int \<lfloor>x\<rfloor> + 1" by linarith+
  then show ?thesis by (auto simp: round_half_even_def Let_def abs_le_iff)
qed

lemma round_half_even_bounds:
  "of_int (round_half_even x) \<le> x + 1/2" "x - 1/2 \<le> of_int (round_half_even x)"
  using round_half_even_error [of x] by linarith+

lemma round_half_even_nonneg: "0 \<le> x \<Longrightarrow> 0 \<le> round_half_even x"
proof -
  assume "0 \<le> x"
  then have "(-1::rat) < of_int (round_half_even x)"
    using round_half_even_bounds(2) [of x] by linarith
  then show ?thesis by linarith
qed

section \<open>Quantizing to cents\<close>

text \<open>\<^verbatim>\<open>quantize\<close> raises when the result has more digits than the precision.\<close>

definition quantize_cents :: "int \<Rightarrow> cents outcome" where
  "quantize_cents n = (if \<bar>n\<bar> < 10 ^ 28 then Inr n else Inl InvalidOperation)"

definition money :: "rat \<Rightarrow> cents outcome" where
  "money value = quantize_cents (round_half_even (value * 100))"

text \<open>The text of a two-decimal \<^verbatim>\<open>Decimal\<close>.\<close>

definition two_digits :: "nat \<Rightarrow> string" where
  "two_digits n = [digit_char (n div 10), digit_char n]"

definition money_str :: "cents \<Rightarrow> string" where
  "money_str c =
     (if c < 0 then ''-'' else '''') @ str_of_nat (nat \<bar>c\<bar> div 100) @ ''.'' @ two_digits (nat \<bar>c\<bar> mod 100)"

lemma quantize_cents_InrD: "quantize_cents n = Inr c \<Longrightarrow> c = n \<and> \<bar>c\<bar> < 10 ^ 28"
  by (auto simp: quantize_cents_def split: if_splits)

lemma money_error_bound:
  assumes "money x = Inr c"
  shows "\<bar>of_int c / 100 - x\<bar> \<le> 1 / 200"
proof -
  have "c = round_half_even (x * 100)"
    using assms by (auto simp: money_def dest: quantize_cents_InrD)
  then have "\<bar>of_int c - x * 100\<bar> \<le> 1/2"
    using round_half_even_error by simp
  then show ?thesis by linarith
qed

lemma money_of_cents: "\<bar>c\<bar> < 10 ^ 28 \<Longrightarrow> money (of_int c / 100) = Inr c"
  by (simp add: money_def quantize_cents_def)

section \<open>Arithmetic in the 28-digit context\<close>

fun ndigits :: "nat \<Rightarrow> nat" where
  "ndigits n = (if n < 10 then 1 else Suc (ndigits (n div 10)))"

declare ndigits.simps [simp del]

definition pow10 :: "int \<Rightarrow> rat" where
  "pow10 k = (if 0 \<le> k then 10 ^ nat k else 1 / 10 ^ nat (- k))"

text \<open>The exponent of the leading decimal digit of a positive rational.\<close>

definition lead_exp :: "rat \<Rightarrow> int" where
  "lead_exp x =
     (let (p, q) = quotient_of x; k = int (ndigits (nat p)) - int (ndigits (nat q))
      in if pow10 k \<le> x then k else k - 1)"

definition dec28 :: "rat \<Rightarrow> rat" where
  "dec28 x =
     (if x = 0 then 0
      else let u = pow10 (lead_exp \<bar>x\<bar> - 27) in of_int (round_half_even (x / u)) * u)"

lemma pow10_pos [simp]: "0 < pow10 k"
  by (simp add: pow10_def)

lemma dec28_nonneg: "0 \<le> x \<Longrightarrow> 0 \<le> dec28 x"
  by (auto simp: dec28_def Let_def intro!: mult_nonneg_nonneg round_half_even_nonneg
      divide_nonneg_pos less_imp_le [OF pow10_pos])

end
