(* ===== verification/Domain_Types.thy ===== *)
theory Domain_Types
  imports Json Money
begin

text \<open>
  The domain types of \<^verbatim>\<open>src/src/impact_relay/domain/types.py\<close>: enumerations as datatypes with the
  source's members, frozen dataclasses as records. Every \<^verbatim>\<open>Decimal\<close> field that the dataclass
  quantizes in \<^verbatim>\<open>__post_init__\<close> is a number of cents. The \<open>_value\<close> functions give the text of an
  enumeration member, and the \<open>to_dict\<close> functions the publish-time snapshot of a receipt.
\<close>

section \<open>Enumerations of the use-of-funds ledger\<close>

datatype restriction_type =
  UNRESTRICTED | BOARD_DESIGNATED | DONOR_DESIGNATED | DONOR_RESTRICTED | GRANT_RESTRICTED
  | SPONSOR_RESTRICTED | IN_KIND

datatype expense_state =
  DRAFT | IMPORTED | CLASSIFICATION_PENDING | APPROVAL_PENDING | APPROVED | RECONCILED
  | REJECTED | REVERSED | SUPERSEDED

datatype attribution_method =
  DIRECT_RESTRICTED | PRO_RATA_POOL | FIFO_ALLOCATION | COHORT_ALLOCATION | ASSET_SPONSORSHIP
  | EXPENSE_BACKED | MANUAL_APPROVED | NO_METHOD

fun restriction_value :: "restriction_type \<Rightarrow> string" where
  "restriction_value UNRESTRICTED = ''UNRESTRICTED''"
| "restriction_value BOARD_DESIGNATED = ''BOARD_DESIGNATED''"
| "restriction_value DONOR_DESIGNATED = ''DONOR_DESIGNATED''"
| "restriction_value DONOR_RESTRICTED = ''DONOR_RESTRICTED''"
| "restriction_value GRANT_RESTRICTED = ''GRANT_RESTRICTED''"
| "restriction_value SPONSOR_RESTRICTED = ''SPONSOR_RESTRICTED''"
| "restriction_value IN_KIND = ''IN_KIND''"

fun expense_state_value :: "expense_state \<Rightarrow> string" where
  "expense_state_value DRAFT = ''DRAFT''"
| "expense_state_value IMPORTED = ''IMPORTED''"
| "expense_state_value CLASSIFICATION_PENDING = ''CLASSIFICATION_PENDING''"
| "expense_state_value APPROVAL_PENDING = ''APPROVAL_PENDING''"
| "expense_state_value APPROVED = ''APPROVED''"
| "expense_state_value RECONCILED = ''RECONCILED''"
| "expense_state_value REJECTED = ''REJECTED''"
| "expense_state_value REVERSED = ''REVERSED''"
| "expense_state_value SUPERSEDED = ''SUPERSEDED''"

fun method_value :: "attribution_method \<Rightarrow> string" where
  "method_value DIRECT_RESTRICTED = ''DIRECT_RESTRICTED''"
| "method_value PRO_RATA_POOL = ''PRO_RATA_POOL''"
| "method_value FIFO_ALLOCATION = ''FIFO_ALLOCATION''"
| "method_value COHORT_ALLOCATION = ''COHORT_ALLOCATION''"
| "method_value ASSET_SPONSORSHIP = ''ASSET_SPONSORSHIP''"
| "method_value EXPENSE_BACKED = ''EXPENSE_BACKED''"
| "method_value MANUAL_APPROVED = ''MANUAL_APPROVED''"
| "method_value NO_METHOD = ''NONE''"

definition allowed_attribution_methods :: "attribution_method list" where
  "allowed_attribution_methods =
     [DIRECT_RESTRICTED, PRO_RATA_POOL, FIFO_ALLOCATION, COHORT_ALLOCATION, ASSET_SPONSORSHIP,
      EXPENSE_BACKED, MANUAL_APPROVED]"

definition verified_state :: "expense_state \<Rightarrow> bool" where
  "verified_state s = (s \<in> {APPROVED, RECONCILED})"

definition corrected_state :: "expense_state \<Rightarrow> bool" where
  "corrected_state s = (s \<in> {REVERSED, SUPERSEDED})"

lemma allowed_methods_iff: "m \<in> set allowed_attribution_methods \<longleftrightarrow> m \<noteq> NO_METHOD"
  by (cases m) (simp_all add: allowed_attribution_methods_def)

lemma verified_not_corrected: "verified_state s \<Longrightarrow> \<not> corrected_state s"
  by (auto simp: verified_state_def corrected_state_def)

lemma verified_state_simps [simp]:
  "verified_state APPROVED" "verified_state RECONCILED"
  "\<not> verified_state REVERSED" "\<not> verified_state SUPERSEDED" "\<not> verified_state REJECTED"
  "\<not> verified_state DRAFT" "\<not> verified_state IMPORTED" "\<not> verified_state APPROVAL_PENDING"
  "\<not> verified_state CLASSIFICATION_PENDING"
  by (simp_all add: verified_state_def)

lemma corrected_state_simps [simp]:
  "corrected_state REVERSED" "corrected_state SUPERSEDED"
  "\<not> corrected_state APPROVED" "\<not> corrected_state RECONCILED" "\<not> corrected_state REJECTED"
  "\<not> corrected_state DRAFT" "\<not> corrected_state IMPORTED" "\<not> corrected_state APPROVAL_PENDING"
  "\<not> corrected_state CLASSIFICATION_PENDING"
  by (simp_all add: corrected_state_def)

section \<open>Entities of the use-of-funds ledger\<close>

record organization =
  org_id :: string
  org_name :: string
  org_policy_version :: string

record donor =
  donor_id :: string
  donor_org :: string
  donor_display_name :: string

record donation =
  don_id :: string
  don_org :: string
  don_donor :: string
  don_amount :: cents
  don_currency :: string
  don_cleared :: bool
  don_external :: string
  don_received_at :: string

record allocation =
  alloc_id :: string
  alloc_org :: string
  alloc_name :: string
  alloc_purpose :: string
  alloc_restriction :: restriction_type

record donation_allocation =
  da_id :: string
  da_donation :: string
  da_allocation :: string
  da_amount :: cents

record expense =
  exp_id :: string
  exp_org :: string
  exp_vendor :: string
  exp_amount :: cents
  exp_currency :: string
  exp_purchase_date :: string
  exp_category :: string
  exp_description :: string
  exp_state :: expense_state
  exp_external :: "string option"
  exp_approved_by :: "string option"
  exp_reconciled_at :: "string option"
  exp_reversed_of :: "string option"
  exp_supersedes :: "string option"
  exp_history_note :: "string option"

record expense_allocation =
  ea_id :: string
  ea_expense :: string
  ea_allocation :: string
  ea_amount :: cents

record evidence_record =
  ev_id :: string
  ev_expense :: string
  ev_kind :: string
  ev_summary :: string
  ev_donor_visible :: bool

record donor_expense_attribution =
  at_id :: string
  at_donor :: string
  at_donation :: string
  at_expense :: string
  at_allocation :: string
  at_amount :: cents
  at_method :: attribution_method
  at_policy_version :: string
  at_confidence :: string

record audit_receipt =
  au_id :: string
  au_org :: string
  au_event_type :: string
  au_entity_type :: string
  au_entity_id :: string
  au_actor :: string
  au_timestamp :: string
  au_payload :: json
  au_policy_version :: string
  au_hash :: string

record use_of_funds_receipt =
  r_id :: string
  r_type :: string
  r_org :: string
  r_org_name :: string
  r_donation :: string
  r_donor :: string
  r_allocation :: string
  r_allocation_name :: string
  r_restriction :: string
  r_expense :: string
  r_vendor :: string
  r_gross :: cents
  r_attributed :: cents
  r_purchase_date :: string
  r_category :: string
  r_description :: string
  r_verification :: string
  r_remaining :: cents
  r_method :: string
  r_policy_version :: string
  r_approved_by :: "string option"
  r_currency :: string
  r_hash :: string
  r_created_at :: string
  r_corrected :: bool
  r_corrects :: "string option"
  r_correction_kind :: "string option"
  r_evidence_summary :: "string option"
  r_provenance :: "(string \<times> json) list"

definition uof_to_dict :: "use_of_funds_receipt \<Rightarrow> json" where
  "uof_to_dict r = JObj
     [(''receipt_id'', JStr (r_id r)),
      (''type'', JStr (r_type r)),
      (''organization'', JObj [(''id'', JStr (r_org r)), (''name'', JStr (r_org_name r))]),
      (''donation_reference'', JStr (r_donation r)),
      (''donor_id'', JStr (r_donor r)),
      (''allocation'', JObj
        [(''id'', JStr (r_allocation r)),
         (''name'', JStr (r_allocation_name r)),
         (''restriction_type'', JStr (r_restriction r))]),
      (''expenditure'', JObj
        [(''expense_id'', JStr (r_expense r)),
         (''vendor'', JStr (r_vendor r)),
         (''gross_amount'', JStr (money_str (r_gross r))),
         (''attributed_amount'', JStr (money_str (r_attributed r))),
         (''purchase_date'', JStr (r_purchase_date r)),
         (''category'', JStr (r_category r)),
         (''description'', JStr (r_description r)),
         (''verification_state'', JStr (r_verification r)),
         (''currency'', JStr (r_currency r))]),
      (''remaining_designated_balance'', JStr (money_str (r_remaining r))),
      (''attribution'', JObj
        [(''method'', JStr (r_method r)), (''policy_version'', JStr (r_policy_version r))]),
      (''corrected'', JBool (r_corrected r)),
      (''corrects_receipt_id'', opt_str (r_corrects r)),
      (''correction_kind'', opt_str (r_correction_kind r)),
      (''evidence_summary'', opt_str (r_evidence_summary r)),
      (''provenance'', JObj (obj_merge (r_provenance r)
        [(''approved_by'', opt_str (r_approved_by r)),
         (''receipt_hash'', JStr (r_hash r)),
         (''created_at'', JStr (r_created_at r))]))]"

text \<open>
  \<^verbatim>\<open>with_expense_state(expense, state, **kwargs)\<close>: the keyword arguments are record updates the
  callers apply to the result.
\<close>

definition with_expense_state :: "expense \<Rightarrow> expense_state \<Rightarrow> expense" where
  "with_expense_state e s = e\<lparr>exp_state := s\<rparr>"

section \<open>Impact\<close>

datatype impact_event_state = IE_DRAFT | IE_SUBMITTED | IE_VERIFIED | IE_REJECTED

datatype asset_lifecycle = PROCURED | DEPLOYED | RETIRED

fun impact_state_value :: "impact_event_state \<Rightarrow> string" where
  "impact_state_value IE_DRAFT = ''DRAFT''"
| "impact_state_value IE_SUBMITTED = ''SUBMITTED''"
| "impact_state_value IE_VERIFIED = ''VERIFIED''"
| "impact_state_value IE_REJECTED = ''REJECTED''"

record program =
  prog_id :: string
  prog_org :: string
  prog_name :: string
  prog_active :: bool

record funded_asset =
  asset_id :: string
  asset_org :: string
  asset_name :: string
  asset_expense :: string
  asset_allocation :: string
  asset_lifecycle :: asset_lifecycle

record impact_event =
  ie_id :: string
  ie_org :: string
  ie_program :: string
  ie_event_type :: string
  ie_event_date :: string
  ie_participants :: int
  ie_state :: impact_event_state
  ie_assets :: "string list"
  ie_expenses :: "string list"
  ie_description :: string
  ie_verified_by :: "string option"
  ie_verified_at :: "string option"

record impact_receipt =
  ir_id :: string
  ir_type :: string
  ir_org :: string
  ir_org_name :: string
  ir_donor :: string
  ir_donation :: string
  ir_allocation :: string
  ir_allocation_name :: string
  ir_event :: string
  ir_program :: string
  ir_program_name :: string
  ir_event_type :: string
  ir_event_date :: string
  ir_participants :: int
  ir_evidence_state :: string
  ir_linked_expenses :: "string list"
  ir_method :: string
  ir_policy_version :: string
  ir_hash :: string
  ir_created_at :: string
  ir_description :: string
  ir_provenance :: "(string \<times> json) list"

definition impact_to_dict :: "impact_receipt \<Rightarrow> json" where
  "impact_to_dict r = JObj
     [(''receipt_id'', JStr (ir_id r)),
      (''type'', JStr (ir_type r)),
      (''organization'', JObj [(''id'', JStr (ir_org r)), (''name'', JStr (ir_org_name r))]),
      (''donor_id'', JStr (ir_donor r)),
      (''donation_id'', JStr (ir_donation r)),
      (''allocation'', JObj
        [(''id'', JStr (ir_allocation r)), (''name'', JStr (ir_allocation_name r))]),
      (''impact'', JObj
        [(''event_id'', JStr (ir_event r)),
         (''program_id'', JStr (ir_program r)),
         (''program_name'', JStr (ir_program_name r)),
         (''event_type'', JStr (ir_event_type r)),
         (''event_date'', JStr (ir_event_date r)),
         (''participants'', JInt (ir_participants r)),
         (''evidence_state'', JStr (ir_evidence_state r)),
         (''description'', JStr (ir_description r)),
         (''linked_expense_ids'', JList (map JStr (ir_linked_expenses r)))]),
      (''attribution'', JObj
        [(''method'', JStr (ir_method r)), (''policy_version'', JStr (ir_policy_version r))]),
      (''provenance'', JObj (obj_merge (ir_provenance r)
        [(''receipt_hash'', JStr (ir_hash r)), (''created_at'', JStr (ir_created_at r))]))]"

section \<open>Notifications\<close>

datatype notification_channel = PUSH | EMAIL | SMS

datatype message_class = MONEY_USED | IMPACT_OCCURRED | CORRECTION | DIGEST

datatype intent_status =
  NI_CREATED | NI_BLOCKED_NO_CONSENT | NI_BLOCKED_PREFERENCE | NI_DEFERRED_QUIET_HOURS
  | NI_DELIVERED | NI_FAILED | NI_SUPERSEDED | NI_PERMANENT_FAILURE

fun channel_value :: "notification_channel \<Rightarrow> string" where
  "channel_value PUSH = ''PUSH''"
| "channel_value EMAIL = ''EMAIL''"
| "channel_value SMS = ''SMS''"

fun class_value :: "message_class \<Rightarrow> string" where
  "class_value MONEY_USED = ''MONEY_USED''"
| "class_value IMPACT_OCCURRED = ''IMPACT_OCCURRED''"
| "class_value CORRECTION = ''CORRECTION''"
| "class_value DIGEST = ''DIGEST''"

fun intent_status_value :: "intent_status \<Rightarrow> string" where
  "intent_status_value NI_CREATED = ''CREATED''"
| "intent_status_value NI_BLOCKED_NO_CONSENT = ''BLOCKED_NO_CONSENT''"
| "intent_status_value NI_BLOCKED_PREFERENCE = ''BLOCKED_PREFERENCE''"
| "intent_status_value NI_DEFERRED_QUIET_HOURS = ''DEFERRED_QUIET_HOURS''"
| "intent_status_value NI_DELIVERED = ''DELIVERED''"
| "intent_status_value NI_FAILED = ''FAILED''"
| "intent_status_value NI_SUPERSEDED = ''SUPERSEDED''"
| "intent_status_value NI_PERMANENT_FAILURE = ''PERMANENT_FAILURE''"

lemma channel_value_inject [simp]: "channel_value a = channel_value b \<longleftrightarrow> a = b"
  by (cases a; cases b) simp_all

record notification_preference =
  pref_donor :: string
  pref_org :: string
  pref_channel :: notification_channel
  pref_enabled :: bool
  pref_topics :: "string list"
  pref_cadence :: string
  pref_quiet_start :: "string option"
  pref_quiet_end :: "string option"

record consent_record =
  con_donor :: string
  con_org :: string
  con_channel :: notification_channel
  con_granted :: bool
  con_provenance :: string
  con_recorded_at :: string

record notification_intent =
  ni_id :: string
  ni_org :: string
  ni_donor :: string
  ni_channel :: notification_channel
  ni_class :: message_class
  ni_source_type :: string
  ni_source_id :: string
  ni_dedup :: string
  ni_policy_version :: string
  ni_status :: intent_status
  ni_template_version :: string
  ni_payload :: "(string \<times> json) list"
  ni_created_at :: string

record notification_delivery =
  nd_id :: string
  nd_intent :: string
  nd_org :: string
  nd_donor :: string
  nd_channel :: notification_channel
  nd_success :: bool
  nd_provider :: string
  nd_provider_receipt :: string
  nd_attempted_at :: string
  nd_detail :: string

end
