(* ===== verification/Ledger.thy ===== *)
theory Ledger
  imports Domain_Types
begin

text \<open>
  The in-memory ledger of \<^verbatim>\<open>src/src/impact_relay/domain/ledger.py\<close>: its stores as a record, every
  mutation and every balance helper as a function. A mutation takes the ledger and returns the
  outcome with the ledger reached, so that what an exception leaves behind is part of the model.

  Random identifiers, the clock and the digest come from the environment \<open>env\<close>: the n-th
  \<^verbatim>\<open>uuid.uuid4().hex[:12]\<close>, the n-th \<^verbatim>\<open>_now_iso()\<close> and SHA-256. The ledger record counts the draws and
  the clock reads made so far.
\<close>

section \<open>Environment and state\<close>

record env =
  uuid4_hex :: "nat \<Rightarrow> string"
  now_iso :: "nat \<Rightarrow> string"
  sha256_hex :: "string \<Rightarrow> string"

record ledger =
  organization :: organization
  donors :: "(string, donor) dict"
  donations :: "(string, donation) dict"
  allocations :: "(string, allocation) dict"
  donation_allocations :: "(string, donation_allocation) dict"
  expenses :: "(string, expense) dict"
  expense_allocations :: "(string, expense_allocation) dict"
  evidence :: "(string, evidence_record) dict"
  attributions :: "(string, donor_expense_attribution) dict"
  receipts :: "(string, use_of_funds_receipt) dict"
  receipt_snapshots :: "(string, json) dict"
  audit_log :: "audit_receipt list"
  expense_receipts :: "(string, string list) dict"
  uuid_draws :: nat
  clock_reads :: nat

definition empty_ledger :: "organization \<Rightarrow> ledger" where
  "empty_ledger org =
     \<lparr>organization = org, donors = [], donations = [], allocations = [], donation_allocations = [],
      expenses = [], expense_allocations = [], evidence = [], attributions = [], receipts = [],
      receipt_snapshots = [], audit_log = [], expense_receipts = [], uuid_draws = 0, clock_reads = 0\<rparr>"

definition fresh_name :: "env \<Rightarrow> string \<Rightarrow> nat \<Rightarrow> string" where
  "fresh_name E prefix n = prefix @ ''_'' @ uuid4_hex E n"

definition new_id :: "env \<Rightarrow> string \<Rightarrow> ledger \<Rightarrow> string \<times> ledger" where
  "new_id E prefix L = (fresh_name E prefix (uuid_draws L), L\<lparr>uuid_draws := Suc (uuid_draws L)\<rparr>)"

definition read_clock :: "env \<Rightarrow> ledger \<Rightarrow> string \<times> ledger" where
  "read_clock E L = (now_iso E (clock_reads L), L\<lparr>clock_reads := Suc (clock_reads L)\<rparr>)"

text \<open>\<^verbatim>\<open>given or _new_id(prefix)\<close> and \<^verbatim>\<open>given or _now_iso()\<close>\<close>

definition id_or_new :: "env \<Rightarrow> string option \<Rightarrow> string \<Rightarrow> ledger \<Rightarrow> string \<times> ledger" where
  "id_or_new E given prefix L = (if present given then (the given, L) else new_id E prefix L)"

definition time_or_now :: "env \<Rightarrow> string option \<Rightarrow> ledger \<Rightarrow> string \<times> ledger" where
  "time_or_now E given L = (if present given then (the given, L) else read_clock E L)"

definition audit :: "env \<Rightarrow> string \<Rightarrow> string \<Rightarrow> string \<Rightarrow> string \<Rightarrow> json \<Rightarrow> ledger \<Rightarrow> ledger" where
  "audit E event_type entity_type entity_id actor payload L =
     (let ts = now_iso E (clock_reads L);
          body = JObj
            [(''event_type'', JStr event_type), (''entity_type'', JStr entity_type),
             (''entity_id'', JStr entity_id), (''actor'', JStr actor), (''timestamp'', JStr ts),
             (''payload'', payload),
             (''policy_version'', JStr (org_policy_version (organization L)))];
          ar = \<lparr>au_id = fresh_name E ''audit'' (uuid_draws L), au_org = org_id (organization L),
                au_event_type = event_type, au_entity_type = entity_type, au_entity_id = entity_id,
                au_actor = actor, au_timestamp = ts, au_payload = payload,
                au_policy_version = org_policy_version (organization L),
                au_hash = stable_hash (sha256_hex E) body\<rparr>
      in L\<lparr>audit_log := audit_log L @ [ar],
           uuid_draws := Suc (uuid_draws L), clock_reads := Suc (clock_reads L)\<rparr>)"

section \<open>Lookups and balance helpers\<close>

definition require_donation :: "ledger \<Rightarrow> string \<Rightarrow> donation outcome" where
  "require_donation L i =
     (case dget (donations L) i of
        None \<Rightarrow> Inl (NotFoundError (''donation not found: '' @ i)) | Some d \<Rightarrow> Inr d)"

definition require_expense :: "ledger \<Rightarrow> string \<Rightarrow> expense outcome" where
  "require_expense L i =
     (case dget (expenses L) i of
        None \<Rightarrow> Inl (NotFoundError (''expense not found: '' @ i)) | Some e \<Rightarrow> Inr e)"

definition require_allocation :: "ledger \<Rightarrow> string \<Rightarrow> allocation outcome" where
  "require_allocation L i =
     (case dget (allocations L) i of
        None \<Rightarrow> Inl (NotFoundError (''allocation not found: '' @ i)) | Some a \<Rightarrow> Inr a)"

definition expense_verified :: "ledger \<Rightarrow> string \<Rightarrow> bool" where
  "expense_verified L i =
     (case dget (expenses L) i of None \<Rightarrow> False | Some e \<Rightarrow> verified_state (exp_state e))"

definition pool_inflows :: "ledger \<Rightarrow> string \<Rightarrow> cents" where
  "pool_inflows L a = sum_where (\<lambda>da. da_allocation da = a) da_amount (donation_allocations L)"

definition pool_outflows :: "ledger \<Rightarrow> string \<Rightarrow> cents" where
  "pool_outflows L a =
     sum_where (\<lambda>ea. ea_allocation ea = a \<and> expense_verified L (ea_expense ea)) ea_amount
       (expense_allocations L)"

definition allocation_remaining_balance :: "ledger \<Rightarrow> string \<Rightarrow> cents outcome" where
  "allocation_remaining_balance L a =
     (if \<not> dhas (allocations L) a then Inl (NotFoundError (''allocation not found: '' @ a))
      else quantize_cents (pool_inflows L a - pool_outflows L a))"

definition donor_designated :: "ledger \<Rightarrow> string \<Rightarrow> string \<Rightarrow> cents" where
  "donor_designated L d a =
     sum_where (\<lambda>da. da_donation da = d \<and> da_allocation da = a) da_amount (donation_allocations L)"

definition donor_consumed :: "ledger \<Rightarrow> string \<Rightarrow> string \<Rightarrow> cents" where
  "donor_consumed L d a =
     sum_where (\<lambda>t. at_donation t = d \<and> at_allocation t = a \<and> expense_verified L (at_expense t))
       at_amount (attributions L)"

definition donor_remaining_on_allocation :: "ledger \<Rightarrow> string \<Rightarrow> string \<Rightarrow> cents outcome" where
  "donor_remaining_on_allocation L d a = quantize_cents (donor_designated L d a - donor_consumed L d a)"

definition sum_donation_allocations :: "ledger \<Rightarrow> string \<Rightarrow> cents" where
  "sum_donation_allocations L d =
     sum_where (\<lambda>da. da_donation da = d) da_amount (donation_allocations L)"

definition sum_pending_expense_allocations :: "ledger \<Rightarrow> string \<Rightarrow> string option \<Rightarrow> cents" where
  "sum_pending_expense_allocations L a exclude =
     sum_where
       (\<lambda>ea. ea_allocation ea = a \<and> \<not> (present exclude \<and> Some (ea_expense ea) = exclude) \<and>
          (case dget (expenses L) (ea_expense ea) of
             None \<Rightarrow> False
           | Some e \<Rightarrow> \<not> (verified_state (exp_state e) \<or> corrected_state (exp_state e)) \<and>
                exp_state e \<noteq> REJECTED))
       ea_amount (expense_allocations L)"

definition expense_allocations_for :: "ledger \<Rightarrow> string \<Rightarrow> expense_allocation list" where
  "expense_allocations_for L i = filter (\<lambda>ea. ea_expense ea = i) (dvalues (expense_allocations L))"

definition find_attribution ::
  "ledger \<Rightarrow> string \<Rightarrow> string \<Rightarrow> string \<Rightarrow> donor_expense_attribution option" where
  "find_attribution L d e a =
     find (\<lambda>t. at_donation t = d \<and> at_expense t = e \<and> at_allocation t = a) (dvalues (attributions L))"

text \<open>An expense whose attributions count against the donor: neither corrected nor rejected.\<close>

definition expense_active :: "ledger \<Rightarrow> string \<Rightarrow> bool" where
  "expense_active L i =
     (case dget (expenses L) i of
        None \<Rightarrow> False
      | Some e \<Rightarrow> \<not> corrected_state (exp_state e) \<and> exp_state e \<noteq> REJECTED)"

definition active_attribution_total :: "ledger \<Rightarrow> string \<Rightarrow> string \<Rightarrow> string option \<Rightarrow> cents" where
  "active_attribution_total L d a exclude =
     sum_where
       (\<lambda>t. at_donation t = d \<and> at_allocation t = a \<and> Some (at_expense t) \<noteq> exclude \<and>
          expense_active L (at_expense t))
       at_amount (attributions L)"

definition live_for :: "string \<Rightarrow> string \<Rightarrow> string \<Rightarrow> use_of_funds_receipt \<Rightarrow> bool" where
  "live_for d e a r \<longleftrightarrow> \<not> r_corrected r \<and> r_donation r = d \<and> r_expense r = e \<and> r_allocation r = a"

definition find_live_receipt ::
  "ledger \<Rightarrow> string \<Rightarrow> string \<Rightarrow> string \<Rightarrow> use_of_funds_receipt option" where
  "find_live_receipt L d e a = find (live_for d e a) (dvalues (receipts L))"

definition donor_visible_evidence_summary :: "ledger \<Rightarrow> string \<Rightarrow> string option" where
  "donor_visible_evidence_summary L i =
     (let parts = map ev_summary
            (filter (\<lambda>v. ev_expense v = i \<and> ev_donor_visible v) (dvalues (evidence L)))
      in if parts = [] then None else Some (join_with ''; '' parts))"

section \<open>Registration and import\<close>

definition register_donor :: "env \<Rightarrow> donor \<Rightarrow> ledger \<Rightarrow> donor outcome \<times> ledger" where
  "register_donor E d L =
     (if donor_org d \<noteq> org_id (organization L)
      then (Inl (InvariantError ''donor organization_id mismatch''), L)
      else (Inr d,
        audit E ''DonorRegistered'' ''Donor'' (donor_id d) ''system''
          (JObj [(''donor_id'', JStr (donor_id d))])
          (L\<lparr>donors := dset (donor_id d) d (donors L)\<rparr>)))"

definition import_donation :: "env \<Rightarrow> donation \<Rightarrow> ledger \<Rightarrow> donation outcome \<times> ledger" where
  "import_donation E d L =
     (if don_org d \<noteq> org_id (organization L)
      then (Inl (InvariantError ''donation organization_id mismatch''), L)
      else if don_amount d \<le> 0
      then (Inl (InvariantError ''donation amount must be positive''), L)
      else if dhas (donations L) (don_id d)
      then (Inl (InvariantError (''donation already imported: '' @ don_id d)), L)
      else if \<not> dhas (donors L) (don_donor d)
      then (Inl (NotFoundError (''donor not found: '' @ don_donor d)), L)
      else (Inr d,
        audit E ''DonationImported'' ''Donation'' (don_id d) ''system''
          (JObj [(''amount'', JStr (money_str (don_amount d))), (''cleared'', JBool (don_cleared d)),
                 (''external_source_id'', JStr (don_external d))])
          (L\<lparr>donations := dset (don_id d) d (donations L)\<rparr>)))"

definition register_allocation :: "env \<Rightarrow> allocation \<Rightarrow> ledger \<Rightarrow> allocation outcome \<times> ledger" where
  "register_allocation E a L =
     (if alloc_org a \<noteq> org_id (organization L)
      then (Inl (InvariantError ''allocation organization_id mismatch''), L)
      else (Inr a,
        audit E ''AllocationRegistered'' ''Allocation'' (alloc_id a) ''system''
          (JObj [(''name'', JStr (alloc_name a))])
          (L\<lparr>allocations := dset (alloc_id a) a (allocations L)\<rparr>)))"

definition assign_donation_allocation ::
  "env \<Rightarrow> string \<Rightarrow> string \<Rightarrow> rat \<Rightarrow> string option \<Rightarrow> ledger \<Rightarrow> donation_allocation outcome \<times> ledger" where
  "assign_donation_allocation E donation_id allocation_id amount given L =
     (case require_donation L donation_id of
        Inl e \<Rightarrow> (Inl e, L)
      | Inr d \<Rightarrow>
          if \<not> dhas (allocations L) allocation_id
          then (Inl (NotFoundError (''allocation not found: '' @ allocation_id)), L)
          else if \<not> don_cleared d then (Inl (StateError ''cannot allocate uncleared donation''), L)
          else case money amount of
            Inl e \<Rightarrow> (Inl e, L)
          | Inr amt \<Rightarrow>
              if amt \<le> 0 then (Inl (InvariantError ''allocation amount must be positive''), L)
              else if sum_donation_allocations L donation_id + amt > don_amount d
              then (Inl (InvariantError (''donation allocations exceed cleared amount: '' @
                     money_str (sum_donation_allocations L donation_id + amt) @ '' > '' @
                     money_str (don_amount d))), L)
              else
                let (i, L1) = id_or_new E given ''da'' L;
                    da = \<lparr>da_id = i, da_donation = donation_id, da_allocation = allocation_id,
                          da_amount = amt\<rparr>
                in (Inr da,
                    audit E ''AllocationAssigned'' ''DonationAllocation'' i ''system''
                      (JObj [(''donation_id'', JStr donation_id),
                             (''allocation_id'', JStr allocation_id),
                             (''amount'', JStr (money_str amt))])
                      (L1\<lparr>donation_allocations := dset i da (donation_allocations L1)\<rparr>)))"

definition import_expense :: "env \<Rightarrow> expense \<Rightarrow> ledger \<Rightarrow> expense outcome \<times> ledger" where
  "import_expense E e L =
     (if exp_org e \<noteq> org_id (organization L)
      then (Inl (InvariantError ''expense organization_id mismatch''), L)
      else if exp_amount e \<le> 0
      then (Inl (InvariantError ''expense amount must be positive''), L)
      else if dhas (expenses L) (exp_id e)
      then (Inl (InvariantError (''expense already imported: '' @ exp_id e)), L)
      else if exp_state e \<noteq> DRAFT \<and> exp_state e \<noteq> IMPORTED
      then (Inl (StateError ''import only accepts DRAFT or IMPORTED state''), L)
      else (Inr e,
        audit E ''ExpenseImported'' ''Expense'' (exp_id e) ''system''
          (JObj [(''amount'', JStr (money_str (exp_amount e))),
                 (''state'', JStr (expense_state_value (exp_state e)))])
          (L\<lparr>expenses := dset (exp_id e) e (expenses L)\<rparr>)))"

definition attach_evidence :: "env \<Rightarrow> evidence_record \<Rightarrow> ledger \<Rightarrow> evidence_record outcome \<times> ledger" where
  "attach_evidence E v L =
     (if \<not> dhas (expenses L) (ev_expense v)
      then (Inl (NotFoundError (''expense not found: '' @ ev_expense v)), L)
      else (Inr v,
        audit E ''EvidenceAttached'' ''EvidenceRecord'' (ev_id v) ''system''
          (JObj [(''expense_id'', JStr (ev_expense v)), (''kind'', JStr (ev_kind v))])
          (L\<lparr>evidence := dset (ev_id v) v (evidence L)\<rparr>)))"

section \<open>Charging an expense to funds\<close>

text \<open>The step of both allocation calls that moves the expense along the pipeline.\<close>

definition to_approval_pending :: "string \<Rightarrow> expense \<Rightarrow> ledger \<Rightarrow> ledger" where
  "to_approval_pending expense_id e L =
     (if exp_state e \<in> {DRAFT, IMPORTED, CLASSIFICATION_PENDING}
      then L\<lparr>expenses := dset expense_id (with_expense_state e APPROVAL_PENDING) (expenses L)\<rparr>
      else L)"

definition allocate_expense ::
  "env \<Rightarrow> string \<Rightarrow> string \<Rightarrow> rat \<Rightarrow> string option \<Rightarrow> ledger \<Rightarrow> expense_allocation outcome \<times> ledger" where
  "allocate_expense E expense_id allocation_id amount given L =
     (case require_expense L expense_id of
        Inl e \<Rightarrow> (Inl e, L)
      | Inr e \<Rightarrow>
          if corrected_state (exp_state e)
          then (Inl (StateError ''cannot allocate a reversed or superseded expense''), L)
          else if verified_state (exp_state e)
          then (Inl (StateError ''cannot re-allocate an approved/reconciled expense''), L)
          else if \<not> dhas (allocations L) allocation_id
          then (Inl (NotFoundError (''allocation not found: '' @ allocation_id)), L)
          else case money amount of
            Inl x \<Rightarrow> (Inl x, L)
          | Inr amt \<Rightarrow>
              if amt \<le> 0 then (Inl (InvariantError ''expense allocation amount must be positive''), L)
              else case allocation_remaining_balance L allocation_id of
                Inl x \<Rightarrow> (Inl x, L)
              | Inr _ \<Rightarrow>
                let (i, L1) = id_or_new E given ''ea'' L;
                    ea = \<lparr>ea_id = i, ea_expense = expense_id, ea_allocation = allocation_id,
                          ea_amount = amt\<rparr>;
                    L2 = L1\<lparr>expense_allocations := dset i ea
                           (dfilter (\<lambda>v. ea_expense v \<noteq> expense_id) (expense_allocations L1))\<rparr>;
                    L3 = to_approval_pending expense_id e L2
                in (Inr ea,
                    audit E ''ExpenseAllocated'' ''ExpenseAllocation'' i ''system''
                      (JObj [(''expense_id'', JStr expense_id), (''allocation_id'', JStr allocation_id),
                             (''amount'', JStr (money_str amt))]) L3))"

text \<open>The validation loop over the raw splits: the parsed splits, or the first failure.\<close>

fun parse_splits :: "ledger \<Rightarrow> (string \<times> rat) list \<Rightarrow> (string \<times> cents) list outcome" where
  "parse_splits L [] = Inr []"
| "parse_splits L ((a, raw) # rest) =
     (if \<not> dhas (allocations L) a then Inl (NotFoundError (''allocation not found: '' @ a))
      else case money raw of
        Inl x \<Rightarrow> Inl x
      | Inr amt \<Rightarrow>
          if amt \<le> 0 then Inl (InvariantError ''expense allocation amount must be positive'')
          else case parse_splits L rest of Inl x \<Rightarrow> Inl x | Inr ps \<Rightarrow> Inr ((a, amt) # ps))"

text \<open>The storing loop: a new identifier and one expense allocation per split.\<close>

fun store_splits :: "env \<Rightarrow> string \<Rightarrow> (string \<times> cents) list \<Rightarrow> ledger \<Rightarrow> expense_allocation list \<times> ledger" where
  "store_splits E expense_id [] L = ([], L)"
| "store_splits E expense_id ((a, amt) # rest) L =
     (let (i, L1) = new_id E ''ea'' L;
          ea = \<lparr>ea_id = i, ea_expense = expense_id, ea_allocation = a, ea_amount = amt\<rparr>;
          (eas, L2) = store_splits E expense_id rest
            (L1\<lparr>expense_allocations := dset i ea (expense_allocations L1)\<rparr>)
      in (ea # eas, L2))"

definition allocate_expense_splits ::
  "env \<Rightarrow> string \<Rightarrow> (string \<times> rat) list \<Rightarrow> ledger \<Rightarrow> expense_allocation list outcome \<times> ledger" where
  "allocate_expense_splits E expense_id splits L =
     (case require_expense L expense_id of
        Inl e \<Rightarrow> (Inl e, L)
      | Inr e \<Rightarrow>
          if corrected_state (exp_state e)
          then (Inl (StateError ''cannot allocate a reversed or superseded expense''), L)
          else if verified_state (exp_state e)
          then (Inl (StateError ''cannot re-allocate an approved/reconciled expense''), L)
          else case parse_splits L splits of
            Inl x \<Rightarrow> (Inl x, L)
          | Inr parsed \<Rightarrow>
              let total = sum_list (map snd parsed) in
              if total \<noteq> exp_amount e
              then (Inl (InvariantError (''expense allocations must sum to expense amount: '' @
                     money_str total @ '' != '' @ money_str (exp_amount e))), L)
              else
                let (eas, L1) = store_splits E expense_id parsed
                      (L\<lparr>expense_allocations :=
                         dfilter (\<lambda>v. ea_expense v \<noteq> expense_id) (expense_allocations L)\<rparr>);
                    L2 = to_approval_pending expense_id e L1
                in (Inr eas,
                    audit E ''ExpenseAllocated'' ''Expense'' expense_id ''system''
                      (JObj [(''splits'', JList (map (\<lambda>(a, m). JList [JStr a, JStr (money_str m)]) parsed))])
                      L2))"

section \<open>Finance approval and reconciliation\<close>

text \<open>The per-fund balance check of an approval: the first failure, if any.\<close>

fun check_balances :: "ledger \<Rightarrow> expense_allocation list \<Rightarrow> unit outcome" where
  "check_balances L [] = Inr ()"
| "check_balances L (ea # rest) =
     (case allocation_remaining_balance L (ea_allocation ea) of
        Inl x \<Rightarrow> Inl x
      | Inr remaining \<Rightarrow>
          if remaining < ea_amount ea
          then Inl (InvariantError (''restricted allocation balance would go negative: allocation='' @
                 ea_allocation ea @ '' remaining='' @ money_str remaining @ '' charge='' @
                 money_str (ea_amount ea)))
          else check_balances L rest)"

definition approve_expense :: "env \<Rightarrow> string \<Rightarrow> string \<Rightarrow> ledger \<Rightarrow> expense outcome \<times> ledger" where
  "approve_expense E expense_id approved_by L =
     (case require_expense L expense_id of
        Inl e \<Rightarrow> (Inl e, L)
      | Inr e \<Rightarrow>
          if corrected_state (exp_state e)
          then (Inl (StateError ''cannot approve a reversed or superseded expense''), L)
          else if verified_state (exp_state e)
          then (Inl (StateError ''expense already approved/reconciled''), L)
          else if exp_state e \<notin> {APPROVAL_PENDING, CLASSIFICATION_PENDING, IMPORTED}
          then (Inl (StateError (''cannot approve expense in state '' @
                 expense_state_value (exp_state e))), L)
          else
            let eas = expense_allocations_for L expense_id; total = sum_list (map ea_amount eas) in
            if eas = [] then (Inl (StateError ''expense has no fund allocation''), L)
            else if total \<noteq> exp_amount e
            then (Inl (InvariantError (''approved expense allocations must equal expense amount: '' @
                   money_str total @ '' != '' @ money_str (exp_amount e))), L)
            else case check_balances L eas of
              Inl x \<Rightarrow> (Inl x, L)
            | Inr _ \<Rightarrow>
                if approved_by = [] then (Inl (StateError ''approved_by is required''), L)
                else
                  let updated = (with_expense_state e APPROVED)\<lparr>exp_approved_by := Some approved_by\<rparr>
                  in (Inr updated,
                      audit E ''ExpenseApproved'' ''Expense'' expense_id approved_by
                        (JObj [(''amount'', JStr (money_str (exp_amount e)))])
                        (L\<lparr>expenses := dset expense_id updated (expenses L)\<rparr>)))"

definition reconcile_expense :: "env \<Rightarrow> string \<Rightarrow> string \<Rightarrow> ledger \<Rightarrow> expense outcome \<times> ledger" where
  "reconcile_expense E expense_id actor L =
     (case require_expense L expense_id of
        Inl e \<Rightarrow> (Inl e, L)
      | Inr e \<Rightarrow>
          if exp_state e \<noteq> APPROVED
          then (Inl (StateError ''only APPROVED expenses can be reconciled''), L)
          else
            let (now, L1) = read_clock E L;
                updated = (with_expense_state e RECONCILED)\<lparr>exp_reconciled_at := Some now\<rparr>
            in (Inr updated,
                audit E ''ExpenseReconciled'' ''Expense'' expense_id actor
                  (JObj [(''reconciled_at'', JStr now)])
                  (L1\<lparr>expenses := dset expense_id updated (expenses L1)\<rparr>)))"

section \<open>Attribution\<close>

text \<open>The amount attributed under each method, before the bounds are checked.\<close>

definition attributed_amount_for ::
  "ledger \<Rightarrow> attribution_method \<Rightarrow> string \<Rightarrow> cents \<Rightarrow> cents \<Rightarrow> rat option \<Rightarrow> cents outcome" where
  "attributed_amount_for L m allocation_id donor_total charge given =
     (if m = DIRECT_RESTRICTED then
        (case given of None \<Rightarrow> Inr (min donor_total charge) | Some x \<Rightarrow> money x)
      else if m = PRO_RATA_POOL then
        (let pool = pool_inflows L allocation_id in
         if pool \<le> 0 then Inl (InvariantError ''empty allocation pool for pro-rata'')
         else let share = dec28 (of_int donor_total / of_int pool)
              in money (dec28 (of_int charge / 100 * share)))
      else
        (case given of
           None \<Rightarrow> Inl (AttributionError (''method '' @ method_value m @ '' requires explicit attributed_amount''))
         | Some x \<Rightarrow> money x))"

definition expense_charge_on :: "ledger \<Rightarrow> string \<Rightarrow> string \<Rightarrow> cents" where
  "expense_charge_on L e a =
     sum_where (\<lambda>ea. ea_expense ea = e \<and> ea_allocation ea = a) ea_amount (expense_allocations L)"

definition same_link :: "string \<Rightarrow> string \<Rightarrow> string \<Rightarrow> donor_expense_attribution \<Rightarrow> bool" where
  "same_link d e a t \<longleftrightarrow> at_donation t = d \<and> at_expense t = e \<and> at_allocation t = a"

definition attribute_donor_to_expense ::
  "env \<Rightarrow> string \<Rightarrow> string \<Rightarrow> string \<Rightarrow> string \<Rightarrow> attribution_method \<Rightarrow> rat option \<Rightarrow> string option \<Rightarrow>
     ledger \<Rightarrow> donor_expense_attribution outcome \<times> ledger" where
  "attribute_donor_to_expense E donor donation_id expense_id allocation_id m given given_id L =
     (if m = NO_METHOD \<or> m \<notin> set allowed_attribution_methods
      then (Inl (AttributionError (''phantom or disallowed attribution method: '' @ method_value m)), L)
      else if \<not> dhas (donors L) donor then (Inl (NotFoundError (''donor not found: '' @ donor)), L)
      else case require_donation L donation_id of Inl x \<Rightarrow> (Inl x, L) | Inr d \<Rightarrow>
      case require_expense L expense_id of Inl x \<Rightarrow> (Inl x, L) | Inr _ \<Rightarrow>
      if don_donor d \<noteq> donor then (Inl (InvariantError ''donation does not belong to donor''), L)
      else if \<not> dhas (allocations L) allocation_id
      then (Inl (NotFoundError (''allocation not found: '' @ allocation_id)), L)
      else
        let donor_total = donor_designated L donation_id allocation_id;
            charge = expense_charge_on L expense_id allocation_id in
        if donor_total \<le> 0
        then (Inl (InvariantError ''donation has no allocation to the specified fund''), L)
        else if charge \<le> 0
        then (Inl (InvariantError ''expense is not charged to the specified allocation''), L)
        else case attributed_amount_for L m allocation_id donor_total charge given of
          Inl x \<Rightarrow> (Inl x, L)
        | Inr amt \<Rightarrow>
            if amt \<le> 0 then (Inl (InvariantError ''attributed_amount must be positive''), L)
            else if amt > charge
            then (Inl (InvariantError ''attributed_amount cannot exceed expense allocation charge''), L)
            else if amt > donor_total
            then (Inl (InvariantError ''attributed_amount cannot exceed donor allocation to fund''), L)
            else
              let others = active_attribution_total L donation_id allocation_id (Some expense_id) in
              if others + amt > donor_total
              then (Inl (InvariantError (''donor attributions would exceed donation allocation to fund: '' @
                     money_str (others + amt) @ '' > '' @ money_str donor_total)), L)
              else
                let L1 = L\<lparr>attributions := dfilter (\<lambda>t. \<not> same_link donation_id expense_id allocation_id t)
                            (attributions L)\<rparr>;
                    (i, L2) = id_or_new E given_id ''attr'' L1;
                    attr = \<lparr>at_id = i, at_donor = donor, at_donation = donation_id,
                            at_expense = expense_id, at_allocation = allocation_id, at_amount = amt,
                            at_method = m, at_policy_version = org_policy_version (organization L),
                            at_confidence = ''policy''\<rparr>
                in (Inr attr,
                    audit E ''DonorExpenseAttributed'' ''DonorExpenseAttribution'' i ''system''
                      (JObj [(''method'', JStr (method_value m)),
                             (''attributed_amount'', JStr (money_str amt)),
                             (''expense_id'', JStr expense_id)])
                      (L2\<lparr>attributions := dset i attr (attributions L2)\<rparr>)))"

section \<open>Use-of-funds receipts\<close>

text \<open>\<^verbatim>\<open>self._expense_receipts.setdefault(expense_id, []).append(receipt_id)\<close>\<close>

definition link_receipt :: "string \<Rightarrow> string \<Rightarrow> ledger \<Rightarrow> ledger" where
  "link_receipt expense_id receipt_id L =
     L\<lparr>expense_receipts := dset expense_id
         ((case dget (expense_receipts L) expense_id of None \<Rightarrow> [] | Some rs \<Rightarrow> rs) @ [receipt_id])
         (expense_receipts L)\<rparr>"

text \<open>Store a receipt with its publish-time snapshot and link it to its expense.\<close>

definition store_receipt :: "use_of_funds_receipt \<Rightarrow> ledger \<Rightarrow> ledger" where
  "store_receipt r L = link_receipt (r_expense r) (r_id r)
     (L\<lparr>receipts := dset (r_id r) r (receipts L),
        receipt_snapshots := dset (r_id r) (uof_to_dict r) (receipt_snapshots L)\<rparr>)"

definition publish_use_of_funds_receipt ::
  "env \<Rightarrow> string \<Rightarrow> string \<Rightarrow> string \<Rightarrow> string \<Rightarrow> string option \<Rightarrow>
     ledger \<Rightarrow> use_of_funds_receipt outcome \<times> ledger" where
  "publish_use_of_funds_receipt E expense_id donation_id allocation_id actor created_at L =
     (case require_expense L expense_id of Inl x \<Rightarrow> (Inl x, L) | Inr e \<Rightarrow>
      if \<not> verified_state (exp_state e)
      then (Inl (StateError
             (''verified use-of-funds receipt requires APPROVED or RECONCILED expense; got '' @
              expense_state_value (exp_state e))), L)
      else case require_donation L donation_id of Inl x \<Rightarrow> (Inl x, L) | Inr d \<Rightarrow>
      case require_allocation L allocation_id of Inl x \<Rightarrow> (Inl x, L) | Inr a \<Rightarrow>
      case find_attribution L donation_id expense_id allocation_id of
        None \<Rightarrow> (Inl (AttributionError ''no attribution record; refuse phantom one-to-one linkage''), L)
      | Some attr \<Rightarrow>
      if at_method attr \<notin> set allowed_attribution_methods
      then (Inl (AttributionError (''disallowed attribution method: '' @ method_value (at_method attr))), L)
      else case find_live_receipt L donation_id expense_id allocation_id of
        Some live \<Rightarrow> (Inl (StateError
          (''use-of-funds receipt already published for this donation/expense/allocation (receipt_id='' @
           r_id live @ ''); use reverse_expense or supersede_expense for corrections'')), L)
      | None \<Rightarrow>
      case allocation_remaining_balance L allocation_id of Inl x \<Rightarrow> (Inl x, L) | Inr remaining \<Rightarrow>
      case donor_remaining_on_allocation L donation_id allocation_id of Inl x \<Rightarrow> (Inl x, L)
      | Inr donor_remaining \<Rightarrow>
      if donor_remaining < 0
      then (Inl (InvariantError (''donor remaining designated balance cannot be negative: '' @
             money_str donor_remaining)), L)
      else
        let (created, L1) = time_or_now E created_at L;
            (receipt_id, L2) = new_id E ''uof'' L1;
            org = organization L;
            body = JObj
              [(''type'', JStr ''USE_OF_FUNDS''), (''organization_id'', JStr (org_id org)),
               (''donation_id'', JStr donation_id), (''donor_id'', JStr (don_donor d)),
               (''allocation_id'', JStr allocation_id), (''allocation_name'', JStr (alloc_name a)),
               (''expense_id'', JStr expense_id), (''gross_amount'', JStr (money_str (exp_amount e))),
               (''attributed_amount'', JStr (money_str (at_amount attr))),
               (''purchase_date'', JStr (exp_purchase_date e)), (''category'', JStr (exp_category e)),
               (''description'', JStr (exp_description e)),
               (''verification_state'', JStr (expense_state_value (exp_state e))),
               (''remaining_designated_balance'', JStr (money_str donor_remaining)),
               (''allocation_pool_remaining'', JStr (money_str remaining)),
               (''attribution_method'', JStr (method_value (at_method attr))),
               (''policy_version'', JStr (org_policy_version org)),
               (''approved_by'', opt_str (exp_approved_by e)), (''created_at'', JStr created)];
            receipt_hash = stable_hash (sha256_hex E) body;
            r = \<lparr>r_id = receipt_id, r_type = ''USE_OF_FUNDS'', r_org = org_id org,
                 r_org_name = org_name org, r_donation = donation_id, r_donor = don_donor d,
                 r_allocation = allocation_id, r_allocation_name = alloc_name a,
                 r_restriction = restriction_value (alloc_restriction a), r_expense = expense_id,
                 r_vendor = exp_vendor e, r_gross = exp_amount e, r_attributed = at_amount attr,
                 r_purchase_date = exp_purchase_date e, r_category = exp_category e,
                 r_description = exp_description e,
                 r_verification = expense_state_value (exp_state e), r_remaining = donor_remaining,
                 r_method = method_value (at_method attr),
                 r_policy_version = org_policy_version org, r_approved_by = exp_approved_by e,
                 r_currency = exp_currency e, r_hash = receipt_hash, r_created_at = created,
                 r_corrected = False, r_corrects = None, r_correction_kind = None,
                 r_evidence_summary = donor_visible_evidence_summary L expense_id,
                 r_provenance = [(''actor'', JStr actor),
                   (''policy_version'', JStr (org_policy_version org)),
                   (''attribution_id'', JStr (at_id attr))]\<rparr>
        in if dhas (receipts L2) receipt_id then (Inl (InvariantError ''receipt_id collision''), L2)
           else (Inr r,
             audit E ''UseOfFundsReceiptPublished'' ''UseOfFundsReceipt'' receipt_id actor
               (JObj [(''expense_id'', JStr expense_id), (''donation_id'', JStr donation_id),
                      (''receipt_hash'', JStr receipt_hash)])
               (store_receipt r L2)))"

definition get_receipt :: "ledger \<Rightarrow> string \<Rightarrow> use_of_funds_receipt outcome" where
  "get_receipt L i =
     (case dget (receipts L) i of
        None \<Rightarrow> Inl (NotFoundError (''receipt not found: '' @ i)) | Some r \<Rightarrow> Inr r)"

definition get_receipt_snapshot :: "ledger \<Rightarrow> string \<Rightarrow> json outcome" where
  "get_receipt_snapshot L i =
     (case dget (receipt_snapshots L) i of
        None \<Rightarrow> Inl (NotFoundError (''receipt snapshot not found: '' @ i)) | Some j \<Rightarrow> Inr j)"

section \<open>Corrections\<close>

definition publish_correction_receipt ::
  "env \<Rightarrow> use_of_funds_receipt \<Rightarrow> expense \<Rightarrow> string \<Rightarrow> string \<Rightarrow> string \<Rightarrow> string option \<Rightarrow>
     ledger \<Rightarrow> use_of_funds_receipt outcome \<times> ledger" where
  "publish_correction_receipt E prior e actor kind reason replacement_id L =
     (let (created, L1) = read_clock E L;
          (receipt_id, L2) = new_id E ''uofc'' L1;
          org = organization L;
          body = JObj
            [(''type'', JStr ''USE_OF_FUNDS''), (''corrected'', JBool True),
             (''correction_kind'', JStr kind), (''corrects_receipt_id'', JStr (r_id prior)),
             (''expense_id'', JStr (exp_id e)),
             (''verification_state'', JStr (expense_state_value (exp_state e))),
             (''reason'', JStr reason), (''replacement_expense_id'', opt_str replacement_id),
             (''created_at'', JStr created), (''prior_receipt_hash'', JStr (r_hash prior))];
          receipt_hash = stable_hash (sha256_hex E) body
      in case donor_remaining_on_allocation L2 (r_donation prior) (r_allocation prior) of
           Inl x \<Rightarrow> (Inl x, L2)
         | Inr remaining \<Rightarrow>
             let c = \<lparr>r_id = receipt_id, r_type = ''USE_OF_FUNDS'', r_org = r_org prior,
                 r_org_name = r_org_name prior, r_donation = r_donation prior,
                 r_donor = r_donor prior, r_allocation = r_allocation prior,
                 r_allocation_name = r_allocation_name prior, r_restriction = r_restriction prior,
                 r_expense = exp_id e, r_vendor = r_vendor prior, r_gross = r_gross prior,
                 r_attributed = (if kind = ''REVERSAL'' then 0 else r_attributed prior),
                 r_purchase_date = r_purchase_date prior, r_category = r_category prior,
                 r_description = r_description prior,
                 r_verification = expense_state_value (exp_state e), r_remaining = remaining,
                 r_method = r_method prior, r_policy_version = org_policy_version org,
                 r_approved_by = or_else (exp_approved_by e) (r_approved_by prior),
                 r_currency = r_currency prior, r_hash = receipt_hash, r_created_at = created,
                 r_corrected = True, r_corrects = Some (r_id prior), r_correction_kind = Some kind,
                 r_evidence_summary = Some reason,
                 r_provenance = [(''actor'', JStr actor),
                   (''policy_version'', JStr (org_policy_version org)),
                   (''prior_receipt_hash'', JStr (r_hash prior)),
                   (''replacement_expense_id'', opt_str replacement_id)]\<rparr>
             in (Inr c,
                 audit E ''UseOfFundsCorrectionPublished'' ''UseOfFundsReceipt'' receipt_id actor
                   (JObj [(''kind'', JStr kind), (''corrects_receipt_id'', JStr (r_id prior)),
                          (''receipt_hash'', JStr receipt_hash)])
                   (store_receipt c L2)))"

definition prior_receipt_ids :: "ledger \<Rightarrow> string \<Rightarrow> string list" where
  "prior_receipt_ids L expense_id =
     (case dget (expense_receipts L) expense_id of None \<Rightarrow> [] | Some rs \<Rightarrow> rs)"

text \<open>The snapshots of the prior receipts, read before anything is written.\<close>

fun collect_snapshots :: "ledger \<Rightarrow> string list \<Rightarrow> (string, json) dict outcome" where
  "collect_snapshots L [] = Inr []"
| "collect_snapshots L (rid # rest) =
     (case get_receipt_snapshot L rid of Inl x \<Rightarrow> Inl x | Inr j \<Rightarrow>
      case collect_snapshots L rest of Inl x \<Rightarrow> Inl x | Inr d \<Rightarrow> Inr ((rid, j) # d))"

text \<open>The silent-mutation check of a reversal on one prior receipt.\<close>

definition check_snapshot :: "(string, json) dict \<Rightarrow> string \<Rightarrow> use_of_funds_receipt \<Rightarrow> unit outcome" where
  "check_snapshot snaps rid prior =
     (case dget snaps rid of None \<Rightarrow> Inl (KeyError rid) | Some snap \<Rightarrow>
      case jfield snap ''receipt_id'' of Inl x \<Rightarrow> Inl x | Inr i \<Rightarrow>
      if i \<noteq> JStr (r_id prior) then Inl (InvariantError ''prior receipt snapshot mismatch'')
      else case jfield snap ''provenance'' of Inl x \<Rightarrow> Inl x | Inr p \<Rightarrow>
      case jfield p ''receipt_hash'' of Inl x \<Rightarrow> Inl x | Inr h \<Rightarrow>
      if h \<noteq> JStr (r_hash prior) then Inl (InvariantError ''prior receipt was silently mutated'')
      else Inr ())"

fun reversal_loop ::
  "env \<Rightarrow> expense \<Rightarrow> string \<Rightarrow> string \<Rightarrow> (string, json) dict \<Rightarrow> string list \<Rightarrow>
     ledger \<Rightarrow> use_of_funds_receipt list outcome \<times> ledger" where
  "reversal_loop E e actor reason snaps [] L = (Inr [], L)"
| "reversal_loop E e actor reason snaps (rid # rest) L =
     (case dget (receipts L) rid of None \<Rightarrow> (Inl (KeyError rid), L) | Some prior \<Rightarrow>
      case check_snapshot snaps rid prior of Inl x \<Rightarrow> (Inl x, L) | Inr _ \<Rightarrow>
      and_then (publish_correction_receipt E prior e actor ''REVERSAL'' reason None L) (\<lambda>c L1.
      and_then (reversal_loop E e actor reason snaps rest L1) (\<lambda>cs L2. (Inr (c # cs), L2))))"

definition reverse_expense ::
  "env \<Rightarrow> string \<Rightarrow> string \<Rightarrow> string \<Rightarrow> ledger \<Rightarrow> (expense \<times> use_of_funds_receipt list) outcome \<times> ledger" where
  "reverse_expense E expense_id actor reason L =
     (case require_expense L expense_id of Inl x \<Rightarrow> (Inl x, L) | Inr e \<Rightarrow>
      if \<not> verified_state (exp_state e)
      then (Inl (StateError ''only APPROVED or RECONCILED expenses can be reversed''), L)
      else
        let prior_ids = prior_receipt_ids L expense_id in
        case collect_snapshots L prior_ids of Inl x \<Rightarrow> (Inl x, L) | Inr snaps \<Rightarrow>
        let rev = (with_expense_state e REVERSED)\<lparr>exp_history_note := Some reason\<rparr>;
            L1 = audit E ''ExpenseReversed'' ''Expense'' expense_id actor
                   (JObj [(''reason'', JStr reason), (''prior_receipts'', JList (map JStr prior_ids))])
                   (L\<lparr>expenses := dset expense_id rev (expenses L)\<rparr>)
        in and_then (reversal_loop E rev actor reason snaps prior_ids L1)
             (\<lambda>cs L2. (Inr (rev, cs), L2)))"

fun supersede_loop ::
  "env \<Rightarrow> expense \<Rightarrow> string \<Rightarrow> string \<Rightarrow> string \<Rightarrow> string list \<Rightarrow>
     ledger \<Rightarrow> use_of_funds_receipt list outcome \<times> ledger" where
  "supersede_loop E e actor reason replacement_id [] L = (Inr [], L)"
| "supersede_loop E e actor reason replacement_id (rid # rest) L =
     (case dget (receipts L) rid of None \<Rightarrow> (Inl (KeyError rid), L) | Some prior \<Rightarrow>
      and_then (publish_correction_receipt E prior e actor ''SUPERSEDE'' reason (Some replacement_id) L)
        (\<lambda>c L1. and_then (supersede_loop E e actor reason replacement_id rest L1)
          (\<lambda>cs L2. (Inr (c # cs), L2))))"

definition supersede_expense ::
  "env \<Rightarrow> string \<Rightarrow> expense \<Rightarrow> (string \<times> rat) list \<Rightarrow> string \<Rightarrow> string \<Rightarrow> string \<Rightarrow>
     ledger \<Rightarrow> (expense \<times> expense \<times> use_of_funds_receipt list) outcome \<times> ledger" where
  "supersede_expense E expense_id replacement splits actor reason approved_by L =
     (case require_expense L expense_id of Inl x \<Rightarrow> (Inl x, L) | Inr old \<Rightarrow>
      if \<not> verified_state (exp_state old)
      then (Inl (StateError ''only APPROVED or RECONCILED expenses can be superseded''), L)
      else
        let prior_ids = prior_receipt_ids L expense_id;
            sup = (with_expense_state old SUPERSEDED)\<lparr>exp_history_note := Some reason\<rparr>;
            L1 = L\<lparr>expenses := dset expense_id sup (expenses L)\<rparr> in
        if exp_id replacement = expense_id
        then (Inl (InvariantError ''replacement expense must have a new id''), L1)
        else if exp_org replacement \<noteq> org_id (organization L)
        then (Inl (InvariantError ''replacement organization_id mismatch''), L1)
        else
          let repl = replacement\<lparr>exp_state := IMPORTED, exp_approved_by := None,
                exp_reconciled_at := None, exp_reversed_of := None,
                exp_supersedes := Some expense_id, exp_history_note := Some reason\<rparr>
          in and_then (import_expense E repl L1) (\<lambda>_ L2.
             and_then (allocate_expense_splits E (exp_id repl) splits L2) (\<lambda>_ L3.
             and_then (approve_expense E (exp_id repl) approved_by L3) (\<lambda>approved L4.
             let L5 = audit E ''ExpenseSuperseded'' ''Expense'' expense_id actor
                        (JObj [(''replacement_id'', JStr (exp_id repl)), (''reason'', JStr reason)]) L4
             in and_then (supersede_loop E sup actor reason (exp_id repl) prior_ids L5)
                  (\<lambda>cs L6. (Inr (sup, approved, cs), L6))))))"

section \<open>The refused mutations\<close>

definition mutate_receipt :: "string \<Rightarrow> ledger \<Rightarrow> unit outcome \<times> ledger" where
  "mutate_receipt receipt_id L =
     (Inl (StateError
       ''silent mutation of receipts is forbidden; use reverse_expense or supersede_expense''), L)"

definition mutate_approved_expense :: "string \<Rightarrow> ledger \<Rightarrow> unit outcome \<times> ledger" where
  "mutate_approved_expense expense_id L =
     (case require_expense L expense_id of Inl x \<Rightarrow> (Inl x, L) | Inr e \<Rightarrow>
      if verified_state (exp_state e) \<or> corrected_state (exp_state e)
      then (Inl (StateError (''silent mutation of approved/corrected expenses is forbidden; '' @
             ''use reverse_expense or supersede_expense'')), L)
      else (Inl (StateError ''use domain transition methods instead of mutate_approved_expense''), L))"

section \<open>Commands\<close>

text \<open>Every public mutation of the ledger, so that histories are lists of commands.\<close>

datatype ledger_cmd =
    RegisterDonor donor
  | ImportDonation donation
  | RegisterAllocation allocation
  | AssignDonationAllocation string string rat "string option"
  | ImportExpense expense
  | AttachEvidence evidence_record
  | AllocateExpense string string rat "string option"
  | AllocateExpenseSplits string "(string \<times> rat) list"
  | ApproveExpense string string
  | ReconcileExpense string string
  | AttributeDonor string string string string attribution_method "rat option" "string option"
  | PublishReceipt string string string string "string option"
  | ReverseExpense string string string
  | SupersedeExpense string expense "(string \<times> rat) list" string string string
  | MutateReceipt string
  | MutateApprovedExpense string

fun ledger_step :: "env \<Rightarrow> ledger \<Rightarrow> ledger_cmd \<Rightarrow> ledger" where
  "ledger_step E L (RegisterDonor d) = snd (register_donor E d L)"
| "ledger_step E L (ImportDonation d) = snd (import_donation E d L)"
| "ledger_step E L (RegisterAllocation a) = snd (register_allocation E a L)"
| "ledger_step E L (AssignDonationAllocation d a amt i) = snd (assign_donation_allocation E d a amt i L)"
| "ledger_step E L (ImportExpense e) = snd (import_expense E e L)"
| "ledger_step E L (AttachEvidence v) = snd (attach_evidence E v L)"
| "ledger_step E L (AllocateExpense e a amt i) = snd (allocate_expense E e a amt i L)"
| "ledger_step E L (AllocateExpenseSplits e sp) = snd (allocate_expense_splits E e sp L)"
| "ledger_step E L (ApproveExpense e by) = snd (approve_expense E e by L)"
| "ledger_step E L (ReconcileExpense e by) = snd (reconcile_expense E e by L)"
| "ledger_step E L (AttributeDonor dn d e a m amt i) =
     snd (attribute_donor_to_expense E dn d e a m amt i L)"
| "ledger_step E L (PublishReceipt e d a actor created) =
     snd (publish_use_of_funds_receipt E e d a actor created L)"
| "ledger_step E L (ReverseExpense e actor why) = snd (reverse_expense E e actor why L)"
| "ledger_step E L (SupersedeExpense e r sp actor why by) =
     snd (supersede_expense E e r sp actor why by L)"
| "ledger_step E L (MutateReceipt i) = snd (mutate_receipt i L)"
| "ledger_step E L (MutateApprovedExpense i) = snd (mutate_approved_expense i L)"

end
