(* ===== verification/Ledger_Effects.thy ===== *)
theory Ledger_Effects
  imports Ledger
begin

text \<open>
  An abstract specification of the ledger: a step relation whose rules are the primitive changes
  of its stores, each with the guard the code establishes before it. Every public mutation, in
  success and in failure, is a sequence of such changes, so a property that each rule keeps holds
  in every state the code can reach.

  The parameter \<open>fr\<close> selects disciplined histories: identifiers written are unused, and the charges
  of an approved expense are on distinct funds. The code does not enforce either; properties that
  need the discipline are stated for it.
\<close>

section \<open>Frame lemmas\<close>

lemma audit_quiet:
  "\<exists>ar. audit E ev et ei ac p L =
     L\<lparr>audit_log := audit_log L @ [ar], uuid_draws := uuid_draws L + 1, clock_reads := clock_reads L + 1\<rparr>"
  unfolding audit_def Let_def by (rule exI) simp

lemma audit_stores [simp]:
  "organization (audit E ev et ei ac p L) = organization L"
  "donors (audit E ev et ei ac p L) = donors L"
  "donations (audit E ev et ei ac p L) = donations L"
  "allocations (audit E ev et ei ac p L) = allocations L"
  "donation_allocations (audit E ev et ei ac p L) = donation_allocations L"
  "expenses (audit E ev et ei ac p L) = expenses L"
  "expense_allocations (audit E ev et ei ac p L) = expense_allocations L"
  "evidence (audit E ev et ei ac p L) = evidence L"
  "attributions (audit E ev et ei ac p L) = attributions L"
  "receipts (audit E ev et ei ac p L) = receipts L"
  "receipt_snapshots (audit E ev et ei ac p L) = receipt_snapshots L"
  "expense_receipts (audit E ev et ei ac p L) = expense_receipts L"
  "uuid_draws (audit E ev et ei ac p L) = Suc (uuid_draws L)"
  by (simp_all add: audit_def Let_def)

lemma new_id_stores [simp]:
  "organization (snd (new_id E p L)) = organization L"
  "donors (snd (new_id E p L)) = donors L"
  "donations (snd (new_id E p L)) = donations L"
  "allocations (snd (new_id E p L)) = allocations L"
  "donation_allocations (snd (new_id E p L)) = donation_allocations L"
  "expenses (snd (new_id E p L)) = expenses L"
  "expense_allocations (snd (new_id E p L)) = expense_allocations L"
  "evidence (snd (new_id E p L)) = evidence L"
  "attributions (snd (new_id E p L)) = attributions L"
  "receipts (snd (new_id E p L)) = receipts L"
  "receipt_snapshots (snd (new_id E p L)) = receipt_snapshots L"
  "expense_receipts (snd (new_id E p L)) = expense_receipts L"
  "audit_log (snd (new_id E p L)) = audit_log L"
  "fst (new_id E p L) = fresh_name E p (uuid_draws L)"
  "uuid_draws (snd (new_id E p L)) = Suc (uuid_draws L)"
  by (simp_all add: new_id_def)

lemma read_clock_stores [simp]:
  "organization (snd (read_clock E L)) = organization L"
  "donors (snd (read_clock E L)) = donors L"
  "donations (snd (read_clock E L)) = donations L"
  "allocations (snd (read_clock E L)) = allocations L"
  "donation_allocations (snd (read_clock E L)) = donation_allocations L"
  "expenses (snd (read_clock E L)) = expenses L"
  "expense_allocations (snd (read_clock E L)) = expense_allocations L"
  "evidence (snd (read_clock E L)) = evidence L"
  "attributions (snd (read_clock E L)) = attributions L"
  "receipts (snd (read_clock E L)) = receipts L"
  "receipt_snapshots (snd (read_clock E L)) = receipt_snapshots L"
  "expense_receipts (snd (read_clock E L)) = expense_receipts L"
  "audit_log (snd (read_clock E L)) = audit_log L"
  "uuid_draws (snd (read_clock E L)) = uuid_draws L"
  by (simp_all add: read_clock_def)

lemma id_or_new_stores [simp]:
  "organization (snd (id_or_new E g p L)) = organization L"
  "donors (snd (id_or_new E g p L)) = donors L"
  "donations (snd (id_or_new E g p L)) = donations L"
  "allocations (snd (id_or_new E g p L)) = allocations L"
  "donation_allocations (snd (id_or_new E g p L)) = donation_allocations L"
  "expenses (snd (id_or_new E g p L)) = expenses L"
  "expense_allocations (snd (id_or_new E g p L)) = expense_allocations L"
  "evidence (snd (id_or_new E g p L)) = evidence L"
  "attributions (snd (id_or_new E g p L)) = attributions L"
  "receipts (snd (id_or_new E g p L)) = receipts L"
  "receipt_snapshots (snd (id_or_new E g p L)) = receipt_snapshots L"
  "expense_receipts (snd (id_or_new E g p L)) = expense_receipts L"
  "audit_log (snd (id_or_new E g p L)) = audit_log L"
  by (simp_all add: id_or_new_def)

lemma time_or_now_stores [simp]:
  "organization (snd (time_or_now E g L)) = organization L"
  "donors (snd (time_or_now E g L)) = donors L"
  "donations (snd (time_or_now E g L)) = donations L"
  "allocations (snd (time_or_now E g L)) = allocations L"
  "donation_allocations (snd (time_or_now E g L)) = donation_allocations L"
  "expenses (snd (time_or_now E g L)) = expenses L"
  "expense_allocations (snd (time_or_now E g L)) = expense_allocations L"
  "evidence (snd (time_or_now E g L)) = evidence L"
  "attributions (snd (time_or_now E g L)) = attributions L"
  "receipts (snd (time_or_now E g L)) = receipts L"
  "receipt_snapshots (snd (time_or_now E g L)) = receipt_snapshots L"
  "expense_receipts (snd (time_or_now E g L)) = expense_receipts L"
  "audit_log (snd (time_or_now E g L)) = audit_log L"
  "uuid_draws (snd (time_or_now E g L)) = uuid_draws L"
  by (simp_all add: time_or_now_def)

lemma store_receipt_stores [simp]:
  "organization (store_receipt r L) = organization L"
  "donors (store_receipt r L) = donors L"
  "donations (store_receipt r L) = donations L"
  "allocations (store_receipt r L) = allocations L"
  "donation_allocations (store_receipt r L) = donation_allocations L"
  "expenses (store_receipt r L) = expenses L"
  "expense_allocations (store_receipt r L) = expense_allocations L"
  "evidence (store_receipt r L) = evidence L"
  "attributions (store_receipt r L) = attributions L"
  "receipts (store_receipt r L) = dset (r_id r) r (receipts L)"
  "receipt_snapshots (store_receipt r L) = dset (r_id r) (uof_to_dict r) (receipt_snapshots L)"
  "expense_receipts (store_receipt r L) =
     dset (r_expense r) (prior_receipt_ids L (r_expense r) @ [r_id r]) (expense_receipts L)"
  "audit_log (store_receipt r L) = audit_log L"
  "uuid_draws (store_receipt r L) = uuid_draws L"
  by (simp_all add: store_receipt_def link_receipt_def prior_receipt_ids_def)

section \<open>The step relation\<close>

inductive effect :: "bool \<Rightarrow> ledger \<Rightarrow> ledger \<Rightarrow> bool" for fr where
  E_quiet: "effect fr L (L\<lparr>audit_log := audit_log L @ x, uuid_draws := uuid_draws L + u,
     clock_reads := clock_reads L + c\<rparr>)"
| E_donor: "donor_org d = org_id (organization L) \<Longrightarrow>
     effect fr L (L\<lparr>donors := dset (donor_id d) d (donors L)\<rparr>)"
| E_donation: "0 < don_amount d \<Longrightarrow> dget (donations L) (don_id d) = None \<Longrightarrow>
     dget (donors L) (don_donor d) \<noteq> None \<Longrightarrow>
     effect fr L (L\<lparr>donations := dset (don_id d) d (donations L)\<rparr>)"
| E_allocation: "alloc_org a = org_id (organization L) \<Longrightarrow>
     effect fr L (L\<lparr>allocations := dset (alloc_id a) a (allocations L)\<rparr>)"
| E_assign: "dget (donations L) d = Some don \<Longrightarrow> don_cleared don \<Longrightarrow>
     dget (allocations L) a \<noteq> None \<Longrightarrow> 0 < amt \<Longrightarrow>
     sum_donation_allocations L d + amt \<le> don_amount don \<Longrightarrow>
     (fr \<Longrightarrow> dget (donation_allocations L) i = None) \<Longrightarrow>
     effect fr L (L\<lparr>donation_allocations := dset i
       \<lparr>da_id = i, da_donation = d, da_allocation = a, da_amount = amt\<rparr> (donation_allocations L)\<rparr>)"
| E_expense: "0 < exp_amount e \<Longrightarrow> dget (expenses L) (exp_id e) = None \<Longrightarrow>
     exp_state e = DRAFT \<or> exp_state e = IMPORTED \<Longrightarrow>
     effect fr L (L\<lparr>expenses := dset (exp_id e) e (expenses L)\<rparr>)"
| E_evidence: "dget (expenses L) (ev_expense v) \<noteq> None \<Longrightarrow>
     effect fr L (L\<lparr>evidence := dset (ev_id v) v (evidence L)\<rparr>)"
| E_clear: "dget (expenses L) e = Some x \<Longrightarrow> \<not> verified_state (exp_state x) \<Longrightarrow>
     \<not> corrected_state (exp_state x) \<Longrightarrow>
     effect fr L (L\<lparr>expense_allocations := dfilter (\<lambda>v. ea_expense v \<noteq> e) (expense_allocations L)\<rparr>)"
| E_charge: "dget (expenses L) e = Some x \<Longrightarrow> \<not> verified_state (exp_state x) \<Longrightarrow>
     \<not> corrected_state (exp_state x) \<Longrightarrow> dget (allocations L) a \<noteq> None \<Longrightarrow> 0 < amt \<Longrightarrow>
     (fr \<Longrightarrow> dget (expense_allocations L) i = None) \<Longrightarrow>
     effect fr L (L\<lparr>expense_allocations := dset i
       \<lparr>ea_id = i, ea_expense = e, ea_allocation = a, ea_amount = amt\<rparr> (expense_allocations L)\<rparr>)"
| E_pending: "dget (expenses L) e = Some x \<Longrightarrow>
     exp_state x \<in> {DRAFT, IMPORTED, CLASSIFICATION_PENDING} \<Longrightarrow>
     effect fr L (L\<lparr>expenses := dset e (with_expense_state x APPROVAL_PENDING) (expenses L)\<rparr>)"
| E_approve: "dget (expenses L) e = Some x \<Longrightarrow>
     exp_state x \<in> {APPROVAL_PENDING, CLASSIFICATION_PENDING, IMPORTED} \<Longrightarrow>
     sum_list (map ea_amount (expense_allocations_for L e)) = exp_amount x \<Longrightarrow>
     check_balances L (expense_allocations_for L e) = Inr () \<Longrightarrow> by \<noteq> [] \<Longrightarrow>
     (fr \<Longrightarrow> distinct (map ea_allocation (expense_allocations_for L e))) \<Longrightarrow>
     effect fr L (L\<lparr>expenses := dset e
       ((with_expense_state x APPROVED)\<lparr>exp_approved_by := Some by\<rparr>) (expenses L)\<rparr>)"
| E_reconcile: "dget (expenses L) e = Some x \<Longrightarrow> exp_state x = APPROVED \<Longrightarrow>
     effect fr L (L\<lparr>expenses := dset e
       ((with_expense_state x RECONCILED)\<lparr>exp_reconciled_at := Some now\<rparr>) (expenses L)\<rparr>)"
| E_attribute: "dget (donations L) d = Some don \<Longrightarrow> don_donor don = dn \<Longrightarrow>
     dget (expenses L) e \<noteq> None \<Longrightarrow> dget (allocations L) a \<noteq> None \<Longrightarrow> m \<noteq> NO_METHOD \<Longrightarrow>
     0 < amt \<Longrightarrow> amt \<le> expense_charge_on L e a \<Longrightarrow>
     active_attribution_total L d a (Some e) + amt \<le> donor_designated L d a \<Longrightarrow>
     effect fr L (L\<lparr>attributions := dset i
       \<lparr>at_id = i, at_donor = dn, at_donation = d, at_expense = e, at_allocation = a,
        at_amount = amt, at_method = m, at_policy_version = pv, at_confidence = ''policy''\<rparr>
       (dfilter (\<lambda>t. \<not> same_link d e a t) (attributions L))\<rparr>)"
| E_publish: "dget (expenses L) (r_expense r) = Some x \<Longrightarrow> verified_state (exp_state x) \<Longrightarrow>
     find_attribution L (r_donation r) (r_expense r) (r_allocation r) = Some t \<Longrightarrow>
     r_attributed r = at_amount t \<Longrightarrow> r_gross r = exp_amount x \<Longrightarrow> 0 \<le> r_remaining r \<Longrightarrow>
     find_live_receipt L (r_donation r) (r_expense r) (r_allocation r) = None \<Longrightarrow>
     dget (receipts L) (r_id r) = None \<Longrightarrow> \<not> r_corrected r \<Longrightarrow>
     effect fr L (store_receipt r L)"
| E_correct: "dget (expenses L) e = Some x \<Longrightarrow> verified_state (exp_state x) \<Longrightarrow>
     s = REVERSED \<or> s = SUPERSEDED \<Longrightarrow>
     effect fr L (L\<lparr>expenses := dset e
       ((with_expense_state x s)\<lparr>exp_history_note := Some why\<rparr>) (expenses L)\<rparr>)"
| E_correction: "dget (receipts L) rid = Some prior \<Longrightarrow> r_corrected c \<Longrightarrow>
     r_corrects c = Some (r_id prior) \<Longrightarrow> r_donation c = r_donation prior \<Longrightarrow>
     r_allocation c = r_allocation prior \<Longrightarrow>
     dget (expenses L) e = Some x \<Longrightarrow> r_expense c = exp_id x \<Longrightarrow> corrected_state (exp_state x) \<Longrightarrow>
     (fr \<Longrightarrow> dget (receipts L) (r_id c) = None) \<Longrightarrow>
     effect fr L (store_receipt c L)"

abbreviation effects :: "bool \<Rightarrow> ledger \<Rightarrow> ledger \<Rightarrow> bool" where
  "effects fr \<equiv> (effect fr)\<^sup>*\<^sup>*"

lemma effects_audit: "effects fr L L' \<Longrightarrow> effects fr L (audit E ev et ei ac p L')"
  using audit_quiet [of E ev et ei ac p L'] E_quiet [where u = 1 and c = 1]
  by (metis rtranclp.rtrancl_into_rtrancl)

lemma effects_draws: "effects fr L L' \<Longrightarrow> effects fr L (L'\<lparr>uuid_draws := uuid_draws L' + u\<rparr>)"
  using E_quiet [where L = L' and x = "[]" and u = u and c = 0 and fr = fr] by (simp add: rtranclp.rtrancl_into_rtrancl)

lemma effects_reads: "effects fr L L' \<Longrightarrow> effects fr L (L'\<lparr>clock_reads := clock_reads L' + u\<rparr>)"
  using E_quiet [where L = L' and x = "[]" and u = 0 and c = u and fr = fr] by (simp add: rtranclp.rtrancl_into_rtrancl)

lemma effects_new_id: "effects fr L L' \<Longrightarrow> effects fr L (snd (new_id E p L'))"
  using effects_draws [of fr L L' 1] by (simp add: new_id_def)

lemma effects_read_clock: "effects fr L L' \<Longrightarrow> effects fr L (snd (read_clock E L'))"
  using effects_reads [of fr L L' 1] by (simp add: read_clock_def)

lemma effects_id_or_new: "effects fr L L' \<Longrightarrow> effects fr L (snd (id_or_new E g p L'))"
  by (simp add: id_or_new_def effects_new_id)

lemma effects_time_or_now: "effects fr L L' \<Longrightarrow> effects fr L (snd (time_or_now E g L'))"
  by (simp add: time_or_now_def effects_read_clock)

lemmas effects_quiet =
  effects_audit effects_new_id effects_read_clock effects_id_or_new effects_time_or_now

lemma effects_snoc: "effects fr L L' \<Longrightarrow> effect fr L' L'' \<Longrightarrow> effects fr L L''"
  by (rule rtranclp.rtrancl_into_rtrancl)

lemma effects_audit1: "effect fr L L' \<Longrightarrow> effects fr L (audit E ev et ei ac p L')"
  by (blast intro: effects_audit)

section \<open>Every mutation is a sequence of primitive changes\<close>

text \<open>
  Rules that follow the shape of the code: an early return keeps the state, a guard adds a
  hypothesis, a binding is passed on.
\<close>

lemma effects_fail: "effects fr L (snd (Inl x, L))"
  by simp

lemma effects_if:
  "(b \<Longrightarrow> effects fr L (snd x)) \<Longrightarrow> (\<not> b \<Longrightarrow> effects fr L (snd y)) \<Longrightarrow>
     effects fr L (snd (if b then x else y))"
  by simp

lemma effects_case_sum:
  "(\<And>x. r = Inl x \<Longrightarrow> effects fr L (snd (f x))) \<Longrightarrow> (\<And>y. r = Inr y \<Longrightarrow> effects fr L (snd (g y))) \<Longrightarrow>
     effects fr L (snd (case r of Inl x \<Rightarrow> f x | Inr y \<Rightarrow> g y))"
  by (cases r) simp_all

lemma effects_case_option:
  "(r = None \<Longrightarrow> effects fr L (snd x)) \<Longrightarrow> (\<And>y. r = Some y \<Longrightarrow> effects fr L (snd (g y))) \<Longrightarrow>
     effects fr L (snd (case r of None \<Rightarrow> x | Some y \<Rightarrow> g y))"
  by (cases r) simp_all

lemma effects_let: "effects fr L (snd (f x)) \<Longrightarrow> effects fr L (snd (Let x f))"
  by simp

lemma effects_case_prod:
  "effects fr L (snd (f (fst r) (snd r))) \<Longrightarrow> effects fr L (snd (case r of (a, b) \<Rightarrow> f a b))"
  by (cases r) simp

lemma effects_and_then:
  "effects fr L (snd r) \<Longrightarrow> (\<And>a s. r = (Inr a, s) \<Longrightarrow> effects fr L s \<Longrightarrow> effects fr L (snd (f a s))) \<Longrightarrow>
     effects fr L (snd (and_then r f))"
  by (cases r; cases "fst r") auto

lemma effects_clock_then: "effect fr (snd (read_clock E L)) L' \<Longrightarrow> effects fr L L'"
  using effects_snoc effects_read_clock by blast

lemma effects_id_then: "effect fr (snd (id_or_new E g p L)) L' \<Longrightarrow> effects fr L L'"
  using effects_snoc effects_id_or_new by blast

lemma effects_trans: "effects fr L L' \<Longrightarrow> effects fr L' L'' \<Longrightarrow> effects fr L L''"
  by (rule rtranclp_trans)

lemmas effects_branch =
  effects_fail effects_if effects_case_sum effects_case_option effects_let effects_case_prod

lemma require_simps:
  "require_donation L i = Inr d \<longleftrightarrow> dget (donations L) i = Some d"
  "require_expense L i = Inr e \<longleftrightarrow> dget (expenses L) i = Some e"
  "require_allocation L i = Inr a \<longleftrightarrow> dget (allocations L) i = Some a"
  by (auto simp: require_donation_def require_expense_def require_allocation_def split: option.splits)

lemma register_donor_effects: "effects fr L (snd (register_donor E d L))"
  by (auto simp: register_donor_def intro!: effects_audit1 E_donor)

lemma import_donation_effects: "effects fr L (snd (import_donation E d L))"
  by (auto simp: import_donation_def intro!: effects_audit1 E_donation)

lemma register_allocation_effects: "effects fr L (snd (register_allocation E a L))"
  by (auto simp: register_allocation_def intro!: effects_audit1 E_allocation)

lemma import_expense_effects: "effects fr L (snd (import_expense E e L))"
  by (auto simp: import_expense_def intro!: effects_audit1 E_expense)

lemma attach_evidence_effects: "effects fr L (snd (attach_evidence E v L))"
  by (auto simp: attach_evidence_def intro!: effects_audit1 E_evidence)

lemma reconcile_expense_effects: "effects fr L (snd (reconcile_expense E e by L))"
  unfolding reconcile_expense_def
proof (intro effects_branch, simp_all add: require_simps, goal_cases)
  case (1 x)
  show ?case
    using 1 effects_audit [OF effects_clock_then [OF E_reconcile [of "snd (read_clock E L)" e x]]]
    by simp
qed

lemma assign_donation_allocation_effects:
  assumes "fr \<Longrightarrow> dget (donation_allocations L) (fst (id_or_new E g ''da'' L)) = None"
  shows "effects fr L (snd (assign_donation_allocation E d a amt g L))"
  unfolding assign_donation_allocation_def
proof (intro effects_branch, simp_all add: require_simps, goal_cases)
  case (1 don amt')
  show ?case
    using 1 assms
      effects_audit [OF effects_id_then [OF E_assign [of "snd (id_or_new E g ''da'' L)" d don a amt' fr]]]
    by (simp add: sum_donation_allocations_def)
qed

lemma approve_expense_effects:
  assumes "fr \<Longrightarrow> distinct (map ea_allocation (expense_allocations_for L e))"
  shows "effects fr L (snd (approve_expense E e by L))"
  unfolding approve_expense_def using assms
  by (intro effects_branch) (auto simp: require_simps intro!: effects_audit1 E_approve)

text \<open>Freshness of the identifiers drawn between the current draw count and \<open>m\<close>.\<close>

definition unused :: "env \<Rightarrow> ledger \<Rightarrow> nat \<Rightarrow> bool" where
  "unused E L n \<longleftrightarrow>
     \<not> dhas (donation_allocations L) (fresh_name E ''da'' n) \<and>
     \<not> dhas (expense_allocations L) (fresh_name E ''ea'' n) \<and>
     \<not> dhas (receipts L) (fresh_name E ''uof'' n) \<and> \<not> dhas (receipts L) (fresh_name E ''uofc'' n)"

definition fresh_window :: "env \<Rightarrow> ledger \<Rightarrow> nat \<Rightarrow> bool" where
  "fresh_window E L m \<longleftrightarrow>
     distinct (map (uuid4_hex E) [uuid_draws L..<m]) \<and> list_all (unused E L) [uuid_draws L..<m]"

lemma fresh_name_eq [simp]: "fresh_name E p m = fresh_name E p n \<longleftrightarrow> uuid4_hex E m = uuid4_hex E n"
  by (simp add: fresh_name_def)

lemma fresh_name_prefix [simp]:
  "fresh_name E ''uof'' m \<noteq> fresh_name E ''uofc'' n" "fresh_name E ''uofc'' m \<noteq> fresh_name E ''uof'' n"
  by (simp_all add: fresh_name_def)

lemma fresh_window_unused:
  "fresh_window E L m \<Longrightarrow> uuid_draws L \<le> n \<Longrightarrow> n < m \<Longrightarrow> unused E L n"
  by (auto simp: fresh_window_def list_all_iff)

lemma fresh_window_distinct:
  "fresh_window E L m \<Longrightarrow> uuid_draws L \<le> k \<Longrightarrow> k < n \<Longrightarrow> n < m \<Longrightarrow> uuid4_hex E k \<noteq> uuid4_hex E n"
  by (force simp: fresh_window_def distinct_map inj_on_def)

lemma fresh_window_keep:
  assumes "fresh_window E L m" and "uuid_draws L \<le> uuid_draws L'"
    and "\<And>n. uuid_draws L' \<le> n \<Longrightarrow> n < m \<Longrightarrow> unused E L n \<Longrightarrow> unused E L' n"
  shows "fresh_window E L' m"
  using assms by (auto simp: fresh_window_def distinct_map inj_on_def list_all_iff)

lemma effect_draws_mono: "effect fr L L' \<Longrightarrow> uuid_draws L \<le> uuid_draws L'"
  by (induction rule: effect.induct) simp_all

lemma effects_draws_mono: "effects fr L L' \<Longrightarrow> uuid_draws L \<le> uuid_draws L'"
  by (induction rule: rtranclp_induct) (auto dest: effect_draws_mono)

subsection \<open>Charging an expense\<close>

lemma to_approval_pending_effects:
  assumes "effects fr L0 L" and "dget (expenses L) e = Some x"
  shows "effects fr L0 (to_approval_pending e x L)"
  unfolding to_approval_pending_def using assms E_pending effects_snoc by auto

lemma allocate_expense_effects:
  assumes "fr \<Longrightarrow> dget (expense_allocations L) (fst (id_or_new E g ''ea'' L)) = None"
  shows "effects fr L (snd (allocate_expense E e a amt g L))"
  unfolding allocate_expense_def
proof (intro effects_branch, simp_all add: require_simps, goal_cases)
  case (1 x amt' b)
  let ?L1 = "snd (id_or_new E g ''ea'' L)" and ?i = "fst (id_or_new E g ''ea'' L)"
  let ?L2 = "?L1\<lparr>expense_allocations := dfilter (\<lambda>v. ea_expense v \<noteq> e) (expense_allocations ?L1)\<rparr>"
  let ?ea = "\<lparr>ea_id = ?i, ea_expense = e, ea_allocation = a, ea_amount = amt'\<rparr>"
  let ?L3 = "?L2\<lparr>expense_allocations := dset ?i ?ea (expense_allocations ?L2)\<rparr>"
  have "effect fr ?L1 ?L2" using 1 by (intro E_clear [of _ e x]) simp_all
  moreover have "effect fr ?L2 ?L3"
    using 1 assms by (intro E_charge [of _ e x]) (auto intro: dget_dfilter_None)
  ultimately have "effects fr L ?L3"
    by (blast intro: effects_id_or_new effects_snoc)
  then have "effects fr L (to_approval_pending e x ?L3)"
    using 1 by (intro to_approval_pending_effects) simp_all
  then show ?case by (simp add: effects_audit)
qed

lemma parse_splits_ok:
  "parse_splits L sp = Inr ps \<Longrightarrow>
     map fst ps = map fst sp \<and> (\<forall>p \<in> set ps. dget (allocations L) (fst p) \<noteq> None \<and> 0 < snd p)"
  by (induction L sp arbitrary: ps rule: parse_splits.induct)
    (fastforce split: if_splits sum.splits)+

lemma store_splits_Cons:
  "store_splits E e ((a, amt) # rest) L =
     (let i = fresh_name E ''ea'' (uuid_draws L);
          ea = \<lparr>ea_id = i, ea_expense = e, ea_allocation = a, ea_amount = amt\<rparr>;
          r = store_splits E e rest (L\<lparr>uuid_draws := Suc (uuid_draws L),
                expense_allocations := dset i ea (expense_allocations L)\<rparr>)
      in (ea # fst r, snd r))"
  by (simp add: new_id_def Let_def split_beta)

lemma store_splits_frame:
  "uuid_draws (snd (store_splits E e ps L)) = uuid_draws L + length ps"
  "expenses (snd (store_splits E e ps L)) = expenses L"
  "allocations (snd (store_splits E e ps L)) = allocations L"
  "donation_allocations (snd (store_splits E e ps L)) = donation_allocations L"
  "receipts (snd (store_splits E e ps L)) = receipts L"
  "expense_receipts (snd (store_splits E e ps L)) = expense_receipts L"
  "organization (snd (store_splits E e ps L)) = organization L"
  by (induction ps arbitrary: L)
    (auto simp: store_splits_Cons Let_def simp del: store_splits.simps(2))

lemma charge_window:
  assumes "fresh_window E L m"
  shows "fresh_window E (L\<lparr>uuid_draws := Suc (uuid_draws L), expense_allocations :=
    dset (fresh_name E ''ea'' (uuid_draws L)) ea (expense_allocations L)\<rparr>) m" (is "fresh_window E ?L m")
  using assms
proof (rule fresh_window_keep)
  fix n
  assume "uuid_draws ?L \<le> n" "n < m" and u: "unused E L n"
  then have "uuid4_hex E (uuid_draws L) \<noteq> uuid4_hex E n"
    using assms by (intro fresh_window_distinct) auto
  then show "unused E ?L n" using u by (auto simp: unused_def)
qed simp

lemma store_splits_window: "fresh_window E L m \<Longrightarrow> fresh_window E (snd (store_splits E e ps L)) m"
  by (induction ps arbitrary: L)
    (auto simp: store_splits_Cons Let_def charge_window simp del: store_splits.simps(2))

lemma store_splits_result:
  "map ea_allocation (fst (store_splits E e ps L)) = map fst ps"
  "map ea_amount (fst (store_splits E e ps L)) = map snd ps"
  "ea \<in> set (fst (store_splits E e ps L)) \<Longrightarrow> ea_expense ea = e"
  by (induction ps arbitrary: L)
    (auto simp: store_splits_Cons Let_def simp del: store_splits.simps(2))

lemma store_splits_values:
  "fresh_window E L m \<Longrightarrow> uuid_draws L + length ps \<le> m \<Longrightarrow>
     dvalues (expense_allocations (snd (store_splits E e ps L))) =
       dvalues (expense_allocations L) @ fst (store_splits E e ps L)"
proof (induction ps arbitrary: L)
  case (Cons p ps)
  have "unused E L (uuid_draws L)"
    using Cons.prems by (intro fresh_window_unused [of _ _ m]) auto
  then have new: "dget (expense_allocations L) (fresh_name E ''ea'' (uuid_draws L)) = None"
    by (simp add: unused_def)
  obtain a amt where p: "p = (a, amt)" by (cases p)
  show ?case
    using Cons.prems
    by (simp add: p store_splits_Cons Let_def Cons.IH dset_fresh [OF new]
        charge_window [OF Cons.prems(1), unfolded dset_fresh [OF new]] del: store_splits.simps(2))
qed simp

lemma store_splits_effects:
  assumes "dget (expenses L) e = Some x" "\<not> verified_state (exp_state x)"
    "\<not> corrected_state (exp_state x)"
    "\<forall>p \<in> set ps. dget (allocations L) (fst p) \<noteq> None \<and> 0 < snd p"
    "fr \<Longrightarrow> fresh_window E L m" "uuid_draws L + length ps \<le> m"
  shows "effects fr L (snd (store_splits E e ps L))"
  using assms
proof (induction ps arbitrary: L)
  case (Cons p rest)
  obtain a amt where p: "p = (a, amt)" by (cases p)
  let ?i = "fresh_name E ''ea'' (uuid_draws L)" and ?L1 = "L\<lparr>uuid_draws := uuid_draws L + 1\<rparr>"
  let ?ea = "\<lparr>ea_id = ?i, ea_expense = e, ea_allocation = a, ea_amount = amt\<rparr>"
  let ?L2 = "?L1\<lparr>expense_allocations := dset ?i ?ea (expense_allocations ?L1)\<rparr>"
  have win: "fresh_window E ?L2 m" if fr
    using Cons.prems(5) [OF that] by (simp add: charge_window)
  have "effect fr ?L1 ?L2"
    using Cons.prems fresh_window_unused [of E L m "uuid_draws L"]
    by (intro E_charge [of _ e x]) (auto simp: unused_def p)
  then have "effects fr L ?L2" by (blast intro: effects_draws effects_snoc)
  moreover have "effects fr ?L2 (snd (store_splits E e rest ?L2))"
    using Cons.prems win by (intro Cons.IH) (simp_all add: p)
  ultimately have "effects fr L (snd (store_splits E e rest ?L2))"
    by (rule effects_trans)
  then show ?case by (simp add: p store_splits_Cons Let_def del: store_splits.simps)
qed simp

lemma allocate_expense_splits_effects:
  assumes "fr \<Longrightarrow> fresh_window E L m" and "uuid_draws (snd (allocate_expense_splits E e sp L)) \<le> m"
  shows "effects fr L (snd (allocate_expense_splits E e sp L))"
  using assms(2) unfolding allocate_expense_splits_def
proof (intro effects_branch, simp_all add: require_simps, goal_cases)
  case (1 x parsed)
  let ?L1 = "L\<lparr>expense_allocations := dfilter (\<lambda>v. ea_expense v \<noteq> e) (expense_allocations L)\<rparr>"
  let ?L2 = "snd (store_splits E e parsed ?L1)"
  have "uuid_draws L + length parsed \<le> m"
    using 1 by (simp add: split_beta to_approval_pending_def store_splits_frame split: if_splits)
  moreover have "fresh_window E ?L1 m" if fr
    using assms(1) [OF that] by (rule fresh_window_keep) (auto simp: unused_def intro: dget_dfilter_None)
  ultimately have "effects fr ?L1 ?L2"
    using 1 parse_splits_ok by (intro store_splits_effects [of _ _ x]) auto
  moreover have "effect fr L ?L1" using 1 by (intro E_clear) auto
  ultimately have "effects fr L ?L2" by (rule converse_rtranclp_into_rtranclp [rotated])
  then have "effects fr L (to_approval_pending e x ?L2)"
    using 1 by (intro to_approval_pending_effects) (simp_all add: store_splits_frame)
  then show ?case by (rule effects_audit)
qed

subsection \<open>Attribution and receipts\<close>

lemma attribute_donor_to_expense_effects:
  "effects fr L (snd (attribute_donor_to_expense E dn d e a m amt g L))"
  unfolding attribute_donor_to_expense_def
proof (intro effects_branch, simp_all add: require_simps, goal_cases)
  case (1 don x amt')
  let ?F = "\<lambda>L. L\<lparr>attributions := dfilter (\<lambda>t. \<not> same_link d e a t) (attributions L)\<rparr>"
  have swap: "snd (id_or_new E g ''attr'' (?F L)) = ?F (snd (id_or_new E g ''attr'' L))"
    "fst (id_or_new E g ''attr'' (?F L)) = fst (id_or_new E g ''attr'' L)"
    by (simp_all add: id_or_new_def new_id_def)
  show ?case
    using 1 effects_audit [OF effects_id_then [OF E_attribute [of "snd (id_or_new E g ''attr'' L)" d don dn e a m amt']]]
    by (simp add: swap expense_charge_on_def active_attribution_total_def donor_designated_def
        expense_active_def)
qed

lemma publish_use_of_funds_receipt_effects:
  "effects fr L (snd (publish_use_of_funds_receipt E e d a actor created L))"
  unfolding publish_use_of_funds_receipt_def
proof (intro effects_branch, simp_all add: require_simps, goal_cases)
  case (1 x don al t rem drem)
  then show ?case
    by (blast intro: effects_new_id effects_time_or_now)
next
  case (2 x don al t rem drem)
  show ?case
    apply (rule effects_audit)
    apply (rule effects_snoc)
     apply (rule effects_new_id)
     apply (rule effects_time_or_now)
     apply (rule rtranclp.rtrancl_refl)
    apply (rule E_publish)
    using 2 apply (simp_all add: find_attribution_def find_live_receipt_def)
    done
qed

subsection \<open>Corrections\<close>

lemma publish_correction_receipt_frame:
  "expenses (snd (publish_correction_receipt E prior e actor kind why rep L)) = expenses L"
  "donation_allocations (snd (publish_correction_receipt E prior e actor kind why rep L)) =
     donation_allocations L"
  "expense_allocations (snd (publish_correction_receipt E prior e actor kind why rep L)) =
     expense_allocations L"
  "uuid_draws L < uuid_draws (snd (publish_correction_receipt E prior e actor kind why rep L))"
  "k \<noteq> fresh_name E ''uofc'' (uuid_draws L) \<Longrightarrow>
     dget (receipts (snd (publish_correction_receipt E prior e actor kind why rep L))) k =
       dget (receipts L) k"
  by (auto simp: publish_correction_receipt_def split_beta Let_def split: sum.splits)

lemma publish_correction_receipt_window:
  assumes "fresh_window E L m"
  shows "fresh_window E (snd (publish_correction_receipt E prior e actor kind why rep L)) m"
  using assms
proof (rule fresh_window_keep)
  let ?L' = "snd (publish_correction_receipt E prior e actor kind why rep L)"
  show "uuid_draws L \<le> uuid_draws ?L'" by (simp add: publish_correction_receipt_frame less_imp_le)
  fix n
  assume n: "uuid_draws ?L' \<le> n" "n < m" and u: "unused E L n"
  have "uuid_draws L < n" using n(1) publish_correction_receipt_frame(4) less_le_trans by blast
  then have "uuid4_hex E (uuid_draws L) \<noteq> uuid4_hex E n"
    using assms n(2) by (intro fresh_window_distinct) auto
  then show "unused E ?L' n"
    using u by (auto simp: unused_def publish_correction_receipt_frame)
qed

lemma publish_correction_receipt_effects:
  assumes "dget (receipts L) rid = Some prior" "dget (expenses L) k = Some e"
    "corrected_state (exp_state e)" "fr \<Longrightarrow> unused E L (uuid_draws L)"
  shows "effects fr L (snd (publish_correction_receipt E prior e actor kind why rep L))"
  unfolding publish_correction_receipt_def
proof (intro effects_branch, simp_all, goal_cases)
  case (1 x)
  show ?case by (blast intro: effects_new_id effects_read_clock)
next
  case (2 rem)
  have "effects fr L (snd (new_id E ''uofc'' (snd (read_clock E L))))"
    by (blast intro: effects_new_id effects_read_clock)
  then show ?case
    using assms
    by (intro conjI impI effects_audit effects_snoc [OF _ E_correction [of _ rid prior _ k e]])
      (simp_all add: unused_def)
qed

lemma draws_and_then:
  "uuid_draws L \<le> uuid_draws (snd r) \<Longrightarrow> (\<And>a. uuid_draws (snd r) \<le> uuid_draws (snd (f a (snd r)))) \<Longrightarrow>
     uuid_draws L \<le> uuid_draws (snd (and_then r f))"
  by (cases r; cases "fst r") (auto intro: order_trans)

lemma snd_and_then_return: "snd (and_then r (\<lambda>cs s. (Inr (f cs), s))) = snd r"
  by (cases r; cases "fst r") auto

lemma reversal_loop_draws: "uuid_draws L \<le> uuid_draws (snd (reversal_loop E e actor why snaps ids L))"
  by (induction ids arbitrary: L)
    (auto simp: snd_and_then_return split: option.splits sum.splits intro!: draws_and_then
      less_imp_le [OF publish_correction_receipt_frame(4)])

lemma supersede_loop_draws: "uuid_draws L \<le> uuid_draws (snd (supersede_loop E e actor why rep ids L))"
  by (induction ids arbitrary: L)
    (auto simp: snd_and_then_return split: option.splits sum.splits intro!: draws_and_then
      less_imp_le [OF publish_correction_receipt_frame(4)])

text \<open>Sequencing with a bound on the identifiers drawn until the end.\<close>

lemma effects_then_bounded:
  assumes first: "uuid_draws (snd r) \<le> m \<Longrightarrow> effects fr L (snd r)"
    and mono: "\<And>a s. uuid_draws s \<le> uuid_draws (snd (f a s))"
    and bound: "uuid_draws (snd (and_then r f)) \<le> m"
    and rest: "\<And>a s. r = (Inr a, s) \<Longrightarrow> uuid_draws s \<le> m \<Longrightarrow> uuid_draws (snd (f a s)) \<le> m \<Longrightarrow>
      effects fr s (snd (f a s))"
  shows "effects fr L (snd (and_then r f))"
proof -
  obtain v s where r: "r = (v, s)" by (cases r)
  show ?thesis
  proof (cases v)
    case (Inr a)
    then have m: "uuid_draws (snd (f a s)) \<le> m" "uuid_draws s \<le> m"
      using bound r mono [of s a] by simp_all
    then show ?thesis using first rest [of a s] r Inr by (auto intro: effects_trans)
  qed (use first bound r in simp)
qed

lemma correction_step_effects:
  assumes "dget (receipts L) rid = Some prior" "dget (expenses L) k = Some e"
    "corrected_state (exp_state e)" "fr \<Longrightarrow> fresh_window E L m"
    and draws: "\<And>c L1. uuid_draws L1 \<le> uuid_draws (snd (f c L1))"
    and m: "uuid_draws (snd (and_then (publish_correction_receipt E prior e actor kind why rep L) f)) \<le> m"
    and rest: "\<And>c L1. publish_correction_receipt E prior e actor kind why rep L = (Inr c, L1) \<Longrightarrow>
      dget (expenses L1) k = Some e \<Longrightarrow> (fr \<Longrightarrow> fresh_window E L1 m) \<Longrightarrow>
      uuid_draws (snd (f c L1)) \<le> m \<Longrightarrow> effects fr L1 (snd (f c L1))"
  shows "effects fr L (snd (and_then (publish_correction_receipt E prior e actor kind why rep L) f))"
    (is "effects fr L (snd (and_then ?r f))")
proof (rule effects_then_bounded [OF _ draws m])
  assume "uuid_draws (snd ?r) \<le> m"
  then have "uuid_draws L < m" using publish_correction_receipt_frame(4) less_le_trans by blast
  then show "effects fr L (snd ?r)"
    using assms(1-4) by (auto intro: publish_correction_receipt_effects fresh_window_unused)
next
  fix c L1
  assume r: "?r = (Inr c, L1)" and "uuid_draws (snd (f c L1)) \<le> m"
  moreover have "L1 = snd ?r" by (simp add: r)
  ultimately show "effects fr L1 (snd (f c L1))"
    using assms(2,4) by (intro rest)
      (auto simp: publish_correction_receipt_frame intro: publish_correction_receipt_window)
qed

lemma reversal_loop_effects:
  assumes "dget (expenses L) k = Some e" "corrected_state (exp_state e)" "fr \<Longrightarrow> fresh_window E L m"
    "uuid_draws (snd (reversal_loop E e actor why snaps ids L)) \<le> m"
  shows "effects fr L (snd (reversal_loop E e actor why snaps ids L))"
  using assms
proof (induction ids arbitrary: L fr)
  case (Cons rid ids)
  show ?case
    using Cons.prems
    by (auto split: option.splits sum.splits simp: snd_and_then_return reversal_loop_draws
        intro!: correction_step_effects [of _ _ _ k] Cons.IH)
qed simp

lemma supersede_loop_effects:
  assumes "dget (expenses L) k = Some e" "corrected_state (exp_state e)" "fr \<Longrightarrow> fresh_window E L m"
    "uuid_draws (snd (supersede_loop E e actor why rep ids L)) \<le> m"
  shows "effects fr L (snd (supersede_loop E e actor why rep ids L))"
  using assms
proof (induction ids arbitrary: L fr)
  case (Cons rid ids)
  show ?case
    using Cons.prems
    by (auto split: option.splits sum.splits simp: snd_and_then_return supersede_loop_draws
        intro!: correction_step_effects [of _ _ _ k] Cons.IH)
qed simp

lemma effects_snd_return: "effects fr L (snd r) \<Longrightarrow> effects fr L (snd (and_then r (\<lambda>a s. (Inr (f a), s))))"
  by (simp add: snd_and_then_return)

lemma reverse_expense_effects:
  assumes "fr \<Longrightarrow> fresh_window E L m" and "uuid_draws (snd (reverse_expense E e actor why L)) \<le> m"
  shows "effects fr L (snd (reverse_expense E e actor why L))"
  using assms(2) unfolding reverse_expense_def
proof (intro effects_branch effects_snd_return, simp_all add: require_simps snd_and_then_return, goal_cases)
  case (1 x snaps)
  let ?rev = "(with_expense_state x REVERSED)\<lparr>exp_history_note := Some why\<rparr>"
  let ?L0 = "L\<lparr>expenses := dset e ?rev (expenses L)\<rparr>"
  let ?p = "JObj [(''reason'', JStr why), (''prior_receipts'', JList (map JStr (prior_receipt_ids L e)))]"
  let ?L1 = "audit E ''ExpenseReversed'' ''Expense'' e actor ?p ?L0"
  have "effect fr L ?L0" using 1 by (intro E_correct) auto
  then have "effects fr L ?L1" by (rule effects_audit1)
  moreover have "fresh_window E ?L1 m" if fr
    using assms(1) [OF that] by (rule fresh_window_keep) (auto simp: unused_def)
  then have "effects fr ?L1 (snd (reversal_loop E ?rev actor why snaps (prior_receipt_ids L e) ?L1))"
    using 1 by (intro reversal_loop_effects [of _ e]) (simp_all add: with_expense_state_def Let_def snd_and_then_return)
  ultimately show ?case by (rule effects_trans)
qed

lemma allocate_expense_splits_charges:
  assumes "allocate_expense_splits E e sp L = (Inr eas, L')" "fresh_window E L m" "uuid_draws L' \<le> m"
  shows "expense_allocations_for L' e = eas" "map ea_allocation eas = map fst sp"
proof -
  obtain x parsed where ps: "parse_splits L sp = Inr parsed"
    and L': "\<exists>p. L' = audit E ''ExpenseAllocated'' ''Expense'' e ''system'' p
      (to_approval_pending e x (snd (store_splits E e parsed
        (L\<lparr>expense_allocations := dfilter (\<lambda>v. ea_expense v \<noteq> e) (expense_allocations L)\<rparr>))))"
    and eas: "eas = fst (store_splits E e parsed
        (L\<lparr>expense_allocations := dfilter (\<lambda>v. ea_expense v \<noteq> e) (expense_allocations L)\<rparr>))"
    using assms(1)
    by (auto simp: allocate_expense_splits_def split_beta Let_def split: sum.splits if_splits)
  let ?L0 = "L\<lparr>expense_allocations := dfilter (\<lambda>v. ea_expense v \<noteq> e) (expense_allocations L)\<rparr>"
  have win: "fresh_window E ?L0 m"
    using assms(2) by (rule fresh_window_keep) (auto simp: unused_def intro: dget_dfilter_None)
  have "expense_allocations L' = expense_allocations (snd (store_splits E e parsed ?L0))"
    and "uuid_draws L + length parsed \<le> m"
    using L' assms(3) by (auto simp: to_approval_pending_def store_splits_frame split: if_splits)
  then have "dvalues (expense_allocations L') =
      filter (\<lambda>v. ea_expense v \<noteq> e) (dvalues (expense_allocations L)) @ eas"
    using store_splits_values [OF win, of parsed e] eas by simp
  moreover have "filter (\<lambda>v. ea_expense v = e) eas = eas"
    using store_splits_result(3) by (auto simp: eas filter_id_conv)
  ultimately show "expense_allocations_for L' e = eas"
    by (simp add: expense_allocations_for_def)
  show "map ea_allocation eas = map fst sp"
    using parse_splits_ok [OF ps] by (simp add: eas store_splits_result)
qed

lemma other_expense_frame:
  assumes "k \<noteq> e"
  shows "dget (expenses (snd (allocate_expense_splits E e sp L))) k = dget (expenses L) k"
    "dget (expenses (snd (approve_expense E e by L))) k = dget (expenses L) k"
    "exp_id x = e \<Longrightarrow> dget (expenses (snd (import_expense E x L))) k = dget (expenses L) k"
  using assms
  by (auto simp: allocate_expense_splits_def approve_expense_def import_expense_def split_beta Let_def
      to_approval_pending_def store_splits_frame split: sum.splits)

lemma supersede_windows:
  assumes "fresh_window E L m"
  shows "fresh_window E (snd (allocate_expense_splits E e sp L)) m"
    "fresh_window E (snd (approve_expense E e by L)) m"
    "fresh_window E (snd (import_expense E x L)) m"
    "fresh_window E (audit E ev et ei ac p L) m"
proof -
  have same: "fresh_window E L' m" if "fresh_window E K m" "uuid_draws K \<le> uuid_draws L'"
    "donation_allocations L' = donation_allocations K" "expense_allocations L' = expense_allocations K"
    "receipts L' = receipts K" for K L'
    using that by (auto simp: unused_def intro!: fresh_window_keep [of E K])
  let ?L0 = "L\<lparr>expense_allocations := dfilter (\<lambda>v. ea_expense v \<noteq> e) (expense_allocations L)\<rparr>"
  have "fresh_window E ?L0 m"
    using assms by (rule fresh_window_keep) (auto simp: unused_def intro: dget_dfilter_None)
  then have *: "fresh_window E (snd (store_splits E e ps ?L0)) m" for ps by (rule store_splits_window)
  show "fresh_window E (snd (allocate_expense_splits E e sp L)) m"
    using assms by (auto simp: allocate_expense_splits_def split_beta Let_def to_approval_pending_def
        split: sum.splits intro!: same [OF *])
  show "fresh_window E (snd (approve_expense E e by L)) m"
    using assms by (auto simp: approve_expense_def Let_def split: sum.splits intro: same [OF assms])
  show "fresh_window E (snd (import_expense E x L)) m"
    using assms by (auto simp: import_expense_def Let_def intro: same [OF assms])
  show "fresh_window E (audit E ev et ei ac p L) m"
    using assms by (auto intro: same [OF assms])
qed

lemma approve_expense_draws: "uuid_draws L \<le> uuid_draws (snd (approve_expense E e by L))"
  by (rule effects_draws_mono [of False]) (simp add: approve_expense_effects)

lemma allocate_expense_splits_draws: "uuid_draws L \<le> uuid_draws (snd (allocate_expense_splits E e sp L))"
  by (rule effects_draws_mono [of False]) (blast intro: allocate_expense_splits_effects)

text \<open>The tail of a supersede: charge and approve the replacement, then the corrections.\<close>

abbreviation finish_tail ::
  "env \<Rightarrow> string \<Rightarrow> expense \<Rightarrow> string \<Rightarrow> string \<Rightarrow> string \<Rightarrow> string list \<Rightarrow> json \<Rightarrow> expense \<Rightarrow> ledger \<Rightarrow>
     (expense \<times> expense \<times> use_of_funds_receipt list) outcome \<times> ledger" where
  "finish_tail E k x actor why rep ids p \<equiv> (\<lambda>approved L4.
     and_then (supersede_loop E x actor why rep ids (audit E ''ExpenseSuperseded'' ''Expense'' k actor p L4))
       (\<lambda>cs L6. (Inr (x, approved, cs), L6)))"

abbreviation approve_tail ::
  "env \<Rightarrow> string \<Rightarrow> string \<Rightarrow> string \<Rightarrow> expense \<Rightarrow> string \<Rightarrow> string \<Rightarrow> string list \<Rightarrow> json \<Rightarrow> ledger \<Rightarrow>
     (expense \<times> expense \<times> use_of_funds_receipt list) outcome \<times> ledger" where
  "approve_tail E rep by k x actor why ids p \<equiv> (\<lambda>L3.
     and_then (approve_expense E rep by L3) (finish_tail E k x actor why rep ids p))"

abbreviation charge_tail ::
  "env \<Rightarrow> string \<Rightarrow> (string \<times> rat) list \<Rightarrow> string \<Rightarrow> string \<Rightarrow> expense \<Rightarrow> string \<Rightarrow> string \<Rightarrow> string list \<Rightarrow>
     json \<Rightarrow> ledger \<Rightarrow> (expense \<times> expense \<times> use_of_funds_receipt list) outcome \<times> ledger" where
  "charge_tail E rep sp by k x actor why ids p \<equiv> (\<lambda>L2.
     and_then (allocate_expense_splits E rep sp L2) (\<lambda>_. approve_tail E rep by k x actor why ids p))"

lemma finish_tail_draws: "uuid_draws L \<le> uuid_draws (snd (finish_tail E k x actor why rep ids p a L))"
  using supersede_loop_draws [of "audit E ''ExpenseSuperseded'' ''Expense'' k actor p L"]
  by (simp add: snd_and_then_return Suc_leD)

lemma approve_tail_draws: "uuid_draws L \<le> uuid_draws (snd (approve_tail E rep by k x actor why ids p L))"
  by (intro draws_and_then approve_expense_draws finish_tail_draws)

lemma charge_tail_draws: "uuid_draws L \<le> uuid_draws (snd (charge_tail E rep sp by k x actor why ids p L))"
  by (intro draws_and_then allocate_expense_splits_draws approve_tail_draws)

lemma finish_tail_effects:
  assumes "dget (expenses L) k = Some x" "corrected_state (exp_state x)" "fr \<Longrightarrow> fresh_window E L m"
    and "uuid_draws (snd (finish_tail E k x actor why rep ids p a L)) \<le> m"
  shows "effects fr L (snd (finish_tail E k x actor why rep ids p a L))"
proof -
  let ?L = "audit E ''ExpenseSuperseded'' ''Expense'' k actor p L"
  have "effects fr ?L (snd (supersede_loop E x actor why rep ids ?L))"
    using assms supersede_windows(4) by (intro supersede_loop_effects [of _ k]) (auto simp: snd_and_then_return)
  then show ?thesis
    by (simp add: snd_and_then_return) (blast intro: effects_trans effects_audit)
qed

lemma approve_tail_effects:
  assumes "dget (expenses L) k = Some x" "corrected_state (exp_state x)" "k \<noteq> rep"
    and "fr \<Longrightarrow> fresh_window E L m" "fr \<Longrightarrow> distinct (map ea_allocation (expense_allocations_for L rep))"
    and m: "uuid_draws (snd (approve_tail E rep by k x actor why ids p L)) \<le> m"
  shows "effects fr L (snd (approve_tail E rep by k x actor why ids p L))"
proof (rule effects_then_bounded [OF _ finish_tail_draws m])
  fix a L4
  assume r: "approve_expense E rep by L = (Inr a, L4)"
    and m4: "uuid_draws (snd (finish_tail E k x actor why rep ids p a L4)) \<le> m"
  have "L4 = snd (approve_expense E rep by L)" by (simp add: r)
  then show "effects fr L4 (snd (finish_tail E k x actor why rep ids p a L4))"
    using assms m4 other_expense_frame(2) supersede_windows(2) by (intro finish_tail_effects) auto
qed (use assms in \<open>blast intro: approve_expense_effects\<close>)

lemma charge_tail_effects:
  assumes "dget (expenses L) k = Some x" "corrected_state (exp_state x)" "k \<noteq> rep"
    and fr: "fr \<Longrightarrow> fresh_window E L m" "fr \<Longrightarrow> distinct (map fst sp)"
    and m: "uuid_draws (snd (charge_tail E rep sp by k x actor why ids p L)) \<le> m"
  shows "effects fr L (snd (charge_tail E rep sp by k x actor why ids p L))"
proof (rule effects_then_bounded [OF _ approve_tail_draws m])
  fix eas L3
  assume r: "allocate_expense_splits E rep sp L = (Inr eas, L3)" and d3: "uuid_draws L3 \<le> m"
    and m3: "uuid_draws (snd (approve_tail E rep by k x actor why ids p L3)) \<le> m"
  have L3: "L3 = snd (allocate_expense_splits E rep sp L)" by (simp add: r)
  have "distinct (map ea_allocation (expense_allocations_for L3 rep))" if fr
    using allocate_expense_splits_charges [OF r _ d3] fr [OF that] by simp
  then show "effects fr L3 (snd (approve_tail E rep by k x actor why ids p L3))"
    using assms m3 other_expense_frame(1) supersede_windows(1) L3 by (intro approve_tail_effects) auto
qed (use fr in \<open>blast intro: allocate_expense_splits_effects\<close>)

lemma supersede_expense_effects:
  assumes fr: "fr \<Longrightarrow> fresh_window E L m" "fr \<Longrightarrow> distinct (map fst sp)"
    and m: "uuid_draws (snd (supersede_expense E e rep sp actor why by L)) \<le> m"
  shows "effects fr L (snd (supersede_expense E e rep sp actor why by L))"
proof (cases "\<exists>old. dget (expenses L) e = Some old \<and> verified_state (exp_state old)")
  case True
  then obtain old where old: "dget (expenses L) e = Some old" "verified_state (exp_state old)" by blast
  let ?x = "(with_expense_state old SUPERSEDED)\<lparr>exp_history_note := Some why\<rparr>"
  let ?L1 = "L\<lparr>expenses := dset e ?x (expenses L)\<rparr>"
  let ?rep = "rep\<lparr>exp_state := IMPORTED, exp_approved_by := None, exp_reconciled_at := None,
    exp_reversed_of := None, exp_supersedes := Some e, exp_history_note := Some why\<rparr>"
  let ?p = "JObj [(''replacement_id'', JStr (exp_id rep)), (''reason'', JStr why)]"
  let ?tail = "\<lambda>_. charge_tail E (exp_id rep) sp by e ?x actor why (prior_receipt_ids L e) ?p"
  have E1: "effect fr L ?L1" using old by (intro E_correct) auto
  show ?thesis
  proof (cases "exp_id rep = e \<or> exp_org rep \<noteq> org_id (organization L)")
    case True
    then show ?thesis using E1 old by (auto simp: supersede_expense_def require_expense_def Let_def)
  next
    case False
    have eq: "supersede_expense E e rep sp actor why by L = and_then (import_expense E ?rep ?L1) ?tail"
      using old False by (simp add: supersede_expense_def require_expense_def Let_def)
    have "effects fr ?L1 (snd (and_then (import_expense E ?rep ?L1) ?tail))"
    proof (rule effects_then_bounded [OF import_expense_effects charge_tail_draws m [unfolded eq]])
      fix i L2
      assume r: "import_expense E ?rep ?L1 = (Inr i, L2)" and m2: "uuid_draws (snd (?tail i L2)) \<le> m"
      have L2: "L2 = snd (import_expense E ?rep ?L1)" by (simp add: r)
      have "fresh_window E ?L1 m" if fr
        using fr(1) [OF that] by (rule fresh_window_keep) (auto simp: unused_def)
      moreover have "dget (expenses L2) e = Some ?x"
        using False other_expense_frame(3) [of e "exp_id rep" ?rep E ?L1] by (auto simp: L2)
      ultimately show "effects fr L2 (snd (?tail i L2))"
        using fr False m2 supersede_windows(3) L2
        by (intro charge_tail_effects) (auto simp: with_expense_state_def)
    qed
    then show ?thesis using E1 eq by (metis converse_rtranclp_into_rtranclp)
  qed
next
  case False
  then show ?thesis by (auto simp: supersede_expense_def require_expense_def split: option.splits)
qed

section \<open>Disciplined commands\<close>

text \<open>
  The side condition the code leaves to its callers: an identifier passed by the caller is unused
  (the code overwrites silently), the identifiers \<^verbatim>\<open>uuid4\<close> draws during the command are distinct and
  unused, and an expense is charged at most once to each fund.
\<close>

fun disciplined :: "env \<Rightarrow> ledger \<Rightarrow> ledger_cmd \<Rightarrow> bool" where
  "disciplined E L (AssignDonationAllocation d a amt i) =
     (\<not> dhas (donation_allocations L) (fst (id_or_new E i ''da'' L)))"
| "disciplined E L (AllocateExpense e a amt i) =
     (\<not> dhas (expense_allocations L) (fst (id_or_new E i ''ea'' L)))"
| "disciplined E L (AllocateExpenseSplits e sp) =
     fresh_window E L (uuid_draws (ledger_step E L (AllocateExpenseSplits e sp)))"
| "disciplined E L (ApproveExpense e by) =
     distinct (map ea_allocation (expense_allocations_for L e))"
| "disciplined E L (ReverseExpense e actor why) =
     fresh_window E L (uuid_draws (ledger_step E L (ReverseExpense e actor why)))"
| "disciplined E L (SupersedeExpense e r sp actor why by) =
     (fresh_window E L (uuid_draws (ledger_step E L (SupersedeExpense e r sp actor why by))) \<and>
      distinct (map fst sp))"
| "disciplined E L _ = True"

lemmas mutation_effects =
  register_donor_effects import_donation_effects register_allocation_effects
  assign_donation_allocation_effects import_expense_effects attach_evidence_effects
  allocate_expense_effects approve_expense_effects
  reconcile_expense_effects attribute_donor_to_expense_effects publish_use_of_funds_receipt_effects

lemma mutate_effects:
  "effects fr L (snd (mutate_receipt i L))" "effects fr L (snd (mutate_approved_expense i L))"
  by (auto simp: mutate_receipt_def mutate_approved_expense_def split: sum.splits)

text \<open>The refinement: every command is a sequence of the primitive changes.\<close>

lemma ledger_step_effects:
  assumes "fr \<Longrightarrow> disciplined E L c"
  shows "effects fr L (ledger_step E L c)"
proof (cases c)
  case (AllocateExpenseSplits e sp)
  show ?thesis unfolding AllocateExpenseSplits ledger_step.simps
    by (rule allocate_expense_splits_effects [OF _ order_refl]) (use assms AllocateExpenseSplits in simp)
next
  case (ReverseExpense e actor why)
  show ?thesis unfolding ReverseExpense ledger_step.simps
    by (rule reverse_expense_effects [OF _ order_refl]) (use assms ReverseExpense in simp)
next
  case (SupersedeExpense e r sp actor why who)
  show ?thesis unfolding SupersedeExpense ledger_step.simps
    by (rule supersede_expense_effects [OF _ _ order_refl]) (use assms SupersedeExpense in simp_all)
qed (use assms in \<open>auto intro!: mutation_effects mutate_effects\<close>)

text \<open>A property kept by every primitive change is kept by every command.\<close>

lemma effects_keep:
  assumes "effects fr L L'" and "I L" and "\<And>K K'. effect fr K K' \<Longrightarrow> I K \<Longrightarrow> I K'"
  shows "I L'"
  using assms(1,2) by (induction rule: rtranclp_induct) (auto intro: assms(3))

inductive_cases effectE: "effect fr L L'"

end
