(* ===== verification/Ledger_Invariants.thy ===== *)
theory Ledger_Invariants
  imports Ledger_Effects
begin

text \<open>
  The invariants of the ledger, each kept by every primitive change of the step relation: the
  shape of the stores, coverage of donations, funds and donor designations, the charges of
  approved expenses, and the receipts with their snapshots and links.
\<close>

section \<open>Shape of the stores\<close>

definition wf_stores :: "ledger \<Rightarrow> bool" where
  "wf_stores L \<longleftrightarrow>
     dict_ok (donors L) \<and> dict_ok (donations L) \<and> dict_ok (allocations L) \<and>
     dict_ok (donation_allocations L) \<and> dict_ok (expenses L) \<and> dict_ok (expense_allocations L) \<and>
     dict_ok (evidence L) \<and> dict_ok (attributions L) \<and> dict_ok (receipts L)"

definition wf_parties :: "ledger \<Rightarrow> bool" where
  "wf_parties L \<longleftrightarrow>
     dall (\<lambda>k d. donor_id d = k \<and> donor_org d = org_id (organization L)) (donors L) \<and>
     dall (\<lambda>k a. alloc_id a = k \<and> alloc_org a = org_id (organization L)) (allocations L) \<and>
     dall (\<lambda>k d. don_id d = k \<and> 0 < don_amount d \<and> dget (donors L) (don_donor d) \<noteq> None) (donations L) \<and>
     dall (\<lambda>k x. exp_id x = k \<and> 0 < exp_amount x) (expenses L) \<and>
     dall (\<lambda>k v. ev_id v = k \<and> dget (expenses L) (ev_expense v) \<noteq> None) (evidence L)"

definition cleared_in :: "ledger \<Rightarrow> string \<Rightarrow> bool" where
  "cleared_in L d \<longleftrightarrow> (\<exists>don. dget (donations L) d = Some don \<and> don_cleared don)"

definition owns_in :: "ledger \<Rightarrow> string \<Rightarrow> string \<Rightarrow> bool" where
  "owns_in L dn d \<longleftrightarrow> (\<exists>don. dget (donations L) d = Some don \<and> don_donor don = dn)"

definition wf_links :: "ledger \<Rightarrow> bool" where
  "wf_links L \<longleftrightarrow>
     dall (\<lambda>k x. da_id x = k \<and> 0 < da_amount x \<and> cleared_in L (da_donation x) \<and>
       dget (allocations L) (da_allocation x) \<noteq> None) (donation_allocations L) \<and>
     dall (\<lambda>k x. ea_id x = k \<and> 0 < ea_amount x \<and> dget (expenses L) (ea_expense x) \<noteq> None \<and>
       dget (allocations L) (ea_allocation x) \<noteq> None) (expense_allocations L) \<and>
     dall (\<lambda>k t. at_id t = k \<and> 0 < at_amount t \<and> at_method t \<noteq> NO_METHOD \<and>
       owns_in L (at_donor t) (at_donation t) \<and> dget (expenses L) (at_expense t) \<noteq> None \<and>
       dget (allocations L) (at_allocation t) \<noteq> None) (attributions L) \<and>
     dall (\<lambda>k r. r_id r = k \<and> dget (expenses L) (r_expense r) \<noteq> None) (receipts L)"

definition ledger_wf :: "ledger \<Rightarrow> bool" where
  "ledger_wf L \<longleftrightarrow> wf_stores L \<and> wf_parties L \<and> wf_links L"

lemma effect_wf_stores: "effect fr L L' \<Longrightarrow> wf_stores L \<Longrightarrow> wf_stores L'"
  by (induction rule: effect.induct) (simp_all add: wf_stores_def)

text \<open>References never dangle: no change removes a party, a donation, a fund or an expense.\<close>

lemma effect_refs:
  assumes "effect fr L L'"
  shows "organization L' = organization L"
    "dget (donors L) k \<noteq> None \<Longrightarrow> dget (donors L') k \<noteq> None"
    "dget (donations L) k = Some d \<Longrightarrow> dget (donations L') k = Some d"
    "dget (allocations L) k \<noteq> None \<Longrightarrow> dget (allocations L') k \<noteq> None"
    "dget (expenses L) k \<noteq> None \<Longrightarrow> dget (expenses L') k \<noteq> None"
  using assms by (auto elim!: effectE)

lemma with_expense_state_facts [simp]:
  "exp_id (with_expense_state x s) = exp_id x" "exp_amount (with_expense_state x s) = exp_amount x"
  "exp_state (with_expense_state x s) = s"
  by (simp_all add: with_expense_state_def)

lemma effect_wf_parties:
  assumes "effect fr L L'" and "wf_parties L"
  shows "wf_parties L'"
proof -
  note refs = effect_refs [OF assms(1)]
  have mono: "dall (\<lambda>k d. don_id d = k \<and> 0 < don_amount d \<and> dget (donors L') (don_donor d) \<noteq> None) (donations L)"
    "dall (\<lambda>k v. ev_id v = k \<and> dget (expenses L') (ev_expense v) \<noteq> None) (evidence L)"
    using assms(2) refs unfolding wf_parties_def dall_def list_all_iff by fast+
  have key: "exp_id x = e \<and> 0 < exp_amount x" if "dget (expenses L) e = Some x" for e x
    using assms(2) that by (auto simp: wf_parties_def dest: dall_dget)
  show ?thesis
    using assms(1) mono assms(2)
    by cases (auto simp: wf_parties_def dest: key intro!: dall_dset)
qed

lemma effect_wf_links:
  assumes "effect fr L L'" and "wf_links L" and "wf_parties L"
  shows "wf_links L'"
proof -
  note refs = effect_refs [OF assms(1)]
  have cl: "cleared_in L d \<Longrightarrow> cleared_in L' d" and ow: "owns_in L dn d \<Longrightarrow> owns_in L' dn d" for d dn
    using refs by (auto simp: cleared_in_def owns_in_def)
  have mono:
    "dall (\<lambda>k x. da_id x = k \<and> 0 < da_amount x \<and> cleared_in L' (da_donation x) \<and>
       dget (allocations L') (da_allocation x) \<noteq> None) (donation_allocations L)"
    "dall (\<lambda>k x. ea_id x = k \<and> 0 < ea_amount x \<and> dget (expenses L') (ea_expense x) \<noteq> None \<and>
       dget (allocations L') (ea_allocation x) \<noteq> None) (expense_allocations L)"
    "dall (\<lambda>k t. at_id t = k \<and> 0 < at_amount t \<and> at_method t \<noteq> NO_METHOD \<and>
       owns_in L' (at_donor t) (at_donation t) \<and> dget (expenses L') (at_expense t) \<noteq> None \<and>
       dget (allocations L') (at_allocation t) \<noteq> None) (attributions L)"
    "dall (\<lambda>k r. r_id r = k \<and> dget (expenses L') (r_expense r) \<noteq> None) (receipts L)"
    using assms(2) refs cl ow unfolding wf_links_def dall_def list_all_iff by fast+
  have key: "dget (expenses L) (exp_id x) = Some x" if "dget (expenses L) e = Some x" for e x
    using assms(3) that by (auto simp: wf_parties_def dest: dall_dget)
  show ?thesis
    using assms(1) mono
    by cases (auto simp: wf_links_def cleared_in_def owns_in_def dest: key intro!: dall_dset dall_dfilter)
qed

lemma effect_wf: "effect fr L L' \<Longrightarrow> ledger_wf L \<Longrightarrow> ledger_wf L'"
  unfolding ledger_wf_def by (blast intro: effect_wf_stores effect_wf_parties effect_wf_links)

lemma empty_ledger_wf: "ledger_wf (empty_ledger org)"
  by (simp add: ledger_wf_def wf_stores_def wf_parties_def wf_links_def empty_ledger_def)

lemma ledger_wf_dget:
  assumes "ledger_wf L"
  shows "dget (expenses L) e = Some x \<Longrightarrow> exp_id x = e \<and> 0 < exp_amount x"
    "dget (donations L) d = Some don \<Longrightarrow> don_id don = d \<and> 0 < don_amount don"
    "dget (receipts L) i = Some r \<Longrightarrow> r_id r = i \<and> dget (expenses L) (r_expense r) \<noteq> None"
  using assms by (auto simp: ledger_wf_def wf_parties_def wf_links_def dest: dall_dget)

lemma ledger_wf_values:
  assumes "ledger_wf L"
  shows "da \<in> set (dvalues (donation_allocations L)) \<Longrightarrow> 0 < da_amount da"
    "ea \<in> set (dvalues (expense_allocations L)) \<Longrightarrow> 0 < ea_amount ea \<and> dget (expenses L) (ea_expense ea) \<noteq> None"
    "t \<in> set (dvalues (attributions L)) \<Longrightarrow> 0 < at_amount t \<and> dget (expenses L) (at_expense t) \<noteq> None"
  using assms by (auto simp: ledger_wf_def wf_links_def dest: dall_dvalues)

section \<open>Donations are not over-allocated\<close>

definition donations_covered :: "ledger \<Rightarrow> bool" where
  "donations_covered L \<longleftrightarrow>
     (\<forall>d don. dget (donations L) d = Some don \<longrightarrow> sum_donation_allocations L d \<le> don_amount don)"

text \<open>Storing a value adds at most its own amount, whether or not the key was in use.\<close>

lemma sum_where_dset_le:
  assumes "\<And>v. v \<in> set (dvalues d) \<Longrightarrow> 0 \<le> f v"
  shows "sum_where P f (dset k v d) \<le> sum_where P f d + (if P v then f v else 0)"
proof (cases "dget d k")
  case (Some w)
  then have "0 \<le> f w" using assms dget_in_dvalues by metis
  then show ?thesis by (simp add: sum_where_dset_old [OF Some])
qed (simp add: sum_where_dset_new)

lemma effect_donations_covered:
  assumes "effect fr L L'" "ledger_wf L" "donations_covered L"
  shows "donations_covered L'"
  using assms(1)
proof cases
  case (E_donation d)
  have "sum_donation_allocations L (don_id d) = 0"
    unfolding sum_donation_allocations_def
  proof (rule sum_where_none)
    fix da assume "da \<in> set (dvalues (donation_allocations L))"
    then have "cleared_in L (da_donation da)"
      using assms(2) by (auto simp: ledger_wf_def wf_links_def dest: dall_dvalues)
    then show "da_donation da \<noteq> don_id d" using E_donation by (auto simp: cleared_in_def)
  qed
  then show ?thesis
    using E_donation assms(3) by (auto simp: donations_covered_def sum_donation_allocations_def)
next
  case (E_assign d don a amt i)
  let ?da = "\<lparr>da_id = i, da_donation = d, da_allocation = a, da_amount = amt\<rparr>"
  have "sum_donation_allocations L' j \<le> sum_donation_allocations L j + (if d = j then amt else 0)" for j
    using sum_where_dset_le [of "donation_allocations L" da_amount "\<lambda>da. da_donation da = j" i ?da]
      ledger_wf_values(1) [OF assms(2)] E_assign
    by (auto simp: sum_donation_allocations_def less_imp_le)
  then show ?thesis
    using E_assign assms(3) unfolding donations_covered_def
    by (simp split: if_splits) (smt (verit, best) option.inject)
qed (use assms(3) in \<open>auto simp: donations_covered_def sum_donation_allocations_def\<close>)

section \<open>Funds are not overdrawn\<close>

definition pools_covered :: "ledger \<Rightarrow> bool" where
  "pools_covered L \<longleftrightarrow> (\<forall>a. pool_outflows L a \<le> pool_inflows L a)"

lemma expense_verified_dset [simp]:
  "expense_verified (L\<lparr>expenses := dset e x (expenses L)\<rparr>) k =
     (if k = e then verified_state (exp_state x) else expense_verified L k)"
  by (simp add: expense_verified_def)

lemma expense_verified_frame [simp]:
  "expense_verified (L\<lparr>expense_allocations := X\<rparr>) k = expense_verified L k"
  "expense_verified (L\<lparr>donation_allocations := Y\<rparr>) k = expense_verified L k"
  "expense_verified (L\<lparr>attributions := Z\<rparr>) k = expense_verified L k"
  by (simp_all add: expense_verified_def)

text \<open>What a fund has spent, split into one expense and the others.\<close>

lemma pool_outflows_split:
  "pool_outflows L a =
     sum_where (\<lambda>ea. ea_allocation ea = a \<and> expense_verified L (ea_expense ea) \<and> ea_expense ea \<noteq> e)
       ea_amount (expense_allocations L) +
     (if expense_verified L e then expense_charge_on L e a else 0)"
proof -
  have "sum_where (\<lambda>ea. (ea_allocation ea = a \<and> expense_verified L (ea_expense ea)) \<and> \<not> ea_expense ea \<noteq> e)
      ea_amount (expense_allocations L) = (if expense_verified L e then expense_charge_on L e a else 0)"
    by (auto simp: expense_charge_on_def intro: sum_where_cong sum_where_none)
  then show ?thesis
    unfolding pool_outflows_def
    by (subst sum_where_split [where Q = "\<lambda>ea. ea_expense ea \<noteq> e"]) (simp add: conj_assoc)
qed

lemma pool_outflows_state_change:
  "pool_outflows (L\<lparr>expenses := dset e x (expenses L)\<rparr>) a =
     pool_outflows L a - (if expense_verified L e then expense_charge_on L e a else 0) +
     (if verified_state (exp_state x) then expense_charge_on L e a else 0)"
proof -
  let ?L = "L\<lparr>expenses := dset e x (expenses L)\<rparr>"
  have "sum_where (\<lambda>ea. ea_allocation ea = a \<and> expense_verified ?L (ea_expense ea) \<and> ea_expense ea \<noteq> e)
      ea_amount (expense_allocations L) =
    sum_where (\<lambda>ea. ea_allocation ea = a \<and> expense_verified L (ea_expense ea) \<and> ea_expense ea \<noteq> e)
      ea_amount (expense_allocations L)"
    by (rule sum_where_cong) auto
  moreover have "expense_charge_on ?L e a = expense_charge_on L e a"
    by (simp add: expense_charge_on_def)
  ultimately show ?thesis
    using pool_outflows_split [of L a e] pool_outflows_split [of ?L a e] by auto
qed

lemma expense_charge_on_filter:
  "expense_charge_on L e a =
     sum_list (map ea_amount (filter (\<lambda>ea. ea_allocation ea = a) (expense_allocations_for L e)))"
  by (simp add: expense_charge_on_def sum_where_def expense_allocations_for_def conj_commute)

lemma expense_charge_on_nonneg: "ledger_wf L \<Longrightarrow> 0 \<le> expense_charge_on L e a"
  unfolding expense_charge_on_def using ledger_wf_values(2)
  by (blast intro: sum_where_nonneg less_imp_le)

lemma check_balances_each:
  "check_balances L eas = Inr () \<Longrightarrow> ea \<in> set eas \<Longrightarrow>
     ea_amount ea \<le> pool_inflows L (ea_allocation ea) - pool_outflows L (ea_allocation ea)"
  by (induction L eas rule: check_balances.induct)
    (auto simp: allocation_remaining_balance_def dest: quantize_cents_InrD split: sum.splits if_splits)

lemma distinct_filter_key:
  "distinct (map f xs) \<Longrightarrow> filter (\<lambda>x. f x = a) xs = [] \<or> (\<exists>x \<in> set xs. f x = a \<and> filter (\<lambda>x. f x = a) xs = [x])"
proof (induction xs)
  case (Cons y ys)
  have "filter (\<lambda>x. f x = a) ys = []" if "f y = a"
    using Cons.prems that by (auto simp: filter_empty_conv image_iff)
  then show ?case using Cons by auto
qed simp

lemma approved_charge_fits:
  assumes "check_balances L (expense_allocations_for L e) = Inr ()"
    and "distinct (map ea_allocation (expense_allocations_for L e))" and "pools_covered L"
  shows "pool_outflows L a + expense_charge_on L e a \<le> pool_inflows L a"
  using distinct_filter_key [OF assms(2), of a] assms(3) check_balances_each [OF assms(1)]
  by (fastforce simp: expense_charge_on_filter pools_covered_def)

lemma pools_covered_mono:
  "pools_covered L \<Longrightarrow> (\<And>b. pool_outflows L' b \<le> pool_outflows L b) \<Longrightarrow>
     (\<And>b. pool_inflows L b \<le> pool_inflows L' b) \<Longrightarrow> pools_covered L'"
  unfolding pools_covered_def using order_trans by meson

lemma pool_inflows_frame [simp]:
  "pool_inflows (L\<lparr>expenses := X\<rparr>) a = pool_inflows L a"
  "pool_inflows (L\<lparr>expense_allocations := Y\<rparr>) a = pool_inflows L a"
  by (simp_all add: pool_inflows_def)

lemma effect_pools_covered:
  assumes "effect True L L'" "ledger_wf L" "pools_covered L"
  shows "pools_covered L'"
  using assms(1)
proof cases
  case (E_assign d don a amt i)
  then show ?thesis
    by (intro pools_covered_mono [OF assms(3)])
      (simp_all add: pool_outflows_def pool_inflows_def sum_where_dset_new)
next
  case (E_clear e x)
  then have "pool_outflows L' b = pool_outflows L b" for b
    by (auto simp: pool_outflows_def expense_verified_def intro!: sum_where_cong)
  with E_clear show ?thesis by (intro pools_covered_mono [OF assms(3)]) simp_all
next
  case (E_charge e x a amt i)
  then show ?thesis
    by (intro pools_covered_mono [OF assms(3)])
      (simp_all add: pool_outflows_def sum_where_dset_new expense_verified_def)
next
  case (E_approve e x who)
  then have "pool_outflows L' b = pool_outflows L b + expense_charge_on L e b" for b
    by (auto simp: pool_outflows_state_change expense_verified_def)
  then show ?thesis using assms(3) approved_charge_fits E_approve by (simp add: pools_covered_def)
next
  case (E_correct e x s why)
  then show ?thesis using expense_charge_on_nonneg [OF assms(2)]
    by (intro pools_covered_mono [OF assms(3)])
      (auto simp: pool_outflows_state_change expense_verified_def)
next
  case (E_expense x)
  then show ?thesis
    by (intro pools_covered_mono [OF assms(3)]) (auto simp: pool_outflows_state_change expense_verified_def)
next
  case (E_pending e x)
  then show ?thesis
    by (intro pools_covered_mono [OF assms(3)]) (auto simp: pool_outflows_state_change expense_verified_def)
next
  case (E_reconcile e x now)
  then show ?thesis
    by (intro pools_covered_mono [OF assms(3)]) (auto simp: pool_outflows_state_change expense_verified_def)
qed (use assms(3) in \<open>auto simp: pools_covered_def pool_inflows_def pool_outflows_def expense_verified_def\<close>)

section \<open>Approved expenses are charged in full\<close>

definition expense_charge :: "ledger \<Rightarrow> string \<Rightarrow> cents" where
  "expense_charge L e = sum_where (\<lambda>ea. ea_expense ea = e) ea_amount (expense_allocations L)"

definition approved_charged :: "ledger \<Rightarrow> bool" where
  "approved_charged L \<longleftrightarrow>
     (\<forall>e x. dget (expenses L) e = Some x \<longrightarrow> verified_state (exp_state x) \<or> corrected_state (exp_state x) \<longrightarrow>
        expense_charge L e = exp_amount x \<and> present (exp_approved_by x))"

lemma expense_charge_list: "expense_charge L e = sum_list (map ea_amount (expense_allocations_for L e))"
  by (simp add: expense_charge_def sum_where_def expense_allocations_for_def)

lemma expense_charge_frame [simp]:
  "expense_charge (L\<lparr>expenses := X\<rparr>) e = expense_charge L e"
  "expense_charge (store_receipt r L) e = expense_charge L e"
  by (simp_all add: expense_charge_def)

lemma approved_charged_other:
  assumes "approved_charged L" "dget (expenses L) e = Some x" "\<not> verified_state (exp_state x)"
    "\<not> corrected_state (exp_state x)" "expenses L' = expenses L"
    "\<And>k. k \<noteq> e \<Longrightarrow> expense_charge L' k = expense_charge L k"
  shows "approved_charged L'"
  unfolding approved_charged_def
proof (intro allI impI)
  fix k y
  assume k: "dget (expenses L') k = Some y" and y: "verified_state (exp_state y) \<or> corrected_state (exp_state y)"
  then have "k \<noteq> e" using assms(2-5) by auto
  then show "expense_charge L' k = exp_amount y \<and> present (exp_approved_by y)"
    using assms(1,5,6) k y by (auto simp: approved_charged_def)
qed

lemma effect_approved_charged:
  assumes "effect True L L'" "approved_charged L"
  shows "approved_charged L'"
  using assms(1)
proof cases
  case (E_clear e x)
  then show ?thesis
    by (intro approved_charged_other [OF assms(2)]) (auto simp: expense_charge_def intro!: sum_where_cong)
next
  case (E_charge e x a amt i)
  then show ?thesis
    by (intro approved_charged_other [OF assms(2)]) (auto simp: expense_charge_def sum_where_dset_new)
next
  case (E_approve e x who)
  with assms(2) show ?thesis by (auto simp: approved_charged_def expense_charge_list [of L])
qed (use assms(2) in \<open>auto simp: approved_charged_def expense_charge_def with_expense_state_def\<close>)

section \<open>Donor designations are not overspent\<close>

definition donors_covered :: "ledger \<Rightarrow> bool" where
  "donors_covered L \<longleftrightarrow> (\<forall>d a. active_attribution_total L d a None \<le> donor_designated L d a)"

lemma donors_covered_mono:
  "donors_covered L \<Longrightarrow>
     (\<And>d a. active_attribution_total L' d a None \<le> active_attribution_total L d a None) \<Longrightarrow>
     (\<And>d a. donor_designated L d a \<le> donor_designated L' d a) \<Longrightarrow> donors_covered L'"
  unfolding donors_covered_def using order_trans by meson

lemma donor_designated_frame [simp]:
  "donor_designated (L\<lparr>expenses := X\<rparr>) d a = donor_designated L d a"
  "donor_designated (L\<lparr>attributions := Y\<rparr>) d a = donor_designated L d a"
  by (simp_all add: donor_designated_def)

lemma expense_active_frame [simp]:
  "expense_active (L\<lparr>attributions := X\<rparr>) k = expense_active L k"
  by (simp add: expense_active_def)

lemma attributions_nonneg: "ledger_wf L \<Longrightarrow> t \<in> set (dvalues (attributions L)) \<Longrightarrow> 0 \<le> at_amount t"
  using ledger_wf_values(3) less_imp_le by blast

text \<open>Changing the state of an expense never activates an attribution that did not count.\<close>

lemma active_total_state_change:
  assumes "ledger_wf L" "dget (expenses L) e = None \<or> expense_active L e"
  shows "active_attribution_total (L\<lparr>expenses := dset e x (expenses L)\<rparr>) d a None
    \<le> active_attribution_total L d a None"
  unfolding active_attribution_total_def
proof (simp, rule sum_where_mono)
  fix t
  assume t: "t \<in> set (dvalues (attributions L))"
    "at_donation t = d \<and> at_allocation t = a \<and> expense_active (L\<lparr>expenses := dset e x (expenses L)\<rparr>) (at_expense t)"
  then show "at_donation t = d \<and> at_allocation t = a \<and> expense_active L (at_expense t)"
    using assms ledger_wf_values(3) [OF assms(1) t(1)] by (auto simp: expense_active_def split: if_splits)
qed (use assms attributions_nonneg in blast)

lemma active_total_attribute:
  assumes "ledger_wf L" "at_id t = i" "at_donation t = d" "at_expense t = e" "at_allocation t = a"
    and "active_attribution_total L d a (Some e) + at_amount t \<le> donor_designated L d a" "0 < at_amount t"
    and "donors_covered L"
    and L': "L' = L\<lparr>attributions := dset i t (dfilter (\<lambda>t. \<not> same_link d e a t) (attributions L))\<rparr>"
  shows "active_attribution_total L' d' a' None \<le> donor_designated L d' a'"
proof -
  let ?P = "\<lambda>t. at_donation t = d' \<and> at_allocation t = a' \<and> expense_active L (at_expense t)"
  let ?D = "dfilter (\<lambda>t. \<not> same_link d e a t) (attributions L)"
  have nn: "0 \<le> at_amount t" if "t \<in> set (dvalues ?D)" for t
    using that attributions_nonneg [OF assms(1)] by auto
  have "active_attribution_total L' d' a' None \<le> sum_where ?P at_amount ?D + (if ?P t then at_amount t else 0)"
    using sum_where_dset_le [of ?D at_amount ?P i t] nn by (simp add: active_attribution_total_def L')
  also have "\<dots> \<le> donor_designated L d' a'"
  proof (cases "d' = d \<and> a' = a")
    case True
    have "sum_where ?P at_amount ?D \<le> active_attribution_total L d a (Some e)"
      unfolding active_attribution_total_def sum_where_dfilter using True attributions_nonneg [OF assms(1)]
      by (intro sum_where_mono) (auto simp: same_link_def)
    then show ?thesis using assms True by auto
  next
    case False
    have "sum_where ?P at_amount ?D \<le> active_attribution_total L d' a' None"
      unfolding active_attribution_total_def sum_where_dfilter using attributions_nonneg [OF assms(1)]
      by (intro sum_where_mono) auto
    then show ?thesis using assms False unfolding donors_covered_def by (smt (verit) )
  qed
  finally show ?thesis .
qed

lemma expense_active_iff: "dget (expenses L) e = Some x \<Longrightarrow>
  expense_active L e \<longleftrightarrow> \<not> corrected_state (exp_state x) \<and> exp_state x \<noteq> REJECTED"
  by (simp add: expense_active_def)

lemma effect_donors_covered:
  assumes "effect True L L'" "ledger_wf L" "donors_covered L"
  shows "donors_covered L'"
  using assms(1)
proof cases
  case (E_assign d don a amt i)
  then show ?thesis
    by (intro donors_covered_mono [OF assms(3)])
      (simp_all add: active_attribution_total_def expense_active_def donor_designated_def sum_where_dset_new)
next
  case (E_attribute d don dn e a m amt i pv)
  then show ?thesis
    using active_total_attribute [OF assms(2) _ _ _ _ _ _ assms(3), where L' = L']
    by (simp add: donors_covered_def)
next
  case (E_expense x)
  then show ?thesis
    by (intro donors_covered_mono [OF assms(3)]) (simp_all add: active_total_state_change assms(2))
next
  case (E_pending e x)
  then show ?thesis
    by (intro donors_covered_mono [OF assms(3)])
      (auto intro!: active_total_state_change assms(2) simp: expense_active_iff)
next
  case (E_approve e x who)
  then show ?thesis
    by (intro donors_covered_mono [OF assms(3)])
      (auto intro!: active_total_state_change assms(2) simp: expense_active_iff)
next
  case (E_reconcile e x now)
  then show ?thesis
    by (intro donors_covered_mono [OF assms(3)])
      (auto intro!: active_total_state_change assms(2) simp: expense_active_iff)
next
  case (E_correct e x s why)
  then show ?thesis
    by (intro donors_covered_mono [OF assms(3)])
      (auto intro!: active_total_state_change assms(2) simp: expense_active_iff verified_state_def)
qed (use assms(3) in \<open>auto simp: donors_covered_def active_attribution_total_def donor_designated_def expense_active_def\<close>)

lemma consumed_le_active: "ledger_wf L \<Longrightarrow> donor_consumed L d a \<le> active_attribution_total L d a None"
  unfolding donor_consumed_def active_attribution_total_def
  by (intro sum_where_mono attributions_nonneg)
    (auto simp: expense_verified_def expense_active_def verified_state_def split: option.splits)

section \<open>Receipts, snapshots and links\<close>

definition snapshots_faithful :: "ledger \<Rightarrow> bool" where
  "snapshots_faithful L \<longleftrightarrow>
     (\<forall>k. dget (receipt_snapshots L) k = map_option uof_to_dict (dget (receipts L) k))"

definition links_exact :: "ledger \<Rightarrow> bool" where
  "links_exact L \<longleftrightarrow>
     (\<forall>e. distinct (prior_receipt_ids L e) \<and>
        set (prior_receipt_ids L e) = {k. \<exists>r. dget (receipts L) k = Some r \<and> r_expense r = e})"

definition live_unique :: "ledger \<Rightarrow> bool" where
  "live_unique L \<longleftrightarrow>
     (\<forall>k r j s. dget (receipts L) k = Some r \<longrightarrow> dget (receipts L) j = Some s \<longrightarrow>
        \<not> r_corrected r \<longrightarrow> live_for (r_donation r) (r_expense r) (r_allocation r) s \<longrightarrow> j = k)"

definition receipts_backed :: "ledger \<Rightarrow> bool" where
  "receipts_backed L \<longleftrightarrow>
     (\<forall>k r. dget (receipts L) k = Some r \<longrightarrow>
        (\<exists>x. dget (expenses L) (r_expense r) = Some x \<and>
           (corrected_state (exp_state x) \<or> verified_state (exp_state x) \<and> \<not> r_corrected r)))"

definition receipts_ok :: "ledger \<Rightarrow> bool" where
  "receipts_ok L \<longleftrightarrow> snapshots_faithful L \<and> links_exact L \<and> live_unique L \<and> receipts_backed L"

lemma effect_snapshots_faithful: "effect fr L L' \<Longrightarrow> snapshots_faithful L \<Longrightarrow> snapshots_faithful L'"
  by (induction rule: effect.induct) (simp_all add: snapshots_faithful_def)

lemma prior_receipt_ids_frame:
  "prior_receipt_ids (store_receipt r L) e =
     (if e = r_expense r then prior_receipt_ids L e @ [r_id r] else prior_receipt_ids L e)"
  by (simp add: prior_receipt_ids_def)

lemma store_receipt_links:
  assumes "links_exact L" "dget (receipts L) (r_id r) = None"
  shows "links_exact (store_receipt r L)"
proof -
  have "r_id r \<notin> set (prior_receipt_ids L e)" for e
    using assms by (auto simp: links_exact_def)
  then show ?thesis
    using assms by (fastforce simp: links_exact_def prior_receipt_ids_frame)
qed

lemma links_exact_frame:
  "links_exact L \<Longrightarrow> receipts L' = receipts L \<Longrightarrow> expense_receipts L' = expense_receipts L \<Longrightarrow> links_exact L'"
  by (simp add: links_exact_def prior_receipt_ids_def)

lemma effect_links_exact:
  assumes "effect True L L'" "links_exact L"
  shows "links_exact L'"
  using assms(1)
  by cases (use assms(2) in \<open>auto intro: store_receipt_links links_exact_frame [OF assms(2)]\<close>)

lemma find_live_None:
  "find_live_receipt L d e a = None \<Longrightarrow> dget (receipts L) j = Some s \<Longrightarrow> \<not> live_for d e a s"
  by (auto simp: find_live_receipt_def find_None_iff dest: dget_in_dvalues)

lemma live_for_sym:
  "live_for (r_donation r) (r_expense r) (r_allocation r) s \<Longrightarrow> \<not> r_corrected r \<Longrightarrow>
     live_for (r_donation s) (r_expense s) (r_allocation s) r"
  by (simp add: live_for_def)

lemma effect_live_unique:
  assumes "effect True L L'" "live_unique L"
  shows "live_unique L'"
  using assms(1)
proof cases
  case (E_publish r x t)
  have none: "\<not> live_for (r_donation r) (r_expense r) (r_allocation r) s" if "dget (receipts L) j = Some s" for j s
    using find_live_None E_publish that by blast
  show ?thesis
    unfolding live_unique_def E_publish(1)
  proof (intro allI impI)
    fix k u j s
    assume a: "dget (receipts (store_receipt r L)) k = Some u" "dget (receipts (store_receipt r L)) j = Some s"
      "\<not> r_corrected u" "live_for (r_donation u) (r_expense u) (r_allocation u) s"
    then show "j = k"
      using none [of j s] none [of k u] live_for_sym [of u s] assms(2)
      by (auto simp: live_unique_def split: if_splits)
  qed
next
  case (E_correction rid prior c e x)
  with assms(2) show ?thesis unfolding live_unique_def by (auto simp: live_for_def)
qed (use assms(2) in \<open>simp_all add: live_unique_def\<close>)

lemma effect_receipts_backed:
  assumes "effect True L L'" "receipts_backed L" "ledger_wf L"
  shows "receipts_backed L'"
  using assms(1)
proof cases
  case (E_correction rid prior c e x)
  then have "exp_id x = e" using ledger_wf_dget(1) [OF assms(3)] by blast
  with E_correction assms(2) show ?thesis unfolding receipts_backed_def by auto
next
  case (E_correct e x s why)
  with assms(2) show ?thesis unfolding receipts_backed_def by fastforce
next
  case (E_pending e x)
  with assms(2) show ?thesis unfolding receipts_backed_def by fastforce
next
  case (E_approve e x who)
  with assms(2) show ?thesis unfolding receipts_backed_def by fastforce
next
  case (E_reconcile e x who)
  with assms(2) show ?thesis unfolding receipts_backed_def by fastforce
next
  case (E_expense x)
  with assms(2) show ?thesis unfolding receipts_backed_def by fastforce
qed (use assms(2) in \<open>auto simp: receipts_backed_def\<close>)

lemma effect_receipts_ok: "effect True L L' \<Longrightarrow> ledger_wf L \<Longrightarrow> receipts_ok L \<Longrightarrow> receipts_ok L'"
  unfolding receipts_ok_def
  by (blast intro: effect_snapshots_faithful effect_links_exact effect_live_unique effect_receipts_backed)

text \<open>A stored receipt and its snapshot are never changed or removed.\<close>

lemma effect_retains_receipt:
  "effect True L L' \<Longrightarrow> dget (receipts L) k = Some r \<Longrightarrow> dget (receipts L') k = Some r"
  by (induction rule: effect.cases) auto

lemma effect_audit_prefix: "effect fr L L' \<Longrightarrow> \<exists>more. audit_log L' = audit_log L @ more"
  by (induction rule: effect.cases) auto

section \<open>The life of an expense\<close>

fun stage :: "expense_state \<Rightarrow> nat" where
  "stage APPROVAL_PENDING = 1"
| "stage APPROVED = 2"
| "stage RECONCILED = 3"
| "stage REVERSED = 4"
| "stage SUPERSEDED = 4"
| "stage _ = 0"

text \<open>What an expense is about: everything but the fields the life cycle sets.\<close>

definition expense_facts :: "expense \<Rightarrow> expense" where
  "expense_facts x = x\<lparr>exp_state := DRAFT, exp_approved_by := None, exp_reconciled_at := None,
     exp_history_note := None\<rparr>"

definition evolves :: "expense \<Rightarrow> expense \<Rightarrow> bool" where
  "evolves x y \<longleftrightarrow> expense_facts y = expense_facts x \<and>
     (y = x \<or> stage (exp_state x) < stage (exp_state y)) \<and>
     (2 \<le> stage (exp_state x) \<longrightarrow> exp_approved_by y = exp_approved_by x)"

lemma evolves_refl [simp]: "evolves x x"
  by (simp add: evolves_def)

lemma evolves_trans: "evolves x y \<Longrightarrow> evolves y z \<Longrightarrow> evolves x z"
  by (auto simp: evolves_def)

lemma stage_verified: "verified_state s \<Longrightarrow> stage s \<in> {2, 3}"
  by (auto simp: verified_state_def)

lemma effect_evolves:
  assumes "effect fr L L'" "dget (expenses L) e = Some x"
  shows "\<exists>y. dget (expenses L') e = Some y \<and> evolves x y"
  using assms
  by cases (auto simp: evolves_def expense_facts_def with_expense_state_def dest: stage_verified)

lemma effects_evolves:
  "effects fr L L' \<Longrightarrow> dget (expenses L) e = Some x \<Longrightarrow> \<exists>y. dget (expenses L') e = Some y \<and> evolves x y"
proof (induction rule: rtranclp_induct)
  case (step L1 L2)
  then obtain y where y: "dget (expenses L1) e = Some y" "evolves x y" by blast
  from effect_evolves [OF step.hyps(2) y(1)] y(2) show ?case by (blast intro: evolves_trans)
qed simp

section \<open>Histories\<close>

definition ledger_inv :: "ledger \<Rightarrow> bool" where
  "ledger_inv L \<longleftrightarrow> ledger_wf L \<and> donations_covered L \<and> pools_covered L \<and> approved_charged L \<and>
     donors_covered L \<and> receipts_ok L"

lemma effect_inv: "effect True L L' \<Longrightarrow> ledger_inv L \<Longrightarrow> ledger_inv L'"
  unfolding ledger_inv_def
  by (blast intro: effect_wf effect_donations_covered effect_pools_covered effect_approved_charged
      effect_donors_covered effect_receipts_ok)

lemma empty_ledger_inv: "ledger_inv (empty_ledger org)"
  using empty_ledger_wf [of org] unfolding ledger_inv_def
  by (simp add: empty_ledger_def donations_covered_def pools_covered_def pool_inflows_def
      pool_outflows_def approved_charged_def donors_covered_def active_attribution_total_def
      donor_designated_def receipts_ok_def snapshots_faithful_def links_exact_def
      prior_receipt_ids_def live_unique_def receipts_backed_def)

text \<open>The invariants that hold in every history, disciplined or not.\<close>

definition ledger_base_inv :: "ledger \<Rightarrow> bool" where
  "ledger_base_inv L \<longleftrightarrow> ledger_wf L \<and> donations_covered L \<and> snapshots_faithful L"

lemma effect_base_inv: "effect fr L L' \<Longrightarrow> ledger_base_inv L \<Longrightarrow> ledger_base_inv L'"
  unfolding ledger_base_inv_def
  by (blast intro: effect_wf effect_donations_covered effect_snapshots_faithful)

lemma empty_ledger_base_inv: "ledger_base_inv (empty_ledger org)"
  using empty_ledger_inv by (auto simp: ledger_inv_def ledger_base_inv_def receipts_ok_def)

interpretation ledger_safe: kept_invariant "ledger_step E" "disciplined E" ledger_inv for E
  by unfold_locales (blast intro: effects_keep [OF ledger_step_effects, of True] effect_inv)

interpretation ledger_sound: kept_invariant "ledger_step E" "\<lambda>_ _. True" ledger_base_inv for E
  by unfold_locales (blast intro: effects_keep [OF ledger_step_effects, of False] effect_base_inv)

interpretation receipt_store: append_only_store "ledger_step E" "disciplined E" "\<lambda>L. dget (receipts L)" for E
  by unfold_locales
    (rule effects_keep [OF ledger_step_effects, of True], assumption, assumption, rule effect_retains_receipt)

interpretation audit_trail: append_only_store "ledger_step E" "\<lambda>_ _. True"
  "\<lambda>L n. if n < length (audit_log L) then Some (audit_log L ! n) else None" for E
proof unfold_locales
  fix L :: ledger and n a c
  assume a: "(if n < length (audit_log L) then Some (audit_log L ! n) else None) = Some a"
  show "(if n < length (audit_log (ledger_step E L c)) then Some (audit_log (ledger_step E L c) ! n) else None) = Some a"
  proof (rule effects_keep [where fr = False and L = L])
    show "effects False L (ledger_step E L c)" by (rule ledger_step_effects) simp
  next
    fix K K'
    assume "effect False K K'"
      and "(if n < length (audit_log K) then Some (audit_log K ! n) else None) = Some a"
    then show "(if n < length (audit_log K') then Some (audit_log K' ! n) else None) = Some a"
      using effect_audit_prefix [of False K K'] by (auto simp: nth_append split: if_splits)
  qed (rule a)
qed

text \<open>The evolution of an expense over a history.\<close>

lemma run_evolves:
  "dget (expenses L) e = Some x \<Longrightarrow>
     \<exists>y. dget (expenses (run (ledger_step E) L cs)) e = Some y \<and> evolves x y"
proof (induction cs arbitrary: L x)
  case (Cons c cs)
  have "effects False L (ledger_step E L c)" by (rule ledger_step_effects) simp
  then obtain y where "dget (expenses (ledger_step E L c)) e = Some y" "evolves x y"
    using effects_evolves Cons.prems by blast
  then show ?case using Cons.IH evolves_trans by (simp, blast)
qed simp

end
