(* ===== verification/Ledger_Corrections.thy ===== *)
theory Ledger_Corrections
  imports Ledger_Invariants
begin

text \<open>
  A reversal corrects every prior receipt. The lemmas follow \<^verbatim>\<open>reverse_expense\<close>: the snapshots read
  first are the stored ones, the silent-mutation check passes, and each iteration of the loop
  appends one correction and leaves the receipts still to be corrected in place.
\<close>

lemma uof_snapshot_fields:
  "jfield (uof_to_dict r) ''receipt_id'' = Inr (JStr (r_id r))"
  "\<exists>p. jfield (uof_to_dict r) ''provenance'' = Inr p \<and> jfield p ''receipt_hash'' = Inr (JStr (r_hash r))"
  by (simp_all add: uof_to_dict_def dget_obj_merge dict_ok_def)

lemma check_snapshot_faithful:
  "dget snaps rid = Some (uof_to_dict prior) \<Longrightarrow> check_snapshot snaps rid prior = Inr ()"
  using uof_snapshot_fields [of prior] by (auto simp: check_snapshot_def)

lemma collect_snapshots_ok:
  assumes "\<And>rid. rid \<in> set ids \<Longrightarrow> dget (receipt_snapshots L) rid \<noteq> None"
  shows "\<exists>snaps. collect_snapshots L ids = Inr snaps \<and>
    (\<forall>rid \<in> set ids. dget snaps rid = dget (receipt_snapshots L) rid)"
  using assms
proof (induction ids)
  case (Cons rid ids)
  from Cons obtain snaps where "collect_snapshots L ids = Inr snaps"
    "\<forall>rid \<in> set ids. dget snaps rid = dget (receipt_snapshots L) rid" by auto
  moreover from Cons.prems [of rid] obtain j where "dget (receipt_snapshots L) rid = Some j" by auto
  ultimately show ?case by (auto simp: get_receipt_snapshot_def)
qed simp

text \<open>The amount a donor has left on a fund fits the decimal context.\<close>

definition remaining_fits :: "ledger \<Rightarrow> string \<Rightarrow> string \<Rightarrow> bool" where
  "remaining_fits L d a \<longleftrightarrow> \<bar>donor_designated L d a - donor_consumed L d a\<bar> < 10 ^ 28"

lemma donor_remaining_fits:
  "remaining_fits L d a \<Longrightarrow>
     donor_remaining_on_allocation L d a = Inr (donor_designated L d a - donor_consumed L d a)"
  by (simp add: remaining_fits_def donor_remaining_on_allocation_def quantize_cents_def)

lemma remaining_fits_frame:
  "donation_allocations L' = donation_allocations L \<Longrightarrow> attributions L' = attributions L \<Longrightarrow>
     expenses L' = expenses L \<Longrightarrow> remaining_fits L' d a \<longleftrightarrow> remaining_fits L d a"
  by (simp add: remaining_fits_def donor_designated_def donor_consumed_def expense_verified_def)

definition reversal_of :: "string \<Rightarrow> use_of_funds_receipt \<Rightarrow> use_of_funds_receipt \<Rightarrow> bool" where
  "reversal_of e prior c \<longleftrightarrow> r_corrected c \<and> r_corrects c = Some (r_id prior) \<and>
     r_correction_kind c = Some ''REVERSAL'' \<and> r_attributed c = 0 \<and> r_expense c = e \<and>
     r_donation c = r_donation prior \<and> r_donor c = r_donor prior \<and>
     r_allocation c = r_allocation prior \<and> r_verification c = ''REVERSED''"

lemma publish_correction_ok:
  assumes "remaining_fits L (r_donation prior) (r_allocation prior)" "exp_state e = REVERSED"
    "unused E L (uuid_draws L)"
  obtains c L1 where "publish_correction_receipt E prior e actor ''REVERSAL'' why None L = (Inr c, L1)"
    "reversal_of (exp_id e) prior c" "dget (receipts L1) (r_id c) = Some c"
    "r_id c = fresh_name E ''uofc'' (uuid_draws L)"
    "\<forall>k r. dget (receipts L) k = Some r \<longrightarrow> dget (receipts L1) k = Some r"
    "donation_allocations L1 = donation_allocations L" "attributions L1 = attributions L"
    "expenses L1 = expenses L"
proof -
  let ?L2 = "snd (new_id E ''uofc'' (snd (read_clock E L)))"
  have "remaining_fits ?L2 (r_donation prior) (r_allocation prior)"
    using assms(1) by (subst remaining_fits_frame [of _ L]) simp_all
  note rem = donor_remaining_fits [OF this]
  have new: "dget (receipts L) (fresh_name E ''uofc'' (uuid_draws L)) = None"
    using assms(3) by (simp add: unused_def)
  show thesis
    apply (rule that)
    unfolding publish_correction_receipt_def Let_def split_beta rem sum.case
           apply (rule refl)
    using new assms(2) by (auto simp: reversal_of_def)
qed

text \<open>A receipt that the reversal can correct: stored, with its snapshot, and within range.\<close>

definition correctable :: "ledger \<Rightarrow> (string, json) dict \<Rightarrow> string \<Rightarrow> bool" where
  "correctable L snaps rid \<longleftrightarrow>
     (\<exists>prior. dget (receipts L) rid = Some prior \<and> dget snaps rid = Some (uof_to_dict prior) \<and>
        remaining_fits L (r_donation prior) (r_allocation prior))"

definition corrected_by :: "ledger \<Rightarrow> ledger \<Rightarrow> string \<Rightarrow> string \<Rightarrow> use_of_funds_receipt \<Rightarrow> bool" where
  "corrected_by L L' e rid c \<longleftrightarrow>
     (\<exists>prior. dget (receipts L) rid = Some prior \<and> reversal_of e prior c) \<and>
     dget (receipts L') (r_id c) = Some c"

lemma and_then_draws:
  "(\<And>a s. uuid_draws s \<le> uuid_draws (snd (f a s))) \<Longrightarrow> uuid_draws (snd r) \<le> uuid_draws (snd (and_then r f))"
  by (cases r; cases "fst r") auto

lemma reversal_loop_ok:
  assumes "exp_state e = REVERSED" "\<forall>rid \<in> set ids. correctable L snaps rid" "fresh_window E L m"
    "uuid_draws (snd (reversal_loop E e actor why snaps ids L)) \<le> m"
  shows "\<exists>cs L'. reversal_loop E e actor why snaps ids L = (Inr cs, L') \<and>
    list_all2 (corrected_by L L' (exp_id e)) ids cs \<and> expenses L' = expenses L \<and>
    (\<forall>k r. dget (receipts L) k = Some r \<longrightarrow> dget (receipts L') k = Some r)"
  using assms
proof (induction ids arbitrary: L)
  case (Cons rid ids)
  obtain prior where prior: "dget (receipts L) rid = Some prior"
    "dget snaps rid = Some (uof_to_dict prior)" "remaining_fits L (r_donation prior) (r_allocation prior)"
    using Cons.prems(2) by (auto simp: correctable_def)
  let ?p = "publish_correction_receipt E prior e actor ''REVERSAL'' why None L"
  have eq: "snd (reversal_loop E e actor why snaps (rid # ids) L) =
      snd (and_then ?p (\<lambda>c. reversal_loop E e actor why snaps ids))"
    using prior by (cases ?p; cases "fst ?p") (auto simp: check_snapshot_faithful snd_and_then_return)
  have "uuid_draws (snd ?p) \<le> m"
    using Cons.prems(4) unfolding eq by (rule order_trans [OF and_then_draws, rotated]) (rule reversal_loop_draws)
  then have "uuid_draws L < m" using publish_correction_receipt_frame(4) less_le_trans by blast
  then have "unused E L (uuid_draws L)" using Cons.prems(3) by (auto intro: fresh_window_unused)
  then obtain c L1 where p: "?p = (Inr c, L1)" and c: "reversal_of (exp_id e) prior c" "dget (receipts L1) (r_id c) = Some c"
    and "r_id c = fresh_name E ''uofc'' (uuid_draws L)"
    and keep: "\<forall>k r. dget (receipts L) k = Some r \<longrightarrow> dget (receipts L1) k = Some r"
    and fr: "donation_allocations L1 = donation_allocations L" "attributions L1 = attributions L"
      "expenses L1 = expenses L" 
    by (rule publish_correction_ok [OF prior(3) Cons.prems(1), where actor = actor and why = why])
  have L1: "L1 = snd ?p" by (simp add: p)
  have "correctable L1 snaps i" if "i \<in> set ids" for i
    using Cons.prems(2) that keep remaining_fits_frame [OF fr] by (fastforce simp: correctable_def)
  moreover have "fresh_window E L1 m" unfolding L1 by (rule publish_correction_receipt_window [OF Cons.prems(3)])
  moreover have "uuid_draws (snd (reversal_loop E e actor why snaps ids L1)) \<le> m"
    using Cons.prems(4) eq p by simp
  ultimately obtain cs L' where rec: "reversal_loop E e actor why snaps ids L1 = (Inr cs, L')"
    and all: "list_all2 (corrected_by L1 L' (exp_id e)) ids cs" and "expenses L' = expenses L1"
    and keep': "\<forall>k r. dget (receipts L1) k = Some r \<longrightarrow> dget (receipts L') k = Some r"
    using Cons.IH [of L1] Cons.prems(1) by blast
  have "list_all2 (corrected_by L L' (exp_id e)) ids cs"
    using all
  proof (rule list.rel_mono_strong)
    fix i d assume i: "i \<in> set ids" and "corrected_by L1 L' (exp_id e) i d"
    moreover obtain q where "dget (receipts L) i = Some q"
      using Cons.prems(2) i by (auto simp: correctable_def)
    ultimately show "corrected_by L L' (exp_id e) i d" using keep by (fastforce simp: corrected_by_def)
  qed
  moreover have "corrected_by L L' (exp_id e) rid c"
    using prior(1) c keep' by (auto simp: corrected_by_def)
  ultimately show ?case
    using prior p rec keep keep' fr(3) \<open>expenses L' = expenses L1\<close>
    by (simp add: check_snapshot_faithful)
qed simp

lemma consumed_nonneg: "ledger_wf L \<Longrightarrow> 0 \<le> donor_consumed L d a"
  unfolding donor_consumed_def by (intro sum_where_nonneg) (auto intro: attributions_nonneg)

lemma designated_le_assigned: "ledger_wf L \<Longrightarrow> donor_designated L d a \<le> sum_donation_allocations L d"
  unfolding donor_designated_def sum_donation_allocations_def
  by (intro sum_where_mono) (auto dest: ledger_wf_values(1) intro: less_imp_le)

lemma designated_unknown:
  assumes "ledger_wf L" "dget (donations L) d = None"
  shows "donor_designated L d a = 0"
  unfolding donor_designated_def
proof (rule sum_where_none)
  fix da assume "da \<in> set (dvalues (donation_allocations L))"
  then have "cleared_in L (da_donation da)"
    using assms(1) by (auto simp: ledger_wf_def wf_links_def dest: dall_dvalues)
  then show "\<not> (da_donation da = d \<and> da_allocation da = a)" using assms(2) by (auto simp: cleared_in_def)
qed

lemma remaining_bounds:
  assumes "ledger_wf L" "donors_covered L"
  shows "0 \<le> donor_designated L d a - donor_consumed L d a"
    "donor_designated L d a - donor_consumed L d a \<le> donor_designated L d a"
  using consumed_le_active [OF assms(1), of d a] consumed_nonneg [OF assms(1), of d a] assms(2)
  by (auto simp: donors_covered_def intro: order_trans)

lemma inv_remaining_fits:
  assumes "ledger_inv L" "\<forall>d don. dget (donations L) d = Some don \<longrightarrow> don_amount don < 10 ^ 28"
  shows "remaining_fits L d a"
proof -
  have wf: "ledger_wf L" and cov: "donors_covered L" "donations_covered L"
    using assms(1) by (auto simp: ledger_inv_def)
  have "donor_designated L d a < 10 ^ 28"
  proof (cases "dget (donations L) d")
    case (Some don)
    then show ?thesis
      using designated_le_assigned [OF wf, of d a] cov(2) assms(2) by (fastforce simp: donations_covered_def)
  qed (simp add: designated_unknown [OF wf])
  then show ?thesis using remaining_bounds [OF wf cov(1), of d a] by (simp add: remaining_fits_def)
qed

text \<open>In a ledger that satisfies the invariant a reversal of a verified expense succeeds.\<close>

lemma reverse_expense_ok:
  assumes inv: "ledger_inv L" and e: "dget (expenses L) e = Some x" "verified_state (exp_state x)"
    and range: "\<forall>d don. dget (donations L) d = Some don \<longrightarrow> don_amount don < 10 ^ 28"
    and fresh: "fresh_window E L (uuid_draws (snd (reverse_expense E e actor why L)))"
  shows "\<exists>rev cs L'. reverse_expense E e actor why L = (Inr (rev, cs), L') \<and>
    exp_state rev = REVERSED \<and> dget (expenses L') e = Some rev \<and>
    list_all2 (corrected_by L L' e) (prior_receipt_ids L e) cs"
proof -
  let ?ids = "prior_receipt_ids L e" and ?m = "uuid_draws (snd (reverse_expense E e actor why L))"
  let ?rev = "(with_expense_state x REVERSED)\<lparr>exp_history_note := Some why\<rparr>"
  let ?L0 = "L\<lparr>expenses := dset e ?rev (expenses L)\<rparr>"
  let ?L1 = "audit E ''ExpenseReversed'' ''Expense'' e actor
    (JObj [(''reason'', JStr why), (''prior_receipts'', JList (map JStr ?ids))]) ?L0"
  have rok: "receipts_ok L" and wf: "ledger_wf L" using inv by (auto simp: ledger_inv_def)
  have stored: "\<exists>r. dget (receipts L) i = Some r" if "i \<in> set ?ids" for i
    using rok that by (auto simp: receipts_ok_def links_exact_def)
  then have "dget (receipt_snapshots L) i \<noteq> None" if "i \<in> set ?ids" for i
    using rok that by (fastforce simp: receipts_ok_def snapshots_faithful_def)
  from collect_snapshots_ok [OF this] obtain snaps where snaps: "collect_snapshots L ?ids = Inr snaps"
    "\<forall>i \<in> set ?ids. dget snaps i = dget (receipt_snapshots L) i" by blast
  have eq: "reverse_expense E e actor why L =
      and_then (reversal_loop E ?rev actor why snaps ?ids ?L1) (\<lambda>cs L2. (Inr (?rev, cs), L2))"
    using e snaps(1) by (simp add: reverse_expense_def require_expense_def Let_def)
  have "effect True L ?L0" using e by (intro E_correct) auto
  then have "ledger_inv ?L0" using inv by (rule effect_inv)
  then have "remaining_fits ?L0 d a" for d a using range by (intro inv_remaining_fits) auto
  then have "remaining_fits ?L1 d a" for d a
    by (subst remaining_fits_frame [of _ ?L0]) simp_all
  then have "\<forall>i \<in> set ?ids. correctable ?L1 snaps i"
    using stored snaps(2) rok by (fastforce simp: correctable_def receipts_ok_def snapshots_faithful_def)
  moreover have "fresh_window E ?L1 ?m"
    using fresh by (rule fresh_window_keep) (auto simp: unused_def)
  moreover have "uuid_draws (snd (reversal_loop E ?rev actor why snaps ?ids ?L1)) \<le> ?m"
    using eq by (simp add: snd_and_then_return)
  ultimately obtain cs L' where "reversal_loop E ?rev actor why snaps ?ids ?L1 = (Inr cs, L')"
    "list_all2 (corrected_by ?L1 L' (exp_id ?rev)) ?ids cs" "expenses L' = expenses ?L1"
    using reversal_loop_ok [of ?rev ?ids ?L1 snaps E ?m actor why] by auto
  moreover have "exp_id ?rev = e" using ledger_wf_dget(1) [OF wf e(1)] by simp
  moreover have "corrected_by ?L1 L' e = corrected_by L L' e" for L'
    by (intro ext) (simp add: corrected_by_def)
  ultimately show ?thesis using eq by simp
qed

end
