(* ===== verification/Scenario.thy ===== *)
theory Scenario
  imports Ledger_Corrections
begin

text \<open>
  A concrete history of the ledger, one named state per command, with the contents of the stores
  after each. The witnesses of the ledger's properties are evaluated on it.
\<close>

definition demo_env :: env where
  "demo_env = \<lparr>uuid4_hex = (\<lambda>n. replicate n CHR ''a''), now_iso = (\<lambda>_. ''t''), sha256_hex = (\<lambda>_. ''h'')\<rparr>"

definition demo_org :: organization where
  "demo_org = \<lparr>org_id = ''o'', org_name = ''Relief'', org_policy_version = ''v1''\<rparr>"

definition demo_expense :: "string \<Rightarrow> cents \<Rightarrow> expense_state \<Rightarrow> string option \<Rightarrow> expense" where
  "demo_expense i amt s by = \<lparr>exp_id = i, exp_org = ''o'', exp_vendor = ''v'', exp_amount = amt,
     exp_currency = ''USD'', exp_purchase_date = ''d'', exp_category = ''c'', exp_description = ''d'',
     exp_state = s, exp_external = None, exp_approved_by = by, exp_reconciled_at = None,
     exp_reversed_of = None, exp_supersedes = None, exp_history_note = None\<rparr>"

definition demo_donor :: donor where
  "demo_donor = \<lparr>donor_id = ''d'', donor_org = ''o'', donor_display_name = ''Ann''\<rparr>"

definition demo_donation :: donation where
  "demo_donation = \<lparr>don_id = ''g'', don_org = ''o'', don_donor = ''d'', don_amount = 10000,
     don_currency = ''USD'', don_cleared = True, don_external = ''x'', don_received_at = ''t''\<rparr>"

definition demo_fund :: "string \<Rightarrow> allocation" where
  "demo_fund i = \<lparr>alloc_id = i, alloc_org = ''o'', alloc_name = ''Water'', alloc_purpose = ''w'',
     alloc_restriction = DONOR_RESTRICTED\<rparr>"

lemma demo_env_simps [simp]:
  "now_iso demo_env n = ''t''"
  "sha256_hex demo_env x = ''h''" "uuid4_hex demo_env n = replicate n CHR ''a''"
  by (simp_all add: demo_env_def)

lemma demo_fields [simp]:
  "org_id demo_org = ''o''" "donor_id demo_donor = ''d''" "donor_org demo_donor = ''o''"
  "don_id demo_donation = ''g''" "don_org demo_donation = ''o''" "don_donor demo_donation = ''d''"
  "don_amount demo_donation = 10000" "don_cleared demo_donation"
  "alloc_id (demo_fund i) = i" "alloc_org (demo_fund i) = ''o''"
  "exp_id (demo_expense i amt s by) = i" "exp_org (demo_expense i amt s by) = ''o''"
  "exp_amount (demo_expense i amt s by) = amt" "exp_state (demo_expense i amt s by) = s"
  "exp_approved_by (demo_expense i amt s by) = by"
  "with_expense_state (demo_expense i amt s by) s' = demo_expense i amt s' by"
  "(demo_expense i amt s by)\<lparr>exp_approved_by := by'\<rparr> = demo_expense i amt s by'"
  by (simp_all add: demo_org_def demo_donor_def demo_donation_def demo_fund_def demo_expense_def
      with_expense_state_def)

lemma demo_money [simp]: "money 100 = Inr 10000" "money 40 = Inr 4000"
  by code_simp+

lemmas demo_ops = register_donor_def import_donation_def register_allocation_def
  assign_donation_allocation_def import_expense_def allocate_expense_splits_def approve_expense_def
  attribute_donor_to_expense_def require_donation_def require_expense_def require_allocation_def
  sum_donation_allocations_def id_or_new_def new_id_def to_approval_pending_def
  expense_allocations_for_def allocation_remaining_balance_def pool_inflows_def pool_outflows_def
  expense_verified_def quantize_cents_def Let_def donor_designated_def expense_charge_on_def
  attributed_amount_for_def active_attribution_total_def donor_remaining_on_allocation_def donor_consumed_def
  allowed_attribution_methods_def

definition demo0 :: ledger where "demo0 = empty_ledger demo_org"
definition demo1 :: ledger where "demo1 = ledger_step demo_env demo0 (RegisterDonor demo_donor)"
definition demo2 :: ledger where "demo2 = ledger_step demo_env demo1 (ImportDonation demo_donation)"
definition demo3 :: ledger where "demo3 = ledger_step demo_env demo2 (RegisterAllocation (demo_fund ''f''))"
definition demo4 :: ledger where
  "demo4 = ledger_step demo_env demo3 (AssignDonationAllocation ''g'' ''f'' 100 None)"
definition demo5 :: ledger where
  "demo5 = ledger_step demo_env demo4 (ImportExpense (demo_expense ''e'' 4000 IMPORTED None))"
definition demo6 :: ledger where
  "demo6 = ledger_step demo_env demo5 (AllocateExpenseSplits ''e'' [(''f'', 40)])"
definition demo7 :: ledger where
  "demo7 = ledger_step demo_env demo6 (ApproveExpense ''e'' ''cfo'')"

definition demo8 :: ledger where
  "demo8 = ledger_step demo_env demo7 (AttributeDonor ''d'' ''g'' ''e'' ''f'' DIRECT_RESTRICTED None None)"
definition demo9 :: ledger where
  "demo9 = ledger_step demo_env demo8 (PublishReceipt ''e'' ''g'' ''f'' ''ops'' None)"
definition demo10 :: ledger where
  "demo10 = ledger_step demo_env demo9 (ReverseExpense ''e'' ''ops'' ''refund'')"

definition demo_history :: "ledger_cmd list" where
  "demo_history =
     [RegisterDonor demo_donor, ImportDonation demo_donation, RegisterAllocation (demo_fund ''f''),
      AssignDonationAllocation ''g'' ''f'' 100 None, ImportExpense (demo_expense ''e'' 4000 IMPORTED None),
      AllocateExpenseSplits ''e'' [(''f'', 40)], ApproveExpense ''e'' ''cfo'',
      AttributeDonor ''d'' ''g'' ''e'' ''f'' DIRECT_RESTRICTED None None,
      PublishReceipt ''e'' ''g'' ''f'' ''ops'' None]"

lemma demo0_state [simp]:
  "organization demo0 = demo_org" "donors demo0 = []" "donations demo0 = []" "allocations demo0 = []"
  "donation_allocations demo0 = []" "expenses demo0 = []" "expense_allocations demo0 = []"
  "attributions demo0 = []" "receipts demo0 = []" "expense_receipts demo0 = []" "uuid_draws demo0 = 0"
  by (simp_all add: demo0_def empty_ledger_def)

lemma demo1_state [simp]:
  "organization demo1 = demo_org" "donors demo1 = [(''d'', demo_donor)]" "donations demo1 = []"
  "allocations demo1 = []" "donation_allocations demo1 = []" "expenses demo1 = []"
  "expense_allocations demo1 = []" "attributions demo1 = []" "receipts demo1 = []"
  "expense_receipts demo1 = []" "uuid_draws demo1 = 1"
  by (simp_all add: demo1_def demo_ops)

lemma demo2_state [simp]:
  "organization demo2 = demo_org" "donors demo2 = [(''d'', demo_donor)]"
  "donations demo2 = [(''g'', demo_donation)]"
  "allocations demo2 = []" "donation_allocations demo2 = []" "expenses demo2 = []"
  "expense_allocations demo2 = []" "attributions demo2 = []" "receipts demo2 = []"
  "expense_receipts demo2 = []" "uuid_draws demo2 = 2"
  by (simp_all add: demo2_def demo_ops)

lemma demo3_state [simp]:
  "organization demo3 = demo_org" "donors demo3 = [(''d'', demo_donor)]"
  "donations demo3 = [(''g'', demo_donation)]"
  "allocations demo3 = [(''f'', demo_fund ''f'')]" "donation_allocations demo3 = []" "expenses demo3 = []"
  "expense_allocations demo3 = []" "attributions demo3 = []" "receipts demo3 = []"
  "expense_receipts demo3 = []" "uuid_draws demo3 = 3"
  by (simp_all add: demo3_def demo_ops)

text \<open>The identifiers drawn: \<open>demo_id p n\<close> is the n-th draw with prefix \<open>p\<close>.\<close>

abbreviation demo_id :: "string \<Rightarrow> nat \<Rightarrow> string" where
  "demo_id p n \<equiv> fresh_name demo_env p n"

definition demo_da :: donation_allocation where
  "demo_da = \<lparr>da_id = demo_id ''da'' 3, da_donation = ''g'', da_allocation = ''f'', da_amount = 10000\<rparr>"

definition demo_ea :: expense_allocation where
  "demo_ea = \<lparr>ea_id = demo_id ''ea'' 6, ea_expense = ''e'', ea_allocation = ''f'', ea_amount = 4000\<rparr>"

lemma demo_charge_fields [simp]:
  "da_donation demo_da = ''g''" "da_allocation demo_da = ''f''" "da_amount demo_da = 10000"
  "ea_expense demo_ea = ''e''" "ea_allocation demo_ea = ''f''" "ea_amount demo_ea = 4000"
  by (simp_all add: demo_da_def demo_ea_def)

lemma demo4_state [simp]:
  "organization demo4 = demo_org" "donors demo4 = [(''d'', demo_donor)]"
  "donations demo4 = [(''g'', demo_donation)]" "allocations demo4 = [(''f'', demo_fund ''f'')]"
  "donation_allocations demo4 = [(demo_id ''da'' 3, demo_da)]"
  "expenses demo4 = []"
  "expense_allocations demo4 = []" "attributions demo4 = []"
  "receipts demo4 = []" "expense_receipts demo4 = []" "uuid_draws demo4 = 5"
  by (simp_all add: demo4_def demo_ops demo_da_def)

lemma demo5_state [simp]:
  "organization demo5 = demo_org" "donors demo5 = [(''d'', demo_donor)]"
  "donations demo5 = [(''g'', demo_donation)]" "allocations demo5 = [(''f'', demo_fund ''f'')]"
  "donation_allocations demo5 = [(demo_id ''da'' 3, demo_da)]"
  "expenses demo5 = [(''e'', demo_expense ''e'' 4000 IMPORTED None)]"
  "expense_allocations demo5 = []" "attributions demo5 = []"
  "receipts demo5 = []" "expense_receipts demo5 = []" "uuid_draws demo5 = 6"
  by (simp_all add: demo5_def demo_ops)

lemma demo6_state [simp]:
  "organization demo6 = demo_org" "donors demo6 = [(''d'', demo_donor)]"
  "donations demo6 = [(''g'', demo_donation)]" "allocations demo6 = [(''f'', demo_fund ''f'')]"
  "donation_allocations demo6 = [(demo_id ''da'' 3, demo_da)]"
  "expenses demo6 = [(''e'', demo_expense ''e'' 4000 APPROVAL_PENDING None)]"
  "expense_allocations demo6 = [(demo_id ''ea'' 6, demo_ea)]" "attributions demo6 = []"
  "receipts demo6 = []" "expense_receipts demo6 = []" "uuid_draws demo6 = 8"
  by (simp_all add: demo6_def demo_ops demo_ea_def)

lemma demo7_state [simp]:
  "organization demo7 = demo_org" "donors demo7 = [(''d'', demo_donor)]"
  "donations demo7 = [(''g'', demo_donation)]" "allocations demo7 = [(''f'', demo_fund ''f'')]"
  "donation_allocations demo7 = [(demo_id ''da'' 3, demo_da)]"
  "expenses demo7 = [(''e'', demo_expense ''e'' 4000 APPROVED (Some ''cfo''))]"
  "expense_allocations demo7 = [(demo_id ''ea'' 6, demo_ea)]" "attributions demo7 = []"
  "receipts demo7 = []" "expense_receipts demo7 = []" "uuid_draws demo7 = 9"
  by (simp_all add: demo7_def demo_ops)

definition demo_attribution :: donor_expense_attribution where
  "demo_attribution = \<lparr>at_id = demo_id ''attr'' 9, at_donor = ''d'', at_donation = ''g'', at_expense = ''e'',
     at_allocation = ''f'', at_amount = 4000, at_method = DIRECT_RESTRICTED, at_policy_version = ''v1'',
     at_confidence = ''policy''\<rparr>"

lemma demo_attribution_fields [simp]:
  "at_id demo_attribution = demo_id ''attr'' 9" "at_donation demo_attribution = ''g''"
  "at_expense demo_attribution = ''e''" "at_allocation demo_attribution = ''f''"
  "at_amount demo_attribution = 4000" "at_method demo_attribution = DIRECT_RESTRICTED"
  by (simp_all add: demo_attribution_def)

lemma demo8_state [simp]:
  "organization demo8 = demo_org" "donors demo8 = [(''d'', demo_donor)]"
  "donations demo8 = [(''g'', demo_donation)]" "allocations demo8 = [(''f'', demo_fund ''f'')]"
  "donation_allocations demo8 = [(demo_id ''da'' 3, demo_da)]"
  "expenses demo8 = [(''e'', demo_expense ''e'' 4000 APPROVED (Some ''cfo''))]"
  "expense_allocations demo8 = [(demo_id ''ea'' 6, demo_ea)]" "attributions demo8 = [(demo_id ''attr'' 9, demo_attribution)]"
  "receipts demo8 = []" "expense_receipts demo8 = []" "uuid_draws demo8 = 11"
  by (simp_all add: demo8_def demo_ops demo_attribution_def demo_org_def)

definition demo_receipt :: use_of_funds_receipt where
  "demo_receipt = \<lparr>r_id = demo_id ''uof'' 11, r_type = ''USE_OF_FUNDS'', r_org = ''o'', r_org_name = ''Relief'',
     r_donation = ''g'', r_donor = ''d'', r_allocation = ''f'', r_allocation_name = ''Water'',
     r_restriction = ''DONOR_RESTRICTED'', r_expense = ''e'', r_vendor = ''v'', r_gross = 4000,
     r_attributed = 4000, r_purchase_date = ''d'', r_category = ''c'', r_description = ''d'',
     r_verification = ''APPROVED'', r_remaining = 6000, r_method = ''DIRECT_RESTRICTED'',
     r_policy_version = ''v1'', r_approved_by = Some ''cfo'', r_currency = ''USD'', r_hash = ''h'',
     r_created_at = ''t'', r_corrected = False, r_corrects = None, r_correction_kind = None,
     r_evidence_summary = None, r_provenance = [(''actor'', JStr ''ops''), (''policy_version'', JStr ''v1''),
       (''attribution_id'', JStr (demo_id ''attr'' 9))]\<rparr>"

lemma demo8_rest [simp]: "evidence demo8 = []" "receipt_snapshots demo8 = []"
  by (simp_all add: demo8_def demo7_def demo6_def demo5_def demo4_def demo3_def demo2_def demo1_def demo0_def
    demo_ops empty_ledger_def)

lemmas demo_publish_ops = publish_use_of_funds_receipt_def find_attribution_def find_live_receipt_def
  time_or_now_def read_clock_def stable_hash_def donor_visible_evidence_summary_def

lemma demo9_state [simp]:
  "organization demo9 = demo_org" "donors demo9 = [(''d'', demo_donor)]"
  "donations demo9 = [(''g'', demo_donation)]" "allocations demo9 = [(''f'', demo_fund ''f'')]"
  "donation_allocations demo9 = [(demo_id ''da'' 3, demo_da)]"
  "expenses demo9 = [(''e'', demo_expense ''e'' 4000 APPROVED (Some ''cfo''))]"
  "expense_allocations demo9 = [(demo_id ''ea'' 6, demo_ea)]"
  "attributions demo9 = [(demo_id ''attr'' 9, demo_attribution)]"
  "receipts demo9 = [(demo_id ''uof'' 11, demo_receipt)]"
  "expense_receipts demo9 = [(''e'', [demo_id ''uof'' 11])]" "uuid_draws demo9 = 13"
  by (simp_all add: demo9_def demo_ops demo_publish_ops prior_receipt_ids_def)
    (simp add: demo_receipt_def demo_expense_def demo_org_def demo_donation_def demo_fund_def)

lemma demo9_snapshots [simp]: "receipt_snapshots demo9 = [(demo_id ''uof'' 11, uof_to_dict demo_receipt)]"
  by (simp add: demo9_def demo_ops demo_publish_ops)
    (simp add: demo_receipt_def demo_expense_def demo_org_def demo_donation_def demo_fund_def)

lemmas demo_steps = demo0_def [symmetric] demo1_def [symmetric] demo2_def [symmetric]
  demo3_def [symmetric] demo4_def [symmetric] demo5_def [symmetric] demo6_def [symmetric]
  demo7_def [symmetric] demo8_def [symmetric] demo9_def [symmetric] demo10_def [symmetric]

lemma demo_run: "run (ledger_step demo_env) (empty_ledger demo_org) demo_history = demo9"
  by (simp add: demo_history_def demo_steps del: ledger_step.simps)

lemma demo_run_ok:
  "run_ok (ledger_step demo_env) (disciplined demo_env) (empty_ledger demo_org) demo_history"
  by (simp add: demo_history_def demo_steps expense_allocations_for_def del: ledger_step.simps)
    (simp add: fresh_window_def unused_def upt_rec)

subsection \<open>The reversal\<close>

lemma demo_receipt_fields [simp]:
  "r_id demo_receipt = demo_id ''uof'' 11" "r_donation demo_receipt = ''g''" "r_donor demo_receipt = ''d''"
  "r_allocation demo_receipt = ''f''" "r_expense demo_receipt = ''e''" "r_attributed demo_receipt = 4000"
  "\<not> r_corrected demo_receipt"
  by (simp_all add: demo_receipt_def)

lemma demo10_draws [simp]: "uuid_draws demo10 = 16"
  by (simp add: demo10_def demo_ops reverse_expense_def prior_receipt_ids_def get_receipt_snapshot_def
      check_snapshot_faithful publish_correction_receipt_def read_clock_def)

lemma demo_reverse_ok: "disciplined demo_env demo9 (ReverseExpense ''e'' ''ops'' ''refund'')"
  by (simp add: demo_steps del: ledger_step.simps) (simp add: fresh_window_def unused_def upt_rec)

lemma demo_reverse_history_ok:
  "run_ok (ledger_step demo_env) (disciplined demo_env) (empty_ledger demo_org)
     (demo_history @ [ReverseExpense ''e'' ''ops'' ''refund''])"
  using demo_run_ok demo_reverse_ok by (simp add: run_ok_append demo_run)

end
