(* ===== verification/Ledger_Properties.thy ===== *)
theory Ledger_Properties
  imports Scenario
begin

text \<open>
  The properties of the ledger over histories of commands and of its operations, each with a
  witness on the scenario, and the places where the code does not keep what its documentation
  promises.
\<close>

abbreviation ledger_after :: "env \<Rightarrow> organization \<Rightarrow> ledger_cmd list \<Rightarrow> ledger" where
  "ledger_after E org cs \<equiv> run (ledger_step E) (empty_ledger org) cs"

abbreviation disciplined_history :: "env \<Rightarrow> organization \<Rightarrow> ledger_cmd list \<Rightarrow> bool" where
  "disciplined_history E org cs \<equiv> run_ok (ledger_step E) (disciplined E) (empty_ledger org) cs"

lemma history_inv: "disciplined_history E org cs \<Longrightarrow> ledger_inv (ledger_after E org cs)"
  by (rule ledger_safe.run_keeps [OF empty_ledger_inv])

lemma history_base_inv: "ledger_base_inv (ledger_after E org cs)"
  by (rule ledger_sound.run_keeps [OF empty_ledger_base_inv run_ok_True])

section \<open>Balances over histories\<close>

text \<open>C1. In every disciplined history no fund is overdrawn: the balance the ledger reports for a
  fund is never negative.\<close>

theorem fund_balance_nonneg:
  assumes "disciplined_history E org cs"
    and "allocation_remaining_balance (ledger_after E org cs) a = Inr bal"
  shows "0 \<le> bal"
  using history_inv [OF assms(1)] assms(2)
  by (auto simp: ledger_inv_def pools_covered_def allocation_remaining_balance_def
      dest!: quantize_cents_InrD split: if_splits)

lemma demo_balance: "allocation_remaining_balance demo9 ''f'' = Inr 6000"
  by (simp add: demo_ops)

theorem fund_balance_nonneg_witness:
  "allocation_remaining_balance (ledger_after demo_env demo_org demo_history) ''f'' = Inr 6000 \<and> (0::int) \<le> 6000"
  using fund_balance_nonneg [OF demo_run_ok, of "''f''" 6000] demo_balance demo_run by simp

text \<open>C2. In every disciplined history what a donor has left on a fund is never negative and never
  more than the donor designated.\<close>

theorem donor_remaining_bounds:
  assumes "disciplined_history E org cs"
    and "donor_remaining_on_allocation (ledger_after E org cs) d a = Inr left"
  shows "0 \<le> left \<and> left \<le> donor_designated (ledger_after E org cs) d a"
  using history_inv [OF assms(1)] assms(2)
    remaining_bounds [of "ledger_after E org cs" d a]
  by (auto simp: ledger_inv_def donor_remaining_on_allocation_def dest!: quantize_cents_InrD)

theorem donor_remaining_bounds_witness:
  "donor_remaining_on_allocation (ledger_after demo_env demo_org demo_history) ''g'' ''f'' = Inr 6000 \<and>
   (0::int) \<le> 6000 \<and> 6000 \<le> donor_designated (ledger_after demo_env demo_org demo_history) ''g'' ''f''"
proof -
  have "donor_remaining_on_allocation demo9 ''g'' ''f'' = Inr 6000" by (simp add: demo_ops)
  then show ?thesis using donor_remaining_bounds [OF demo_run_ok, of "''g''" "''f''" 6000] demo_run by simp
qed

text \<open>In every history, disciplined or not, the amounts a donation is allocated to funds never
  exceed the donation.\<close>

theorem donation_not_overallocated:
  assumes "dget (donations (ledger_after E org cs)) d = Some don"
  shows "sum_donation_allocations (ledger_after E org cs) d \<le> don_amount don"
  using history_base_inv [of E org cs] assms by (simp add: ledger_base_inv_def donations_covered_def)

theorem donation_not_overallocated_witness:
  "dget (donations (ledger_after demo_env demo_org demo_history)) ''g'' = Some demo_donation \<and>
   sum_donation_allocations (ledger_after demo_env demo_org demo_history) ''g'' \<le> don_amount demo_donation"
  using donation_not_overallocated [of demo_env demo_org demo_history "''g''" demo_donation] demo_run by simp

text \<open>In every disciplined history an expense that was ever approved is charged to funds in full,
  to the cent, and names its approver, also after it is reversed or superseded.\<close>

theorem approved_expense_charged_in_full:
  assumes "disciplined_history E org cs"
    and "dget (expenses (ledger_after E org cs)) e = Some x"
    and "verified_state (exp_state x) \<or> corrected_state (exp_state x)"
  shows "sum_list (map ea_amount (expense_allocations_for (ledger_after E org cs) e)) = exp_amount x \<and>
    present (exp_approved_by x)"
  using history_inv [OF assms(1)] assms(2,3)
  by (auto simp: ledger_inv_def approved_charged_def expense_charge_list)

theorem approved_expense_charged_in_full_witness:
  "sum_list (map ea_amount (expense_allocations_for (ledger_after demo_env demo_org demo_history) ''e'')) = 4000 \<and>
   present (Some ''cfo'')"
  using approved_expense_charged_in_full [OF demo_run_ok, of "''e''"
      "demo_expense ''e'' 4000 APPROVED (Some ''cfo'')"] demo_run by simp

section \<open>Receipts and the audit trail\<close>

text \<open>C9. Receipts are immutable: a receipt stored at some point of a disciplined history, and the
  snapshot taken when it was published, are still stored unchanged after every further command.\<close>

theorem receipts_immutable:
  assumes "disciplined_history E org (cs @ ds)"
    and "dget (receipts (ledger_after E org cs)) k = Some r"
  shows "dget (receipts (ledger_after E org (cs @ ds))) k = Some r \<and>
    get_receipt_snapshot (ledger_after E org (cs @ ds)) k = Inr (uof_to_dict r)"
proof -
  have "run_ok (ledger_step E) (disciplined E) (ledger_after E org cs) ds"
    using assms(1) by (simp add: run_ok_append)
  then have "dget (receipts (ledger_after E org (cs @ ds))) k = Some r"
    using assms(2) by (simp add: run_append receipt_store.run_retains)
  then show ?thesis
    using history_base_inv [of E org "cs @ ds"]
    by (simp add: ledger_base_inv_def snapshots_faithful_def get_receipt_snapshot_def)
qed

theorem receipts_immutable_witness:
  "dget (receipts (ledger_after demo_env demo_org (demo_history @ [ReverseExpense ''e'' ''ops'' ''refund''])))
     (demo_id ''uof'' 11) = Some demo_receipt"
  using receipts_immutable [OF demo_reverse_history_ok, of "demo_id ''uof'' 11" demo_receipt] demo_run
  by (simp del: ledger_step.simps)

text \<open>C8. A reversal is complete: in every disciplined history, reversing an approved or reconciled
  expense succeeds, the expense is stored as reversed, and there is exactly one correction per
  receipt of the expense, in the order of publication, stored, with an attributed amount of zero and
  pointing at the receipt it corrects. Donations are below the range of the decimal context.\<close>

theorem reversal_corrects_every_receipt:
  assumes "disciplined_history E org cs" and L: "L = ledger_after E org cs"
    and "dget (expenses L) e = Some x" "verified_state (exp_state x)"
    and "\<forall>d don. dget (donations L) d = Some don \<longrightarrow> don_amount don < 10 ^ 28"
    and "disciplined E L (ReverseExpense e actor why)"
  shows "\<exists>rev corrections L'. reverse_expense E e actor why L = (Inr (rev, corrections), L') \<and>
    exp_state rev = REVERSED \<and> dget (expenses L') e = Some rev \<and>
    list_all2 (corrected_by L L' e) (prior_receipt_ids L e) corrections"
  using history_inv [OF assms(1)] assms by (intro reverse_expense_ok) simp_all

theorem reversal_corrects_every_receipt_witness:
  "\<exists>rev c L'. reverse_expense demo_env ''e'' ''ops'' ''refund'' demo9 = (Inr (rev, [c]), L') \<and>
     exp_state rev = REVERSED \<and> corrected_by demo9 L' ''e'' (demo_id ''uof'' 11) c"
proof -
  have "\<forall>d don. dget (donations demo9) d = Some don \<longrightarrow> don_amount don < 10 ^ 28"
    by simp
  from reversal_corrects_every_receipt [OF demo_run_ok demo_run [symmetric] _ _ this demo_reverse_ok,
      of "demo_expense ''e'' 4000 APPROVED (Some ''cfo'')"]
  show ?thesis by (auto simp: prior_receipt_ids_def list_all2_Cons1)
qed

text \<open>C10. At most one live receipt: in every disciplined history two receipts that are not corrections
  and are for the same donation, expense and fund are the same receipt.\<close>

theorem one_live_receipt:
  assumes "disciplined_history E org cs"
    and "dget (receipts (ledger_after E org cs)) j = Some r" "dget (receipts (ledger_after E org cs)) k = Some s"
    and "live_for d e a r" "live_for d e a s"
  shows "j = k"
  using history_inv [OF assms(1)] assms(2-5)
  by (auto simp: ledger_inv_def receipts_ok_def live_unique_def live_for_def)

theorem one_live_receipt_witness:
  "live_for ''g'' ''e'' ''f'' demo_receipt \<and> demo_id ''uof'' 11 = demo_id ''uof'' 11"
  using one_live_receipt [OF demo_run_ok, of "demo_id ''uof'' 11" demo_receipt "demo_id ''uof'' 11"
      demo_receipt "''g''" "''e''" "''f''"] demo_run by (simp add: live_for_def)

text \<open>C11. Every receipt is backed: in every disciplined history the expense of a receipt is stored,
  and it is approved or reconciled as long as it has not been corrected; a correction exists only for
  an expense that was reversed or superseded.\<close>

theorem receipts_are_backed:
  assumes "disciplined_history E org cs"
    and "dget (receipts (ledger_after E org cs)) k = Some r"
  shows "\<exists>x. dget (expenses (ledger_after E org cs)) (r_expense r) = Some x \<and>
    (verified_state (exp_state x) \<or> corrected_state (exp_state x)) \<and>
    (r_corrected r \<longrightarrow> corrected_state (exp_state x))"
  using history_inv [OF assms(1)] assms(2)
  by (fastforce simp: ledger_inv_def receipts_ok_def receipts_backed_def)

theorem receipts_are_backed_witness:
  "\<exists>x. dget (expenses (ledger_after demo_env demo_org demo_history)) ''e'' = Some x \<and>
     (verified_state (exp_state x) \<or> corrected_state (exp_state x))"
  using receipts_are_backed [OF demo_run_ok, of "demo_id ''uof'' 11" demo_receipt] demo_run by auto

text \<open>The audit log is append-only in every history: an entry once written stays at its place.\<close>

theorem audit_log_append_only:
  assumes "n < length (audit_log (ledger_after E org cs))"
  shows "n < length (audit_log (ledger_after E org (cs @ ds))) \<and>
    audit_log (ledger_after E org (cs @ ds)) ! n = audit_log (ledger_after E org cs) ! n"
  using audit_trail.run_retains [of E "ledger_after E org cs" ds n "audit_log (ledger_after E org cs) ! n"] assms
  by (simp add: run_append split: if_splits)

theorem audit_log_append_only_witness:
  "audit_log (ledger_after demo_env demo_org ([RegisterDonor demo_donor] @ demo_history)) ! 0 =
   audit_log (ledger_after demo_env demo_org [RegisterDonor demo_donor]) ! 0"
proof -
  have "0 < length (audit_log (ledger_after demo_env demo_org [RegisterDonor demo_donor]))"
    by (simp add: register_donor_def empty_ledger_def audit_def Let_def)
  then show ?thesis using audit_log_append_only by blast
qed

section \<open>The life of an expense\<close>

text \<open>C24. An expense only moves forward: after any further commands it is still stored, what it is
  about (amount, vendor, dates, description) is unchanged, each change moves it to a later stage of
  the life cycle, and once it is approved its approver never changes.\<close>

theorem expense_moves_forward:
  assumes "dget (expenses (ledger_after E org cs)) e = Some x"
  shows "\<exists>y. dget (expenses (ledger_after E org (cs @ ds))) e = Some y \<and>
    expense_facts y = expense_facts x \<and> (y = x \<or> stage (exp_state x) < stage (exp_state y)) \<and>
    (2 \<le> stage (exp_state x) \<longrightarrow> exp_approved_by y = exp_approved_by x)"
  using run_evolves [OF assms, of E ds] by (simp add: run_append evolves_def)

theorem expense_moves_forward_witness:
  "\<exists>y. dget (expenses (ledger_after demo_env demo_org (demo_history @ [ReverseExpense ''e'' ''ops'' ''refund''])))
     ''e'' = Some y \<and> exp_amount y = 4000 \<and> exp_approved_by y = Some ''cfo''"
proof -
  obtain y where "dget (expenses (ledger_after demo_env demo_org
      (demo_history @ [ReverseExpense ''e'' ''ops'' ''refund'']))) ''e'' = Some y"
    "expense_facts y = expense_facts (demo_expense ''e'' 4000 APPROVED (Some ''cfo''))"
    "exp_approved_by y = Some ''cfo''"
    using expense_moves_forward [of demo_env demo_org demo_history "''e''"
        "demo_expense ''e'' 4000 APPROVED (Some ''cfo'')"] demo_run by auto
  moreover have "exp_amount y = exp_amount (expense_facts y)" by (simp add: expense_facts_def)
  ultimately show ?thesis by (auto simp: expense_facts_def)
qed

section \<open>References and life cycles\<close>

definition resolves :: "ledger \<Rightarrow> bool" where
  "resolves L \<longleftrightarrow>
     list_all (\<lambda>(k, d). don_id d = k \<and> 0 < don_amount d \<and> dhas (donors L) (don_donor d)) (donations L) \<and>
     list_all (\<lambda>(k, x). da_id x = k \<and> 0 < da_amount x \<and> dhas (donations L) (da_donation x) \<and>
        dhas (allocations L) (da_allocation x)) (donation_allocations L) \<and>
     list_all (\<lambda>(k, x). ea_id x = k \<and> 0 < ea_amount x \<and> dhas (expenses L) (ea_expense x) \<and>
        dhas (allocations L) (ea_allocation x)) (expense_allocations L) \<and>
     list_all (\<lambda>(k, t). at_id t = k \<and> 0 < at_amount t \<and> dhas (donations L) (at_donation t) \<and>
        dhas (expenses L) (at_expense t) \<and> dhas (allocations L) (at_allocation t)) (attributions L) \<and>
     list_all (\<lambda>(k, v). ev_id v = k \<and> dhas (expenses L) (ev_expense v)) (evidence L) \<and>
     list_all (\<lambda>(k, r). r_id r = k \<and> dhas (expenses L) (r_expense r)) (receipts L)"

lemma ledger_wf_resolves: "ledger_wf L \<Longrightarrow> resolves L"
  by (auto simp: ledger_wf_def wf_parties_def wf_links_def resolves_def dall_def cleared_in_def owns_in_def
      elim!: list.pred_mono_strong)

text \<open>In every history the books are well formed: every entity is stored under its own identifier, a donation
  names a registered donor and a positive amount, a donation allocation a cleared donation and a fund,
  a charge and an attribution an imported expense and a fund, an attribution a donation of its donor, a
  piece of evidence and a receipt an imported expense.\<close>

theorem references_resolve: "resolves (ledger_after E org cs)"
  using history_base_inv [of E org cs] by (simp add: ledger_base_inv_def ledger_wf_resolves)

fun life_left :: "expense option \<Rightarrow> nat" where
  "life_left None = 5"
| "life_left (Some x) = 4 - stage (exp_state x)"

lemma stage_le: "stage s \<le> 4"
  by (cases s) simp_all

lemma step_life:
  "dget (expenses (ledger_step E L c)) e = dget (expenses L) e \<or>
   life_left (dget (expenses (ledger_step E L c)) e) < life_left (dget (expenses L) e)"
proof (cases "dget (expenses L) e")
  case None
  then show ?thesis by (cases "dget (expenses (ledger_step E L c)) e") (auto simp: less_Suc_eq_le)
next
  case (Some x)
  have "effects False L (ledger_step E L c)" by (rule ledger_step_effects) simp
  then obtain y where y: "dget (expenses (ledger_step E L c)) e = Some y" "evolves x y"
    using effects_evolves Some by blast
  then show ?thesis using Some stage_le [of "exp_state y"] by (auto simp: evolves_def)
qed

lemma eventually_constant:
  fixes g :: "nat \<Rightarrow> 'a" and m :: "'a \<Rightarrow> nat"
  assumes "\<And>n. g (Suc n) = g n \<or> m (g (Suc n)) < m (g n)"
  shows "\<exists>n. \<forall>k \<ge> n. g k = g n"
proof -
  obtain n where least: "\<And>k. m (g n) \<le> m (g k)"
    using exists_least_iff [of "\<lambda>v. v \<in> range (\<lambda>n. m (g n))"] by (metis (no_types, lifting) not_le rangeE rangeI)
  have "g k = g n" if "n \<le> k" for k
    using that
  proof (induction k rule: dec_induct)
    case (step k)
    then show ?case using assms [of k] least [of "Suc k"] by auto
  qed simp
  then show ?thesis by blast
qed

text \<open>The life of an expense ends: however many commands are issued, the record of an expense changes only
  finitely often, so from some point on it is the same in every later state.\<close>

theorem expense_life_ends:
  "\<exists>n. \<forall>k. dget (expenses (ledger_after E org (map f [0..<n + k]))) e =
     dget (expenses (ledger_after E org (map f [0..<n]))) e"
proof -
  let ?g = "\<lambda>n. dget (expenses (ledger_after E org (map f [0..<n]))) e"
  have "ledger_after E org (map f [0..<Suc n]) = ledger_step E (ledger_after E org (map f [0..<n])) (f n)" for n
    by (simp add: run_append)
  then have "\<exists>n. \<forall>k \<ge> n. ?g k = ?g n"
    using step_life [where e = e] by (intro eventually_constant [of ?g life_left]) (simp only:)
  then show ?thesis by (metis le_add1)
qed

end
