(* ===== verification/Ledger_Operations.thy ===== *)
theory Ledger_Operations
  imports Scenario
begin

text \<open>
  The behaviour of single operations of the ledger: what an approval, an attribution and a published
  receipt require and establish, what a failing call leaves behind, and the three places where the
  code does not keep what its documentation promises.
\<close>

section \<open>Approval\<close>

lemma check_balances_iff:
  "check_balances L eas = Inr () \<longleftrightarrow>
     (\<forall>ea \<in> set eas. \<exists>bal. allocation_remaining_balance L (ea_allocation ea) = Inr bal \<and> ea_amount ea \<le> bal)"
  by (induction L eas rule: check_balances.induct) (auto split: sum.splits)

text \<open>Approval succeeds exactly when the expense waits for approval, has charges that sum to its
  amount, every charged fund reports a balance that covers its charge, and an approver is named; then
  the approved expense, with its approver, is what is stored.\<close>

theorem approve_expense_iff:
  "(\<exists>u L'. approve_expense E e who L = (Inr u, L')) \<longleftrightarrow>
     (\<exists>x. dget (expenses L) e = Some x \<and> exp_state x \<in> {APPROVAL_PENDING, CLASSIFICATION_PENDING, IMPORTED} \<and>
        expense_allocations_for L e \<noteq> [] \<and>
        sum_list (map ea_amount (expense_allocations_for L e)) = exp_amount x \<and>
        (\<forall>ea \<in> set (expense_allocations_for L e). \<exists>bal.
           allocation_remaining_balance L (ea_allocation ea) = Inr bal \<and> ea_amount ea \<le> bal) \<and>
        who \<noteq> [] \<and>
        dget (expenses (snd (approve_expense E e who L))) e =
          Some ((with_expense_state x APPROVED)\<lparr>exp_approved_by := Some who\<rparr>))"
proof -
  have bal: "check_balances L (expense_allocations_for L e) = Inr () \<longleftrightarrow>
    (\<forall>ea \<in> set (expense_allocations_for L e). \<exists>bal.
       allocation_remaining_balance L (ea_allocation ea) = Inr bal \<and> ea_amount ea \<le> bal)"
    by (rule check_balances_iff)
  show ?thesis
    unfolding bal [symmetric]
    by (auto simp: approve_expense_def require_expense_def Let_def verified_state_def corrected_state_def
        split: option.splits sum.splits)
qed

theorem approve_expense_iff_witness:
  "\<exists>u L'. approve_expense demo_env ''e'' ''cfo'' demo6 = (Inr u, L')"
proof -
  have "expense_allocations_for demo6 ''e'' = [demo_ea]" by (simp add: expense_allocations_for_def)
  moreover have "allocation_remaining_balance demo6 ''f'' = Inr 10000" by (simp add: demo_ops)
  moreover have "dget (expenses (snd (approve_expense demo_env ''e'' ''cfo'' demo6))) ''e'' =
      Some (demo_expense ''e'' 4000 APPROVED (Some ''cfo''))"
    using demo7_state(6) by (simp add: demo7_def del: demo7_state)
  ultimately show ?thesis unfolding approve_expense_iff by simp
qed

section \<open>Attribution\<close>

lemma find_unique:
  assumes "P t" "t \<in> set xs" and only: "\<And>u. u \<in> set xs \<Longrightarrow> P u \<Longrightarrow> u = t"
  shows "find P xs = Some t"
proof (cases "find P xs")
  case None
  then show ?thesis using assms(1,2) by (auto simp: find_None_iff)
next
  case (Some u)
  then have "u \<in> set xs" "P u" by (auto simp: find_Some_iff)
  then show ?thesis using only Some by simp
qed

lemma find_attribution_new:
  assumes "same_link d e a t"
    and "attributions L' = dset i t (dfilter (\<lambda>t. \<not> same_link d e a t) (attributions L))"
  shows "find_attribution L' d e a = Some t"
proof -
  let ?D = "dfilter (\<lambda>t. \<not> same_link d e a t) (attributions L)"
  have "t \<in> set (dvalues (dset i t ?D))" by (rule dget_in_dvalues [of _ i]) simp
  moreover have "u = t" if "u \<in> set (dvalues (dset i t ?D))" "same_link d e a u" for u
    using that set_dvalues_dset [of i t ?D] by auto
  ultimately show ?thesis
    using assms unfolding find_attribution_def by (intro find_unique) (auto simp: same_link_def)
qed

text \<open>An attribution that succeeds uses a real method, names the donor of the donation, is
  positive, is at most what the expense charges to the fund, keeps the donor within the amount
  designated to the fund counting every other active expense, and replaces the earlier attribution of
  the same donation, expense and fund.\<close>

theorem attribution_sound:
  assumes "attribute_donor_to_expense E dn d e a m given i L = (Inr t, L')"
  shows "m \<noteq> NO_METHOD \<and> (\<exists>don. dget (donations L) d = Some don \<and> don_donor don = dn) \<and>
    0 < at_amount t \<and> at_amount t \<le> expense_charge_on L e a \<and>
    active_attribution_total L d a (Some e) + at_amount t \<le> donor_designated L d a \<and>
    find_attribution L' d e a = Some t"
proof -
  have t: "same_link d e a t \<and> (\<exists>k. attributions L' =
      dset k t (dfilter (\<lambda>t. \<not> same_link d e a t) (attributions L)))"
    using assms
    by (auto simp: attribute_donor_to_expense_def Let_def split_beta same_link_def
        split: if_splits sum.splits)
  then have "find_attribution L' d e a = Some t" by (blast intro: find_attribution_new)
  moreover have "m \<noteq> NO_METHOD \<and> (\<exists>don. dget (donations L) d = Some don \<and> don_donor don = dn) \<and>
    0 < at_amount t \<and> at_amount t \<le> expense_charge_on L e a \<and>
    active_attribution_total L d a (Some e) + at_amount t \<le> donor_designated L d a"
    using assms
    by (auto simp: attribute_donor_to_expense_def Let_def split_beta require_simps
        split: if_splits sum.splits)
  ultimately show ?thesis by blast
qed

theorem attribution_sound_witness:
  "\<exists>t L'. attribute_donor_to_expense demo_env ''d'' ''g'' ''e'' ''f'' DIRECT_RESTRICTED None None demo7 = (Inr t, L') \<and>
     0 < at_amount t \<and> find_attribution L' ''g'' ''e'' ''f'' = Some t"
proof -
  obtain t L' where r: "attribute_donor_to_expense demo_env ''d'' ''g'' ''e'' ''f'' DIRECT_RESTRICTED None None demo7 = (Inr t, L')"
    by (simp add: demo_ops)
  with attribution_sound [OF r] show ?thesis by blast
qed

section \<open>Publishing a receipt\<close>

text \<open>C25. A receipt that is published is for an approved or reconciled expense and for an attribution
  on record, repeats their amounts and the donor's remaining balance, which is not negative, was not
  published before under the same donation, expense and fund, and is stored with its snapshot and
  linked to its expense as the last of the expense's receipts.\<close>

theorem publish_receipt_sound:
  assumes "publish_use_of_funds_receipt E e d a actor created L = (Inr r, L')"
  shows "(\<exists>x. dget (expenses L) e = Some x \<and> verified_state (exp_state x) \<and> r_gross r = exp_amount x) \<and>
    (\<exists>t. find_attribution L d e a = Some t \<and> r_attributed r = at_amount t \<and>
       r_method r = method_value (at_method t)) \<and>
    donor_remaining_on_allocation L d a = Inr (r_remaining r) \<and> 0 \<le> r_remaining r \<and>
    find_live_receipt L d e a = None \<and> dget (receipts L) (r_id r) = None \<and>
    live_for d e a r \<and> dget (receipts L') (r_id r) = Some r \<and>
    dget (receipt_snapshots L') (r_id r) = Some (uof_to_dict r) \<and>
    prior_receipt_ids L' e = prior_receipt_ids L e @ [r_id r]"
proof -
  let ?Q = "\<lambda>v L'. \<forall>r. v = Inr r \<longrightarrow>
    (\<exists>x. dget (expenses L) e = Some x \<and> verified_state (exp_state x) \<and> r_gross r = exp_amount x) \<and>
    (\<exists>t. find_attribution L d e a = Some t \<and> r_attributed r = at_amount t \<and>
       r_method r = method_value (at_method t)) \<and>
    donor_remaining_on_allocation L d a = Inr (r_remaining r) \<and> 0 \<le> r_remaining r \<and>
    find_live_receipt L d e a = None \<and> dget (receipts L) (r_id r) = None \<and>
    live_for d e a r \<and> dget (receipts L') (r_id r) = Some r \<and>
    dget (receipt_snapshots L') (r_id r) = Some (uof_to_dict r) \<and>
    prior_receipt_ids L' e = prior_receipt_ids L e @ [r_id r]"
  have "post ?Q (publish_use_of_funds_receipt E e d a actor created L)"
    unfolding publish_use_of_funds_receipt_def
    by (intro post_branch post_pair) (simp_all add: require_simps live_for_def prior_receipt_ids_def)
  from postD [OF this assms] show ?thesis by simp
qed

theorem publish_receipt_sound_witness:
  "\<exists>r L'. publish_use_of_funds_receipt demo_env ''e'' ''g'' ''f'' ''ops'' None demo8 = (Inr r, L') \<and>
     live_for ''g'' ''e'' ''f'' r \<and> dget (receipt_snapshots L') (r_id r) = Some (uof_to_dict r)"
proof -
  obtain r L' where r: "publish_use_of_funds_receipt demo_env ''e'' ''g'' ''f'' ''ops'' None demo8 = (Inr r, L')"
    by (simp add: demo_ops demo_publish_ops)
  with publish_receipt_sound [OF r] show ?thesis by blast
qed

section \<open>Failing calls\<close>

text \<open>The exception a command raises, if it raises one.\<close>

definition error_of :: "'a outcome \<times> ledger \<Rightarrow> py_exn option" where
  "error_of r = (case fst r of Inl x \<Rightarrow> Some x | Inr _ \<Rightarrow> None)"

fun step_error :: "env \<Rightarrow> ledger \<Rightarrow> ledger_cmd \<Rightarrow> py_exn option" where
  "step_error E L (RegisterDonor d) = error_of (register_donor E d L)"
| "step_error E L (ImportDonation d) = error_of (import_donation E d L)"
| "step_error E L (RegisterAllocation a) = error_of (register_allocation E a L)"
| "step_error E L (AssignDonationAllocation d a amt i) = error_of (assign_donation_allocation E d a amt i L)"
| "step_error E L (ImportExpense e) = error_of (import_expense E e L)"
| "step_error E L (AttachEvidence v) = error_of (attach_evidence E v L)"
| "step_error E L (AllocateExpense e a amt i) = error_of (allocate_expense E e a amt i L)"
| "step_error E L (AllocateExpenseSplits e sp) = error_of (allocate_expense_splits E e sp L)"
| "step_error E L (ApproveExpense e by) = error_of (approve_expense E e by L)"
| "step_error E L (ReconcileExpense e by) = error_of (reconcile_expense E e by L)"
| "step_error E L (AttributeDonor dn d e a m amt i) =
     error_of (attribute_donor_to_expense E dn d e a m amt i L)"
| "step_error E L (PublishReceipt e d a actor created) =
     error_of (publish_use_of_funds_receipt E e d a actor created L)"
| "step_error E L (ReverseExpense e actor why) = error_of (reverse_expense E e actor why L)"
| "step_error E L (SupersedeExpense e r sp actor why by) =
     error_of (supersede_expense E e r sp actor why by L)"
| "step_error E L (MutateReceipt i) = error_of (mutate_receipt i L)"
| "step_error E L (MutateApprovedExpense i) = error_of (mutate_approved_expense i L)"

fun is_correction :: "ledger_cmd \<Rightarrow> bool" where
  "is_correction (ReverseExpense e actor why) = True"
| "is_correction (SupersedeExpense e r sp actor why by) = True"
| "is_correction _ = False"

definition quiet_fail :: "ledger \<Rightarrow> 'a outcome \<Rightarrow> ledger \<Rightarrow> bool" where
  "quiet_fail L v K \<longleftrightarrow>
     (case v of Inr _ \<Rightarrow> True
      | Inl x \<Rightarrow> K\<lparr>uuid_draws := 0, clock_reads := 0\<rparr> = L\<lparr>uuid_draws := 0, clock_reads := 0\<rparr>)"

lemma quiet_leaf: "quiet_fail L (Inl x) L" "quiet_fail L (Inr y) K"
  by (simp_all add: quiet_fail_def)

lemma quiet_ops:
  "post (quiet_fail L) (register_donor E dn L)" "post (quiet_fail L) (import_donation E don L)"
  "post (quiet_fail L) (register_allocation E al L)" "post (quiet_fail L) (assign_donation_allocation E d a amt i L)"
  "post (quiet_fail L) (import_expense E x L)" "post (quiet_fail L) (attach_evidence E v L)"
  "post (quiet_fail L) (allocate_expense E e a amt i L)" "post (quiet_fail L) (allocate_expense_splits E e sp L)"
  "post (quiet_fail L) (approve_expense E e who L)" "post (quiet_fail L) (reconcile_expense E e who L)"
  "post (quiet_fail L) (attribute_donor_to_expense E dnr d e a m g i L)"
  "post (quiet_fail L) (mutate_receipt i' L)" "post (quiet_fail L) (mutate_approved_expense i' L)"
  unfolding register_donor_def import_donation_def register_allocation_def
      assign_donation_allocation_def import_expense_def attach_evidence_def allocate_expense_def
      allocate_expense_splits_def approve_expense_def reconcile_expense_def attribute_donor_to_expense_def
      mutate_receipt_def mutate_approved_expense_def
  by (intro post_branch post_pair quiet_leaf)+

lemma quiet_publish: "post (quiet_fail L) (publish_use_of_funds_receipt E e d a actor created L)"
  unfolding publish_use_of_funds_receipt_def
  by (intro post_branch post_pair quiet_leaf)
    (simp add: quiet_fail_def new_id_def time_or_now_def read_clock_def)

lemma error_of_post: "post (quiet_fail L) r \<Longrightarrow> error_of r = Some x \<Longrightarrow>
    snd r = L\<lparr>uuid_draws := uuid_draws (snd r), clock_reads := clock_reads (snd r)\<rparr>"
  by (cases r; cases "snd r"; cases L) (auto simp: post_def error_of_def quiet_fail_def split: sum.splits)

text \<open>C26. A call that raises changes nothing: for every command but the two corrections, when it
  raises, every store and the audit log are as before (only identifiers and clock readings may have
  been drawn).\<close>

theorem failing_call_changes_nothing:
  assumes "step_error E L c = Some x" and "\<not> is_correction c"
  shows "ledger_step E L c =
    L\<lparr>uuid_draws := uuid_draws (ledger_step E L c), clock_reads := clock_reads (ledger_step E L c)\<rparr>"
  using assms by (cases c) (auto intro: error_of_post quiet_ops quiet_publish)

theorem failing_call_changes_nothing_witness:
  "ledger_step demo_env demo9 (ApproveExpense ''e'' ''cfo'') =
     demo9\<lparr>uuid_draws := uuid_draws (ledger_step demo_env demo9 (ApproveExpense ''e'' ''cfo'')),
       clock_reads := clock_reads (ledger_step demo_env demo9 (ApproveExpense ''e'' ''cfo''))\<rparr>"
proof -
  have "step_error demo_env demo9 (ApproveExpense ''e'' ''cfo'') =
      Some (StateError ''expense already approved/reconciled'')"
    by (simp add: error_of_def approve_expense_def require_expense_def)
  then show ?thesis by (rule failing_call_changes_nothing) simp
qed

text \<open>The refused mutations always raise and never change the ledger.\<close>

theorem silent_mutation_refused:
  "(\<exists>msg. mutate_receipt i L = (Inl (StateError msg), L)) \<and>
   (\<exists>x. mutate_approved_expense e L = (Inl x, L))"
  by (auto simp: mutate_receipt_def mutate_approved_expense_def split: sum.splits)

end
