(* ===== verification/Ledger_Gaps.thy ===== *)
theory Ledger_Gaps
  imports Scenario
begin

text \<open>
  Three histories in which the ledger does not keep what its documentation promises: a fund
  overdrawn by one approval, a receipt for a fund the expense is not charged to, and a correction
  that fails half way. Each is evaluated command by command, as in the scenario.
\<close>

lemma gap_money [simp]: "money 60 = Inr 6000"
  by code_simp

section \<open>Two charges on one fund\<close>

lemma demo4_evidence [simp]: "evidence demo3 = []" "evidence demo4 = []"
  by (simp_all add: demo4_def demo3_def demo2_def demo1_def demo0_def demo_ops empty_ledger_def)

definition over1 :: ledger where
  "over1 = ledger_step demo_env demo4 (ImportExpense (demo_expense ''e'' 12000 IMPORTED None))"

lemma over1_state [simp]:
  "organization over1 = demo_org" "donors over1 = [(''d'', demo_donor)]"
  "donations over1 = [(''g'', demo_donation)]" "allocations over1 = [(''f'', demo_fund ''f'')]"
  "donation_allocations over1 = [(demo_id ''da'' 3, demo_da)]"
  "expenses over1 = [(''e'', demo_expense ''e'' 12000 IMPORTED None)]"
  "expense_allocations over1 = []"
  "attributions over1 = []" "receipts over1 = []" "evidence over1 = []" "uuid_draws over1 = 6"
  by (simp_all add: over1_def demo_ops)

definition over2 :: ledger where
  "over2 = ledger_step demo_env over1 (AllocateExpenseSplits ''e'' [(''f'', 60), (''f'', 60)])"

lemma over2_state [simp]:
  "organization over2 = demo_org" "donors over2 = [(''d'', demo_donor)]"
  "donations over2 = [(''g'', demo_donation)]" "allocations over2 = [(''f'', demo_fund ''f'')]"
  "donation_allocations over2 = [(demo_id ''da'' 3, demo_da)]"
  "expenses over2 = [(''e'', demo_expense ''e'' 12000 APPROVAL_PENDING None)]"
  "expense_allocations over2 = [(demo_id ''ea'' 6, \<lparr>ea_id = demo_id ''ea'' 6, ea_expense = ''e'', ea_allocation = ''f'', ea_amount = 6000\<rparr>), (demo_id ''ea'' 7, \<lparr>ea_id = demo_id ''ea'' 7, ea_expense = ''e'', ea_allocation = ''f'', ea_amount = 6000\<rparr>)]"
  "attributions over2 = []" "receipts over2 = []" "evidence over2 = []" "uuid_draws over2 = 9"
  by (simp_all add: over2_def demo_ops)

definition over3 :: ledger where
  "over3 = ledger_step demo_env over2 (ApproveExpense ''e'' ''cfo'')"

lemma over3_state [simp]:
  "organization over3 = demo_org" "donors over3 = [(''d'', demo_donor)]"
  "donations over3 = [(''g'', demo_donation)]" "allocations over3 = [(''f'', demo_fund ''f'')]"
  "donation_allocations over3 = [(demo_id ''da'' 3, demo_da)]"
  "expenses over3 = [(''e'', demo_expense ''e'' 12000 APPROVED (Some ''cfo''))]"
  "expense_allocations over3 = [(demo_id ''ea'' 6, \<lparr>ea_id = demo_id ''ea'' 6, ea_expense = ''e'', ea_allocation = ''f'', ea_amount = 6000\<rparr>), (demo_id ''ea'' 7, \<lparr>ea_id = demo_id ''ea'' 7, ea_expense = ''e'', ea_allocation = ''f'', ea_amount = 6000\<rparr>)]"
  "attributions over3 = []" "receipts over3 = []" "evidence over3 = []" "uuid_draws over3 = 10"
  by (simp_all add: over3_def demo_ops)


section \<open>An attribution that outlives its charge\<close>

definition stale1 :: ledger where
  "stale1 = ledger_step demo_env demo3 (RegisterAllocation (demo_fund ''k''))"

lemma stale1_state [simp]:
  "organization stale1 = demo_org" "donors stale1 = [(''d'', demo_donor)]"
  "donations stale1 = [(''g'', demo_donation)]" "allocations stale1 = [(''f'', demo_fund ''f''), (''k'', demo_fund ''k'')]"
  "donation_allocations stale1 = []"
  "expenses stale1 = []"
  "expense_allocations stale1 = []"
  "attributions stale1 = []" "receipts stale1 = []" "evidence stale1 = []" "uuid_draws stale1 = 4"
  by (simp_all add: stale1_def demo_ops)

definition stale2 :: ledger where
  "stale2 = ledger_step demo_env stale1 (AssignDonationAllocation ''g'' ''f'' 60 None)"

lemma stale2_state [simp]:
  "organization stale2 = demo_org" "donors stale2 = [(''d'', demo_donor)]"
  "donations stale2 = [(''g'', demo_donation)]" "allocations stale2 = [(''f'', demo_fund ''f''), (''k'', demo_fund ''k'')]"
  "donation_allocations stale2 = [(demo_id ''da'' 4, \<lparr>da_id = demo_id ''da'' 4, da_donation = ''g'', da_allocation = ''f'', da_amount = 6000\<rparr>)]"
  "expenses stale2 = []"
  "expense_allocations stale2 = []"
  "attributions stale2 = []" "receipts stale2 = []" "evidence stale2 = []" "uuid_draws stale2 = 6"
  by (simp_all add: stale2_def demo_ops)

definition stale3 :: ledger where
  "stale3 = ledger_step demo_env stale2 (AssignDonationAllocation ''g'' ''k'' 40 None)"

lemma stale3_state [simp]:
  "organization stale3 = demo_org" "donors stale3 = [(''d'', demo_donor)]"
  "donations stale3 = [(''g'', demo_donation)]" "allocations stale3 = [(''f'', demo_fund ''f''), (''k'', demo_fund ''k'')]"
  "donation_allocations stale3 = [(demo_id ''da'' 4, \<lparr>da_id = demo_id ''da'' 4, da_donation = ''g'', da_allocation = ''f'', da_amount = 6000\<rparr>),
     (demo_id ''da'' 6, \<lparr>da_id = demo_id ''da'' 6, da_donation = ''g'', da_allocation = ''k'', da_amount = 4000\<rparr>)]"
  "expenses stale3 = []"
  "expense_allocations stale3 = []"
  "attributions stale3 = []" "receipts stale3 = []" "evidence stale3 = []" "uuid_draws stale3 = 8"
  by (simp_all add: stale3_def demo_ops)

definition stale4 :: ledger where
  "stale4 = ledger_step demo_env stale3 (ImportExpense (demo_expense ''e'' 4000 IMPORTED None))"

lemma stale4_state [simp]:
  "organization stale4 = demo_org" "donors stale4 = [(''d'', demo_donor)]"
  "donations stale4 = [(''g'', demo_donation)]" "allocations stale4 = [(''f'', demo_fund ''f''), (''k'', demo_fund ''k'')]"
  "donation_allocations stale4 = [(demo_id ''da'' 4, \<lparr>da_id = demo_id ''da'' 4, da_donation = ''g'', da_allocation = ''f'', da_amount = 6000\<rparr>),
     (demo_id ''da'' 6, \<lparr>da_id = demo_id ''da'' 6, da_donation = ''g'', da_allocation = ''k'', da_amount = 4000\<rparr>)]"
  "expenses stale4 = [(''e'', demo_expense ''e'' 4000 IMPORTED None)]"
  "expense_allocations stale4 = []"
  "attributions stale4 = []" "receipts stale4 = []" "evidence stale4 = []" "uuid_draws stale4 = 9"
  by (simp_all add: stale4_def demo_ops)

definition stale5 :: ledger where
  "stale5 = ledger_step demo_env stale4 (AllocateExpenseSplits ''e'' [(''f'', 40)])"

lemma stale5_state [simp]:
  "organization stale5 = demo_org" "donors stale5 = [(''d'', demo_donor)]"
  "donations stale5 = [(''g'', demo_donation)]" "allocations stale5 = [(''f'', demo_fund ''f''), (''k'', demo_fund ''k'')]"
  "donation_allocations stale5 = [(demo_id ''da'' 4, \<lparr>da_id = demo_id ''da'' 4, da_donation = ''g'', da_allocation = ''f'', da_amount = 6000\<rparr>),
     (demo_id ''da'' 6, \<lparr>da_id = demo_id ''da'' 6, da_donation = ''g'', da_allocation = ''k'', da_amount = 4000\<rparr>)]"
  "expenses stale5 = [(''e'', demo_expense ''e'' 4000 APPROVAL_PENDING None)]"
  "expense_allocations stale5 = [(demo_id ''ea'' 9, \<lparr>ea_id = demo_id ''ea'' 9, ea_expense = ''e'', ea_allocation = ''f'', ea_amount = 4000\<rparr>)]"
  "attributions stale5 = []" "receipts stale5 = []" "evidence stale5 = []" "uuid_draws stale5 = 11"
  by (simp_all add: stale5_def demo_ops)

definition stale_attribution :: donor_expense_attribution where
  "stale_attribution = demo_attribution\<lparr>at_id := demo_id ''attr'' 11\<rparr>"

lemma stale_attribution_fields [simp]:
  "at_id stale_attribution = demo_id ''attr'' 11" "at_donation stale_attribution = ''g''"
  "at_expense stale_attribution = ''e''" "at_allocation stale_attribution = ''f''"
  "at_amount stale_attribution = 4000" "at_method stale_attribution = DIRECT_RESTRICTED"
  by (simp_all add: stale_attribution_def)

definition stale6 :: ledger where
  "stale6 = ledger_step demo_env stale5 (AttributeDonor ''d'' ''g'' ''e'' ''f'' DIRECT_RESTRICTED None None)"

lemma stale6_state [simp]:
  "organization stale6 = demo_org" "donors stale6 = [(''d'', demo_donor)]"
  "donations stale6 = [(''g'', demo_donation)]" "allocations stale6 = [(''f'', demo_fund ''f''), (''k'', demo_fund ''k'')]"
  "donation_allocations stale6 = [(demo_id ''da'' 4, \<lparr>da_id = demo_id ''da'' 4, da_donation = ''g'', da_allocation = ''f'', da_amount = 6000\<rparr>),
     (demo_id ''da'' 6, \<lparr>da_id = demo_id ''da'' 6, da_donation = ''g'', da_allocation = ''k'', da_amount = 4000\<rparr>)]"
  "expenses stale6 = [(''e'', demo_expense ''e'' 4000 APPROVAL_PENDING None)]"
  "expense_allocations stale6 = [(demo_id ''ea'' 9, \<lparr>ea_id = demo_id ''ea'' 9, ea_expense = ''e'', ea_allocation = ''f'', ea_amount = 4000\<rparr>)]"
  "attributions stale6 = [(demo_id ''attr'' 11, stale_attribution)]" "receipts stale6 = []" "evidence stale6 = []" "uuid_draws stale6 = 13"
  by (simp_all add: stale6_def demo_ops stale_attribution_def demo_attribution_def demo_org_def)

definition stale7 :: ledger where
  "stale7 = ledger_step demo_env stale6 (AllocateExpenseSplits ''e'' [(''k'', 40)])"

lemma stale7_state [simp]:
  "organization stale7 = demo_org" "donors stale7 = [(''d'', demo_donor)]"
  "donations stale7 = [(''g'', demo_donation)]" "allocations stale7 = [(''f'', demo_fund ''f''), (''k'', demo_fund ''k'')]"
  "donation_allocations stale7 = [(demo_id ''da'' 4, \<lparr>da_id = demo_id ''da'' 4, da_donation = ''g'', da_allocation = ''f'', da_amount = 6000\<rparr>),
     (demo_id ''da'' 6, \<lparr>da_id = demo_id ''da'' 6, da_donation = ''g'', da_allocation = ''k'', da_amount = 4000\<rparr>)]"
  "expenses stale7 = [(''e'', demo_expense ''e'' 4000 APPROVAL_PENDING None)]"
  "expense_allocations stale7 = [(demo_id ''ea'' 13, \<lparr>ea_id = demo_id ''ea'' 13, ea_expense = ''e'', ea_allocation = ''k'', ea_amount = 4000\<rparr>)]"
  "attributions stale7 = [(demo_id ''attr'' 11, stale_attribution)]" "receipts stale7 = []" "evidence stale7 = []" "uuid_draws stale7 = 15"
  by (simp_all add: stale7_def demo_ops)

definition stale8 :: ledger where
  "stale8 = ledger_step demo_env stale7 (ApproveExpense ''e'' ''cfo'')"

lemma stale8_state [simp]:
  "organization stale8 = demo_org" "donors stale8 = [(''d'', demo_donor)]"
  "donations stale8 = [(''g'', demo_donation)]" "allocations stale8 = [(''f'', demo_fund ''f''), (''k'', demo_fund ''k'')]"
  "donation_allocations stale8 = [(demo_id ''da'' 4, \<lparr>da_id = demo_id ''da'' 4, da_donation = ''g'', da_allocation = ''f'', da_amount = 6000\<rparr>),
     (demo_id ''da'' 6, \<lparr>da_id = demo_id ''da'' 6, da_donation = ''g'', da_allocation = ''k'', da_amount = 4000\<rparr>)]"
  "expenses stale8 = [(''e'', demo_expense ''e'' 4000 APPROVED (Some ''cfo''))]"
  "expense_allocations stale8 = [(demo_id ''ea'' 13, \<lparr>ea_id = demo_id ''ea'' 13, ea_expense = ''e'', ea_allocation = ''k'', ea_amount = 4000\<rparr>)]"
  "attributions stale8 = [(demo_id ''attr'' 11, stale_attribution)]" "receipts stale8 = []" "evidence stale8 = []" "uuid_draws stale8 = 16"
  by (simp_all add: stale8_def demo_ops)

text \<open>A receipt can name a fund that paid nothing: an attribution made before approval survives
  when the expense is charged anew to another fund, and a receipt for 40.00 out of the first fund is
  published although the approved expense charges that fund 0.00.\<close>

theorem receipt_for_uncharged_fund:
  "expense_charge_on stale8 ''e'' ''f'' = 0 \<and> expense_charge_on stale8 ''e'' ''k'' = 4000 \<and>
   (\<exists>r L'. publish_use_of_funds_receipt demo_env ''e'' ''g'' ''f'' ''ops'' None stale8 = (Inr r, L') \<and>
      r_allocation r = ''f'' \<and> r_attributed r = 4000)"
  by (simp add: demo_ops demo_publish_ops)

section \<open>A supersede that fails half way\<close>

text \<open>A supersede that is refused because the replacement reuses the identifier still leaves the
  old expense superseded, with its receipt published and no correction: the call raises, and the
  ledger no longer counts the expense.\<close>

theorem failed_supersede_leaves_expense_superseded:
  "\<exists>x L'. supersede_expense demo_env ''e'' (demo_expense ''e'' 3000 IMPORTED None) [(''f'', 30)]
       ''ops'' ''typo'' ''cfo'' demo9 = (Inl (InvariantError ''replacement expense must have a new id''), L') \<and>
     dget (expenses L') ''e'' = Some x \<and> exp_state x = SUPERSEDED \<and> receipts L' = receipts demo9 \<and>
     audit_log L' = audit_log demo9"
  by (simp add: supersede_expense_def require_expense_def Let_def)

end
