(* ===== verification/Agents.thy ===== *)
theory Agents
  imports Ledger
begin

text \<open>
  The governance layer of \<^verbatim>\<open>agents/types.py\<close>, \<^verbatim>\<open>agents/authority.py\<close>, \<^verbatim>\<open>agents/base.py\<close> and
  \<^verbatim>\<open>workflows/commands.py\<close>: commands, proposals, human approvals, the gate that decides whether a
  command may run, and the executor that runs each idempotency key at most once. The executor is
  parametric in the domain it dispatches to and in the receipt index it consults, as in the code.
\<close>

section \<open>Enumerations\<close>

datatype authority_level = L0_OBSERVE | L1_PROPOSE | L2_REVERSIBLE | L3_HUMAN_APPROVAL

fun authority_value :: "authority_level \<Rightarrow> string" where
  "authority_value L0_OBSERVE = ''L0''"
| "authority_value L1_PROPOSE = ''L1''"
| "authority_value L2_REVERSIBLE = ''L2''"
| "authority_value L3_HUMAN_APPROVAL = ''L3''"

fun rank :: "authority_level \<Rightarrow> nat" where
  "rank L0_OBSERVE = 0"
| "rank L1_PROPOSE = 1"
| "rank L2_REVERSIBLE = 2"
| "rank L3_HUMAN_APPROVAL = 3"

lemma rank_inject: "rank a = rank b \<longleftrightarrow> a = b"
  by (cases a; cases b) simp_all

text \<open>Levels are compared by their rank.\<close>

instantiation authority_level :: linorder
begin

definition less_eq_authority_level :: "authority_level \<Rightarrow> authority_level \<Rightarrow> bool" where
  "less_eq_authority_level a b \<longleftrightarrow> rank a \<le> rank b"

definition less_authority_level :: "authority_level \<Rightarrow> authority_level \<Rightarrow> bool" where
  "less_authority_level a b \<longleftrightarrow> rank a < rank b"

instance
  by standard (auto simp: less_eq_authority_level_def less_authority_level_def rank_inject)

end

datatype agent_run_status = RUN_SUCCEEDED | RUN_FAILED | RUN_PARTIAL | RUN_BLOCKED | RUN_SIMULATED

datatype validation_status = V_ACCEPTED | V_REJECTED | V_NEEDS_INFORMATION | V_BLOCKED

definition L3_COMMAND_TYPES :: "string list" where
  "L3_COMMAND_TYPES =
     [''approve_expense'', ''reject_expense'', ''publish_use_of_funds_receipt'', ''send_notification'',
      ''publish_public_evidence'', ''change_attribution_policy'', ''correct_published_amount'',
      ''reverse_expense'', ''supersede_expense'']"

section \<open>Commands, proposals, approvals, receipts\<close>

record agent_command =
  cmd_type :: string
  cmd_tenant :: string
  cmd_payload :: "(string \<times> json) list"
  cmd_required :: authority_level
  cmd_key :: string
  cmd_expires :: "string option"

text \<open>Construction of a command, with the derived key and the forced authority of \<^verbatim>\<open>__post_init__\<close>.\<close>

definition make_command ::
  "(string \<Rightarrow> string) \<Rightarrow> string \<Rightarrow> string \<Rightarrow> (string \<times> json) list \<Rightarrow> authority_level \<Rightarrow> string \<Rightarrow>
     string option \<Rightarrow> agent_command" where
  "make_command sha ctype tenant payload req key expires =
     \<lparr>cmd_type = ctype, cmd_tenant = tenant, cmd_payload = payload,
      cmd_required = (if ctype \<in> set L3_COMMAND_TYPES then L3_HUMAN_APPROVAL else req),
      cmd_key = (if key = [] then stable_hash sha (JObj
          [(''command_type'', JStr ctype), (''tenant_id'', JStr tenant), (''payload'', JObj payload)])
        else key),
      cmd_expires = expires\<rparr>"

record agent_proposal =
  prop_id :: string
  prop_tenant :: string
  prop_agent :: string
  prop_agent_version :: string
  prop_policy_version :: string
  prop_prompt_version :: "string option"
  prop_input_refs :: "string list"
  prop_input_hash :: string
  prop_commands :: "agent_command list"
  prop_evidence_refs :: "string list"
  prop_confidence :: "rat option"
  prop_warnings :: "string list"
  prop_contradictions :: "string list"
  prop_required :: authority_level
  prop_expires :: string
  prop_key :: string
  prop_notes :: string
  prop_created :: string

definition is_expired :: "agent_proposal \<Rightarrow> string \<Rightarrow> bool" where
  "is_expired p current \<longleftrightarrow> current > prop_expires p"

record validation_result =
  val_status :: validation_status
  val_reasons :: "string list"
  val_warnings :: "string list"

record approval_receipt =
  app_id :: string
  app_tenant :: string
  app_proposal :: string
  app_key :: string
  app_decision :: string
  app_approver :: string
  app_role :: string
  app_at :: string
  app_rationale :: string
  app_policy_version :: string

text \<open>The checks of \<^verbatim>\<open>ApprovalReceipt.__post_init__\<close>.\<close>

definition make_approval :: "approval_receipt \<Rightarrow> approval_receipt outcome" where
  "make_approval a =
     (if app_approver a = [] then Inl (ValueError ''approver_id is required'')
      else if app_decision a \<notin> {''APPROVE'', ''REJECT'', ''REQUEST_INFORMATION'', ''EDIT''}
      then Inl (ValueError (''invalid decision: '' @ app_decision a))
      else Inr a)"

record execution_receipt =
  exe_id :: string
  exe_tenant :: string
  exe_type :: string
  exe_key :: string
  exe_status :: string
  exe_refs :: "string list"
  exe_hash :: string
  exe_at :: string
  exe_simulated :: bool
  exe_error :: "string option"
  exe_approval :: "string option"

section \<open>The authority gate\<close>

definition requires_human_approval :: "agent_command \<Rightarrow> bool" where
  "requires_human_approval c \<longleftrightarrow> cmd_type c \<in> set L3_COMMAND_TYPES \<or> cmd_required c = L3_HUMAN_APPROVAL"

definition assert_agent_may_propose :: "authority_level \<Rightarrow> agent_command \<Rightarrow> unit outcome" where
  "assert_agent_may_propose ceil_level c =
     (if ceil_level = L0_OBSERVE then Inl (AuthorityError ''L0 observe agents cannot propose commands'')
      else if cmd_type c \<in> set L3_COMMAND_TYPES then Inr ()
      else if rank (cmd_required c) > rank ceil_level
      then Inl (AuthorityError (''agent ceiling '' @ authority_value ceil_level @ '' cannot propose '' @
             authority_value (cmd_required c) @ '' command '' @ cmd_type c))
      else Inr ())"

definition assert_execution_authorized ::
  "agent_command \<Rightarrow> approval_receipt option \<Rightarrow> string option \<Rightarrow> unit outcome" where
  "assert_execution_authorized c approval agent =
     (if \<not> requires_human_approval c then Inr ()
      else case approval of
        None \<Rightarrow> Inl (AuthorityError (''command '' @ cmd_type c @ '' requires human ApprovalReceipt''))
      | Some a \<Rightarrow>
          if app_decision a \<noteq> ''APPROVE''
          then Inl (AuthorityError (''approval decision is '' @ app_decision a @ '', not APPROVE''))
          else if app_key a \<noteq> cmd_key c
          then Inl (AuthorityError ''approval does not match command idempotency_key'')
          else if app_tenant a \<noteq> cmd_tenant c then Inl (AuthorityError ''approval tenant_id mismatch'')
          else if present agent \<and> Some (app_approver a) = agent
          then Inl (AuthorityError ''agent cannot approve its own proposal'')
          else if app_approver a = [] \<or> starts_with ''agent:'' (app_approver a)
          then Inl (AuthorityError ''approver_id must be a human operator identity'')
          else Inr ())"

text \<open>The text of a list and of a number in a message is \<open>repr\<close>; it is kept abstract in the messages.\<close>

definition assert_proposal_executable :: "agent_proposal \<Rightarrow> string \<Rightarrow> rat \<Rightarrow> unit outcome" where
  "assert_proposal_executable p now block_below =
     (if is_expired p now then Inl (AuthorityError (''proposal '' @ prop_id p @ '' has expired''))
      else if prop_contradictions p \<noteq> []
      then Inl (AuthorityError (''proposal '' @ prop_id p @ '' has contradictions''))
      else if (case prop_confidence p of None \<Rightarrow> False | Some x \<Rightarrow> x < block_below)
      then Inl (AuthorityError (''proposal '' @ prop_id p @ '' blocked for human review''))
      else Inr ())"

section \<open>Rebuilding a command from its frozen snapshot\<close>

record frozen_command =
  fz_type :: string
  fz_tenant :: string
  fz_payload :: "(string \<times> json) list"
  fz_key :: string
  fz_expires :: "string option"
  fz_required :: string
  fz_proposal :: string
  fz_agent :: string

definition setdefault :: "string \<Rightarrow> json \<Rightarrow> (string \<times> json) list \<Rightarrow> (string \<times> json) list" where
  "setdefault k v d = (if dhas d k then d else dset k v d)"

definition overlay_identity :: "string \<Rightarrow> string \<Rightarrow> (string \<times> json) list \<Rightarrow> (string \<times> json) list" where
  "overlay_identity ctype who payload =
     (if ctype = ''approve_expense'' then dset ''approved_by'' (JStr who) payload
      else if ctype = ''publish_use_of_funds_receipt''
      then setdefault ''approved_by'' (JStr who) (dset ''actor'' (JStr who) payload)
      else if ctype = ''send_notification'' then dset ''approved_by'' (JStr who) payload
      else if ctype \<in> {''reverse_expense'', ''supersede_expense'', ''correct_published_amount''}
      then setdefault ''approved_by'' (JStr who) (dset ''actor'' (JStr who) payload)
      else payload)"

definition build_executable_command ::
  "(string \<Rightarrow> string) \<Rightarrow> frozen_command \<Rightarrow> approval_receipt \<Rightarrow> agent_command outcome" where
  "build_executable_command sha f a =
     (if app_key a \<noteq> fz_key f
      then Inl (AuthorityError ''approval does not match frozen command_idempotency_key'')
      else if app_tenant a \<noteq> fz_tenant f then Inl (AuthorityError ''approval tenant_id mismatch'')
      else Inr (make_command sha (fz_type f) (fz_tenant f)
             (overlay_identity (fz_type f) (app_approver a) (fz_payload f))
             L3_HUMAN_APPROVAL (fz_key f) (fz_expires f)))"

section \<open>The executor\<close>

text \<open>
  The executor keeps the keys it has seen, the receipts it returned, an optional receipt index and
  the domain it dispatches to. \<open>'s\<close> is the state of the index and \<open>'d\<close> the state of the domain. The
  dispatcher returns output references with an output document or raises, and the domain reached.
\<close>

record ('s, 'd) executor =
  ex_simulation :: bool
  ex_seen :: "string list"
  ex_receipts :: "execution_receipt list"
  ex_index :: "'s option"
  ex_workflow :: "string option"
  ex_block_below :: rat
  ex_domain :: 'd
  ex_clock :: nat

type_synonym 'd dispatcher = "agent_command \<Rightarrow> 'd \<Rightarrow> (string list \<times> json) outcome \<times> 'd"

record 's receipt_index =
  idx_get :: "'s \<Rightarrow> string \<Rightarrow> string \<Rightarrow> execution_receipt option"
  idx_put :: "'s \<Rightarrow> execution_receipt \<Rightarrow> string \<Rightarrow> unit outcome \<times> 's"

definition storable_status :: "string \<Rightarrow> bool" where
  "storable_status st \<longleftrightarrow> st \<in> {''SUCCEEDED'', ''SIMULATED'', ''SKIPPED''}"

text \<open>\<^verbatim>\<open>str(exc)\<close>\<close>

fun exn_str :: "py_exn \<Rightarrow> string" where
  "exn_str (KeyError k) = [CHR 0x27] @ k @ [CHR 0x27]"
| "exn_str (InvariantError m) = m"
| "exn_str (StateError m) = m"
| "exn_str (AttributionError m) = m"
| "exn_str (NotFoundError m) = m"
| "exn_str (TenantIsolationError m) = m"
| "exn_str (AuthorityError m) = m"
| "exn_str (AuthorizationError m) = m"
| "exn_str (LedgerLogError m) = m"
| "exn_str (WorkflowNotFoundError m) = m"
| "exn_str (WorkflowStateError m) = m"
| "exn_str (WorkflowConflictError m) = m"
| "exn_str (DurabilityGuardError m) = m"
| "exn_str (PrivacySentinelError m) = m"
| "exn_str (DigestError m) = m"
| "exn_str (PolicyError m) = m"
| "exn_str (ReconcileError m) = m"
| "exn_str (IntegrityError m) = m"
| "exn_str (ValueError m) = m"
| "exn_str (TypeError m) = m"
| "exn_str (AttributeError m) = m"
| "exn_str (NotImplementedError m) = m"
| "exn_str InvalidOperation = ''[<class 'decimal.InvalidOperation'>]''"

definition exec_receipt ::
  "env \<Rightarrow> agent_command \<Rightarrow> approval_receipt option \<Rightarrow> string \<Rightarrow> string \<Rightarrow> string list \<Rightarrow> json \<Rightarrow> bool \<Rightarrow>
     string option \<Rightarrow> nat \<Rightarrow> execution_receipt" where
  "exec_receipt E c approval prefix status refs out simulated err t =
     \<lparr>exe_id = prefix @ take 12 (cmd_key c), exe_tenant = cmd_tenant c, exe_type = cmd_type c,
      exe_key = cmd_key c, exe_status = status, exe_refs = refs, exe_hash = stable_hash (sha256_hex E) out,
      exe_at = now_iso E t, exe_simulated = simulated, exe_error = err,
      exe_approval = map_option app_id approval\<rparr>"

definition store_exec_receipt ::
  "'s receipt_index \<Rightarrow> execution_receipt \<Rightarrow> ('s, 'd) executor \<Rightarrow> unit outcome \<times> ('s, 'd) executor" where
  "store_exec_receipt idx r X =
     (case ex_index X of
        None \<Rightarrow> (Inr (), X)
      | Some s \<Rightarrow>
          if \<not> storable_status (exe_status r) then (Inr (), X)
          else
            let wid = (if present (ex_workflow X) then the (ex_workflow X) else ''unknown'');
                (v, s') = idx_put idx s r wid
            in (v, X\<lparr>ex_index := Some s'\<rparr>))"

text \<open>The guards before anything is looked up or run.\<close>

definition execute_guard ::
  "env \<Rightarrow> agent_command \<Rightarrow> approval_receipt option \<Rightarrow> string option \<Rightarrow> agent_proposal option \<Rightarrow>
     ('s, 'd) executor \<Rightarrow> unit outcome \<times> ('s, 'd) executor" where
  "execute_guard E c approval agent proposal X =
     (case proposal of
        None \<Rightarrow> (assert_execution_authorized c approval agent, X)
      | Some p \<Rightarrow>
          let X1 = X\<lparr>ex_clock := Suc (ex_clock X)\<rparr> in
          case assert_proposal_executable p (now_iso E (ex_clock X)) (ex_block_below X) of
            Inl e \<Rightarrow> (Inl e, X1)
          | Inr _ \<Rightarrow> (assert_execution_authorized c approval agent, X1))"

definition stored_receipt :: "'s receipt_index \<Rightarrow> agent_command \<Rightarrow> ('s, 'd) executor \<Rightarrow> execution_receipt option" where
  "stored_receipt idx c X =
     (case ex_index X of None \<Rightarrow> None | Some s \<Rightarrow> idx_get idx s (cmd_tenant c) (cmd_key c))"

text \<open>The try block: dispatch, remember the key, store the receipt; any exception gives a FAILED receipt.\<close>

definition run_command ::
  "env \<Rightarrow> 's receipt_index \<Rightarrow> 'd dispatcher \<Rightarrow> agent_command \<Rightarrow> approval_receipt option \<Rightarrow>
     ('s, 'd) executor \<Rightarrow> execution_receipt \<times> ('s, 'd) executor" where
  "run_command E idx dispatch c approval X =
     (let (v, d) = dispatch c (ex_domain X);
          X1 = X\<lparr>ex_domain := d, ex_clock := Suc (ex_clock X)\<rparr>;
          failed = (\<lambda>e t. exec_receipt E c approval ''exec_fail_'' ''FAILED'' []
             (JObj [(''error'', JStr (exn_str e))]) False (Some (exn_str e)) t)
      in case v of
           Inl e \<Rightarrow> (failed e (ex_clock X), X1)
         | Inr (refs, out) \<Rightarrow>
             let r = exec_receipt E c approval ''exec_'' ''SUCCEEDED'' refs out False None (ex_clock X);
                 (w, X2) = store_exec_receipt idx r (X1\<lparr>ex_seen := List.insert (cmd_key c) (ex_seen X1)\<rparr>)
             in case w of
                  Inl e \<Rightarrow> (failed e (ex_clock X2), X2\<lparr>ex_clock := Suc (ex_clock X2)\<rparr>)
                | Inr _ \<Rightarrow> (r, X2))"

definition execute ::
  "env \<Rightarrow> 's receipt_index \<Rightarrow> 'd dispatcher \<Rightarrow> agent_command \<Rightarrow> approval_receipt option \<Rightarrow> string option \<Rightarrow>
     agent_proposal option \<Rightarrow> ('s, 'd) executor \<Rightarrow> execution_receipt outcome \<times> ('s, 'd) executor" where
  "execute E idx dispatch c approval agent proposal X =
     and_then (execute_guard E c approval agent proposal X) (\<lambda>_ X0.
       case stored_receipt idx c X0 of
         Some r \<Rightarrow> (Inr r, X0\<lparr>ex_receipts := ex_receipts X0 @ [r]\<rparr>)
       | None \<Rightarrow>
       if cmd_key c \<in> set (ex_seen X0) then
         let r = exec_receipt E c approval ''exec_dup_'' ''SKIPPED'' [] (JObj [(''duplicate'', JBool True)])
               (ex_simulation X0) (Some ''duplicate idempotency_key'') (ex_clock X0)
         in and_then (store_exec_receipt idx r
              (X0\<lparr>ex_clock := Suc (ex_clock X0), ex_receipts := ex_receipts X0 @ [r]\<rparr>)) (\<lambda>_ X1. (Inr r, X1))
       else if ex_simulation X0 then
         let r = exec_receipt E c approval ''exec_sim_'' ''SIMULATED'' []
               (JObj [(''simulated'', JBool True), (''payload'', JObj (cmd_payload c))]) True None (ex_clock X0)
         in and_then (store_exec_receipt idx r
              (X0\<lparr>ex_clock := Suc (ex_clock X0), ex_seen := List.insert (cmd_key c) (ex_seen X0),
                  ex_receipts := ex_receipts X0 @ [r]\<rparr>)) (\<lambda>_ X1. (Inr r, X1))
       else
         let (r, X1) = run_command E idx dispatch c approval X0
         in (Inr r, X1\<lparr>ex_receipts := ex_receipts X1 @ [r]\<rparr>))"

section \<open>Run receipts\<close>

record agent_run_receipt =
  run_id :: string
  run_tenant :: string
  run_workflow :: string
  run_agent :: string
  run_agent_version :: string
  run_policy_version :: string
  run_prompt_version :: "string option"
  run_input_refs :: "string list"
  run_input_hash :: string
  run_proposed :: "string list"
  run_accepted :: "string list"
  run_rejected :: "string list"
  run_approvals :: "string list"
  run_outputs :: "string list"
  run_output_hash :: string
  run_started :: string
  run_completed :: string
  run_status :: agent_run_status

definition run_status_of ::
  "agent_run_status option \<Rightarrow> validation_result list \<Rightarrow> execution_receipt list \<Rightarrow> agent_run_status" where
  "run_status_of given validations executions =
     (case given of Some s \<Rightarrow> s | None \<Rightarrow>
      if list_ex (\<lambda>e. exe_status e = ''FAILED'') executions then RUN_FAILED
      else if list_ex exe_simulated executions then RUN_SIMULATED
      else if list_ex (\<lambda>v. val_status v = V_BLOCKED) validations \<or>
        list_ex (\<lambda>e. exe_status e = ''SKIPPED'') executions then RUN_PARTIAL
      else RUN_SUCCEEDED)"

definition build_run_receipt ::
  "env \<Rightarrow> nat \<Rightarrow> string \<Rightarrow> string \<Rightarrow> string \<Rightarrow> string \<Rightarrow> string \<Rightarrow> string \<Rightarrow> string option \<Rightarrow> string list \<Rightarrow> json \<Rightarrow>
     agent_proposal list \<Rightarrow> validation_result list \<Rightarrow> approval_receipt list \<Rightarrow> execution_receipt list \<Rightarrow>
     string \<Rightarrow> agent_run_status option \<Rightarrow> agent_run_receipt" where
  "build_run_receipt E t rid tenant workflow agent agent_version policy_version prompt_version input_refs
     input_payload proposals validations approvals executions started given =
     (let proposed = concat (map (\<lambda>p. map cmd_type (prop_commands p)) proposals);
          accepted = map exe_type (filter (\<lambda>e. exe_status e \<in> {''SUCCEEDED'', ''SIMULATED''}) executions);
          rejected = map exe_type (filter (\<lambda>e. exe_status e \<in> {''FAILED'', ''SKIPPED''}) executions) @
            map (\<lambda>_. ''validation'')
              (filter (\<lambda>v. val_status v \<in> {V_REJECTED, V_BLOCKED, V_NEEDS_INFORMATION}) validations);
          outputs = concat (map exe_refs executions);
          body = JObj [(''proposed'', JList (map JStr proposed)), (''accepted'', JList (map JStr accepted)),
            (''outputs'', JList (map JStr outputs))]
      in \<lparr>run_id = rid, run_tenant = tenant, run_workflow = workflow, run_agent = agent,
          run_agent_version = agent_version, run_policy_version = policy_version,
          run_prompt_version = prompt_version, run_input_refs = input_refs,
          run_input_hash = stable_hash (sha256_hex E) input_payload, run_proposed = proposed,
          run_accepted = accepted, run_rejected = rejected, run_approvals = map app_id approvals,
          run_outputs = outputs, run_output_hash = stable_hash (sha256_hex E) body, run_started = started,
          run_completed = now_iso E t, run_status = run_status_of given validations executions\<rparr>)"

section \<open>Authorization\<close>

definition human_approved :: "agent_command \<Rightarrow> approval_receipt option \<Rightarrow> string option \<Rightarrow> bool" where
  "human_approved c approval agent \<longleftrightarrow>
     (\<exists>a. approval = Some a \<and> app_decision a = ''APPROVE'' \<and> app_key a = cmd_key c \<and>
        app_tenant a = cmd_tenant c \<and> app_approver a \<noteq> [] \<and> \<not> starts_with ''agent:'' (app_approver a) \<and>
        (present agent \<longrightarrow> agent \<noteq> Some (app_approver a)))"

lemma execution_authorized_iff:
  "assert_execution_authorized c approval agent = Inr () \<longleftrightarrow>
     (requires_human_approval c \<longrightarrow> human_approved c approval agent)"
  by (auto simp: assert_execution_authorized_def human_approved_def split: option.splits)

lemma execute_guard_frame:
  "execute_guard E c approval agent proposal X = (v, X0) \<Longrightarrow>
     ex_domain X0 = ex_domain X \<and> ex_seen X0 = ex_seen X \<and> ex_index X0 = ex_index X \<and>
     ex_simulation X0 = ex_simulation X \<and> ex_receipts X0 = ex_receipts X \<and> ex_workflow X0 = ex_workflow X"
  by (auto simp: execute_guard_def Let_def split: option.splits sum.splits)

lemma execute_guard_authorized:
  "execute_guard E c approval agent proposal X = (Inr u, X0) \<Longrightarrow>
     assert_execution_authorized c approval agent = Inr ()"
  by (auto simp: execute_guard_def Let_def split: option.splits sum.splits)

lemma store_exec_receipt_frame:
  "store_exec_receipt idx r X = (v, X') \<Longrightarrow>
     ex_domain X' = ex_domain X \<and> ex_seen X' = ex_seen X \<and> ex_simulation X' = ex_simulation X \<and>
     ex_receipts X' = ex_receipts X"
  by (auto simp: store_exec_receipt_def Let_def split: option.splits if_splits prod.splits)

section \<open>The receipt index interface\<close>

locale receipt_index_laws =
  fixes idx :: "'s receipt_index"
  assumes put_ok: "storable_status (exe_status r) \<Longrightarrow> \<exists>s'. idx_put idx s r w = (Inr (), s')"
    and put_fail: "idx_put idx s r w = (Inl e, s') \<Longrightarrow> s' = s"
    and get_put: "idx_put idx s r w = (Inr u, s') \<Longrightarrow>
      idx_get idx s' t k = (if t = exe_tenant r \<and> k = exe_key r then Some r else idx_get idx s t k)"
begin

text \<open>A command whose key was seen or whose receipt is stored: it will not be dispatched again.\<close>

definition settled :: "string \<Rightarrow> string \<Rightarrow> ('s, 'd) executor \<Rightarrow> bool" where
  "settled t k X \<longleftrightarrow> k \<in> set (ex_seen X) \<or>
     (\<exists>s. ex_index X = Some s \<and> idx_get idx s t k \<noteq> None)"

lemma store_settled: "store_exec_receipt idx r X = (v, X') \<Longrightarrow> settled t k X \<Longrightarrow> settled t k X'"
  by (auto simp: store_exec_receipt_def settled_def Let_def get_put split: option.splits if_splits prod.splits sum.splits)
    (metis get_put put_fail sum.exhaust option.distinct(1) option.exhaust)+

lemma settled_frame:
  "ex_seen X' = ex_seen X \<Longrightarrow> ex_index X' = ex_index X \<Longrightarrow> settled t k X' = settled t k X"
  by (simp add: settled_def)

lemma settled_update [simp]:
  "settled t k (X\<lparr>ex_clock := u\<rparr>) = settled t k X" "settled t k (X\<lparr>ex_receipts := rs\<rparr>) = settled t k X"
  "settled t k (X\<lparr>ex_clock := u, ex_seen := List.insert j (ex_seen X)\<rparr>) \<longleftrightarrow> j = k \<or> settled t k X"
  "settled t k (X\<lparr>ex_clock := u, ex_seen := j # ex_seen X\<rparr>) \<longleftrightarrow> j = k \<or> settled t k X"
  by (auto simp: settled_def)

lemma run_command_settled:
  assumes "run_command E idx dispatch c approval X = (r, X')"
  shows "settled t k X \<Longrightarrow> settled t k X'"
    and "exe_status r \<noteq> ''FAILED'' \<Longrightarrow> settled (cmd_tenant c) (cmd_key c) X'"
proof -
  obtain v d where d: "dispatch c (ex_domain X) = (v, d)" by (cases "dispatch c (ex_domain X)")
  let ?X1 = "X\<lparr>ex_domain := d, ex_clock := Suc (ex_clock X)\<rparr>"
  let ?X1s = "?X1\<lparr>ex_seen := List.insert (cmd_key c) (ex_seen ?X1)\<rparr>"
  have "(settled t k X \<longrightarrow> settled t k X') \<and>
    (exe_status r \<noteq> ''FAILED'' \<longrightarrow> settled (cmd_tenant c) (cmd_key c) X')"
  proof (cases v)
    case (Inl e)
    then show ?thesis using assms d by (auto simp: run_command_def exec_receipt_def settled_def)
  next
    case (Inr p)
    obtain refs out where p: "p = (refs, out)" by (cases p)
    let ?r = "exec_receipt E c approval ''exec_'' ''SUCCEEDED'' refs out False None (ex_clock X)"
    obtain w X2 where st: "store_exec_receipt idx ?r ?X1s = (w, X2)" by fastforce
    have "settled t k X \<longrightarrow> settled t k ?X1s" and "settled (cmd_tenant c) (cmd_key c) ?X1s"
      by (auto simp: settled_def)
    then have 2: "settled t k X \<longrightarrow> settled t k X2" "settled (cmd_tenant c) (cmd_key c) X2"
      using store_settled [OF st] by auto
    show ?thesis
      using assms d Inr p st 2
      by (cases w) (auto simp: run_command_def Let_def settled_def)
  qed
  then show "settled t k X \<Longrightarrow> settled t k X'"
    and "exe_status r \<noteq> ''FAILED'' \<Longrightarrow> settled (cmd_tenant c) (cmd_key c) X'" by blast+
qed

lemma stored_receipt_settled:
  "stored_receipt idx c X \<noteq> None \<or> cmd_key c \<in> set (ex_seen X) \<longleftrightarrow> settled (cmd_tenant c) (cmd_key c) X"
  by (auto simp: stored_receipt_def settled_def split: option.splits)

text \<open>Storing a receipt and returning it keeps what the store keeps.\<close>

lemma post_store_return:
  assumes "\<And>X'. store_exec_receipt idx r X = (Inr (), X') \<Longrightarrow> Q (Inr q) X'"
    and "\<And>e X'. store_exec_receipt idx r X = (Inl e, X') \<Longrightarrow> Q (Inl e) X'"
  shows "post Q (and_then (store_exec_receipt idx r X) (\<lambda>_ X1. (Inr q, X1)))"
proof -
  obtain v X' where st: "store_exec_receipt idx r X = (v, X')" by (cases "store_exec_receipt idx r X")
  show ?thesis using assms st by (cases v) (auto simp: post_def)
qed

text \<open>Executing anything keeps every settled command settled.\<close>

lemma execute_keeps_settled:
  assumes "settled t k X"
  shows "settled t k (snd (execute E idx dispatch c approval agent proposal X))"
proof -
  obtain v X0 where g: "execute_guard E c approval agent proposal X = (v, X0)"
    by (cases "execute_guard E c approval agent proposal X")
  have 0: "settled t k X0" using execute_guard_frame [OF g] assms settled_frame [of X0 X] by blast
  have run: "settled t k X1" if "run_command E idx dispatch c approval X0 = (r, X1)" for r X1
    using run_command_settled(1) [OF that 0] .
  have "post (\<lambda>_ X'. settled t k X') (execute E idx dispatch c approval agent proposal X)"
  proof (cases v)
    case (Inl e)
    then show ?thesis using g 0 by (simp add: execute_def post_def)
  next
    case (Inr u)
    have "settled t k (snd (run_command E idx dispatch c approval X0))" using run by (metis surjective_pairing)
    then show ?thesis
      unfolding execute_def g Inr and_then_Inr using 0
      by (intro post_branch post_store_return post_pair)
        (auto elim!: store_settled)
  qed
  then show ?thesis by (simp add: post_def)
qed

text \<open>A settled command is never dispatched.\<close>

lemma execute_settled_domain:
  assumes "settled (cmd_tenant c) (cmd_key c) X"
  shows "ex_domain (snd (execute E idx dispatch c approval agent proposal X)) = ex_domain X"
proof -
  obtain v X0 where g: "execute_guard E c approval agent proposal X = (v, X0)"
    by (cases "execute_guard E c approval agent proposal X")
  note fr = execute_guard_frame [OF g]
  have 0: "settled (cmd_tenant c) (cmd_key c) X0" using fr assms settled_frame [of X0 X] by blast
  have "post (\<lambda>_ X'. ex_domain X' = ex_domain X) (execute E idx dispatch c approval agent proposal X)"
  proof (cases v)
    case (Inl e)
    then show ?thesis using g fr by (simp add: execute_def post_def)
  next
    case (Inr u)
    then show ?thesis
      unfolding execute_def g Inr and_then_Inr using fr 0 stored_receipt_settled [of c X0]
      by (intro post_branch post_store_return post_pair) (auto dest: store_exec_receipt_frame)
  qed
  then show ?thesis by (simp add: post_def)
qed

text \<open>A command that returns a receipt other than FAILED is settled afterwards.\<close>

lemma execute_settles:
  assumes "execute E idx dispatch c approval agent proposal X = (Inr r, X')" "exe_status r \<noteq> ''FAILED''"
  shows "settled (cmd_tenant c) (cmd_key c) X'"
proof -
  obtain v X0 where g: "execute_guard E c approval agent proposal X = (v, X0)"
    by (cases "execute_guard E c approval agent proposal X")
  obtain u where v: "v = Inr u" using assms g by (cases v) (auto simp: execute_def)
  have run: "exe_status r \<noteq> ''FAILED'' \<Longrightarrow> settled (cmd_tenant c) (cmd_key c) X1"
    if "run_command E idx dispatch c approval X0 = (r, X1)" for r X1
    using run_command_settled(2) [OF that] .
  have "post (\<lambda>v X'. \<forall>r. v = Inr r \<longrightarrow> exe_status r \<noteq> ''FAILED'' \<longrightarrow> settled (cmd_tenant c) (cmd_key c) X')
      (execute E idx dispatch c approval agent proposal X)"
    unfolding execute_def g v and_then_Inr using stored_receipt_settled [of c X0]
      run [of "fst (run_command E idx dispatch c approval X0)" "snd (run_command E idx dispatch c approval X0)"]
    by (intro post_branch post_store_return post_pair)
      (auto elim!: store_settled)
  from postD [OF this assms(1)] show ?thesis using assms(2) by simp
qed

end

section \<open>The gate\<close>

lemma execute_guard_fails:
  "execute_guard E c approval agent proposal X = (Inl e, X0) \<Longrightarrow>
     execute E idx dispatch c approval agent proposal X = (Inl e, X0)"
  by (simp add: execute_def)

lemma execute_unauthorized:
  assumes "assert_execution_authorized c approval agent \<noteq> Inr ()"
  shows "\<exists>e. fst (execute E idx dispatch c approval agent proposal X) = Inl e"
    and "ex_domain (snd (execute E idx dispatch c approval agent proposal X)) = ex_domain X"
proof -
  obtain v X0 where g: "execute_guard E c approval agent proposal X = (v, X0)"
    by (cases "execute_guard E c approval agent proposal X")
  obtain e where v: "v = Inl e"
  proof (cases v)
    case (Inr u)
    then show ?thesis using execute_guard_authorized [OF g [unfolded Inr]] assms by simp
  qed blast
  show "\<exists>e. fst (execute E idx dispatch c approval agent proposal X) = Inl e"
    and "ex_domain (snd (execute E idx dispatch c approval agent proposal X)) = ex_domain X"
    using g v execute_guard_frame [OF g] by (simp_all add: execute_guard_fails [OF g [unfolded v]])
qed

end
