(* ===== verification/Workflow_Types.thy ===== *)
theory Workflow_Types
  imports Agents
begin

text \<open>
  The data contracts and the state machine of the workflow layer: \<^verbatim>\<open>workflows/types.py\<close>,
  \<^verbatim>\<open>workflows/machine.py\<close>, \<^verbatim>\<open>workflows/exceptions.py\<close> and \<^verbatim>\<open>workflows/guards.py\<close>. The three transition
  tables are data; a locale states what the code relies on about a table, and each table
  interprets it.
\<close>

section \<open>States\<close>

datatype workflow_state =
    RECEIVED | NORMALIZED | WF_CLASSIFICATION_PENDING | EVIDENCE_PENDING | REVIEW_PENDING | WF_APPROVED
  | LEDGER_COMMITTED | RECEIPT_DRAFTED | PUBLICATION_PENDING | PUBLISHED | NOTIFICATION_PENDING
  | DELIVERED | BLOCKED | WF_REJECTED | DUPLICATE | NEEDS_INFORMATION

datatype run_status =
    PENDING | RUNNING | WAITING_SIGNAL | RETRY_SCHEDULED | COMPLETED | FAILED_TERMINAL | DEAD_LETTER
  | CANCELLED

fun workflow_state_value :: "workflow_state \<Rightarrow> string" where
  "workflow_state_value RECEIVED = ''RECEIVED''"
| "workflow_state_value NORMALIZED = ''NORMALIZED''"
| "workflow_state_value WF_CLASSIFICATION_PENDING = ''CLASSIFICATION_PENDING''"
| "workflow_state_value EVIDENCE_PENDING = ''EVIDENCE_PENDING''"
| "workflow_state_value REVIEW_PENDING = ''REVIEW_PENDING''"
| "workflow_state_value WF_APPROVED = ''APPROVED''"
| "workflow_state_value LEDGER_COMMITTED = ''LEDGER_COMMITTED''"
| "workflow_state_value RECEIPT_DRAFTED = ''RECEIPT_DRAFTED''"
| "workflow_state_value PUBLICATION_PENDING = ''PUBLICATION_PENDING''"
| "workflow_state_value PUBLISHED = ''PUBLISHED''"
| "workflow_state_value NOTIFICATION_PENDING = ''NOTIFICATION_PENDING''"
| "workflow_state_value DELIVERED = ''DELIVERED''"
| "workflow_state_value BLOCKED = ''BLOCKED''"
| "workflow_state_value WF_REJECTED = ''REJECTED''"
| "workflow_state_value DUPLICATE = ''DUPLICATE''"
| "workflow_state_value NEEDS_INFORMATION = ''NEEDS_INFORMATION''"

fun run_status_value :: "run_status \<Rightarrow> string" where
  "run_status_value PENDING = ''PENDING''"
| "run_status_value RUNNING = ''RUNNING''"
| "run_status_value WAITING_SIGNAL = ''WAITING_SIGNAL''"
| "run_status_value RETRY_SCHEDULED = ''RETRY_SCHEDULED''"
| "run_status_value COMPLETED = ''COMPLETED''"
| "run_status_value FAILED_TERMINAL = ''FAILED_TERMINAL''"
| "run_status_value DEAD_LETTER = ''DEAD_LETTER''"
| "run_status_value CANCELLED = ''CANCELLED''"

definition CLAIMABLE_RUN_STATUSES :: "run_status list" where
  "CLAIMABLE_RUN_STATUSES = [PENDING, RETRY_SCHEDULED]"

definition TERMINAL_RUN_STATUSES :: "run_status list" where
  "TERMINAL_RUN_STATUSES = [COMPLETED, FAILED_TERMINAL, DEAD_LETTER, CANCELLED]"

datatype workflow_type = EXPENSE_TO_RECEIPT | WF_CORRECTION | SCHEDULED_DIGEST

fun workflow_type_value :: "workflow_type \<Rightarrow> string" where
  "workflow_type_value EXPENSE_TO_RECEIPT = ''expense_to_receipt''"
| "workflow_type_value WF_CORRECTION = ''correction''"
| "workflow_type_value SCHEDULED_DIGEST = ''scheduled_digest''"

datatype signal_type = SIG_APPROVAL | SIG_RESUBMIT | SIG_UNBLOCK | SIG_CANCEL

datatype signal_consume_result = SC_ACCEPTED | SC_REJECTED_INVALID | SC_FAILED_TERMINAL

fun consume_result_value :: "signal_consume_result \<Rightarrow> string" where
  "consume_result_value SC_ACCEPTED = ''ACCEPTED''"
| "consume_result_value SC_REJECTED_INVALID = ''REJECTED_INVALID''"
| "consume_result_value SC_FAILED_TERMINAL = ''FAILED_TERMINAL''"

datatype workflow_event_type =
    EV_CREATED | EV_STATE_CHANGED | EV_PROPOSAL | EV_SIGNAL_RECEIVED | EV_SIGNAL_CONSUMED | EV_EXECUTION
  | EV_APPROVAL | EV_RETRY_SCHEDULED | EV_APPROVAL_TIMEOUT | EV_DEAD_LETTERED | EV_ERROR

fun event_type_value :: "workflow_event_type \<Rightarrow> string" where
  "event_type_value EV_CREATED = ''CREATED''"
| "event_type_value EV_STATE_CHANGED = ''STATE_CHANGED''"
| "event_type_value EV_PROPOSAL = ''PROPOSAL''"
| "event_type_value EV_SIGNAL_RECEIVED = ''SIGNAL_RECEIVED''"
| "event_type_value EV_SIGNAL_CONSUMED = ''SIGNAL_CONSUMED''"
| "event_type_value EV_EXECUTION = ''EXECUTION''"
| "event_type_value EV_APPROVAL = ''APPROVAL''"
| "event_type_value EV_RETRY_SCHEDULED = ''RETRY_SCHEDULED''"
| "event_type_value EV_APPROVAL_TIMEOUT = ''APPROVAL_TIMEOUT''"
| "event_type_value EV_DEAD_LETTERED = ''DEAD_LETTERED''"
| "event_type_value EV_ERROR = ''ERROR''"

section \<open>Retry policy\<close>

text \<open>Delays are multiples of a second; Python's floats are exact on the powers of two used here.\<close>

record retry_policy =
  max_attempts :: int
  base_delay_seconds :: rat
  max_delay_seconds :: rat
  jitter :: bool

definition default_retry_policy :: retry_policy where
  "default_retry_policy = \<lparr>max_attempts = 5, base_delay_seconds = 1, max_delay_seconds = 900, jitter = True\<rparr>"

definition delay_for_attempt :: "retry_policy \<Rightarrow> int \<Rightarrow> rat" where
  "delay_for_attempt p attempt =
     (let n = (if attempt < 1 then 1 else attempt)
      in min (base_delay_seconds p * 2 ^ nat (n - 1)) (max_delay_seconds p))"

section \<open>Records\<close>

record event_write =
  ew_type :: workflow_event_type
  ew_payload :: json
  ew_at :: "string option"

record workflow_event =
  we_id :: string
  we_workflow :: string
  we_tenant :: string
  we_seq :: int
  we_type :: workflow_event_type
  we_payload :: json
  we_at :: string

record workflow_signal =
  sig_id :: string
  sig_workflow :: string
  sig_tenant :: string
  sig_type :: signal_type
  sig_payload :: "(string \<times> json) list"
  sig_created :: string
  sig_consumed :: bool
  sig_result :: "string option"

record workflow_instance =
  wi_id :: string
  wi_tenant :: string
  wi_type :: workflow_type
  wi_business_key :: string
  wi_state :: workflow_state
  wi_run_status :: run_status
  wi_context :: "(string \<times> json) list"
  wi_simulation :: bool
  wi_attempts :: int
  wi_next_run :: "string option"
  wi_wait_deadline :: "string option"
  wi_wait_descriptor :: "(string \<times> json) list option"
  wi_lease_owner :: "string option"
  wi_lease_expires :: "string option"
  wi_last_error :: "string option"
  wi_timeout_applied :: "string option"
  wi_created :: string
  wi_updated :: string
  wi_policy_version :: string
  wi_event_seq :: int

record advance_bundle =
  ab_tenant :: string
  ab_workflow :: string
  ab_instance :: workflow_instance
  ab_events :: "(event_write + workflow_event) list"
  ab_receipts :: "execution_receipt list"
  ab_consume :: "(string \<times> signal_consume_result) list"

section \<open>Approval signals and frozen commands as documents\<close>

text \<open>\<^verbatim>\<open>str(x)\<close> of a JSON scalar; a list or an object is rendered with \<open>repr\<close>, which is not modelled.\<close>

fun json_str :: "json \<Rightarrow> string" where
  "json_str JNull = ''None''"
| "json_str (JBool b) = (if b then ''True'' else ''False'')"
| "json_str (JInt i) = str_of_int i"
| "json_str (JStr s) = s"
| "json_str _ = ''?''"

definition str_or :: "(string \<times> json) list \<Rightarrow> string \<Rightarrow> string \<Rightarrow> string" where
  "str_or p k dflt =
     (case dget p k of None \<Rightarrow> dflt | Some j \<Rightarrow> if truthy j then json_str j else dflt)"

definition str_field :: "(string \<times> json) list \<Rightarrow> string \<Rightarrow> string outcome" where
  "str_field p k = (case dget p k of None \<Rightarrow> Inl (KeyError k) | Some j \<Rightarrow> Inr (json_str j))"

text \<open>The approval carried by a signal, if its payload is one; \<open>now\<close> is the time used when the payload has none.\<close>

definition approval_of_signal :: "string \<Rightarrow> workflow_signal \<Rightarrow> approval_receipt option outcome" where
  "approval_of_signal now s =
     (let p = sig_payload s in
      if sig_type s \<noteq> SIG_APPROVAL then Inr None
      else if \<not> dhas p ''approval_id'' then Inr None
      else case str_field p ''approval_id'' of Inl e \<Rightarrow> Inl e | Inr aid \<Rightarrow>
        case str_field p ''tenant_id'' of Inl e \<Rightarrow> Inl e | Inr ten \<Rightarrow>
        case str_field p ''proposal_id'' of Inl e \<Rightarrow> Inl e | Inr pid \<Rightarrow>
        case str_field p ''command_idempotency_key'' of Inl e \<Rightarrow> Inl e | Inr key \<Rightarrow>
        case str_field p ''decision'' of Inl e \<Rightarrow> Inl e | Inr dec \<Rightarrow>
        case str_field p ''approver_id'' of Inl e \<Rightarrow> Inl e | Inr who \<Rightarrow>
        case make_approval
          \<lparr>app_id = aid, app_tenant = ten, app_proposal = pid, app_key = key, app_decision = dec,
           app_approver = who, app_role = str_or p ''approver_role'' ''finance_approver'',
           app_at = str_or p ''approved_at'' now, app_rationale = str_or p ''rationale'' [],
           app_policy_version = str_or p ''policy_version'' ''v1.0''\<rparr> of
          Inl e \<Rightarrow> Inl e | Inr a \<Rightarrow> Inr (Some a))"

definition frozen_to_dict :: "frozen_command \<Rightarrow> (string \<times> json) list" where
  "frozen_to_dict f =
     [(''command_type'', JStr (fz_type f)), (''tenant_id'', JStr (fz_tenant f)),
      (''payload'', JObj (fz_payload f)), (''idempotency_key'', JStr (fz_key f)),
      (''expires_at'', opt_str (fz_expires f)), (''required_authority'', JStr (fz_required f)),
      (''proposal_id'', JStr (fz_proposal f)), (''agent_name'', JStr (fz_agent f))]"

definition frozen_from_dict :: "(string \<times> json) list \<Rightarrow> frozen_command outcome" where
  "frozen_from_dict d =
     (case str_field d ''command_type'' of Inl e \<Rightarrow> Inl e | Inr ct \<Rightarrow>
      case str_field d ''tenant_id'' of Inl e \<Rightarrow> Inl e | Inr ten \<Rightarrow>
      case (case dget d ''payload'' of
              None \<Rightarrow> Inr []
            | Some j \<Rightarrow> if \<not> truthy j then Inr [] else
                (case j of JObj kvs \<Rightarrow> Inr kvs | _ \<Rightarrow> Inl (TypeError ''payload is not a mapping''))) of
        Inl e \<Rightarrow> Inl e
      | Inr payload \<Rightarrow>
      case str_field d ''idempotency_key'' of Inl e \<Rightarrow> Inl e | Inr key \<Rightarrow>
      Inr \<lparr>fz_type = ct, fz_tenant = ten, fz_payload = payload, fz_key = key,
           fz_expires = (case dget d ''expires_at'' of Some (JStr s) \<Rightarrow> Some s | _ \<Rightarrow> None),
           fz_required = str_or d ''required_authority'' ''L3'', fz_proposal = str_or d ''proposal_id'' [],
           fz_agent = str_or d ''agent_name'' []\<rparr>)"

section \<open>Transition tables\<close>

type_synonym transition_table = "(workflow_state, workflow_state list) dict"

definition EXPENSE_TO_RECEIPT_TRANSITIONS :: transition_table where
  "EXPENSE_TO_RECEIPT_TRANSITIONS =
    [(RECEIVED, [NORMALIZED, BLOCKED, DUPLICATE]),
     (NORMALIZED, [EVIDENCE_PENDING, DUPLICATE, BLOCKED]),
     (EVIDENCE_PENDING, [WF_CLASSIFICATION_PENDING, BLOCKED, NEEDS_INFORMATION]),
     (WF_CLASSIFICATION_PENDING, [REVIEW_PENDING, NEEDS_INFORMATION, BLOCKED]),
     (REVIEW_PENDING, [LEDGER_COMMITTED, WF_REJECTED, NEEDS_INFORMATION, BLOCKED]),
     (LEDGER_COMMITTED, [PUBLICATION_PENDING, RECEIPT_DRAFTED, PUBLISHED]),
     (RECEIPT_DRAFTED, [PUBLICATION_PENDING, PUBLISHED]),
     (PUBLICATION_PENDING, [PUBLISHED, WF_REJECTED, NEEDS_INFORMATION, BLOCKED]),
     (PUBLISHED, [NOTIFICATION_PENDING, DELIVERED]),
     (NOTIFICATION_PENDING, [DELIVERED, NEEDS_INFORMATION, BLOCKED, WF_REJECTED]),
     (DELIVERED, []),
     (BLOCKED, [EVIDENCE_PENDING, REVIEW_PENDING, NEEDS_INFORMATION]),
     (NEEDS_INFORMATION, [EVIDENCE_PENDING, WF_CLASSIFICATION_PENDING, REVIEW_PENDING,
        PUBLICATION_PENDING, NOTIFICATION_PENDING]),
     (WF_REJECTED, []),
     (DUPLICATE, []),
     (WF_APPROVED, [LEDGER_COMMITTED, WF_REJECTED])]"

definition DIGEST_TRANSITIONS :: transition_table where
  "DIGEST_TRANSITIONS =
    [(RECEIVED, [PUBLISHED, PUBLICATION_PENDING, BLOCKED]),
     (PUBLICATION_PENDING, [PUBLISHED, WF_REJECTED, NEEDS_INFORMATION, BLOCKED]),
     (PUBLISHED, [DELIVERED]),
     (DELIVERED, []),
     (BLOCKED, []),
     (WF_REJECTED, []),
     (NEEDS_INFORMATION, [RECEIVED, PUBLICATION_PENDING])]"

definition CORRECTION_TRANSITIONS :: transition_table where
  "CORRECTION_TRANSITIONS =
    [(RECEIVED, [REVIEW_PENDING, BLOCKED, NEEDS_INFORMATION]),
     (REVIEW_PENDING, [LEDGER_COMMITTED, WF_REJECTED, NEEDS_INFORMATION, BLOCKED]),
     (LEDGER_COMMITTED, [DELIVERED]),
     (DELIVERED, []),
     (BLOCKED, [RECEIVED, REVIEW_PENDING, NEEDS_INFORMATION]),
     (NEEDS_INFORMATION, [RECEIVED, REVIEW_PENDING]),
     (WF_REJECTED, [])]"

definition HUMAN_GATE_STATES :: "workflow_state list" where
  "HUMAN_GATE_STATES = [REVIEW_PENDING, PUBLICATION_PENDING, NOTIFICATION_PENDING]"

definition DEFAULT_RUN_STATUS :: "(workflow_state, run_status) dict" where
  "DEFAULT_RUN_STATUS =
    [(RECEIVED, PENDING), (NORMALIZED, PENDING), (EVIDENCE_PENDING, PENDING),
     (WF_CLASSIFICATION_PENDING, PENDING), (REVIEW_PENDING, WAITING_SIGNAL), (LEDGER_COMMITTED, PENDING),
     (RECEIPT_DRAFTED, PENDING), (PUBLICATION_PENDING, WAITING_SIGNAL), (PUBLISHED, PENDING),
     (NOTIFICATION_PENDING, WAITING_SIGNAL), (DELIVERED, COMPLETED), (BLOCKED, WAITING_SIGNAL),
     (NEEDS_INFORMATION, WAITING_SIGNAL), (WF_REJECTED, FAILED_TERMINAL), (DUPLICATE, COMPLETED),
     (WF_APPROVED, RUNNING)]"

definition can_transition :: "transition_table option \<Rightarrow> workflow_state \<Rightarrow> workflow_state \<Rightarrow> bool" where
  "can_transition table current nxt =
     (if current = nxt then True
      else
        let edges = (case table of Some t \<Rightarrow> t | None \<Rightarrow> EXPENSE_TO_RECEIPT_TRANSITIONS)
        in case dget edges current of None \<Rightarrow> False | Some allowed \<Rightarrow> nxt \<in> set allowed)"

definition assert_transition :: "transition_table option \<Rightarrow> workflow_state \<Rightarrow> workflow_state \<Rightarrow> unit outcome" where
  "assert_transition table current nxt =
     (if \<not> can_transition table current nxt
      then Inl (WorkflowStateError (''illegal workflow transition '' @ workflow_state_value current @
             '' -> '' @ workflow_state_value nxt))
      else Inr ())"

definition can_correction_transition :: "workflow_state \<Rightarrow> workflow_state \<Rightarrow> bool" where
  "can_correction_transition = can_transition (Some CORRECTION_TRANSITIONS)"

definition can_digest_transition :: "workflow_state \<Rightarrow> workflow_state \<Rightarrow> bool" where
  "can_digest_transition = can_transition (Some DIGEST_TRANSITIONS)"

definition is_human_gate :: "workflow_state \<Rightarrow> bool" where
  "is_human_gate s \<longleftrightarrow> s \<in> set HUMAN_GATE_STATES"

definition default_run_status :: "workflow_state \<Rightarrow> run_status" where
  "default_run_status s = (case dget DEFAULT_RUN_STATUS s of None \<Rightarrow> PENDING | Some r \<Rightarrow> r)"

text \<open>A path of legal transitions from the first state of a list to the last.\<close>

fun legal_path :: "transition_table option \<Rightarrow> workflow_state list \<Rightarrow> bool" where
  "legal_path table (s # t # rest) = (can_transition table s t \<and> legal_path table (t # rest))"
| "legal_path table _ = True"

text \<open>
  What the code relies on about a table: it is a dictionary, its final states have no way out, and
  a set of states \<open>before\<close> can be left only through \<open>gate\<close>, as long as the path avoids \<open>gate\<close>.
\<close>

locale gated_table =
  fixes table :: "transition_table"
    and start :: workflow_state
    and before :: "workflow_state list"
    and gate :: "workflow_state list"
    and final :: "workflow_state list"
  assumes start: "start \<in> set before"
    and gated: "s \<in> set before \<Longrightarrow> can_transition (Some table) s t \<Longrightarrow> t \<notin> set gate \<Longrightarrow> t \<in> set before"
    and final: "s \<in> set final \<Longrightarrow> can_transition (Some table) s t \<Longrightarrow> t = s"
begin

lemma path_before:
  "legal_path (Some table) (s # p) \<Longrightarrow> s \<in> set before \<Longrightarrow> set p \<inter> set gate = {} \<Longrightarrow> set p \<subseteq> set before"
proof (induction p arbitrary: s)
  case (Cons t p)
  then have "t \<in> set before" using gated by auto
  then show ?case using Cons by auto
qed simp

lemma beyond_needs_gate:
  assumes "legal_path (Some table) (start # p)" "t \<in> set p" "t \<notin> set before"
  shows "\<exists>g \<in> set gate. g \<in> set p"
  using path_before [OF assms(1) start] assms(2,3) by blast

lemma final_absorbs:
  "legal_path (Some table) (s # p) \<Longrightarrow> s \<in> set final \<Longrightarrow> set p \<subseteq> {s}"
proof (induction p arbitrary: s)
  case (Cons t p)
  then have "t = s" using final by auto
  then show ?case using Cons by auto
qed simp

end

lemmas machine_tables = can_transition_def EXPENSE_TO_RECEIPT_TRANSITIONS_def DIGEST_TRANSITIONS_def
  CORRECTION_TRANSITIONS_def

interpretation expense_machine: gated_table EXPENSE_TO_RECEIPT_TRANSITIONS RECEIVED
  "[RECEIVED, NORMALIZED, EVIDENCE_PENDING, WF_CLASSIFICATION_PENDING, BLOCKED, DUPLICATE,
    NEEDS_INFORMATION, PUBLICATION_PENDING, PUBLISHED, NOTIFICATION_PENDING, DELIVERED, WF_REJECTED]"
  "[REVIEW_PENDING]" "[DELIVERED, WF_REJECTED, DUPLICATE]"
  by unfold_locales (auto simp: machine_tables Let_def split: if_splits)

interpretation correction_machine: gated_table CORRECTION_TRANSITIONS RECEIVED
  "[RECEIVED, BLOCKED, NEEDS_INFORMATION]" "[REVIEW_PENDING]" "[DELIVERED, WF_REJECTED]"
  by unfold_locales (auto simp: machine_tables Let_def split: if_splits)

interpretation digest_machine: gated_table DIGEST_TRANSITIONS RECEIVED
  "[RECEIVED, PUBLICATION_PENDING, BLOCKED, NEEDS_INFORMATION, WF_REJECTED]" "[PUBLISHED]"
  "[DELIVERED, WF_REJECTED, BLOCKED]"
  by unfold_locales (auto simp: machine_tables Let_def split: if_splits)

section \<open>Classification of errors\<close>

datatype error_class = RETRYABLE | TERMINAL | ALREADY_APPLIED

definition TERMINAL_TYPE_NAMES :: "string list" where
  "TERMINAL_TYPE_NAMES =
     [''AuthorityError'', ''InvariantError'', ''StateError'', ''AttributionError'', ''NotFoundError'',
      ''PrivacySentinelError'', ''PolicyError'', ''WorkflowStateError'', ''WorkflowNotFoundError'',
      ''WorkflowConflictError'']"

definition RETRYABLE_TYPE_NAMES :: "string list" where
  "RETRYABLE_TYPE_NAMES =
     [''OperationalError'', ''TimeoutError'', ''ConnectionError'', ''ConnectionResetError'',
      ''BrokenPipeError'', ''InterfaceError'']"

definition ALREADY_APPLIED_MARKERS :: "string list" where
  "ALREADY_APPLIED_MARKERS =
     [''already approved'', ''already imported'', ''already published'', ''duplicate'', ''already applied'']"

text \<open>The text is compared in lower case; the markers are ASCII.\<close>

definition has_marker :: "string \<Rightarrow> bool" where
  "has_marker msg \<longleftrightarrow> list_ex (\<lambda>m. has_substring m (map lower_char msg)) ALREADY_APPLIED_MARKERS"

definition ends_with :: "string \<Rightarrow> string \<Rightarrow> bool" where
  "ends_with suffix s \<longleftrightarrow> starts_with (rev suffix) (rev s)"

text \<open>An exception as the classifier sees it: its type's name, its type's module and its text.\<close>

definition classify_error :: "string \<Rightarrow> string \<Rightarrow> string \<Rightarrow> error_class \<times> string" where
  "classify_error name modname msg =
     (if has_marker msg then (ALREADY_APPLIED, ''already_applied:'' @ name)
      else if name \<in> set TERMINAL_TYPE_NAMES then
        (if name = ''StateError'' \<and> has_marker msg then (ALREADY_APPLIED, ''already_applied:'' @ name)
         else (TERMINAL, ''terminal:'' @ name))
      else if name \<in> set RETRYABLE_TYPE_NAMES then (RETRYABLE, ''retryable:'' @ name)
      else if has_substring ''authority'' modname \<or> has_substring ''privacy'' modname \<or> has_substring ''policy'' modname
      then (TERMINAL, ''terminal_module:'' @ modname)
      else if has_substring ''domain'' modname \<and> ends_with ''Error'' name then
        (if has_marker msg then (ALREADY_APPLIED, ''already_applied:'' @ name)
         else (TERMINAL, ''domain_terminal:'' @ name))
      else (RETRYABLE, ''unknown_retry:'' @ name))"

definition is_retryable :: "string \<Rightarrow> string \<Rightarrow> string \<Rightarrow> bool" where
  "is_retryable name modname msg \<longleftrightarrow> fst (classify_error name modname msg) = RETRYABLE"

definition is_terminal :: "string \<Rightarrow> string \<Rightarrow> string \<Rightarrow> bool" where
  "is_terminal name modname msg \<longleftrightarrow> fst (classify_error name modname msg) = TERMINAL"

section \<open>Durability guard\<close>

datatype workflow_engine = ENGINE_MEMORY | ENGINE_SQLITE | ENGINE_POSTGRES

datatype ledger_durability = DUR_NONE | DUR_COMMAND_LOG | DUR_SNAPSHOT | DUR_REPOS

definition assert_durable_worker_allowed ::
  "workflow_engine \<Rightarrow> ledger_durability \<Rightarrow> bool \<Rightarrow> bool \<Rightarrow> bool \<Rightarrow> unit outcome" where
  "assert_durable_worker_allowed engine durability simulation_only worker_enabled require_enabled =
     (if require_enabled \<and> \<not> worker_enabled
      then Inl (DurabilityGuardError (''Worker not enabled. Use --once for a single poll, or set '' @
             ''WORKFLOW_WORKER_ENABLED=1 (or --force) for a continuous loop.''))
      else if simulation_only then Inr ()
      else if engine \<in> {ENGINE_POSTGRES, ENGINE_SQLITE} \<and> durability = DUR_NONE
      then Inl (DurabilityGuardError (''K11: refusing SQL workflow worker without durable ledger. '' @
             ''Use a durable data-dir with ledger_commands.jsonl '' @
             ''(python -m impact_relay --durable seed), or simulation-only tenants.''))
      else if engine = ENGINE_POSTGRES \<and> durability = DUR_NONE
      then Inl (DurabilityGuardError ''K11: WORKFLOW_ENGINE=postgres requires LEDGER_DURABILITY != none'')
      else Inr ())"

end
