(* ===== verification/Workflow_Store.thy ===== *)
theory Workflow_Store
  imports Workflow_Types
begin

text \<open>
  The in-memory workflow store of \<^verbatim>\<open>workflows/store_memory.py\<close>: instances, the business-key index,
  events, signals and the index of execution receipts. Every method is a function on the store; the
  lock makes each method one step, so histories are sequences of methods.

  An instance the code mutates in place is the entry of the dictionary; a caller's later changes to
  an object it was handed are not part of the store until it passes the object back.

  A point in time is an integer number of microseconds. \<open>parse_iso\<close> and \<open>iso_of\<close> stand for
  \<^verbatim>\<open>datetime.fromisoformat\<close> (with naive times read as UTC; \<open>None\<close> when it raises) and \<^verbatim>\<open>isoformat\<close>.
\<close>

section \<open>State\<close>

record clock_api =
  parse_iso :: "string \<Rightarrow> int option"
  iso_of :: "int \<Rightarrow> string"

definition whole_seconds :: "int \<Rightarrow> int" where
  "whole_seconds t = t - t mod 1000000"

record workflow_store =
  ws_instances :: "(string, workflow_instance) dict"
  ws_by_business :: "(string \<times> string \<times> string, string) dict"
  ws_events :: "(string, workflow_event list) dict"
  ws_signals :: "(string, workflow_signal list) dict"
  ws_receipts :: "(string \<times> string, execution_receipt) dict"
  ws_receipt_workflow :: "(string \<times> string, string) dict"
  ws_clock :: nat

definition empty_store :: workflow_store where
  "empty_store = \<lparr>ws_instances = [], ws_by_business = [], ws_events = [], ws_signals = [],
     ws_receipts = [], ws_receipt_workflow = [], ws_clock = 0\<rparr>"

definition events_of :: "workflow_store \<Rightarrow> string \<Rightarrow> workflow_event list" where
  "events_of S w = (case dget (ws_events S) w of None \<Rightarrow> [] | Some es \<Rightarrow> es)"

definition signals_of :: "workflow_store \<Rightarrow> string \<Rightarrow> workflow_signal list" where
  "signals_of S w = (case dget (ws_signals S) w of None \<Rightarrow> [] | Some ss \<Rightarrow> ss)"

text \<open>\<^verbatim>\<open>d.setdefault(k, [])\<close>\<close>

definition default_list :: "'k \<Rightarrow> ('k, 'v list) dict \<Rightarrow> ('k, 'v list) dict" where
  "default_list k d = (if dhas d k then d else dset k [] d)"

definition put_instance :: "string \<Rightarrow> workflow_instance \<Rightarrow> workflow_store \<Rightarrow> workflow_store" where
  "put_instance k i S = S\<lparr>ws_instances := dset k i (ws_instances S)\<rparr>"

section \<open>Creating and reading\<close>

definition business_key :: "workflow_instance \<Rightarrow> string \<times> string \<times> string" where
  "business_key i = (wi_tenant i, workflow_type_value (wi_type i), wi_business_key i)"

definition create :: "workflow_instance \<Rightarrow> workflow_store \<Rightarrow> unit outcome \<times> workflow_store" where
  "create i S =
     (if dhas (ws_instances S) (wi_id i)
      then (Inl (WorkflowConflictError (''workflow already exists: '' @ wi_id i)), S)
      else if dhas (ws_by_business S) (business_key i)
      then (Inl (WorkflowConflictError (''business_key already used: '' @ wi_business_key i)), S)
      else (Inr (), S\<lparr>ws_instances := dset (wi_id i) i (ws_instances S),
              ws_by_business := dset (business_key i) (wi_id i) (ws_by_business S),
              ws_events := default_list (wi_id i) (ws_events S),
              ws_signals := default_list (wi_id i) (ws_signals S)\<rparr>))"

definition get_instance :: "workflow_store \<Rightarrow> string \<Rightarrow> string \<Rightarrow> workflow_instance option" where
  "get_instance S tenant w =
     (case dget (ws_instances S) w of
        None \<Rightarrow> None | Some i \<Rightarrow> if wi_tenant i \<noteq> tenant then None else Some i)"

definition get_by_business_key ::
  "workflow_store \<Rightarrow> string \<Rightarrow> string \<Rightarrow> string \<Rightarrow> workflow_instance option" where
  "get_by_business_key S tenant wtype key =
     (case dget (ws_by_business S) (tenant, wtype, key) of
        None \<Rightarrow> None
      | Some w \<Rightarrow> if w = [] then None else dget (ws_instances S) w)"

text \<open>The listing loop stops when the limit is reached, after the entry that reaches it.\<close>

fun list_loop :: "('a \<Rightarrow> bool) \<Rightarrow> int \<Rightarrow> 'a list \<Rightarrow> 'a list \<Rightarrow> 'a list" where
  "list_loop P limit acc [] = acc"
| "list_loop P limit acc (x # xs) =
     (if \<not> P x then list_loop P limit acc xs
      else if limit \<le> int (length acc) + 1 then acc @ [x]
      else list_loop P limit (acc @ [x]) xs)"

definition list_instances ::
  "workflow_store \<Rightarrow> string \<Rightarrow> string list option \<Rightarrow> string list option \<Rightarrow> int \<Rightarrow> workflow_instance list" where
  "list_instances S tenant states statuses limit =
     list_loop (\<lambda>i. wi_tenant i = tenant \<and>
         (case states of Some (x # xs) \<Rightarrow> workflow_state_value (wi_state i) \<in> set (x # xs) | _ \<Rightarrow> True) \<and>
         (case statuses of Some (x # xs) \<Rightarrow> run_status_value (wi_run_status i) \<in> set (x # xs) | _ \<Rightarrow> True))
       limit [] (dvalues (ws_instances S))"

section \<open>Claiming work\<close>

text \<open>\<^verbatim>\<open>xs[:n]\<close>\<close>

definition slice_to :: "int \<Rightarrow> 'a list \<Rightarrow> 'a list" where
  "slice_to n xs = (if 0 \<le> n then take (nat n) xs else take (length xs - nat (- n)) xs)"

definition parse_time :: "clock_api \<Rightarrow> string \<Rightarrow> int outcome" where
  "parse_time C s =
     (case parse_iso C s of None \<Rightarrow> Inl (ValueError (''Invalid isoformat string: '' @ s)) | Some t \<Rightarrow> Inr t)"

text \<open>Whether an instance may be claimed at a time; reading its times may raise.\<close>

definition claimable :: "clock_api \<Rightarrow> int \<Rightarrow> workflow_instance \<Rightarrow> bool outcome" where
  "claimable C now i =
     (case (case wi_next_run i of None \<Rightarrow> Inr True
            | Some s \<Rightarrow> (case parse_time C s of Inl e \<Rightarrow> Inl e | Inr t \<Rightarrow> Inr (t \<le> now))) of
        Inl e \<Rightarrow> Inl e
      | Inr due \<Rightarrow>
          if \<not> due then Inr False
          else if wi_run_status i \<in> set CLAIMABLE_RUN_STATUSES then Inr True
          else if wi_run_status i = RUNNING then
            (case wi_lease_expires i of
               None \<Rightarrow> Inr False
             | Some s \<Rightarrow> (case parse_time C s of Inl e \<Rightarrow> Inl e | Inr t \<Rightarrow> Inr (t < now)))
          else Inr False)"

fun claim_candidates ::
  "clock_api \<Rightarrow> int \<Rightarrow> (string \<times> workflow_instance) list \<Rightarrow> (string \<times> workflow_instance) list outcome" where
  "claim_candidates C now [] = Inr []"
| "claim_candidates C now (ki # rest) =
     (case claimable C now (snd ki) of Inl e \<Rightarrow> Inl e | Inr b \<Rightarrow>
      case claim_candidates C now rest of Inl e \<Rightarrow> Inl e | Inr cs \<Rightarrow> Inr (if b then ki # cs else cs))"

definition claimed_by :: "clock_api \<Rightarrow> string \<Rightarrow> int \<Rightarrow> int \<Rightarrow> workflow_instance \<Rightarrow> workflow_instance" where
  "claimed_by C worker now ttl i =
     i\<lparr>wi_run_status := RUNNING, wi_lease_owner := Some worker,
       wi_lease_expires := Some (iso_of C (whole_seconds (now + ttl))),
       wi_updated := iso_of C (whole_seconds now)\<rparr>"

fun claim_all ::
  "(workflow_instance \<Rightarrow> workflow_instance) \<Rightarrow> (string \<times> workflow_instance) list \<Rightarrow> workflow_store \<Rightarrow>
     workflow_instance list \<times> workflow_store" where
  "claim_all f [] S = ([], S)"
| "claim_all f ((k, i) # rest) S =
     (let (out, S') = claim_all f rest (put_instance k (f i) S) in (f i # out, S'))"

definition claim ::
  "clock_api \<Rightarrow> string \<Rightarrow> int \<Rightarrow> int \<Rightarrow> int \<Rightarrow> workflow_store \<Rightarrow> workflow_instance list outcome \<times> workflow_store" where
  "claim C worker limit now ttl S =
     (case claim_candidates C now (ws_instances S) of
        Inl e \<Rightarrow> (Inl e, S)
      | Inr cs \<Rightarrow>
          let sorted = sort_key (\<lambda>(k, i). case wi_next_run i of None \<Rightarrow> [] | Some s \<Rightarrow> s) cs;
              (out, S') = claim_all (claimed_by C worker now ttl) (slice_to limit sorted) S
          in (Inr out, S'))"

definition update_instance :: "workflow_instance \<Rightarrow> workflow_store \<Rightarrow> unit outcome \<times> workflow_store" where
  "update_instance i S =
     (case get_instance S (wi_tenant i) (wi_id i) of
        None \<Rightarrow> (Inl (WorkflowNotFoundError (wi_id i)), S)
      | Some _ \<Rightarrow> (Inr (), put_instance (wi_id i) i S))"

section \<open>Events\<close>

text \<open>One event is appended: the sequence number reached, the list and the clock.\<close>

fun add_event ::
  "env \<Rightarrow> string \<Rightarrow> string \<Rightarrow> event_write + workflow_event \<Rightarrow> int \<times> workflow_event list \<times> nat \<Rightarrow>
     int \<times> workflow_event list \<times> nat" where
  "add_event E tenant w (Inr ev) (seq, es, t) = (max seq (we_seq ev), es @ [ev], t)"
| "add_event E tenant w (Inl ew) (seq, es, t) =
     (let n = seq + 1; given = present (ew_at ew) in
      (n, es @ [\<lparr>we_id = ''evt_'' @ w @ ''_'' @ str_of_int n, we_workflow = w, we_tenant = tenant, we_seq = n,
                we_type = ew_type ew, we_payload = ew_payload ew,
                we_at = (if given then the (ew_at ew) else now_iso E t)\<rparr>],
       if given then t else Suc t))"

definition add_events ::
  "env \<Rightarrow> string \<Rightarrow> string \<Rightarrow> (event_write + workflow_event) list \<Rightarrow> int \<times> workflow_event list \<times> nat \<Rightarrow>
     int \<times> workflow_event list \<times> nat" where
  "add_events E tenant w evs s = fold (add_event E tenant w) evs s"

definition append_events ::
  "env \<Rightarrow> string \<Rightarrow> string \<Rightarrow> (event_write + workflow_event) list \<Rightarrow> workflow_store \<Rightarrow>
     unit outcome \<times> workflow_store" where
  "append_events E tenant w evs S =
     (case get_instance S tenant w of
        None \<Rightarrow> (Inl (WorkflowNotFoundError w), S)
      | Some i \<Rightarrow>
          let (seq, es, t) = add_events E tenant w evs (wi_event_seq i, events_of S w, ws_clock S)
          in (Inr (), (put_instance w (i\<lparr>wi_event_seq := seq, wi_updated := now_iso E t\<rparr>) S)
                \<lparr>ws_events := dset w es (ws_events S), ws_clock := Suc t\<rparr>))"

definition list_events :: "workflow_store \<Rightarrow> string \<Rightarrow> string \<Rightarrow> workflow_event list" where
  "list_events S tenant w = (case get_instance S tenant w of None \<Rightarrow> [] | Some _ \<Rightarrow> events_of S w)"

section \<open>Signals\<close>

definition enqueue_signal_and_wake ::
  "env \<Rightarrow> clock_api \<Rightarrow> string \<Rightarrow> string \<Rightarrow> workflow_signal \<Rightarrow> run_status \<Rightarrow> int + string \<Rightarrow> bool \<Rightarrow>
     workflow_store \<Rightarrow> unit outcome \<times> workflow_store" where
  "enqueue_signal_and_wake E C tenant w sig new_status next_run clear_lease S =
     (case get_instance S tenant w of
        None \<Rightarrow> (Inl (WorkflowNotFoundError w), S)
      | Some i \<Rightarrow>
          if wi_run_status i \<notin> {WAITING_SIGNAL, PENDING} \<and>
             wi_run_status i \<notin> {WAITING_SIGNAL, PENDING, RETRY_SCHEDULED}
          then (Inl (WorkflowStateError (''workflow not accepting signals in '' @
                 run_status_value (wi_run_status i))), S)
          else
            let next_at = (case next_run of Inl t \<Rightarrow> iso_of C (whole_seconds t) | Inr s \<Rightarrow> s);
                i1 = i\<lparr>wi_run_status := new_status, wi_next_run := Some next_at\<rparr>;
                i2 = (if clear_lease then i1\<lparr>wi_lease_owner := None, wi_lease_expires := None\<rparr> else i1)
            in (Inr (), (put_instance w (i2\<lparr>wi_updated := now_iso E (ws_clock S)\<rparr>) S)
                  \<lparr>ws_signals := dset w (signals_of S w @ [sig]) (ws_signals S),
                   ws_clock := Suc (ws_clock S)\<rparr>))"

definition take_unconsumed_signals :: "workflow_store \<Rightarrow> string \<Rightarrow> string \<Rightarrow> workflow_signal list" where
  "take_unconsumed_signals S tenant w =
     (case get_instance S tenant w of
        None \<Rightarrow> [] | Some _ \<Rightarrow> filter (\<lambda>s. \<not> sig_consumed s) (signals_of S w))"

definition consumed_as :: "string \<Rightarrow> workflow_signal \<Rightarrow> workflow_signal" where
  "consumed_as result s = s\<lparr>sig_consumed := True, sig_result := Some result\<rparr>"

text \<open>The first signal with the identifier and tenant is marked, over all workflows.\<close>

fun mark_first :: "(workflow_signal \<Rightarrow> bool) \<Rightarrow> string \<Rightarrow> workflow_signal list \<Rightarrow> workflow_signal list option" where
  "mark_first P result [] = None"
| "mark_first P result (s # ss) =
     (if P s then Some (consumed_as result s # ss)
      else case mark_first P result ss of None \<Rightarrow> None | Some ss' \<Rightarrow> Some (s # ss'))"

fun mark_in :: "(workflow_signal \<Rightarrow> bool) \<Rightarrow> string \<Rightarrow> (string, workflow_signal list) dict \<Rightarrow>
    (string, workflow_signal list) dict" where
  "mark_in P result [] = []"
| "mark_in P result ((w, ss) # rest) =
     (case mark_first P result ss of
        Some ss' \<Rightarrow> (w, ss') # rest
      | None \<Rightarrow> (w, ss) # mark_in P result rest)"

definition mark_signal_consumed :: "string \<Rightarrow> string \<Rightarrow> string \<Rightarrow> workflow_store \<Rightarrow> workflow_store" where
  "mark_signal_consumed tenant sid result S =
     S\<lparr>ws_signals := mark_in (\<lambda>s. sig_id s = sid \<and> sig_tenant s = tenant) result (ws_signals S)\<rparr>"

section \<open>Execution receipts\<close>

definition put_execution_receipt ::
  "workflow_store \<Rightarrow> execution_receipt \<Rightarrow> string \<Rightarrow> unit outcome \<times> workflow_store" where
  "put_execution_receipt S r w =
     (if \<not> storable_status (exe_status r)
      then (Inl (WorkflowStateError (''must not store FAILED receipt for idempotency: '' @ exe_status r)), S)
      else (Inr (), S\<lparr>ws_receipts := dset (exe_tenant r, exe_key r) r (ws_receipts S),
              ws_receipt_workflow := dset (exe_tenant r, exe_key r) w (ws_receipt_workflow S)\<rparr>))"

definition get_execution_receipt :: "workflow_store \<Rightarrow> string \<Rightarrow> string \<Rightarrow> execution_receipt option" where
  "get_execution_receipt S tenant key = dget (ws_receipts S) (tenant, key)"

definition commit_receipt :: "string \<Rightarrow> execution_receipt \<Rightarrow> workflow_store \<Rightarrow> workflow_store" where
  "commit_receipt w r S =
     (if \<not> storable_status (exe_status r) then S
      else S\<lparr>ws_receipts := dset (exe_tenant r, exe_key r) r (ws_receipts S),
             ws_receipt_workflow := dset (exe_tenant r, exe_key r) w (ws_receipt_workflow S)\<rparr>)"

section \<open>Committing an advance\<close>

definition consume_matching :: "string \<times> signal_consume_result \<Rightarrow> workflow_signal list \<Rightarrow> workflow_signal list" where
  "consume_matching sr ss =
     map (\<lambda>s. if sig_id s = fst sr then consumed_as (consume_result_value (snd sr)) s else s) ss"

definition commit_advance :: "env \<Rightarrow> advance_bundle \<Rightarrow> workflow_store \<Rightarrow> unit outcome \<times> workflow_store" where
  "commit_advance E b S =
     (case get_instance S (ab_tenant b) (ab_workflow b) of
        None \<Rightarrow> (Inl (WorkflowNotFoundError (ab_workflow b)), S)
      | Some _ \<Rightarrow>
          let w = ab_workflow b;
              S1 = fold (commit_receipt w) (ab_receipts b) S;
              es0 = events_of S1 w;
              cursor = ab_instance b;
              seq0 = (if es0 = [] then wi_event_seq cursor
                      else max (wi_event_seq cursor) (we_seq (last es0)));
              (seq, es, t) = add_events E (ab_tenant b) w (ab_events b) (seq0, es0, ws_clock S1);
              S2 = (put_instance w (cursor\<lparr>wi_event_seq := seq, wi_updated := now_iso E t\<rparr>) S1)
                     \<lparr>ws_events := dset w es (ws_events S1), ws_clock := Suc t\<rparr>
          in (Inr (), if ab_consume b = [] \<or> \<not> dhas (ws_signals S2) w then S2
                 else S2\<lparr>ws_signals := dset w (fold consume_matching (ab_consume b) (signals_of S2 w)) (ws_signals S2)\<rparr>))"

section \<open>Approval timeouts\<close>

definition TIMEOUT_GATE_STATES :: "workflow_state list" where
  "TIMEOUT_GATE_STATES = [REVIEW_PENDING, PUBLICATION_PENDING, NOTIFICATION_PENDING]"

text \<open>\<^verbatim>\<open>d.get(k)\<close> with a missing key read as \<open>None\<close>, and \<^verbatim>\<open>x or y\<close>.\<close>

definition jor :: "json \<Rightarrow> json \<Rightarrow> json" where
  "jor x y = (if truthy x then x else y)"

definition obj_get :: "(string \<times> json) list \<Rightarrow> string \<Rightarrow> json" where
  "obj_get d k = (case dget d k of None \<Rightarrow> JNull | Some j \<Rightarrow> j)"

text \<open>\<^verbatim>\<open>(x or {})\<close> used as a mapping: a truthy value that is no mapping raises.\<close>

definition or_empty :: "json \<Rightarrow> (string \<times> json) list outcome" where
  "or_empty j =
     (if \<not> truthy j then Inr []
      else case j of JObj kvs \<Rightarrow> Inr kvs | _ \<Rightarrow> Inl (AttributeError ''not a mapping''))"

definition prior_wait_key ::
  "(string \<times> json) list \<Rightarrow> (string \<times> json) list \<Rightarrow> json outcome" where
  "prior_wait_key descriptor prior_wait =
     (let k = jor (obj_get descriptor ''command_idempotency_key'') (obj_get prior_wait ''command_idempotency_key'')
      in if truthy k then Inr k
         else case or_empty (obj_get prior_wait ''frozen_command'') of
           Inl e \<Rightarrow> Inl e | Inr fz \<Rightarrow> Inr (obj_get fz ''idempotency_key''))"

definition ddel :: "'k \<Rightarrow> ('k, 'v) dict \<Rightarrow> ('k, 'v) dict" where
  "ddel k d = filter (\<lambda>(j, v). j \<noteq> k) d"

definition expire_context :: "(string \<times> json) list \<Rightarrow> (string \<times> json) list" where
  "expire_context ctx =
     dset ''wait_expired'' (JBool True)
       (case dget ctx ''wait'' of
          None \<Rightarrow> ctx
        | Some j \<Rightarrow> dset ''expired_wait'' j (ddel ''wait'' ctx))"

text \<open>Whether the sweeper acts on an instance; reading the deadline may raise.\<close>

definition overdue :: "clock_api \<Rightarrow> int \<Rightarrow> workflow_instance \<Rightarrow> bool outcome" where
  "overdue C now i =
     (if wi_run_status i \<noteq> WAITING_SIGNAL \<or> wi_state i \<notin> set TIMEOUT_GATE_STATES \<or>
         \<not> present (wi_wait_deadline i) \<or> present (wi_timeout_applied i) then Inr False
      else case parse_time C (the (wi_wait_deadline i)) of
        Inl e \<Rightarrow> Inl e | Inr t \<Rightarrow> Inr (\<not> t \<ge> now))"

definition timed_out_instance :: "string \<Rightarrow> json \<Rightarrow> json \<Rightarrow> int \<Rightarrow> workflow_instance \<Rightarrow> workflow_instance" where
  "timed_out_instance now key proposal seq i =
     i\<lparr>wi_state := NEEDS_INFORMATION, wi_run_status := WAITING_SIGNAL,
       wi_last_error := Some ''approval_timeout'', wi_wait_deadline := None,
       wi_timeout_applied := Some now,
       wi_wait_descriptor := Some
         [(''signal_type'', JStr ''RESUBMIT''), (''reason'', JStr ''approval_timeout''),
          (''prior_command_idempotency_key'', key), (''prior_proposal_id'', proposal)],
       wi_context := expire_context (wi_context i), wi_updated := now, wi_event_seq := seq\<rparr>"

definition time_out ::
  "clock_api \<Rightarrow> int \<Rightarrow> string \<Rightarrow> workflow_instance \<Rightarrow> workflow_store \<Rightarrow> unit outcome \<times> workflow_store" where
  "time_out C now k i S =
     (let now_text = iso_of C (whole_seconds now);
          descriptor = (case wi_wait_descriptor i of None \<Rightarrow> [] | Some d \<Rightarrow> d)
      in case or_empty (obj_get (wi_context i) ''wait'') of
           Inl e \<Rightarrow> (Inl e, S)
         | Inr prior_wait \<Rightarrow>
      case prior_wait_key descriptor prior_wait of
        Inl e \<Rightarrow> (Inl e, S)
      | Inr prior_key \<Rightarrow>
          let proposal = jor (obj_get descriptor ''proposal_id'') (obj_get prior_wait ''proposal_id'');
              es = events_of S (wi_id i);
              seq = (if es = [] then wi_event_seq i + 1 else we_seq (last es) + 1);
              ev = \<lparr>we_id = ''evt_'' @ wi_id i @ ''_'' @ str_of_int seq, we_workflow = wi_id i,
                    we_tenant = wi_tenant i, we_seq = seq, we_type = EV_APPROVAL_TIMEOUT,
                    we_payload = JObj [(''reason'', JStr ''approval_timeout''),
                      (''prior_command_idempotency_key'', prior_key)],
                    we_at = now_text\<rparr>
          in (Inr (), (put_instance k (timed_out_instance now_text prior_key proposal seq i) S)
                \<lparr>ws_events := dset (wi_id i) (es @ [ev]) (ws_events S)\<rparr>))"

fun sweep_loop ::
  "clock_api \<Rightarrow> int \<Rightarrow> (string \<times> workflow_instance) list \<Rightarrow> workflow_store \<Rightarrow>
     string list outcome \<times> workflow_store" where
  "sweep_loop C now [] S = (Inr [], S)"
| "sweep_loop C now ((k, i) # rest) S =
     (case overdue C now i of
        Inl e \<Rightarrow> (Inl e, S)
      | Inr due \<Rightarrow>
          if \<not> due then sweep_loop C now rest S
          else and_then (time_out C now k i S) (\<lambda>_ S1.
               and_then (sweep_loop C now rest S1) (\<lambda>ids S2. (Inr (wi_id i # ids), S2))))"

definition sweep_approval_timeouts ::
  "clock_api \<Rightarrow> int \<Rightarrow> workflow_store \<Rightarrow> string list outcome \<times> workflow_store" where
  "sweep_approval_timeouts C now S = sweep_loop C now (ws_instances S) S"

section \<open>Histories of the store\<close>

datatype store_cmd =
    Create workflow_instance
  | Claim string int int int
  | UpdateInstance workflow_instance
  | AppendEvents string string "(event_write + workflow_event) list"
  | EnqueueSignal string string workflow_signal run_status "int + string" bool
  | MarkSignalConsumed string string string
  | PutReceipt execution_receipt string
  | CommitAdvance advance_bundle
  | Sweep int

fun store_step :: "env \<Rightarrow> clock_api \<Rightarrow> workflow_store \<Rightarrow> store_cmd \<Rightarrow> workflow_store" where
  "store_step E C S (Create i) = snd (create i S)"
| "store_step E C S (Claim worker limit now ttl) = snd (claim C worker limit now ttl S)"
| "store_step E C S (UpdateInstance i) = snd (update_instance i S)"
| "store_step E C S (AppendEvents t w evs) = snd (append_events E t w evs S)"
| "store_step E C S (EnqueueSignal t w sig st nr cl) = snd (enqueue_signal_and_wake E C t w sig st nr cl S)"
| "store_step E C S (MarkSignalConsumed t sid res) = mark_signal_consumed t sid res S"
| "store_step E C S (PutReceipt r w) = snd (put_execution_receipt S r w)"
| "store_step E C S (CommitAdvance b) = snd (commit_advance E b S)"
| "store_step E C S (Sweep now) = snd (sweep_approval_timeouts C now S)"

end
