(* ===== verification/Workflow_Properties.thy ===== *)
theory Workflow_Properties
  imports Workflow_Store Scenario
begin

text \<open>
  Properties of the workflow store, of the transition tables and of the executor running on the
  store's receipt index, each with a witness.
\<close>

section \<open>The receipt index\<close>

definition memory_index :: "workflow_store receipt_index" where
  "memory_index = \<lparr>idx_get = get_execution_receipt, idx_put = put_execution_receipt\<rparr>"

interpretation store_index: receipt_index_laws memory_index
  by unfold_locales
    (auto simp: memory_index_def put_execution_receipt_def get_execution_receipt_def split: if_splits)

definition only_final_receipts :: "workflow_store \<Rightarrow> bool" where
  "only_final_receipts S \<longleftrightarrow>
     dall (\<lambda>k r. storable_status (exe_status r) \<and> k = (exe_tenant r, exe_key r)) (ws_receipts S)"

lemma put_instance_frame [simp]:
  "ws_receipts (put_instance k i S) = ws_receipts S" "ws_events (put_instance k i S) = ws_events S"
  "ws_signals (put_instance k i S) = ws_signals S" "ws_by_business (put_instance k i S) = ws_by_business S"
  "ws_clock (put_instance k i S) = ws_clock S"
  "ws_instances (put_instance k i S) = dset k i (ws_instances S)"
  by (simp_all add: put_instance_def)

lemma claim_all_frame:
  "ws_receipts (snd (claim_all f cs S)) = ws_receipts S" "ws_events (snd (claim_all f cs S)) = ws_events S"
  "ws_signals (snd (claim_all f cs S)) = ws_signals S"
  "ws_by_business (snd (claim_all f cs S)) = ws_by_business S"
  by (induction cs arbitrary: S) (auto simp: split_beta)

lemma time_out_frame:
  "ws_receipts (snd (time_out C now k i S)) = ws_receipts S"
  "ws_signals (snd (time_out C now k i S)) = ws_signals S"
  "ws_by_business (snd (time_out C now k i S)) = ws_by_business S"
  by (auto simp: time_out_def Let_def split: sum.splits)

lemma sweep_loop_receipts: "ws_receipts (snd (sweep_loop C now xs S)) = ws_receipts S"
proof (induction xs arbitrary: S)
  case (Cons x xs)
  obtain k i where x: "x = (k, i)" by (cases x)
  show ?case
    using Cons.IH time_out_frame(1) [of C now k i S]
    by (auto simp: x snd_and_then_return split: sum.splits if_splits and_then_split)
qed simp

lemma commit_receipts_final:
  "only_final_receipts S \<Longrightarrow> only_final_receipts (fold (commit_receipt w) rs S)"
proof (induction rs arbitrary: S)
  case (Cons r rs)
  have "only_final_receipts (commit_receipt w r S)"
    using Cons.prems by (auto simp: commit_receipt_def only_final_receipts_def)
  then show ?case by (simp add: Cons.IH)
qed simp

lemma store_step_final:
  assumes "only_final_receipts S"
  shows "only_final_receipts (store_step E C S c)"
proof (cases c)
  case (CommitAdvance b)
  then show ?thesis
    using commit_receipts_final [OF assms, of "ab_workflow b" "ab_receipts b"]
    by (auto simp: commit_advance_def Let_def split_beta only_final_receipts_def assms
        split: option.splits) (simp_all add: assms [unfolded only_final_receipts_def])
qed (use assms in \<open>auto simp: only_final_receipts_def create_def claim_def claim_all_frame split_beta
      update_instance_def append_events_def enqueue_signal_and_wake_def mark_signal_consumed_def
      put_execution_receipt_def sweep_approval_timeouts_def sweep_loop_receipts Let_def
      split: option.splits sum.splits\<close>)

interpretation store_receipts: kept_invariant "store_step E C" "\<lambda>_ _. True" only_final_receipts for E C
  by unfold_locales (rule store_step_final)

text \<open>Only final outcomes are remembered: in every history of the store a receipt found under an
  idempotency key belongs to that tenant and key and is SUCCEEDED, SIMULATED or SKIPPED, never
  FAILED, so a failed command is never taken for done.\<close>

theorem index_never_holds_failures:
  assumes "get_execution_receipt (run (store_step E C) empty_store cs) tenant key = Some r"
  shows "storable_status (exe_status r) \<and> exe_tenant r = tenant \<and> exe_key r = key"
proof -
  have "only_final_receipts empty_store" by (simp add: only_final_receipts_def empty_store_def)
  then have "only_final_receipts (run (store_step E C) empty_store cs)"
    by (rule store_receipts.run_keeps) simp
  then show ?thesis using assms by (auto simp: only_final_receipts_def get_execution_receipt_def dest: dall_dget)
qed

definition demo_exec :: execution_receipt where
  "demo_exec = \<lparr>exe_id = ''x'', exe_tenant = ''o'', exe_type = ''approve_expense'', exe_key = ''k'',
     exe_status = ''SUCCEEDED'', exe_refs = [], exe_hash = ''h'', exe_at = ''t'', exe_simulated = False,
     exe_error = None, exe_approval = None\<rparr>"

definition demo_clock :: clock_api where
  "demo_clock = \<lparr>parse_iso = (\<lambda>s. Some (int (length s) * 1000000)), iso_of = (\<lambda>t. replicate (nat (t div 1000000)) CHR ''x'')\<rparr>"

theorem index_never_holds_failures_witness:
  "get_execution_receipt (run (store_step demo_env demo_clock) empty_store [PutReceipt demo_exec ''w'']) ''o'' ''k''
     = Some demo_exec \<and> storable_status (exe_status demo_exec)"
proof -
  have "get_execution_receipt (run (store_step demo_env demo_clock) empty_store [PutReceipt demo_exec ''w'']) ''o'' ''k''
     = Some demo_exec"
    by (simp add: put_execution_receipt_def get_execution_receipt_def storable_status_def demo_exec_def empty_store_def)
  with index_never_holds_failures [OF this] show ?thesis by simp
qed

section \<open>The executor\<close>

text \<open>One call of the executor, and the executor after it.\<close>

record exec_call =
  call_command :: agent_command
  call_approval :: "approval_receipt option"
  call_agent :: "string option"
  call_proposal :: "agent_proposal option"

definition call_execute ::
  "env \<Rightarrow> 'd dispatcher \<Rightarrow> (workflow_store, 'd) executor \<Rightarrow> exec_call \<Rightarrow>
     execution_receipt outcome \<times> (workflow_store, 'd) executor" where
  "call_execute E dispatch X k =
     execute E memory_index dispatch (call_command k) (call_approval k) (call_agent k) (call_proposal k) X"

definition exec_step ::
  "env \<Rightarrow> 'd dispatcher \<Rightarrow> (workflow_store, 'd) executor \<Rightarrow> exec_call \<Rightarrow> (workflow_store, 'd) executor" where
  "exec_step E dispatch X k = snd (call_execute E dispatch X k)"

interpretation executor_settled: kept_invariant "exec_step E dispatch" "\<lambda>_ _. True"
  "store_index.settled tenant key" for E and dispatch :: "'d dispatcher" and tenant key
  by unfold_locales (simp add: exec_step_def call_execute_def store_index.execute_keeps_settled)

text \<open>C33. Each idempotency key takes effect at most once: after a command has returned a receipt that
  is not FAILED, and after any further commands, executing a command with the same tenant and key
  leaves the domain unchanged, whatever the dispatcher does.\<close>

theorem executes_at_most_once:
  assumes "call_execute E dispatch X first = (Inr r, X1)" and "exe_status r \<noteq> ''FAILED''"
    and "cmd_tenant (call_command again) = cmd_tenant (call_command first)"
    and "cmd_key (call_command again) = cmd_key (call_command first)"
  shows "ex_domain (exec_step E dispatch (run (exec_step E dispatch) X1 calls) again) =
    ex_domain (run (exec_step E dispatch) X1 calls)"
proof -
  let ?c = "call_command first"
  have "store_index.settled (cmd_tenant ?c) (cmd_key ?c) X1"
    using assms(1,2) unfolding call_execute_def by (rule store_index.execute_settles)
  then have "store_index.settled (cmd_tenant ?c) (cmd_key ?c) (run (exec_step E dispatch) X1 calls)"
    by (rule executor_settled.run_keeps) simp
  then show ?thesis
    using assms(3,4) by (simp add: exec_step_def call_execute_def store_index.execute_settled_domain)
qed

definition demo_executor :: "(workflow_store, nat) executor" where
  "demo_executor = \<lparr>ex_simulation = False, ex_seen = [], ex_receipts = [], ex_index = Some empty_store,
     ex_workflow = Some ''w'', ex_block_below = 3/4, ex_domain = 0, ex_clock = 0\<rparr>"

definition demo_dispatch :: "nat dispatcher" where
  "demo_dispatch c d = (Inr ([], JNull), Suc d)"

definition demo_call :: exec_call where
  "demo_call = \<lparr>call_command = make_command (\<lambda>_. ''h'') ''allocate_expense'' ''o'' [] L1_PROPOSE ''k'' None,
     call_approval = None, call_agent = None, call_proposal = None\<rparr>"

lemmas demo_execute_ops = call_execute_def execute_def execute_guard_def assert_execution_authorized_def
  requires_human_approval_def demo_executor_def make_command_def L3_COMMAND_TYPES_def
  stored_receipt_def memory_index_def get_execution_receipt_def empty_store_def run_command_def
  demo_dispatch_def store_exec_receipt_def put_execution_receipt_def storable_status_def exec_receipt_def Let_def

theorem executes_at_most_once_witness:
  "\<exists>r X1. call_execute demo_env demo_dispatch demo_executor demo_call = (Inr r, X1) \<and>
     ex_domain X1 = 1 \<and> ex_domain (exec_step demo_env demo_dispatch X1 demo_call) = 1"
proof -
  obtain r X1 where r: "call_execute demo_env demo_dispatch demo_executor demo_call = (Inr r, X1)"
    and st: "exe_status r \<noteq> ''FAILED''" and d: "ex_domain X1 = 1"
    by (simp add: demo_execute_ops demo_call_def)
  show ?thesis using r d executes_at_most_once [OF r st, of demo_call "[]"] by auto
qed

text \<open>No consequential command runs without a human: when a command that requires approval returns
  a receipt or changes the domain, the call carried an approval with the decision APPROVE for exactly
  this key and tenant, by a named approver who is neither an agent identity nor the proposing agent.\<close>

theorem consequential_commands_need_human:
  assumes "requires_human_approval c"
    and "execute E idx dispatch c approval agent proposal X = (v, X')"
    and "(\<exists>r. v = Inr r) \<or> ex_domain X' \<noteq> ex_domain X"
  shows "\<exists>a. approval = Some a \<and> app_decision a = ''APPROVE'' \<and> app_key a = cmd_key c \<and>
    app_tenant a = cmd_tenant c \<and> app_approver a \<noteq> [] \<and> \<not> starts_with ''agent:'' (app_approver a) \<and>
    (present agent \<longrightarrow> agent \<noteq> Some (app_approver a))"
proof -
  have "assert_execution_authorized c approval agent = Inr ()"
    using execute_unauthorized [of c approval agent E idx dispatch proposal X] assms(2,3) by force
  then show ?thesis using assms(1) by (simp add: execution_authorized_iff human_approved_def)
qed

definition demo_approval :: approval_receipt where
  "demo_approval = \<lparr>app_id = ''a'', app_tenant = ''o'', app_proposal = ''p'', app_key = ''k'',
     app_decision = ''APPROVE'', app_approver = ''cfo'', app_role = ''finance_approver'', app_at = ''t'',
     app_rationale = [], app_policy_version = ''v1.0''\<rparr>"

definition demo_approve_call :: exec_call where
  "demo_approve_call = \<lparr>call_command = make_command (\<lambda>_. ''h'') ''approve_expense'' ''o'' [] L1_PROPOSE ''k'' None,
     call_approval = Some demo_approval, call_agent = Some ''classifier'', call_proposal = None\<rparr>"

theorem consequential_commands_need_human_witness:
  "requires_human_approval (call_command demo_approve_call) \<and>
   (\<exists>r X'. call_execute demo_env demo_dispatch demo_executor demo_approve_call = (Inr r, X')) \<and>
   \<not> starts_with ''agent:'' (app_approver demo_approval)"
proof -
  have req: "requires_human_approval (call_command demo_approve_call)"
    by (simp add: demo_approve_call_def make_command_def requires_human_approval_def L3_COMMAND_TYPES_def)
  obtain r X' where r: "call_execute demo_env demo_dispatch demo_executor demo_approve_call = (Inr r, X')"
    by (simp add: demo_execute_ops demo_approve_call_def demo_approval_def)
  have "call_approval demo_approve_call = Some demo_approval" by (simp add: demo_approve_call_def)
  with consequential_commands_need_human [OF req r [unfolded call_execute_def]]
  have "\<not> starts_with ''agent:'' (app_approver demo_approval)" by auto
  with req r show ?thesis by blast
qed

section \<open>Rebuilt commands\<close>

text \<open>A command rebuilt from its frozen snapshot passes the gate exactly for a human APPROVE, and
  keeps the type, tenant and key that were approved.\<close>

theorem rebuilt_command_is_the_approved_one:
  assumes "build_executable_command sha f a = Inr c" and "fz_key f \<noteq> []"
  shows "cmd_type c = fz_type f \<and> cmd_tenant c = fz_tenant f \<and> cmd_key c = fz_key f \<and>
    cmd_required c = L3_HUMAN_APPROVAL \<and>
    (assert_execution_authorized c (Some a) agent = Inr () \<longleftrightarrow>
       app_decision a = ''APPROVE'' \<and> app_approver a \<noteq> [] \<and> \<not> starts_with ''agent:'' (app_approver a) \<and>
       (present agent \<longrightarrow> agent \<noteq> Some (app_approver a)))"
  using assms
  by (auto simp: build_executable_command_def make_command_def execution_authorized_iff
      requires_human_approval_def human_approved_def split: if_splits)

definition demo_frozen :: "string \<Rightarrow> (string \<times> json) list \<Rightarrow> frozen_command" where
  "demo_frozen ctype payload = \<lparr>fz_type = ctype, fz_tenant = ''o'', fz_payload = payload, fz_key = ''k'',
     fz_expires = None, fz_required = ''L3'', fz_proposal = ''p'', fz_agent = ''classifier''\<rparr>"

theorem rebuilt_command_is_the_approved_one_witness:
  "\<exists>c. build_executable_command (\<lambda>_. ''h'') (demo_frozen ''approve_expense'' []) demo_approval = Inr c \<and>
     assert_execution_authorized c (Some demo_approval) (Some ''classifier'') = Inr ()"
proof -
  obtain c where c: "build_executable_command (\<lambda>_. ''h'') (demo_frozen ''approve_expense'' []) demo_approval = Inr c"
    by (simp add: build_executable_command_def demo_frozen_def demo_approval_def)
  have "fz_key (demo_frozen ''approve_expense'' []) \<noteq> []" by (simp add: demo_frozen_def)
  from rebuilt_command_is_the_approved_one [OF c this, of "Some ''classifier''"] c
  show ?thesis by (auto simp: demo_approval_def)
qed

text \<open>The approver recorded by a supersede can be one the agent chose: the approver of the human
  decision is only a default for the approver field, so a frozen payload that already names an approver keeps
  it, while an approval of an expense always records the human.\<close>

theorem supersede_keeps_agent_chosen_approver:
  "overlay_identity ''supersede_expense'' ''cfo'' [(''approved_by'', JStr ''agent:x'')] =
     [(''approved_by'', JStr ''agent:x''), (''actor'', JStr ''cfo'')] \<and>
   dget (overlay_identity ''approve_expense'' who payload) ''approved_by'' = Some (JStr who)"
  by (simp add: overlay_identity_def setdefault_def)

section \<open>Transition tables\<close>

text \<open>No commit without review: on every path of legal transitions of the expense workflow, and of
  the correction workflow, from RECEIVED to LEDGER_COMMITTED, REVIEW_PENDING comes up.\<close>

theorem commit_needs_review:
  assumes "legal_path (Some EXPENSE_TO_RECEIPT_TRANSITIONS) (RECEIVED # p) \<or>
      legal_path (Some CORRECTION_TRANSITIONS) (RECEIVED # p)"
    and "LEDGER_COMMITTED \<in> set p"
  shows "REVIEW_PENDING \<in> set p"
  using assms expense_machine.beyond_needs_gate [of p LEDGER_COMMITTED]
    correction_machine.beyond_needs_gate [of p LEDGER_COMMITTED] by auto

theorem commit_needs_review_witness:
  "REVIEW_PENDING \<in> set [NORMALIZED, EVIDENCE_PENDING, WF_CLASSIFICATION_PENDING, REVIEW_PENDING, LEDGER_COMMITTED]"
  by (rule commit_needs_review) (simp_all add: machine_tables)

text \<open>The final states are final: no path of legal transitions leaves DELIVERED or REJECTED in any
  of the three workflows, nor DUPLICATE in the expense workflow, nor BLOCKED in the digest workflow.\<close>

theorem final_states_absorb:
  "(s \<in> {DELIVERED, WF_REJECTED, DUPLICATE} \<and> legal_path (Some EXPENSE_TO_RECEIPT_TRANSITIONS) (s # p) \<longrightarrow>
      set p \<subseteq> {s}) \<and>
   (s \<in> {DELIVERED, WF_REJECTED} \<and> legal_path (Some CORRECTION_TRANSITIONS) (s # p) \<longrightarrow> set p \<subseteq> {s}) \<and>
   (s \<in> {DELIVERED, WF_REJECTED, BLOCKED} \<and> legal_path (Some DIGEST_TRANSITIONS) (s # p) \<longrightarrow> set p \<subseteq> {s})"
  using expense_machine.final_absorbs [of s p] correction_machine.final_absorbs [of s p]
    digest_machine.final_absorbs [of s p] by auto

theorem final_states_absorb_witness: "set [DELIVERED, DELIVERED] \<subseteq> {DELIVERED}"
  using final_states_absorb [of DELIVERED "[DELIVERED, DELIVERED]"] by (simp add: machine_tables)

text \<open>The expense table allows publication without a ledger commit: NEEDS_INFORMATION leads back to
  PUBLICATION_PENDING also for a workflow that never passed review.\<close>

theorem publication_without_commit:
  "legal_path None [RECEIVED, NORMALIZED, EVIDENCE_PENDING, NEEDS_INFORMATION, PUBLICATION_PENDING, PUBLISHED]"
  by (simp add: machine_tables)

end
