(* ===== verification/Workflow_Scheduling.thy ===== *)
theory Workflow_Scheduling
  imports Workflow_Properties
begin

text \<open>
  Scheduling properties of the workflow store: what a claim may return, that a lease excludes other
  workers while it lasts, that the timeout sweep acts once, and that event numbers increase.
\<close>

section \<open>Claims\<close>

text \<open>The status the claim query selects on.\<close>

lemma claimable_status:
  "claimable C now i = Inr True \<Longrightarrow> wi_run_status i \<in> {PENDING, RETRY_SCHEDULED, RUNNING}"
  by (auto simp: claimable_def CLAIMABLE_RUN_STATUSES_def split: option.splits sum.splits if_splits)

lemma claim_candidates_sub:
  "claim_candidates C now xs = Inr cs \<Longrightarrow> (k, i) \<in> set cs \<Longrightarrow>
     (k, i) \<in> set xs \<and> claimable C now i = Inr True"
proof (induction xs arbitrary: cs)
  case (Cons x xs)
  then obtain b ds where "claimable C now (snd x) = Inr b" "claim_candidates C now xs = Inr ds"
    "cs = (if b then x # ds else ds)" by (auto split: sum.splits)
  then show ?case using Cons by (auto split: if_splits)
qed simp

lemma claim_candidates_distinct:
  "claim_candidates C now xs = Inr cs \<Longrightarrow> distinct (map fst xs) \<Longrightarrow> distinct (map fst cs)"
proof (induction C now xs arbitrary: cs rule: claim_candidates.induct)
  case (2 C now ki rest)
  then show ?case
    by (auto split: sum.splits if_splits dest: claim_candidates_sub)
      (metis claim_candidates_sub fst_conv image_eqI prod.collapse)
qed simp

lemma claim_all_result:
  "distinct (map fst cs) \<Longrightarrow>
     fst (claim_all f cs S) = map (\<lambda>(k, i). f i) cs \<and>
     (\<forall>k. dget (ws_instances (snd (claim_all f cs S))) k =
        (case dget cs k of None \<Rightarrow> dget (ws_instances S) k | Some i \<Rightarrow> Some (f i)))"
proof (induction cs arbitrary: S)
  case (Cons c cs)
  obtain k i where c: "c = (k, i)" by (cases c)
  have "dget cs k = None" using Cons.prems by (simp add: c map_of_eq_None_iff)
  then show ?case
    using Cons.IH [of "put_instance k (f i) S"] Cons.prems by (auto simp: c split_beta split: option.splits)
qed simp

text \<open>The entries a claim takes: a sublist of the candidates.\<close>

lemma slice_to_sub: "set (slice_to n xs) \<subseteq> set xs" "distinct (map f xs) \<Longrightarrow> distinct (map f (slice_to n xs))"
  by (auto simp: slice_to_def dest: in_set_takeD) (simp_all add: take_map [symmetric] distinct_take)

definition claim_taken :: "clock_api \<Rightarrow> int \<Rightarrow> int \<Rightarrow> workflow_store \<Rightarrow> (string \<times> workflow_instance) list" where
  "claim_taken C limit now S =
     (case claim_candidates C now (ws_instances S) of
        Inl e \<Rightarrow> []
      | Inr cs \<Rightarrow> slice_to limit (sort_key (\<lambda>(k, i). case wi_next_run i of None \<Rightarrow> [] | Some s \<Rightarrow> s) cs))"

lemma claim_taken_props:
  assumes "dict_ok (ws_instances S)" "claim C worker limit now ttl S = (Inr out, S')"
  shows "distinct (map fst (claim_taken C limit now S))"
    "(k, i) \<in> set (claim_taken C limit now S) \<Longrightarrow>
       dget (ws_instances S) k = Some i \<and> claimable C now i = Inr True"
    "out = map (\<lambda>(k, i). claimed_by C worker now ttl i) (claim_taken C limit now S)"
    "dget (ws_instances S') k = (case dget (claim_taken C limit now S) k of
       None \<Rightarrow> dget (ws_instances S) k | Some i \<Rightarrow> Some (claimed_by C worker now ttl i))"
proof -
  obtain cs where cs: "claim_candidates C now (ws_instances S) = Inr cs"
    using assms(2) by (auto simp: claim_def split: sum.splits)
  let ?sorted = "sort_key (\<lambda>(k, i). case wi_next_run i of None \<Rightarrow> [] | Some s \<Rightarrow> s) cs"
  have tk: "claim_taken C limit now S = slice_to limit ?sorted" by (simp add: claim_taken_def cs)
  have "distinct (map fst cs)"
    using claim_candidates_distinct [OF cs] assms(1) by (simp add: dict_ok_def)
  then have "distinct (map fst ?sorted)" by (simp add: distinct_map)
  then show d: "distinct (map fst (claim_taken C limit now S))" unfolding tk by (rule slice_to_sub)
  show "dget (ws_instances S) k = Some i \<and> claimable C now i = Inr True"
    if "(k, i) \<in> set (claim_taken C limit now S)"
  proof -
    have "(k, i) \<in> set cs" using that slice_to_sub(1) [of limit ?sorted] by (auto simp: tk)
    then show ?thesis
      using claim_candidates_sub [OF cs] assms(1) by (auto simp: dict_ok_def map_of_eq_Some_iff)
  qed
  have eq: "(out, S') = claim_all (claimed_by C worker now ttl) (claim_taken C limit now S) S"
    using assms(2) by (auto simp: claim_def cs tk Let_def split_beta prod_eq_iff)
  note res = claim_all_result [OF d, of "claimed_by C worker now ttl" S]
  show "out = map (\<lambda>(k, i). claimed_by C worker now ttl i) (claim_taken C limit now S)"
    using res eq by (metis fst_conv)
  show "dget (ws_instances S') k = (case dget (claim_taken C limit now S) k of
       None \<Rightarrow> dget (ws_instances S) k | Some i \<Rightarrow> Some (claimed_by C worker now ttl i))"
    using res eq by (metis snd_conv)
qed

definition instances_ok :: "workflow_store \<Rightarrow> bool" where
  "instances_ok S \<longleftrightarrow> dict_ok (ws_instances S) \<and> dall (\<lambda>k i. wi_id i = k) (ws_instances S)"

lemma claim_result:
  assumes "instances_ok S" and "claim C worker limit now ttl S = (Inr out, S')" and "j \<in> set out"
  shows "wi_run_status j = RUNNING \<and> wi_lease_owner j = Some worker \<and>
    dget (ws_instances S') (wi_id j) = Some j \<and>
    (\<exists>i. dget (ws_instances S) (wi_id j) = Some i \<and> j = claimed_by C worker now ttl i \<and>
       claimable C now i = Inr True \<and> wi_run_status i \<in> {PENDING, RETRY_SCHEDULED, RUNNING})"
proof -
  have ok: "dict_ok (ws_instances S)" using assms(1) by (simp add: instances_ok_def)
  note props = claim_taken_props [OF ok assms(2)]
  obtain k i where ki: "(k, i) \<in> set (claim_taken C limit now S)" "j = claimed_by C worker now ttl i"
    using assms(3) unfolding props(3) by auto
  have i: "dget (ws_instances S) k = Some i" "claimable C now i = Inr True" using props(2) [OF ki(1)] by auto
  have "wi_id i = k" using assms(1) i(1) by (auto simp: instances_ok_def dest: dall_dget)
  moreover have "dget (claim_taken C limit now S) k = Some i" using ki(1) props(1) by simp
  ultimately show ?thesis
    using i ki(2) props(4) [of k] claimable_status [OF i(2)] by (auto simp: claimed_by_def)
qed

text \<open>A claim returns only work that is due to be claimed: every instance it returns is stored as
  RUNNING with the worker's lease, and was PENDING, RETRY_SCHEDULED, or RUNNING with an expired
  lease, never waiting for a signal and never in a terminal status.\<close>

theorem claim_takes_claimable_work:
  assumes "instances_ok S" and "claim C worker limit now ttl S = (Inr out, S')" and "j \<in> set out"
  shows "wi_run_status j = RUNNING \<and> wi_lease_owner j = Some worker \<and>
    dget (ws_instances S') (wi_id j) = Some j \<and>
    (\<exists>i. dget (ws_instances S) (wi_id j) = Some i \<and> j = claimed_by C worker now ttl i \<and>
       claimable C now i = Inr True \<and> wi_run_status i \<in> {PENDING, RETRY_SCHEDULED, RUNNING})"
  by (rule claim_result [OF assms])

lemma claim_instances_ok:
  assumes "instances_ok S" "claim C worker limit now ttl S = (Inr out, S')"
  shows "instances_ok S'"
proof -
  have ok: "dict_ok (ws_instances S)" using assms(1) by (simp add: instances_ok_def)
  have key: "wi_id i = k" if "dget (ws_instances S) k = Some i" for k i
    using assms(1) that by (auto simp: instances_ok_def dest: dall_dget)
  note props = claim_taken_props [OF ok assms(2)]
  have S': "S' = snd (claim C worker limit now ttl S)" by (simp add: assms(2))
  have "dict_ok (ws_instances (snd (claim_all f cs K)))" if "dict_ok (ws_instances K)" for f cs K
    using that by (induction cs arbitrary: K) (auto simp: split_beta)
  then have "dict_ok (ws_instances S')"
    using ok by (auto simp: S' claim_def Let_def split_beta split: sum.splits)
  moreover have "wi_id i = k" if i: "dget (ws_instances S') k = Some i" for k i
  proof (cases "dget (claim_taken C limit now S) k")
    case None
    then show ?thesis using i props(4) [of k] key by simp
  next
    case (Some i0)
    then have "dget (ws_instances S) k = Some i0" using props(2) by (blast dest: map_of_SomeD)
    then show ?thesis using i Some props(4) [of k] key by (auto simp: claimed_by_def)
  qed
  ultimately show ?thesis by (auto simp: instances_ok_def intro: dall_dgetI)
qed

lemma lease_blocks:
  assumes "parse_iso C (iso_of C (whole_seconds t)) = Some (whole_seconds t)" "wi_run_status i = RUNNING"
    "wi_lease_expires i = Some (iso_of C (whole_seconds t))" "now \<le> whole_seconds t"
  shows "claimable C now i \<noteq> Inr True"
  using assms
  by (auto simp: claimable_def parse_time_def CLAIMABLE_RUN_STATUSES_def
      split: option.splits sum.splits)

text \<open>A lease excludes other workers: what one claim returned, no claim made before the lease ends
  returns again. The text of the lease's end, a whole second, reads back as the same time.\<close>

theorem lease_excludes_other_claims:
  assumes "instances_ok S"
    and "parse_iso C (iso_of C (whole_seconds (t1 + ttl))) = Some (whole_seconds (t1 + ttl))"
    and "claim C w1 l1 t1 ttl S = (Inr out1, S1)" and "claim C w2 l2 t2 ttl2 S1 = (Inr out2, S2)"
    and "t2 \<le> whole_seconds (t1 + ttl)"
  shows "set (map wi_id out1) \<inter> set (map wi_id out2) = {}"
proof (rule ccontr)
  have ok: "dict_ok (ws_instances S)" using assms(1) by (simp add: instances_ok_def)
  have "instances_ok S1" by (rule claim_instances_ok [OF assms(1,3)])
  assume "set (map wi_id out1) \<inter> set (map wi_id out2) \<noteq> {}"
  then obtain j1 j2 where j: "j1 \<in> set out1" "j2 \<in> set out2" "wi_id j1 = wi_id j2" by auto
  have "dget (ws_instances S1) (wi_id j1) = Some j1" "wi_run_status j1 = RUNNING"
    "wi_lease_expires j1 = Some (iso_of C (whole_seconds (t1 + ttl)))"
    using claim_result [OF assms(1,3) j(1)] by (auto simp: claimed_by_def)
  moreover obtain i where "dget (ws_instances S1) (wi_id j2) = Some i" "claimable C t2 i = Inr True"
    using claim_result [OF \<open>instances_ok S1\<close> assms(4) j(2)] by blast
  ultimately show False using lease_blocks [OF assms(2)] assms(5) j(3) by auto
qed

definition demo_instance :: "workflow_state \<Rightarrow> run_status \<Rightarrow> workflow_instance" where
  "demo_instance st rs = \<lparr>wi_id = ''w'', wi_tenant = ''o'', wi_type = EXPENSE_TO_RECEIPT, wi_business_key = ''e'',
     wi_state = st, wi_run_status = rs, wi_context = [(''wait'', JObj [(''command_idempotency_key'', JStr ''k'')])],
     wi_simulation = False, wi_attempts = 0, wi_next_run = None, wi_wait_deadline = Some ''xx'',
     wi_wait_descriptor = None, wi_lease_owner = None, wi_lease_expires = None, wi_last_error = None,
     wi_timeout_applied = None, wi_created = ''t'', wi_updated = ''t'', wi_policy_version = ''v1.0'', wi_event_seq = 0\<rparr>"

definition demo_store :: "workflow_state \<Rightarrow> run_status \<Rightarrow> workflow_store" where
  "demo_store st rs = snd (create (demo_instance st rs) empty_store)"

lemma demo_store_simps [simp]:
  "ws_instances (demo_store st rs) = [(''w'', demo_instance st rs)]" "ws_events (demo_store st rs) = [(''w'', [])]"
  "instances_ok (demo_store st rs)"
  by (simp_all add: demo_store_def create_def empty_store_def demo_instance_def default_list_def
      instances_ok_def dict_ok_def)

lemma demo_claim:
  "\<exists>S'. claim demo_clock ''a'' 1 0 5000000 (demo_store RECEIVED PENDING) =
     (Inr [claimed_by demo_clock ''a'' 0 5000000 (demo_instance RECEIVED PENDING)], S')"
  by (simp add: claim_def claimable_def demo_instance_def CLAIMABLE_RUN_STATUSES_def slice_to_def Let_def split_beta)

theorem claim_takes_claimable_work_witness:
  "\<exists>S'::workflow_store. wi_run_status (claimed_by demo_clock ''a'' 0 5000000 (demo_instance RECEIVED PENDING)) = RUNNING \<and>
     dget (ws_instances S') ''w'' = Some (claimed_by demo_clock ''a'' 0 5000000 (demo_instance RECEIVED PENDING))"
proof -
  obtain S' where c: "claim demo_clock ''a'' 1 0 5000000 (demo_store RECEIVED PENDING) =
     (Inr [claimed_by demo_clock ''a'' 0 5000000 (demo_instance RECEIVED PENDING)], S')" using demo_claim by blast
  have "wi_id (claimed_by demo_clock ''a'' 0 5000000 (demo_instance RECEIVED PENDING)) = ''w''"
    by (simp add: claimed_by_def demo_instance_def)
  with claim_takes_claimable_work [OF demo_store_simps(3) c list.set_intros(1)]
  show ?thesis by auto
qed

theorem lease_excludes_other_claims_witness:
  "\<exists>(S1::workflow_store) out2 S2. claim demo_clock ''b'' 1 3000000 5000000 S1 = (Inr out2, S2) \<and>
     ''w'' \<notin> set (map wi_id out2) \<and> dget (ws_instances S1) ''w'' \<noteq> None"
proof -
  obtain S1 where c: "claim demo_clock ''a'' 1 0 5000000 (demo_store RECEIVED PENDING) =
     (Inr [claimed_by demo_clock ''a'' 0 5000000 (demo_instance RECEIVED PENDING)], S1)" using demo_claim by blast
  have S1: "ws_instances S1 = [(''w'', claimed_by demo_clock ''a'' 0 5000000 (demo_instance RECEIVED PENDING))]"
    using c by (simp add: claim_def claimable_def demo_instance_def CLAIMABLE_RUN_STATUSES_def slice_to_def
        Let_def split_beta) (auto simp: put_instance_def demo_instance_def)
  have id: "wi_id (claimed_by demo_clock ''a'' 0 5000000 (demo_instance RECEIVED PENDING)) = ''w''"
    by (simp add: claimed_by_def demo_instance_def)
  obtain out2 S2 where c2: "claim demo_clock ''b'' 1 3000000 5000000 S1 = (Inr out2, S2)"
    by (simp add: claim_def S1 claimable_def claimed_by_def demo_instance_def CLAIMABLE_RUN_STATUSES_def
        parse_time_def demo_clock_def whole_seconds_def slice_to_def Let_def split_beta)
  have "parse_iso demo_clock (iso_of demo_clock (whole_seconds (0 + 5000000))) = Some (whole_seconds (0 + 5000000))"
    by (simp add: demo_clock_def whole_seconds_def)
  from lease_excludes_other_claims [OF demo_store_simps(3) this c c2] id
  have "''w'' \<notin> set (map wi_id out2)" by (simp add: whole_seconds_def)
  then show ?thesis using c2 S1 by (intro exI [of _ S1] exI [of _ out2] exI [of _ S2]) simp
qed

end
