(* ===== verification/Workspace.thy ===== *)
theory Workspace
  imports Ledger_Invariants
begin

text \<open>
  The state of one organization, \<^verbatim>\<open>TenantWorkspace\<close> of \<^verbatim>\<open>domain/tenant.py\<close>: the ledger with the stores of
  the impact and the notification service. \<open>'x\<close> is the type of a delivery adapter. Identifiers and
  times the services draw are counted in the ledger, which draws from the same sources.
\<close>

lemma dget_dsetE:
  assumes "dget (dset k v d) j = Some w"
  obtains (same) "j = k" "w = v" | (other) "j \<noteq> k" "dget d j = Some w"
  using assms by (cases "j = k") simp_all

record 'x tenant_workspace =
  tw_ledger :: ledger
  tw_programs :: "(string, program) dict"
  tw_assets :: "(string, funded_asset) dict"
  tw_impact_events :: "(string, impact_event) dict"
  tw_impact_receipts :: "(string, impact_receipt) dict"
  tw_consents :: "(string \<times> string, consent_record) dict"
  tw_preferences :: "(string \<times> string, notification_preference) dict"
  tw_intents :: "(string, notification_intent) dict"
  tw_by_dedup :: "(string, notification_intent) dict"
  tw_deliveries :: "(string, notification_delivery) dict"
  tw_adapters :: "(notification_channel, 'x) dict option"

definition empty_workspace :: "ledger \<Rightarrow> 'x tenant_workspace" where
  "empty_workspace L =
     \<lparr>tw_ledger = L, tw_programs = [], tw_assets = [], tw_impact_events = [], tw_impact_receipts = [],
      tw_consents = [], tw_preferences = [], tw_intents = [], tw_by_dedup = [], tw_deliveries = [], tw_adapters = None\<rparr>"

definition make_workspace :: "organization \<Rightarrow> ledger option \<Rightarrow> 'x tenant_workspace outcome" where
  "make_workspace org given =
     (let L = (case given of None \<Rightarrow> empty_ledger org | Some L \<Rightarrow> L) in
      if org_id (organization L) \<noteq> org_id org
      then Inl (TenantIsolationError ''ledger organization_id mismatch'')
      else Inr (empty_workspace L))"

definition configure_notification_adapters ::
  "(notification_channel, 'x) dict \<Rightarrow> 'x tenant_workspace \<Rightarrow> 'x tenant_workspace" where
  "configure_notification_adapters ads W = W\<lparr>tw_adapters := Some ads\<rparr>"

text \<open>\<^verbatim>\<open>_new_id(prefix)\<close> and \<^verbatim>\<open>given or _now_iso()\<close> in a service of the workspace.\<close>

definition tw_new_id :: "env \<Rightarrow> string \<Rightarrow> 'x tenant_workspace \<Rightarrow> string \<times> 'x tenant_workspace" where
  "tw_new_id E prefix W = (let (i, L) = new_id E prefix (tw_ledger W) in (i, W\<lparr>tw_ledger := L\<rparr>))"

definition tw_time_or_now :: "env \<Rightarrow> string option \<Rightarrow> 'x tenant_workspace \<Rightarrow> string \<times> 'x tenant_workspace" where
  "tw_time_or_now E given W = (let (t, L) = time_or_now E given (tw_ledger W) in (t, W\<lparr>tw_ledger := L\<rparr>))"

text \<open>The organization the workspace serves.\<close>

definition tw_org :: "'x tenant_workspace \<Rightarrow> organization" where
  "tw_org W = organization (tw_ledger W)"

text \<open>A service changes nothing of the ledger but the counts of its draws.\<close>

definition drew :: "nat \<Rightarrow> nat \<Rightarrow> ledger \<Rightarrow> ledger" where
  "drew u c L = L\<lparr>uuid_draws := uuid_draws L + u, clock_reads := clock_reads L + c\<rparr>"

definition only_draws :: "ledger \<Rightarrow> ledger \<Rightarrow> bool" where
  "only_draws L L' \<longleftrightarrow> (\<exists>u c. L' = drew u c L)"

lemma only_draws_refl [simp]: "only_draws L L"
  unfolding only_draws_def by (rule exI [of _ 0], rule exI [of _ 0]) (simp add: drew_def)

lemma drew_drew [simp]: "drew u' c' (drew u c L) = drew (u + u') (c + c') L"
  by (simp add: drew_def)

lemma only_draws_trans: "only_draws L L1 \<Longrightarrow> only_draws L1 L2 \<Longrightarrow> only_draws L L2"
  unfolding only_draws_def using drew_drew by metis

lemma only_draws_stores:
  assumes "only_draws L L'"
  shows "organization L' = organization L" "donors L' = donors L" "donations L' = donations L"
    "allocations L' = allocations L" "expenses L' = expenses L" "attributions L' = attributions L"
    "receipts L' = receipts L" "audit_log L' = audit_log L" "uuid_draws L \<le> uuid_draws L'"
  using assms by (auto simp: only_draws_def drew_def)

lemma only_draws_effect: "only_draws L L' \<Longrightarrow> effect fr L L'"
  unfolding only_draws_def drew_def using E_quiet [where x = "[]" and fr = fr and L = L] by auto

lemma tw_new_id_simps [simp]:
  "fst (tw_new_id E p W) = fresh_name E p (uuid_draws (tw_ledger W))"
  "snd (tw_new_id E p W) = W\<lparr>tw_ledger := drew 1 0 (tw_ledger W)\<rparr>"
  by (simp_all add: tw_new_id_def new_id_def drew_def)

lemma tw_new_id_eq:
  "tw_new_id E p W = (fresh_name E p (uuid_draws (tw_ledger W)), W\<lparr>tw_ledger := drew 1 0 (tw_ledger W)\<rparr>)"
  by (simp add: prod_eq_iff)

lemma tw_time_or_now_snd:
  "\<exists>c. snd (tw_time_or_now E g W) = W\<lparr>tw_ledger := drew 0 c (tw_ledger W)\<rparr>"
  by (cases "present g") (auto simp: tw_time_or_now_def time_or_now_def read_clock_def drew_def Let_def
      intro: exI [of _ 0] exI [of _ 1])

lemma drew_simps [simp]:
  "organization (drew u c L) = organization L" "donors (drew u c L) = donors L"
  "allocations (drew u c L) = allocations L" "expenses (drew u c L) = expenses L"
  "attributions (drew u c L) = attributions L" "receipts (drew u c L) = receipts L"
  "uuid_draws (drew u c L) = uuid_draws L + u"
  by (simp_all add: drew_def)

lemma only_draws_drew [simp]: "only_draws L (drew u c L)"
  by (auto simp: only_draws_def)

text \<open>Identifiers drawn so far, under a prefix.\<close>

definition drawn :: "env \<Rightarrow> string \<Rightarrow> nat \<Rightarrow> string set" where
  "drawn E prefix n = fresh_name E prefix ` {..<n}"

lemma drawn_mono: "m \<le> n \<Longrightarrow> k \<in> drawn E p m \<Longrightarrow> k \<in> drawn E p n"
  by (auto simp: drawn_def)

lemma drawn_SucI [simp]: "k \<in> drawn E p n \<Longrightarrow> k \<in> drawn E p (Suc n)"
  by (rule drawn_mono [of n]) simp

lemma drawn_next [simp]: "fresh_name E p m \<in> drawn E p (Suc m)"
  by (simp add: drawn_def)

lemma not_drawn_yet: "inj (uuid4_hex E) \<Longrightarrow> n \<le> m \<Longrightarrow> fresh_name E p m \<notin> drawn E p n"
  by (auto simp: drawn_def fresh_name_def dest: injD)

lemma tw_time_or_now_stores [simp]:
  "tw_programs (snd (tw_time_or_now E g W)) = tw_programs W" "tw_assets (snd (tw_time_or_now E g W)) = tw_assets W"
  "tw_impact_events (snd (tw_time_or_now E g W)) = tw_impact_events W"
  "tw_impact_receipts (snd (tw_time_or_now E g W)) = tw_impact_receipts W"
  "tw_intents (snd (tw_time_or_now E g W)) = tw_intents W" "tw_by_dedup (snd (tw_time_or_now E g W)) = tw_by_dedup W"
  "tw_deliveries (snd (tw_time_or_now E g W)) = tw_deliveries W"
  by (simp_all add: tw_time_or_now_def Let_def split_beta)

lemma tw_time_or_now_ledger [simp]: "only_draws (tw_ledger W) (tw_ledger (snd (tw_time_or_now E g W)))"
  using tw_time_or_now_snd [of E g W] by auto

end
