(* ===== verification/Impact.thy ===== *)
theory Impact
  imports Workspace
begin

text \<open>
  The impact service of \<^verbatim>\<open>domain/impact.py\<close>: programs, funded assets, impact events and the receipts
  that tell a donor what the spending led to.
\<close>

section \<open>Programs and assets\<close>

definition register_program ::
  "program \<Rightarrow> 'x tenant_workspace \<Rightarrow> program outcome \<times> 'x tenant_workspace" where
  "register_program p W =
     (if prog_org p \<noteq> org_id (tw_org W) then (Inl (StateError ''program organization_id mismatch''), W)
      else (Inr p, W\<lparr>tw_programs := dset (prog_id p) p (tw_programs W)\<rparr>))"

definition register_funded_asset ::
  "funded_asset \<Rightarrow> 'x tenant_workspace \<Rightarrow> funded_asset outcome \<times> 'x tenant_workspace" where
  "register_funded_asset a W =
     (if asset_org a \<noteq> org_id (tw_org W) then (Inl (StateError ''asset organization_id mismatch''), W)
      else case dget (expenses (tw_ledger W)) (asset_expense a) of
        None \<Rightarrow> (Inl (NotFoundError (''expense not found: '' @ asset_expense a)), W)
      | Some e \<Rightarrow>
          if \<not> verified_state (exp_state e)
          then (Inl (StateError ''funded asset requires APPROVED or RECONCILED expense''), W)
          else if \<not> dhas (allocations (tw_ledger W)) (asset_allocation a)
          then (Inl (NotFoundError (''allocation not found: '' @ asset_allocation a)), W)
          else (Inr a, W\<lparr>tw_assets := dset (asset_id a) a (tw_assets W)\<rparr>))"

definition deploy_asset ::
  "string \<Rightarrow> 'x tenant_workspace \<Rightarrow> funded_asset outcome \<times> 'x tenant_workspace" where
  "deploy_asset i W =
     (case dget (tw_assets W) i of
        None \<Rightarrow> (Inl (NotFoundError (''asset not found: '' @ i)), W)
      | Some a \<Rightarrow>
          let updated = a\<lparr>asset_lifecycle := DEPLOYED\<rparr>
          in (Inr updated, W\<lparr>tw_assets := dset i updated (tw_assets W)\<rparr>))"

section \<open>Impact events\<close>

definition submit_impact_event ::
  "impact_event \<Rightarrow> 'x tenant_workspace \<Rightarrow> impact_event outcome \<times> 'x tenant_workspace" where
  "submit_impact_event ev W =
     (if ie_org ev \<noteq> org_id (tw_org W) then (Inl (StateError ''impact event organization_id mismatch''), W)
      else if \<not> dhas (tw_programs W) (ie_program ev)
      then (Inl (NotFoundError (''program not found: '' @ ie_program ev)), W)
      else if ie_state ev \<notin> {IE_DRAFT, IE_SUBMITTED}
      then (Inl (StateError ''submit only accepts DRAFT or SUBMITTED''), W)
      else case find (\<lambda>i. \<not> dhas (tw_assets W) i) (ie_assets ev) of
        Some i \<Rightarrow> (Inl (NotFoundError (''funded asset not found: '' @ i)), W)
      | None \<Rightarrow>
      case find (\<lambda>i. \<not> dhas (expenses (tw_ledger W)) i) (ie_expenses ev) of
        Some i \<Rightarrow> (Inl (NotFoundError (''expense not found: '' @ i)), W)
      | None \<Rightarrow>
          let submitted = ev\<lparr>ie_state := IE_SUBMITTED\<rparr>
          in (Inr submitted, W\<lparr>tw_impact_events := dset (ie_id submitted) submitted (tw_impact_events W)\<rparr>))"

definition verify_impact_event ::
  "env \<Rightarrow> string \<Rightarrow> string \<Rightarrow> 'x tenant_workspace \<Rightarrow> impact_event outcome \<times> 'x tenant_workspace" where
  "verify_impact_event E i by W =
     (case dget (tw_impact_events W) i of
        None \<Rightarrow> (Inl (NotFoundError (''impact event not found: '' @ i)), W)
      | Some ev \<Rightarrow>
          if ie_state ev \<notin> {IE_SUBMITTED, IE_DRAFT}
          then (Inl (StateError (''cannot verify impact event in state '' @ impact_state_value (ie_state ev))), W)
          else if by = [] then (Inl (StateError ''verified_by is required''), W)
          else
            let (t, W1) = tw_time_or_now E None W;
                verified = ev\<lparr>ie_state := IE_VERIFIED, ie_verified_by := Some by, ie_verified_at := Some t\<rparr>
            in (Inr verified, W1\<lparr>tw_impact_events := dset i verified (tw_impact_events W1)\<rparr>))"

section \<open>Impact receipts\<close>

definition find_live_impact ::
  "'x tenant_workspace \<Rightarrow> string \<Rightarrow> string \<Rightarrow> string \<Rightarrow> impact_receipt option" where
  "find_live_impact W donor event alloc =
     find (\<lambda>r. ir_donor r = donor \<and> ir_event r = event \<and> ir_allocation r = alloc) (dvalues (tw_impact_receipts W))"

text \<open>The expenses of the linked assets; an unknown asset raises.\<close>

fun asset_expenses :: "'x tenant_workspace \<Rightarrow> string list \<Rightarrow> string list outcome" where
  "asset_expenses W [] = Inr []"
| "asset_expenses W (i # rest) =
     (case dget (tw_assets W) i of None \<Rightarrow> Inl (KeyError i) | Some a \<Rightarrow>
      case asset_expenses W rest of Inl e \<Rightarrow> Inl e | Inr es \<Rightarrow> Inr (asset_expense a # es))"

definition impact_body :: "organization \<Rightarrow> donor_expense_attribution \<Rightarrow> impact_event \<Rightarrow> string \<Rightarrow> program \<Rightarrow> string \<Rightarrow> json" where
  "impact_body org t ev event_id p created = JObj
     [(''type'', JStr ''IMPACT''), (''organization_id'', JStr (org_id org)), (''donor_id'', JStr (at_donor t)),
      (''donation_id'', JStr (at_donation t)), (''allocation_id'', JStr (at_allocation t)),
      (''impact_event_id'', JStr event_id), (''program_id'', JStr (prog_id p)),
      (''event_type'', JStr (ie_event_type ev)), (''event_date'', JStr (ie_event_date ev)),
      (''participants'', JInt (ie_participants ev)), (''created_at'', JStr created)]"

definition make_impact_receipt ::
  "env \<Rightarrow> organization \<Rightarrow> string \<Rightarrow> donor_expense_attribution \<Rightarrow> allocation \<Rightarrow> impact_event \<Rightarrow> string \<Rightarrow> program \<Rightarrow>
     string list \<Rightarrow> string \<Rightarrow> string \<Rightarrow> impact_receipt" where
  "make_impact_receipt E org rid t a ev event_id p linked actor created =
     \<lparr>ir_id = rid, ir_type = ''IMPACT'', ir_org = org_id org, ir_org_name = org_name org,
      ir_donor = at_donor t, ir_donation = at_donation t, ir_allocation = at_allocation t,
      ir_allocation_name = alloc_name a, ir_event = event_id, ir_program = prog_id p,
      ir_program_name = prog_name p, ir_event_type = ie_event_type ev, ir_event_date = ie_event_date ev,
      ir_participants = ie_participants ev, ir_evidence_state = impact_state_value (ie_state ev),
      ir_linked_expenses = linked, ir_method = method_value (at_method t),
      ir_policy_version = org_policy_version org,
      ir_hash = stable_hash (sha256_hex E) (impact_body org t ev event_id p created),
      ir_created_at = created, ir_description = ie_description ev,
      ir_provenance = [(''actor'', JStr actor), (''policy_version'', JStr (org_policy_version org))]\<rparr>"

text \<open>The loop over the attributions: \<open>mk\<close> builds the receipt from its identifier.\<close>

fun impact_loop ::
  "env \<Rightarrow> (string \<Rightarrow> donor_expense_attribution \<Rightarrow> allocation \<Rightarrow> impact_receipt) \<Rightarrow> string \<Rightarrow> string list \<Rightarrow>
     (string \<times> string) list \<Rightarrow> donor_expense_attribution list \<Rightarrow> 'x tenant_workspace \<Rightarrow>
     impact_receipt list outcome \<times> 'x tenant_workspace" where
  "impact_loop E mk event_id linked seen [] W = (Inr [], W)"
| "impact_loop E mk event_id linked seen (t # rest) W =
     (if at_expense t \<notin> set linked \<or> \<not> expense_verified (tw_ledger W) (at_expense t) \<or>
         (at_donor t, at_allocation t) \<in> set seen
      then impact_loop E mk event_id linked seen rest W
      else case dget (allocations (tw_ledger W)) (at_allocation t) of
        None \<Rightarrow> (Inl (KeyError (at_allocation t)), W)
      | Some a \<Rightarrow>
          let (rid, W1) = tw_new_id E ''imp'' W in
          case find_live_impact W1 (at_donor t) event_id (at_allocation t) of
            Some r \<Rightarrow> (Inl (StateError (''IMPACT receipt already published for donor/event/allocation '' @
                ''(receipt_id='' @ ir_id r @ '')'')), W1)
          | None \<Rightarrow>
              let r = mk rid t a;
                  W2 = W1\<lparr>tw_impact_receipts := dset rid r (tw_impact_receipts W1)\<rparr>
              in and_then (impact_loop E mk event_id linked ((at_donor t, at_allocation t) # seen) rest W2)
                   (\<lambda>rs W3. (Inr (r # rs), W3)))"

definition publish_impact_receipts ::
  "env \<Rightarrow> string \<Rightarrow> string \<Rightarrow> string option \<Rightarrow> 'x tenant_workspace \<Rightarrow>
     impact_receipt list outcome \<times> 'x tenant_workspace" where
  "publish_impact_receipts E event_id actor created_at W =
     (case dget (tw_impact_events W) event_id of
        None \<Rightarrow> (Inl (NotFoundError (''impact event not found: '' @ event_id)), W)
      | Some ev \<Rightarrow>
          if ie_state ev \<noteq> IE_VERIFIED
          then (Inl (StateError (''IMPACT receipt requires VERIFIED impact event; got '' @
                 impact_state_value (ie_state ev))), W)
          else case dget (tw_programs W) (ie_program ev) of
            None \<Rightarrow> (Inl (KeyError (ie_program ev)), W)
          | Some p \<Rightarrow>
              let (created, W1) = tw_time_or_now E created_at W in
              case asset_expenses W1 (ie_assets ev) of
                Inl e \<Rightarrow> (Inl e, W1)
              | Inr es \<Rightarrow>
                  let linked = sort (remdups (ie_expenses ev @ es)) in
                  if linked = [] then (Inl (StateError ''impact event has no linked expenses or funded assets''), W1)
                  else impact_loop E
                    (\<lambda>rid t a. make_impact_receipt E (tw_org W) rid t a ev event_id p linked actor created)
                    event_id linked [] (dvalues (attributions (tw_ledger W1))) W1)"

section \<open>What the loop does\<close>

text \<open>At most one receipt per donor, event and fund, each under an identifier drawn for it.\<close>

definition impact_ok :: "env \<Rightarrow> 'x tenant_workspace \<Rightarrow> bool" where
  "impact_ok E W \<longleftrightarrow> dict_ok (tw_impact_receipts W) \<and>
     dall (\<lambda>k r. ir_id r = k \<and> k \<in> drawn E ''imp'' (uuid_draws (tw_ledger W))) (tw_impact_receipts W) \<and>
     (\<forall>k r j s. dget (tw_impact_receipts W) k = Some r \<longrightarrow> dget (tw_impact_receipts W) j = Some s \<longrightarrow>
        ir_donor r = ir_donor s \<longrightarrow> ir_event r = ir_event s \<longrightarrow> ir_allocation r = ir_allocation s \<longrightarrow> k = j)"

lemma impact_okD:
  assumes "impact_ok E W"
  shows "dict_ok (tw_impact_receipts W)"
    "dget (tw_impact_receipts W) k = Some r \<Longrightarrow> ir_id r = k \<and> k \<in> drawn E ''imp'' (uuid_draws (tw_ledger W))"
    "dget (tw_impact_receipts W) k = Some r \<Longrightarrow> dget (tw_impact_receipts W) j = Some s \<Longrightarrow>
       ir_donor r = ir_donor s \<Longrightarrow> ir_event r = ir_event s \<Longrightarrow> ir_allocation r = ir_allocation s \<Longrightarrow> k = j"
  using assms by (auto simp: impact_ok_def dest: dall_dget)

lemma impact_ok_frame:
  assumes "impact_ok E W" "tw_impact_receipts W' = tw_impact_receipts W"
    "uuid_draws (tw_ledger W) \<le> uuid_draws (tw_ledger W')"
  shows "impact_ok E W'"
  using assms by (auto simp: impact_ok_def elim!: dall_mono intro: drawn_mono)

lemma find_live_impact_None:
  "find_live_impact W d e a = None \<longleftrightarrow>
     (\<forall>r \<in> set (dvalues (tw_impact_receipts W)). \<not> (ir_donor r = d \<and> ir_event r = e \<and> ir_allocation r = a))"
  by (auto simp: find_live_impact_def find_None_iff)

text \<open>Storing a new receipt: its identifier is new and nobody holds one for the same donor, event and fund.\<close>

lemma impact_ok_add:
  assumes "inj (uuid4_hex E)" "impact_ok E W" "find_live_impact W (ir_donor r) (ir_event r) (ir_allocation r) = None"
    "ir_id r = fresh_name E ''imp'' (uuid_draws (tw_ledger W))"
  shows "dget (tw_impact_receipts W) (ir_id r) = None"
    and "impact_ok E (W\<lparr>tw_ledger := drew 1 c (tw_ledger W),
           tw_impact_receipts := dset (ir_id r) r (tw_impact_receipts W)\<rparr>)"
proof -
  show new: "dget (tw_impact_receipts W) (ir_id r) = None"
  proof (cases "dget (tw_impact_receipts W) (ir_id r)")
    case (Some s)
    then have "fresh_name E ''imp'' (uuid_draws (tw_ledger W)) \<in> drawn E ''imp'' (uuid_draws (tw_ledger W))"
      using impact_okD(2) [OF assms(2)] assms(4) by auto
    then show ?thesis using not_drawn_yet [OF assms(1)] by blast
  qed
  have clash: False if "dget (tw_impact_receipts W) k = Some s" "ir_donor s = ir_donor r"
      "ir_event s = ir_event r" "ir_allocation s = ir_allocation r" for k s
    using assms(3) that dget_in_dvalues [OF that(1)] by (auto simp: find_live_impact_None)
  have "dall (\<lambda>k r. ir_id r = k \<and> k \<in> drawn E ''imp'' (Suc (uuid_draws (tw_ledger W)))) (tw_impact_receipts W)"
    using assms(2) by (auto simp: impact_ok_def elim!: dall_mono)
  then have "dall (\<lambda>k r. ir_id r = k \<and> k \<in> drawn E ''imp'' (Suc (uuid_draws (tw_ledger W))))
      (dset (ir_id r) r (tw_impact_receipts W))"
    using assms(4) by (intro dall_dset) auto
  moreover have "k = j" if "dget (dset (ir_id r) r (tw_impact_receipts W)) k = Some x"
      "dget (dset (ir_id r) r (tw_impact_receipts W)) j = Some y" "ir_donor x = ir_donor y"
      "ir_event x = ir_event y" "ir_allocation x = ir_allocation y" for k j x y
  proof -
    have x: "k = ir_id r \<and> x = r \<or> dget (tw_impact_receipts W) k = Some x" using that(1) by (simp split: if_splits)
    have y: "j = ir_id r \<and> y = r \<or> dget (tw_impact_receipts W) j = Some y" using that(2) by (simp split: if_splits)
    show ?thesis
      using x y
    proof (elim disjE conjE)
      assume "dget (tw_impact_receipts W) k = Some x" "dget (tw_impact_receipts W) j = Some y"
      then show ?thesis using that(3-5) by (rule impact_okD(3) [OF assms(2)])
    qed (use that(3-5) clash in metis)+
  qed
  ultimately show "impact_ok E (W\<lparr>tw_ledger := drew 1 c (tw_ledger W),
           tw_impact_receipts := dset (ir_id r) r (tw_impact_receipts W)\<rparr>)"
    using impact_okD(1) [OF assms(2)] by (simp add: impact_ok_def del: dget_dset_app)
qed

text \<open>The attributions a publication is for.\<close>

definition impact_eligible :: "string list \<Rightarrow> ledger \<Rightarrow> donor_expense_attribution \<Rightarrow> bool" where
  "impact_eligible linked L t \<longleftrightarrow> at_expense t \<in> set linked \<and> expense_verified L (at_expense t)"

lemma impact_eligible_drew [simp]: "impact_eligible linked (drew u c L) t = impact_eligible linked L t"
  by (simp add: impact_eligible_def expense_verified_def)

definition builds_impact ::
  "(string \<Rightarrow> donor_expense_attribution \<Rightarrow> allocation \<Rightarrow> impact_receipt) \<Rightarrow> string \<Rightarrow> bool" where
  "builds_impact mk event_id \<longleftrightarrow> (\<forall>rid t a. ir_id (mk rid t a) = rid \<and> ir_donor (mk rid t a) = at_donor t \<and>
     ir_event (mk rid t a) = event_id \<and> ir_allocation (mk rid t a) = at_allocation t)"

text \<open>The loop writes impact receipts and nothing else, in success and in failure.\<close>

lemma impact_loop_frame:
  "\<exists>u R. snd (impact_loop E mk event_id linked seen ts W) =
     W\<lparr>tw_ledger := drew u 0 (tw_ledger W), tw_impact_receipts := R\<rparr>"
proof (induction ts arbitrary: seen W)
  case Nil
  show ?case by (rule exI [of _ 0], rule exI [of _ "tw_impact_receipts W"]) (simp add: drew_def)
next
  case (Cons t ts)
  have id: "\<exists>u R. W = W\<lparr>tw_ledger := drew u 0 (tw_ledger W), tw_impact_receipts := R\<rparr>"
    by (rule exI [of _ 0], rule exI [of _ "tw_impact_receipts W"]) (simp add: drew_def)
  have one: "\<exists>u R. W\<lparr>tw_ledger := drew 1 0 (tw_ledger W)\<rparr> =
      W\<lparr>tw_ledger := drew u 0 (tw_ledger W), tw_impact_receipts := R\<rparr>"
    by (rule exI [of _ 1], rule exI [of _ "tw_impact_receipts W"]) simp
  have more: "\<exists>u R. snd (impact_loop E mk event_id linked seen' ts
       (W\<lparr>tw_ledger := drew 1 0 (tw_ledger W), tw_impact_receipts := R0\<rparr>)) =
     W\<lparr>tw_ledger := drew u 0 (tw_ledger W), tw_impact_receipts := R\<rparr>" for seen' R0
    using Cons.IH [of seen' "W\<lparr>tw_ledger := drew 1 0 (tw_ledger W), tw_impact_receipts := R0\<rparr>"] by auto
  show ?case
    using Cons.IH [of seen W] id one more
    by (simp add: Let_def split_beta snd_and_then_return split: option.splits)
qed

text \<open>One turn of the loop: the attribution is passed over, or raises, or a receipt is added and the loop goes on.\<close>

definition impact_added ::
  "env \<Rightarrow> (string \<Rightarrow> donor_expense_attribution \<Rightarrow> allocation \<Rightarrow> impact_receipt) \<Rightarrow> donor_expense_attribution \<Rightarrow>
     allocation \<Rightarrow> 'x tenant_workspace \<Rightarrow> impact_receipt" where
  "impact_added E mk t a W = mk (fresh_name E ''imp'' (uuid_draws (tw_ledger W))) t a"

definition impact_next :: "impact_receipt \<Rightarrow> 'x tenant_workspace \<Rightarrow> 'x tenant_workspace" where
  "impact_next r W = W\<lparr>tw_ledger := drew 1 0 (tw_ledger W),
     tw_impact_receipts := dset (ir_id r) r (tw_impact_receipts W)\<rparr>"

lemma impact_loop_cases:
  assumes "impact_loop E mk event_id linked seen (t # ts) W = (v, W')" "builds_impact mk event_id"
  obtains (skip) "\<not> impact_eligible linked (tw_ledger W) t \<or> (at_donor t, at_allocation t) \<in> set seen"
      "impact_loop E mk event_id linked seen ts W = (v, W')"
    | (raise) e u where "v = Inl e" "W' = W\<lparr>tw_ledger := drew u 0 (tw_ledger W)\<rparr>"
    | (add) a w where "impact_eligible linked (tw_ledger W) t" "(at_donor t, at_allocation t) \<notin> set seen"
      "dget (allocations (tw_ledger W)) (at_allocation t) = Some a"
      "find_live_impact W (at_donor t) event_id (at_allocation t) = None"
      "impact_loop E mk event_id linked ((at_donor t, at_allocation t) # seen) ts
         (impact_next (impact_added E mk t a W) W) = (w, W')"
      "v = (case w of Inl e \<Rightarrow> Inl e | Inr rs \<Rightarrow> Inr (impact_added E mk t a W # rs))"
proof (cases "\<not> impact_eligible linked (tw_ledger W) t \<or> (at_donor t, at_allocation t) \<in> set seen")
  case True
  then show ?thesis using assms skip by (auto simp: impact_eligible_def)
next
  case False
  have self: "W = W\<lparr>tw_ledger := drew 0 0 (tw_ledger W)\<rparr>" by (simp add: drew_def)
  have find: "find_live_impact (W\<lparr>tw_ledger := L\<rparr>) d e a = find_live_impact W d e a" for L d e a
    by (simp add: find_live_impact_def)
  show ?thesis
  proof (cases "dget (allocations (tw_ledger W)) (at_allocation t)")
    case None
    then have "v = Inl (KeyError (at_allocation t))" "W' = W"
      using assms(1) False by (simp_all add: impact_eligible_def)
    then show ?thesis using raise self by metis
  next
    case (Some a)
    have idr: "ir_id (impact_added E mk t a W) = fresh_name E ''imp'' (uuid_draws (tw_ledger W))"
      using assms(2) by (simp add: builds_impact_def impact_added_def)
    show ?thesis
    proof (cases "find_live_impact W (at_donor t) event_id (at_allocation t)")
      case None
      let ?rest = "impact_loop E mk event_id linked ((at_donor t, at_allocation t) # seen) ts
         (impact_next (impact_added E mk t a W) W)"
      obtain w X where rest: "?rest = (w, X)" by (cases ?rest)
      have "impact_loop E mk event_id linked seen (t # ts) W =
          and_then ?rest (\<lambda>rs W3. (Inr (impact_added E mk t a W # rs), W3))"
        using False Some None idr
        by (simp add: impact_eligible_def find Let_def split_beta impact_next_def impact_added_def)
      then have "and_then (w, X) (\<lambda>rs W3. (Inr (impact_added E mk t a W # rs), W3)) = (v, W')"
        unfolding rest using assms(1) by (rule trans [OF sym])
      then have v: "v = (case w of Inl e \<Rightarrow> Inl e | Inr rs \<Rightarrow> Inr (impact_added E mk t a W # rs))" and "X = W'"
        unfolding and_then_def by (auto split: sum.splits)
      have rest': "?rest = (w, W')" using rest \<open>X = W'\<close> by (rule subst [rotated])
      show ?thesis by (rule add [OF _ _ Some None rest' v]) (use False in blast)+
    next
      case (Some r)
      show ?thesis
        using False Some \<open>dget (allocations (tw_ledger W)) (at_allocation t) = Some a\<close> assms(1)
        by (intro raise [of _ 1]) (auto simp: impact_eligible_def find Let_def split_beta)
    qed
  qed
qed

lemma impact_next_facts [simp]:
  "tw_ledger (impact_next r W) = drew 1 0 (tw_ledger W)"
  "tw_impact_receipts (impact_next r W) = dset (ir_id r) r (tw_impact_receipts W)"
  by (simp_all add: impact_next_def)

lemma impact_next_ok:
  assumes "inj (uuid4_hex E)" "builds_impact mk event_id" "impact_ok E W"
    "find_live_impact W (at_donor t) event_id (at_allocation t) = None"
  shows "dget (tw_impact_receipts W) (ir_id (impact_added E mk t a W)) = None"
    "impact_ok E (impact_next (impact_added E mk t a W) W)"
  using impact_ok_add [OF assms(1,3), of "impact_added E mk t a W"] assms(2,4)
  by (simp_all add: builds_impact_def impact_added_def impact_next_def)

lemma impact_loop_keeps:
  assumes "inj (uuid4_hex E)" "builds_impact mk event_id"
  shows "impact_ok E W \<Longrightarrow> impact_loop E mk event_id linked seen ts W = (v, W') \<Longrightarrow>
    impact_ok E W' \<and> (\<forall>k r. dget (tw_impact_receipts W) k = Some r \<longrightarrow> dget (tw_impact_receipts W') k = Some r)"
proof (induction ts arbitrary: seen W v)
  case (Cons t ts)
  from Cons.prems(2) assms(2) show ?case
  proof (cases rule: impact_loop_cases)
    case skip
    then show ?thesis using Cons.IH Cons.prems by blast
  next
    case raise
    then show ?thesis using Cons.prems impact_ok_frame [of E W W'] by simp
  next
    case (add a w)
    note new = impact_next_ok [OF assms Cons.prems(1) add(4), of a]
    have "impact_ok E W' \<and> (\<forall>k r. dget (tw_impact_receipts (impact_next (impact_added E mk t a W) W)) k = Some r \<longrightarrow>
        dget (tw_impact_receipts W') k = Some r)"
      using Cons.IH [OF new(2) add(5)] .
    then show ?thesis using new(1) by (auto split: if_splits) (metis option.distinct(1))
  qed
qed auto

lemma impact_loop_success:
  assumes "inj (uuid4_hex E)" "builds_impact mk event_id"
  shows "impact_ok E W \<Longrightarrow> impact_loop E mk event_id linked seen ts W = (Inr rs, W') \<Longrightarrow>
    (\<forall>r \<in> set rs. dget (tw_impact_receipts W') (ir_id r) = Some r \<and>
       (\<exists>t \<in> set ts. \<exists>a rid. r = mk rid t a \<and> impact_eligible linked (tw_ledger W) t \<and>
          dget (allocations (tw_ledger W)) (at_allocation t) = Some a)) \<and>
    (\<forall>t \<in> set ts. impact_eligible linked (tw_ledger W) t \<longrightarrow> (at_donor t, at_allocation t) \<notin> set seen \<longrightarrow>
       find_live_impact W (at_donor t) event_id (at_allocation t) = None \<and>
       (\<exists>r \<in> set rs. ir_donor r = at_donor t \<and> ir_event r = event_id \<and> ir_allocation r = at_allocation t))"
proof (induction ts arbitrary: seen W rs)
  case (Cons t ts)
  from Cons.prems(2) assms(2) show ?case
  proof (cases rule: impact_loop_cases)
    case skip
    then show ?thesis using Cons.IH [OF Cons.prems(1) skip(2)] by auto
  next
    case raise
    then show ?thesis by simp
  next
    case (add a w)
    let ?r = "impact_added E mk t a W" and ?N = "impact_next (impact_added E mk t a W) W"
    obtain rs0 where w: "w = Inr rs0" and rs: "rs = ?r # rs0" using add(6) by (cases w) auto
    note new = impact_next_ok [OF assms Cons.prems(1) add(4), of a]
    note IH = Cons.IH [OF new(2) add(5) [unfolded w]]
    have here: "\<exists>rid. ?r = mk rid t a" "ir_donor ?r = at_donor t" "ir_event ?r = event_id" "ir_allocation ?r = at_allocation t"
      using assms(2) by (auto simp: builds_impact_def impact_added_def)
    have kept: "dget (tw_impact_receipts W') (ir_id ?r) = Some ?r"
      using impact_loop_keeps [OF assms new(2) add(5)] by simp
    have find: "find_live_impact W d event_id x = None" if "find_live_impact ?N d event_id x = None" for d x
    proof -
      have "set (dvalues (tw_impact_receipts W)) \<subseteq> set (dvalues (tw_impact_receipts ?N))"
        by (auto simp: dset_fresh [OF new(1)])
      then show ?thesis using that by (auto simp: find_live_impact_None)
    qed
    show ?thesis
      using IH here kept find add(1,3,4) unfolding rs by auto
  qed
qed simp

end
