(* ===== verification/Notifications.thy ===== *)
theory Notifications
  imports Workspace
begin

text \<open>
  The notification service of \<^verbatim>\<open>domain/notifications.py\<close>: consent, preferences, quiet hours, one intent
  per message and its delivery through the adapter of the channel. An adapter is a parameter of the
  service, as in the code; the in-process adapter is the one the service builds by default.
\<close>

section \<open>Delivery adapters\<close>

text \<open>The protocol: an adapter names its provider and delivers an intent, or raises. \<open>ad_fixture\<close> is the
  constructor of the in-process adapter, which the service calls when it is given no adapters.\<close>

record 'x adapter_api =
  ad_provider :: "'x \<Rightarrow> string"
  ad_deliver :: "notification_intent \<Rightarrow> 'x \<Rightarrow> (bool \<times> string \<times> string) outcome \<times> 'x"
  ad_fixture :: "string \<Rightarrow> 'x"

record in_process_adapter =
  ipa_provider :: string
  ipa_fail :: bool
  ipa_attempts :: "string list"

definition in_process_deliver ::
  "notification_intent \<Rightarrow> in_process_adapter \<Rightarrow> (bool \<times> string \<times> string) outcome \<times> in_process_adapter" where
  "in_process_deliver i a =
     (let a1 = a\<lparr>ipa_attempts := ipa_attempts a @ [ni_id i]\<rparr> in
      if ipa_fail a1 then (Inr (False, ''fail_'' @ ni_id i, ''simulated provider failure''), a1)
      else (Inr (True, ''ok_'' @ ni_id i, ''delivered in-process''), a1))"

definition in_process_api :: "in_process_adapter adapter_api" where
  "in_process_api = \<lparr>ad_provider = ipa_provider, ad_deliver = in_process_deliver,
     ad_fixture = (\<lambda>name. \<lparr>ipa_provider = name, ipa_fail = False, ipa_attempts = []\<rparr>)\<rparr>"

section \<open>The service\<close>

record 'x notification_service =
  ns_ws :: "'x tenant_workspace"
  ns_adapters :: "(notification_channel, 'x) dict"

text \<open>\<^verbatim>\<open>TenantWorkspace.notifications()\<close>: no or empty adapters are replaced by in-process ones.\<close>

definition notifications :: "'x adapter_api \<Rightarrow> 'x tenant_workspace \<Rightarrow> 'x notification_service" where
  "notifications A W =
     \<lparr>ns_ws = W, ns_adapters =
       (case tw_adapters W of
          Some (x # xs) \<Rightarrow> x # xs
        | _ \<Rightarrow> [(PUSH, ad_fixture A ''push_fixture''), (EMAIL, ad_fixture A ''email_fixture''),
                (SMS, ad_fixture A ''sms_fixture'')])\<rparr>"

definition record_consent ::
  "consent_record \<Rightarrow> 'x notification_service \<Rightarrow> consent_record outcome \<times> 'x notification_service" where
  "record_consent c N =
     (let W = ns_ws N in
      if con_org c \<noteq> org_id (tw_org W) then (Inl (StateError ''consent organization_id mismatch''), N)
      else if \<not> dhas (donors (tw_ledger W)) (con_donor c)
      then (Inl (NotFoundError (''donor not found: '' @ con_donor c)), N)
      else (Inr c, N\<lparr>ns_ws := W\<lparr>tw_consents :=
             dset (con_donor c, channel_value (con_channel c)) c (tw_consents W)\<rparr>\<rparr>))"

definition set_preference ::
  "notification_preference \<Rightarrow> 'x notification_service \<Rightarrow> notification_preference outcome \<times> 'x notification_service" where
  "set_preference p N =
     (let W = ns_ws N in
      if pref_org p \<noteq> org_id (tw_org W) then (Inl (StateError ''preference organization_id mismatch''), N)
      else if \<not> dhas (donors (tw_ledger W)) (pref_donor p)
      then (Inl (NotFoundError (''donor not found: '' @ pref_donor p)), N)
      else (Inr p, N\<lparr>ns_ws := W\<lparr>tw_preferences :=
             dset (pref_donor p, channel_value (pref_channel p)) p (tw_preferences W)\<rparr>\<rparr>))"

definition has_consent :: "'x tenant_workspace \<Rightarrow> string \<Rightarrow> notification_channel \<Rightarrow> bool" where
  "has_consent W d ch =
     (case dget (tw_consents W) (d, channel_value ch) of None \<Rightarrow> False | Some c \<Rightarrow> con_granted c)"

definition pref_allows :: "'x tenant_workspace \<Rightarrow> string \<Rightarrow> notification_channel \<Rightarrow> message_class \<Rightarrow> bool" where
  "pref_allows W d ch mc =
     (case dget (tw_preferences W) (d, channel_value ch) of
        None \<Rightarrow> ch = EMAIL
      | Some p \<Rightarrow> if \<not> pref_enabled p then False
                  else pref_topics p = [] \<or> class_value mc \<in> set (pref_topics p))"

text \<open>\<^verbatim>\<open>now_iso.split("T", 1)[1][:5]\<close>, or noon when the text has no T.\<close>

definition time_part :: "string \<Rightarrow> string" where
  "time_part s =
     (if CHR ''T'' \<in> set s then take 5 (tl (dropWhile (\<lambda>c. c \<noteq> CHR ''T'') s)) else ''12:00'')"

definition in_quiet_hours :: "'x tenant_workspace \<Rightarrow> string \<Rightarrow> notification_channel \<Rightarrow> string \<Rightarrow> bool" where
  "in_quiet_hours W d ch now =
     (case dget (tw_preferences W) (d, channel_value ch) of
        None \<Rightarrow> False
      | Some p \<Rightarrow>
          if \<not> present (pref_quiet_start p) \<or> \<not> present (pref_quiet_end p) then False
          else
            let tpart = time_part now; start = the (pref_quiet_start p); finish = the (pref_quiet_end p) in
            if start \<le> finish then start \<le> tpart \<and> tpart < finish else tpart \<ge> start \<or> tpart < finish)"

definition dedup_key ::
  "string \<Rightarrow> string \<Rightarrow> notification_channel \<Rightarrow> message_class \<Rightarrow> string \<Rightarrow> string \<Rightarrow> string \<Rightarrow> string" where
  "dedup_key org d ch mc source_type source_id template =
     join_with ''|'' [org, d, channel_value ch, class_value mc, source_type, source_id, template]"

text \<open>An intent is stored under its identifier and under its key.\<close>

definition put_intent :: "notification_intent \<Rightarrow> 'x tenant_workspace \<Rightarrow> 'x tenant_workspace" where
  "put_intent i W = W\<lparr>tw_intents := dset (ni_id i) i (tw_intents W),
     tw_by_dedup := dset (ni_dedup i) i (tw_by_dedup W)\<rparr>"

definition permanent_detail :: "string \<Rightarrow> bool" where
  "permanent_detail detail \<longleftrightarrow>
     has_substring ''permanent'' (map lower_char detail) \<or> has_substring ''bounce'' (map lower_char detail)"

definition add_delivery ::
  "env \<Rightarrow> notification_intent \<Rightarrow> bool \<Rightarrow> string \<Rightarrow> string \<Rightarrow> string \<Rightarrow> 'x tenant_workspace \<Rightarrow>
     notification_delivery \<times> 'x tenant_workspace" where
  "add_delivery E i success provider provider_receipt detail W =
     (let (did, W1) = tw_new_id E ''ndel'' W;
          (t, W2) = tw_time_or_now E None W1;
          d = \<lparr>nd_id = did, nd_intent = ni_id i, nd_org = ni_org i, nd_donor = ni_donor i,
               nd_channel = ni_channel i, nd_success = success, nd_provider = provider,
               nd_provider_receipt = provider_receipt, nd_attempted_at = t, nd_detail = detail\<rparr>
      in (d, W2\<lparr>tw_deliveries := dset did d (tw_deliveries W2)\<rparr>))"

definition deliver ::
  "env \<Rightarrow> 'x adapter_api \<Rightarrow> notification_intent \<Rightarrow> 'x notification_service \<Rightarrow>
     notification_delivery outcome \<times> 'x notification_service" where
  "deliver E A i N =
     (case dget (ns_adapters N) (ni_channel i) of
        None \<Rightarrow>
          let W1 = put_intent (i\<lparr>ni_status := NI_FAILED\<rparr>) (ns_ws N);
              (d, W2) = add_delivery E i False ''none'' [] ''no adapter for channel'' W1
          in (Inr d, N\<lparr>ns_ws := W2\<rparr>)
      | Some ad \<Rightarrow>
          let (v, ad') = ad_deliver A i ad;
              N1 = N\<lparr>ns_adapters := dset (ni_channel i) ad' (ns_adapters N)\<rparr>
          in case v of
               Inl e \<Rightarrow> (Inl e, N1)
             | Inr (success, provider_receipt, detail) \<Rightarrow>
                 let status = (if success then NI_DELIVERED
                       else if permanent_detail detail then NI_PERMANENT_FAILURE else NI_FAILED);
                     W1 = put_intent (i\<lparr>ni_status := status\<rparr>) (ns_ws N1);
                     (d, W2) = add_delivery E i success (ad_provider A ad') provider_receipt detail W1
                 in (Inr d, N1\<lparr>ns_ws := W2\<rparr>))"

definition evaluate_intent ::
  "env \<Rightarrow> 'x adapter_api \<Rightarrow> string \<Rightarrow> notification_channel \<Rightarrow> message_class \<Rightarrow> string \<Rightarrow> string \<Rightarrow>
     (string \<times> json) list \<Rightarrow> string \<Rightarrow> string option \<Rightarrow> bool \<Rightarrow> 'x notification_service \<Rightarrow>
     notification_intent outcome \<times> 'x notification_service" where
  "evaluate_intent E A d ch mc source_type source_id payload template created_at do_deliver N =
     (let W = ns_ws N; org = tw_org W in
      if \<not> dhas (donors (tw_ledger W)) d then (Inl (NotFoundError (''donor not found: '' @ d)), N)
      else
        let key = dedup_key (org_id org) d ch mc source_type source_id template in
        case dget (tw_by_dedup W) key of
          Some existing \<Rightarrow> (Inr existing, N)
        | None \<Rightarrow>
            let (created, W1) = tw_time_or_now E created_at W;
                (iid, W2) = tw_new_id E ''nint'' W1;
                mk = (\<lambda>st pl. \<lparr>ni_id = iid, ni_org = org_id org, ni_donor = d, ni_channel = ch, ni_class = mc,
                        ni_source_type = source_type, ni_source_id = source_id, ni_dedup = key,
                        ni_policy_version = org_policy_version org, ni_status = st,
                        ni_template_version = template, ni_payload = pl, ni_created_at = created\<rparr>);
                stop = (\<lambda>i. (Inr i, N\<lparr>ns_ws := put_intent i W2\<rparr>)) in
            if \<not> has_consent W2 d ch then stop (mk NI_BLOCKED_NO_CONSENT payload)
            else if \<not> pref_allows W2 d ch mc then stop (mk NI_BLOCKED_PREFERENCE payload)
            else if in_quiet_hours W2 d ch created
            then stop (mk NI_DEFERRED_QUIET_HOURS (dset ''deferred_reason'' (JStr ''quiet_hours'') payload))
            else
              let i = mk NI_CREATED payload; N1 = N\<lparr>ns_ws := put_intent i W2\<rparr> in
              if \<not> do_deliver then (Inr i, N1)
              else and_then (deliver E A i N1) (\<lambda>_ N2.
                case dget (tw_intents (ns_ws N2)) iid of
                  None \<Rightarrow> (Inl (KeyError iid), N2)
                | Some i' \<Rightarrow> (Inr i', N2)))"

text \<open>The documents of the receipts as dictionaries.\<close>

definition json_dict :: "json \<Rightarrow> (string \<times> json) list" where
  "json_dict j = (case j of JObj kvs \<Rightarrow> kvs | _ \<Rightarrow> [])"

definition evaluate_for_use_of_funds ::
  "env \<Rightarrow> 'x adapter_api \<Rightarrow> string \<Rightarrow> notification_channel \<Rightarrow> bool \<Rightarrow> (string \<times> json) list option \<Rightarrow>
     'x notification_service \<Rightarrow> notification_intent outcome \<times> 'x notification_service" where
  "evaluate_for_use_of_funds E A rid ch do_deliver patch N =
     (case dget (receipts (tw_ledger (ns_ws N))) rid of
        None \<Rightarrow> (Inl (NotFoundError (''receipt not found: '' @ rid)), N)
      | Some r \<Rightarrow>
          evaluate_intent E A (r_donor r) ch (if r_corrected r then CORRECTION else MONEY_USED)
            (if \<not> r_corrected r then ''USE_OF_FUNDS'' else ''CORRECTION'') rid
            (obj_merge (json_dict (uof_to_dict r)) (case patch of None \<Rightarrow> [] | Some p \<Rightarrow> p))
            ''v1.0'' None do_deliver N)"

definition evaluate_for_impact ::
  "env \<Rightarrow> 'x adapter_api \<Rightarrow> string \<Rightarrow> notification_channel \<Rightarrow> bool \<Rightarrow>
     'x notification_service \<Rightarrow> notification_intent outcome \<times> 'x notification_service" where
  "evaluate_for_impact E A rid ch do_deliver N =
     (case dget (tw_impact_receipts (ns_ws N)) rid of
        None \<Rightarrow> (Inl (NotFoundError (''impact receipt not found: '' @ rid)), N)
      | Some r \<Rightarrow>
          evaluate_intent E A (ir_donor r) ch IMPACT_OCCURRED ''IMPACT'' rid (json_dict (impact_to_dict r))
            ''v1.0'' None do_deliver N)"

section \<open>Reads\<close>

definition get_preferences :: "'x notification_service \<Rightarrow> string \<Rightarrow> json list outcome" where
  "get_preferences N d =
     (if \<not> dhas (donors (tw_ledger (ns_ws N))) d then Inl (NotFoundError (''donor not found: '' @ d))
      else Inr (map (\<lambda>(k, p). JObj
             [(''donor_id'', JStr (pref_donor p)), (''organization_id'', JStr (pref_org p)),
              (''channel'', JStr (channel_value (pref_channel p))), (''enabled'', JBool (pref_enabled p)),
              (''topics'', JList (map JStr (pref_topics p))), (''cadence'', JStr (pref_cadence p)),
              (''quiet_hours_start'', opt_str (pref_quiet_start p)),
              (''quiet_hours_end'', opt_str (pref_quiet_end p))])
           (filter (\<lambda>(k, p). fst k = d) (tw_preferences (ns_ws N)))))"

definition intents_as_dicts :: "'x notification_service \<Rightarrow> json list" where
  "intents_as_dicts N = map (\<lambda>i. JObj
     [(''id'', JStr (ni_id i)), (''donor_id'', JStr (ni_donor i)), (''channel'', JStr (channel_value (ni_channel i))),
      (''message_class'', JStr (class_value (ni_class i))), (''source_type'', JStr (ni_source_type i)),
      (''source_id'', JStr (ni_source_id i)), (''dedup_key'', JStr (ni_dedup i)),
      (''status'', JStr (intent_status_value (ni_status i))), (''policy_version'', JStr (ni_policy_version i)),
      (''template_version'', JStr (ni_template_version i)), (''created_at'', JStr (ni_created_at i))])
     (dvalues (tw_intents (ns_ws N)))"

definition deliveries_as_dicts :: "'x notification_service \<Rightarrow> json list" where
  "deliveries_as_dicts N = map (\<lambda>d. JObj
     [(''id'', JStr (nd_id d)), (''intent_id'', JStr (nd_intent d)), (''donor_id'', JStr (nd_donor d)),
      (''channel'', JStr (channel_value (nd_channel d))), (''success'', JBool (nd_success d)),
      (''provider'', JStr (nd_provider d)), (''provider_receipt'', JStr (nd_provider_receipt d)),
      (''attempted_at'', JStr (nd_attempted_at d)), (''detail'', JStr (nd_detail d))])
     (dvalues (tw_deliveries (ns_ws N)))"

section \<open>What is sent\<close>

text \<open>The stores of intents and deliveries agree: the two indexes of intents hold the same intents, an
  identifier is drawn for one record only, and a delivery is recorded at most once per intent, with
  the status the intent has.\<close>

definition intents_ok :: "env \<Rightarrow> 'x tenant_workspace \<Rightarrow> bool" where
  "intents_ok E W \<longleftrightarrow> dict_ok (tw_intents W) \<and> dict_ok (tw_by_dedup W) \<and>
     (\<forall>k i. dget (tw_intents W) k = Some i \<longrightarrow>
        ni_id i = k \<and> k \<in> drawn E ''nint'' (uuid_draws (tw_ledger W)) \<and> dget (tw_by_dedup W) (ni_dedup i) = Some i) \<and>
     (\<forall>k i. dget (tw_by_dedup W) k = Some i \<longrightarrow> ni_dedup i = k \<and> dget (tw_intents W) (ni_id i) = Some i)"

definition attempted :: "intent_status \<Rightarrow> bool" where
  "attempted st \<longleftrightarrow> st \<in> {NI_DELIVERED, NI_FAILED, NI_PERMANENT_FAILURE}"

lemma intents_okD:
  assumes "intents_ok E W"
  shows "dget (tw_intents W) k = Some i \<Longrightarrow> ni_id i = k \<and> k \<in> drawn E ''nint'' (uuid_draws (tw_ledger W)) \<and>
      dget (tw_by_dedup W) (ni_dedup i) = Some i"
    "dget (tw_by_dedup W) k = Some i \<Longrightarrow> ni_dedup i = k \<and> dget (tw_intents W) (ni_id i) = Some i"
  using assms unfolding intents_ok_def by blast+

lemma attempted_simps [simp]:
  "attempted NI_DELIVERED" "attempted NI_FAILED" "attempted NI_PERMANENT_FAILURE" "\<not> attempted NI_CREATED"
  "\<not> attempted NI_BLOCKED_NO_CONSENT" "\<not> attempted NI_BLOCKED_PREFERENCE" "\<not> attempted NI_DEFERRED_QUIET_HOURS"
  by (simp_all add: attempted_def)

definition deliveries_ok :: "env \<Rightarrow> 'x tenant_workspace \<Rightarrow> bool" where
  "deliveries_ok E W \<longleftrightarrow> dict_ok (tw_deliveries W) \<and>
     (\<forall>k d. dget (tw_deliveries W) k = Some d \<longrightarrow>
        nd_id d = k \<and> k \<in> drawn E ''ndel'' (uuid_draws (tw_ledger W)) \<and>
        (\<exists>i. dget (tw_intents W) (nd_intent d) = Some i \<and> attempted (ni_status i) \<and>
           (nd_success d \<longleftrightarrow> ni_status i = NI_DELIVERED) \<and> nd_donor d = ni_donor i \<and> nd_channel d = ni_channel i)) \<and>
     (\<forall>k d j d'. dget (tw_deliveries W) k = Some d \<longrightarrow> dget (tw_deliveries W) j = Some d' \<longrightarrow>
        nd_intent d = nd_intent d' \<longrightarrow> k = j) \<and>
     (\<forall>k i. dget (tw_intents W) k = Some i \<longrightarrow> attempted (ni_status i) \<longrightarrow>
        (\<exists>j d. dget (tw_deliveries W) j = Some d \<and> nd_intent d = k))"

lemma deliveries_okD:
  assumes "deliveries_ok E W" "dget (tw_deliveries W) k = Some d"
  shows "\<exists>i. dget (tw_intents W) (nd_intent d) = Some i \<and> attempted (ni_status i) \<and>
      (nd_success d \<longleftrightarrow> ni_status i = NI_DELIVERED) \<and> nd_donor d = ni_donor i \<and> nd_channel d = ni_channel i"
    "dget (tw_deliveries W) j = Some d' \<Longrightarrow> nd_intent d = nd_intent d' \<Longrightarrow> k = j"
  using assms unfolding deliveries_ok_def by simp_all

definition notif_ok :: "env \<Rightarrow> 'x tenant_workspace \<Rightarrow> bool" where
  "notif_ok E W \<longleftrightarrow> intents_ok E W \<and> deliveries_ok E W"

lemma notif_ok_frame:
  assumes "notif_ok E W" "tw_intents W' = tw_intents W" "tw_by_dedup W' = tw_by_dedup W"
    "tw_deliveries W' = tw_deliveries W" "uuid_draws (tw_ledger W) \<le> uuid_draws (tw_ledger W')"
  shows "notif_ok E W'"
  using assms unfolding notif_ok_def intents_ok_def deliveries_ok_def by (auto intro: drawn_mono)

text \<open>A new message: an intent under an unused key with an identifier just drawn, not yet attempted.\<close>

lemma put_new_intent:
  assumes "inj (uuid4_hex E)" "notif_ok E W" "dget (tw_by_dedup W) (ni_dedup i) = None" "\<not> attempted (ni_status i)"
    "ni_id i = fresh_name E ''nint'' (uuid_draws (tw_ledger W))"
  shows "notif_ok E (put_intent i (W\<lparr>tw_ledger := drew 1 c (tw_ledger W)\<rparr>))"
    and "dget (tw_intents W) (ni_id i) = None"
proof -
  have ints: "intents_ok E W" and dels: "deliveries_ok E W" using assms(2) by (simp_all add: notif_ok_def)
  show new: "dget (tw_intents W) (ni_id i) = None"
  proof (cases "dget (tw_intents W) (ni_id i)")
    case (Some j)
    then have "fresh_name E ''nint'' (uuid_draws (tw_ledger W)) \<in> drawn E ''nint'' (uuid_draws (tw_ledger W))"
      using ints assms(5) by (auto simp: intents_ok_def)
    then show ?thesis using not_drawn_yet [OF assms(1)] by blast
  qed
  have other: "ni_dedup j \<noteq> ni_dedup i" if "dget (tw_intents W) k = Some j" for k j
    using ints that assms(3) by (force simp: intents_ok_def)
  have other': "ni_id j \<noteq> ni_id i" if "dget (tw_by_dedup W) k = Some j" for k j
    using ints that new by (force simp: intents_ok_def)
  have "intents_ok E (put_intent i (W\<lparr>tw_ledger := drew 1 c (tw_ledger W)\<rparr>))"
    using ints new assms(3,5) other other'
    by (auto simp: intents_ok_def put_intent_def)
  moreover have "nd_intent d \<noteq> ni_id i" if "dget (tw_deliveries W) k = Some d" for k d
    using dels that new by (force simp: deliveries_ok_def)
  then have "deliveries_ok E (put_intent i (W\<lparr>tw_ledger := drew 1 c (tw_ledger W)\<rparr>))"
    using dels assms(4) by (auto simp: deliveries_ok_def put_intent_def)
  ultimately show "notif_ok E (put_intent i (W\<lparr>tw_ledger := drew 1 c (tw_ledger W)\<rparr>))"
    by (simp add: notif_ok_def)
qed

text \<open>The one attempt at an intent: its status is final and a delivery with a new identifier is recorded.\<close>

lemma add_delivery_eq:
  "\<exists>c d. add_delivery E i success provider receipt detail W =
     (d, W\<lparr>tw_ledger := drew 1 c (tw_ledger W), tw_deliveries := dset (nd_id d) d (tw_deliveries W)\<rparr>) \<and>
     nd_id d = fresh_name E ''ndel'' (uuid_draws (tw_ledger W)) \<and> nd_intent d = ni_id i \<and>
     nd_donor d = ni_donor i \<and> nd_channel d = ni_channel i \<and> nd_success d = success"
proof -
  obtain c where "snd (tw_time_or_now E None (snd (tw_new_id E ''ndel'' W))) =
      W\<lparr>tw_ledger := drew 1 c (tw_ledger W)\<rparr>"
    using tw_time_or_now_snd [of E None "snd (tw_new_id E ''ndel'' W)"] by auto
  then show ?thesis
    by (simp add: add_delivery_def Let_def split_beta) (rule exI [of _ c], simp)
qed

lemma add_delivery_intents [simp]: "tw_intents (snd (add_delivery E i s p r t W)) = tw_intents W"
  "tw_by_dedup (snd (add_delivery E i s p r t W)) = tw_by_dedup W"
  using add_delivery_eq [of E i s p r t W] by auto

lemma record_delivery:
  assumes "inj (uuid4_hex E)" "notif_ok E W" "dget (tw_intents W) (ni_id i) = Some i" "\<not> attempted (ni_status i)"
    "attempted st" "success \<longleftrightarrow> st = NI_DELIVERED"
  shows "notif_ok E (snd (add_delivery E i success provider receipt detail (put_intent (i\<lparr>ni_status := st\<rparr>) W)))"
proof -
  have ints: "intents_ok E W" and dels: "deliveries_ok E W" using assms(2) by (simp_all add: notif_ok_def)
  let ?W = "put_intent (i\<lparr>ni_status := st\<rparr>) W"
  obtain c d where add: "add_delivery E i success provider receipt detail ?W =
      (d, ?W\<lparr>tw_ledger := drew 1 c (tw_ledger ?W), tw_deliveries := dset (nd_id d) d (tw_deliveries ?W)\<rparr>)"
    and d: "nd_id d = fresh_name E ''ndel'' (uuid_draws (tw_ledger ?W))" "nd_intent d = ni_id i"
      "nd_donor d = ni_donor i" "nd_channel d = ni_channel i" "nd_success d = success"
    using add_delivery_eq by blast
  let ?V = "?W\<lparr>tw_ledger := drew 1 c (tw_ledger ?W), tw_deliveries := dset (nd_id d) d (tw_deliveries ?W)\<rparr>"
  have stored: "dget (tw_by_dedup W) (ni_dedup i) = Some i" using ints assms(3) by (auto simp: intents_ok_def)
  have same: "k = ni_id i" if "dget (tw_intents W) k = Some j" "ni_dedup j = ni_dedup i" for k j
    using intents_okD(1) [OF ints that(1)] that(2) stored by simp
  have same': "k = ni_dedup i" if "dget (tw_by_dedup W) k = Some j" "ni_id j = ni_id i" for k j
    using intents_okD(2) [OF ints that(1)] that(2) assms(3) by simp
  have "intents_ok E ?V"
    unfolding intents_ok_def
  proof (intro conjI allI impI)
    show "dict_ok (tw_intents ?V)" "dict_ok (tw_by_dedup ?V)"
      using ints by (simp_all add: intents_ok_def put_intent_def)
  next
    fix k j assume "dget (tw_intents ?V) k = Some j"
    then have "dget (dset (ni_id i) (i\<lparr>ni_status := st\<rparr>) (tw_intents W)) k = Some j"
      by (simp add: put_intent_def del: dget_dset_app)
    then have "ni_id j = k \<and> k \<in> drawn E ''nint'' (uuid_draws (tw_ledger ?V)) \<and>
      dget (tw_by_dedup ?V) (ni_dedup j) = Some j"
    proof (cases rule: dget_dsetE)
      case same
      then show ?thesis using intents_okD(1) [OF ints assms(3)] by (simp add: put_intent_def)
    next
      case other
      then have "ni_dedup j \<noteq> ni_dedup i" using same by blast
      then show ?thesis using intents_okD(1) [OF ints other(2)] by (simp add: put_intent_def)
    qed
    then show "ni_id j = k" "k \<in> drawn E ''nint'' (uuid_draws (tw_ledger ?V))"
      "dget (tw_by_dedup ?V) (ni_dedup j) = Some j" by blast+
  next
    fix k j assume "dget (tw_by_dedup ?V) k = Some j"
    then have "dget (dset (ni_dedup i) (i\<lparr>ni_status := st\<rparr>) (tw_by_dedup W)) k = Some j"
      by (simp add: put_intent_def del: dget_dset_app)
    then have "ni_dedup j = k \<and> dget (tw_intents ?V) (ni_id j) = Some j"
    proof (cases rule: dget_dsetE)
      case other
      then have "ni_id j \<noteq> ni_id i" using same' by blast
      then show ?thesis using intents_okD(2) [OF ints other(2)] by (simp add: put_intent_def)
    qed (simp add: put_intent_def)
    then show "ni_dedup j = k" "dget (tw_intents ?V) (ni_id j) = Some j" by blast+
  qed
  moreover have none: "nd_intent e \<noteq> ni_id i" if "dget (tw_deliveries W) k = Some e" for k e
    using dels that assms(3,4) by (force simp: deliveries_ok_def)
  have "dget (tw_deliveries W) (nd_id d) = None"
  proof (cases "dget (tw_deliveries W) (nd_id d)")
    case (Some e)
    then have "nd_id d \<in> drawn E ''ndel'' (uuid_draws (tw_ledger W))" using dels by (auto simp: deliveries_ok_def)
    then show ?thesis using not_drawn_yet [OF assms(1), of _ "uuid_draws (tw_ledger W)"] d(1) by (simp add: put_intent_def)
  qed
  have "deliveries_ok E ?V"
    unfolding deliveries_ok_def
  proof (intro conjI allI impI)
    show "dict_ok (tw_deliveries ?V)" using dels by (simp add: deliveries_ok_def put_intent_def)
  next
    fix k e assume "dget (tw_deliveries ?V) k = Some e"
    then have "dget (dset (nd_id d) d (tw_deliveries W)) k = Some e"
      by (simp add: put_intent_def del: dget_dset_app)
    then show "nd_id e = k" "k \<in> drawn E ''ndel'' (uuid_draws (tw_ledger ?V))"
      "\<exists>j. dget (tw_intents ?V) (nd_intent e) = Some j \<and> attempted (ni_status j) \<and>
         (nd_success e \<longleftrightarrow> ni_status j = NI_DELIVERED) \<and> nd_donor e = ni_donor j \<and> nd_channel e = ni_channel j"
      using dels d assms(5,6) none by (cases rule: dget_dsetE; auto simp: deliveries_ok_def put_intent_def)+
  next
    fix k e j f assume "dget (tw_deliveries ?V) k = Some e" "dget (tw_deliveries ?V) j = Some f" "nd_intent e = nd_intent f"
    then show "k = j"
      using dels none d(2) by (auto simp: deliveries_ok_def put_intent_def split: if_splits)
  next
    fix k j assume "dget (tw_intents ?V) k = Some j" "attempted (ni_status j)"
    then show "\<exists>l e. dget (tw_deliveries ?V) l = Some e \<and> nd_intent e = k"
      using dels d(2) \<open>dget (tw_deliveries W) (nd_id d) = None\<close>
      by (auto simp: deliveries_ok_def put_intent_def split: if_splits) (metis option.distinct(1))+
  qed
  ultimately show ?thesis using add by (simp add: notif_ok_def)
qed

lemma deliver_keeps:
  assumes "inj (uuid4_hex E)" "notif_ok E (ns_ws N)" "dget (tw_intents (ns_ws N)) (ni_id i) = Some i"
    "\<not> attempted (ni_status i)"
  shows "notif_ok E (ns_ws (snd (deliver E A i N)))"
  using assms by (auto simp: deliver_def Let_def split_beta split: option.splits sum.splits intro!: record_delivery)

text \<open>The decision on a new message, before any delivery.\<close>

definition gate_status :: "'x tenant_workspace \<Rightarrow> string \<Rightarrow> notification_channel \<Rightarrow> message_class \<Rightarrow> string \<Rightarrow> intent_status" where
  "gate_status W d ch mc created =
     (if \<not> has_consent W d ch then NI_BLOCKED_NO_CONSENT
      else if \<not> pref_allows W d ch mc then NI_BLOCKED_PREFERENCE
      else if in_quiet_hours W d ch created then NI_DEFERRED_QUIET_HOURS
      else NI_CREATED)"

lemma gate_status_unattempted [simp]: "\<not> attempted (gate_status W d ch mc t)"
  by (simp add: gate_status_def)

lemma gates_drew [simp]:
  "has_consent (W\<lparr>tw_ledger := L\<rparr>) = has_consent W" "pref_allows (W\<lparr>tw_ledger := L\<rparr>) = pref_allows W"
  "in_quiet_hours (W\<lparr>tw_ledger := L\<rparr>) = in_quiet_hours W"
  by (simp_all add: fun_eq_iff has_consent_def pref_allows_def in_quiet_hours_def)

lemma evaluate_cases:
  assumes "evaluate_intent E A d ch mc source_type source_id payload template created_at do_deliver N = (v, N')"
  obtains (refused) e where "dget (donors (tw_ledger (ns_ws N))) d = None" "v = Inl e" "N' = N"
    | (known) i where "v = Inr i" "N' = N"
      "dget (tw_by_dedup (ns_ws N)) (dedup_key (org_id (tw_org (ns_ws N))) d ch mc source_type source_id template) = Some i"
    | (stopped) i created c where "v = Inr i"
      "N' = N\<lparr>ns_ws := put_intent i ((ns_ws N)\<lparr>tw_ledger := drew 1 c (tw_ledger (ns_ws N))\<rparr>)\<rparr>"
      "ni_status i = gate_status (ns_ws N) d ch mc created" "ni_status i \<noteq> NI_CREATED \<or> \<not> do_deliver"
      "created = fst (tw_time_or_now E created_at (ns_ws N))"
      "ni_id i = fresh_name E ''nint'' (uuid_draws (tw_ledger (ns_ws N)))"
      "ni_dedup i = dedup_key (org_id (tw_org (ns_ws N))) d ch mc source_type source_id template"
      "dget (tw_by_dedup (ns_ws N)) (ni_dedup i) = None"
    | (sent) i created c w where "do_deliver" "ni_status i = NI_CREATED"
      "gate_status (ns_ws N) d ch mc created = NI_CREATED"
      "ni_id i = fresh_name E ''nint'' (uuid_draws (tw_ledger (ns_ws N)))"
      "ni_dedup i = dedup_key (org_id (tw_org (ns_ws N))) d ch mc source_type source_id template"
      "dget (tw_by_dedup (ns_ws N)) (ni_dedup i) = None" "ni_channel i = ch"
      "created = fst (tw_time_or_now E created_at (ns_ws N))"
      "deliver E A i (N\<lparr>ns_ws := put_intent i ((ns_ws N)\<lparr>tw_ledger := drew 1 c (tw_ledger (ns_ws N))\<rparr>)\<rparr>) = (w, N')"
      "v = (case w of Inl e \<Rightarrow> Inl e | Inr _ \<Rightarrow>
         (case dget (tw_intents (ns_ws N')) (ni_id i) of None \<Rightarrow> Inl (KeyError (ni_id i)) | Some j \<Rightarrow> Inr j))"
proof -
  let ?W = "ns_ws N" and ?key = "dedup_key (org_id (tw_org (ns_ws N))) d ch mc source_type source_id template"
  show thesis
  proof (cases "dget (donors (tw_ledger ?W)) d = None \<or> dget (tw_by_dedup ?W) ?key \<noteq> None")
    case True
    then show ?thesis
    proof (cases "dget (donors (tw_ledger ?W)) d")
      case None
      then have "v = Inl (NotFoundError (''donor not found: '' @ d))" "N' = N"
        using assms by (simp_all add: evaluate_intent_def Let_def)
      then show ?thesis by (rule refused [OF None])
    next
      case (Some x)
      then obtain j where j: "dget (tw_by_dedup ?W) ?key = Some j" using True by auto
      then have "v = Inr j" "N' = N" using assms Some by (simp_all add: evaluate_intent_def Let_def)
      then show ?thesis using known j by blast
    qed
  next
    case False
    obtain c where c: "snd (tw_time_or_now E created_at ?W) = ?W\<lparr>tw_ledger := drew 0 c (tw_ledger ?W)\<rparr>"
      using tw_time_or_now_snd by blast
    define created where "created = fst (tw_time_or_now E created_at ?W)"
    have tn: "tw_time_or_now E created_at ?W = (created, ?W\<lparr>tw_ledger := drew 0 c (tw_ledger ?W)\<rparr>)"
      using c by (simp add: created_def prod_eq_iff)
    define st where "st = gate_status ?W d ch mc created"
    define i where "i = \<lparr>ni_id = fresh_name E ''nint'' (uuid_draws (tw_ledger ?W)), ni_org = org_id (tw_org ?W), ni_donor = d,
        ni_channel = ch, ni_class = mc, ni_source_type = source_type, ni_source_id = source_id, ni_dedup = ?key,
        ni_policy_version = org_policy_version (tw_org ?W), ni_status = st, ni_template_version = template,
        ni_payload = (if st = NI_DEFERRED_QUIET_HOURS then dset ''deferred_reason'' (JStr ''quiet_hours'') payload
          else payload), ni_created_at = created\<rparr>"
    let ?N1 = "N\<lparr>ns_ws := put_intent i (?W\<lparr>tw_ledger := drew 1 c (tw_ledger ?W)\<rparr>)\<rparr>"
    have ev: "evaluate_intent E A d ch mc source_type source_id payload template created_at do_deliver N =
        (if st \<noteq> NI_CREATED \<or> \<not> do_deliver then (Inr i, ?N1)
         else and_then (deliver E A i ?N1) (\<lambda>_ N2. case dget (tw_intents (ns_ws N2)) (ni_id i) of
            None \<Rightarrow> (Inl (KeyError (ni_id i)), N2) | Some j \<Rightarrow> (Inr j, N2)))"
      using False unfolding evaluate_intent_def Let_def
      by (simp add: tn tw_new_id_eq i_def st_def gate_status_def cong: option.case_cong)
    show ?thesis
    proof (cases "st \<noteq> NI_CREATED \<or> \<not> do_deliver")
      case True
      then show ?thesis
        using ev assms False by (intro stopped [of i c created]) (auto simp: i_def st_def created_def)
    next
      case sending: False
      obtain w N2 where dv: "deliver E A i ?N1 = (w, N2)" by (cases "deliver E A i ?N1")
      have "N2 = N'" and v: "v = (case w of Inl e \<Rightarrow> Inl e | Inr _ \<Rightarrow>
         (case dget (tw_intents (ns_ws N2)) (ni_id i) of None \<Rightarrow> Inl (KeyError (ni_id i)) | Some j \<Rightarrow> Inr j))"
        using ev sending assms dv by (cases w; auto split: option.splits)+
      then show ?thesis
        using sending False dv by (intro sent [of i created c w]) (auto simp: i_def st_def created_def)
    qed
  qed
qed

lemma put_intent_stores [simp]:
  "tw_ledger (put_intent i W) = tw_ledger W" "tw_deliveries (put_intent i W) = tw_deliveries W"
  "tw_impact_receipts (put_intent i W) = tw_impact_receipts W" "tw_consents (put_intent i W) = tw_consents W"
  "tw_preferences (put_intent i W) = tw_preferences W"
  "dget (tw_intents (put_intent i W)) k = (if k = ni_id i then Some i else dget (tw_intents W) k)"
  by (simp_all add: put_intent_def)

lemma deliver_result:
  assumes "deliver E A i N = (Inr d, N')"
  shows "\<exists>st. dget (tw_intents (ns_ws N')) (ni_id i) = Some (i\<lparr>ni_status := st\<rparr>) \<and>
    dget (tw_by_dedup (ns_ws N')) (ni_dedup i) = Some (i\<lparr>ni_status := st\<rparr>)"
  using assms by (auto simp: deliver_def Let_def split_beta put_intent_def split: option.splits sum.splits)

lemma evaluate_keeps:
  assumes "inj (uuid4_hex E)" "notif_ok E (ns_ws N)"
    "evaluate_intent E A d ch mc source_type source_id payload template created_at do_deliver N = (v, N')"
  shows "notif_ok E (ns_ws N')"
  using assms(3)
proof (cases rule: evaluate_cases)
  case (stopped i created c)
  then have "\<not> attempted (ni_status i)" by simp
  from put_new_intent(1) [OF assms(1,2) stopped(8) this stopped(6), of c] stopped(2) show ?thesis by simp
next
  case (sent i created c w)
  let ?N1 = "N\<lparr>ns_ws := put_intent i ((ns_ws N)\<lparr>tw_ledger := drew 1 c (tw_ledger (ns_ws N))\<rparr>)\<rparr>"
  have "\<not> attempted (ni_status i)" using sent(2) by simp
  then have "notif_ok E (ns_ws ?N1)" using put_new_intent(1) [OF assms(1,2) sent(6) _ sent(4)] by simp
  then have "notif_ok E (ns_ws (snd (deliver E A i ?N1)))"
    using sent(2) by (intro deliver_keeps [OF assms(1)]) simp_all
  then show ?thesis using sent(9) by simp
qed (use assms(2) in simp_all)

text \<open>What a delivery or an evaluation leaves alone.\<close>

definition books_kept :: "'x tenant_workspace \<Rightarrow> 'x tenant_workspace \<Rightarrow> bool" where
  "books_kept W W' \<longleftrightarrow> only_draws (tw_ledger W) (tw_ledger W') \<and> tw_impact_receipts W' = tw_impact_receipts W \<and>
     tw_consents W' = tw_consents W \<and> tw_preferences W' = tw_preferences W"

lemma books_kept_refl [simp]: "books_kept W W"
  by (simp add: books_kept_def)

lemma add_delivery_books: "books_kept W (snd (add_delivery E i s p r t W))"
  using add_delivery_eq [of E i s p r t W] by (auto simp: books_kept_def)

lemma books_kept_trans: "books_kept W W1 \<Longrightarrow> books_kept W1 W2 \<Longrightarrow> books_kept W W2"
  unfolding books_kept_def using only_draws_trans by metis

lemma deliver_books: "books_kept (ns_ws N) (ns_ws (snd (deliver E A i N)))"
proof -
  have "books_kept W (snd (add_delivery E i s p r t (put_intent j W)))" for s p r t j and W :: "'a tenant_workspace"
    by (rule books_kept_trans [OF _ add_delivery_books]) (simp add: books_kept_def)
  then show ?thesis by (auto simp: deliver_def Let_def split_beta split: option.splits sum.splits)
qed

lemma evaluate_books:
  assumes "evaluate_intent E A d ch mc source_type source_id payload template created_at do_deliver N = (v, N')"
  shows "books_kept (ns_ws N) (ns_ws N')"
  using assms
proof (cases rule: evaluate_cases)
  case (stopped i created c)
  then show ?thesis by (simp add: books_kept_def)
next
  case (sent i created c w)
  let ?N1 = "N\<lparr>ns_ws := put_intent i ((ns_ws N)\<lparr>tw_ledger := drew 1 c (tw_ledger (ns_ws N))\<rparr>)\<rparr>"
  have "books_kept (ns_ws N) (ns_ws ?N1)" by (simp add: books_kept_def)
  then show ?thesis using deliver_books [of ?N1 E A i] sent(9) books_kept_trans by fastforce
qed simp_all

section \<open>The adapter interface\<close>

text \<open>What the service relies on: an adapter answers every intent and does not raise.\<close>

locale delivery_adapter =
  fixes A :: "'x adapter_api"
  assumes answers: "\<exists>r a'. ad_deliver A i a = (Inr r, a')"
begin

lemma deliver_returns:
  "\<exists>d N'. deliver E A i N = (Inr d, N') \<and> dget (tw_intents (ns_ws N')) (ni_id i) \<noteq> None"
  using answers [of i "the (dget (ns_adapters N) (ni_channel i))"]
  by (cases "dget (ns_adapters N) (ni_channel i)") (auto simp: deliver_def Let_def split_beta)

lemma evaluate_returns:
  assumes "dget (donors (tw_ledger (ns_ws N))) d \<noteq> None"
  shows "\<exists>i N'. evaluate_intent E A d ch mc source_type source_id payload template created_at do_deliver N = (Inr i, N')"
proof -
  obtain v N' where ev: "evaluate_intent E A d ch mc source_type source_id payload template created_at do_deliver N = (v, N')"
    by (cases "evaluate_intent E A d ch mc source_type source_id payload template created_at do_deliver N")
  from ev have "\<exists>i. v = Inr i"
  proof (cases rule: evaluate_cases)
    case (sent i created c w)
    then show ?thesis
      using deliver_returns [of E i "N\<lparr>ns_ws := put_intent i ((ns_ws N)\<lparr>tw_ledger := drew 1 c (tw_ledger (ns_ws N))\<rparr>)\<rparr>"]
      by auto
  qed (use assms in simp_all)
  with ev show ?thesis by blast
qed

end

interpretation in_process: delivery_adapter in_process_api
  by unfold_locales (auto simp: in_process_api_def in_process_deliver_def Let_def)

end
