(* ===== verification/Tenant.thy ===== *)
theory Tenant
  imports Impact Notifications
begin

text \<open>
  Histories of a workspace and the platform of \<^verbatim>\<open>domain/tenant.py\<close>: every mutation of the ledger, of the
  impact service and of the notification service is a command, and the platform keeps one workspace
  per organization.
\<close>

section \<open>Commands of a workspace\<close>

datatype workspace_cmd =
    LedgerCmd ledger_cmd
  | RegisterProgram program
  | RegisterFundedAsset funded_asset
  | DeployAsset string
  | SubmitImpactEvent impact_event
  | VerifyImpactEvent string string
  | PublishImpactReceipts string string "string option"
  | RecordConsent consent_record
  | SetPreference notification_preference
  | EvaluateIntent string notification_channel message_class string string "(string \<times> json) list" string
      "string option" bool
  | EvaluateForUseOfFunds string notification_channel bool "(string \<times> json) list option"
  | EvaluateForImpact string notification_channel bool

definition on_ws :: "('x tenant_workspace \<Rightarrow> 'a \<times> 'x tenant_workspace) \<Rightarrow> 'x notification_service \<Rightarrow> 'x notification_service" where
  "on_ws f N = N\<lparr>ns_ws := snd (f (ns_ws N))\<rparr>"

fun service_step :: "env \<Rightarrow> 'x adapter_api \<Rightarrow> 'x notification_service \<Rightarrow> workspace_cmd \<Rightarrow> 'x notification_service" where
  "service_step E A N (LedgerCmd c) =
     N\<lparr>ns_ws := (ns_ws N)\<lparr>tw_ledger := ledger_step E (tw_ledger (ns_ws N)) c\<rparr>\<rparr>"
| "service_step E A N (RegisterProgram p) = on_ws (register_program p) N"
| "service_step E A N (RegisterFundedAsset a) = on_ws (register_funded_asset a) N"
| "service_step E A N (DeployAsset i) = on_ws (deploy_asset i) N"
| "service_step E A N (SubmitImpactEvent ev) = on_ws (submit_impact_event ev) N"
| "service_step E A N (VerifyImpactEvent i by) = on_ws (verify_impact_event E i by) N"
| "service_step E A N (PublishImpactReceipts i actor created) = on_ws (publish_impact_receipts E i actor created) N"
| "service_step E A N (RecordConsent c) = snd (record_consent c N)"
| "service_step E A N (SetPreference p) = snd (set_preference p N)"
| "service_step E A N (EvaluateIntent d ch mc st sid pl tpl created dlv) =
     snd (evaluate_intent E A d ch mc st sid pl tpl created dlv N)"
| "service_step E A N (EvaluateForUseOfFunds r ch dlv patch) = snd (evaluate_for_use_of_funds E A r ch dlv patch N)"
| "service_step E A N (EvaluateForImpact r ch dlv) = snd (evaluate_for_impact E A r ch dlv N)"

text \<open>The discipline of the ledger, on the ledger commands of a history.\<close>

fun ws_disciplined :: "env \<Rightarrow> 'x notification_service \<Rightarrow> workspace_cmd \<Rightarrow> bool" where
  "ws_disciplined E N (LedgerCmd c) = disciplined E (tw_ledger (ns_ws N)) c"
| "ws_disciplined E N _ = True"

section \<open>The services leave the ledger's stores alone\<close>

lemma impact_ops_books:
  "tw_ledger (snd (register_program p W)) = tw_ledger W"
  "tw_ledger (snd (register_funded_asset a W)) = tw_ledger W"
  "tw_ledger (snd (deploy_asset i W)) = tw_ledger W"
  "tw_ledger (snd (submit_impact_event ev W)) = tw_ledger W"
  "only_draws (tw_ledger W) (tw_ledger (snd (verify_impact_event E i by W)))"
  by (auto simp: register_program_def register_funded_asset_def deploy_asset_def submit_impact_event_def
      verify_impact_event_def Let_def split_beta split: option.splits)

lemma asset_expenses_ledger [simp]: "asset_expenses (W\<lparr>tw_ledger := L\<rparr>) as = asset_expenses W as"
  by (induction as) (auto split: option.split)

lemma make_builds_impact:
  "builds_impact (\<lambda>rid t a. make_impact_receipt E org rid t a ev event_id p linked actor created) event_id"
  by (simp add: builds_impact_def make_impact_receipt_def)

text \<open>The publication is the loop, after its guards.\<close>

lemma publish_impact_cases:
  assumes "publish_impact_receipts E event_id actor created_at W = (v, W')"
  obtains (refused) e c where "v = Inl e" "W' = W\<lparr>tw_ledger := drew 0 c (tw_ledger W)\<rparr>"
    | (looped) ev p es linked created c where "dget (tw_impact_events W) event_id = Some ev" "ie_state ev = IE_VERIFIED"
      "dget (tw_programs W) (ie_program ev) = Some p" "asset_expenses W (ie_assets ev) = Inr es"
      "linked = sort (remdups (ie_expenses ev @ es))" "linked \<noteq> []"
      "impact_loop E (\<lambda>rid t a. make_impact_receipt E (tw_org W) rid t a ev event_id p linked actor created)
         event_id linked [] (dvalues (attributions (tw_ledger W))) (W\<lparr>tw_ledger := drew 0 c (tw_ledger W)\<rparr>) = (v, W')"
proof -
  obtain c where c: "snd (tw_time_or_now E created_at W) = W\<lparr>tw_ledger := drew 0 c (tw_ledger W)\<rparr>"
    using tw_time_or_now_snd by blast
  have self: "W = W\<lparr>tw_ledger := drew 0 0 (tw_ledger W)\<rparr>" by (simp add: drew_def)
  show thesis
  proof (cases "\<exists>ev p es. dget (tw_impact_events W) event_id = Some ev \<and> ie_state ev = IE_VERIFIED \<and>
      dget (tw_programs W) (ie_program ev) = Some p \<and> asset_expenses W (ie_assets ev) = Inr es \<and>
      remdups (ie_expenses ev @ es) \<noteq> []")
    case True
    then obtain ev p es where *: "dget (tw_impact_events W) event_id = Some ev" "ie_state ev = IE_VERIFIED"
      "dget (tw_programs W) (ie_program ev) = Some p" "asset_expenses W (ie_assets ev) = Inr es"
      "remdups (ie_expenses ev @ es) \<noteq> []" by blast
    have "sort (remdups (ie_expenses ev @ es)) \<noteq> []" using *(5) by (metis length_sort length_0_conv)
    then show ?thesis
      using assms * c by (intro looped [OF *(1-4) refl, of "fst (tw_time_or_now E created_at W)" c])
        (simp_all add: publish_impact_receipts_def Let_def split_beta)
  next
    case False
    then have "(\<exists>e. v = Inl e) \<and> (W' = W \<or> W' = snd (tw_time_or_now E created_at W))"
      using assms c by (auto simp: publish_impact_receipts_def Let_def split_beta split: option.splits if_splits sum.splits)
    then show ?thesis using refused self c by metis
  qed
qed

lemma publish_impact_frame:
  "\<exists>u c R. snd (publish_impact_receipts E event_id actor created_at W) =
     W\<lparr>tw_ledger := drew u c (tw_ledger W), tw_impact_receipts := R\<rparr>"
proof -
  obtain v W' where p: "publish_impact_receipts E event_id actor created_at W = (v, W')"
    by (cases "publish_impact_receipts E event_id actor created_at W")
  from p show ?thesis
  proof (cases rule: publish_impact_cases)
    case (refused e c)
    then show ?thesis using p by (intro exI [of _ 0] exI [of _ c] exI [of _ "tw_impact_receipts W"]) simp
  next
    case (looped ev pr es linked created c)
    obtain u R where "W' = W\<lparr>tw_ledger := drew u c (tw_ledger W), tw_impact_receipts := R\<rparr>"
      using impact_loop_frame [of E "\<lambda>rid t a. make_impact_receipt E (tw_org W) rid t a ev event_id pr linked actor created"
          event_id linked "[]" "dvalues (attributions (tw_ledger W))" "W\<lparr>tw_ledger := drew 0 c (tw_ledger W)\<rparr>"]
      unfolding looped(7) by auto
    then show ?thesis unfolding p snd_conv by blast
  qed
qed

definition is_ledger_cmd :: "workspace_cmd \<Rightarrow> bool" where
  "is_ledger_cmd c \<longleftrightarrow> (\<exists>lc. c = LedgerCmd lc)"

lemma evaluate_only_draws:
  "only_draws (tw_ledger (ns_ws N)) (tw_ledger (ns_ws (snd (evaluate_intent E A d ch mc st sid pl tpl created dlv N))))"
  using evaluate_books [of E A d ch mc st sid pl tpl created dlv N]
  by (cases "evaluate_intent E A d ch mc st sid pl tpl created dlv N") (auto simp: books_kept_def)

lemma service_step_only_draws:
  assumes "\<not> is_ledger_cmd c"
  shows "only_draws (tw_ledger (ns_ws N)) (tw_ledger (ns_ws (service_step E A N c)))"
proof (cases c)
  case (PublishImpactReceipts i actor created)
  then show ?thesis using publish_impact_frame [of E i actor created "ns_ws N"] by (auto simp: on_ws_def)
next
  case (EvaluateForUseOfFunds r ch dlv patch)
  then show ?thesis by (auto simp: evaluate_for_use_of_funds_def evaluate_only_draws split: option.splits)
next
  case (EvaluateForImpact r ch dlv)
  then show ?thesis by (auto simp: evaluate_for_impact_def evaluate_only_draws split: option.splits)
qed (use assms in \<open>auto simp: is_ledger_cmd_def on_ws_def impact_ops_books evaluate_only_draws
      record_consent_def set_preference_def Let_def\<close>)

lemma service_step_effects:
  assumes "fr \<Longrightarrow> ws_disciplined E N c"
  shows "effects fr (tw_ledger (ns_ws N)) (tw_ledger (ns_ws (service_step E A N c)))"
proof (cases "is_ledger_cmd c")
  case True
  then obtain lc where c: "c = LedgerCmd lc" by (auto simp: is_ledger_cmd_def)
  have "effects fr (tw_ledger (ns_ws N)) (ledger_step E (tw_ledger (ns_ws N)) lc)"
    using assms c by (intro ledger_step_effects) simp
  then show ?thesis using c by simp
next
  case False
  then show ?thesis using service_step_only_draws only_draws_effect by blast
qed

section \<open>Invariants of a workspace\<close>

lemma service_step_draws:
  "uuid_draws (tw_ledger (ns_ws N)) \<le> uuid_draws (tw_ledger (ns_ws (service_step E A N c)))"
  using service_step_effects [of False E N c A] effects_draws_mono by blast

lemma publish_impact_keeps:
  assumes "inj (uuid4_hex E)" "impact_ok E W"
  shows "impact_ok E (snd (publish_impact_receipts E i actor created_at W))"
proof -
  obtain v W' where p: "publish_impact_receipts E i actor created_at W = (v, W')"
    by (cases "publish_impact_receipts E i actor created_at W")
  have 0: "impact_ok E (W\<lparr>tw_ledger := drew 0 c (tw_ledger W)\<rparr>)" for c
    by (rule impact_ok_frame [OF assms(2)]) simp_all
  from p have "impact_ok E W'"
  proof (cases rule: publish_impact_cases)
    case (looped ev pr es linked created c)
    then show ?thesis using impact_loop_keeps [OF assms(1) make_builds_impact 0] by blast
  qed (use 0 in simp)
  then show ?thesis using p by simp
qed

lemma evaluate_impacts:
  "tw_impact_receipts (ns_ws (snd (evaluate_intent E A d ch mc st sid pl tpl created dlv N))) = tw_impact_receipts (ns_ws N)"
  using evaluate_books [of E A d ch mc st sid pl tpl created dlv N]
  by (cases "evaluate_intent E A d ch mc st sid pl tpl created dlv N") (auto simp: books_kept_def)

lemma service_step_impact:
  assumes "inj (uuid4_hex E)" "impact_ok E (ns_ws N)"
  shows "impact_ok E (ns_ws (service_step E A N c))"
proof (cases "\<exists>i actor created. c = PublishImpactReceipts i actor created")
  case True
  then show ?thesis using publish_impact_keeps [OF assms] by (auto simp: on_ws_def)
next
  case False
  then have "tw_impact_receipts (ns_ws (service_step E A N c)) = tw_impact_receipts (ns_ws N)"
    by (cases c) (auto simp: on_ws_def evaluate_impacts evaluate_for_use_of_funds_def evaluate_for_impact_def
        record_consent_def set_preference_def register_program_def register_funded_asset_def deploy_asset_def
        submit_impact_event_def verify_impact_event_def Let_def split_beta split: option.splits)
  then show ?thesis by (rule impact_ok_frame [OF assms(2)]) (rule service_step_draws)
qed

lemma evaluate_notif:
  assumes "inj (uuid4_hex E)" "notif_ok E (ns_ws N)"
  shows "notif_ok E (ns_ws (snd (evaluate_intent E A d ch mc st sid pl tpl created dlv N)))"
  using evaluate_keeps [OF assms, of A d ch mc st sid pl tpl created dlv]
  by (cases "evaluate_intent E A d ch mc st sid pl tpl created dlv N") auto

lemma service_step_notif:
  assumes "inj (uuid4_hex E)" "notif_ok E (ns_ws N)"
  shows "notif_ok E (ns_ws (service_step E A N c))"
proof -
  let ?N = "service_step E A N c"
  have frame: "notif_ok E (ns_ws ?N)"
    if "tw_intents (ns_ws ?N) = tw_intents (ns_ws N)" "tw_by_dedup (ns_ws ?N) = tw_by_dedup (ns_ws N)"
      "tw_deliveries (ns_ws ?N) = tw_deliveries (ns_ws N)"
    using that by (rule notif_ok_frame [OF assms(2)]) (rule service_step_draws)
  show ?thesis
  proof (cases c)
    case (PublishImpactReceipts i actor created)
    then show ?thesis
      using publish_impact_frame [of E i actor created "ns_ws N"] by (intro frame) (auto simp: on_ws_def)
  next
    case (EvaluateIntent d ch mc st sid pl tpl created dlv)
    then show ?thesis by (simp add: evaluate_notif [OF assms])
  next
    case (EvaluateForUseOfFunds r ch dlv patch)
    then show ?thesis
      using assms(2) evaluate_notif [OF assms] by (simp add: evaluate_for_use_of_funds_def split: option.split)
  next
    case (EvaluateForImpact r ch dlv)
    then show ?thesis
      using assms(2) evaluate_notif [OF assms] by (simp add: evaluate_for_impact_def split: option.split)
  qed (rule frame; simp add: on_ws_def record_consent_def set_preference_def register_program_def register_funded_asset_def
      deploy_asset_def submit_impact_event_def verify_impact_event_def Let_def split_beta split: option.split)+
qed

interpretation workspace_books: kept_invariant "service_step E A" "ws_disciplined E" "\<lambda>N. ledger_inv (tw_ledger (ns_ws N))" for E A
  by unfold_locales (blast intro: effects_keep [OF service_step_effects, of True] effect_inv)

interpretation workspace_impact: kept_invariant "service_step E A" "\<lambda>_ _. inj (uuid4_hex E)" "\<lambda>N. impact_ok E (ns_ws N)" for E A
  by unfold_locales (rule service_step_impact)

interpretation workspace_notif: kept_invariant "service_step E A" "\<lambda>_ _. inj (uuid4_hex E)" "\<lambda>N. notif_ok E (ns_ws N)" for E A
  by unfold_locales (rule service_step_notif)

text \<open>A new workspace with the service on it.\<close>

definition new_service :: "'x adapter_api \<Rightarrow> organization \<Rightarrow> 'x notification_service" where
  "new_service A org = notifications A (empty_workspace (empty_ledger org))"

lemma new_service_ws [simp]:
  "ns_ws (new_service A org) = empty_workspace (empty_ledger org)"
  by (simp add: new_service_def notifications_def)

lemma new_service_ok:
  "impact_ok E (ns_ws (new_service A org))" "notif_ok E (ns_ws (new_service A org))"
  "ledger_inv (tw_ledger (ns_ws (new_service A org)))"
  by (simp_all add: empty_workspace_def impact_ok_def notif_ok_def intents_ok_def deliveries_ok_def empty_ledger_inv)

section \<open>The platform\<close>

type_synonym 'x platform = "(string, 'x tenant_workspace) dict"

definition register_organization ::
  "organization \<Rightarrow> 'x platform \<Rightarrow> 'x tenant_workspace outcome \<times> 'x platform" where
  "register_organization org P =
     (if dhas P (org_id org)
      then (Inl (TenantIsolationError (''organization already registered: '' @ org_id org)), P)
      else case make_workspace org None of
        Inl e \<Rightarrow> (Inl e, P)
      | Inr W \<Rightarrow> (Inr W, dset (org_id org) W P))"

definition get_workspace :: "'x platform \<Rightarrow> string \<Rightarrow> 'x tenant_workspace outcome" where
  "get_workspace P i =
     (case dget P i of None \<Rightarrow> Inl (TenantIsolationError (''unknown organization: '' @ i)) | Some W \<Rightarrow> Inr W)"

definition list_organization_ids :: "'x platform \<Rightarrow> string list" where
  "list_organization_ids P = sort (map fst P)"

definition require_same_tenant :: "'x platform \<Rightarrow> string \<Rightarrow> string \<Rightarrow> 'x tenant_workspace outcome" where
  "require_same_tenant P i d =
     (case get_workspace P i of Inl e \<Rightarrow> Inl e | Inr W \<Rightarrow>
      case dget (donors (tw_ledger W)) d of
        None \<Rightarrow> Inl (TenantIsolationError (''cross-tenant or unknown donor access denied: '' @ d))
      | Some dn \<Rightarrow>
          if donor_org dn \<noteq> i
          then Inl (TenantIsolationError (''cross-tenant or unknown donor access denied: '' @ d))
          else Inr W)"

text \<open>A command on a workspace of the platform. Configured adapters are shared with the workspace and keep
  their state; default adapters live as long as the service.\<close>

definition run_in_workspace :: "env \<Rightarrow> 'x adapter_api \<Rightarrow> workspace_cmd \<Rightarrow> 'x tenant_workspace \<Rightarrow> 'x tenant_workspace" where
  "run_in_workspace E A c W =
     (let N = service_step E A (notifications A W) c in
      case tw_adapters W of
        Some (x # xs) \<Rightarrow> (ns_ws N)\<lparr>tw_adapters := Some (ns_adapters N)\<rparr>
      | _ \<Rightarrow> ns_ws N)"

datatype platform_cmd = RegisterOrganization organization | InWorkspace string workspace_cmd

fun target :: "platform_cmd \<Rightarrow> string" where
  "target (RegisterOrganization org) = org_id org"
| "target (InWorkspace i c) = i"

fun platform_step :: "env \<Rightarrow> 'x adapter_api \<Rightarrow> 'x platform \<Rightarrow> platform_cmd \<Rightarrow> 'x platform" where
  "platform_step E A P (RegisterOrganization org) = snd (register_organization org P)"
| "platform_step E A P (InWorkspace i c) =
     (case dget P i of None \<Rightarrow> P | Some W \<Rightarrow> dset i (run_in_workspace E A c W) P)"

text \<open>Every workspace serves the organization it is registered under, and holds only its parties.\<close>

definition platform_ok :: "'x platform \<Rightarrow> bool" where
  "platform_ok P \<longleftrightarrow> (\<forall>i W. dget P i = Some W \<longrightarrow> org_id (tw_org W) = i \<and> ledger_base_inv (tw_ledger W))"

lemma run_in_workspace_ledger:
  "tw_ledger (run_in_workspace E A c W) = tw_ledger (ns_ws (service_step E A (notifications A W) c))"
  by (simp add: run_in_workspace_def Let_def split: option.split list.split)

lemma effects_organization: "effects fr L L' \<Longrightarrow> organization L' = organization L"
  by (erule effects_keep [where I = "\<lambda>K. organization K = organization L"]) (auto dest: effect_refs(1))

lemma run_in_workspace_ok:
  assumes "org_id (tw_org W) = i" "ledger_base_inv (tw_ledger W)"
  shows "org_id (tw_org (run_in_workspace E A c W)) = i \<and> ledger_base_inv (tw_ledger (run_in_workspace E A c W))"
proof -
  have "effects False (tw_ledger W) (tw_ledger (run_in_workspace E A c W))"
    using service_step_effects [of False E "notifications A W" c A]
    by (simp add: run_in_workspace_ledger notifications_def)
  from effects_organization [OF this] effects_keep [where I = ledger_base_inv, OF this assms(2) effect_base_inv]
    assms(1) show ?thesis
    by (simp add: tw_org_def)
qed

lemma platform_step_ok: "platform_ok P \<Longrightarrow> platform_ok (platform_step E A P c)"
proof (cases c)
  case (RegisterOrganization org)
  assume "platform_ok P"
  then show ?thesis
    using RegisterOrganization empty_ledger_base_inv [of org]
    by (auto simp: register_organization_def make_workspace_def Let_def platform_ok_def empty_workspace_def tw_org_def
        empty_ledger_def)
next
  case (InWorkspace i c')
  assume ok: "platform_ok P"
  show ?thesis
  proof (cases "dget P i")
    case (Some W)
    then have "org_id (tw_org W) = i" "ledger_base_inv (tw_ledger W)" using ok by (auto simp: platform_ok_def)
    from run_in_workspace_ok [OF this] ok Some InWorkspace show ?thesis by (simp add: platform_ok_def)
  qed (use ok InWorkspace in simp)
qed

interpretation platform_parties: kept_invariant "platform_step E A" "\<lambda>_ _. True" platform_ok for E A
  by unfold_locales (rule platform_step_ok)

lemma other_tenant_step: "target c \<noteq> i \<Longrightarrow> dget (platform_step E A P c) i = dget P i"
  by (cases c) (auto simp: register_organization_def split: option.splits sum.splits)

lemma other_tenant_run: "\<forall>c \<in> set cs. target c \<noteq> i \<Longrightarrow> dget (run (platform_step E A) P cs) i = dget P i"
  by (induction cs arbitrary: P) (auto simp: other_tenant_step)

end
