(* ===== verification/Tenant_Properties.thy ===== *)
theory Tenant_Properties
  imports Tenant Scenario
begin

text \<open>
  Properties of a workspace over its histories, of the impact and notification services and of the
  platform, each with a witness on the scenario.
\<close>

abbreviation service_after :: "env \<Rightarrow> 'x adapter_api \<Rightarrow> organization \<Rightarrow> workspace_cmd list \<Rightarrow> 'x notification_service" where
  "service_after E A org cs \<equiv> run (service_step E A) (new_service A org) cs"

lemma service_after_impact: "inj (uuid4_hex E) \<Longrightarrow> impact_ok E (ns_ws (service_after E A org cs))"
  by (rule workspace_impact.run_keeps [OF new_service_ok(1)]) simp

lemma service_after_notif: "inj (uuid4_hex E) \<Longrightarrow> notif_ok E (ns_ws (service_after E A org cs))"
  by (rule workspace_notif.run_keeps [OF new_service_ok(2)]) simp

section \<open>The scenario\<close>

lemma demo_env_inj [simp]: "inj (uuid4_hex demo_env)"
  by (rule injI) (metis demo_env_simps(3) length_replicate)

definition demo_program :: program where
  "demo_program = \<lparr>prog_id = ''p'', prog_org = ''o'', prog_name = ''Wells'', prog_active = True\<rparr>"

definition demo_event :: "impact_event_state \<Rightarrow> string option \<Rightarrow> string option \<Rightarrow> impact_event" where
  "demo_event st by when = \<lparr>ie_id = ''v'', ie_org = ''o'', ie_program = ''p'', ie_event_type = ''opened'', ie_event_date = ''d'',
     ie_participants = 7, ie_state = st, ie_assets = [], ie_expenses = [''e''], ie_description = ''well'',
     ie_verified_by = by, ie_verified_at = when\<rparr>"

definition demo_consent :: consent_record where
  "demo_consent = \<lparr>con_donor = ''d'', con_org = ''o'', con_channel = EMAIL, con_granted = True,
     con_provenance = ''form'', con_recorded_at = ''t''\<rparr>"

definition demo_setup :: "workspace_cmd list" where
  "demo_setup = map LedgerCmd demo_history @
     [RegisterProgram demo_program, SubmitImpactEvent (demo_event IE_DRAFT None None), VerifyImpactEvent ''v'' ''aud'',
      RecordConsent demo_consent]"

definition demo_service :: "in_process_adapter notification_service" where
  "demo_service = service_after demo_env in_process_api demo_org demo_setup"

lemma run_ledger_cmds:
  "run (service_step E A) N (map LedgerCmd cs) =
     N\<lparr>ns_ws := (ns_ws N)\<lparr>tw_ledger := run (ledger_step E) (tw_ledger (ns_ws N)) cs\<rparr>\<rparr>"
  by (induction cs arbitrary: N) simp_all

lemma demo_service_eq:
  "demo_service = (notifications in_process_api (empty_workspace (empty_ledger demo_org)))
     \<lparr>ns_ws := (empty_workspace demo9)\<lparr>tw_ledger := snd (read_clock demo_env demo9), tw_programs := [(''p'', demo_program)],
        tw_impact_events := [(''v'', demo_event IE_VERIFIED (Some ''aud'') (Some ''t''))],
        tw_consents := [((''d'', ''EMAIL''), demo_consent)]\<rparr>\<rparr>"
  by (simp add: demo_service_def demo_setup_def run_append run_ledger_cmds on_ws_def register_program_def
      submit_impact_event_def verify_impact_event_def record_consent_def tw_org_def new_service_def notifications_def
      empty_workspace_def demo_run demo_program_def demo_event_def demo_consent_def Let_def tw_time_or_now_def
      time_or_now_def read_clock_def)

lemma demo_service_facts [simp]:
  "donors (tw_ledger (ns_ws demo_service)) = [(''d'', demo_donor)]" "tw_by_dedup (ns_ws demo_service) = []"
  "has_consent (ns_ws demo_service) ''d'' EMAIL" "pref_allows (ns_ws demo_service) ''d'' EMAIL mc"
  "\<not> in_quiet_hours (ns_ws demo_service) ''d'' EMAIL now" "tw_deliveries (ns_ws demo_service) = []"
  "tw_org (ns_ws demo_service) = demo_org"
  by (simp_all add: demo_service_eq empty_workspace_def has_consent_def pref_allows_def in_quiet_hours_def
      demo_consent_def tw_org_def)

section \<open>Notifications\<close>

text \<open>The donor hears of a message once: the example evaluates one message on the scenario.\<close>

abbreviation demo_send :: "in_process_adapter notification_service \<Rightarrow> notification_intent outcome \<times> in_process_adapter notification_service" where
  "demo_send \<equiv> evaluate_intent demo_env in_process_api ''d'' EMAIL MONEY_USED ''S'' ''1'' [] ''v1.0'' None True"

lemma demo_send_result:
  "\<exists>i N' k dl. demo_send demo_service = (Inr i, N') \<and> ni_status i = NI_DELIVERED \<and>
     tw_deliveries (ns_ws N') = [(k, dl)] \<and> nd_success dl \<and> nd_intent dl = ni_id i \<and>
     dget (tw_intents (ns_ws N')) (ni_id i) = Some i"
  by (simp add: demo_service_eq notifications_def empty_workspace_def evaluate_intent_def Let_def tw_time_or_now_def
      time_or_now_def read_clock_def tw_new_id_eq has_consent_def pref_allows_def in_quiet_hours_def demo_consent_def
      deliver_def in_process_api_def in_process_deliver_def add_delivery_def put_intent_def drew_def split_beta)

text \<open>C34. Nothing is sent twice. In every history of a workspace, two recorded deliveries whose intents
  have the same deduplication key are one delivery, and a delivery is recorded as successful exactly
  when its intent is DELIVERED. Identifiers drawn from the generator are taken to be distinct.\<close>

theorem one_delivery_per_message:
  assumes "inj (uuid4_hex E)" and "W = ns_ws (service_after E A org cs)"
    and "dget (tw_deliveries W) k1 = Some d1" and "dget (tw_deliveries W) k2 = Some d2"
    and "dget (tw_intents W) (nd_intent d1) = Some i1" and "dget (tw_intents W) (nd_intent d2) = Some i2"
    and "ni_dedup i1 = ni_dedup i2"
  shows "k1 = k2 \<and> (nd_success d1 \<longleftrightarrow> ni_status i1 = NI_DELIVERED)"
proof -
  have ints: "intents_ok E W" and dels: "deliveries_ok E W"
    using service_after_notif [OF assms(1)] assms(2) by (auto simp: notif_ok_def)
  note i1 = intents_okD(1) [OF ints assms(5)] and i2 = intents_okD(1) [OF ints assms(6)]
  have "i1 = i2" using i1 i2 assms(7) by (metis option.inject)
  then have "nd_intent d1 = nd_intent d2" using i1 i2 by metis
  then have "k1 = k2" by (rule deliveries_okD(2) [OF dels assms(3,4)])
  then show ?thesis using deliveries_okD(1) [OF dels assms(3)] assms(5) by simp
qed

theorem one_delivery_per_message_witness:
  "\<exists>W k d i. W = ns_ws (service_after demo_env in_process_api demo_org
       (demo_setup @ [EvaluateIntent ''d'' EMAIL MONEY_USED ''S'' ''1'' [] ''v1.0'' None True])) \<and>
     dget (tw_deliveries W) k = Some d \<and> dget (tw_intents W) (nd_intent d) = Some i \<and>
     nd_success d \<and> ni_status i = NI_DELIVERED"
proof -
  obtain i N' k dl where r: "demo_send demo_service = (Inr i, N')" "tw_deliveries (ns_ws N') = [(k, dl)]" "nd_success dl"
    "nd_intent dl = ni_id i" "dget (tw_intents (ns_ws N')) (ni_id i) = Some i" using demo_send_result by blast
  have W: "ns_ws N' = ns_ws (service_after demo_env in_process_api demo_org
       (demo_setup @ [EvaluateIntent ''d'' EMAIL MONEY_USED ''S'' ''1'' [] ''v1.0'' None True]))"
    using r(1) by (simp add: run_append demo_service_def [symmetric])
  have "dget (tw_deliveries (ns_ws N')) k = Some dl" using r(2) by simp
  moreover have "dget (tw_intents (ns_ws N')) (nd_intent dl) = Some i" using r(4,5) by simp
  ultimately show ?thesis
    using one_delivery_per_message [OF demo_env_inj W, of k dl k dl i i] W r(3) by blast
qed

text \<open>C35. Nothing is sent without leave: a call that reaches an adapter or records a delivery was asked to
  deliver, for a message not evaluated before, to a donor who consented to the channel, whose
  preference admits the message and who is not in quiet hours at the time of the message.\<close>

theorem no_delivery_without_consent:
  assumes "evaluate_intent E A d ch mc source_type source_id payload template created_at do_deliver N = (v, N')"
    and "tw_deliveries (ns_ws N') \<noteq> tw_deliveries (ns_ws N) \<or> ns_adapters N' \<noteq> ns_adapters N"
  shows "do_deliver \<and> has_consent (ns_ws N) d ch \<and> pref_allows (ns_ws N) d ch mc \<and>
    \<not> in_quiet_hours (ns_ws N) d ch (fst (tw_time_or_now E created_at (ns_ws N))) \<and>
    dget (tw_by_dedup (ns_ws N)) (dedup_key (org_id (tw_org (ns_ws N))) d ch mc source_type source_id template) = None"
  using assms(1)
proof (cases rule: evaluate_cases)
  case (sent i created c w)
  then show ?thesis by (auto simp: gate_status_def split: if_splits)
qed (use assms(2) in simp_all)

theorem no_delivery_without_consent_witness:
  "\<exists>v N'. demo_send demo_service = (v, N') \<and> tw_deliveries (ns_ws N') \<noteq> tw_deliveries (ns_ws demo_service) \<and>
     has_consent (ns_ws demo_service) ''d'' EMAIL \<and> pref_allows (ns_ws demo_service) ''d'' EMAIL MONEY_USED"
proof -
  obtain i N' k dl where r: "demo_send demo_service = (Inr i, N')" "tw_deliveries (ns_ws N') = [(k, dl)]"
    using demo_send_result by blast
  then have "tw_deliveries (ns_ws N') \<noteq> tw_deliveries (ns_ws demo_service)" by simp
  with no_delivery_without_consent [OF r(1) disjI1 [OF this]] r(1) show ?thesis by blast
qed

text \<open>A message is decided once: after it was evaluated, evaluating it again returns the intent stored
  then and changes nothing, whatever the time, the payload and the wish to deliver. A message deferred
  for quiet hours is among them: no later evaluation delivers it.\<close>

theorem evaluation_is_final:
  assumes "evaluate_intent E A d ch mc source_type source_id payload template created_at do_deliver N = (Inr i, N')"
  shows "evaluate_intent E A d ch mc source_type source_id payload' template created' do_deliver' N' = (Inr i, N')"
proof -
  let ?key = "dedup_key (org_id (tw_org (ns_ws N))) d ch mc source_type source_id template"
  have draws: "only_draws (tw_ledger (ns_ws N)) (tw_ledger (ns_ws N'))"
    using evaluate_books [OF assms] by (simp add: books_kept_def)
  have "dget (donors (tw_ledger (ns_ws N))) d \<noteq> None"
    using assms by (auto simp: evaluate_intent_def Let_def split: if_splits)
  moreover have "dget (tw_by_dedup (ns_ws N')) ?key = Some i"
    using assms
  proof (cases rule: evaluate_cases)
    case (stopped j created c)
    then show ?thesis by (simp add: put_intent_def)
  next
    case (sent j created c w)
    obtain dl where w: "w = Inr dl" using sent(10) by (cases w) auto
    show ?thesis using deliver_result [OF sent(9) [unfolded w]] sent(10) sent(5) w by auto
  qed simp_all
  ultimately show ?thesis
    using only_draws_stores(1,2) [OF draws] by (simp add: evaluate_intent_def Let_def tw_org_def)
qed

theorem evaluation_is_final_witness:
  "\<exists>i N'. demo_send demo_service = (Inr i, N') \<and> demo_send N' = (Inr i, N')"
proof -
  obtain i N' where "demo_send demo_service = (Inr i, N')" using demo_send_result by blast
  with evaluation_is_final [OF this] show ?thesis by blast
qed

text \<open>With the in-process adapters every message to a registered donor is answered with an intent: the
  evaluation never raises.\<close>

theorem every_known_donor_is_answered:
  assumes "dget (donors (tw_ledger (ns_ws N))) d \<noteq> None"
  shows "\<exists>i N'. evaluate_intent E in_process_api d ch mc source_type source_id payload template created_at do_deliver N =
    (Inr i, N')"
  by (rule in_process.evaluate_returns [OF assms])

theorem every_known_donor_is_answered_witness:
  "dget (donors (tw_ledger (ns_ws demo_service))) ''d'' \<noteq> None \<and> (\<exists>i N'. demo_send demo_service = (Inr i, N'))"
  using every_known_donor_is_answered [of demo_service "''d''"] by simp

section \<open>Impact receipts\<close>

lemma demo_publish_impact:
  "\<exists>r N'. publish_impact_receipts demo_env ''v'' ''ops'' None (ns_ws demo_service) = (Inr [r], N') \<and>
     ir_donor r = ''d'' \<and> ir_event r = ''v'' \<and> ir_allocation r = ''f'' \<and> tw_impact_receipts N' = [(ir_id r, r)]"
  by (simp add: demo_service_eq empty_workspace_def publish_impact_receipts_def demo_event_def demo_program_def
      tw_time_or_now_def time_or_now_def read_clock_def expense_verified_def tw_new_id_eq find_live_impact_def
      make_impact_receipt_def Let_def drew_def demo_attribution_def)

text \<open>In every history of a workspace there is at most one impact receipt per donor, event and fund.\<close>

theorem one_impact_receipt:
  assumes "inj (uuid4_hex E)" and "W = ns_ws (service_after E A org cs)"
    and "dget (tw_impact_receipts W) k1 = Some r1" and "dget (tw_impact_receipts W) k2 = Some r2"
    and "ir_donor r1 = ir_donor r2" and "ir_event r1 = ir_event r2" and "ir_allocation r1 = ir_allocation r2"
  shows "k1 = k2"
  using impact_okD(3) [OF service_after_impact [OF assms(1)]] assms(2-7) by metis

theorem one_impact_receipt_witness:
  "\<exists>W k r. W = ns_ws (service_after demo_env in_process_api demo_org (demo_setup @ [PublishImpactReceipts ''v'' ''ops'' None])) \<and>
     dget (tw_impact_receipts W) k = Some r \<and>
     (\<forall>j. dget (tw_impact_receipts W) j = Some r \<longrightarrow> j = k)"
proof -
  let ?W = "ns_ws (service_after demo_env in_process_api demo_org (demo_setup @ [PublishImpactReceipts ''v'' ''ops'' None]))"
  obtain r N' where r: "publish_impact_receipts demo_env ''v'' ''ops'' None (ns_ws demo_service) = (Inr [r], N')"
    "tw_impact_receipts N' = [(ir_id r, r)]" using demo_publish_impact by blast
  have "?W = N'" using r(1) by (simp add: run_append demo_service_def [symmetric] on_ws_def)
  then have "dget (tw_impact_receipts ?W) (ir_id r) = Some r" using r(2) by simp
  then show ?thesis using one_impact_receipt [OF demo_env_inj refl] by metis
qed

text \<open>A publication that returns is sound and complete: the event is verified; every receipt returned is
  stored, and is about an attribution on a verified linked expense; every such attribution has a
  receipt among those returned, and its donor had none for this event and fund before.\<close>

theorem impact_publication_complete:
  assumes "inj (uuid4_hex E)" and "W = ns_ws (service_after E A org cs)"
    and "publish_impact_receipts E event_id actor created_at W = (Inr rs, W')"
  shows "\<exists>ev linked. dget (tw_impact_events W) event_id = Some ev \<and> ie_state ev = IE_VERIFIED \<and>
    set (ie_expenses ev) \<subseteq> set linked \<and>
    (\<forall>r \<in> set rs. dget (tw_impact_receipts W') (ir_id r) = Some r \<and> ir_event r = event_id \<and>
       (\<exists>t \<in> set (dvalues (attributions (tw_ledger W))). at_expense t \<in> set linked \<and>
          expense_verified (tw_ledger W) (at_expense t) \<and> ir_donor r = at_donor t \<and>
          ir_donation r = at_donation t \<and> ir_allocation r = at_allocation t)) \<and>
    (\<forall>t \<in> set (dvalues (attributions (tw_ledger W))). at_expense t \<in> set linked \<longrightarrow>
       expense_verified (tw_ledger W) (at_expense t) \<longrightarrow>
       find_live_impact W (at_donor t) event_id (at_allocation t) = None \<and>
       (\<exists>r \<in> set rs. ir_donor r = at_donor t \<and> ir_allocation r = at_allocation t))"
  using assms(3)
proof (cases rule: publish_impact_cases)
  case (looped ev p es linked created c)
  let ?W = "W\<lparr>tw_ledger := drew 0 c (tw_ledger W)\<rparr>"
  have "impact_ok E W" using service_after_impact [OF assms(1)] assms(2) by simp
  then have ok: "impact_ok E ?W" by (rule impact_ok_frame) simp_all
  have find: "find_live_impact ?W = find_live_impact W" by (simp add: fun_eq_iff find_live_impact_def)
  note res = impact_loop_success [OF assms(1) make_builds_impact ok looped(7)]
  have verified: "expense_verified (drew 0 c L) x = expense_verified L x" for L x by (simp add: expense_verified_def)
  have "set (ie_expenses ev) \<subseteq> set linked" by (simp add: looped(5))
  moreover have "\<exists>t \<in> set (dvalues (attributions (tw_ledger W))). at_expense t \<in> set linked \<and>
          expense_verified (tw_ledger W) (at_expense t) \<and> ir_donor r = at_donor t \<and>
          ir_donation r = at_donation t \<and> ir_allocation r = at_allocation t"
    "ir_event r = event_id" if "r \<in> set rs" for r
    using res that by (fastforce simp: make_impact_receipt_def impact_eligible_def verified)+
  ultimately show ?thesis
    using looped(1,2) res by (intro exI [of _ ev] exI [of _ linked]) (simp add: impact_eligible_def verified find)
qed simp

theorem impact_publication_complete_witness:
  "\<exists>rs W'. publish_impact_receipts demo_env ''v'' ''ops'' None (ns_ws demo_service) = (Inr rs, W') \<and>
     (\<exists>r \<in> set rs. ir_donor r = ''d'' \<and> ir_allocation r = ''f'')"
proof -
  obtain r N' where "publish_impact_receipts demo_env ''v'' ''ops'' None (ns_ws demo_service) = (Inr [r], N')"
    using demo_publish_impact by blast
  note p = this
  have W: "ns_ws demo_service = ns_ws (service_after demo_env in_process_api demo_org demo_setup)"
    by (simp add: demo_service_def)
  have L: "attributions (tw_ledger (ns_ws demo_service)) = [(demo_id ''attr'' 9, demo_attribution)]"
    "expense_verified (tw_ledger (ns_ws demo_service)) ''e''"
    "dget (tw_impact_events (ns_ws demo_service)) ''v'' = Some (demo_event IE_VERIFIED (Some ''aud'') (Some ''t''))"
    by (simp_all add: demo_service_eq empty_workspace_def expense_verified_def)
  have "ie_expenses (demo_event IE_VERIFIED (Some ''aud'') (Some ''t'')) = [''e'']" by (simp add: demo_event_def)
  then show ?thesis
    using impact_publication_complete [OF demo_env_inj W p] p L by (auto simp: demo_attribution_def)
qed

text \<open>An event is published once: while one of the donors it was published for still has the attribution,
  publishing it again raises. A donor attributed to its expenses after the first publication gets no
  receipt for it.\<close>

theorem republication_refused:
  assumes "inj (uuid4_hex E)" and "W = ns_ws (service_after E A org cs)"
    and "dget (tw_impact_events W) event_id = Some ev" and "t \<in> set (dvalues (attributions (tw_ledger W)))"
    and "at_expense t \<in> set (ie_expenses ev)" and "expense_verified (tw_ledger W) (at_expense t)"
    and "find_live_impact W (at_donor t) event_id (at_allocation t) \<noteq> None"
  shows "\<exists>e. fst (publish_impact_receipts E event_id actor created_at W) = Inl e"
proof (rule ccontr)
  assume *: "\<nexists>e. fst (publish_impact_receipts E event_id actor created_at W) = Inl e"
  obtain v W' where p: "publish_impact_receipts E event_id actor created_at W = (v, W')"
    by (cases "publish_impact_receipts E event_id actor created_at W")
  with * obtain rs where v: "v = Inr rs" by (cases v) auto
  have "impact_ok E W" using service_after_impact [OF assms(1)] assms(2) by simp
  then have ok: "impact_ok E (W\<lparr>tw_ledger := drew 0 c (tw_ledger W)\<rparr>)" for c by (rule impact_ok_frame) simp_all
  from p show False
  proof (cases rule: publish_impact_cases)
    case (looped ev' q es linked created c)
    have "impact_eligible linked (tw_ledger W) t"
      using assms(3,5,6) looped(1,5) by (simp add: impact_eligible_def)
    with impact_loop_success [OF assms(1) make_builds_impact ok looped(7) [unfolded v]] assms(4)
    have "find_live_impact (W\<lparr>tw_ledger := drew 0 c (tw_ledger W)\<rparr>) (at_donor t) event_id (at_allocation t) = None"
      by simp
    then show False using assms(7) by (simp add: find_live_impact_def)
  qed (use v in simp)
qed

theorem republication_refused_witness:
  "\<exists>W e. W = ns_ws (service_after demo_env in_process_api demo_org (demo_setup @ [PublishImpactReceipts ''v'' ''ops'' None])) \<and>
     fst (publish_impact_receipts demo_env ''v'' ''ops'' None W) = Inl e"
proof -
  let ?W = "ns_ws (service_after demo_env in_process_api demo_org (demo_setup @ [PublishImpactReceipts ''v'' ''ops'' None]))"
  obtain r N' where r: "publish_impact_receipts demo_env ''v'' ''ops'' None (ns_ws demo_service) = (Inr [r], N')"
    "ir_donor r = ''d''" "ir_event r = ''v''" "ir_allocation r = ''f''" "tw_impact_receipts N' = [(ir_id r, r)]"
    using demo_publish_impact by blast
  have W: "?W = N'" using r(1) by (simp add: run_append demo_service_def [symmetric] on_ws_def)
  obtain u c R where fr: "N' = (ns_ws demo_service)\<lparr>tw_ledger := drew u c (tw_ledger (ns_ws demo_service)), tw_impact_receipts := R\<rparr>"
    using publish_impact_frame [of demo_env "''v''" "''ops''" None "ns_ws demo_service"] unfolding r(1) by auto
  have "dget (tw_impact_events N') ''v'' = Some (demo_event IE_VERIFIED (Some ''aud'') (Some ''t''))"
    "attributions (tw_ledger N') = [(demo_id ''attr'' 9, demo_attribution)]" "expense_verified (tw_ledger N') ''e''"
    by (simp_all add: fr demo_service_eq empty_workspace_def expense_verified_def)
  moreover have "find_live_impact N' ''d'' ''v'' ''f'' \<noteq> None" using r(2-5) by (simp add: find_live_impact_def)
  moreover have "at_donor demo_attribution = ''d''" by (simp add: demo_attribution_def)
  ultimately show ?thesis
    using republication_refused [OF demo_env_inj refl, of in_process_api demo_org
        "demo_setup @ [PublishImpactReceipts ''v'' ''ops'' None]" "''v''" _ demo_attribution "''ops''" None]
    unfolding W by (simp add: demo_event_def)
qed

section \<open>The whole workspace\<close>

lemma demo_setup_ok:
  "run_ok (service_step demo_env A) (ws_disciplined demo_env) (new_service A demo_org) demo_setup"
proof -
  have "run_ok (service_step demo_env A) (ws_disciplined demo_env) N (map LedgerCmd cs)"
    if "run_ok (ledger_step demo_env) (disciplined demo_env) (tw_ledger (ns_ws N)) cs" for N :: "'a notification_service" and cs
    using that by (induction cs arbitrary: N) simp_all
  then show ?thesis using demo_run_ok by (simp add: demo_setup_def run_ok_append empty_workspace_def)
qed



text \<open>C37. Tenants are isolated: in every history of the platform a workspace serves the organization it is
  registered under and every donor in it belongs to that organization, and commands addressed to
  other organizations leave it exactly as it was.\<close>

theorem tenant_isolation:
  assumes "P = run (platform_step E A) [] cs" and "get_workspace P i = Inr W"
  shows "org_id (tw_org W) = i \<and>
    (\<forall>d dn. dget (donors (tw_ledger W)) d = Some dn \<longrightarrow> donor_org dn = i) \<and>
    ((\<forall>c \<in> set ds. target c \<noteq> i) \<longrightarrow> get_workspace (run (platform_step E A) P ds) i = Inr W)"
proof -
  have "platform_ok P"
    unfolding assms(1) by (rule platform_parties.run_keeps) (simp_all add: platform_ok_def)
  moreover have "dget P i = Some W" using assms(2) by (auto simp: get_workspace_def split: option.splits)
  ultimately have "org_id (tw_org W) = i" "wf_parties (tw_ledger W)" "dget P i = Some W"
    by (auto simp: platform_ok_def ledger_base_inv_def ledger_wf_def)
  then show ?thesis
    using other_tenant_run [of ds i E A P]
    by (auto simp: wf_parties_def get_workspace_def tw_org_def dest: dall_dget)
qed

theorem tenant_isolation_witness:
  "\<exists>W :: in_process_adapter tenant_workspace.
     get_workspace (run (platform_step demo_env in_process_api)
       (run (platform_step demo_env in_process_api) []
          [RegisterOrganization demo_org, InWorkspace ''o'' (LedgerCmd (RegisterDonor demo_donor))])
       [InWorkspace ''x'' (DeployAsset ''a'')]) ''o'' = Inr W \<and> org_id (tw_org W) = ''o'' \<and> donors (tw_ledger W) \<noteq> []"
proof -
  let ?P = "run (platform_step demo_env in_process_api) []
    [RegisterOrganization demo_org, InWorkspace ''o'' (LedgerCmd (RegisterDonor demo_donor))]"
  have "get_workspace ?P ''o'' = Inr ((empty_workspace demo1) :: in_process_adapter tenant_workspace)"
    by (simp add: get_workspace_def register_organization_def make_workspace_def Let_def empty_ledger_def
        run_in_workspace_def notifications_def empty_workspace_def demo1_def demo0_def)
  from tenant_isolation [OF refl this, of "[InWorkspace ''x'' (DeployAsset ''a'')]"] show ?thesis
    by (intro exI [of _ "empty_workspace demo1"]) (simp add: empty_workspace_def)
qed

end
