(* ===== verification/Payload.thy ===== *)
theory Payload
  imports Json Money
begin

text \<open>
  Reading payload documents: amounts read back from text, as \<^verbatim>\<open>Decimal(str(value))\<close> reads them from a
  payload or a log. The literals are an optional sign, digits and an optional fraction, which is what
  the code itself writes; an exponent, an underscore or a special value is not read. Then the typed
  reads of a field of a dictionary, \<^verbatim>\<open>d[k]\<close> and \<^verbatim>\<open>d.get(k, default)\<close>.
\<close>

section \<open>Decimal literals\<close>

definition is_digit :: "char \<Rightarrow> bool" where
  "is_digit c \<longleftrightarrow> (let n = of_char c :: nat in 48 \<le> n \<and> n \<le> 57)"

definition digit_of :: "char \<Rightarrow> nat" where
  "digit_of c = of_char c - 48"

definition digits_value :: "string \<Rightarrow> nat" where
  "digits_value s = foldl (\<lambda>n c. 10 * n + digit_of c) 0 s"

definition split_sign :: "string \<Rightarrow> bool \<times> string" where
  "split_sign s =
     (case s of
        [] \<Rightarrow> (False, [])
      | c # cs \<Rightarrow> if c = CHR ''-'' then (True, cs) else if c = CHR ''+'' then (False, cs) else (False, s))"

definition parse_decimal :: "string \<Rightarrow> rat option" where
  "parse_decimal s =
     (let (neg, t) = split_sign s;
          ip = takeWhile (\<lambda>c. c \<noteq> CHR ''.'') t;
          fp = drop (Suc (length ip)) t
      in if ip @ fp = [] \<or> \<not> list_all is_digit (ip @ fp) then None
         else Some ((if neg then - 1 else 1) * of_nat (digits_value (ip @ fp)) / 10 ^ length fp))"

definition decimal_of_json :: "json \<Rightarrow> rat outcome" where
  "decimal_of_json j =
     (case j of
        JStr s \<Rightarrow> (case parse_decimal s of None \<Rightarrow> Inl InvalidOperation | Some x \<Rightarrow> Inr x)
      | JInt i \<Rightarrow> Inr (of_int i)
      | _ \<Rightarrow> Inl InvalidOperation)"

definition money_of_json :: "json \<Rightarrow> cents outcome" where
  "money_of_json j = (case decimal_of_json j of Inl e \<Rightarrow> Inl e | Inr x \<Rightarrow> money x)"

section \<open>Reading fields\<close>

definition bind_o :: "'a outcome \<Rightarrow> ('a \<Rightarrow> 'b outcome) \<Rightarrow> 'b outcome" where
  "bind_o r f = (case r of Inl e \<Rightarrow> Inl e | Inr a \<Rightarrow> f a)"

lemma bind_o_simps [simp]: "bind_o (Inl e) f = Inl e" "bind_o (Inr a) f = f a"
  by (simp_all add: bind_o_def)

definition as_str :: "json \<Rightarrow> string outcome" where
  "as_str j = (case j of JStr s \<Rightarrow> Inr s | _ \<Rightarrow> Inl (TypeError ''not a string''))"

text \<open>\<^verbatim>\<open>d[k]\<close>, \<^verbatim>\<open>d.get(k, default)\<close> and \<^verbatim>\<open>d.get(k)\<close>, for text.\<close>

definition need_str :: "json \<Rightarrow> string \<Rightarrow> string outcome" where
  "need_str j k = bind_o (jfield j k) as_str"

definition str_default :: "json \<Rightarrow> string \<Rightarrow> string \<Rightarrow> string outcome" where
  "str_default j k dflt = (case jget j k of None \<Rightarrow> Inr dflt | Some v \<Rightarrow> as_str v)"

definition opt_field :: "json \<Rightarrow> string \<Rightarrow> string option outcome" where
  "opt_field j k =
     (case jget j k of
        None \<Rightarrow> Inr None
      | Some JNull \<Rightarrow> Inr None
      | Some v \<Rightarrow> bind_o (as_str v) (\<lambda>s. Inr (Some s)))"

definition bool_default :: "json \<Rightarrow> string \<Rightarrow> bool \<Rightarrow> bool" where
  "bool_default j k dflt = (case jget j k of None \<Rightarrow> dflt | Some v \<Rightarrow> truthy v)"

definition money_field :: "json \<Rightarrow> string \<Rightarrow> cents outcome" where
  "money_field j k = bind_o (jfield j k) money_of_json"

text \<open>An enumeration read by value; an unknown value raises.\<close>

definition of_value :: "('e \<Rightarrow> string) \<Rightarrow> 'e list \<Rightarrow> string \<Rightarrow> 'e outcome" where
  "of_value val xs s =
     (case find (\<lambda>x. val x = s) xs of
        None \<Rightarrow> Inl (ValueError (s @ '' is not a valid member'')) | Some x \<Rightarrow> Inr x)"

section \<open>Reading back what is written\<close>

lemma digit_char_facts:
  "is_digit (digit_char n)" "digit_of (digit_char n) = n mod 10" "digit_char n \<noteq> CHR ''.''"
  "digit_char n \<noteq> CHR ''-''" "digit_char n \<noteq> CHR ''+''"
proof -
  have c: "of_char (digit_char n) = (48 + n mod 10 :: nat)"
    by (simp add: digit_char_def)
  have "digit_char n \<noteq> ch" if "of_char ch < (48 :: nat)" for ch
    using c that by auto
  then show "digit_char n \<noteq> CHR ''.''" "digit_char n \<noteq> CHR ''-''" "digit_char n \<noteq> CHR ''+''"
    by simp_all
  show "is_digit (digit_char n)" "digit_of (digit_char n) = n mod 10"
    using c by (auto simp: is_digit_def digit_of_def Let_def)
qed

lemma digits_value_simps [simp]:
  "digits_value [] = 0" "digits_value (xs @ [c]) = 10 * digits_value xs + digit_of c"
  by (simp_all add: digits_value_def)

lemma str_of_nat_digits:
  "list_all is_digit (str_of_nat n) \<and> digits_value (str_of_nat n) = n \<and> str_of_nat n \<noteq> [] \<and>
   CHR ''.'' \<notin> set (str_of_nat n) \<and> hd (str_of_nat n) \<noteq> CHR ''-'' \<and> hd (str_of_nat n) \<noteq> CHR ''+''"
proof (induction n rule: less_induct)
  case (less n)
  show ?case
  proof (cases "n < 10")
    case True
    then have "str_of_nat n = [digit_char n]" by (simp add: str_of_nat.simps)
    then show ?thesis using digit_char_facts [of n] digits_value_simps(2) [of "[]"] True by auto
  next
    case False
    then have eq: "str_of_nat n = str_of_nat (n div 10) @ [digit_char n]"
      by (subst str_of_nat.simps) simp
    show ?thesis
      using less [of "n div 10"] False digit_char_facts [of n] by (auto simp: eq)
  qed
qed

lemma cents_digits: "10 * (10 * (n div 100) + n mod 100 div 10 mod 10) + n mod 100 mod 10 = (n::nat)"
proof -
  have "n mod 100 = n mod (10 * 10)" by simp
  then have "n mod 100 = 10 * (n div 10 mod 10) + n mod 10" by (simp only: mod_mult2_eq)
  then have "n mod 100 div 10 mod 10 = n div 10 mod 10" "n mod 100 mod 10 = n mod 10" by simp_all
  moreover have "n div 100 = n div 10 div 10" by (simp add: div_mult2_eq [symmetric])
  ultimately show ?thesis by simp
qed

lemma parse_money_str: "parse_decimal (money_str c) = Some (of_int c / 100)"
proof -
  let ?i = "nat \<bar>c\<bar> div 100" and ?f = "nat \<bar>c\<bar> mod 100"
  let ?t = "str_of_nat ?i @ ''.'' @ two_digits ?f"
  note ds = str_of_nat_digits [of ?i]
  obtain x xs where x: "str_of_nat ?i = x # xs" using ds by (cases "str_of_nat ?i") auto
  have sign: "split_sign (money_str c) = (c < 0, ?t)"
    using ds by (auto simp: money_str_def split_sign_def x)
  have ip: "takeWhile (\<lambda>c. c \<noteq> CHR ''.'') ?t = str_of_nat ?i"
    using ds by (subst takeWhile_append2) auto
  have two: "two_digits ?f = [digit_char (?f div 10)] @ [digit_char ?f]" by (simp add: two_digits_def)
  have val: "digits_value (str_of_nat ?i @ two_digits ?f) = nat \<bar>c\<bar>"
  proof -
    have "str_of_nat ?i @ two_digits ?f = (str_of_nat ?i @ [digit_char (?f div 10)]) @ [digit_char ?f]"
      by (simp add: two)
    then have "digits_value (str_of_nat ?i @ two_digits ?f) = 10 * (10 * ?i + (?f div 10) mod 10) + ?f mod 10"
      using ds digit_char_facts(2) by (simp del: append_assoc)
    then show ?thesis using cents_digits by simp
  qed
  have fp: "drop (Suc (length (str_of_nat ?i))) ?t = two_digits ?f" by simp
  have len: "length (two_digits ?f) = 2" by (simp add: two_digits_def)
  have ok: "list_all is_digit (str_of_nat ?i @ two_digits ?f)" "str_of_nat ?i @ two_digits ?f \<noteq> []"
    using ds digit_char_facts(1) by (simp_all add: two_digits_def)
  have "parse_decimal (money_str c) = Some ((if c < 0 then - 1 else 1) * of_nat (nat \<bar>c\<bar>) / 10 ^ 2)"
    unfolding parse_decimal_def sign Let_def prod.case ip fp len val using ok by simp
  also have "(if c < 0 then - 1 else 1) * of_nat (nat \<bar>c\<bar>) = (of_int c :: rat)" by simp
  finally show ?thesis by simp
qed

text \<open>Amounts within the decimal context of 28 digits.\<close>

definition fits :: "cents \<Rightarrow> bool" where
  "fits c \<longleftrightarrow> \<bar>c\<bar> < 10 ^ 28"

lemma money_of_json_str: "fits c \<Longrightarrow> money_of_json (JStr (money_str c)) = Inr c"
  by (simp add: fits_def money_of_json_def decimal_of_json_def parse_money_str money_of_cents)

lemma read_fields [simp]:
  "need_str (JObj ((k, JStr s) # kvs)) k = Inr s"
  "j \<noteq> k \<Longrightarrow> need_str (JObj ((j, v) # kvs)) k = need_str (JObj kvs) k"
  "str_default (JObj ((k, JStr s) # kvs)) k dflt = Inr s"
  "j \<noteq> k \<Longrightarrow> str_default (JObj ((j, v) # kvs)) k dflt = str_default (JObj kvs) k dflt"
  "opt_field (JObj ((k, opt_str os) # kvs)) k = Inr os"
  "j \<noteq> k \<Longrightarrow> opt_field (JObj ((j, v) # kvs)) k = opt_field (JObj kvs) k"
  "bool_default (JObj ((k, JBool b) # kvs)) k b' = b"
  "j \<noteq> k \<Longrightarrow> bool_default (JObj ((j, v) # kvs)) k b' = bool_default (JObj kvs) k b'"
  "j \<noteq> k \<Longrightarrow> money_field (JObj ((j, v) # kvs)) k = money_field (JObj kvs) k"
  by (simp_all add: need_str_def as_str_def str_default_def opt_field_def opt_str_def bool_default_def
      money_field_def split: option.split)

lemma read_money [simp]: "fits c \<Longrightarrow> money_field (JObj ((k, JStr (money_str c)) # kvs)) k = Inr c"
  by (simp add: money_field_def money_of_json_str)

end
