(* ===== verification/Ledger_Log.thy ===== *)
theory Ledger_Log
  imports Payload Ledger_Invariants
begin

text \<open>
  The ledger's command log of \<^verbatim>\<open>domain/ledger_log.py\<close>: the document written for a command holds every store
  of the ledger, and a ledger is rebuilt by folding the documents in file order, without running any
  command again. The file is a list of JSON rows: writing a row as one line and reading the line back
  gives the row. A field of another JSON type than the one written is refused with a \<^verbatim>\<open>TypeError\<close>.
\<close>

section \<open>Enumerations by value\<close>

definition restriction_types :: "restriction_type list" where
  "restriction_types = [UNRESTRICTED, BOARD_DESIGNATED, DONOR_DESIGNATED, DONOR_RESTRICTED, GRANT_RESTRICTED,
     SPONSOR_RESTRICTED, IN_KIND]"

definition expense_states :: "expense_state list" where
  "expense_states = [DRAFT, IMPORTED, CLASSIFICATION_PENDING, APPROVAL_PENDING, APPROVED, RECONCILED, REJECTED,
     REVERSED, SUPERSEDED]"

definition attribution_methods :: "attribution_method list" where
  "attribution_methods = allowed_attribution_methods @ [NO_METHOD]"

section \<open>Entities as documents\<close>

definition organization_doc :: "organization \<Rightarrow> json" where
  "organization_doc x = JObj
     [(''id'', JStr (org_id x)), (''name'', JStr (org_name x)), (''policy_version'', JStr (org_policy_version x))]"

definition donor_doc :: "donor \<Rightarrow> json" where
  "donor_doc x = JObj
     [(''id'', JStr (donor_id x)), (''organization_id'', JStr (donor_org x)),
      (''display_name'', JStr (donor_display_name x))]"

definition donation_doc :: "donation \<Rightarrow> json" where
  "donation_doc x = JObj
     [(''id'', JStr (don_id x)), (''organization_id'', JStr (don_org x)), (''donor_id'', JStr (don_donor x)),
      (''amount'', JStr (money_str (don_amount x))), (''currency'', JStr (don_currency x)),
      (''cleared'', JBool (don_cleared x)), (''external_source_id'', JStr (don_external x)),
      (''received_at'', JStr (don_received_at x))]"

definition allocation_doc :: "allocation \<Rightarrow> json" where
  "allocation_doc x = JObj
     [(''id'', JStr (alloc_id x)), (''organization_id'', JStr (alloc_org x)), (''name'', JStr (alloc_name x)),
      (''purpose'', JStr (alloc_purpose x)), (''restriction_type'', JStr (restriction_value (alloc_restriction x)))]"

definition donation_allocation_doc :: "donation_allocation \<Rightarrow> json" where
  "donation_allocation_doc x = JObj
     [(''id'', JStr (da_id x)), (''donation_id'', JStr (da_donation x)), (''allocation_id'', JStr (da_allocation x)),
      (''amount'', JStr (money_str (da_amount x)))]"

definition expense_doc :: "expense \<Rightarrow> json" where
  "expense_doc x = JObj
     [(''id'', JStr (exp_id x)), (''organization_id'', JStr (exp_org x)), (''vendor'', JStr (exp_vendor x)),
      (''amount'', JStr (money_str (exp_amount x))), (''currency'', JStr (exp_currency x)),
      (''purchase_date'', JStr (exp_purchase_date x)), (''category'', JStr (exp_category x)),
      (''description'', JStr (exp_description x)), (''state'', JStr (expense_state_value (exp_state x))),
      (''external_source_id'', opt_str (exp_external x)), (''approved_by'', opt_str (exp_approved_by x)),
      (''reconciled_at'', opt_str (exp_reconciled_at x)), (''reversed_of_id'', opt_str (exp_reversed_of x)),
      (''supersedes_id'', opt_str (exp_supersedes x)), (''history_note'', opt_str (exp_history_note x))]"

definition expense_allocation_doc :: "expense_allocation \<Rightarrow> json" where
  "expense_allocation_doc x = JObj
     [(''id'', JStr (ea_id x)), (''expense_id'', JStr (ea_expense x)), (''allocation_id'', JStr (ea_allocation x)),
      (''amount'', JStr (money_str (ea_amount x)))]"

definition evidence_doc :: "evidence_record \<Rightarrow> json" where
  "evidence_doc x = JObj
     [(''id'', JStr (ev_id x)), (''expense_id'', JStr (ev_expense x)), (''kind'', JStr (ev_kind x)),
      (''summary'', JStr (ev_summary x)), (''donor_visible'', JBool (ev_donor_visible x))]"

definition attribution_doc :: "donor_expense_attribution \<Rightarrow> json" where
  "attribution_doc x = JObj
     [(''id'', JStr (at_id x)), (''donor_id'', JStr (at_donor x)), (''donation_id'', JStr (at_donation x)),
      (''expense_id'', JStr (at_expense x)), (''allocation_id'', JStr (at_allocation x)),
      (''attributed_amount'', JStr (money_str (at_amount x))), (''method'', JStr (method_value (at_method x))),
      (''policy_version'', JStr (at_policy_version x)), (''confidence'', JStr (at_confidence x))]"

definition receipt_doc :: "use_of_funds_receipt \<Rightarrow> json" where
  "receipt_doc x = JObj
     [(''receipt_id'', JStr (r_id x)), (''type'', JStr (r_type x)), (''organization_id'', JStr (r_org x)),
      (''organization_name'', JStr (r_org_name x)), (''donation_id'', JStr (r_donation x)),
      (''donor_id'', JStr (r_donor x)), (''allocation_id'', JStr (r_allocation x)),
      (''allocation_name'', JStr (r_allocation_name x)), (''restriction_type'', JStr (r_restriction x)),
      (''expenditure_expense_id'', JStr (r_expense x)), (''vendor'', JStr (r_vendor x)),
      (''gross_amount'', JStr (money_str (r_gross x))), (''attributed_amount'', JStr (money_str (r_attributed x))),
      (''purchase_date'', JStr (r_purchase_date x)), (''category'', JStr (r_category x)),
      (''description'', JStr (r_description x)), (''verification_state'', JStr (r_verification x)),
      (''remaining_designated_balance'', JStr (money_str (r_remaining x))),
      (''attribution_method'', JStr (r_method x)), (''policy_version'', JStr (r_policy_version x)),
      (''approved_by'', opt_str (r_approved_by x)), (''currency'', JStr (r_currency x)),
      (''receipt_hash'', JStr (r_hash x)), (''created_at'', JStr (r_created_at x)),
      (''corrected'', JBool (r_corrected x)), (''corrects_receipt_id'', opt_str (r_corrects x)),
      (''correction_kind'', opt_str (r_correction_kind x)), (''evidence_summary'', opt_str (r_evidence_summary x)),
      (''provenance'', JObj (r_provenance x))]"

section \<open>Documents as entities\<close>

definition donor_of_doc :: "json \<Rightarrow> donor outcome" where
  "donor_of_doc d =
     bind_o (need_str d ''id'') (\<lambda>i. bind_o (need_str d ''organization_id'') (\<lambda>org.
     bind_o (need_str d ''display_name'') (\<lambda>name.
       Inr \<lparr>donor_id = i, donor_org = org, donor_display_name = name\<rparr>)))"

definition allocation_of_doc :: "json \<Rightarrow> allocation outcome" where
  "allocation_of_doc d =
     bind_o (need_str d ''id'') (\<lambda>i. bind_o (need_str d ''organization_id'') (\<lambda>org.
     bind_o (need_str d ''name'') (\<lambda>name. bind_o (str_default d ''purpose'' []) (\<lambda>purpose.
     bind_o (bind_o (need_str d ''restriction_type'') (of_value restriction_value restriction_types)) (\<lambda>rt.
       Inr \<lparr>alloc_id = i, alloc_org = org, alloc_name = name, alloc_purpose = purpose, alloc_restriction = rt\<rparr>)))))"

definition donation_of_doc :: "json \<Rightarrow> donation outcome" where
  "donation_of_doc d =
     bind_o (need_str d ''id'') (\<lambda>i. bind_o (need_str d ''organization_id'') (\<lambda>org.
     bind_o (need_str d ''donor_id'') (\<lambda>donor. bind_o (money_field d ''amount'') (\<lambda>amt.
     bind_o (str_default d ''currency'' ''USD'') (\<lambda>cur.
     bind_o (need_str d ''external_source_id'') (\<lambda>ext. bind_o (need_str d ''received_at'') (\<lambda>rcv.
       Inr \<lparr>don_id = i, don_org = org, don_donor = donor, don_amount = amt, don_currency = cur,
         don_cleared = bool_default d ''cleared'' True, don_external = ext, don_received_at = rcv\<rparr>)))))))"

definition donation_allocation_of_doc :: "json \<Rightarrow> donation_allocation outcome" where
  "donation_allocation_of_doc d =
     bind_o (need_str d ''id'') (\<lambda>i. bind_o (need_str d ''donation_id'') (\<lambda>don.
     bind_o (need_str d ''allocation_id'') (\<lambda>a. bind_o (money_field d ''amount'') (\<lambda>amt.
       Inr \<lparr>da_id = i, da_donation = don, da_allocation = a, da_amount = amt\<rparr>))))"

definition expense_of_doc :: "json \<Rightarrow> expense outcome" where
  "expense_of_doc d =
     bind_o (need_str d ''id'') (\<lambda>i. bind_o (need_str d ''organization_id'') (\<lambda>org.
     bind_o (need_str d ''vendor'') (\<lambda>vendor. bind_o (money_field d ''amount'') (\<lambda>amt.
     bind_o (str_default d ''currency'' ''USD'') (\<lambda>cur. bind_o (need_str d ''purchase_date'') (\<lambda>date.
     bind_o (need_str d ''category'') (\<lambda>cat. bind_o (str_default d ''description'' []) (\<lambda>descr.
     bind_o (bind_o (need_str d ''state'') (of_value expense_state_value expense_states)) (\<lambda>st.
     bind_o (opt_field d ''external_source_id'') (\<lambda>ext. bind_o (opt_field d ''approved_by'') (\<lambda>appr.
     bind_o (opt_field d ''reconciled_at'') (\<lambda>recon. bind_o (opt_field d ''reversed_of_id'') (\<lambda>revd.
     bind_o (opt_field d ''supersedes_id'') (\<lambda>sup. bind_o (opt_field d ''history_note'') (\<lambda>note.
       Inr \<lparr>exp_id = i, exp_org = org, exp_vendor = vendor, exp_amount = amt, exp_currency = cur,
         exp_purchase_date = date, exp_category = cat, exp_description = descr, exp_state = st,
         exp_external = ext, exp_approved_by = appr, exp_reconciled_at = recon, exp_reversed_of = revd,
         exp_supersedes = sup, exp_history_note = note\<rparr>)))))))))))))))"

definition expense_allocation_of_doc :: "json \<Rightarrow> expense_allocation outcome" where
  "expense_allocation_of_doc d =
     bind_o (need_str d ''id'') (\<lambda>i. bind_o (need_str d ''expense_id'') (\<lambda>e.
     bind_o (need_str d ''allocation_id'') (\<lambda>a. bind_o (money_field d ''amount'') (\<lambda>amt.
       Inr \<lparr>ea_id = i, ea_expense = e, ea_allocation = a, ea_amount = amt\<rparr>))))"

definition evidence_of_doc :: "json \<Rightarrow> evidence_record outcome" where
  "evidence_of_doc d =
     bind_o (need_str d ''id'') (\<lambda>i. bind_o (need_str d ''expense_id'') (\<lambda>e.
     bind_o (str_default d ''kind'' ''invoice'') (\<lambda>kind. bind_o (str_default d ''summary'' []) (\<lambda>summary.
       Inr \<lparr>ev_id = i, ev_expense = e, ev_kind = kind, ev_summary = summary,
         ev_donor_visible = bool_default d ''donor_visible'' True\<rparr>))))"

definition attribution_of_doc :: "json \<Rightarrow> donor_expense_attribution outcome" where
  "attribution_of_doc d =
     bind_o (bind_o (need_str d ''method'') (of_value method_value attribution_methods)) (\<lambda>meth.
     bind_o (need_str d ''id'') (\<lambda>i. bind_o (need_str d ''donor_id'') (\<lambda>donor.
     bind_o (need_str d ''donation_id'') (\<lambda>don. bind_o (need_str d ''expense_id'') (\<lambda>e.
     bind_o (need_str d ''allocation_id'') (\<lambda>a. bind_o (money_field d ''attributed_amount'') (\<lambda>amt.
     bind_o (str_default d ''policy_version'' ''v1.0'') (\<lambda>pv. bind_o (str_default d ''confidence'' ''policy'') (\<lambda>conf.
       Inr \<lparr>at_id = i, at_donor = donor, at_donation = don, at_expense = e, at_allocation = a, at_amount = amt,
         at_method = meth, at_policy_version = pv, at_confidence = conf\<rparr>)))))))))"

definition provenance_of :: "json \<Rightarrow> (string \<times> json) list outcome" where
  "provenance_of d =
     (case jget d ''provenance'' of
        None \<Rightarrow> Inr []
      | Some j \<Rightarrow> if \<not> truthy j then Inr [] else
          (case j of JObj kvs \<Rightarrow> Inr kvs | _ \<Rightarrow> Inl (TypeError ''provenance is not a mapping'')))"

definition receipt_of_doc :: "json \<Rightarrow> use_of_funds_receipt outcome" where
  "receipt_of_doc d =
     bind_o (need_str d ''receipt_id'') (\<lambda>i. bind_o (str_default d ''type'' ''USE_OF_FUNDS'') (\<lambda>ty.
     bind_o (need_str d ''organization_id'') (\<lambda>org. bind_o (need_str d ''organization_name'') (\<lambda>orgn.
     bind_o (need_str d ''donation_id'') (\<lambda>don. bind_o (need_str d ''donor_id'') (\<lambda>donor.
     bind_o (need_str d ''allocation_id'') (\<lambda>a. bind_o (need_str d ''allocation_name'') (\<lambda>an.
     bind_o (str_default d ''restriction_type'' []) (\<lambda>rt. bind_o (need_str d ''expenditure_expense_id'') (\<lambda>e.
     bind_o (need_str d ''vendor'') (\<lambda>vendor. bind_o (money_field d ''gross_amount'') (\<lambda>gross.
     bind_o (money_field d ''attributed_amount'') (\<lambda>amt. bind_o (need_str d ''purchase_date'') (\<lambda>date.
     bind_o (need_str d ''category'') (\<lambda>cat. bind_o (str_default d ''description'' []) (\<lambda>descr.
     bind_o (need_str d ''verification_state'') (\<lambda>ver. bind_o (money_field d ''remaining_designated_balance'') (\<lambda>rem.
     bind_o (need_str d ''attribution_method'') (\<lambda>meth. bind_o (str_default d ''policy_version'' ''v1.0'') (\<lambda>pv.
     bind_o (opt_field d ''approved_by'') (\<lambda>appr. bind_o (str_default d ''currency'' ''USD'') (\<lambda>cur.
     bind_o (need_str d ''receipt_hash'') (\<lambda>hash. bind_o (need_str d ''created_at'') (\<lambda>created.
     bind_o (opt_field d ''corrects_receipt_id'') (\<lambda>corr. bind_o (opt_field d ''correction_kind'') (\<lambda>kind.
     bind_o (opt_field d ''evidence_summary'') (\<lambda>evs. bind_o (provenance_of d) (\<lambda>prov.
       Inr \<lparr>r_id = i, r_type = ty, r_org = org, r_org_name = orgn, r_donation = don, r_donor = donor,
         r_allocation = a, r_allocation_name = an, r_restriction = rt, r_expense = e, r_vendor = vendor,
         r_gross = gross, r_attributed = amt, r_purchase_date = date, r_category = cat, r_description = descr,
         r_verification = ver, r_remaining = rem, r_method = meth, r_policy_version = pv, r_approved_by = appr,
         r_currency = cur, r_hash = hash, r_created_at = created, r_corrected = bool_default d ''corrected'' False,
         r_corrects = corr, r_correction_kind = kind, r_evidence_summary = evs,
         r_provenance = prov\<rparr>))))))))))))))))))))))))))))"

section \<open>Writing the stores of a ledger\<close>

definition store_doc :: "('v \<Rightarrow> json) \<Rightarrow> (string, 'v) dict \<Rightarrow> json" where
  "store_doc enc d = JObj (map (\<lambda>(k, v). (k, enc v)) d)"

text \<open>\<^verbatim>\<open>{e.external_source_id: e.id for e in ... if e.external_source_id}\<close>: the last expense of a
  source wins.\<close>

definition external_index :: "ledger \<Rightarrow> (string, json) dict" where
  "external_index L =
     fold (\<lambda>e d. case exp_external e of
              None \<Rightarrow> d
            | Some s \<Rightarrow> if s = [] then d else dset s (JStr (exp_id e)) d)
       (dvalues (expenses L)) []"

definition strs_doc :: "string list \<Rightarrow> json" where
  "strs_doc xs = JList (map JStr xs)"

definition snapshot_ledger_entities :: "ledger \<Rightarrow> json" where
  "snapshot_ledger_entities L = JObj
     [(''donors'', store_doc donor_doc (donors L)),
      (''donations'', store_doc donation_doc (donations L)),
      (''allocations'', store_doc allocation_doc (allocations L)),
      (''donation_allocations'', store_doc donation_allocation_doc (donation_allocations L)),
      (''expenses'', store_doc expense_doc (expenses L)),
      (''expense_allocations'', store_doc expense_allocation_doc (expense_allocations L)),
      (''evidence'', store_doc evidence_doc (evidence L)),
      (''attributions'', store_doc attribution_doc (attributions L)),
      (''receipts'', store_doc receipt_doc (receipts L)),
      (''receipt_snapshots'', JObj (receipt_snapshots L)),
      (''expense_receipts'', store_doc strs_doc (expense_receipts L)),
      (''external_index'', JObj (external_index L)),
      (''organization'', organization_doc (organization L))]"

definition build_result_json :: "string \<Rightarrow> string \<Rightarrow> ledger \<Rightarrow> string list \<Rightarrow> json \<Rightarrow> json" where
  "build_result_json command_type key L output_refs output_payload = JObj
     [(''command_type'', JStr command_type), (''idempotency_key'', JStr key),
      (''entities'', snapshot_ledger_entities L), (''output_refs'', strs_doc output_refs),
      (''output_payload'', output_payload)]"

section \<open>Folding a result into a ledger\<close>

text \<open>The entries are stored one by one: an entry that cannot be read leaves those before it stored.\<close>

primrec fold_store ::
  "(json \<Rightarrow> 'v outcome) \<Rightarrow> (string \<times> json) list \<Rightarrow> (string, 'v) dict \<Rightarrow> unit outcome \<times> (string, 'v) dict" where
  "fold_store dec [] d = (Inr (), d)"
| "fold_store dec (kv # kvs) d =
     (case dec (snd kv) of Inl e \<Rightarrow> (Inl e, d) | Inr v \<Rightarrow> fold_store dec kvs (dset (fst kv) v d))"

text \<open>\<^verbatim>\<open>(entities.get(name) or {}).items()\<close>\<close>

definition items_of :: "json \<Rightarrow> string \<Rightarrow> (string \<times> json) list outcome" where
  "items_of entities name =
     (case jget entities name of
        None \<Rightarrow> Inr []
      | Some j \<Rightarrow> if \<not> truthy j then Inr [] else
          (case j of JObj kvs \<Rightarrow> Inr kvs | _ \<Rightarrow> Inl (AttributeError (name @ '' has no attribute items''))))"

definition fold_field ::
  "(json \<Rightarrow> 'v outcome) \<Rightarrow> json \<Rightarrow> string \<Rightarrow> (ledger \<Rightarrow> (string, 'v) dict) \<Rightarrow>
   ((string, 'v) dict \<Rightarrow> ledger \<Rightarrow> ledger) \<Rightarrow> ledger \<Rightarrow> unit outcome \<times> ledger" where
  "fold_field dec entities name get put L =
     (case items_of entities name of
        Inl e \<Rightarrow> (Inl e, L)
      | Inr kvs \<Rightarrow> (let (r, d) = fold_store dec kvs (get L) in (r, put d L)))"

definition strs_of_doc :: "json \<Rightarrow> string list outcome" where
  "strs_of_doc j =
     (case j of
        JList js \<Rightarrow> if list_all (\<lambda>x. case x of JStr _ \<Rightarrow> True | _ \<Rightarrow> False) js
                    then Inr (map (\<lambda>x. case x of JStr s \<Rightarrow> s | _ \<Rightarrow> []) js)
                    else Inl (TypeError ''not a list of strings'')
      | _ \<Rightarrow> Inl (TypeError ''not a list of strings''))"

text \<open>The organization named in the log must be that of the ledger.\<close>

definition org_mismatch :: "ledger \<Rightarrow> json \<Rightarrow> bool" where
  "org_mismatch L entities \<longleftrightarrow>
     (case jget entities ''organization'' of
        None \<Rightarrow> False
      | Some org \<Rightarrow> truthy org \<and>
          (case jget org ''id'' of
             None \<Rightarrow> False
           | Some i \<Rightarrow> truthy i \<and> i \<noteq> JStr (org_id (organization L))))"

definition apply_result_json :: "ledger \<Rightarrow> json \<Rightarrow> unit outcome \<times> ledger" where
  "apply_result_json L result =
     (case jget result ''entities'' of
        None \<Rightarrow> (Inl (LedgerLogError ''result_json missing entities''), L)
      | Some es \<Rightarrow>
          if org_mismatch L es then (Inl (LedgerLogError ''org mismatch in log''), L) else
          and_then (fold_field donor_of_doc es ''donors'' donors (\<lambda>d. donors_update (\<lambda>_. d)) L) (\<lambda>_ L.
          and_then (fold_field allocation_of_doc es ''allocations'' allocations (\<lambda>d. allocations_update (\<lambda>_. d)) L) (\<lambda>_ L.
          and_then (fold_field donation_of_doc es ''donations'' donations (\<lambda>d. donations_update (\<lambda>_. d)) L) (\<lambda>_ L.
          and_then (fold_field donation_allocation_of_doc es ''donation_allocations'' donation_allocations
             (\<lambda>d. donation_allocations_update (\<lambda>_. d)) L) (\<lambda>_ L.
          and_then (fold_field expense_of_doc es ''expenses'' expenses (\<lambda>d. expenses_update (\<lambda>_. d)) L) (\<lambda>_ L.
          and_then (fold_field expense_allocation_of_doc es ''expense_allocations'' expense_allocations
             (\<lambda>d. expense_allocations_update (\<lambda>_. d)) L) (\<lambda>_ L.
          and_then (fold_field evidence_of_doc es ''evidence'' evidence (\<lambda>d. evidence_update (\<lambda>_. d)) L) (\<lambda>_ L.
          and_then (fold_field attribution_of_doc es ''attributions'' attributions (\<lambda>d. attributions_update (\<lambda>_. d)) L) (\<lambda>_ L.
          and_then (fold_field receipt_of_doc es ''receipts'' receipts (\<lambda>d. receipts_update (\<lambda>_. d)) L) (\<lambda>_ L.
          and_then (fold_field Inr es ''receipt_snapshots'' receipt_snapshots (\<lambda>d. receipt_snapshots_update (\<lambda>_. d)) L) (\<lambda>_ L.
            fold_field strs_of_doc es ''expense_receipts'' expense_receipts
              (\<lambda>d. expense_receipts_update (\<lambda>_. d)) L)))))))))))"

section \<open>The log file\<close>

text \<open>The rows of the file and the keys \<^verbatim>\<open>_seen\<close> of the object.\<close>

record command_log =
  log_rows :: "json list"
  log_seen :: "(string \<times> string) list"

text \<open>\<^verbatim>\<open>_load_seen\<close> over the rows of an existing file.\<close>

primrec seen_keys :: "json list \<Rightarrow> (string \<times> string) list outcome" where
  "seen_keys [] = Inr []"
| "seen_keys (row # rows) =
     bind_o (need_str row ''tenant_id'') (\<lambda>t. bind_o (need_str row ''idempotency_key'') (\<lambda>k.
     bind_o (seen_keys rows) (\<lambda>ks. Inr ((t, k) # ks))))"

definition open_log :: "json list \<Rightarrow> command_log outcome" where
  "open_log rows = bind_o (seen_keys rows) (\<lambda>ks. Inr \<lparr>log_rows = rows, log_seen = ks\<rparr>)"

definition log_row :: "string \<Rightarrow> string \<Rightarrow> string \<Rightarrow> json \<Rightarrow> json \<Rightarrow> json" where
  "log_row tenant key command_type payload result = JObj
     [(''tenant_id'', JStr tenant), (''idempotency_key'', JStr key), (''command_type'', JStr command_type),
      (''payload_json'', payload), (''result_json'', result)]"

definition log_append ::
  "string \<Rightarrow> string \<Rightarrow> string \<Rightarrow> json \<Rightarrow> json \<Rightarrow> command_log \<Rightarrow> unit outcome \<times> command_log" where
  "log_append tenant key command_type payload result lg =
     (if (tenant, key) \<in> set (log_seen lg) then (Inr (), lg)
      else if jget result ''entities'' = None
        then (Inl (LedgerLogError ''refuse to append result without entities''), lg)
      else (Inr (), lg\<lparr>log_rows := log_rows lg @ [log_row tenant key command_type payload result],
                       log_seen := (tenant, key) # log_seen lg\<rparr>))"

text \<open>\<^verbatim>\<open>iter_rows(tenant_id)\<close>; an empty tenant filters nothing.\<close>

definition iter_rows :: "string \<Rightarrow> json list \<Rightarrow> json list" where
  "iter_rows tenant rows =
     (if tenant = [] then rows else filter (\<lambda>row. jget row ''tenant_id'' = Some (JStr tenant)) rows)"

primrec fold_rows :: "json list \<Rightarrow> ledger \<Rightarrow> unit outcome \<times> ledger" where
  "fold_rows [] L = (Inr (), L)"
| "fold_rows (row # rows) L =
     (case jget row ''result_json'' of
        None \<Rightarrow> (Inl (LedgerLogError ''missing result_json''), L)
      | Some r \<Rightarrow> if \<not> truthy r then (Inl (LedgerLogError ''missing result_json''), L)
          else and_then (apply_result_json L r) (\<lambda>_ L. fold_rows rows L))"

definition rehydrate :: "organization \<Rightarrow> ledger option \<Rightarrow> command_log \<Rightarrow> ledger outcome" where
  "rehydrate org base lg =
     (let L = (case base of None \<Rightarrow> empty_ledger org | Some L \<Rightarrow> L) in
      if org_id (organization L) \<noteq> org_id org then Inl (LedgerLogError ''base ledger organization mismatch'')
      else (case fold_rows (iter_rows (org_id org) (log_rows lg)) L of
              (Inl e, _) \<Rightarrow> Inl e | (Inr _, L') \<Rightarrow> Inr L'))"

end
