(* ===== verification/Privacy.thy ===== *)
theory Privacy
  imports Agents Ledger_Log
begin

text \<open>
  Public documents: the key and residue scan of \<^verbatim>\<open>agents/privacy.py\<close>, the redacted copy, and the
  projection of receipts to public documents of \<^verbatim>\<open>public_export.py\<close>.
\<close>

section \<open>Text of a value\<close>

text \<open>\<^verbatim>\<open>repr\<close> of a string: single quotes unless the text has a single and no double quote; a quote of the
  kind used, the backslash and what is not printable are escaped.\<close>

definition printable :: "nat \<Rightarrow> bool" where
  "printable n \<longleftrightarrow> 32 \<le> n \<and> n < 127 \<or> 161 \<le> n \<and> n \<noteq> 173"

definition repr_char :: "nat \<Rightarrow> char \<Rightarrow> string" where
  "repr_char q c =
     (let n = (of_char c :: nat); bs = char_of (92::nat) in
      if n = q \<or> n = 92 then [bs, c]
      else if n = 10 then [bs, CHR ''n'']
      else if n = 13 then [bs, CHR ''r'']
      else if n = 9 then [bs, CHR ''t'']
      else if printable n then [c]
      else [bs, CHR ''x'', hex_digit (n div 16), hex_digit n])"

definition repr_str :: "string \<Rightarrow> string" where
  "repr_str s =
     (let q = (if CHR 0x27 \<in> set s \<and> CHR 0x22 \<notin> set s then 34 else 39) in
      [char_of q] @ concat (map (repr_char q) s) @ [char_of q])"

text \<open>\<^verbatim>\<open>str(payload)\<close> of a container, which is its \<^verbatim>\<open>repr\<close>.\<close>

primrec py_repr :: "json \<Rightarrow> string" where
  "py_repr JNull = ''None''"
| "py_repr (JBool b) = (if b then ''True'' else ''False'')"
| "py_repr (JInt i) = str_of_int i"
| "py_repr (JStr s) = repr_str s"
| "py_repr (JList js) = ''['' @ join_with '', '' (map py_repr js) @ '']''"
| "py_repr (JObj kvs) =
     ''{'' @ join_with '', '' (map (\<lambda>(k, t). repr_str k @ '': '' @ t) (map (map_prod id py_repr) kvs)) @ ''}''"

section \<open>The scan of \<^verbatim>\<open>privacy.py\<close>\<close>

definition PUBLIC_BANNED_KEYS :: "string list" where
  "PUBLIC_BANNED_KEYS =
     [''donor_id'', ''donorId'', ''donor_ids'', ''donor_name'', ''donorName'', ''display_name'', ''displayName'',
      ''email'', ''emails'', ''phone'', ''phones'', ''address'', ''addresses'', ''donation_reference'',
      ''donationReference'', ''attendee_names'', ''attendeeNames'', ''approved_by'', ''approvedBy'',
      ''operator_email'', ''operatorEmail'', ''ssn'', ''tax_id'', ''taxId'']"

definition PUBLIC_BANNED_SUBSTRINGS :: "string list" where
  "PUBLIC_BANNED_SUBSTRINGS = [''donor_alice'', ''Alice Patron'', ''finance.operator'', ''@hackersdojo.example'']"

text \<open>Every banned key with its path, in the order of the walk.\<close>

primrec walk_keys :: "json \<Rightarrow> string \<Rightarrow> (string \<times> string) list" where
  "walk_keys JNull = (\<lambda>path. [])"
| "walk_keys (JBool b) = (\<lambda>path. [])"
| "walk_keys (JInt i) = (\<lambda>path. [])"
| "walk_keys (JStr s) = (\<lambda>path. [])"
| "walk_keys (JList js) = (\<lambda>path.
     concat (map (\<lambda>(n, w). w (path @ ''['' @ str_of_nat n @ '']'')) (enumerate 0 (map walk_keys js))))"
| "walk_keys (JObj kvs) = (\<lambda>path.
     concat (map (\<lambda>(k, w). let child = path @ ''.'' @ k in
         (if k \<in> set PUBLIC_BANNED_KEYS then [(child, k)] else []) @ w child)
       (map (map_prod id walk_keys) kvs)))"

definition residue :: "string \<Rightarrow> string list" where
  "residue blob = filter (\<lambda>m. has_substring m blob) PUBLIC_BANNED_SUBSTRINGS"

definition privacy_reasons :: "json \<Rightarrow> string list outcome" where
  "privacy_reasons payload =
     (case payload of
        JObj kvs \<Rightarrow>
          (case dget kvs ''privacy'' of
             None \<Rightarrow> Inr []
           | Some p \<Rightarrow>
               if \<not> truthy p then Inr []
               else case p of
                 JObj _ \<Rightarrow> Inr
                   ((if jget p ''classification'' \<noteq> Some (JStr ''public_aggregate_only'')
                     then [''privacy.classification must be public_aggregate_only''] else []) @
                    concat (map (\<lambda>flag. if jget p flag \<noteq> Some (JBool False)
                       then [''privacy.'' @ flag @ '' must be false''] else []) [''piiAllowed'', ''donorNamesAllowed'']))
               | _ \<Rightarrow> Inl (AttributeError ''privacy has no attribute get''))
      | _ \<Rightarrow> Inr [])"

definition scan_public_payload :: "json \<Rightarrow> validation_result outcome" where
  "scan_public_payload payload =
     (case privacy_reasons payload of
        Inl e \<Rightarrow> Inl e
      | Inr flags \<Rightarrow>
          let reasons =
                map (\<lambda>(path, key). ''banned key '' @ repr_str key @ '' at '' @ path) (walk_keys payload ''$'') @
                map (\<lambda>m. ''banned residue marker '' @ repr_str m) (residue (py_repr payload)) @ flags
          in Inr (if reasons \<noteq> []
                  then \<lparr>val_status = V_REJECTED, val_reasons = reasons, val_warnings = []\<rparr>
                  else \<lparr>val_status = V_ACCEPTED, val_reasons = [], val_warnings = []\<rparr>))"

definition assert_public_safe :: "json \<Rightarrow> unit outcome" where
  "assert_public_safe payload =
     (case scan_public_payload payload of
        Inl e \<Rightarrow> Inl e
      | Inr v \<Rightarrow> if val_status v = V_ACCEPTED then Inr ()
                  else Inl (PrivacySentinelError (join_with ''; '' (val_reasons v))))"

section \<open>The redacted copy\<close>

fun redacted_items :: "(string \<times> json) list \<Rightarrow> (string \<times> json) list"
  and redacted_value :: "json \<Rightarrow> json"
  and redacted_elems :: "json list \<Rightarrow> json list" where
  "redacted_items [] = []"
| "redacted_items ((k, v) # kvs) =
     (if k \<in> set PUBLIC_BANNED_KEYS then redacted_items kvs else (k, redacted_value v) # redacted_items kvs)"
| "redacted_value (JObj kvs) = JObj (redacted_items kvs)"
| "redacted_value (JList js) = JList (redacted_elems js)"
| "redacted_value v = v"
| "redacted_elems [] = []"
| "redacted_elems (JObj kvs # js) = JObj (redacted_items kvs) # redacted_elems js"
| "redacted_elems (v # js) = v # redacted_elems js"

definition redacted_public_copy :: "(string \<times> json) list \<Rightarrow> json" where
  "redacted_public_copy payload = JObj (redacted_items payload)"

section \<open>The public export\<close>

definition receipt_to_public :: "use_of_funds_receipt \<Rightarrow> json" where
  "receipt_to_public r = JObj
     [(''receiptId'', JStr (''pub_'' @ take 12 (r_hash r))),
      (''organizationName'', JStr (r_org_name r)),
      (''allocationName'', JStr (r_allocation_name r)),
      (''restrictionType'', JStr (r_restriction r)),
      (''category'', JStr (r_category r)),
      (''description'', JStr (r_description r)),
      (''vendor'', JStr (r_vendor r)),
      (''currency'', JStr (r_currency r)),
      (''grossAmount'', JStr (money_str (r_gross r))),
      (''attributedAmount'', JStr (money_str (r_attributed r))),
      (''purchaseDate'', JStr (r_purchase_date r)),
      (''verificationState'', JStr (r_verification r)),
      (''attributionMethod'', JStr (r_method r)),
      (''remainingDesignatedBalance'', JStr (money_str (r_remaining r))),
      (''evidenceSummary'', opt_str (r_evidence_summary r)),
      (''receiptHash'', JStr (r_hash r)),
      (''createdAt'', JStr (r_created_at r)),
      (''corrected'', JBool (r_corrected r)),
      (''correctionKind'', opt_str (r_correction_kind r))]"

definition export_forbidden :: "string list" where
  "export_forbidden = [''donor_id'', ''donorId'', ''donation_reference'', ''donationReference'', ''approved_by'']"

text \<open>\<open>today\<close> is \<^verbatim>\<open>date.today().isoformat()\<close>.\<close>

definition build_public_export ::
  "string \<Rightarrow> use_of_funds_receipt list \<Rightarrow> string \<Rightarrow> string option \<Rightarrow> json outcome" where
  "build_public_export today rs source updated_at =
     (let pub = map receipt_to_public rs;
          total = sum_list (map r_attributed rs);
          currency = (case rs of [] \<Rightarrow> ''USD'' | r # _ \<Rightarrow> r_currency r);
          blob = py_repr (JList pub)
      in case find (\<lambda>key. has_substring key blob) export_forbidden of
           Some key \<Rightarrow> Inl (ValueError (''public export contains forbidden key residue: '' @ key))
         | None \<Rightarrow> Inr (JObj
             [(''version'', JStr ''1.0.0''),
              (''updatedAt'', JStr (if present updated_at then the updated_at else today)),
              (''source'', JStr source),
              (''authority'', JStr ''public_aggregate_only''),
              (''privacy'', JObj
                [(''classification'', JStr ''public_aggregate_only''), (''piiAllowed'', JBool False),
                 (''donorNamesAllowed'', JBool False), (''individualDonorAttributionAllowed'', JBool False),
                 (''operatorIdentityAllowed'', JBool False)]),
              (''summary'', JObj
                [(''receiptCount'', JInt (int (length pub))), (''totalAttributed'', JStr (money_str total)),
                 (''currency'', JStr currency)]),
              (''receipts'', JList pub)]))"

section \<open>Documents without banned keys\<close>

primrec clean :: "json \<Rightarrow> bool" where
  "clean JNull = True"
| "clean (JBool b) = True"
| "clean (JInt i) = True"
| "clean (JStr s) = True"
| "clean (JList js) = list_all id (map clean js)"
| "clean (JObj kvs) = list_all (\<lambda>(k, c). k \<notin> set PUBLIC_BANNED_KEYS \<and> c) (map (map_prod id clean) kvs)"

lemma walk_list:
  assumes "\<And>j path. j \<in> set js \<Longrightarrow> walk_keys j path = [] \<longleftrightarrow> clean j"
  shows "concat (map (\<lambda>(n, w). w (path @ ''['' @ str_of_nat n @ '']'')) (enumerate m (map walk_keys js))) = [] \<longleftrightarrow>
    list_all clean js"
  using assms by (induction js arbitrary: m) auto

lemma walk_clean: "walk_keys j path = [] \<longleftrightarrow> clean j"
proof (induction j arbitrary: path)
  case (JList js)
  then show ?case using walk_list [of js path 0] by (simp add: list.pred_map)
next
  case (JObj kvs)
  then show ?case
    by (fastforce simp: list_all_iff Let_def map_prod_def split: prod.splits if_splits)
qed simp_all

lemma clean_opt_str [simp]: "clean (opt_str s)"
  by (cases s) (simp_all add: opt_str_def)

lemma assert_public_safe_iff:
  "assert_public_safe j = Inr () \<longleftrightarrow> clean j \<and> residue (py_repr j) = [] \<and> privacy_reasons j = Inr []"
  using walk_clean [of j "''$''"]
  by (auto simp: assert_public_safe_def scan_public_payload_def Let_def split: sum.splits if_splits)

text \<open>A document passes when nothing in its text is a known residue.\<close>

lemma public_receipt_clean: "clean (receipt_to_public r)"
  by (simp add: receipt_to_public_def PUBLIC_BANNED_KEYS_def)

lemma public_receipt_flags: "privacy_reasons (receipt_to_public r) = Inr []"
  by (simp add: privacy_reasons_def receipt_to_public_def)

section \<open>Redaction\<close>

definition is_list :: "json \<Rightarrow> bool" where
  "is_list j = (case j of JList _ \<Rightarrow> True | _ \<Rightarrow> False)"

text \<open>No list directly inside a list.\<close>

primrec flat_lists :: "json \<Rightarrow> bool" where
  "flat_lists JNull = True"
| "flat_lists (JBool b) = True"
| "flat_lists (JInt i) = True"
| "flat_lists (JStr s) = True"
| "flat_lists (JList js) = (list_all id (map flat_lists js) \<and> list_all (\<lambda>j. \<not> is_list j) js)"
| "flat_lists (JObj kvs) = list_all snd (map (map_prod id flat_lists) kvs)"

lemma redacted_clean:
  "flat_lists (JObj kvs) \<Longrightarrow> clean (JObj (redacted_items kvs))"
  "flat_lists v \<Longrightarrow> clean (redacted_value v)"
  "flat_lists (JList js) \<Longrightarrow> list_all clean (redacted_elems js)"
proof (induction kvs and v and js rule: redacted_items_redacted_value_redacted_elems.induct)
qed (auto simp: is_list_def list.pred_map)

text \<open>A redacted copy of a document has no banned key at any depth, when no list of the document
  stands directly inside another list.\<close>

theorem redaction_removes_banned_keys:
  "flat_lists (JObj payload) \<Longrightarrow> walk_keys (redacted_public_copy payload) path = []"
  unfolding walk_clean redacted_public_copy_def by (rule redacted_clean(1))

theorem redaction_removes_banned_keys_witness:
  "redacted_public_copy [(''rows'', JList [JObj [(''email'', JStr ''a@b''), (''n'', JInt 1)]]), (''ssn'', JInt 7)] =
     JObj [(''rows'', JList [JObj [(''n'', JInt 1)]])] \<and>
   walk_keys (redacted_public_copy
     [(''rows'', JList [JObj [(''email'', JStr ''a@b''), (''n'', JInt 1)]]), (''ssn'', JInt 7)]) ''$'' = []"
  using redaction_removes_banned_keys
    [of "[(''rows'', JList [JObj [(''email'', JStr ''a@b''), (''n'', JInt 1)]]), (''ssn'', JInt 7)]" "''$''"]
  by (simp add: is_list_def redacted_public_copy_def PUBLIC_BANNED_KEYS_def)

text \<open>A list inside a list is copied as it is: the address of a donor two lists down is still in the
  copy, and the scan finds it.\<close>

theorem redaction_misses_nested_lists:
  "walk_keys (redacted_public_copy [(''rows'', JList [JList [JObj [(''email'', JStr ''a@b'')]]])]) ''$'' =
     [(''$.rows[0][0].email'', ''email'')]"
  by code_simp

section \<open>The export\<close>

lemma find_None_all: "find P xs = None \<Longrightarrow> x \<in> set xs \<Longrightarrow> \<not> P x"
  by (auto simp: find_None_iff)

text \<open>C40. A public export that is built holds one document per receipt, in order, and the total of their
  attributed amounts; no banned key occurs at any depth, its privacy flags pass the scan, and its
  receipts contain none of the forbidden names, as keys or as text.\<close>

theorem public_export_sound:
  assumes "build_public_export today rs source updated = Inr doc"
  shows "walk_keys doc path = [] \<and> privacy_reasons doc = Inr [] \<and>
    jget doc ''receipts'' = Some (JList (map receipt_to_public rs)) \<and>
    bind_o (jfield doc ''summary'') (\<lambda>s. jfield s ''totalAttributed'') =
      Inr (JStr (money_str (\<Sum>r\<leftarrow>rs. r_attributed r))) \<and>
    (\<forall>key \<in> set export_forbidden. \<not> has_substring key (py_repr (JList (map receipt_to_public rs))))"
proof -
  let ?pub = "map receipt_to_public rs"
  have none: "find (\<lambda>key. has_substring key (py_repr (JList ?pub))) export_forbidden = None"
    using assms unfolding build_public_export_def Let_def by (auto split: option.splits)
  have recs: "list_all clean ?pub" by (simp add: list_all_iff public_receipt_clean)
  show ?thesis
    using assms recs find_None_all [OF none]
    unfolding walk_clean
    by (auto simp: build_public_export_def none Let_def privacy_reasons_def PUBLIC_BANNED_KEYS_def list.pred_map
        simp del: py_repr.simps)
qed

definition sample_receipt :: use_of_funds_receipt where
  "sample_receipt = \<lparr>r_id = ''uof_1'', r_type = ''USE_OF_FUNDS'', r_org = ''o'', r_org_name = ''Dojo'',
     r_donation = ''g'', r_donor = ''d'', r_allocation = ''f'', r_allocation_name = ''Fund'',
     r_restriction = ''UNRESTRICTED'', r_expense = ''e'', r_vendor = ''Shop'', r_gross = 4000, r_attributed = 2500,
     r_purchase_date = ''2026-01-02'', r_category = ''TOOLS'', r_description = ''Drill'', r_verification = ''APPROVED'',
     r_remaining = 7500, r_method = ''DIRECT_RESTRICTED'', r_policy_version = ''v1.0'', r_approved_by = Some ''cfo'',
     r_currency = ''USD'', r_hash = ''abc'', r_created_at = ''2026-01-03'', r_corrected = False, r_corrects = None,
     r_correction_kind = None, r_evidence_summary = None, r_provenance = []\<rparr>"

definition sample_blob :: string where
  "sample_blob =
     ''[{'receiptId': 'pub_abc', 'organizationName': 'Dojo', 'allocationName': 'Fund', '' @
     '''restrictionType': 'UNRESTRICTED', 'category': 'TOOLS', 'description': 'Drill', '' @
     '''vendor': 'Shop', 'currency': 'USD', 'grossAmount': '40.00', 'attributedAmount': '25.00', '' @
     '''purchaseDate': '2026-01-02', 'verificationState': 'APPROVED', '' @
     '''attributionMethod': 'DIRECT_RESTRICTED', 'remainingDesignatedBalance': '75.00', '' @
     '''evidenceSummary': None, 'receiptHash': 'abc', 'createdAt': '2026-01-03', 'corrected': False, '' @
     '''correctionKind': None}]''"

lemma sample_chars:
  "char_of (39::nat) = CHR 0x27" "char_of (48::nat) = CHR ''0''" "char_of (50::nat) = CHR ''2''"
  "char_of (52::nat) = CHR ''4''" "char_of (53::nat) = CHR ''5''" "char_of (55::nat) = CHR ''7''"
  by (simp_all add: char_of_def bit_iff_odd)

lemma sample_amounts:
  "money_str 4000 = ''40.00''" "money_str 2500 = ''25.00''" "money_str 7500 = ''75.00''"
  by (simp_all add: money_str_def str_of_nat.simps two_digits_def digit_char_def sample_chars)

lemma sample_repr: "py_repr (JList (map receipt_to_public [sample_receipt])) = sample_blob"
  by (simp add: receipt_to_public_def sample_receipt_def opt_str_def repr_str_def repr_char_def Let_def printable_def
      sample_amounts sample_chars sample_blob_def)

lemma sample_export:
  "find (\<lambda>key. has_substring key sample_blob) export_forbidden = None"
  by code_simp

theorem public_export_sound_witness:
  "\<exists>doc. build_public_export ''2026-01-04'' [sample_receipt] ''pilot'' None = Inr doc \<and>
     bind_o (jfield doc ''summary'') (\<lambda>s. jfield s ''totalAttributed'') = Inr (JStr ''25.00'') \<and>
     walk_keys doc ''$'' = []"
proof -
  obtain doc where d: "build_public_export ''2026-01-04'' [sample_receipt] ''pilot'' None = Inr doc"
    unfolding build_public_export_def Let_def sample_repr sample_export by simp
  have "(\<Sum>r\<leftarrow>[sample_receipt]. r_attributed r) = 2500" by (simp add: sample_receipt_def)
  then show ?thesis using public_export_sound [OF d, of "''$''"] d sample_amounts(2) by auto
qed


text \<open>The document of a single receipt passes the sentinel exactly when its text holds no residue
  marker: no key of the projection is banned, whatever the receipt.\<close>

theorem public_receipt_passes_iff:
  "assert_public_safe (receipt_to_public r) = Inr () \<longleftrightarrow>
     residue (py_repr (receipt_to_public r)) = []"
  by (simp add: assert_public_safe_iff public_receipt_clean public_receipt_flags del: py_repr.simps)

end
