(* ===== verification/Executor.thy ===== *)
theory Executor
  imports Privacy Tenant
begin

text \<open>
  \<^verbatim>\<open>LedgerCommandExecutor\<close> of \<^verbatim>\<open>agents/executor.py\<close>, the only caller of the ledger's mutations: one handler per
  command type, each reading its payload and calling the ledger or the notification service. Payload
  fields are read as text, amounts as decimal literals; an amount that is not one is refused before the
  ledger is asked. Identifiers and times are drawn from the sources the ledger draws from.
\<close>

section \<open>Email previews\<close>

record email_preview =
  pv_id :: string
  pv_tenant :: string
  pv_receipt :: string
  pv_channel :: string
  pv_subject :: string
  pv_body :: string
  pv_template :: string
  pv_receipt_hash :: string
  pv_content_hash :: string
  pv_facts :: "(string, string) dict"
  pv_created :: string

definition receipt_facts :: "use_of_funds_receipt \<Rightarrow> (string, string) dict" where
  "receipt_facts r =
     [(''organization_name'', r_org_name r), (''allocation_name'', r_allocation_name r), (''vendor'', r_vendor r),
      (''gross_amount'', money_str (r_gross r)), (''attributed_amount'', money_str (r_attributed r)),
      (''currency'', r_currency r), (''purchase_date'', r_purchase_date r), (''category'', r_category r),
      (''description'', r_description r), (''attribution_method'', r_method r),
      (''verification_state'', r_verification r), (''remaining_designated_balance'', money_str (r_remaining r)),
      (''receipt_hash'', r_hash r)]"

text \<open>Dictionaries are equal when they have the same entries, in any order.\<close>

definition dict_eq :: "('k, 'v) dict \<Rightarrow> ('k, 'v) dict \<Rightarrow> bool" where
  "dict_eq d e \<longleftrightarrow> length d = length e \<and> list_all (\<lambda>(k, v). dget e k = Some v) d"

definition assert_preview_matches_receipt :: "email_preview \<Rightarrow> use_of_funds_receipt \<Rightarrow> unit outcome" where
  "assert_preview_matches_receipt p r =
     (if pv_receipt p \<noteq> r_id r then Inl (ValueError ''preview receipt_id mismatch'')
      else if pv_receipt_hash p \<noteq> r_hash r
      then Inl (ValueError ''preview receipt_hash mismatch - regenerate preview'')
      else if \<not> dict_eq (pv_facts p) (receipt_facts r)
      then Inl (ValueError ''preview facts do not match canonical receipt'')
      else Inr ())"

section \<open>The state of the executor's domain\<close>

text \<open>The ledger is that of the workspace; \<open>xd_attached\<close> tells whether the executor was given the workspace.
  The index of external sources is built once, from the ledger, and kept by the executor.\<close>

record 'x exec_domain =
  xd_ws :: "'x tenant_workspace"
  xd_attached :: bool
  xd_external :: "(string, string) dict"
  xd_previews :: "(string, email_preview) dict"

definition xd_ledger :: "'x exec_domain \<Rightarrow> ledger" where
  "xd_ledger D = tw_ledger (xd_ws D)"

definition xd_put :: "ledger \<Rightarrow> 'x exec_domain \<Rightarrow> 'x exec_domain" where
  "xd_put L D = D\<lparr>xd_ws := (xd_ws D)\<lparr>tw_ledger := L\<rparr>\<rparr>"

definition on_ledger :: "(ledger \<Rightarrow> 'a outcome \<times> ledger) \<Rightarrow> 'x exec_domain \<Rightarrow> 'a outcome \<times> 'x exec_domain" where
  "on_ledger f D = (let (v, L) = f (xd_ledger D) in (v, xd_put L D))"

definition source_index :: "ledger \<Rightarrow> (string, string) dict" where
  "source_index L =
     fold (\<lambda>e d. case exp_external e of
              None \<Rightarrow> d
            | Some s \<Rightarrow> if s = [] then d else dset s (exp_id e) d)
       (dvalues (expenses L)) []"

definition new_exec_domain :: "'x tenant_workspace \<Rightarrow> bool \<Rightarrow> 'x exec_domain" where
  "new_exec_domain W attached =
     \<lparr>xd_ws = W, xd_attached = attached, xd_external = source_index (tw_ledger W), xd_previews = []\<rparr>"

definition register_preview :: "email_preview \<Rightarrow> 'x exec_domain \<Rightarrow> 'x exec_domain" where
  "register_preview p D = D\<lparr>xd_previews := dset (pv_id p) p (xd_previews D)\<rparr>"

type_synonym answer = "string list \<times> json"

section \<open>Reading payloads\<close>

text \<open>\<^verbatim>\<open>d.get(k1) or d.get(k2) or ...\<close>: the first truthy field.\<close>

primrec first_text :: "json \<Rightarrow> string list \<Rightarrow> string option outcome" where
  "first_text j [] = Inr None"
| "first_text j (k # ks) =
     (case jget j k of
        None \<Rightarrow> first_text j ks
      | Some v \<Rightarrow> if truthy v then bind_o (as_str v) (\<lambda>s. Inr (Some s)) else first_text j ks)"

text \<open>\<^verbatim>\<open>d.get(k) or []\<close>, iterated over.\<close>

definition list_field :: "json \<Rightarrow> string \<Rightarrow> json list outcome" where
  "list_field j k =
     (case jget j k of
        None \<Rightarrow> Inr []
      | Some v \<Rightarrow> if \<not> truthy v then Inr [] else
          (case v of JList js \<Rightarrow> Inr js | _ \<Rightarrow> Inl (TypeError (k @ '' is not a list''))))"

definition get_attr :: "json \<Rightarrow> json outcome" where
  "get_attr j = (case j of JObj _ \<Rightarrow> Inr j | _ \<Rightarrow> Inl (AttributeError ''object has no attribute get''))"

text \<open>The expense a row or a replacement describes.\<close>

definition expense_of_row :: "string \<Rightarrow> string \<Rightarrow> string option \<Rightarrow> json \<Rightarrow> expense outcome" where
  "expense_of_row org eid ext row =
     bind_o (need_str row ''vendor'') (\<lambda>vendor. bind_o (money_field row ''amount'') (\<lambda>amt.
     bind_o (str_default row ''currency'' ''USD'') (\<lambda>cur. bind_o (need_str row ''purchase_date'') (\<lambda>date.
     bind_o (str_default row ''category'' ''UNCLASSIFIED'') (\<lambda>cat. bind_o (str_default row ''description'' []) (\<lambda>descr.
       Inr \<lparr>exp_id = eid, exp_org = org, exp_vendor = vendor, exp_amount = amt, exp_currency = cur,
         exp_purchase_date = date, exp_category = cat, exp_description = descr, exp_state = IMPORTED,
         exp_external = ext, exp_approved_by = None, exp_reconciled_at = None, exp_reversed_of = None,
         exp_supersedes = None, exp_history_note = None\<rparr>))))))"

definition evidence_of_row :: "string \<Rightarrow> string \<Rightarrow> json \<Rightarrow> evidence_record outcome" where
  "evidence_of_row i eid ev =
     bind_o (str_default ev ''kind'' ''invoice'') (\<lambda>kind. bind_o (str_default ev ''summary'' []) (\<lambda>summary.
       Inr \<lparr>ev_id = i, ev_expense = eid, ev_kind = kind, ev_summary = summary,
         ev_donor_visible = bool_default ev ''donor_visible'' True\<rparr>))"

section \<open>Handlers\<close>

fun attach_rows :: "env \<Rightarrow> string \<Rightarrow> json list \<Rightarrow> ledger \<Rightarrow> unit outcome \<times> ledger" where
  "attach_rows E eid [] L = (Inr (), L)"
| "attach_rows E eid (row # rows) L =
     (case bind_o (get_attr row) (\<lambda>row. first_text row [''id'']) of
        Inl e \<Rightarrow> (Inl e, L)
      | Inr given \<Rightarrow>
          let (i, L1) = id_or_new E given ''ev'' L in
          case evidence_of_row i eid row of
            Inl e \<Rightarrow> (Inl e, L1)
          | Inr v \<Rightarrow> and_then (attach_evidence E v L1) (\<lambda>_ L2. attach_rows E eid rows L2))"

definition import_row :: "env \<Rightarrow> string \<Rightarrow> json \<Rightarrow> ledger \<Rightarrow> string outcome \<times> ledger" where
  "import_row E ext row L =
     (case first_text row [''expense_id''] of
        Inl e \<Rightarrow> (Inl e, L)
      | Inr given \<Rightarrow>
          let (eid, L1) = id_or_new E given ''exp'' L in
          case expense_of_row (org_id (organization L)) eid (Some ext) row of
            Inl e \<Rightarrow> (Inl e, L1)
          | Inr x \<Rightarrow>
              and_then (import_expense E x L1) (\<lambda>_ L2.
                case list_field row ''evidence'' of
                  Inl e \<Rightarrow> (Inl e, L2)
                | Inr rows \<Rightarrow> and_then (attach_rows E eid rows L2) (\<lambda>_ L3. (Inr eid, L3))))"

definition imported_answer :: "string \<Rightarrow> bool \<Rightarrow> answer" where
  "imported_answer eid dup = ([eid], JObj [(''expense_id'', JStr eid), (''duplicate'', JBool dup)])"

definition import_normalized :: "env \<Rightarrow> json \<Rightarrow> 'x exec_domain \<Rightarrow> answer outcome \<times> 'x exec_domain" where
  "import_normalized E row D =
     (case need_str row ''external_source_id'' of
        Inl e \<Rightarrow> (Inl e, D)
      | Inr ext \<Rightarrow>
          case dget (xd_external D) ext of
            Some eid \<Rightarrow> (Inr (imported_answer eid True), D)
          | None \<Rightarrow>
              and_then (on_ledger (import_row E ext row) D) (\<lambda>eid D1.
                (Inr (imported_answer eid False), D1\<lparr>xd_external := dset ext eid (xd_external D1)\<rparr>)))"

text \<open>A missing amount is the amount of the expense.\<close>

definition amount_or_expense :: "json \<Rightarrow> string \<Rightarrow> ledger \<Rightarrow> rat outcome" where
  "amount_or_expense p eid L =
     (case jget p ''amount'' of
        Some v \<Rightarrow> if v \<noteq> JNull then decimal_of_json v
                   else (case dget (expenses L) eid of None \<Rightarrow> Inl (KeyError eid) | Some x \<Rightarrow> Inr (of_int (exp_amount x) / 100))
      | None \<Rightarrow> (case dget (expenses L) eid of None \<Rightarrow> Inl (KeyError eid) | Some x \<Rightarrow> Inr (of_int (exp_amount x) / 100)))"

definition handle_allocate :: "env \<Rightarrow> json \<Rightarrow> ledger \<Rightarrow> answer outcome \<times> ledger" where
  "handle_allocate E p L =
     (case need_str p ''expense_id'' of Inl e \<Rightarrow> (Inl e, L) | Inr eid \<Rightarrow>
      case need_str p ''allocation_id'' of Inl e \<Rightarrow> (Inl e, L) | Inr aid \<Rightarrow>
      case amount_or_expense p eid L of Inl e \<Rightarrow> (Inl e, L) | Inr amt \<Rightarrow>
        and_then (allocate_expense E eid aid amt None L) (\<lambda>ea L1.
          (Inr ([ea_id ea], JObj [(''expense_allocation_id'', JStr (ea_id ea)), (''expense_id'', JStr eid)]), L1)))"

definition handle_approve :: "env \<Rightarrow> json \<Rightarrow> ledger \<Rightarrow> answer outcome \<times> ledger" where
  "handle_approve E p L =
     (case need_str p ''expense_id'' of Inl e \<Rightarrow> (Inl e, L) | Inr eid \<Rightarrow>
      case first_text p [''approved_by''] of
        Inl e \<Rightarrow> (Inl e, L)
      | Inr None \<Rightarrow> (Inl (AuthorityError ''approve_expense payload requires approved_by from human''), L)
      | Inr (Some who) \<Rightarrow>
          and_then (approve_expense E eid who L) (\<lambda>x L1.
            (Inr ([eid], JObj [(''expense_id'', JStr eid), (''state'', JStr (expense_state_value (exp_state x)))]), L1)))"

definition handle_reject :: "json \<Rightarrow> ledger \<Rightarrow> answer outcome \<times> ledger" where
  "handle_reject p L =
     (case need_str p ''expense_id'' of Inl e \<Rightarrow> (Inl e, L) | Inr eid \<Rightarrow>
      if \<not> dhas (expenses L) eid then (Inl (KeyError eid), L)
      else (Inr ([eid], JObj [(''expense_id'', JStr eid), (''decision'', JStr ''REJECT''),
             (''note'', (case jget p ''rationale'' of None \<Rightarrow> JStr [] | Some v \<Rightarrow> v))]), L))"

definition attribution_args :: "json \<Rightarrow> (string \<times> string \<times> string \<times> string \<times> rat) outcome" where
  "attribution_args p =
     bind_o (need_str p ''donor_id'') (\<lambda>dn. bind_o (need_str p ''donation_id'') (\<lambda>d.
     bind_o (need_str p ''expense_id'') (\<lambda>e. bind_o (need_str p ''allocation_id'') (\<lambda>a.
     bind_o (bind_o (jfield p ''attributed_amount'') decimal_of_json) (\<lambda>amt. Inr (dn, d, e, a, amt))))))"

text \<open>The sentinel scans the public document after the receipt is in the ledger.\<close>

definition handle_publish :: "env \<Rightarrow> json \<Rightarrow> ledger \<Rightarrow> answer outcome \<times> ledger" where
  "handle_publish E p L =
     (case bind_o (need_str p ''attribution_method'') (of_value method_value attribution_methods) of
        Inl e \<Rightarrow> (Inl e, L)
      | Inr meth \<Rightarrow>
      case first_text p [''actor'', ''approved_by''] of
        Inl e \<Rightarrow> (Inl e, L)
      | Inr None \<Rightarrow> (Inl (AuthorityError ''publish_use_of_funds_receipt requires actor''), L)
      | Inr (Some actor) \<Rightarrow>
      case attribution_args p of Inl e \<Rightarrow> (Inl e, L) | Inr (dn, d, e, a, amt) \<Rightarrow>
        and_then (attribute_donor_to_expense E dn d e a meth (Some amt) None L) (\<lambda>_ L1.
        case opt_field p ''created_at'' of Inl x \<Rightarrow> (Inl x, L1) | Inr created \<Rightarrow>
        and_then (publish_use_of_funds_receipt E e d a actor created L1) (\<lambda>r L2.
          case assert_public_safe (receipt_to_public r) of
            Inl x \<Rightarrow> (Inl x, L2)
          | Inr _ \<Rightarrow> (Inr ([r_id r], JObj [(''receipt_id'', JStr (r_id r)), (''public'', receipt_to_public r)]), L2))))"

definition correction_head :: "string \<Rightarrow> json \<Rightarrow> (string \<times> string \<times> string) outcome" where
  "correction_head what p =
     bind_o (need_str p ''expense_id'') (\<lambda>eid. bind_o (first_text p [''actor'', ''approved_by'']) (\<lambda>actor.
     bind_o (first_text p [''reason'']) (\<lambda>why.
       case actor of
         None \<Rightarrow> Inl (AuthorityError (what @ '' requires actor from human approval''))
       | Some who \<Rightarrow>
           (case why of None \<Rightarrow> Inl (AuthorityError (what @ '' requires reason'')) | Some w \<Rightarrow> Inr (eid, who, w)))))"

definition noop_answer :: "string \<Rightarrow> expense \<Rightarrow> answer" where
  "noop_answer eid x = ([eid], JObj
     [(''expense_id'', JStr eid), (''state'', JStr (expense_state_value (exp_state x))), (''noop'', JBool True)])"

text \<open>The expense when it is already in the state the correction leads to.\<close>

definition already_in :: "expense_state \<Rightarrow> string \<Rightarrow> ledger \<Rightarrow> expense option" where
  "already_in s eid L =
     (case dget (expenses L) eid of None \<Rightarrow> None | Some x \<Rightarrow> if exp_state x = s then Some x else None)"

definition handle_reverse :: "env \<Rightarrow> json \<Rightarrow> ledger \<Rightarrow> answer outcome \<times> ledger" where
  "handle_reverse E p L =
     (case correction_head ''reverse_expense'' p of Inl e \<Rightarrow> (Inl e, L) | Inr (eid, who, why) \<Rightarrow>
      case already_in REVERSED eid L of
        Some x \<Rightarrow> (Inr (noop_answer eid x), L)
      | None \<Rightarrow>
          and_then (reverse_expense E eid who why L) (\<lambda>(x, cs) L1.
            (Inr (eid # map r_id cs, JObj
               [(''expense_id'', JStr eid), (''state'', JStr (expense_state_value (exp_state x))),
                (''correction_receipt_ids'', strs_doc (map r_id cs)), (''correction_kind'', JStr ''REVERSAL'')]), L1)))"

fun split_of :: "cents \<Rightarrow> json \<Rightarrow> (string \<times> rat) outcome" where
  "split_of whole (JList [a, v]) =
     bind_o (as_str a) (\<lambda>s. bind_o (decimal_of_json v) (\<lambda>x. Inr (s, x)))"
| "split_of whole (JObj kvs) =
     bind_o (need_str (JObj kvs) ''allocation_id'') (\<lambda>s.
       case dget kvs ''amount'' of
         None \<Rightarrow> Inr (s, of_int whole / 100)
       | Some v \<Rightarrow> bind_o (decimal_of_json v) (\<lambda>x. Inr (s, x)))"
| "split_of whole _ = Inl (AuthorityError ''invalid split entry'')"

primrec splits_of :: "cents \<Rightarrow> json list \<Rightarrow> (string \<times> rat) list outcome" where
  "splits_of whole [] = Inr []"
| "splits_of whole (j # js) =
     bind_o (split_of whole j) (\<lambda>s. bind_o (splits_of whole js) (\<lambda>ss. Inr (s # ss)))"

definition supersede_with ::
  "env \<Rightarrow> json \<Rightarrow> json \<Rightarrow> string \<Rightarrow> string \<Rightarrow> string \<Rightarrow> string \<Rightarrow> ledger \<Rightarrow>
     (expense \<times> expense \<times> use_of_funds_receipt list) outcome \<times> ledger" where
  "supersede_with E p repl eid who why approver L =
     (case first_text repl [''id'', ''expense_id''] of Inl e \<Rightarrow> (Inl e, L) | Inr given \<Rightarrow>
      let (rid, L1) = id_or_new E given ''exp'' L in
      case bind_o (expense_of_row (org_id (organization L)) rid None repl) (\<lambda>x.
             bind_o (opt_field repl ''external_source_id'') (\<lambda>ext. Inr (x\<lparr>exp_external := ext\<rparr>))) of
        Inl e \<Rightarrow> (Inl e, L1)
      | Inr replacement \<Rightarrow>
      case list_field p ''splits'' of Inl e \<Rightarrow> (Inl e, L1) | Inr raw \<Rightarrow>
      if raw = [] then (Inl (AuthorityError ''supersede_expense requires splits''), L1)
      else case splits_of (exp_amount replacement) raw of Inl e \<Rightarrow> (Inl e, L1) | Inr splits \<Rightarrow>
        supersede_expense E eid replacement splits who why approver L1)"

definition handle_supersede :: "env \<Rightarrow> json \<Rightarrow> 'x exec_domain \<Rightarrow> answer outcome \<times> 'x exec_domain" where
  "handle_supersede E p D =
     (case correction_head ''supersede_expense'' p of Inl e \<Rightarrow> (Inl e, D) | Inr (eid, who, why) \<Rightarrow>
      case first_text p [''approved_by''] of Inl e \<Rightarrow> (Inl e, D) | Inr approved_by \<Rightarrow>
      case already_in SUPERSEDED eid (xd_ledger D) of
        Some x \<Rightarrow> (Inr (noop_answer eid x), D)
      | None \<Rightarrow>
      case jget p ''replacement'' of
        None \<Rightarrow> (Inl (AuthorityError ''supersede_expense requires replacement expense payload''), D)
      | Some repl \<Rightarrow>
      if \<not> truthy repl
      then (Inl (AuthorityError ''supersede_expense requires replacement expense payload''), D)
      else case get_attr repl of Inl e \<Rightarrow> (Inl e, D) | Inr _ \<Rightarrow>
        and_then (on_ledger (supersede_with E p repl eid who why
            (case approved_by of None \<Rightarrow> who | Some w \<Rightarrow> w)) D) (\<lambda>(old, new, cs) D1.
          (Inr (eid # exp_id new # map r_id cs, JObj
             [(''expense_id'', JStr eid), (''state'', JStr (expense_state_value (exp_state old))),
              (''replacement_expense_id'', JStr (exp_id new)),
              (''replacement_state'', JStr (expense_state_value (exp_state new))),
              (''correction_receipt_ids'', strs_doc (map r_id cs)), (''correction_kind'', JStr ''SUPERSEDE'')]),
           if present (exp_external new) then D1\<lparr>xd_external := dset (the (exp_external new)) (exp_id new) (xd_external D1)\<rparr>
           else D1)))"

section \<open>Sending a notification\<close>

text \<open>\<open>boot\<close> is the attribute \<^verbatim>\<open>fixture_consent_bootstrap\<close> of an adapter. Consent and preference are recorded
  for a donor without consent when the adapter is a fixture.\<close>

definition bootstrap_consent ::
  "env \<Rightarrow> ('x \<Rightarrow> bool) \<Rightarrow> string \<Rightarrow> 'x notification_service \<Rightarrow> unit outcome \<times> 'x notification_service" where
  "bootstrap_consent E boot donor N =
     (let fixture = (case dget (ns_adapters N) EMAIL of None \<Rightarrow> False | Some ad \<Rightarrow> boot ad);
          org = org_id (tw_org (ns_ws N)) in
      if \<not> fixture \<or> dget (tw_consents (ns_ws N)) (donor, channel_value EMAIL) \<noteq> None then (Inr (), N)
      else
        let (t, L) = read_clock E (tw_ledger (ns_ws N));
            N0 = N\<lparr>ns_ws := (ns_ws N)\<lparr>tw_ledger := L\<rparr>\<rparr> in
        and_then (record_consent \<lparr>con_donor = donor, con_org = org, con_channel = EMAIL, con_granted = True,
            con_provenance = ''fixture://consent/email-v1'', con_recorded_at = t\<rparr> N0) (\<lambda>_ N1.
        and_then (set_preference \<lparr>pref_donor = donor, pref_org = org, pref_channel = EMAIL, pref_enabled = True,
            pref_topics = [''MONEY_USED'', ''CORRECTION''], pref_cadence = ''immediate'',
            pref_quiet_start = None, pref_quiet_end = None\<rparr> N1) (\<lambda>_ N2. (Inr (), N2))))"

definition preview_patch :: "email_preview \<Rightarrow> (string \<times> json) list" where
  "preview_patch pv =
     [(''email_subject'', JStr (pv_subject pv)), (''email_body_text'', JStr (pv_body pv)),
      (''email_template_version'', JStr (pv_template pv)), (''email_content_hash'', JStr (pv_content_hash pv))]"

text \<open>Configured adapters are shared with the workspace.\<close>

definition close_service :: "'x tenant_workspace \<Rightarrow> 'x notification_service \<Rightarrow> 'x tenant_workspace" where
  "close_service W N =
     (case tw_adapters W of
        Some (x # xs) \<Rightarrow> (ns_ws N)\<lparr>tw_adapters := Some (ns_adapters N)\<rparr>
      | _ \<Rightarrow> ns_ws N)"

definition sent_answer :: "email_preview \<Rightarrow> notification_intent \<Rightarrow> 'x tenant_workspace \<Rightarrow> answer" where
  "sent_answer pv i W =
     (let ds = filter (\<lambda>d. nd_intent d = ni_id i) (dvalues (tw_deliveries W));
          delivery = (if ds = [] then None else Some (last ds))
      in (ni_id i # (case delivery of None \<Rightarrow> [] | Some d \<Rightarrow> [nd_id d]), JObj
           [(''intent_id'', JStr (ni_id i)), (''intent_status'', JStr (intent_status_value (ni_status i))),
            (''delivery_id'', opt_str (map_option nd_id delivery)),
            (''delivery_success'', (case delivery of None \<Rightarrow> JNull | Some d \<Rightarrow> JBool (nd_success d))),
            (''provider_receipt'', opt_str (map_option nd_provider_receipt delivery)),
            (''preview_id'', JStr (pv_id pv))]))"

text \<open>The checks before the service is asked: the registered preview and the receipt it shows.\<close>

definition send_checks :: "json \<Rightarrow> 'x exec_domain \<Rightarrow> (email_preview \<times> string \<times> use_of_funds_receipt) outcome" where
  "send_checks p D =
     (if \<not> xd_attached D then Inl (AuthorityError ''send_notification requires a TenantWorkspace'')
      else bind_o (first_text p [''preview_id'']) (\<lambda>pid.
        case (case pid of None \<Rightarrow> None | Some i \<Rightarrow> dget (xd_previews D) i) of
          None \<Rightarrow> Inl (AuthorityError ''send_notification requires a registered email preview'')
        | Some pv \<Rightarrow>
            bind_o (need_str p ''receipt_id'') (\<lambda>rid.
              case dget (receipts (xd_ledger D)) rid of
                None \<Rightarrow> Inl (KeyError (''receipt not found: '' @ rid))
              | Some r \<Rightarrow>
                  bind_o (assert_preview_matches_receipt pv r) (\<lambda>_.
                    if jget p ''content_hash'' \<noteq> Some (JStr (pv_content_hash pv))
                    then Inl (AuthorityError ''send payload content_hash does not match registered preview'')
                    else if jget p ''receipt_hash'' \<noteq> Some (JStr (r_hash r))
                    then Inl (AuthorityError ''send payload receipt_hash does not match ledger receipt'')
                    else Inr (pv, rid, r)))))"

definition handle_send ::
  "env \<Rightarrow> 'x adapter_api \<Rightarrow> ('x \<Rightarrow> bool) \<Rightarrow> json \<Rightarrow> 'x exec_domain \<Rightarrow> answer outcome \<times> 'x exec_domain" where
  "handle_send E A boot p D =
     (case send_checks p D of Inl e \<Rightarrow> (Inl e, D) | Inr (pv, rid, r) \<Rightarrow>
      let (v, N) = and_then (bootstrap_consent E boot (r_donor r) (notifications A (xd_ws D))) (\<lambda>_ N1.
            evaluate_for_use_of_funds E A rid EMAIL True (Some (preview_patch pv)) N1);
          D1 = D\<lparr>xd_ws := close_service (xd_ws D) N\<rparr>
      in case v of
           Inl e \<Rightarrow> (Inl e, D1)
         | Inr i \<Rightarrow>
             if ni_status i \<noteq> NI_DELIVERED
             then (Inl (StateError (''notification delivery did not complete: '' @ intent_status_value (ni_status i))), D1)
             else (Inr (sent_answer pv i (xd_ws D1)), D1))"

section \<open>Dispatch\<close>

definition dispatch_command ::
  "env \<Rightarrow> 'x adapter_api \<Rightarrow> ('x \<Rightarrow> bool) \<Rightarrow> agent_command \<Rightarrow> 'x exec_domain \<Rightarrow> answer outcome \<times> 'x exec_domain" where
  "dispatch_command E A boot c D =
     (let p = JObj (cmd_payload c) in
      if cmd_tenant c \<noteq> org_id (organization (xd_ledger D)) then (Inl (AuthorityError ''cross-tenant command rejected''), D)
      else if cmd_type c = ''import_normalized_expense'' then
        (case jfield p ''expense'' of Inl e \<Rightarrow> (Inl e, D) | Inr row \<Rightarrow> import_normalized E row D)
      else if cmd_type c = ''allocate_expense'' then on_ledger (handle_allocate E p) D
      else if cmd_type c = ''approve_expense'' then on_ledger (handle_approve E p) D
      else if cmd_type c = ''reject_expense'' then on_ledger (handle_reject p) D
      else if cmd_type c = ''publish_use_of_funds_receipt'' then on_ledger (handle_publish E p) D
      else if cmd_type c = ''send_notification'' then handle_send E A boot p D
      else if cmd_type c = ''reverse_expense'' then on_ledger (handle_reverse E p) D
      else if cmd_type c = ''supersede_expense'' then handle_supersede E p D
      else (Inl (NotImplementedError (''unsupported command_type='' @ cmd_type c)), D))"

end
