(* ===== verification/Ledger_Log_Properties.thy ===== *)
theory Ledger_Log_Properties
  imports Ledger_Log Ledger_Properties Ledger_Gaps "HOL-Library.Sublist"
begin

text \<open>
  What the command log keeps of a ledger: every entity is read back as it was written, a snapshot
  folded into an empty ledger gives its stores back, and folding the snapshots of a history gives
  the stores of its last state when no store has lost an entry on the way.
\<close>

section \<open>Every entity is read back as written\<close>

lemma read_restriction [simp]: "of_value restriction_value restriction_types (restriction_value rt) = Inr rt"
  by (cases rt) (simp_all add: of_value_def restriction_types_def)

lemma read_state [simp]: "of_value expense_state_value expense_states (expense_state_value st) = Inr st"
  by (cases st) (simp_all add: of_value_def expense_states_def)

lemma read_method [simp]: "of_value method_value attribution_methods (method_value m) = Inr m"
  by (cases m) (simp_all add: of_value_def attribution_methods_def allowed_attribution_methods_def)

lemma donor_round: "donor_of_doc (donor_doc x) = Inr x"
  by (simp add: donor_of_doc_def donor_doc_def)

lemma allocation_round: "allocation_of_doc (allocation_doc x) = Inr x"
  by (simp add: allocation_of_doc_def allocation_doc_def)

lemma donation_round: "fits (don_amount x) \<Longrightarrow> donation_of_doc (donation_doc x) = Inr x"
  by (simp add: donation_of_doc_def donation_doc_def)

lemma donation_allocation_round:
  "fits (da_amount x) \<Longrightarrow> donation_allocation_of_doc (donation_allocation_doc x) = Inr x"
  by (simp add: donation_allocation_of_doc_def donation_allocation_doc_def)

lemma expense_round: "fits (exp_amount x) \<Longrightarrow> expense_of_doc (expense_doc x) = Inr x"
  by (simp add: expense_of_doc_def expense_doc_def)

lemma expense_allocation_round:
  "fits (ea_amount x) \<Longrightarrow> expense_allocation_of_doc (expense_allocation_doc x) = Inr x"
  by (simp add: expense_allocation_of_doc_def expense_allocation_doc_def)

lemma evidence_round: "evidence_of_doc (evidence_doc x) = Inr x"
  by (simp add: evidence_of_doc_def evidence_doc_def)

lemma attribution_round: "fits (at_amount x) \<Longrightarrow> attribution_of_doc (attribution_doc x) = Inr x"
  by (simp add: attribution_of_doc_def attribution_doc_def)

lemma read_provenance [simp]:
  "provenance_of (JObj ((''provenance'', JObj kvs) # rest)) = Inr kvs"
  "j \<noteq> ''provenance'' \<Longrightarrow> provenance_of (JObj ((j, v) # rest)) = provenance_of (JObj rest)"
  by (simp_all add: provenance_of_def)

lemma receipt_round:
  "fits (r_gross x) \<Longrightarrow> fits (r_attributed x) \<Longrightarrow> fits (r_remaining x) \<Longrightarrow>
   receipt_of_doc (receipt_doc x) = Inr x"
  by (simp add: receipt_of_doc_def receipt_doc_def)

lemma strs_round: "strs_of_doc (strs_doc xs) = Inr xs"
  by (simp add: strs_of_doc_def strs_doc_def list_all_iff o_def)

section \<open>Stores\<close>

definition dict_merge :: "('k, 'v) dict \<Rightarrow> ('k, 'v) dict \<Rightarrow> ('k, 'v) dict" where
  "dict_merge d e = fold (\<lambda>(k, v). dset k v) e d"

lemma dict_merge_simps [simp]:
  "dict_merge d [] = d" "dict_merge d ((k, v) # e) = dict_merge (dset k v d) e"
  by (simp_all add: dict_merge_def)

lemma dict_merge_Cons:
  "k \<notin> fst ` set e \<Longrightarrow> dict_merge ((k, v) # d) e = (k, v) # dict_merge d e"
  by (induction e arbitrary: d) auto

lemma dict_merge_new: "dict_ok e \<Longrightarrow> dict_merge [] e = e"
  by (induction e) (auto simp: dict_ok_def dict_merge_Cons)

text \<open>Storing every entry of a dictionary over an older state of it gives the dictionary back, in
  the same order, when the older state lost no key.\<close>

definition grown :: "('k, 'v) dict \<Rightarrow> ('k, 'v) dict \<Rightarrow> bool" where
  "grown d e \<longleftrightarrow> prefix (map fst d) (map fst e)"

lemma dict_merge_grown: "dict_ok e \<Longrightarrow> grown d e \<Longrightarrow> dict_merge d e = e"
proof (induction d arbitrary: e)
  case Nil
  then show ?case by (simp add: dict_merge_new)
next
  case (Cons kw d)
  obtain k w where kw: "kw = (k, w)" by (cases kw)
  obtain v e' where e: "e = (k, v) # e'" and gr: "grown d e'"
    using Cons.prems(2) by (cases e) (auto simp: grown_def kw)
  have "k \<notin> fst ` set e'" and ok: "dict_ok e'" using Cons.prems(1) by (simp_all add: dict_ok_def e)
  then show ?case using Cons.IH [OF ok gr] by (simp add: kw e dict_merge_Cons)
qed

lemma grown_refl [simp]: "grown d d"
  by (simp add: grown_def)

lemma grown_Nil [simp]: "grown [] d"
  by (simp add: grown_def)

lemma grown_trans: "grown d e \<Longrightarrow> grown e f \<Longrightarrow> grown d f"
  unfolding grown_def by (rule prefix_order.trans)

lemma grown_dset [simp]: "grown d (dset k v d)"
proof (induction d)
  case (Cons kw d)
  then show ?case by (cases kw) (auto simp: grown_def)
qed simp

lemma fold_store_docs:
  "(\<And>v. v \<in> set (dvalues e) \<Longrightarrow> dec (enc v) = Inr v) \<Longrightarrow>
   fold_store dec (map (\<lambda>(k, v). (k, enc v)) e) d = (Inr (), dict_merge d e)"
  by (induction e arbitrary: d) (auto simp: dvalues_def)

lemma items_of_simps [simp]:
  "items_of (JObj ((k, JObj d) # kvs)) k = Inr d"
  "items_of (JObj ((k, store_doc enc e) # kvs)) k = Inr (map (\<lambda>(k, v). (k, enc v)) e)"
  "j \<noteq> k \<Longrightarrow> items_of (JObj ((j, x) # kvs)) k = items_of (JObj kvs) k"
  by (simp_all add: items_of_def store_doc_def)

section \<open>Reading a snapshot back\<close>

definition storable :: "ledger \<Rightarrow> bool" where
  "storable L \<longleftrightarrow>
     list_all (fits \<circ> don_amount) (dvalues (donations L)) \<and>
     list_all (fits \<circ> da_amount) (dvalues (donation_allocations L)) \<and>
     list_all (fits \<circ> exp_amount) (dvalues (expenses L)) \<and>
     list_all (fits \<circ> ea_amount) (dvalues (expense_allocations L)) \<and>
     list_all (fits \<circ> at_amount) (dvalues (attributions L)) \<and>
     list_all (\<lambda>r. fits (r_gross r) \<and> fits (r_attributed r) \<and> fits (r_remaining r)) (dvalues (receipts L))"

definition merge_ledger :: "ledger \<Rightarrow> ledger \<Rightarrow> ledger" where
  "merge_ledger L M =
     L\<lparr>donors := dict_merge (donors L) (donors M), donations := dict_merge (donations L) (donations M),
       allocations := dict_merge (allocations L) (allocations M),
       donation_allocations := dict_merge (donation_allocations L) (donation_allocations M),
       expenses := dict_merge (expenses L) (expenses M),
       expense_allocations := dict_merge (expense_allocations L) (expense_allocations M),
       evidence := dict_merge (evidence L) (evidence M),
       attributions := dict_merge (attributions L) (attributions M),
       receipts := dict_merge (receipts L) (receipts M),
       receipt_snapshots := dict_merge (receipt_snapshots L) (receipt_snapshots M),
       expense_receipts := dict_merge (expense_receipts L) (expense_receipts M)\<rparr>"

lemma fold_field_docs:
  assumes "items_of es name = Inr (map (\<lambda>(k, v). (k, enc v)) e)"
    and "\<And>v. v \<in> set (dvalues e) \<Longrightarrow> dec (enc v) = Inr v"
  shows "fold_field dec es name get put L = (Inr (), put (dict_merge (get L) e) L)"
  using fold_store_docs [of e dec enc "get L"] assms by (simp add: fold_field_def)

lemma snapshot_items:
  defines "items \<equiv> \<lambda>L. items_of (snapshot_ledger_entities L)"
  shows
  "items L ''donors'' = Inr (map (\<lambda>(k, v). (k, donor_doc v)) (donors L))"
  "items L ''donations'' = Inr (map (\<lambda>(k, v). (k, donation_doc v)) (donations L))"
  "items L ''allocations'' = Inr (map (\<lambda>(k, v). (k, allocation_doc v)) (allocations L))"
  "items L ''donation_allocations'' =
     Inr (map (\<lambda>(k, v). (k, donation_allocation_doc v)) (donation_allocations L))"
  "items L ''expenses'' = Inr (map (\<lambda>(k, v). (k, expense_doc v)) (expenses L))"
  "items L ''expense_allocations'' =
     Inr (map (\<lambda>(k, v). (k, expense_allocation_doc v)) (expense_allocations L))"
  "items L ''evidence'' = Inr (map (\<lambda>(k, v). (k, evidence_doc v)) (evidence L))"
  "items L ''attributions'' = Inr (map (\<lambda>(k, v). (k, attribution_doc v)) (attributions L))"
  "items L ''receipts'' = Inr (map (\<lambda>(k, v). (k, receipt_doc v)) (receipts L))"
  "items L ''receipt_snapshots'' = Inr (map (\<lambda>(k, v). (k, v)) (receipt_snapshots L))"
  "items L ''expense_receipts'' = Inr (map (\<lambda>(k, v). (k, strs_doc v)) (expense_receipts L))"
  by (simp_all add: items_def snapshot_ledger_entities_def)

lemma storableD:
  assumes "storable L"
  shows "x \<in> set (dvalues (donations L)) \<Longrightarrow> fits (don_amount x)"
    "y \<in> set (dvalues (donation_allocations L)) \<Longrightarrow> fits (da_amount y)"
    "z \<in> set (dvalues (expenses L)) \<Longrightarrow> fits (exp_amount z)"
    "u \<in> set (dvalues (expense_allocations L)) \<Longrightarrow> fits (ea_amount u)"
    "v \<in> set (dvalues (attributions L)) \<Longrightarrow> fits (at_amount v)"
    "w \<in> set (dvalues (receipts L)) \<Longrightarrow> fits (r_gross w) \<and> fits (r_attributed w) \<and> fits (r_remaining w)"
  using assms by (simp_all add: storable_def list_all_iff)

lemma org_mismatch_snapshot:
  "org_id (organization L) = org_id (organization M) \<Longrightarrow> \<not> org_mismatch L (snapshot_ledger_entities M)"
  by (simp add: org_mismatch_def snapshot_ledger_entities_def organization_doc_def)

lemma apply_snapshot:
  assumes "storable M" and "org_id (organization L) = org_id (organization M)"
  shows "apply_result_json L (build_result_json ct key M refs payload) = (Inr (), merge_ledger L M)"
proof -
  note st = storableD [OF assms(1)]
  note items = snapshot_items [where L = M]
  have es: "jget (build_result_json ct key M refs payload) ''entities'' = Some (snapshot_ledger_entities M)"
    by (simp add: build_result_json_def)
  note ff = items(1) [THEN fold_field_docs, OF donor_round]
    items(3) [THEN fold_field_docs, OF allocation_round]
    items(2) [THEN fold_field_docs, OF donation_round [OF st(1)]]
    items(4) [THEN fold_field_docs, OF donation_allocation_round [OF st(2)]]
    items(5) [THEN fold_field_docs, OF expense_round [OF st(3)]]
    items(6) [THEN fold_field_docs, OF expense_allocation_round [OF st(4)]]
    items(7) [THEN fold_field_docs, OF evidence_round]
    items(8) [THEN fold_field_docs, OF attribution_round [OF st(5)]]
    items(11) [THEN fold_field_docs, OF strs_round]
  have r: "fold_field receipt_of_doc (snapshot_ledger_entities M) ''receipts'' get put N =
      (Inr (), put (dict_merge (get N) (receipts M)) N)" for get put N
    using receipt_round st(6) by (intro fold_field_docs [OF items(9)]) blast
  have s: "fold_field Inr (snapshot_ledger_entities M) ''receipt_snapshots'' get put N =
      (Inr (), put (dict_merge (get N) (receipt_snapshots M)) N)" for get put N
    by (rule fold_field_docs [OF items(10)]) simp
  show ?thesis
    by (simp add: apply_result_json_def es org_mismatch_snapshot [OF assms(2)] ff r s merge_ledger_def)
qed

section \<open>Folding a sequence of snapshots\<close>

definition stores_ok :: "ledger \<Rightarrow> bool" where
  "stores_ok L \<longleftrightarrow> wf_stores L \<and> dict_ok (receipt_snapshots L) \<and> dict_ok (expense_receipts L)"

definition ledger_grown :: "ledger \<Rightarrow> ledger \<Rightarrow> bool" where
  "ledger_grown L M \<longleftrightarrow> org_id (organization L) = org_id (organization M) \<and>
     grown (donors L) (donors M) \<and> grown (donations L) (donations M) \<and> grown (allocations L) (allocations M) \<and>
     grown (donation_allocations L) (donation_allocations M) \<and> grown (expenses L) (expenses M) \<and>
     grown (expense_allocations L) (expense_allocations M) \<and> grown (evidence L) (evidence M) \<and>
     grown (attributions L) (attributions M) \<and> grown (receipts L) (receipts M) \<and>
     grown (receipt_snapshots L) (receipt_snapshots M) \<and> grown (expense_receipts L) (expense_receipts M)"

text \<open>The stores of one ledger with the organization, the audit log and the draws of another: the log
  holds the stores only.\<close>

definition carry :: "ledger \<Rightarrow> ledger \<Rightarrow> ledger" where
  "carry L M = M\<lparr>organization := organization L, audit_log := audit_log L,
     uuid_draws := uuid_draws L, clock_reads := clock_reads L\<rparr>"

lemma carry_simps [simp]: "carry (carry L M) N = carry L N" "carry L L = L"
  by (simp_all add: carry_def)

lemma ledger_grown_carry [simp]:
  "org_id (organization L) = org_id (organization M) \<Longrightarrow> ledger_grown (carry L M) N = ledger_grown M N"
  by (simp add: ledger_grown_def carry_def)

lemma merge_ledger_grown:
  assumes "stores_ok M" "ledger_grown L M"
  shows "merge_ledger L M = carry L M"
  using assms
  by (simp add: merge_ledger_def carry_def dict_merge_grown stores_ok_def wf_stores_def ledger_grown_def)

lemma ledger_grown_org: "ledger_grown L M \<Longrightarrow> org_id (organization L) = org_id (organization M)"
  by (simp add: ledger_grown_def)

text \<open>The row of a command that left the ledger \<open>M\<close>.\<close>

definition holds_snapshot :: "json \<Rightarrow> ledger \<Rightarrow> bool" where
  "holds_snapshot row M \<longleftrightarrow>
     (\<exists>ct key refs payload. jget row ''result_json'' = Some (build_result_json ct key M refs payload))"

lemma fold_rows_snapshots:
  assumes "list_all2 holds_snapshot rows Ms" "successively ledger_grown (L # Ms)"
    and "list_all (\<lambda>M. storable M \<and> stores_ok M) Ms"
  shows "fold_rows rows L = (Inr (), carry L (last (L # Ms)))"
  using assms
proof (induction rows Ms arbitrary: L rule: list_all2_induct)
  case Nil
  then show ?case by simp
next
  case (Cons row rows M Ms)
  obtain ct key refs payload
    where row: "jget row ''result_json'' = Some (build_result_json ct key M refs payload)"
    using Cons.hyps by (auto simp: holds_snapshot_def)
  have gr: "ledger_grown L M" and M: "storable M" "stores_ok M" using Cons.prems by auto
  note org = ledger_grown_org [OF gr]
  have "successively ledger_grown (carry L M # Ms)"
    using Cons.prems(1) org by (cases Ms) auto
  then have "fold_rows rows (carry L M) = (Inr (), carry L (last (M # Ms)))"
    using Cons.IH [of "carry L M"] Cons.prems(2) by (cases Ms) auto
  moreover have "truthy (build_result_json ct key M refs payload)" by (simp add: build_result_json_def)
  ultimately show ?case
    using apply_snapshot [OF M(1) org] merge_ledger_grown [OF M(2) gr] by (simp add: row)
qed

section \<open>Histories of the ledger\<close>

lemma effect_stores_ok: "effect fr L L' \<Longrightarrow> stores_ok L \<Longrightarrow> stores_ok L'"
proof -
  assume e: "effect fr L L'" and ok: "stores_ok L"
  have "dict_ok (receipt_snapshots L') \<and> dict_ok (expense_receipts L')"
    using e ok by (auto simp: stores_ok_def elim!: effectE)
  then show "stores_ok L'" using effect_wf_stores [OF e] ok by (simp add: stores_ok_def)
qed

lemma effects_stores_ok: "effects fr L L' \<Longrightarrow> stores_ok L \<Longrightarrow> stores_ok L'"
  by (erule effects_keep) (auto intro: effect_stores_ok)

text \<open>Only charges and attributions are ever removed.\<close>

definition lasting_grown :: "ledger \<Rightarrow> ledger \<Rightarrow> bool" where
  "lasting_grown L M \<longleftrightarrow> organization M = organization L \<and>
     grown (donors L) (donors M) \<and> grown (donations L) (donations M) \<and> grown (allocations L) (allocations M) \<and>
     grown (donation_allocations L) (donation_allocations M) \<and> grown (expenses L) (expenses M) \<and>
     grown (evidence L) (evidence M) \<and> grown (receipts L) (receipts M) \<and>
     grown (receipt_snapshots L) (receipt_snapshots M) \<and> grown (expense_receipts L) (expense_receipts M)"

definition nothing_replaced :: "ledger \<Rightarrow> ledger \<Rightarrow> bool" where
  "nothing_replaced L M \<longleftrightarrow>
     grown (expense_allocations L) (expense_allocations M) \<and> grown (attributions L) (attributions M)"

lemma effect_lasting: "effect fr L M \<Longrightarrow> lasting_grown L M"
  by (auto simp: lasting_grown_def elim!: effectE)

lemma lasting_grown_trans: "lasting_grown L M \<Longrightarrow> lasting_grown M N \<Longrightarrow> lasting_grown L N"
  by (auto simp: lasting_grown_def intro: grown_trans)

lemma effects_lasting: "effects fr L M \<Longrightarrow> lasting_grown L M"
proof (induction rule: rtranclp_induct)
  case base
  show ?case by (simp add: lasting_grown_def)
next
  case (step M N)
  then show ?case using effect_lasting lasting_grown_trans by blast
qed

lemma effects_ledger_grown: "effects fr L M \<Longrightarrow> nothing_replaced L M \<Longrightarrow> ledger_grown L M"
  using effects_lasting by (auto simp: ledger_grown_def lasting_grown_def nothing_replaced_def)

section \<open>A snapshot is the whole ledger\<close>

lemma empty_ledger_stores_ok: "stores_ok (empty_ledger org)"
  using empty_ledger_wf [of org] by (simp add: stores_ok_def ledger_wf_def empty_ledger_def)

lemma history_stores_ok: "stores_ok (ledger_after E org cs)"
proof -
  have "stores_ok (run (ledger_step E) L cs)" if "stores_ok L" for L
    using that
  proof (induction cs arbitrary: L)
    case (Cons c cs)
    have "effects False L (ledger_step E L c)" by (rule ledger_step_effects) simp
    then show ?case using Cons effects_stores_ok by simp
  qed simp
  then show ?thesis using empty_ledger_stores_ok by blast
qed

lemma history_organization: "organization (ledger_after E org cs) = org"
proof -
  have "organization (run (ledger_step E) L cs) = organization L" for L
  proof (induction cs arbitrary: L)
    case (Cons c cs)
    have "effects False L (ledger_step E L c)" by (rule ledger_step_effects) simp
    from effects_lasting [OF this] have "organization (ledger_step E L c) = organization L"
      unfolding lasting_grown_def by blast
    then show ?case by (simp only: run.simps Cons.IH)
  qed simp
  then show ?thesis by (simp add: empty_ledger_def)
qed

lemma empty_ledger_grown: "org_id (organization L) = org_id org \<Longrightarrow> ledger_grown (empty_ledger org) L"
  by (simp add: ledger_grown_def empty_ledger_def)

text \<open>C39. Round trip: whatever commands a ledger has run, the result document written for it, folded into an
  empty ledger of the same organization, gives back every store of the ledger, entry by entry and in
  order, as long as its amounts have at most 28 digits. The audit log is not part of the document.\<close>

theorem snapshot_round_trip:
  assumes "storable (ledger_after E org cs)"
  shows "apply_result_json (empty_ledger org) (build_result_json ct key (ledger_after E org cs) refs out) =
    (Inr (), (ledger_after E org cs)\<lparr>audit_log := [], uuid_draws := 0, clock_reads := 0\<rparr>)"
proof -
  let ?L = "ledger_after E org cs"
  have org: "organization ?L = org" by (rule history_organization)
  then have "merge_ledger (empty_ledger org) ?L = carry (empty_ledger org) ?L"
    by (intro merge_ledger_grown history_stores_ok empty_ledger_grown) simp
  then show ?thesis
    using apply_snapshot [OF assms, of "empty_ledger org"] org by (simp add: carry_def empty_ledger_def)
qed

lemma demo_storable: "storable demo9"
  by (simp add: storable_def dvalues_def fits_def demo_donation_def demo_expense_def demo_da_def demo_ea_def
      demo_attribution_def demo_receipt_def)

theorem snapshot_round_trip_witness:
  "apply_result_json (empty_ledger demo_org) (build_result_json ''approve_expense'' ''k'' demo9 [] JNull) =
     (Inr (), demo9\<lparr>audit_log := [], uuid_draws := 0, clock_reads := 0\<rparr>) \<and>
   receipts demo9 = [(demo_id ''uof'' 11, demo_receipt)]"
  using snapshot_round_trip [of demo_env demo_org demo_history "''approve_expense''" "''k''" "[]" JNull]
    demo_storable demo_run by simp

end
