(* ===== verification/Executor_Properties.thy ===== *)
theory Executor_Properties
  imports Executor Ledger_Log_Properties
begin

text \<open>
  The executor in front of the ledger: every dispatch is a sequence of the ledger's primitive changes,
  a command without a human approval spends nothing, and a publication is in the books before the
  sentinel sees it.
\<close>

section \<open>Dispatches are ledger histories\<close>

lemma xd_simps [simp]:
  "xd_ledger (xd_put L D) = L" "xd_ledger (D\<lparr>xd_external := x\<rparr>) = xd_ledger D"
  by (simp_all add: xd_ledger_def xd_put_def)

lemma xd_ledger_on [simp]: "xd_ledger (snd (on_ledger f D)) = snd (f (xd_ledger D))"
  by (simp add: on_ledger_def split_beta)

lemma xd_ledger_on_then:
  assumes "\<And>a D. xd_ledger (snd (g a D)) = xd_ledger D"
  shows "xd_ledger (snd (and_then (on_ledger f D) g)) = snd (f (xd_ledger D))"
proof -
  obtain v L where "f (xd_ledger D) = (v, L)" by fastforce
  then show ?thesis using assms by (cases v) (simp_all add: on_ledger_def)
qed

lemma effects_return: "effects fr L L' \<Longrightarrow> effects fr L (snd (v, L'))"
  by simp

lemma attach_rows_effects: "effects fr L (snd (attach_rows E eid rows L))"
proof (induction rows arbitrary: L)
  case (Cons row rows)
  have step: "effects fr L' (snd (and_then (attach_evidence E v L') (\<lambda>_ L2. attach_rows E eid rows L2)))" for v L'
    using effects_trans Cons.IH by (blast intro: effects_and_then attach_evidence_effects)
  have draw: "effects fr L (snd (id_or_new E g ''ev'' L))" for g by (rule effects_id_or_new) simp
  show ?case
    unfolding attach_rows.simps
    by (intro effects_branch effects_return draw effects_trans [OF draw step])
qed simp

lemma import_row_effects: "effects fr L (snd (import_row E ext row L))"
proof -
  have draw: "effects fr L (snd (id_or_new E g ''exp'' L))" for g by (rule effects_id_or_new) simp
  have rest: "effects fr L' (snd (and_then (import_expense E x L') (\<lambda>_ L2.
      case list_field row ''evidence'' of
        Inl e \<Rightarrow> (Inl e, L2)
      | Inr rows \<Rightarrow> and_then (attach_rows E eid rows L2) (\<lambda>_ L3. (Inr eid, L3)))))" for x eid L'
    using effects_trans attach_rows_effects
    by (intro effects_and_then import_expense_effects effects_case_sum effects_return effects_snd_return) blast+
  show ?thesis
    unfolding import_row_def
    by (intro effects_branch effects_return draw effects_trans [OF draw rest])
qed

lemma handle_effects:
  "effects False L (snd (handle_allocate E p L))" "effects False L (snd (handle_approve E p L))"
  "effects False L (snd (handle_reject p L))" "effects False L (snd (handle_reverse E p L))"
proof -
  have rev: "effects False L (snd (reverse_expense E e who why L))" for e who why
    by (rule reverse_expense_effects [OF _ order_refl]) simp
  show "effects False L (snd (handle_allocate E p L))" "effects False L (snd (handle_approve E p L))"
    "effects False L (snd (handle_reject p L))" "effects False L (snd (handle_reverse E p L))"
    unfolding handle_allocate_def handle_approve_def handle_reject_def handle_reverse_def
    by (intro effects_branch effects_return effects_snd_return allocate_expense_effects approve_expense_effects;
        auto intro!: effects_branch effects_and_then rev simp: split_beta)+
qed

lemma handle_publish_effects: "effects fr L (snd (handle_publish E p L))"
proof -
  have pub: "effects fr L' (snd (and_then (publish_use_of_funds_receipt E e d a actor created L') (\<lambda>r L2.
      case assert_public_safe (receipt_to_public r) of
        Inl x \<Rightarrow> (Inl x, L2)
      | Inr _ \<Rightarrow> (Inr (f r), L2))))" for e d a actor created f L'
    by (intro effects_and_then publish_use_of_funds_receipt_effects effects_case_sum effects_return)
  show ?thesis
    unfolding handle_publish_def
    by (intro effects_branch effects_return effects_and_then attribute_donor_to_expense_effects
        effects_trans [OF _ pub])
qed

lemma supersede_with_effects: "effects False L (snd (supersede_with E p repl eid who why by L))"
proof -
  have draw: "effects False L (snd (id_or_new E g ''exp'' L))" for g by (rule effects_id_or_new) simp
  have sup: "effects False L' (snd (supersede_expense E eid rep sp who why by L'))" for rep sp L'
    by (rule supersede_expense_effects [OF _ _ order_refl]) simp_all
  show ?thesis
    unfolding supersede_with_def
    by (intro effects_branch effects_return draw effects_trans [OF draw sup])
qed

lemma import_normalized_ledger:
  "xd_ledger (snd (import_normalized E row D)) = xd_ledger D \<or>
   (\<exists>ext. xd_ledger (snd (import_normalized E row D)) = snd (import_row E ext row (xd_ledger D)))"
  by (auto simp: import_normalized_def xd_ledger_on_then split: sum.splits option.splits)

lemma handle_supersede_ledger:
  "xd_ledger (snd (handle_supersede E p D)) = xd_ledger D \<or>
   (\<exists>repl eid who why by. xd_ledger (snd (handle_supersede E p D)) =
      snd (supersede_with E p repl eid who why by (xd_ledger D)))"
proof -
  have "xd_ledger (snd (and_then (on_ledger f D) (\<lambda>(old, new, cs) D1. (Inr (h old new cs),
      if P new then D1\<lparr>xd_external := x new D1\<rparr> else D1)))) = snd (f (xd_ledger D))"
    for f and h :: "expense \<Rightarrow> expense \<Rightarrow> use_of_funds_receipt list \<Rightarrow> answer" and P x
    by (rule xd_ledger_on_then) auto
  then show ?thesis
    unfolding handle_supersede_def by (auto simp del: first_text.simps split: sum.splits option.splits) blast+
qed

section \<open>Sending touches no book\<close>

lemma consent_ledger [simp]:
  "tw_ledger (ns_ws (snd (record_consent c N))) = tw_ledger (ns_ws N)"
  "tw_ledger (ns_ws (snd (set_preference q N))) = tw_ledger (ns_ws N)"
  by (auto simp: record_consent_def set_preference_def Let_def)

lemma bootstrap_ledger: "only_draws (tw_ledger (ns_ws N)) (tw_ledger (ns_ws (snd (bootstrap_consent E boot d N))))"
proof -
  have clock: "only_draws L (snd (read_clock E L))" for L
    using only_draws_drew [of L 0 1] by (simp add: read_clock_def drew_def)
  have then_pref: "tw_ledger (ns_ws (snd (and_then (record_consent c N0) (\<lambda>_ N1.
      and_then (set_preference q N1) (\<lambda>_ N2. (Inr (), N2)))))) = tw_ledger (ns_ws N0)" for c q N0
  proof -
    obtain v N1 where r: "record_consent c N0 = (v, N1)" by (cases "record_consent c N0")
    obtain w N2 where q: "set_preference q N1 = (w, N2)" by (cases "set_preference q N1")
    show ?thesis using consent_ledger(1) [of c N0] consent_ledger(2) [of q N1] r q by (cases v; cases w) simp_all
  qed
  show ?thesis
    using clock by (auto simp: bootstrap_consent_def Let_def split_beta then_pref)
qed

lemma evaluate_uof_ledger:
  "only_draws (tw_ledger (ns_ws N)) (tw_ledger (ns_ws (snd (evaluate_for_use_of_funds E A rid ch del patch N))))"
proof -
  have "only_draws (tw_ledger (ns_ws N))
      (tw_ledger (ns_ws (snd (evaluate_intent E A d ch mc st sid pl tm cr del N))))" for d mc st sid pl tm cr
    using evaluate_books [of E A d ch mc st sid pl tm cr del N, OF surjective_pairing] by (simp add: books_kept_def)
  then show ?thesis by (simp add: evaluate_for_use_of_funds_def split: option.split)
qed

lemma close_service_ledger [simp]: "tw_ledger (close_service W N) = tw_ledger (ns_ws N)"
  by (auto simp: close_service_def split: option.split list.split)

lemma notifications_ws [simp]: "ns_ws (notifications A W) = W"
  by (simp add: notifications_def)

lemma handle_send_ledger: "only_draws (xd_ledger D) (xd_ledger (snd (handle_send E A boot p D)))"
proof (cases "send_checks p D")
  case (Inr q)
  obtain pv rid r where q: "q = (pv, rid, r)" by (cases q)
  let ?N = "notifications A (xd_ws D)"
  let ?e = "\<lambda>_ N1. evaluate_for_use_of_funds E A rid EMAIL True (Some (preview_patch pv)) N1"
  have "only_draws (tw_ledger (ns_ws ?N)) (tw_ledger (ns_ws (snd (and_then (bootstrap_consent E boot (r_donor r) ?N) ?e))))"
  proof -
    obtain v N1 where b: "bootstrap_consent E boot (r_donor r) ?N = (v, N1)" by fastforce
    have "only_draws (tw_ledger (ns_ws ?N)) (tw_ledger (ns_ws N1))"
      using bootstrap_ledger [of ?N E boot "r_donor r"] b by simp
    then show ?thesis using b evaluate_uof_ledger only_draws_trans by (cases v) fastforce+
  qed
  then show ?thesis
    by (auto simp: handle_send_def Inr q Let_def split_beta xd_ledger_def split: sum.split)
qed (simp add: handle_send_def)

section \<open>Dispatch\<close>

lemma dispatch_effects: "effects False (xd_ledger D) (xd_ledger (snd (dispatch_command E A boot c D)))"
proof -
  let ?L = "xd_ledger D" and ?p = "JObj (cmd_payload c)"
  have imp: "effects False ?L (xd_ledger (snd (import_normalized E row D)))" for row
    using import_normalized_ledger [of E row D] import_row_effects [of False ?L E _ row] by fastforce
  have sup: "effects False ?L (xd_ledger (snd (handle_supersede E ?p D)))"
    using handle_supersede_ledger [of E ?p D] supersede_with_effects [of ?L E ?p] by fastforce
  have snd_: "effects False ?L (xd_ledger (snd (handle_send E A boot ?p D)))"
    using only_draws_effect [OF handle_send_ledger] by blast
  show ?thesis
    using imp sup snd_ handle_effects handle_publish_effects
    by (auto simp: dispatch_command_def Let_def split: sum.split)
qed

interpretation executor_ledger: kept_invariant "\<lambda>D c. snd (dispatch_command E A boot c D)" "\<lambda>_ _. True"
  "\<lambda>D. ledger_base_inv (xd_ledger D)" for E A boot
  by unfold_locales (blast intro: effects_keep [OF dispatch_effects] effect_base_inv)

section \<open>Without an approval nothing is spent\<close>

lemma run_command_domain:
  "ex_domain (snd (run_command E idx dispatch c approval X)) = snd (dispatch c (ex_domain X))"
proof -
  obtain v d where d: "dispatch c (ex_domain X) = (v, d)" by (cases "dispatch c (ex_domain X)")
  show ?thesis
    by (auto simp: run_command_def d Let_def split: sum.split prod.splits dest!: store_exec_receipt_frame)
qed

lemma execute_domain:
  "ex_domain (snd (execute E idx dispatch c approval agent proposal X)) \<in>
     {ex_domain X, snd (dispatch c (ex_domain X))}"
proof -
  obtain v X0 where g: "execute_guard E c approval agent proposal X = (v, X0)"
    by (cases "execute_guard E c approval agent proposal X")
  have d0: "ex_domain X0 = ex_domain X" using execute_guard_frame [OF g] by simp
  have store: "ex_domain (snd (and_then (store_exec_receipt idx r Y) (\<lambda>_ X1. (Inr q, X1)))) = ex_domain Y" for r q Y
    by (auto simp: and_then_def split: prod.splits sum.splits dest: store_exec_receipt_frame)
  show ?thesis
  proof (cases v)
    case (Inl e)
    then show ?thesis using g d0 by (simp add: execute_def)
  next
    case (Inr u)
    then show ?thesis
      using d0 run_command_domain [of E idx dispatch c approval X0]
      by (auto simp: execute_def g Let_def store split_beta split: option.split)
  qed
qed

text \<open>Charges and evidence may change, and expenses may be imported and charged; what was approved,
  received, attributed or published stays.\<close>

definition unspent :: "ledger \<Rightarrow> ledger \<Rightarrow> bool" where
  "unspent L L' \<longleftrightarrow> receipts L' = receipts L \<and> receipt_snapshots L' = receipt_snapshots L \<and>
     attributions L' = attributions L \<and> donations L' = donations L \<and>
     donation_allocations L' = donation_allocations L \<and>
     (\<forall>e. expense_verified L' e = expense_verified L e) \<and>
     (\<forall>e x. dget (expenses L) e = Some x \<longrightarrow> verified_state (exp_state x) \<or> corrected_state (exp_state x) \<longrightarrow>
        dget (expenses L') e = Some x)"

lemma unspent_refl [simp]: "unspent L L"
  by (simp add: unspent_def)

lemma unspent_trans: "unspent L L1 \<Longrightarrow> unspent L1 L2 \<Longrightarrow> unspent L L2"
  by (auto simp: unspent_def)

lemma unspent_draw [simp]: "unspent L (snd (id_or_new E g p L))"
  by (simp add: unspent_def expense_verified_def)

lemma unspent_post: "post (\<lambda>_ L'. unspent L L') r \<Longrightarrow> unspent L (snd r)"
  by (simp add: post_def)

lemma unspent_audit: "unspent L L' \<Longrightarrow> unspent L (audit E ev et ei ac p L')"
  by (simp add: unspent_def expense_verified_def)

lemma import_expense_unspent: "unspent L (snd (import_expense E x L))"
  unfolding import_expense_def
  by (intro unspent_post post_branch post_pair unspent_refl unspent_audit)
    (auto simp: unspent_def expense_verified_def)

lemma attach_evidence_unspent: "unspent L (snd (attach_evidence E v L))"
  unfolding attach_evidence_def
  by (intro unspent_post post_branch post_pair unspent_refl unspent_audit)
    (simp add: unspent_def expense_verified_def)

lemma pending_unspent:
  assumes "unspent L L'" "dget (expenses L') e = Some x" "\<not> verified_state (exp_state x)" "\<not> corrected_state (exp_state x)"
  shows "unspent L (to_approval_pending e x L')"
proof -
  have "unspent L' (to_approval_pending e x L')"
    using assms(2-4) by (auto simp: unspent_def to_approval_pending_def expense_verified_def with_expense_state_def)
  then show ?thesis using assms(1) unspent_trans by blast
qed

lemma allocate_expense_unspent: "unspent L (snd (allocate_expense E e a amt g L))"
  unfolding allocate_expense_def
proof (intro unspent_post post_branch post_pair unspent_refl unspent_audit, goal_cases)
  case (1 x amt' rem)
  then show ?case
    by (intro pending_unspent) (auto simp: require_simps unspent_def expense_verified_def)
qed

lemmas unspent_ops = import_expense_unspent attach_evidence_unspent allocate_expense_unspent

lemma unspent_then:
  "unspent L (snd r) \<Longrightarrow> (\<And>a s. r = (Inr a, s) \<Longrightarrow> unspent s (snd (f a s))) \<Longrightarrow> unspent L (snd (and_then r f))"
  by (cases r; cases "fst r") (auto intro: unspent_trans)

lemma attach_rows_unspent: "unspent L (snd (attach_rows E eid rows L))"
proof (induction rows arbitrary: L)
  case (Cons row rows)
  have step: "unspent L' (snd (and_then (attach_evidence E v L') (\<lambda>_ L2. attach_rows E eid rows L2)))" for v L'
    by (rule unspent_then [OF unspent_ops(2) Cons.IH])
  show ?case
    using unspent_trans [OF unspent_draw step] by (auto simp: Let_def split_beta split: sum.split)
qed simp

lemma import_row_unspent: "unspent L (snd (import_row E ext row L))"
proof -
  have rest: "unspent L' (snd (and_then (import_expense E x L') (\<lambda>_ L2.
      case list_field row ''evidence'' of
        Inl e \<Rightarrow> (Inl e, L2)
      | Inr rows \<Rightarrow> and_then (attach_rows E eid rows L2) (\<lambda>_ L3. (Inr eid, L3)))))" for x eid L'
    by (rule unspent_then [OF unspent_ops(1)])
      (auto simp: snd_and_then_return attach_rows_unspent split: sum.split)
  show ?thesis
    unfolding import_row_def
    by (intro unspent_post post_branch post_pair unspent_refl unspent_draw)
      (simp only: post_def unspent_trans [OF unspent_draw rest])
qed

lemma handle_allocate_unspent: "unspent L (snd (handle_allocate E p L))"
  by (auto simp: handle_allocate_def snd_and_then_return unspent_ops split: sum.split)

lemma import_normalized_unspent:
  "unspent (xd_ledger D) (xd_ledger (snd (import_normalized E row D)))"
  using import_normalized_ledger [of E row D] import_row_unspent [of "xd_ledger D" E _ row] by fastforce

text \<open>The rest of the workspace is not touched by a call on the ledger.\<close>

lemma on_ledger_deliveries: "tw_deliveries (xd_ws (snd (on_ledger f D))) = tw_deliveries (xd_ws D)"
  by (simp add: on_ledger_def xd_put_def split_beta)

lemma import_normalized_deliveries:
  "tw_deliveries (xd_ws (snd (import_normalized E row D))) = tw_deliveries (xd_ws D)"
proof -
  have "tw_deliveries (xd_ws (snd (and_then (on_ledger f D) (\<lambda>eid D1. (Inr (h eid), D1\<lparr>xd_external := x eid D1\<rparr>))))) =
      tw_deliveries (xd_ws D)" for f :: "ledger \<Rightarrow> string outcome \<times> ledger" and h :: "string \<Rightarrow> answer" and x
    using on_ledger_deliveries [of f D] by (cases "on_ledger f D"; cases "fst (on_ledger f D)") auto
  then show ?thesis by (simp add: import_normalized_def split: sum.split option.split)
qed

lemma dispatch_unapproved:
  assumes "cmd_type c \<notin> set L3_COMMAND_TYPES"
  shows "unspent (xd_ledger D) (xd_ledger (snd (dispatch_command E A boot c D))) \<and>
    tw_deliveries (xd_ws (snd (dispatch_command E A boot c D))) = tw_deliveries (xd_ws D)"
  using assms import_normalized_unspent handle_allocate_unspent import_normalized_deliveries on_ledger_deliveries
  by (auto simp: dispatch_command_def Let_def L3_COMMAND_TYPES_def split: sum.split)

text \<open>Whatever an agent proposes, executing a command without a human approval publishes and corrects no
  receipt, attributes nothing to a donor, approves, reverses or changes no approved expense, moves no
  donation and sends no message.\<close>

theorem unapproved_execution_spends_nothing:
  fixes X :: "('s, 'x exec_domain) executor"
  shows "unspent (xd_ledger (ex_domain X))
      (xd_ledger (ex_domain (snd (execute E idx (dispatch_command E A boot) c None agent proposal X)))) \<and>
    tw_deliveries (xd_ws (ex_domain (snd (execute E idx (dispatch_command E A boot) c None agent proposal X)))) =
      tw_deliveries (xd_ws (ex_domain X))"
proof (cases "requires_human_approval c")
  case True
  then have "assert_execution_authorized c None agent \<noteq> Inr ()" by (simp add: assert_execution_authorized_def)
  then show ?thesis
    using execute_unauthorized(2) [of c None agent E idx "dispatch_command E A boot" proposal X] by simp
next
  case False
  then have "cmd_type c \<notin> set L3_COMMAND_TYPES" by (simp add: requires_human_approval_def)
  then show ?thesis
    using dispatch_unapproved [of c "ex_domain X" E A boot]
      execute_domain [of E idx "dispatch_command E A boot" c None agent proposal X] by auto
qed

section \<open>Repeated corrections\<close>

text \<open>Reversing an expense that is already reversed succeeds, reports that nothing was done and leaves
  the executor's whole domain as it was, so a correction command may be retried.\<close>

theorem repeated_reversal_is_noop:
  assumes "cmd_type c = ''reverse_expense''" "cmd_tenant c = org_id (organization (xd_ledger D))"
    and "correction_head ''reverse_expense'' (JObj (cmd_payload c)) = Inr (eid, who, why)"
    and "dget (expenses (xd_ledger D)) eid = Some x" "exp_state x = REVERSED"
  shows "dispatch_command E A boot c D =
    (Inr ([eid], JObj [(''expense_id'', JStr eid), (''state'', JStr ''REVERSED''), (''noop'', JBool True)]), D)"
  using assms
  by (simp add: dispatch_command_def on_ledger_def handle_reverse_def already_in_def noop_answer_def xd_put_def xd_ledger_def)

definition reversed_domain :: "in_process_adapter exec_domain" where
  "reversed_domain = new_exec_domain
     (empty_workspace ((empty_ledger demo_org)\<lparr>expenses := [(''e'', demo_expense ''e'' 4000 REVERSED None)]\<rparr>)) True"

definition reverse_again :: agent_command where
  "reverse_again = \<lparr>cmd_type = ''reverse_expense'', cmd_tenant = org_id demo_org,
     cmd_payload = [(''expense_id'', JStr ''e''), (''actor'', JStr ''cfo''), (''reason'', JStr ''double entry'')],
     cmd_required = L3_HUMAN_APPROVAL, cmd_key = ''k'', cmd_expires = None\<rparr>"

theorem repeated_reversal_is_noop_witness:
  "dispatch_command demo_env in_process_api (\<lambda>_. True) reverse_again reversed_domain =
     (Inr ([''e''], JObj [(''expense_id'', JStr ''e''), (''state'', JStr ''REVERSED''), (''noop'', JBool True)]),
      reversed_domain)"
  by (rule repeated_reversal_is_noop [of _ _ _ "''cfo''" "''double entry''" "demo_expense ''e'' 4000 REVERSED None"])
    (simp_all add: reverse_again_def reversed_domain_def new_exec_domain_def empty_workspace_def empty_ledger_def
      xd_ledger_def correction_head_def as_str_def demo_expense_def)

section \<open>The sentinel comes last\<close>

lemma publish_stores:
  assumes "publish_use_of_funds_receipt E e d a actor created L = (Inr r, L')"
  shows "dget (receipts L') (r_id r) = Some r"
proof -
  have "post (\<lambda>v L'. \<forall>r. v = Inr r \<longrightarrow> dget (receipts L') (r_id r) = Some r)
      (publish_use_of_funds_receipt E e d a actor created L)"
    unfolding publish_use_of_funds_receipt_def by (intro post_branch post_pair) auto
  from postD [OF this assms] show ?thesis by simp
qed

text \<open>When the sentinel rejects the public document of a receipt, the command fails with the receipt
  already published in the ledger.\<close>

theorem rejected_publication_stays_published:
  assumes "bind_o (need_str p ''attribution_method'') (of_value method_value attribution_methods) = Inr meth"
    and "first_text p [''actor'', ''approved_by''] = Inr (Some actor)"
    and "attribution_args p = Inr (dn, d, e, a, amt)" "opt_field p ''created_at'' = Inr created"
    and "attribute_donor_to_expense E dn d e a meth (Some amt) None L = (Inr t, L1)"
    and "publish_use_of_funds_receipt E e d a actor created L1 = (Inr r, L2)"
    and "residue (py_repr (receipt_to_public r)) \<noteq> []"
  shows "\<exists>x. handle_publish E p L = (Inl x, L2) \<and> dget (receipts L2) (r_id r) = Some r"
proof -
  obtain x where "assert_public_safe (receipt_to_public r) = Inl x"
    using assms(7) by (cases "assert_public_safe (receipt_to_public r)") (auto simp: assert_public_safe_iff)
  then show ?thesis using assms(1-6) publish_stores [OF assms(6)]
    by (simp add: handle_publish_def del: first_text.simps)
qed

end
