(* ===== verification/Durable.thy ===== *)
theory Durable
  imports Executor_Properties
begin

text \<open>
  The durable executor of \<^verbatim>\<open>workflows/durable.py\<close>: every command that succeeds is written to the command log
  with a snapshot of the ledger, and after a restart the ledger is folded back from the log onto the
  base ledger. The refinement: the log restores the ledger a history reached, as long as the history
  replaced no charge and no attribution. It does not otherwise, and the last section shows how.
\<close>

section \<open>The logged executor\<close>

definition LOGGED_COMMANDS :: "string list" where
  "LOGGED_COMMANDS =
     [''import_normalized_expense'', ''allocate_expense'', ''approve_expense'', ''reject_expense'',
      ''publish_use_of_funds_receipt'', ''reverse_expense'', ''supersede_expense'']"

definition dispatch_logged ::
  "env \<Rightarrow> 'x adapter_api \<Rightarrow> ('x \<Rightarrow> bool) \<Rightarrow> bool \<Rightarrow> agent_command \<Rightarrow> 'x exec_domain \<times> command_log \<Rightarrow>
     answer outcome \<times> ('x exec_domain \<times> command_log)" where
  "dispatch_logged E A boot simulation c S =
     (case dispatch_command E A boot c (fst S) of
        (Inl e, D) \<Rightarrow> (Inl e, (D, snd S))
      | (Inr (refs, out), D) \<Rightarrow>
          if \<not> simulation \<and> cmd_type c \<in> set LOGGED_COMMANDS then
            (case log_append (cmd_tenant c) (cmd_key c) (cmd_type c) (JObj (cmd_payload c))
                   (build_result_json (cmd_type c) (cmd_key c) (xd_ledger D) refs out) (snd S) of
               (Inl e, lg) \<Rightarrow> (Inl e, (D, lg))
             | (Inr _, lg) \<Rightarrow> (Inr (refs, out), (D, lg)))
          else (Inr (refs, out), (D, snd S)))"

definition empty_log :: command_log where
  "empty_log = \<lparr>log_rows = [], log_seen = []\<rparr>"

section \<open>What the log holds\<close>

lemma build_result_entities: "jget (build_result_json ct key L refs out) ''entities'' \<noteq> None"
  by (simp add: build_result_json_def)

lemma dispatch_logged_cases:
  obtains (unlogged) "snd (dispatch_logged E A boot sim c S) = (snd (dispatch_command E A boot c (fst S)), snd S)"
  | (logged) refs out where
      "dispatch_command E A boot c (fst S) = (Inr (refs, out), fst (snd (dispatch_logged E A boot sim c S)))"
      "log_rows (snd (snd (dispatch_logged E A boot sim c S))) = log_rows (snd S) @
         [log_row (cmd_tenant c) (cmd_key c) (cmd_type c) (JObj (cmd_payload c)) (build_result_json (cmd_type c)
            (cmd_key c) (xd_ledger (fst (snd (dispatch_logged E A boot sim c S)))) refs out)]"
proof -
  obtain v D where d: "dispatch_command E A boot c (fst S) = (v, D)" by fastforce
  show thesis
  proof (cases v)
    case (Inl e)
    then show ?thesis using unlogged d by (simp add: dispatch_logged_def)
  next
    case (Inr p)
    obtain refs out where p: "p = (refs, out)" by (cases p)
    show ?thesis
    proof (cases "\<not> sim \<and> cmd_type c \<in> set LOGGED_COMMANDS \<and> (cmd_tenant c, cmd_key c) \<notin> set (log_seen (snd S))")
      case True
      then show ?thesis using logged [of refs out] d Inr p build_result_entities
        by (simp add: dispatch_logged_def log_append_def)
    next
      case False
      then show ?thesis using unlogged d Inr p build_result_entities
        by (auto simp: dispatch_logged_def log_append_def)
    qed
  qed
qed

text \<open>The side condition of a command: it replaces no charge and no attribution, and the amounts it leaves fit
  the decimal context.\<close>

definition keeps_entries :: "env \<Rightarrow> 'x adapter_api \<Rightarrow> ('x \<Rightarrow> bool) \<Rightarrow> 'x exec_domain \<times> command_log \<Rightarrow> agent_command \<Rightarrow> bool" where
  "keeps_entries E A boot S c \<longleftrightarrow>
     nothing_replaced (xd_ledger (fst S)) (xd_ledger (snd (dispatch_command E A boot c (fst S)))) \<and>
     storable (xd_ledger (snd (dispatch_command E A boot c (fst S))))"

text \<open>The log holds the snapshots \<open>Ms\<close>, each grown from the one before, and the ledger is grown from the last.\<close>

definition log_state :: "ledger \<Rightarrow> ledger list \<Rightarrow> 'x exec_domain \<times> command_log \<Rightarrow> bool" where
  "log_state L0 Ms S \<longleftrightarrow>
     list_all2 holds_snapshot (log_rows (snd S)) Ms \<and> successively ledger_grown (L0 # Ms) \<and>
     list_all (\<lambda>M. storable M \<and> stores_ok M) Ms \<and> ledger_grown (last (L0 # Ms)) (xd_ledger (fst S)) \<and>
     list_all (\<lambda>row. jget row ''tenant_id'' = Some (JStr (org_id (organization L0)))) (log_rows (snd S)) \<and>
     stores_ok (xd_ledger (fst S)) \<and> organization (xd_ledger (fst S)) = organization L0"

definition log_follows :: "ledger \<Rightarrow> 'x exec_domain \<times> command_log \<Rightarrow> bool" where
  "log_follows L0 S \<longleftrightarrow> (\<exists>Ms. log_state L0 Ms S)"

lemma log_stateD:
  assumes "log_state L0 Ms S"
  shows "list_all2 holds_snapshot (log_rows (snd S)) Ms" "successively ledger_grown (L0 # Ms)"
    "list_all (\<lambda>M. storable M \<and> stores_ok M) Ms" "ledger_grown (last (L0 # Ms)) (xd_ledger (fst S))"
    "list_all (\<lambda>row. jget row ''tenant_id'' = Some (JStr (org_id (organization L0)))) (log_rows (snd S))"
    "stores_ok (xd_ledger (fst S))" "organization (xd_ledger (fst S)) = organization L0"
  using assms unfolding log_state_def by blast+

lemma ledger_grown_refl: "ledger_grown L L"
  by (simp add: ledger_grown_def)

lemma ledger_grown_trans: "ledger_grown L M \<Longrightarrow> ledger_grown M N \<Longrightarrow> ledger_grown L N"
  by (auto simp: ledger_grown_def intro: grown_trans)

lemma dispatch_tenant:
  "dispatch_command E A boot c D = (Inr r, D') \<Longrightarrow> cmd_tenant c = org_id (organization (xd_ledger D))"
  by (auto simp: dispatch_command_def Let_def split: if_splits)

lemma log_state_dispatch:
  assumes inv: "log_state L0 Ms S" and ok: "keeps_entries E A boot S c"
  shows "log_state L0 Ms (snd (dispatch_command E A boot c (fst S)), snd S)"
proof -
  let ?L = "xd_ledger (fst S)" and ?L' = "xd_ledger (snd (dispatch_command E A boot c (fst S)))"
  note inv = log_stateD [OF inv]
  have eff: "effects False ?L ?L'" by (rule dispatch_effects)
  have "ledger_grown ?L ?L'" using effects_ledger_grown [OF eff] ok by (simp add: keeps_entries_def)
  then have "ledger_grown (last (L0 # Ms)) ?L'" using inv(4) ledger_grown_trans by blast
  moreover have "organization ?L' = organization L0"
    using effects_lasting [OF eff] inv(7) by (simp add: lasting_grown_def)
  ultimately show ?thesis
    unfolding log_state_def fst_conv snd_conv using inv(1-3,5) effects_stores_ok [OF eff inv(6)] by blast
qed

lemma log_state_append:
  assumes inv: "log_state L0 Ms (D, lg)" and fit: "storable (xd_ledger D)"
    and rows: "log_rows lg' = log_rows lg @ [row]" and row: "holds_snapshot row (xd_ledger D)"
    and tenant: "jget row ''tenant_id'' = Some (JStr (org_id (organization L0)))"
  shows "log_state L0 (Ms @ [xd_ledger D]) (D, lg')"
proof -
  note inv = log_stateD [OF inv, unfolded fst_conv snd_conv]
  have "successively ledger_grown ((L0 # Ms) @ [xd_ledger D])"
    using inv(2,4) by (subst successively_append_iff) simp
  moreover have "list_all2 holds_snapshot (log_rows lg') (Ms @ [xd_ledger D])"
    using inv(1) row rows by (simp add: list_all2_appendI)
  ultimately show ?thesis
    unfolding log_state_def fst_conv snd_conv using inv(3,5-7) fit rows tenant by (simp add: ledger_grown_refl)
qed

lemma log_state_logged:
  assumes inv: "log_state L0 Ms S" and ok: "keeps_entries E A boot S c"
    and d: "dispatch_command E A boot c (fst S) = (Inr (refs, out), D')"
    and rows: "log_rows lg' = log_rows (snd S) @ [log_row (cmd_tenant c) (cmd_key c) (cmd_type c) (JObj (cmd_payload c))
      (build_result_json (cmd_type c) (cmd_key c) (xd_ledger D') refs out)]"
  shows "log_state L0 (Ms @ [xd_ledger D']) (D', lg')"
proof (rule log_state_append [OF _ _ rows])
  show "log_state L0 Ms (D', snd S)" using log_state_dispatch [OF inv ok] d by simp
  show "storable (xd_ledger D')" using ok d by (simp add: keeps_entries_def)
qed (use dispatch_tenant [OF d] log_stateD(7) [OF inv] in \<open>auto simp: holds_snapshot_def log_row_def\<close>)

lemma log_follows_step:
  assumes "log_follows L0 S" and ok: "keeps_entries E A boot S c"
  shows "log_follows L0 (snd (dispatch_logged E A boot sim c S))"
proof -
  obtain Ms where inv: "log_state L0 Ms S" using assms by (auto simp: log_follows_def)
  show ?thesis
  proof (cases rule: dispatch_logged_cases [of E A boot sim c S])
    case unlogged
    then show ?thesis using log_state_dispatch [OF inv ok] by (auto simp: log_follows_def)
  next
    case (logged refs out)
    then show ?thesis using log_state_logged [OF inv ok logged(1,2)] by (auto simp: log_follows_def)
  qed
qed

interpretation durable: kept_invariant "\<lambda>S c. snd (dispatch_logged E A boot sim c S)" "keeps_entries E A boot"
  "log_follows L0" for E A boot sim L0
  by unfold_locales (rule log_follows_step)

lemma iter_rows_all:
  "list_all (\<lambda>row. jget row ''tenant_id'' = Some (JStr t)) rows \<Longrightarrow> iter_rows t rows = rows"
  by (auto simp: iter_rows_def list_all_iff)

lemma rehydrate_log_state:
  assumes "log_state L0 Ms S"
  shows "rehydrate (organization L0) (Some L0) (snd S) = Inr (carry L0 (last (L0 # Ms)))"
  using fold_rows_snapshots [OF log_stateD(1-3) [OF assms]] iter_rows_all [OF log_stateD(5) [OF assms]]
  by (simp add: rehydrate_def)

lemma log_follows_start:
  "stores_ok (xd_ledger D) \<Longrightarrow> log_follows (xd_ledger D) (D, empty_log)"
  unfolding log_follows_def log_state_def by (rule exI [of _ "[]"]) (simp add: empty_log_def ledger_grown_refl)


definition base_domain :: "in_process_adapter exec_domain" where
  "base_domain = new_exec_domain (empty_workspace (empty_ledger demo_org)) True"

definition import_command :: agent_command where
  "import_command = \<lparr>cmd_type = ''import_normalized_expense'', cmd_tenant = ''o'',
     cmd_payload = [(''expense'', JObj [(''external_source_id'', JStr ''ext-1''), (''expense_id'', JStr ''e''),
       (''vendor'', JStr ''v''), (''amount'', JStr (money_str 4000)), (''purchase_date'', JStr ''d'')])],
     cmd_required = L2_REVERSIBLE, cmd_key = ''k'', cmd_expires = None\<rparr>"

definition imported_expense :: expense where
  "imported_expense = \<lparr>exp_id = ''e'', exp_org = ''o'', exp_vendor = ''v'', exp_amount = 4000, exp_currency = ''USD'',
     exp_purchase_date = ''d'', exp_category = ''UNCLASSIFIED'', exp_description = [], exp_state = IMPORTED,
     exp_external = Some ''ext-1'', exp_approved_by = None, exp_reconciled_at = None, exp_reversed_of = None,
     exp_supersedes = None, exp_history_note = None\<rparr>"

lemma base_ledger: "xd_ledger base_domain = empty_ledger demo_org"
  by (simp add: base_domain_def new_exec_domain_def empty_workspace_def xd_ledger_def)

lemma base_external: "xd_external base_domain = []"
  by (simp add: base_domain_def new_exec_domain_def empty_workspace_def source_index_def empty_ledger_def dvalues_def)

lemma empty_ledger_fields [simp]:
  "organization (empty_ledger org) = org" "expenses (empty_ledger org) = []"
  "expense_allocations (empty_ledger org) = []" "attributions (empty_ledger org) = []"
  by (simp_all add: empty_ledger_def)

definition imported_ledger :: ledger where
  "imported_ledger = audit demo_env ''ExpenseImported'' ''Expense'' ''e'' ''system''
     (JObj [(''amount'', JStr (money_str 4000)), (''state'', JStr ''IMPORTED'')])
     ((empty_ledger demo_org)\<lparr>expenses := [(''e'', imported_expense)]\<rparr>)"

definition imported_domain :: "in_process_adapter exec_domain" where
  "imported_domain = (xd_put imported_ledger base_domain)\<lparr>xd_external := [(''ext-1'', ''e'')]\<rparr>"

lemma import_command_result:
  "dispatch_command demo_env in_process_api (\<lambda>_. True) import_command base_domain =
     (Inr (imported_answer ''e'' False), imported_domain)"
proof -
  let ?row = "JObj [(''external_source_id'', JStr ''ext-1''), (''expense_id'', JStr ''e''), (''vendor'', JStr ''v''),
    (''amount'', JStr (money_str 4000)), (''purchase_date'', JStr ''d'')]"
  have x: "expense_of_row ''o'' ''e'' (Some ''ext-1'') ?row = Inr imported_expense"
    by (simp add: expense_of_row_def imported_expense_def fits_def str_default_def)
  have o: "org_id demo_org = ''o''" by (simp add: demo_org_def)
  have i: "import_expense demo_env imported_expense (empty_ledger demo_org) = (Inr imported_expense, imported_ledger)"
    by (simp add: import_expense_def imported_expense_def imported_ledger_def o)
  have "import_row demo_env ''ext-1'' ?row (empty_ledger demo_org) = (Inr ''e'', imported_ledger)"
    by (simp add: import_row_def x o i as_str_def id_or_new_def list_field_def)
  then show ?thesis
    by (simp add: dispatch_command_def import_command_def base_ledger o import_normalized_def base_external
        on_ledger_def imported_domain_def xd_put_def)
qed

lemma imported_stores:
  "xd_ledger imported_domain = imported_ledger" "storable imported_ledger"
  "nothing_replaced (empty_ledger demo_org) imported_ledger" "stores_ok (empty_ledger demo_org)"
  using empty_ledger_wf [of demo_org]
  by (simp_all add: imported_domain_def imported_ledger_def storable_def empty_ledger_def dvalues_def fits_def
      imported_expense_def nothing_replaced_def stores_ok_def ledger_wf_def)

lemma import_command_logged: "cmd_type import_command \<in> set LOGGED_COMMANDS"
  by (simp add: import_command_def LOGGED_COMMANDS_def)


section \<open>Replaced charges come back\<close>

lemma stale_storable: "storable stale6" "storable stale7"
  by (simp_all add: storable_def dvalues_def fits_def demo_donation_def demo_expense_def)

text \<open>A restart can charge an expense twice: when the charge of an expense is replaced, the log keeps the
  snapshot with the old charge, the fold stores both, and an expense of 40.00 charged in full to one fund is
  restored with charges of 80.00 on two.\<close>

theorem restart_restores_replaced_charge:
  "\<exists>L. fold_rows [log_row ''o'' ''k1'' ct p1 (build_result_json ct ''k1'' stale6 refs1 out1),
          log_row ''o'' ''k2'' ct p2 (build_result_json ct ''k2'' stale7 refs2 out2)] (empty_ledger demo_org) =
       (Inr (), L) \<and>
     expense_charge stale7 ''e'' = 4000 \<and> expense_charge L ''e'' = 8000"
proof -
  let ?M = "merge_ledger (empty_ledger demo_org) stale6"
  have org: "organization ?M = demo_org" by (simp add: merge_ledger_def)
  have "apply_result_json (empty_ledger demo_org) (build_result_json ct ''k1'' stale6 refs1 out1) = (Inr (), ?M)"
    "apply_result_json ?M (build_result_json ct ''k2'' stale7 refs2 out2) = (Inr (), merge_ledger ?M stale7)"
    using apply_snapshot stale_storable org by auto
  moreover have "truthy (build_result_json ct k M refs out)" for k M refs out by (simp add: build_result_json_def)
  ultimately show ?thesis
    by (auto simp: log_row_def merge_ledger_def expense_charge_def)
qed

end
