(* ===== verification/Gate.thy ===== *)
theory Gate
  imports Executor_Properties Workflow_Properties
begin

text \<open>
  The human gate of \<^verbatim>\<open>workflows/runtime.py\<close>: a workflow parked in REVIEW_PENDING, PUBLICATION_PENDING or
  NOTIFICATION_PENDING looks for an approval signal that matches the command frozen in its context,
  executes the command, moves on and commits; the digest has a gate of its own that runs no command.

  The engine is the executor of one advance: its receipt index is the workflow store, as the default executor
  factory sets it up, and its domain holds the tenant's workspace. Clock readings are numbered by the
  executor's clock, and so are the identifiers the runtime and the agents draw, from a source of their own.
  \<open>re_policy\<close> is the policy document of a tenant and a version, which the code reads from a file. The in-memory store hands out the stored instance itself; every path below changes an
  instance only on its way to the commit, so that passing it by value is the same.
\<close>

section \<open>The engine\<close>

record runtime_env =
  re_env :: env
  re_times :: clock_api
  re_now :: "nat \<Rightarrow> int"
  re_uuid :: "nat \<Rightarrow> string"
  re_policy :: "string \<Rightarrow> string \<Rightarrow> (string \<times> json) list"

type_synonym 'x engine = "(workflow_store, 'x exec_domain) executor"

definition engine_store :: "'x engine \<Rightarrow> workflow_store" where
  "engine_store X = (case ex_index X of None \<Rightarrow> empty_store | Some S \<Rightarrow> S\<lparr>ws_clock := ex_clock X\<rparr>)"

definition in_store ::
  "(workflow_store \<Rightarrow> 'a outcome \<times> workflow_store) \<Rightarrow> 'x engine \<Rightarrow> 'a outcome \<times> 'x engine" where
  "in_store f X =
     (let (v, S) = f (engine_store X) in (v, X\<lparr>ex_index := Some S, ex_clock := ws_clock S\<rparr>))"

text \<open>\<^verbatim>\<open>_commit\<close>: the instance is touched and committed with its events, receipts and consumed signals.\<close>

definition commit ::
  "runtime_env \<Rightarrow> workflow_instance \<Rightarrow> event_write list \<Rightarrow> execution_receipt list \<Rightarrow>
     (string \<times> signal_consume_result) list \<Rightarrow> 'x engine \<Rightarrow> workflow_instance option outcome \<times> 'x engine" where
  "commit R i events rs consume =
     in_store (\<lambda>S.
       let touched = i\<lparr>wi_updated := now_iso (re_env R) (ws_clock S)\<rparr>;
           bundle = \<lparr>ab_tenant = wi_tenant i, ab_workflow = wi_id i, ab_instance = touched,
             ab_events = map Inl events, ab_receipts = rs, ab_consume = consume\<rparr>
       in and_then (commit_advance (re_env R) bundle (S\<lparr>ws_clock := Suc (ws_clock S)\<rparr>))
            (\<lambda>_ S'. (Inr (get_instance S' (wi_tenant i) (wi_id i)), S')))"

definition event :: "workflow_event_type \<Rightarrow> (string \<times> json) list \<Rightarrow> event_write" where
  "event ty payload = \<lparr>ew_type = ty, ew_payload = JObj payload, ew_at = None\<rparr>"

definition now_text :: "runtime_env \<Rightarrow> 'x engine \<Rightarrow> string" where
  "now_text R X = now_iso (re_env R) (ex_clock X)"

section \<open>Classifying what went wrong\<close>

text \<open>The name and the module of an exception's type.\<close>

fun exn_type :: "py_exn \<Rightarrow> string \<times> string" where
  "exn_type (InvariantError m) = (''InvariantError'', ''impact_relay.domain.types'')"
| "exn_type (StateError m) = (''StateError'', ''impact_relay.domain.types'')"
| "exn_type (AttributionError m) = (''AttributionError'', ''impact_relay.domain.types'')"
| "exn_type (NotFoundError m) = (''NotFoundError'', ''impact_relay.domain.types'')"
| "exn_type (TenantIsolationError m) = (''TenantIsolationError'', ''impact_relay.domain.types'')"
| "exn_type (AuthorityError m) = (''AuthorityError'', ''impact_relay.agents.authority'')"
| "exn_type (AuthorizationError m) = (''AuthorizationError'', ''impact_relay.auth.rbac'')"
| "exn_type (LedgerLogError m) = (''LedgerLogError'', ''impact_relay.domain.ledger_log'')"
| "exn_type (WorkflowNotFoundError m) = (''WorkflowNotFoundError'', ''impact_relay.workflows.exceptions'')"
| "exn_type (WorkflowStateError m) = (''WorkflowStateError'', ''impact_relay.workflows.exceptions'')"
| "exn_type (WorkflowConflictError m) = (''WorkflowConflictError'', ''impact_relay.workflows.exceptions'')"
| "exn_type (DurabilityGuardError m) = (''DurabilityGuardError'', ''impact_relay.workflows.guards'')"
| "exn_type (PrivacySentinelError m) = (''PrivacySentinelError'', ''impact_relay.agents.privacy'')"
| "exn_type (DigestError m) = (''DigestError'', ''impact_relay.digest'')"
| "exn_type (PolicyError m) = (''PolicyError'', ''impact_relay.policy'')"
| "exn_type (ReconcileError m) = (''ReconcileError'', ''impact_relay.reconcile'')"
| "exn_type (IntegrityError m) = (''IntegrityError'', ''sqlite3'')"
| "exn_type (KeyError m) = (''KeyError'', ''builtins'')"
| "exn_type (ValueError m) = (''ValueError'', ''builtins'')"
| "exn_type (TypeError m) = (''TypeError'', ''builtins'')"
| "exn_type (AttributeError m) = (''AttributeError'', ''builtins'')"
| "exn_type (NotImplementedError m) = (''NotImplementedError'', ''builtins'')"
| "exn_type InvalidOperation = (''InvalidOperation'', ''decimal'')"

definition retryable_exn :: "py_exn \<Rightarrow> bool" where
  "retryable_exn e = is_retryable (fst (exn_type e)) (snd (exn_type e)) (exn_str e)"

text \<open>The text of a failed receipt is wrapped in a plain \<^verbatim>\<open>Exception\<close> before it is classified.\<close>

definition retryable_failure :: "execution_receipt \<Rightarrow> bool" where
  "retryable_failure r =
     is_retryable ''Exception'' ''builtins'' (if present (exe_error r) then the (exe_error r) else ''failed'')"

section \<open>The frozen command and its approval\<close>

text \<open>\<^verbatim>\<open>wait.get("command_idempotency_key") or (wait.get("frozen_command") or {}).get("idempotency_key")\<close>\<close>

definition wait_key :: "(string \<times> json) list \<Rightarrow> json outcome" where
  "wait_key wait =
     (let k = obj_get wait ''command_idempotency_key'' in
      if truthy k then Inr k
      else case or_empty (obj_get wait ''frozen_command'') of
        Inl e \<Rightarrow> Inl e | Inr fz \<Rightarrow> Inr (obj_get fz ''idempotency_key''))"

text \<open>The approvals among the signals that are for the key waited for, in order.\<close>

fun matching_approvals ::
  "string \<Rightarrow> json \<Rightarrow> workflow_signal list \<Rightarrow> (workflow_signal \<times> approval_receipt) list outcome" where
  "matching_approvals now want [] = Inr []"
| "matching_approvals now want (s # ss) =
     (if sig_type s \<noteq> SIG_APPROVAL then matching_approvals now want ss
      else case approval_of_signal now s of
        Inl e \<Rightarrow> Inl e
      | Inr None \<Rightarrow> matching_approvals now want ss
      | Inr (Some a) \<Rightarrow>
          if truthy want \<and> JStr (app_key a) \<noteq> want then matching_approvals now want ss
          else (case matching_approvals now want ss of Inl e \<Rightarrow> Inl e | Inr ms \<Rightarrow> Inr ((s, a) # ms)))"

text \<open>After a timeout: the first approval for the key that expired, or with the decision APPROVE.\<close>

fun late_approval ::
  "string \<Rightarrow> (string \<times> json) list \<Rightarrow> json \<Rightarrow> workflow_signal list \<Rightarrow>
     (workflow_signal \<times> approval_receipt) option outcome" where
  "late_approval now ctx prior [] = Inr None"
| "late_approval now ctx prior (s # ss) =
     (case approval_of_signal now s of
        Inl e \<Rightarrow> Inl e
      | Inr None \<Rightarrow> late_approval now ctx prior ss
      | Inr (Some a) \<Rightarrow>
          (case or_empty (obj_get ctx ''expired_wait'') of Inl e \<Rightarrow> Inl e | Inr expired \<Rightarrow>
           case wait_key expired of Inl e \<Rightarrow> Inl e | Inr expired_key \<Rightarrow>
             if JStr (app_key a) \<in> {expired_key, prior} \<or> app_decision a = ''APPROVE'' then Inr (Some (s, a))
             else late_approval now ctx prior ss))"

definition repark :: "workflow_instance \<Rightarrow> workflow_instance" where
  "repark i = i\<lparr>wi_run_status := WAITING_SIGNAL, wi_lease_owner := None, wi_lease_expires := None\<rparr>"

definition gate_after_timeout ::
  "runtime_env \<Rightarrow> workflow_instance \<Rightarrow> workflow_signal list \<Rightarrow> 'x engine \<Rightarrow>
     workflow_instance option outcome \<times> 'x engine" where
  "gate_after_timeout R i signals X =
     (let prior = (case wi_wait_descriptor i of None \<Rightarrow> JNull | Some d \<Rightarrow> obj_get d ''prior_command_idempotency_key'')
      in case late_approval (now_text R X) (wi_context i) prior signals of
           Inl e \<Rightarrow> (Inl e, X)
         | Inr (Some (s, a)) \<Rightarrow>
             commit R i [event EV_ERROR [(''error'', JStr ''late_approve_after_timeout''), (''key'', JStr (app_key a))]]
               [] [(sig_id s, SC_REJECTED_INVALID)] X
         | Inr None \<Rightarrow> commit R (repark i) [] [] [] X)"

section \<open>Executing the approved command\<close>

text \<open>\<^verbatim>\<open>EmailPreview(**preview)\<close>; a preview with other keys is ignored. The runtime stores text in every field.\<close>

fun text_dict :: "(string \<times> json) list \<Rightarrow> (string, string) dict option" where
  "text_dict [] = Some []"
| "text_dict ((k, JStr s) # d) = (case text_dict d of None \<Rightarrow> None | Some f \<Rightarrow> Some ((k, s) # f))"
| "text_dict _ = None"

definition PREVIEW_FIELDS :: "string list" where
  "PREVIEW_FIELDS = [''preview_id'', ''tenant_id'', ''receipt_id'', ''channel'', ''subject'', ''body_text'',
     ''template_version'', ''receipt_hash'', ''content_hash'', ''facts'', ''created_at'']"

definition preview_of_dict :: "string \<Rightarrow> (string \<times> json) list \<Rightarrow> email_preview option" where
  "preview_of_dict now d =
     (let text = (\<lambda>k. case dget d k of Some (JStr s) \<Rightarrow> s | _ \<Rightarrow> []) in
      if \<not> list_all (\<lambda>(k, v). k \<in> set PREVIEW_FIELDS) d \<or>
         list_ex (\<lambda>k. k \<noteq> ''created_at'' \<and> \<not> dhas d k) PREVIEW_FIELDS
      then None
      else case dget d ''facts'' of
        Some (JObj f) \<Rightarrow> (case text_dict f of None \<Rightarrow> None | Some facts \<Rightarrow>
          Some \<lparr>pv_id = text ''preview_id'', pv_tenant = text ''tenant_id'', pv_receipt = text ''receipt_id'',
            pv_channel = text ''channel'', pv_subject = text ''subject'', pv_body = text ''body_text'',
            pv_template = text ''template_version'', pv_receipt_hash = text ''receipt_hash'',
            pv_content_hash = text ''content_hash'', pv_facts = facts,
            pv_created = (if dhas d ''created_at'' then text ''created_at'' else now)\<rparr>)
      | _ \<Rightarrow> None)"

definition register_context_preview ::
  "runtime_env \<Rightarrow> workflow_instance \<Rightarrow> agent_command \<Rightarrow> 'x engine \<Rightarrow> 'x engine" where
  "register_context_preview R i c X =
     (if cmd_type c \<noteq> ''send_notification'' then X
      else case obj_get (wi_context i) ''email_preview'' of
        JObj d \<Rightarrow> (if d = [] then X else
          (case preview_of_dict (now_text R X) d of
             None \<Rightarrow> X | Some p \<Rightarrow> X\<lparr>ex_domain := register_preview p (ex_domain X)\<rparr>))
      | _ \<Rightarrow> X)"

definition retry_later :: "string \<Rightarrow> string option \<Rightarrow> workflow_instance \<Rightarrow> workflow_instance" where
  "retry_later due err i =
     i\<lparr>wi_attempts := wi_attempts i + 1, wi_run_status := RETRY_SCHEDULED, wi_next_run := Some due,
       wi_last_error := err\<rparr>"

definition fail_terminal :: "string option \<Rightarrow> workflow_instance \<Rightarrow> workflow_instance" where
  "fail_terminal err i = i\<lparr>wi_run_status := FAILED_TERMINAL, wi_last_error := err\<rparr>"

text \<open>Where a successful command leads, by its type.\<close>

definition after_command ::
  "string \<Rightarrow> agent_command \<Rightarrow> execution_receipt \<Rightarrow> workflow_instance \<Rightarrow> workflow_instance" where
  "after_command now c r i =
     (let refs = JList (map JStr (exe_refs r)) in
      if cmd_type c = ''approve_expense''
      then i\<lparr>wi_state := LEDGER_COMMITTED, wi_run_status := PENDING, wi_next_run := Some now\<rparr>
      else if cmd_type c \<in> {''reverse_expense'', ''supersede_expense''}
      then i\<lparr>wi_state := LEDGER_COMMITTED, wi_run_status := PENDING, wi_next_run := Some now,
             wi_context := dset ''correction_result'' (JObj [(''command_type'', JStr (cmd_type c)),
               (''output_refs'', refs), (''status'', JStr (exe_status r))]) (wi_context i)\<rparr>
      else if cmd_type c = ''publish_use_of_funds_receipt''
      then (if truthy (obj_get (wi_context i) ''send_email'')
            then i\<lparr>wi_state := PUBLISHED, wi_run_status := PENDING, wi_next_run := Some now\<rparr>
            else i\<lparr>wi_state := PUBLISHED, wi_run_status := COMPLETED\<rparr>)
      else if cmd_type c = ''send_notification''
      then i\<lparr>wi_state := DELIVERED, wi_run_status := COMPLETED,
             wi_context := dset ''delivery'' (JObj [(''output_refs'', refs), (''status'', JStr (exe_status r))])
               (wi_context i)\<rparr>
      else i\<lparr>wi_run_status := PENDING, wi_next_run := Some now\<rparr>)"

definition clear_wait :: "workflow_instance \<Rightarrow> workflow_instance" where
  "clear_wait i =
     i\<lparr>wi_context := ddel ''wait'' (wi_context i), wi_wait_descriptor := None, wi_wait_deadline := None,
       wi_lease_owner := None, wi_lease_expires := None\<rparr>"

definition execution_events :: "agent_command \<Rightarrow> execution_receipt \<Rightarrow> workflow_state \<Rightarrow> event_write list" where
  "execution_events c r to_state =
     [event EV_EXECUTION [(''command_type'', JStr (cmd_type c)), (''status'', JStr (exe_status r)),
        (''refs'', JList (map JStr (exe_refs r)))],
      event EV_STATE_CHANGED [(''to'', JStr (workflow_state_value to_state))]]"

text \<open>\<open>2 ** attempt_count\<close> seconds after a raise; at once after a FAILED receipt.\<close>

definition retry_time :: "runtime_env \<Rightarrow> int \<Rightarrow> 'x engine \<Rightarrow> string" where
  "retry_time R attempts X = iso_of (re_times R) (re_now R (ex_clock X) + 1000000 * 2 ^ nat attempts)"

definition gate_execute ::
  "runtime_env \<Rightarrow> 'x adapter_api \<Rightarrow> ('x \<Rightarrow> bool) \<Rightarrow> workflow_instance \<Rightarrow> workflow_signal \<Rightarrow> approval_receipt \<Rightarrow>
     string \<Rightarrow> agent_command \<Rightarrow> 'x engine \<Rightarrow> workflow_instance option outcome \<times> 'x engine" where
  "gate_execute R A boot i s a agent c X =
     (case execute (re_env R) memory_index (dispatch_command (re_env R) A boot) c (Some a) (Some agent) None
             (register_context_preview R i c X) of
        (Inl e, X1) \<Rightarrow>
          if retryable_exn e
          then commit R (retry_later (retry_time R (wi_attempts i + 1) X1) (Some (exn_str e)) i) [] [] [] X1
          else commit R (fail_terminal (Some (exn_str e)) i) [] [] [(sig_id s, SC_FAILED_TERMINAL)] X1
      | (Inr r, X1) \<Rightarrow>
          if exe_status r = ''FAILED'' then
            (if retryable_failure r then commit R (retry_later (now_text R X1) (exe_error r) i) [] [] [] X1
             else commit R (fail_terminal (exe_error r) i) [] [] [(sig_id s, SC_FAILED_TERMINAL)] X1)
          else
            let i1 = clear_wait (after_command (now_text R X1) c r i)
            in commit R i1 (execution_events c r (wi_state i1)) (if storable_status (exe_status r) then [r] else [])
                 [(sig_id s, SC_ACCEPTED)] X1)"

section \<open>The gate\<close>

text \<open>The command of the snapshot, rebuilt and authorized; the gate catches only the authority error.\<close>

definition authorized_command :: "env \<Rightarrow> frozen_command \<Rightarrow> approval_receipt \<Rightarrow> agent_command outcome" where
  "authorized_command E f a =
     (case build_executable_command (sha256_hex E) f a of
        Inl e \<Rightarrow> Inl e
      | Inr c \<Rightarrow> (case assert_execution_authorized c (Some a) (Some (fz_agent f)) of
                    Inl e \<Rightarrow> Inl e | Inr _ \<Rightarrow> Inr c))"

definition gate_decision ::
  "runtime_env \<Rightarrow> 'x adapter_api \<Rightarrow> ('x \<Rightarrow> bool) \<Rightarrow> workflow_instance \<Rightarrow> workflow_signal \<Rightarrow> approval_receipt \<Rightarrow>
     frozen_command \<Rightarrow> 'x engine \<Rightarrow> workflow_instance option outcome \<times> 'x engine" where
  "gate_decision R A boot i s a f X =
     (case authorized_command (re_env R) f a of
        Inl (AuthorityError m) \<Rightarrow>
          commit R (i\<lparr>wi_last_error := Some m, wi_run_status := WAITING_SIGNAL\<rparr>)
            [event EV_ERROR [(''error'', JStr m)]] [] [(sig_id s, SC_REJECTED_INVALID)] X
      | Inl e \<Rightarrow> (Inl e, X)
      | Inr c \<Rightarrow>
          if app_decision a = ''REJECT''
          then commit R (i\<lparr>wi_state := WF_REJECTED, wi_run_status := FAILED_TERMINAL\<rparr>)
                 [event EV_APPROVAL [(''decision'', JStr ''REJECT'')]] [] [(sig_id s, SC_ACCEPTED)] X
          else if app_decision a \<in> {''REQUEST_INFORMATION'', ''EDIT''}
          then commit R (i\<lparr>wi_state := NEEDS_INFORMATION, wi_run_status := WAITING_SIGNAL\<rparr>)
                 [] [] [(sig_id s, SC_ACCEPTED)] X
          else gate_execute R A boot i s a (fz_agent f) c X)"

definition advance_human_gate ::
  "runtime_env \<Rightarrow> 'x adapter_api \<Rightarrow> ('x \<Rightarrow> bool) \<Rightarrow> workflow_instance \<Rightarrow> 'x engine \<Rightarrow>
     workflow_instance option outcome \<times> 'x engine" where
  "advance_human_gate R A boot i X =
     (let signals = take_unconsumed_signals (engine_store X) (wi_tenant i) (wi_id i) in
      case or_empty (obj_get (wi_context i) ''wait'') of Inl e \<Rightarrow> (Inl e, X) | Inr wait \<Rightarrow>
      if truthy (obj_get (wi_context i) ''wait_expired'') \<and> wait = [] then gate_after_timeout R i signals X
      else
        case wait_key wait of Inl e \<Rightarrow> (Inl e, X) | Inr want \<Rightarrow>
        case matching_approvals (now_text R X) want signals of
          Inl e \<Rightarrow> (Inl e, X)
        | Inr [] \<Rightarrow> commit R (repark i) [] [] [] X
        | Inr ((s, a) # _) \<Rightarrow>
            (case obj_get wait ''frozen_command'' of
               JObj (kv # kvs) \<Rightarrow>
                 (case frozen_from_dict (kv # kvs) of
                    Inl e \<Rightarrow> (Inl e, X) | Inr f \<Rightarrow> gate_decision R A boot i s a f X)
             | raw \<Rightarrow>
                 if truthy raw then (Inl (TypeError ''frozen command is not a mapping''), X)
                 else and_then (in_store (\<lambda>S. (Inr (), mark_signal_consumed (wi_tenant i) (sig_id s)
                        (consume_result_value SC_REJECTED_INVALID) S)) X)
                      (\<lambda>_. commit R (i\<lparr>wi_run_status := WAITING_SIGNAL\<rparr>) [] [] [(sig_id s, SC_REJECTED_INVALID)])))"

section \<open>The digest's gate\<close>

definition advance_digest_approval ::
  "runtime_env \<Rightarrow> workflow_instance \<Rightarrow> 'x engine \<Rightarrow> workflow_instance option outcome \<times> 'x engine" where
  "advance_digest_approval R i X =
     (let signals = take_unconsumed_signals (engine_store X) (wi_tenant i) (wi_id i) in
      case or_empty (obj_get (wi_context i) ''wait'') of Inl e \<Rightarrow> (Inl e, X) | Inr wait \<Rightarrow>
      case matching_approvals (now_text R X) (obj_get wait ''command_idempotency_key'') signals of
        Inl e \<Rightarrow> (Inl e, X)
      | Inr [] \<Rightarrow> commit R (repark i) [] [] [] X
      | Inr ((s, a) # _) \<Rightarrow>
          if starts_with ''agent:'' (app_approver a)
          then commit R (i\<lparr>wi_last_error := Some ''approver_id must be a human operator identity''\<rparr>)
                 [event EV_ERROR [(''error'', JStr ''agent_approver_rejected'')]] [] [(sig_id s, SC_REJECTED_INVALID)] X
          else if app_decision a = ''REJECT''
          then commit R (i\<lparr>wi_state := WF_REJECTED, wi_run_status := FAILED_TERMINAL,
                 wi_context := ddel ''wait'' (wi_context i)\<rparr>) [] [] [(sig_id s, SC_ACCEPTED)] X
          else if app_decision a \<noteq> ''APPROVE''
          then commit R (i\<lparr>wi_state := NEEDS_INFORMATION, wi_run_status := WAITING_SIGNAL\<rparr>)
                 [] [] [(sig_id s, SC_ACCEPTED)] X
          else
            let i1 = clear_wait (i\<lparr>wi_state := PUBLISHED, wi_run_status := PENDING, wi_next_run := Some (now_text R X)\<rparr>)
            in commit R (i1\<lparr>wi_context := dset ''digest_approved_by'' (JStr (app_approver a)) (wi_context i1)\<rparr>)
                 [event EV_APPROVAL [(''decision'', JStr ''APPROVE''), (''approver_id'', JStr (app_approver a))],
                  event EV_STATE_CHANGED [(''to'', JStr (workflow_state_value PUBLISHED))]]
                 [] [(sig_id s, SC_ACCEPTED)] X)"

end
