(* ===== verification/Gate_Properties.thy ===== *)
theory Gate_Properties
  imports Gate Workflow_Scheduling
begin

text \<open>
  What the human gate guarantees: nothing happens in the workspace without a matching human approval, an
  execution that was already recorded is not repeated, a refusal never closes the gate, and a command
  that failed is always tried again.
\<close>

section \<open>Commits\<close>

lemma engine_in_store [simp]: "engine_store (snd (in_store f X)) = snd (f (engine_store X))"
  by (simp add: in_store_def engine_store_def split_beta)

lemma in_store_frame [simp]:
  "ex_domain (snd (in_store f X)) = ex_domain X" "fst (in_store f X) = fst (f (engine_store X))"
  by (simp_all add: in_store_def split_beta)

lemma commit_domain [simp]: "ex_domain (snd (commit R i evs rs cons X)) = ex_domain X"
  by (simp add: commit_def)

lemma commit_receipt_frame [simp]:
  "ws_instances (commit_receipt w r S) = ws_instances S" "ws_signals (commit_receipt w r S) = ws_signals S"
  "ws_events (commit_receipt w r S) = ws_events S"
  by (simp_all add: commit_receipt_def)

lemma commit_receipts_frame [simp]:
  "ws_instances (fold (commit_receipt w) rs S) = ws_instances S"
  "ws_signals (fold (commit_receipt w) rs S) = ws_signals S"
  "ws_events (fold (commit_receipt w) rs S) = ws_events S"
  by (induction rs arbitrary: S) auto

lemma consume_nothing [simp]: "fold consume_matching cons [] = []"
  by (induction cons) (auto simp: consume_matching_def)

text \<open>What a commit of an instance of the store leaves: the instance with its sequence number and time, and
  the signals with the consumed ones marked.\<close>

lemma commit_advance_result:
  assumes "get_instance S (ab_tenant b) (ab_workflow b) \<noteq> None" "wi_tenant (ab_instance b) = ab_tenant b"
  shows "\<exists>seq u. fst (commit_advance E b S) = Inr () \<and>
      get_instance (snd (commit_advance E b S)) (ab_tenant b) (ab_workflow b) =
        Some ((ab_instance b)\<lparr>wi_event_seq := seq, wi_updated := u\<rparr>) \<and>
      signals_of (snd (commit_advance E b S)) (ab_workflow b) =
        fold consume_matching (ab_consume b) (signals_of S (ab_workflow b))"
proof -
  let ?w = "ab_workflow b"
  let ?S1 = "fold (commit_receipt ?w) (ab_receipts b) S"
  obtain i where i: "get_instance S (ab_tenant b) ?w = Some i" using assms(1) by blast
  let ?es0 = "events_of ?S1 ?w"
  let ?seq0 = "if ?es0 = [] then wi_event_seq (ab_instance b) else max (wi_event_seq (ab_instance b)) (we_seq (last ?es0))"
  obtain seq es t where a: "add_events E (ab_tenant b) ?w (ab_events b) (?seq0, ?es0, ws_clock ?S1) = (seq, es, t)"
    using prod_cases3 by blast
  let ?j = "(ab_instance b)\<lparr>wi_event_seq := seq, wi_updated := now_iso E t\<rparr>"
  let ?S2 = "(put_instance ?w ?j ?S1)\<lparr>ws_events := dset ?w es (ws_events ?S1), ws_clock := Suc t\<rparr>"
  have c: "commit_advance E b S = (Inr (), if ab_consume b = [] \<or> \<not> dhas (ws_signals ?S2) ?w then ?S2
      else ?S2\<lparr>ws_signals := dset ?w (fold consume_matching (ab_consume b) (signals_of ?S2 ?w)) (ws_signals ?S2)\<rparr>)"
    unfolding commit_advance_def i Let_def a by simp
  have s: "ws_signals ?S2 = ws_signals S" by simp
  have g: "get_instance (snd (commit_advance E b S)) (ab_tenant b) ?w = Some ?j"
    unfolding c snd_conv using assms(2) by (simp add: get_instance_def del: dhas_iff)
  have "signals_of (snd (commit_advance E b S)) ?w = fold consume_matching (ab_consume b) (signals_of S ?w)"
    unfolding c snd_conv by (cases "dget (ws_signals S) ?w") (simp_all add: signals_of_def)
  then show ?thesis using g c by auto
qed

lemma commit_result:
  assumes "get_instance (engine_store X) (wi_tenant i) (wi_id i) \<noteq> None"
  obtains seq u X' where "commit R i evs rs cons X = (Inr (Some (i\<lparr>wi_event_seq := seq, wi_updated := u\<rparr>)), X')"
    and "ex_domain X' = ex_domain X"
    and "signals_of (engine_store X') (wi_id i) = fold consume_matching cons (signals_of (engine_store X) (wi_id i))"
proof -
  let ?S = "engine_store X"
  let ?i = "i\<lparr>wi_updated := now_iso (re_env R) (ws_clock ?S)\<rparr>"
  let ?b = "\<lparr>ab_tenant = wi_tenant i, ab_workflow = wi_id i, ab_instance = ?i, ab_events = map Inl evs,
    ab_receipts = rs, ab_consume = cons\<rparr>"
  let ?S1 = "?S\<lparr>ws_clock := Suc (ws_clock ?S)\<rparr>"
  have "get_instance ?S1 (ab_tenant ?b) (ab_workflow ?b) \<noteq> None" using assms by (simp add: get_instance_def)
  from commit_advance_result [OF this, of "re_env R"] obtain seq u S' where
    c: "commit_advance (re_env R) ?b ?S1 = (Inr (), S')"
    "get_instance S' (wi_tenant i) (wi_id i) = Some (?i\<lparr>wi_event_seq := seq, wi_updated := u\<rparr>)"
    "signals_of S' (wi_id i) = fold consume_matching cons (signals_of ?S (wi_id i))"
    by (cases "commit_advance (re_env R) ?b ?S1") (auto simp: signals_of_def)
  then have "fst (commit R i evs rs cons X) = Inr (Some (i\<lparr>wi_event_seq := seq, wi_updated := u\<rparr>))"
    "engine_store (snd (commit R i evs rs cons X)) = S'"
    by (simp_all add: commit_def Let_def)
  then show ?thesis using that c(3) by (metis commit_domain surjective_pairing)
qed

lemma dget_ddel [simp]: "dget (ddel k d) j = (if j = k then None else dget d j)"
  by (induction d) (auto simp: ddel_def)

section \<open>Previews and authorization\<close>

lemma register_context_preview_frame [simp]:
  "xd_ws (ex_domain (register_context_preview R i c X)) = xd_ws (ex_domain X)"
  "ex_seen (register_context_preview R i c X) = ex_seen X"
  "ex_index (register_context_preview R i c X) = ex_index X"
  "ex_simulation (register_context_preview R i c X) = ex_simulation X"
  "ex_clock (register_context_preview R i c X) = ex_clock X"
  "engine_store (register_context_preview R i c X) = engine_store X"
  by (auto simp: register_context_preview_def register_preview_def engine_store_def split: json.split option.split)

lemma built_command:
  assumes "build_executable_command sha f a = Inr c"
  shows "app_key a = fz_key f" "app_tenant a = fz_tenant f" "cmd_type c = fz_type f" "cmd_tenant c = fz_tenant f"
    "fz_key f \<noteq> [] \<Longrightarrow> cmd_key c = fz_key f" "requires_human_approval c"
  using assms
  by (auto simp: build_executable_command_def make_command_def requires_human_approval_def split: if_splits)

lemma authorized_command_Inr:
  "authorized_command E f a = Inr c \<longleftrightarrow>
     build_executable_command (sha256_hex E) f a = Inr c \<and>
     assert_execution_authorized c (Some a) (Some (fz_agent f)) = Inr ()"
  by (auto simp: authorized_command_def split: sum.splits)

lemma human_approved_SomeD:
  assumes "human_approved c (Some a) (Some n)"
  shows "app_decision a = ''APPROVE''" "app_approver a \<noteq> []" "\<not> starts_with ''agent:'' (app_approver a)"
    "n = [] \<or> n \<noteq> app_approver a"
  using assms unfolding human_approved_def present_def by auto

lemma authorized_commandD:
  assumes "authorized_command E f a = Inr c"
  shows "app_decision a = ''APPROVE''" "app_approver a \<noteq> []" "\<not> starts_with ''agent:'' (app_approver a)"
    "fz_agent f = [] \<or> fz_agent f \<noteq> app_approver a"
    "app_key a = fz_key f" "app_tenant a = fz_tenant f"
    "cmd_type c = fz_type f" "cmd_tenant c = fz_tenant f" "fz_key f \<noteq> [] \<Longrightarrow> cmd_key c = fz_key f"
    "assert_execution_authorized c (Some a) (Some (fz_agent f)) = Inr ()"
proof -
  note b = assms [unfolded authorized_command_Inr]
  note c = built_command [OF b [THEN conjunct1]]
  have "human_approved c (Some a) (Some (fz_agent f))"
    using b [THEN conjunct2] c(6) unfolding execution_authorized_iff by blast
  note h = human_approved_SomeD [OF this]
  show "app_decision a = ''APPROVE''" "app_approver a \<noteq> []" "\<not> starts_with ''agent:'' (app_approver a)"
    "fz_agent f = [] \<or> fz_agent f \<noteq> app_approver a" by (rule h)+
  show "app_key a = fz_key f" "app_tenant a = fz_tenant f" "cmd_type c = fz_type f" "cmd_tenant c = fz_tenant f"
    "fz_key f \<noteq> [] \<Longrightarrow> cmd_key c = fz_key f" by (rule c; assumption?)+
  show "assert_execution_authorized c (Some a) (Some (fz_agent f)) = Inr ()" by (rule b [THEN conjunct2])
qed

lemma authority_errors:
  "assert_execution_authorized c approval agent = Inl e \<Longrightarrow> \<exists>m. e = AuthorityError m"
  "build_executable_command sha f a = Inl e \<Longrightarrow> \<exists>m. e = AuthorityError m"
  by (cases approval; force simp only: assert_execution_authorized_def option.case split: if_splits)
    (auto simp only: build_executable_command_def split: if_splits)

lemma authorized_command_error:
  "authorized_command E f a = Inl e \<Longrightarrow> \<exists>m. e = AuthorityError m"
  using authority_errors by (auto simp: authorized_command_def split: sum.splits)

lemma authorized_command_refusal:
  assumes "app_decision a \<noteq> ''APPROVE''"
  obtains m where "authorized_command E f a = Inl (AuthorityError m)"
  using assms authorized_commandD(1) authorized_command_error by (metis sum.exhaust)

section \<open>Reaching the decision\<close>

text \<open>The gate of an instance meets an approval first, with a command frozen in its context.\<close>

definition gate_meets ::
  "runtime_env \<Rightarrow> workflow_instance \<Rightarrow> 'x engine \<Rightarrow> workflow_signal \<Rightarrow> approval_receipt \<Rightarrow> frozen_command \<Rightarrow> bool" where
  "gate_meets R i X s a f \<longleftrightarrow>
     (\<exists>wait fz want rest. obj_get (wi_context i) ''wait'' = JObj wait \<and> obj_get wait ''frozen_command'' = JObj fz \<and>
        frozen_from_dict fz = Inr f \<and> wait_key wait = Inr want \<and>
        matching_approvals (now_text R X) want
          (take_unconsumed_signals (engine_store X) (wi_tenant i) (wi_id i)) = Inr ((s, a) # rest))"

lemma matching_approvals_sound:
  "matching_approvals now want ss = Inr ms \<Longrightarrow> (s, a) \<in> set ms \<Longrightarrow>
     s \<in> set ss \<and> approval_of_signal now s = Inr (Some a)"
proof (induction ss arbitrary: ms)
  case (Cons t ss)
  then show ?case by (auto split: if_splits sum.splits option.splits)
qed simp

lemma gate_meets_signal:
  "gate_meets R i X s a f \<Longrightarrow>
     s \<in> set (take_unconsumed_signals (engine_store X) (wi_tenant i) (wi_id i)) \<and>
     approval_of_signal (now_text R X) s = Inr (Some a)"
  by (auto simp: gate_meets_def dest!: matching_approvals_sound)

lemma gate_meets_decides:
  assumes "gate_meets R i X s a f"
  shows "advance_human_gate R A boot i X = gate_decision R A boot i s a f X"
proof -
  obtain wait fz want rest where w: "obj_get (wi_context i) ''wait'' = JObj wait"
    "obj_get wait ''frozen_command'' = JObj fz" "frozen_from_dict fz = Inr f" "wait_key wait = Inr want"
    "matching_approvals (now_text R X) want (take_unconsumed_signals (engine_store X) (wi_tenant i) (wi_id i)) =
      Inr ((s, a) # rest)"
    using assms by (auto simp: gate_meets_def)
  have "wait \<noteq> []" using w(2) by (auto simp: obj_get_def)
  moreover have "fz \<noteq> []" using w(3) by (auto simp: frozen_from_dict_def str_field_def)
  ultimately show ?thesis
    using w by (cases fz) (simp_all add: advance_human_gate_def or_empty_def Let_def)
qed

lemma gate_after_timeout_domain: "ex_domain (snd (gate_after_timeout R i ss X)) = ex_domain X"
  by (auto simp: gate_after_timeout_def Let_def split: sum.split option.split)

lemma gate_undecided:
  assumes "\<nexists>s a f. gate_meets R i X s a f"
  shows "ex_domain (snd (advance_human_gate R A boot i X)) = ex_domain X"
proof -
  have wait: "wait = [] \<or> obj_get (wi_context i) ''wait'' = JObj wait"
    if "or_empty (obj_get (wi_context i) ''wait'') = Inr wait" for wait
    using that by (auto simp: or_empty_def split: if_splits json.splits)
  have 1: "post (\<lambda>_ X'. ex_domain X' = ex_domain X) (and_then (in_store f X) (\<lambda>_. commit R j evs rs cons))"
    for f :: "workflow_store \<Rightarrow> unit outcome \<times> workflow_store" and j evs rs cons
  proof -
    obtain v X1 where x: "in_store f X = (v, X1)" by fastforce
    then have "ex_domain X1 = ex_domain X" using in_store_frame(1) [of f X] by simp
    then show ?thesis by (cases v) (simp_all add: x post_def)
  qed
  have "post (\<lambda>_ X'. ex_domain X' = ex_domain X) (advance_human_gate R A boot i X)"
    unfolding advance_human_gate_def Let_def
  proof (intro post_branch post_pair refl)
    fix wait
    show "post (\<lambda>_ X'. ex_domain X' = ex_domain X)
      (gate_after_timeout R i (take_unconsumed_signals (engine_store X) (wi_tenant i) (wi_id i)) X)"
      by (simp add: post_def gate_after_timeout_domain)
  next
    fix wait want ms
    assume w: "or_empty (obj_get (wi_context i) ''wait'') = Inr wait" and k: "wait_key wait = Inr want"
      and m: "matching_approvals (now_text R X) want
        (take_unconsumed_signals (engine_store X) (wi_tenant i) (wi_id i)) = Inr ms"
    have none: "frozen_from_dict fz \<noteq> Inr f" if "ms = (s, a) # rest" "obj_get wait ''frozen_command'' = JObj fz"
      for s a rest fz f
    proof
      assume "frozen_from_dict fz = Inr f"
      then have "gate_meets R i X s a f" using that k m wait [OF w] by (auto simp: gate_meets_def obj_get_def)
      then show False using assms by blast
    qed
    show "post (\<lambda>_ X'. ex_domain X' = ex_domain X)
       (case ms of [] \<Rightarrow> commit R (repark i) [] [] [] X
        | (s, a) # _ \<Rightarrow>
            (case obj_get wait ''frozen_command'' of
               JObj (kv # kvs) \<Rightarrow>
                 (case frozen_from_dict (kv # kvs) of
                    Inl e \<Rightarrow> (Inl e, X) | Inr f \<Rightarrow> gate_decision R A boot i s a f X)
             | raw \<Rightarrow>
                 if truthy raw then (Inl (TypeError ''frozen command is not a mapping''), X)
                 else and_then (in_store (\<lambda>S. (Inr (), mark_signal_consumed (wi_tenant i) (sig_id s)
                        (consume_result_value SC_REJECTED_INVALID) S)) X)
                      (\<lambda>_. commit R (i\<lparr>wi_run_status := WAITING_SIGNAL\<rparr>) [] [] [(sig_id s, SC_REJECTED_INVALID)])))"
    proof (cases ms)
      case (Cons sa rest)
      obtain s a where sa: "sa = (s, a)" by (cases sa)
      show ?thesis
      proof (cases "\<exists>kv kvs. obj_get wait ''frozen_command'' = JObj (kv # kvs)")
        case True
        then obtain kv kvs where fz: "obj_get wait ''frozen_command'' = JObj (kv # kvs)" by blast
        obtain e where "frozen_from_dict (kv # kvs) = Inl e"
          using none [OF Cons [unfolded sa] fz] by (metis sum.exhaust)
        then show ?thesis by (simp add: Cons sa fz post_def)
      next
        case False
        then show ?thesis using 1 by (auto simp: Cons sa post_def split: json.split list.split)
      qed
    qed (simp add: post_def)
  qed
  then show ?thesis by (simp add: post_def)
qed

section \<open>Nothing happens without a human\<close>


section \<open>A refusal does not close the gate\<close>

lemma consume_one:
  "t \<in> set (fold consume_matching [(sid, res)] ss) \<Longrightarrow> sig_id t = sid \<Longrightarrow>
     sig_consumed t \<and> sig_result t = Some (consume_result_value res)"
proof -
  assume "t \<in> set (fold consume_matching [(sid, res)] ss)" and t: "sig_id t = sid"
  then have "t \<in> (\<lambda>s. if sig_id s = sid then consumed_as (consume_result_value res) s else s) ` set ss"
    by (simp only: fold_simps consume_matching_def set_map fst_conv snd_conv)
  then obtain u where u: "t = (if sig_id u = sid then consumed_as (consume_result_value res) u else u)" by blast
  have id: "sig_id (consumed_as x u) = sig_id u" for x by (simp add: consumed_as_def)
  show ?thesis
  proof (cases "sig_id u = sid")
    case True
    then show ?thesis using u by (simp add: consumed_as_def)
  next
    case False
    then show ?thesis using u t id by simp
  qed
qed

text \<open>C21. A decision other than APPROVE never closes the gate: whether the human rejects, asks for information
  or edits, the workflow keeps its state and its wait, the signal is consumed as invalid and the same command
  can be approved later; the branches for these decisions are never reached.\<close>

theorem refusal_leaves_gate_open:
  assumes "gate_meets R i X s a f" and "app_decision a \<noteq> ''APPROVE''"
    and "get_instance (engine_store X) (wi_tenant i) (wi_id i) \<noteq> None"
  shows "\<exists>j X'. advance_human_gate R A boot i X = (Inr (Some j), X') \<and>
    wi_state j = wi_state i \<and> wi_run_status j = WAITING_SIGNAL \<and> wi_context j = wi_context i \<and>
    ex_domain X' = ex_domain X \<and>
    (\<forall>t \<in> set (signals_of (engine_store X') (wi_id i)). sig_id t = sig_id s \<longrightarrow>
       sig_result t = Some ''REJECTED_INVALID'')"
proof -
  obtain m where "authorized_command (re_env R) f a = Inl (AuthorityError m)"
    using assms(2) by (rule authorized_command_refusal)
  then have g: "advance_human_gate R A boot i X =
      commit R (i\<lparr>wi_last_error := Some m, wi_run_status := WAITING_SIGNAL\<rparr>)
        [event EV_ERROR [(''error'', JStr m)]] [] [(sig_id s, SC_REJECTED_INVALID)] X"
    using gate_meets_decides [OF assms(1)] by (simp add: gate_decision_def)
  let ?i = "i\<lparr>wi_last_error := Some m, wi_run_status := WAITING_SIGNAL\<rparr>"
  have "get_instance (engine_store X) (wi_tenant ?i) (wi_id ?i) \<noteq> None" using assms(3) by simp
  from commit_result [OF this] obtain seq u X' where
    c: "commit R ?i [event EV_ERROR [(''error'', JStr m)]] [] [(sig_id s, SC_REJECTED_INVALID)] X =
      (Inr (Some (?i\<lparr>wi_event_seq := seq, wi_updated := u\<rparr>)), X')" "ex_domain X' = ex_domain X"
    "signals_of (engine_store X') (wi_id ?i) =
      fold consume_matching [(sig_id s, SC_REJECTED_INVALID)] (signals_of (engine_store X) (wi_id ?i))" by metis
  show ?thesis unfolding g c(1) using c(2,3) consume_one [of _ "sig_id s" SC_REJECTED_INVALID] by auto
qed

section \<open>Execution through the gate\<close>

lemma gate_reaches_execution:
  assumes "gate_meets R i X s a f" and "authorized_command (re_env R) f a = Inr c"
  shows "advance_human_gate R A boot i X = gate_execute R A boot i s a (fz_agent f) c X"
  using gate_meets_decides [OF assms(1), of A boot] authorized_commandD(1) [OF assms(2)] assms(2)
  by (simp add: gate_decision_def)

lemma execute_stored:
  assumes "assert_execution_authorized c (Some a) (Some n) = Inr ()" and "stored_receipt idx c X = Some r"
  shows "execute E idx dispatch c (Some a) (Some n) None X = (Inr r, X\<lparr>ex_receipts := ex_receipts X @ [r]\<rparr>)"
  using assms by (simp add: execute_def execute_guard_def)

lemma stored_receipt_engine:
  "stored_receipt memory_index c X = get_execution_receipt (engine_store X) (cmd_tenant c) (cmd_key c)"
  by (auto simp: stored_receipt_def memory_index_def engine_store_def get_execution_receipt_def empty_store_def
      split: option.split)

lemma engine_store_receipts [simp]: "engine_store (X\<lparr>ex_receipts := rs\<rparr>) = engine_store X"
  by (simp add: engine_store_def cong: option.case_cong)

lemma after_command_keys [simp]:
  "wi_tenant (after_command now c r i) = wi_tenant i" "wi_id (after_command now c r i) = wi_id i"
  "wi_tenant (clear_wait (after_command now c r i)) = wi_tenant i"
  "wi_id (clear_wait (after_command now c r i)) = wi_id i"
  by (simp_all add: clear_wait_def after_command_def Let_def)

text \<open>A crash between execution and commit is harmless: when the receipt of the frozen command is already
  in the index, the gate takes it from there, leaves the workspace alone, accepts the signal, drops the wait
  and moves the workflow on as the receipt says.\<close>

theorem recorded_execution_is_not_repeated:
  assumes "gate_meets R i X s a f" and "authorized_command (re_env R) f a = Inr c" and "fz_key f \<noteq> []"
    and "get_execution_receipt (engine_store X) (fz_tenant f) (fz_key f) = Some r" and "exe_status r \<noteq> ''FAILED''"
    and "get_instance (engine_store X) (wi_tenant i) (wi_id i) \<noteq> None"
  shows "\<exists>j X'. advance_human_gate R A boot i X = (Inr (Some j), X') \<and>
    xd_ws (ex_domain X') = xd_ws (ex_domain X) \<and>
    wi_state j = wi_state (after_command (now_text R X) c r i) \<and> dget (wi_context j) ''wait'' = None \<and>
    (\<forall>t \<in> set (signals_of (engine_store X') (wi_id i)). sig_id t = sig_id s \<longrightarrow> sig_result t = Some ''ACCEPTED'')"
proof -
  let ?Y = "register_context_preview R i c X"
  let ?X1 = "?Y\<lparr>ex_receipts := ex_receipts ?Y @ [r]\<rparr>"
  note c = authorized_commandD(7-10) [OF assms(2)]
  have "stored_receipt memory_index c ?Y = Some r"
    using assms(3,4) c by (simp add: stored_receipt_engine)
  note ex = execute_stored [OF c(4) this, of "re_env R" "dispatch_command (re_env R) A boot"]
  let ?j = "clear_wait (after_command (now_text R ?X1) c r i)"
  let ?rs = "if storable_status (exe_status r) then [r] else []"
  have g: "advance_human_gate R A boot i X =
      commit R ?j (execution_events c r (wi_state ?j)) ?rs [(sig_id s, SC_ACCEPTED)] ?X1"
    unfolding gate_reaches_execution [OF assms(1,2)] gate_execute_def ex using assms(5) by (simp add: Let_def)
  have "get_instance (engine_store ?X1) (wi_tenant ?j) (wi_id ?j) \<noteq> None" using assms(6) by simp
  from commit_result [OF this] obtain seq u X' where
    k: "commit R ?j (execution_events c r (wi_state ?j)) ?rs [(sig_id s, SC_ACCEPTED)] ?X1 =
      (Inr (Some (?j\<lparr>wi_event_seq := seq, wi_updated := u\<rparr>)), X')" "ex_domain X' = ex_domain ?X1"
    "signals_of (engine_store X') (wi_id ?j) =
      fold consume_matching [(sig_id s, SC_ACCEPTED)] (signals_of (engine_store ?X1) (wi_id ?j))" by metis
  have "now_text R ?X1 = now_text R X" by (simp add: now_text_def)
  moreover have "dget (wi_context ?j) ''wait'' = None"
    by (simp add: clear_wait_def)
  ultimately show ?thesis
    unfolding g k(1) using k(2,3) consume_one [of _ "sig_id s" SC_ACCEPTED] by (auto simp: clear_wait_def)
qed

section \<open>Failures\<close>

lemma unknown_exception_retryable: "\<not> has_marker m \<Longrightarrow> is_retryable ''Exception'' ''builtins'' m"
  by (simp add: is_retryable_def classify_error_def TERMINAL_TYPE_NAMES_def RETRYABLE_TYPE_NAMES_def)

lemma execute_raising:
  assumes "assert_execution_authorized c (Some a) (Some n) = Inr ()" and "stored_receipt idx c X = None"
    and "cmd_key c \<notin> set (ex_seen X)" and "\<not> ex_simulation X" and "dispatch c (ex_domain X) = (Inl e, D)"
  obtains r X1 where "execute E idx dispatch c (Some a) (Some n) None X = (Inr r, X1)"
    and "exe_status r = ''FAILED''" and "exe_error r = Some (exn_str e)"
    and "ex_index X1 = ex_index X"
  using assms by (simp add: execute_def execute_guard_def run_command_def exec_receipt_def)

lemma same_index_store:
  "ex_index X1 = ex_index X \<Longrightarrow> signals_of (engine_store X1) w = signals_of (engine_store X) w"
  "ex_index X1 = ex_index X \<Longrightarrow> get_instance (engine_store X1) t w = get_instance (engine_store X) t w"
  by (cases "ex_index X"; simp add: engine_store_def signals_of_def get_instance_def)+

text \<open>A command the domain refuses is always tried again: whatever exception the ledger raised, an
  InvariantError included, its class is lost in the FAILED receipt, so the workflow is scheduled for another
  attempt with its signal unconsumed, unless the message holds one of the already-applied markers.\<close>

theorem refused_command_is_retried:
  assumes "gate_meets R i X s a f" and "authorized_command (re_env R) f a = Inr c"
    and "get_execution_receipt (engine_store X) (cmd_tenant c) (cmd_key c) = None"
    and "cmd_key c \<notin> set (ex_seen X)" and "\<not> ex_simulation X"
    and "dispatch_command (re_env R) A boot c (ex_domain (register_context_preview R i c X)) = (Inl e, D)"
    and "\<not> has_marker (exn_str e)" and "exn_str e \<noteq> []"
    and "get_instance (engine_store X) (wi_tenant i) (wi_id i) \<noteq> None"
  shows "\<exists>j X'. advance_human_gate R A boot i X = (Inr (Some j), X') \<and>
    wi_run_status j = RETRY_SCHEDULED \<and> wi_attempts j = wi_attempts i + 1 \<and> wi_state j = wi_state i \<and>
    wi_last_error j = Some (exn_str e) \<and>
    signals_of (engine_store X') (wi_id i) = signals_of (engine_store X) (wi_id i)"
proof -
  let ?Y = "register_context_preview R i c X"
  have "stored_receipt memory_index c ?Y = None" using assms(3) by (simp add: stored_receipt_engine)
  moreover have "cmd_key c \<notin> set (ex_seen ?Y)" "\<not> ex_simulation ?Y" using assms(4,5) by simp_all
  ultimately obtain r X1 where ex: "execute (re_env R) memory_index (dispatch_command (re_env R) A boot) c (Some a)
      (Some (fz_agent f)) None ?Y = (Inr r, X1)" and r: "exe_status r = ''FAILED''" "exe_error r = Some (exn_str e)"
    and ix: "ex_index X1 = ex_index ?Y"
    using execute_raising [where dispatch = "dispatch_command (re_env R) A boot" and X = ?Y,
        OF authorized_commandD(10) [OF assms(2)] _ _ _ assms(6)] by blast
  have "retryable_failure r"
    using r(2) assms(7,8) unknown_exception_retryable by (simp add: retryable_failure_def)
  let ?j = "retry_later (now_text R X1) (exe_error r) i"
  have g: "advance_human_gate R A boot i X = commit R ?j [] [] [] X1"
    unfolding gate_reaches_execution [OF assms(1,2)] gate_execute_def ex using r(1) \<open>retryable_failure r\<close> by simp
  note keep = same_index_store [of X1 X, unfolded ix, simplified]
  have "get_instance (engine_store X1) (wi_tenant ?j) (wi_id ?j) \<noteq> None"
    using assms(9) keep by (simp add: retry_later_def)
  from commit_result [OF this] obtain seq u X' where
    k: "commit R ?j [] [] [] X1 = (Inr (Some (?j\<lparr>wi_event_seq := seq, wi_updated := u\<rparr>)), X')"
    "signals_of (engine_store X') (wi_id ?j) = fold consume_matching [] (signals_of (engine_store X1) (wi_id ?j))"
    by metis
  show ?thesis unfolding g k(1) using k(2) keep r(2) by (simp add: retry_later_def)
qed

section \<open>A gate in the scenario\<close>

definition gate_frozen :: frozen_command where
  "gate_frozen = demo_frozen ''approve_expense'' [(''expense_id'', JStr ''e'')]"

definition gate_instance :: workflow_instance where
  "gate_instance = (demo_instance REVIEW_PENDING RUNNING)\<lparr>wi_context :=
     [(''wait'', JObj [(''command_idempotency_key'', JStr ''k''), (''frozen_command'', JObj (frozen_to_dict gate_frozen))])]\<rparr>"

definition gate_approval :: "string \<Rightarrow> approval_receipt" where
  "gate_approval decision = demo_approval\<lparr>app_decision := decision\<rparr>"

definition gate_signal :: "string \<Rightarrow> workflow_signal" where
  "gate_signal decision = \<lparr>sig_id = ''s'', sig_workflow = ''w'', sig_tenant = ''o'', sig_type = SIG_APPROVAL,
     sig_payload = [(''approval_id'', JStr ''a''), (''tenant_id'', JStr ''o''), (''proposal_id'', JStr ''p''),
       (''command_idempotency_key'', JStr ''k''), (''decision'', JStr decision), (''approver_id'', JStr ''cfo''),
       (''approved_at'', JStr ''t'')],
     sig_created = ''t'', sig_consumed = False, sig_result = None\<rparr>"

definition gate_store :: "string \<Rightarrow> workflow_store" where
  "gate_store decision = (demo_store REVIEW_PENDING RUNNING)\<lparr>ws_instances := [(''w'', gate_instance)],
     ws_signals := [(''w'', [gate_signal decision])]\<rparr>"

definition gate_engine :: "workflow_store \<Rightarrow> ledger \<Rightarrow> in_process_adapter engine" where
  "gate_engine S L = \<lparr>ex_simulation = False, ex_seen = [], ex_receipts = [], ex_index = Some S, ex_workflow = Some ''w'',
     ex_block_below = 3/4, ex_domain = new_exec_domain (empty_workspace L) True, ex_clock = 0\<rparr>"

definition demo_runtime :: runtime_env where
  "demo_runtime = \<lparr>re_env = demo_env, re_times = demo_clock, re_now = (\<lambda>_. 0), re_uuid = (\<lambda>n. replicate n CHR ''b''),
     re_policy = (\<lambda>_ _. [])\<rparr>"

lemma demo_runtime_simps [simp]: "re_env demo_runtime = demo_env"
  by (simp add: demo_runtime_def)

lemma gate_fields [simp]:
  "wi_id gate_instance = ''w''" "wi_tenant gate_instance = ''o''" "wi_state gate_instance = REVIEW_PENDING"
  "fz_key gate_frozen = ''k''" "fz_tenant gate_frozen = ''o''" "fz_type gate_frozen = ''approve_expense''"
  "fz_payload gate_frozen = [(''expense_id'', JStr ''e'')]" "fz_expires gate_frozen = None" "fz_agent gate_frozen = ''classifier''"
  "app_key (gate_approval d) = ''k''" "app_tenant (gate_approval d) = ''o''" "app_decision (gate_approval d) = d"
  "app_approver (gate_approval d) = ''cfo''" "sig_id (gate_signal d) = ''s''"
  by (simp_all add: gate_instance_def demo_instance_def gate_frozen_def demo_frozen_def gate_approval_def
      demo_approval_def gate_signal_def)

lemma gate_frozen_round: "frozen_from_dict (frozen_to_dict gate_frozen) = Inr gate_frozen"
  by (simp add: frozen_from_dict_def frozen_to_dict_def str_field_def str_or_def gate_frozen_def demo_frozen_def opt_str_def)

lemma gate_signal_approval:
  "d \<in> {''APPROVE'', ''REJECT''} \<Longrightarrow> approval_of_signal now (gate_signal d) = Inr (Some (gate_approval d))"
  by (auto simp: approval_of_signal_def gate_signal_def str_field_def str_or_def make_approval_def gate_approval_def
      demo_approval_def)

lemma gate_engine_store:
  "get_instance (engine_store (gate_engine (gate_store d) L)) ''o'' ''w'' = Some gate_instance"
  "take_unconsumed_signals (engine_store (gate_engine (gate_store d) L)) ''o'' ''w'' = [gate_signal d]"
  "get_execution_receipt (engine_store (gate_engine (gate_store d) L)) t k = None"
  by (simp_all add: engine_store_def gate_engine_def gate_store_def get_instance_def take_unconsumed_signals_def
      signals_of_def get_execution_receipt_def demo_store_def create_def empty_store_def)
    (simp add: gate_signal_def)

lemma gate_demo_meets:
  assumes "d \<in> {''APPROVE'', ''REJECT''}" "take_unconsumed_signals (engine_store X) ''o'' ''w'' = [gate_signal d]"
  shows "gate_meets demo_runtime gate_instance X (gate_signal d) (gate_approval d) gate_frozen"
proof -
  let ?wait = "[(''command_idempotency_key'', JStr ''k''), (''frozen_command'', JObj (frozen_to_dict gate_frozen))]"
  have "obj_get (wi_context gate_instance) ''wait'' = JObj ?wait" by (simp add: obj_get_def gate_instance_def)
  moreover have "obj_get ?wait ''frozen_command'' = JObj (frozen_to_dict gate_frozen)" by (simp add: obj_get_def)
  moreover have "wait_key ?wait = Inr (JStr ''k'')" by (simp add: wait_key_def obj_get_def)
  moreover have "sig_type (gate_signal d) = SIG_APPROVAL" by (simp add: gate_signal_def)
  ultimately show ?thesis
    using gate_signal_approval [OF assms(1)] assms(2) gate_frozen_round unfolding gate_meets_def by auto
qed

definition gate_command :: agent_command where
  "gate_command = \<lparr>cmd_type = ''approve_expense'', cmd_tenant = ''o'',
     cmd_payload = [(''expense_id'', JStr ''e''), (''approved_by'', JStr ''cfo'')],
     cmd_required = L3_HUMAN_APPROVAL, cmd_key = ''k'', cmd_expires = None\<rparr>"

lemma gate_authorized:
  "authorized_command demo_env gate_frozen (gate_approval ''APPROVE'') = Inr gate_command"
  by (simp add: authorized_command_def build_executable_command_def overlay_identity_def make_command_def
      L3_COMMAND_TYPES_def assert_execution_authorized_def requires_human_approval_def gate_command_def)

theorem refusal_leaves_gate_open_witness:
  "\<exists>j X'. advance_human_gate demo_runtime in_process_api (\<lambda>_. True) gate_instance (gate_engine (gate_store ''REJECT'') demo6)
     = (Inr (Some j), X') \<and> wi_state j = REVIEW_PENDING \<and> wi_run_status j = WAITING_SIGNAL"
  using refusal_leaves_gate_open [OF gate_demo_meets [of "''REJECT''"], of "gate_engine (gate_store ''REJECT'') demo6"
      in_process_api "\<lambda>_. True"] gate_engine_store [of "''REJECT''" demo6]
  by auto

lemma gate_dispatch:
  "dispatch_command demo_env in_process_api (\<lambda>_. True) gate_command (new_exec_domain (empty_workspace demo6) True) =
     (Inr ([''e''], JObj [(''expense_id'', JStr ''e''), (''state'', JStr ''APPROVED'')]),
      xd_put demo7 (new_exec_domain (empty_workspace demo6) True))"
proof -
  have "approve_expense demo_env ''e'' ''cfo'' demo6 = (Inr (demo_expense ''e'' 4000 APPROVED (Some ''cfo'')), demo7)"
    by (simp add: demo7_def demo_ops)
  then show ?thesis
    by (simp add: dispatch_command_def gate_command_def on_ledger_def xd_ledger_def new_exec_domain_def
        empty_workspace_def handle_approve_def as_str_def)
qed

lemma gate_execute_domain:
  "ex_domain (snd (gate_execute R A boot i s a n c X)) =
     ex_domain (snd (execute (re_env R) memory_index (dispatch_command (re_env R) A boot) c (Some a) (Some n) None
       (register_context_preview R i c X)))"
  by (auto simp: gate_execute_def Let_def split: prod.split sum.split)

lemma execute_fresh_domain:
  assumes "assert_execution_authorized c (Some a) (Some n) = Inr ()" and "stored_receipt idx c X = None"
    and "cmd_key c \<notin> set (ex_seen X)" and "\<not> ex_simulation X"
  shows "ex_domain (snd (execute E idx dispatch c (Some a) (Some n) None X)) = snd (dispatch c (ex_domain X))"
  using assms run_command_domain [of E idx dispatch c "Some a" X]
  by (simp add: execute_def execute_guard_def split_beta)

lemma gate_engine_fields [simp]:
  "ex_seen (gate_engine S L) = []" "\<not> ex_simulation (gate_engine S L)"
  "ex_domain (gate_engine S L) = new_exec_domain (empty_workspace L) True"
  by (simp_all add: gate_engine_def)

lemma gate_no_preview [simp]:
  "register_context_preview R gate_instance gate_command X = X"
  by (simp add: register_context_preview_def gate_command_def)

lemma gate_command_fields [simp]: "cmd_tenant gate_command = ''o''" "cmd_key gate_command = ''k''"
  by (simp_all add: gate_command_def)


theorem recorded_execution_is_not_repeated_witness:
  "\<exists>j X'. advance_human_gate demo_runtime in_process_api (\<lambda>_. True) gate_instance
       (gate_engine ((gate_store ''APPROVE'')\<lparr>ws_receipts := [((''o'', ''k''), demo_exec)]\<rparr>) demo6) = (Inr (Some j), X') \<and>
     xd_ws (ex_domain X') = empty_workspace demo6 \<and> wi_state j = LEDGER_COMMITTED"
proof -
  let ?X = "gate_engine ((gate_store ''APPROVE'')\<lparr>ws_receipts := [((''o'', ''k''), demo_exec)]\<rparr>) demo6"
  have s: "get_instance (engine_store ?X) ''o'' ''w'' = Some gate_instance"
    "take_unconsumed_signals (engine_store ?X) ''o'' ''w'' = [gate_signal ''APPROVE'']"
    "get_execution_receipt (engine_store ?X) ''o'' ''k'' = Some demo_exec"
    using gate_engine_store [of "''APPROVE''" demo6]
    by (simp_all add: engine_store_def gate_engine_def get_instance_def take_unconsumed_signals_def signals_of_def
        get_execution_receipt_def)
  have auth: "authorized_command (re_env demo_runtime) gate_frozen (gate_approval ''APPROVE'') = Inr gate_command"
    using gate_authorized by simp
  have st: "wi_state (after_command now gate_command demo_exec gate_instance) = LEDGER_COMMITTED" for now
    by (simp add: after_command_def gate_command_def)
  have "exe_status demo_exec \<noteq> ''FAILED''" by (simp add: demo_exec_def)
  from recorded_execution_is_not_repeated [OF gate_demo_meets [OF _ s(2)] auth _ _ this, of in_process_api "\<lambda>_. True"]
  show ?thesis using s st by (auto simp: new_exec_domain_def)
qed

lemma gate_refusal:
  "dispatch_command demo_env in_process_api (\<lambda>_. True) gate_command (new_exec_domain (empty_workspace demo0) True) =
     (Inl (NotFoundError ''expense not found: e''), new_exec_domain (empty_workspace demo0) True)"
  by (simp add: dispatch_command_def gate_command_def on_ledger_def xd_ledger_def new_exec_domain_def
      empty_workspace_def handle_approve_def as_str_def approve_expense_def require_expense_def xd_put_def)

lemma gate_refusal_plain: "\<not> has_marker ''expense not found: e''"
  by code_simp

theorem refused_command_is_retried_witness:
  "\<exists>j X'. advance_human_gate demo_runtime in_process_api (\<lambda>_. True) gate_instance
       (gate_engine (gate_store ''APPROVE'') demo0) = (Inr (Some j), X') \<and>
     wi_run_status j = RETRY_SCHEDULED \<and> wi_attempts j = 1 \<and>
     \<not> retryable_exn (NotFoundError ''expense not found: e'')"
proof -
  let ?X = "gate_engine (gate_store ''APPROVE'') demo0"
  have auth: "authorized_command (re_env demo_runtime) gate_frozen (gate_approval ''APPROVE'') = Inr gate_command"
    using gate_authorized by simp
  have "\<not> retryable_exn (NotFoundError ''expense not found: e'')"
    using gate_refusal_plain
    by (simp add: retryable_exn_def is_retryable_def classify_error_def TERMINAL_TYPE_NAMES_def)
  moreover have "wi_attempts gate_instance = 0" by (simp add: gate_instance_def demo_instance_def)
  ultimately show ?thesis
    using refused_command_is_retried [OF gate_demo_meets [of "''APPROVE''" ?X] auth, of in_process_api "\<lambda>_. True"
        "NotFoundError ''expense not found: e''" "ex_domain ?X"] gate_refusal gate_refusal_plain
      gate_engine_store [of "''APPROVE''" demo0] by auto
qed

end
