(* ===== verification/Expense_Agents.thy ===== *)
theory Expense_Agents
  imports Gate
begin

text \<open>
  The agents that propose: intake, evidence, classification and review of \<^verbatim>\<open>agents/expense_workflow.py\<close> and the
  notification composer of \<^verbatim>\<open>agents/notification_composer.py\<close>. An agent evaluates a command to a proposal and
  validates the proposal; neither touches the ledger.

  A float is a rational; in a document it is its decimal text, like an amount. \<open>n\<close> numbers the clock readings and
  the identifiers drawn during one call.
\<close>

section \<open>Contexts, times and floats\<close>

record agent_context =
  cx_tenant :: string
  cx_policy_version :: string
  cx_prompt_version :: "string option"
  cx_facts :: "(string \<times> json) list"
  cx_now :: "string option"
  cx_policy :: "(string \<times> json) list"

definition draw_id :: "runtime_env \<Rightarrow> nat \<Rightarrow> string \<Rightarrow> string" where
  "draw_id R n pre = pre @ ''_'' @ re_uuid R n"

definition in_hours :: "runtime_env \<Rightarrow> nat \<Rightarrow> int \<Rightarrow> string" where
  "in_hours R n h = iso_of (re_times R) (whole_seconds (re_now R n) + h * 3600000000)"

definition float_of_json :: "json \<Rightarrow> rat outcome" where
  "float_of_json j =
     (case decimal_of_json j of Inl _ \<Rightarrow> Inl (ValueError ''could not convert to float'') | Inr x \<Rightarrow> Inr x)"

text \<open>\<^verbatim>\<open>repr\<close> of a float of at most two decimals, which is all the agents produce.\<close>

definition float_text :: "rat \<Rightarrow> string" where
  "float_text x =
     (let s = money_str \<lfloor>x * 100\<rfloor> in if last s = CHR ''0'' then butlast s else s)"

definition float_json :: "rat option \<Rightarrow> json" where
  "float_json x = (case x of None \<Rightarrow> JNull | Some y \<Rightarrow> JStr (float_text y))"

definition block_below_of :: "agent_context \<Rightarrow> rat outcome" where
  "block_below_of cx =
     (case obj_get (cx_policy cx) ''confidence'' of
        JObj conf \<Rightarrow> (case dget conf ''block_below'' of None \<Rightarrow> Inr (3/4) | Some j \<Rightarrow> float_of_json j)
      | _ \<Rightarrow> Inr (3/4))"

definition accepted :: validation_result where
  "accepted = \<lparr>val_status = V_ACCEPTED, val_reasons = [], val_warnings = []\<rparr>"

definition refused :: "validation_status \<Rightarrow> string \<Rightarrow> validation_result" where
  "refused st why = \<lparr>val_status = st, val_reasons = [why], val_warnings = []\<rparr>"

text \<open>\<^verbatim>\<open>list(d.get(k) or [])\<close>, of text.\<close>

definition texts_field :: "(string \<times> json) list \<Rightarrow> string \<Rightarrow> string list outcome" where
  "texts_field p k = (case list_field (JObj p) k of Inl e \<Rightarrow> Inl e | Inr js \<Rightarrow> Inr (map json_str js))"

text \<open>\<^verbatim>\<open>x.get(k)\<close> and \<^verbatim>\<open>x.get(k, default)\<close> of a document.\<close>

definition item_get :: "json \<Rightarrow> string \<Rightarrow> json \<Rightarrow> json outcome" where
  "item_get x k dflt =
     (case x of
        JObj d \<Rightarrow> Inr (case dget d k of None \<Rightarrow> dflt | Some j \<Rightarrow> j)
      | _ \<Rightarrow> Inl (AttributeError ''object has no attribute get''))"

fun map_o :: "('a \<Rightarrow> 'b outcome) \<Rightarrow> 'a list \<Rightarrow> 'b list outcome" where
  "map_o f [] = Inr []"
| "map_o f (x # xs) =
     (case f x of Inl e \<Rightarrow> Inl e | Inr y \<Rightarrow> (case map_o f xs of Inl e \<Rightarrow> Inl e | Inr ys \<Rightarrow> Inr (y # ys)))"

section \<open>Intake\<close>

record normalized_import =
  nm_external :: string
  nm_tenant :: string
  nm_vendor :: string
  nm_amount :: string
  nm_currency :: string
  nm_purchase_date :: string
  nm_category :: string
  nm_description :: string
  nm_allocation :: json
  nm_evidence :: "json list"
  nm_key :: string

definition import_key :: "(string \<Rightarrow> string) \<Rightarrow> normalized_import \<Rightarrow> string" where
  "import_key sha m =
     stable_hash sha (JObj [(''external_source_id'', JStr (nm_external m)), (''tenant_id'', JStr (nm_tenant m)),
       (''amount'', JStr (nm_amount m)), (''purchase_date'', JStr (nm_purchase_date m))])"

definition str_get :: "(string \<times> json) list \<Rightarrow> string \<Rightarrow> string \<Rightarrow> string" where
  "str_get d k dflt = (case dget d k of None \<Rightarrow> dflt | Some j \<Rightarrow> json_str j)"

definition normalize_expense_row :: "(string \<Rightarrow> string) \<Rightarrow> (string \<times> json) list \<Rightarrow> string \<Rightarrow> normalized_import outcome" where
  "normalize_expense_row sha row tenant =
     (let ext = jor (obj_get row ''external_source_id'') (jor (obj_get row ''externalSourceId'') (obj_get row ''id'')) in
      if \<not> truthy ext then Inl (ValueError ''expense row missing external_source_id'')
      else
        case str_field row ''vendor'' of Inl e \<Rightarrow> Inl e | Inr vendor \<Rightarrow>
        case str_field row ''amount'' of Inl e \<Rightarrow> Inl e | Inr amount \<Rightarrow>
        case str_field row ''purchase_date'' of Inl e \<Rightarrow> Inl e | Inr date \<Rightarrow>
        case list_field (JObj row) ''evidence'' of Inl e \<Rightarrow> Inl e | Inr evid \<Rightarrow>
        let m = \<lparr>nm_external = json_str ext, nm_tenant = tenant, nm_vendor = vendor, nm_amount = amount,
              nm_currency = str_get row ''currency'' ''USD'', nm_purchase_date = date,
              nm_category = str_get row ''category'' ''UNCLASSIFIED'', nm_description = str_get row ''description'' [],
              nm_allocation = jor (obj_get row ''allocation_id'') (obj_get row ''proposed_allocation_id''),
              nm_evidence = evid, nm_key = []\<rparr>
        in Inr (m\<lparr>nm_key := import_key sha m\<rparr>))"

definition normalized_doc :: "normalized_import \<Rightarrow> json" where
  "normalized_doc m = JObj
     [(''external_source_id'', JStr (nm_external m)), (''tenant_id'', JStr (nm_tenant m)), (''vendor'', JStr (nm_vendor m)),
      (''amount'', JStr (nm_amount m)), (''currency'', JStr (nm_currency m)),
      (''purchase_date'', JStr (nm_purchase_date m)), (''category'', JStr (nm_category m)),
      (''description'', JStr (nm_description m)), (''proposed_allocation_id'', nm_allocation m),
      (''evidence'', JList (nm_evidence m)), (''idempotency_key'', JStr (nm_key m))]"

definition import_command_for :: "runtime_env \<Rightarrow> nat \<Rightarrow> agent_context \<Rightarrow> json \<Rightarrow> agent_command outcome" where
  "import_command_for R n cx raw =
     (case raw of
        JObj row \<Rightarrow>
          (case normalize_expense_row (sha256_hex (re_env R)) row (cx_tenant cx) of Inl e \<Rightarrow> Inl e | Inr m \<Rightarrow>
           let c = make_command (sha256_hex (re_env R)) ''import_normalized_expense'' (cx_tenant cx)
                 [(''expense'', normalized_doc m)] L2_REVERSIBLE (''import:'' @ nm_key m) (Some (in_hours R n 24))
           in case assert_agent_may_propose L2_REVERSIBLE c of Inl e \<Rightarrow> Inl e | Inr _ \<Rightarrow> Inr c)
      | _ \<Rightarrow> Inl (AttributeError ''object has no attribute get''))"

definition intake_evaluate :: "runtime_env \<Rightarrow> nat \<Rightarrow> agent_context \<Rightarrow> agent_command \<Rightarrow> agent_proposal outcome" where
  "intake_evaluate R n cx c =
     (let p = cmd_payload c; hash = stable_hash (sha256_hex (re_env R)) (JObj p) in
      if cmd_type c \<noteq> ''ingest_expense_batch'' then Inl (ValueError (''unsupported command: '' @ cmd_type c))
      else
        case list_field (JObj p) ''expenses'' of Inl e \<Rightarrow> Inl e | Inr rows \<Rightarrow>
        case map_o (import_command_for R n cx) rows of Inl e \<Rightarrow> Inl e | Inr commands \<Rightarrow>
        case texts_field p ''input_refs'' of Inl e \<Rightarrow> Inl e | Inr refs \<Rightarrow>
        Inr \<lparr>prop_id = draw_id R n ''prop'', prop_tenant = cx_tenant cx, prop_agent = ''expense_intake'',
             prop_agent_version = ''0.5.0'', prop_policy_version = cx_policy_version cx,
             prop_prompt_version = cx_prompt_version cx,
             prop_input_refs = (if refs = [] then [''batch''] else refs), prop_input_hash = hash,
             prop_commands = commands, prop_evidence_refs = [],
             prop_confidence = Some (if rows = [] then 0 else 1),
             prop_warnings = (if rows = [] then [''empty expense batch''] else []), prop_contradictions = [],
             prop_required = L2_REVERSIBLE, prop_expires = in_hours R n 24,
             prop_key = ''intake:'' @ take 16 hash,
             prop_notes = ''normalized '' @ str_of_nat (length rows) @ '' expense row(s)'',
             prop_created = now_iso (re_env R) n\<rparr>)"

definition intake_validate :: "runtime_env \<Rightarrow> nat \<Rightarrow> agent_context \<Rightarrow> agent_proposal \<Rightarrow> validation_result" where
  "intake_validate R n cx p =
     (if prop_tenant p \<noteq> cx_tenant cx then refused V_REJECTED ''tenant_id mismatch''
      else if is_expired p (if present (cx_now cx) then the (cx_now cx) else now_iso (re_env R) n)
      then refused V_REJECTED ''proposal expired''
      else accepted)"

section \<open>Evidence\<close>

datatype evidence_sufficiency = ES_MISSING | ES_PARTIAL | ES_SUFFICIENT | ES_CONTRADICTORY | ES_EXPIRED | ES_REDACTION

fun sufficiency_value :: "evidence_sufficiency \<Rightarrow> string" where
  "sufficiency_value ES_MISSING = ''MISSING''"
| "sufficiency_value ES_PARTIAL = ''PARTIAL''"
| "sufficiency_value ES_SUFFICIENT = ''SUFFICIENT''"
| "sufficiency_value ES_CONTRADICTORY = ''CONTRADICTORY''"
| "sufficiency_value ES_EXPIRED = ''EXPIRED''"
| "sufficiency_value ES_REDACTION = ''REDACTION_REQUIRED''"

definition DEFAULT_KINDS :: "json list" where
  "DEFAULT_KINDS = [JStr ''invoice'', JStr ''receipt'', JStr ''accounting_ref'']"

text \<open>The kinds of the items form a set, so they must be scalars.\<close>

definition kind_of_item :: "json \<Rightarrow> json outcome" where
  "kind_of_item x =
     (case item_get x ''kind'' JNull of
        Inl e \<Rightarrow> Inl e
      | Inr (JList _) \<Rightarrow> Inl (TypeError ''unhashable type'')
      | Inr (JObj _) \<Rightarrow> Inl (TypeError ''unhashable type'')
      | Inr k \<Rightarrow> Inr k)"

fun donor_visible_items :: "json list \<Rightarrow> json list outcome" where
  "donor_visible_items [] = Inr []"
| "donor_visible_items (x # xs) =
     (case item_get x ''donor_visible'' (JBool True) of Inl e \<Rightarrow> Inl e | Inr v \<Rightarrow>
      case donor_visible_items xs of Inl e \<Rightarrow> Inl e | Inr ys \<Rightarrow> Inr (if truthy v then x # ys else ys))"

definition judge_kinds :: "json list \<Rightarrow> json list \<Rightarrow> evidence_sufficiency outcome" where
  "judge_kinds kinds_ok scan =
     (case map_o kind_of_item scan of Inl e \<Rightarrow> Inl e | Inr kinds \<Rightarrow>
      Inr (if list_ex (\<lambda>k. k \<in> set kinds) kinds_ok then ES_SUFFICIENT else ES_PARTIAL))"

definition assess ::
  "json list \<Rightarrow> (string \<times> json) list \<Rightarrow> json list \<Rightarrow> bool \<Rightarrow> evidence_sufficiency outcome" where
  "assess items flags kinds require_visible =
     (if truthy (obj_get flags ''contradictory'') then Inr ES_CONTRADICTORY
      else if truthy (obj_get flags ''expired'') then Inr ES_EXPIRED
      else if truthy (obj_get flags ''redaction_required'') then Inr ES_REDACTION
      else if items = [] then Inr ES_MISSING
      else
        let kinds_ok = (if kinds = [] then DEFAULT_KINDS else kinds) in
        if require_visible then
          (case donor_visible_items items of
             Inl e \<Rightarrow> Inl e
           | Inr [] \<Rightarrow> Inr ES_PARTIAL
           | Inr ys \<Rightarrow> judge_kinds kinds_ok ys)
        else judge_kinds kinds_ok items)"

definition evidence_ref :: "nat \<times> json \<Rightarrow> string outcome" where
  "evidence_ref ix =
     (case item_get (snd ix) ''id'' (JStr (''ev_'' @ str_of_nat (fst ix))) of Inl e \<Rightarrow> Inl e | Inr j \<Rightarrow> Inr (json_str j))"

definition evidence_evaluate :: "runtime_env \<Rightarrow> nat \<Rightarrow> agent_context \<Rightarrow> agent_command \<Rightarrow> agent_proposal outcome" where
  "evidence_evaluate R n cx c =
     (let p = cmd_payload c in
      case list_field (JObj p) ''evidence'' of Inl e \<Rightarrow> Inl e | Inr items \<Rightarrow>
      case or_empty (obj_get p ''flags'') of Inl e \<Rightarrow> Inl e | Inr flags \<Rightarrow>
      case assess items flags [] True of Inl e \<Rightarrow> Inl e | Inr st \<Rightarrow>
      case map_o evidence_ref (enumerate 0 items) of Inl e \<Rightarrow> Inl e | Inr refs \<Rightarrow>
      Inr \<lparr>prop_id = draw_id R n ''prop'', prop_tenant = cx_tenant cx, prop_agent = ''evidence_validator'',
           prop_agent_version = ''0.5.0'', prop_policy_version = cx_policy_version cx,
           prop_prompt_version = cx_prompt_version cx,
           prop_input_refs = [str_get p ''expense_id'' ''expense''],
           prop_input_hash = stable_hash (sha256_hex (re_env R)) (JObj p), prop_commands = [],
           prop_evidence_refs = refs,
           prop_confidence = Some (if st = ES_SUFFICIENT then 1 else 1/2),
           prop_warnings = (if st = ES_SUFFICIENT then [] else [sufficiency_value st]),
           prop_contradictions = (if st = ES_CONTRADICTORY then [''contradictory evidence''] else []),
           prop_required = L0_OBSERVE, prop_expires = in_hours R n 48,
           prop_key = ''evidence:'' @ str_get p ''expense_id'' ''x'',
           prop_notes = ''evidence sufficiency='' @ sufficiency_value st, prop_created = now_iso (re_env R) n\<rparr>)"

definition evidence_validate :: "agent_proposal \<Rightarrow> validation_result" where
  "evidence_validate p =
     (if prop_commands p \<noteq> [] then refused V_REJECTED ''evidence validator must not propose commands''
      else if prop_contradictions p \<noteq> []
      then \<lparr>val_status = V_BLOCKED, val_reasons = prop_contradictions p, val_warnings = []\<rparr>
      else accepted)"

section \<open>Classification\<close>

definition classify_evaluate :: "runtime_env \<Rightarrow> nat \<Rightarrow> agent_context \<Rightarrow> agent_command \<Rightarrow> agent_proposal outcome" where
  "classify_evaluate R n cx c =
     (let p = cmd_payload c in
      if cmd_type c \<noteq> ''classify_expense'' then Inl (ValueError (''unsupported command: '' @ cmd_type c))
      else
        case jfield (JObj p) ''expense_id'' of Inl e \<Rightarrow> Inl e | Inr eid \<Rightarrow>
        case float_of_json (case dget p ''confidence'' of None \<Rightarrow> JStr ''0.9'' | Some j \<Rightarrow> j) of Inl e \<Rightarrow> Inl e | Inr conf \<Rightarrow>
        case texts_field p ''contradictions'' of Inl e \<Rightarrow> Inl e | Inr contradictions \<Rightarrow>
        case texts_field p ''evidence_refs'' of Inl e \<Rightarrow> Inl e | Inr refs \<Rightarrow>
        let alloc = jor (obj_get p ''allocation_id'') (obj_get (cx_facts cx) ''default_allocation_id'');
            amount = obj_get p ''amount'';
            cmd = make_command (sha256_hex (re_env R)) ''allocate_expense'' (cx_tenant cx)
              [(''expense_id'', eid), (''allocation_id'', alloc), (''amount'', amount)] L1_PROPOSE
              (''alloc:'' @ json_str eid @ '':'' @ json_str alloc @ '':'' @ json_str amount) (Some (in_hours R n 24))
        in case assert_agent_may_propose L1_PROPOSE cmd of Inl e \<Rightarrow> Inl e | Inr _ \<Rightarrow>
        Inr \<lparr>prop_id = draw_id R n ''prop'', prop_tenant = cx_tenant cx, prop_agent = ''allocation_classifier'',
             prop_agent_version = ''0.5.0'', prop_policy_version = cx_policy_version cx,
             prop_prompt_version = cx_prompt_version cx, prop_input_refs = [json_str eid],
             prop_input_hash = stable_hash (sha256_hex (re_env R)) (JObj p), prop_commands = [cmd],
             prop_evidence_refs = refs, prop_confidence = Some (if truthy alloc then conf else 0),
             prop_warnings = (if truthy alloc then [] else [''no allocation_id available'']),
             prop_contradictions = contradictions, prop_required = L1_PROPOSE, prop_expires = in_hours R n 24,
             prop_key = ''classify:'' @ json_str eid, prop_notes = ''allocation classification proposal'',
             prop_created = now_iso (re_env R) n\<rparr>)"

definition classify_validate :: "agent_context \<Rightarrow> agent_proposal \<Rightarrow> validation_result outcome" where
  "classify_validate cx p =
     (if prop_contradictions p \<noteq> []
      then Inr \<lparr>val_status = V_BLOCKED, val_reasons = [''contradictory classification signals''],
                val_warnings = prop_contradictions p\<rparr>
      else case block_below_of cx of Inl e \<Rightarrow> Inl e | Inr threshold \<Rightarrow>
        Inr (case prop_confidence p of
               None \<Rightarrow> accepted
             | Some x \<Rightarrow> if x < threshold
                 then refused V_NEEDS_INFORMATION
                   (''low confidence '' @ float_text x @ '' < '' @ float_text threshold)
                 else accepted))"

section \<open>Review\<close>

record review_packet =
  pk_id :: string
  pk_tenant :: string
  pk_expense :: json
  pk_vendor :: json
  pk_amount :: string
  pk_currency :: json
  pk_purchase_date :: json
  pk_category :: json
  pk_description :: json
  pk_allocation :: json
  pk_sufficiency :: json
  pk_summaries :: "json list"
  pk_confidence :: json
  pk_warnings :: "string list"
  pk_contradictions :: "string list"
  pk_state :: string
  pk_policy_version :: string
  pk_created :: string

definition packet_doc :: "review_packet \<Rightarrow> json" where
  "packet_doc k = JObj
     [(''packet_id'', JStr (pk_id k)), (''tenant_id'', JStr (pk_tenant k)), (''expense_id'', pk_expense k),
      (''vendor'', pk_vendor k), (''amount'', JStr (pk_amount k)), (''currency'', pk_currency k),
      (''purchase_date'', pk_purchase_date k), (''category'', pk_category k), (''description'', pk_description k),
      (''proposed_allocation_id'', pk_allocation k), (''evidence_sufficiency'', pk_sufficiency k),
      (''evidence_summaries'', JList (pk_summaries k)), (''classifier_confidence'', pk_confidence k),
      (''warnings'', JList (map JStr (pk_warnings k))), (''contradictions'', JList (map JStr (pk_contradictions k))),
      (''workflow_state'', JStr (pk_state k)), (''policy_version'', JStr (pk_policy_version k)),
      (''created_at'', JStr (pk_created k))]"

definition get_or :: "(string \<times> json) list \<Rightarrow> string \<Rightarrow> json \<Rightarrow> json" where
  "get_or d k dflt = (case dget d k of None \<Rightarrow> dflt | Some j \<Rightarrow> j)"

definition packet_of_payload :: "runtime_env \<Rightarrow> nat \<Rightarrow> agent_context \<Rightarrow> (string \<times> json) list \<Rightarrow> review_packet outcome" where
  "packet_of_payload R n cx p =
     (case jfield (JObj p) ''expense_id'' of Inl e \<Rightarrow> Inl e | Inr eid \<Rightarrow>
      case list_field (JObj p) ''evidence_summaries'' of Inl e \<Rightarrow> Inl e | Inr summaries \<Rightarrow>
      case texts_field p ''warnings'' of Inl e \<Rightarrow> Inl e | Inr warnings \<Rightarrow>
      case texts_field p ''contradictions'' of Inl e \<Rightarrow> Inl e | Inr contradictions \<Rightarrow>
      Inr \<lparr>pk_id = draw_id R n ''pkt'', pk_tenant = cx_tenant cx, pk_expense = eid,
           pk_vendor = get_or p ''vendor'' (JStr []), pk_amount = str_get p ''amount'' [],
           pk_currency = get_or p ''currency'' (JStr ''USD''), pk_purchase_date = get_or p ''purchase_date'' (JStr []),
           pk_category = get_or p ''category'' (JStr []), pk_description = get_or p ''description'' (JStr []),
           pk_allocation = obj_get p ''allocation_id'',
           pk_sufficiency = get_or p ''evidence_sufficiency'' (JStr (sufficiency_value ES_MISSING)),
           pk_summaries = summaries, pk_confidence = obj_get p ''confidence'', pk_warnings = warnings,
           pk_contradictions = contradictions, pk_state = workflow_state_value REVIEW_PENDING,
           pk_policy_version = cx_policy_version cx, pk_created = now_iso (re_env R) n\<rparr>)"

definition review_evaluate :: "runtime_env \<Rightarrow> nat \<Rightarrow> agent_context \<Rightarrow> agent_command \<Rightarrow> agent_proposal outcome" where
  "review_evaluate R n cx c =
     (let p = cmd_payload c in
      if cmd_type c \<noteq> ''assemble_review_packet'' then Inl (ValueError (''unsupported command: '' @ cmd_type c))
      else
        case packet_of_payload R n cx p of Inl e \<Rightarrow> Inl e | Inr k \<Rightarrow>
        case (case dget p ''confidence'' of
                None \<Rightarrow> Inr (Some (9/10))
              | Some JNull \<Rightarrow> Inr None
              | Some j \<Rightarrow> (case float_of_json j of Inl e \<Rightarrow> Inl e | Inr x \<Rightarrow> Inr (Some x))) of
          Inl e \<Rightarrow> Inl e | Inr conf \<Rightarrow>
        let cmd = make_command (sha256_hex (re_env R)) ''approve_expense'' (cx_tenant cx)
              [(''expense_id'', pk_expense k), (''packet_id'', JStr (pk_id k))] L3_HUMAN_APPROVAL
              (''approve:'' @ json_str (pk_expense k) @ '':'' @ pk_id k) (Some (in_hours R n 72))
        in case assert_agent_may_propose L1_PROPOSE cmd of Inl e \<Rightarrow> Inl e | Inr _ \<Rightarrow>
        Inr \<lparr>prop_id = draw_id R (Suc n) ''prop'', prop_tenant = cx_tenant cx, prop_agent = ''finance_review'',
             prop_agent_version = ''0.5.0'', prop_policy_version = cx_policy_version cx,
             prop_prompt_version = cx_prompt_version cx, prop_input_refs = [json_str (pk_expense k), pk_id k],
             prop_input_hash = stable_hash (sha256_hex (re_env R)) (packet_doc k), prop_commands = [cmd],
             prop_evidence_refs = [], prop_confidence = conf, prop_warnings = pk_warnings k,
             prop_contradictions = pk_contradictions k, prop_required = L3_HUMAN_APPROVAL,
             prop_expires = in_hours R n 72, prop_key = ''review:'' @ json_str (pk_expense k),
             prop_notes = ''finance review packet assembled; human approval required'',
             prop_created = now_iso (re_env R) n\<rparr>)"

definition review_validate :: "agent_proposal \<Rightarrow> validation_result" where
  "review_validate p =
     (if prop_contradictions p \<noteq> [] then refused V_BLOCKED ''cannot advance contradictory review packet''
      else accepted)"

section \<open>Email previews and the composer\<close>

text \<open>The em dash and the ellipsis of the template lie outside the characters of the model; two characters
  unused elsewhere stand for them.\<close>

definition em_dash :: string where "em_dash = [CHR 0x97]"
definition ellipsis :: string where "ellipsis = [CHR 0x85]"
definition newline :: string where "newline = [CHR 0x0A]"

definition email_subject :: "use_of_funds_receipt \<Rightarrow> string" where
  "email_subject r = ''How your gift to '' @ r_org_name r @ '' was used '' @ em_dash @ '' '' @ r_allocation_name r"

definition email_body :: "use_of_funds_receipt \<Rightarrow> string" where
  "email_body r =
     ''Hello,'' @ newline @ newline @
     r_org_name r @ '' approved an expenditure from '' @ r_allocation_name r @ ''.'' @ newline @ newline @
     ''What was purchased: '' @ r_description r @ newline @
     ''Vendor: '' @ r_vendor r @ newline @
     ''Category: '' @ r_category r @ newline @
     ''Purchase date: '' @ r_purchase_date r @ newline @
     ''Gross amount: '' @ money_str (r_gross r) @ '' '' @ r_currency r @ newline @
     ''Your attributed share: '' @ money_str (r_attributed r) @ '' '' @ r_currency r @ newline @
     ''Attribution method: '' @ r_method r @ newline @
     ''Verification: '' @ r_verification r @ newline @
     ''Remaining designated balance: '' @ money_str (r_remaining r) @ '' '' @ r_currency r @ newline @
     (if present (r_evidence_summary r) then newline @ ''Evidence: '' @ the (r_evidence_summary r) @ newline else []) @
     newline @ ''This message is a projection of use-of-funds receipt '' @
     r_id r @ '' (hash '' @ take 12 (r_hash r) @ ellipsis @ '').'' @ newline @
     ''Corrections, if any, will appear as separate receipts.'' @ newline"

definition text_doc :: "(string, string) dict \<Rightarrow> json" where
  "text_doc d = JObj (map (map_prod id JStr) d)"

definition compose_email_from_uof :: "runtime_env \<Rightarrow> nat \<Rightarrow> string \<Rightarrow> use_of_funds_receipt \<Rightarrow> email_preview" where
  "compose_email_from_uof R n template r =
     \<lparr>pv_id = draw_id R n ''emprev'', pv_tenant = r_org r, pv_receipt = r_id r, pv_channel = ''EMAIL'',
      pv_subject = email_subject r, pv_body = email_body r, pv_template = template, pv_receipt_hash = r_hash r,
      pv_content_hash = stable_hash (sha256_hex (re_env R)) (JObj
        [(''subject'', JStr (email_subject r)), (''body_text'', JStr (email_body r)),
         (''facts'', text_doc (receipt_facts r)), (''template_version'', JStr template),
         (''receipt_hash'', JStr (r_hash r))]),
      pv_facts = receipt_facts r, pv_created = now_iso (re_env R) n\<rparr>"

definition preview_doc :: "email_preview \<Rightarrow> (string \<times> json) list" where
  "preview_doc p =
     [(''preview_id'', JStr (pv_id p)), (''tenant_id'', JStr (pv_tenant p)), (''receipt_id'', JStr (pv_receipt p)),
      (''channel'', JStr (pv_channel p)), (''subject'', JStr (pv_subject p)), (''body_text'', JStr (pv_body p)),
      (''template_version'', JStr (pv_template p)), (''receipt_hash'', JStr (pv_receipt_hash p)),
      (''content_hash'', JStr (pv_content_hash p)), (''facts'', text_doc (pv_facts p)),
      (''created_at'', JStr (pv_created p))]"

text \<open>The content hash of a preview is text; it is sliced for the key.\<close>

definition compose_evaluate :: "runtime_env \<Rightarrow> nat \<Rightarrow> agent_context \<Rightarrow> agent_command \<Rightarrow> agent_proposal outcome" where
  "compose_evaluate R n cx c =
     (if cmd_type c \<noteq> ''compose_send_proposal'' then Inl (ValueError (''unsupported command: '' @ cmd_type c))
      else
        case or_empty (obj_get (cmd_payload c) ''preview'') of Inl e \<Rightarrow> Inl e | Inr pv \<Rightarrow>
        case str_default (JObj pv) ''content_hash'' [] of Inl e \<Rightarrow> Inl e | Inr hash \<Rightarrow>
        let rid = json_str (obj_get pv ''receipt_id'');
            cmd = make_command (sha256_hex (re_env R)) ''send_notification'' (cx_tenant cx)
              [(''preview_id'', obj_get pv ''preview_id''), (''receipt_id'', obj_get pv ''receipt_id''),
               (''content_hash'', obj_get pv ''content_hash''), (''receipt_hash'', obj_get pv ''receipt_hash''),
               (''channel'', get_or pv ''channel'' (JStr ''EMAIL'')),
               (''template_version'', get_or pv ''template_version'' (JStr ''uof_email_v1''))]
              L3_HUMAN_APPROVAL (''send:'' @ rid @ '':'' @ take 16 hash) (Some (in_hours R n 48))
        in case assert_agent_may_propose L1_PROPOSE cmd of Inl e \<Rightarrow> Inl e | Inr _ \<Rightarrow>
        Inr \<lparr>prop_id = draw_id R n ''prop'', prop_tenant = cx_tenant cx, prop_agent = ''notification_composer'',
             prop_agent_version = ''0.5.0'', prop_policy_version = cx_policy_version cx,
             prop_prompt_version = cx_prompt_version cx, prop_input_refs = [str_get pv ''receipt_id'' ''receipt''],
             prop_input_hash = stable_hash (sha256_hex (re_env R)) (JObj pv), prop_commands = [cmd],
             prop_evidence_refs = [str_get pv ''receipt_hash'' []], prop_confidence = Some 1, prop_warnings = [],
             prop_contradictions = [], prop_required = L3_HUMAN_APPROVAL, prop_expires = in_hours R n 48,
             prop_key = ''compose_send:'' @ rid,
             prop_notes = ''email preview ready; independent send approval required'',
             prop_created = now_iso (re_env R) n\<rparr>)"

definition compose_validate :: "agent_context \<Rightarrow> agent_proposal \<Rightarrow> validation_result" where
  "compose_validate cx p =
     (if prop_tenant p \<noteq> cx_tenant cx then refused V_REJECTED ''tenant_id mismatch''
      else case find (\<lambda>c. cmd_type c \<noteq> ''send_notification'' \<or> cmd_required c \<noteq> L3_HUMAN_APPROVAL) (prop_commands p) of
        None \<Rightarrow> accepted
      | Some c \<Rightarrow>
          if cmd_type c \<noteq> ''send_notification'' then refused V_REJECTED (''unexpected command '' @ cmd_type c)
          else refused V_REJECTED ''send_notification must be L3'')"

end
