(* ===== verification/Digest.thy ===== *)
theory Digest
  imports Executor
begin

text \<open>
  Public digests of events, \<^verbatim>\<open>digest.py\<close>, and their assembly behind the privacy sentinel in
  \<^verbatim>\<open>workflows/scheduled_digest.py\<close>: aggregate rows only, no personal field at any depth. The events document is an
  argument where the code may read it from a file, and so is the text of today's date.
\<close>

section \<open>Vocabulary\<close>

definition FORBIDDEN_EVENT_KEYS :: "string list" where
  "FORBIDDEN_EVENT_KEYS = [''attendee_names'', ''attendeeNames'', ''emails'', ''email'', ''phone'', ''phones'',
     ''registrants'', ''roster'', ''members'', ''donors'']"

definition ALLOWED_CLASSES :: "string list" where
  "ALLOWED_CLASSES = [''community_event'', ''workshop'', ''class_session'', ''open_lab'', ''fundraiser'',
     ''stewardship'', ''other'']"

definition DOMAIN_EVENT_TYPE_TO_CLASS :: "(string, string) dict" where
  "DOMAIN_EVENT_TYPE_TO_CLASS =
     [(''CLASS_HELD'', ''class_session''), (''WORKSHOP'', ''workshop''), (''OPEN_LAB'', ''open_lab''),
      (''COMMUNITY_EVENT'', ''community_event''), (''FUNDRAISER'', ''fundraiser''), (''STEWARDSHIP'', ''stewardship'')]"

text \<open>Every forbidden key with its path, in the order of the walk; the first one raises.\<close>

primrec forbidden_paths :: "json \<Rightarrow> string \<Rightarrow> string list" where
  "forbidden_paths JNull = (\<lambda>path. [])"
| "forbidden_paths (JBool b) = (\<lambda>path. [])"
| "forbidden_paths (JInt i) = (\<lambda>path. [])"
| "forbidden_paths (JStr s) = (\<lambda>path. [])"
| "forbidden_paths (JList js) = (\<lambda>path.
     concat (map (\<lambda>(n, w). w (path @ ''['' @ str_of_nat n @ '']'')) (enumerate 0 (map forbidden_paths js))))"
| "forbidden_paths (JObj kvs) = (\<lambda>path.
     concat (map (\<lambda>(k, w). let child = path @ ''.'' @ k in
         (if k \<in> set FORBIDDEN_EVENT_KEYS then [child] else []) @ w child)
       (map (map_prod id forbidden_paths) kvs)))"

definition assert_no_forbidden :: "json \<Rightarrow> unit outcome" where
  "assert_no_forbidden j =
     (case forbidden_paths j ''$'' of
        [] \<Rightarrow> Inr () | p # _ \<Rightarrow> Inl (DigestError (''forbidden personal field at '' @ p)))"

text \<open>\<^verbatim>\<open>str.strip()\<close> and \<^verbatim>\<open>str.title()\<close>; letters are ASCII.\<close>

definition is_space :: "char \<Rightarrow> bool" where
  "is_space c \<longleftrightarrow> (let n = (of_char c :: nat) in 9 \<le> n \<and> n \<le> 13 \<or> 28 \<le> n \<and> n \<le> 32 \<or> n = 133 \<or> n = 160)"

definition strip :: "string \<Rightarrow> string" where
  "strip s = rev (dropWhile is_space (rev (dropWhile is_space s)))"

definition is_letter :: "char \<Rightarrow> bool" where
  "is_letter c \<longleftrightarrow> (let n = (of_char c :: nat) in 65 \<le> n \<and> n \<le> 90 \<or> 97 \<le> n \<and> n \<le> 122)"

definition upper_char :: "char \<Rightarrow> char" where
  "upper_char c = (let n = of_char c :: nat in if 97 \<le> n \<and> n \<le> 122 then char_of (n - 32) else c)"

fun title_case :: "bool \<Rightarrow> string \<Rightarrow> string" where
  "title_case inside [] = []"
| "title_case inside (c # cs) =
     (if is_letter c then (if inside then lower_char c else upper_char c) # title_case True cs
      else c # title_case False cs)"

section \<open>Rows\<close>

record digest_row =
  dr_id :: json
  dr_title :: string
  dr_class :: string
  dr_occurred :: string
  dr_count :: json
  dr_summary :: string
  dr_allocation :: json
  dr_location :: json

text \<open>\<^verbatim>\<open>isinstance(count, int)\<close> holds of a boolean too, which counts as 0 or 1.\<close>

fun count_value :: "json \<Rightarrow> int option" where
  "count_value (JInt i) = Some i"
| "count_value (JBool b) = Some (if b then 1 else 0)"
| "count_value _ = None"

definition row_count :: "digest_row \<Rightarrow> int" where
  "row_count r = (case count_value (dr_count r) of None \<Rightarrow> 0 | Some n \<Rightarrow> n)"

definition stable_digest_id :: "(string \<Rightarrow> string) \<Rightarrow> json \<Rightarrow> string" where
  "stable_digest_id sha ev =
     (let get = (\<lambda>k. (k, case jget ev k of None \<Rightarrow> JNull | Some j \<Rightarrow> j)) in
      ''evt_'' @ take 12 (stable_hash sha (JObj (map get
        [''title'', ''occurredOn'', ''class'', ''attendeeCountPublic'', ''impactSummary'']))))"

definition stripped_field :: "json \<Rightarrow> string \<Rightarrow> string outcome" where
  "stripped_field ev k =
     (case jget ev k of
        None \<Rightarrow> Inr []
      | Some v \<Rightarrow> if \<not> truthy v then Inr []
          else (case v of JStr s \<Rightarrow> Inr (strip s) | _ \<Rightarrow> Inl (AttributeError ''object has no attribute strip'')))"

definition or_field :: "json \<Rightarrow> string \<Rightarrow> json \<Rightarrow> json" where
  "or_field ev k dflt = (case jget ev k of None \<Rightarrow> dflt | Some v \<Rightarrow> if truthy v then v else dflt)"

definition event_class :: "json \<Rightarrow> string outcome" where
  "event_class ev =
     (case or_field ev ''class'' (JStr ''other'') of
        JStr c \<Rightarrow> if c \<in> set ALLOWED_CLASSES then Inr c else Inl (DigestError (''unsupported event class: '' @ c))
      | JList _ \<Rightarrow> Inl (TypeError ''unhashable type'')
      | JObj _ \<Rightarrow> Inl (TypeError ''unhashable type'')
      | j \<Rightarrow> Inl (DigestError (''unsupported event class: '' @ py_repr j)))"

definition event_count :: "json \<Rightarrow> json outcome" where
  "event_count ev =
     (case jget ev ''attendeeCountPublic'' of
        None \<Rightarrow> Inl (DigestError ''attendeeCountPublic is required'')
      | Some JNull \<Rightarrow> Inl (DigestError ''attendeeCountPublic is required'')
      | Some j \<Rightarrow>
          (case count_value j of
             Some n \<Rightarrow> if n < 0 then Inl (DigestError ''attendeeCountPublic must be a non-negative integer'') else Inr j
           | None \<Rightarrow> Inl (DigestError ''attendeeCountPublic must be a non-negative integer'')))"

definition event_to_public :: "(string \<Rightarrow> string) \<Rightarrow> json \<Rightarrow> digest_row outcome" where
  "event_to_public sha ev =
     (case assert_no_forbidden ev of Inl e \<Rightarrow> Inl e | Inr _ \<Rightarrow>
      case get_attr ev of Inl e \<Rightarrow> Inl e | Inr _ \<Rightarrow>
      case event_class ev of Inl e \<Rightarrow> Inl e | Inr cls \<Rightarrow>
      case event_count ev of Inl e \<Rightarrow> Inl e | Inr heads \<Rightarrow>
      case stripped_field ev ''title'' of Inl e \<Rightarrow> Inl e | Inr title \<Rightarrow>
      case stripped_field ev ''impactSummary'' of Inl e \<Rightarrow> Inl e | Inr summary \<Rightarrow>
      let occurred = (case jget ev ''occurredOn'' of None \<Rightarrow> JNull | Some j \<Rightarrow> j) in
      if title = [] \<or> summary = [] \<or> \<not> truthy occurred
      then Inl (DigestError ''title, occurredOn, and impactSummary are required'')
      else case as_str occurred of Inl e \<Rightarrow> Inl e | Inr day \<Rightarrow>
        Inr \<lparr>dr_id = or_field ev ''id'' (JStr (stable_digest_id sha ev)), dr_title = title, dr_class = cls,
             dr_occurred = day, dr_count = heads, dr_summary = summary,
             dr_allocation = (case jget ev ''linkedAllocationName'' of None \<Rightarrow> JNull | Some j \<Rightarrow> j),
             dr_location = or_field ev ''locationLabel'' (JStr ''public_aggregate'')\<rparr>)"

fun public_rows :: "(string \<Rightarrow> string) \<Rightarrow> json list \<Rightarrow> digest_row list outcome" where
  "public_rows sha [] = Inr []"
| "public_rows sha (ev # evs) =
     (case event_to_public sha ev of Inl e \<Rightarrow> Inl e | Inr r \<Rightarrow>
      case public_rows sha evs of Inl e \<Rightarrow> Inl e | Inr rs \<Rightarrow> Inr (r # rs))"

section \<open>Documents\<close>

definition row_doc :: "digest_row \<Rightarrow> json" where
  "row_doc r = JObj
     [(''eventId'', dr_id r), (''title'', JStr (dr_title r)), (''class'', JStr (dr_class r)),
      (''occurredOn'', JStr (dr_occurred r)), (''attendeeCountPublic'', dr_count r),
      (''impactSummary'', JStr (dr_summary r)), (''linkedAllocationName'', dr_allocation r),
      (''locationLabel'', dr_location r)]"

text \<open>\<^verbatim>\<open>sort(key=..., reverse=True)\<close> keeps the order of equal keys.\<close>

definition newest_first :: "digest_row list \<Rightarrow> digest_row list" where
  "newest_first rs = rev (sort_key dr_occurred (rev rs))"

definition count_class :: "digest_row \<Rightarrow> (string, int) dict \<Rightarrow> (string, int) dict" where
  "count_class r d = dset (dr_class r) ((case dget d (dr_class r) of None \<Rightarrow> 0 | Some n \<Rightarrow> n) + 1) d"

definition class_counts :: "digest_row list \<Rightarrow> (string, int) dict" where
  "class_counts rs = fold count_class rs []"

definition public_privacy :: "(string \<times> json) list" where
  "public_privacy = [(''classification'', JStr ''public_aggregate_only''), (''piiAllowed'', JBool False),
     (''attendeeNamesAllowed'', JBool False), (''contactDataAllowed'', JBool False)]"

definition digest_summary :: "digest_row list \<Rightarrow> json" where
  "digest_summary rs = JObj
     [(''eventCount'', JInt (int (length rs))), (''totalAttendancePublic'', JInt (sum_list (map row_count rs))),
      (''classCounts'', JObj (map (map_prod id JInt) (class_counts rs)))]"

definition digest_doc :: "string \<Rightarrow> json \<Rightarrow> digest_row list \<Rightarrow> (string \<times> json) list" where
  "digest_doc updated source rs =
     [(''version'', JStr ''1.0.0''), (''updatedAt'', JStr updated), (''source'', source),
      (''authority'', JStr ''public_aggregate_only''), (''privacy'', JObj public_privacy),
      (''summary'', digest_summary rs), (''events'', JList (map row_doc rs))]"

definition digest_source :: "(string \<times> json) list \<Rightarrow> string option \<Rightarrow> json outcome" where
  "digest_source doc source =
     (if present source then Inr (JStr (the source))
      else case (case dget doc ''meta'' of None \<Rightarrow> JObj [] | Some j \<Rightarrow> j) of
        JObj meta \<Rightarrow> Inr (case dget meta ''source'' of None \<Rightarrow> JStr ''hd_ir_003_events_pilot'' | Some j \<Rightarrow> j)
      | _ \<Rightarrow> Inl (AttributeError ''object has no attribute get''))"

definition build_public_digests ::
  "(string \<Rightarrow> string) \<Rightarrow> string \<Rightarrow> (string \<times> json) list \<Rightarrow> string option \<Rightarrow> string option \<Rightarrow>
     (string \<times> json) list outcome" where
  "build_public_digests sha today doc source updated =
     (case (case dget doc ''events'' of
              None \<Rightarrow> Inr [] | Some (JList evs) \<Rightarrow> Inr evs | Some _ \<Rightarrow> Inl (TypeError ''events is not a list'')) of
        Inl e \<Rightarrow> Inl e | Inr evs \<Rightarrow>
      case public_rows sha evs of Inl e \<Rightarrow> Inl e | Inr rows \<Rightarrow>
      case digest_source doc source of Inl e \<Rightarrow> Inl e | Inr src \<Rightarrow>
      Inr (digest_doc (if present updated then the updated else today) src (newest_first rows)))"

section \<open>Digests of verified impact events\<close>

definition impact_event_to_public_row ::
  "(string \<Rightarrow> string) \<Rightarrow> string \<Rightarrow> impact_event \<Rightarrow> string \<Rightarrow> string option \<Rightarrow> digest_row outcome" where
  "impact_event_to_public_row sha dash ev program fund =
     (if ie_state ev \<noteq> IE_VERIFIED then Inl (DigestError ''only VERIFIED impact events may enter public digests'')
      else
        let cls = (case dget DOMAIN_EVENT_TYPE_TO_CLASS (ie_event_type ev) of None \<Rightarrow> ''other'' | Some c \<Rightarrow> c);
            title = program @ '' '' @ dash @ '' '' @
              title_case False (map (\<lambda>c. if c = CHR ''_'' then CHR '' '' else c) (ie_event_type ev));
            given = strip (ie_description ev);
            summary = (if given \<noteq> [] then given else ''Verified '' @ ie_event_type ev @ '' with '' @
              str_of_int (ie_participants ev) @ '' public participants.'')
        in event_to_public sha (JObj
             [(''id'', JStr (ie_id ev)), (''title'', JStr title), (''class'', JStr cls),
              (''occurredOn'', JStr (take 10 (ie_event_date ev))), (''attendeeCountPublic'', JInt (ie_participants ev)),
              (''impactSummary'', JStr summary), (''linkedAllocationName'', opt_str fund),
              (''locationLabel'', JStr ''domain_verified'')]))"

text \<open>The name of the fund of the first asset that is known and whose fund is.\<close>

fun first_fund :: "'x tenant_workspace \<Rightarrow> string list \<Rightarrow> string option" where
  "first_fund W [] = None"
| "first_fund W (a # as) =
     (case dget (tw_assets W) a of
        None \<Rightarrow> first_fund W as
      | Some asset \<Rightarrow>
          (case dget (allocations (tw_ledger W)) (asset_allocation asset) of
             None \<Rightarrow> first_fund W as | Some f \<Rightarrow> Some (alloc_name f)))"

fun workspace_rows ::
  "(string \<Rightarrow> string) \<Rightarrow> string \<Rightarrow> 'x tenant_workspace \<Rightarrow> impact_event list \<Rightarrow> digest_row list outcome" where
  "workspace_rows sha dash W [] = Inr []"
| "workspace_rows sha dash W (ev # evs) =
     (if ie_state ev \<noteq> IE_VERIFIED then workspace_rows sha dash W evs
      else
        let program = (case dget (tw_programs W) (ie_program ev) of None \<Rightarrow> ie_program ev | Some p \<Rightarrow> prog_name p) in
        case impact_event_to_public_row sha dash ev program (first_fund W (ie_assets ev)) of Inl e \<Rightarrow> Inl e | Inr r \<Rightarrow>
        case workspace_rows sha dash W evs of Inl e \<Rightarrow> Inl e | Inr rs \<Rightarrow> Inr (r # rs))"

definition by_event_id :: "digest_row list \<Rightarrow> (json, digest_row) dict" where
  "by_event_id rs = fold (\<lambda>r d. dset (dr_id r) r d) rs []"

definition digests_from_workspace ::
  "(string \<Rightarrow> string) \<Rightarrow> string \<Rightarrow> string \<Rightarrow> 'x tenant_workspace \<Rightarrow> string \<Rightarrow> string option \<Rightarrow> json list \<Rightarrow>
     (string \<times> json) list outcome" where
  "digests_from_workspace sha dash today W source updated extra =
     (case workspace_rows sha dash W (dvalues (tw_impact_events W)) of Inl e \<Rightarrow> Inl e | Inr rows \<Rightarrow>
      case public_rows sha extra of Inl e \<Rightarrow> Inl e | Inr added \<Rightarrow>
      Inr (digest_doc (if present updated then the updated else today) (JStr source)
        (newest_first (dvalues (by_event_id (rows @ added))))))"

section \<open>Assembly behind the sentinel\<close>

definition stamped_privacy :: "(string \<times> json) list \<Rightarrow> (string \<times> json) list" where
  "stamped_privacy p =
     dset ''contactDataAllowed'' (JBool False) (dset ''attendeeNamesAllowed'' (JBool False)
       (dset ''donorNamesAllowed'' (JBool False) (dset ''piiAllowed'' (JBool False)
         (setdefault ''classification'' (JStr ''public_aggregate_only'') p))))"

definition assemble_digests ::
  "(string \<Rightarrow> string) \<Rightarrow> string \<Rightarrow> (string \<times> json) list \<Rightarrow> string option \<Rightarrow> (string \<times> json) list outcome" where
  "assemble_digests sha today doc source =
     (case build_public_digests sha today doc source None of Inl e \<Rightarrow> Inl e | Inr d \<Rightarrow>
      let privacy = (case dget d ''privacy'' of Some (JObj p) \<Rightarrow> p | _ \<Rightarrow> []);
          d1 = dset ''privacy'' (JObj (stamped_privacy privacy)) d
      in case assert_public_safe (JObj d1) of Inl e \<Rightarrow> Inl e | Inr _ \<Rightarrow> Inr d1)"

end
