(* ===== verification/Workflow_Steps.thy ===== *)
theory Workflow_Steps
  imports Expense_Agents Digest
begin

text \<open>
  The step handlers of \<^verbatim>\<open>workflows/expense_to_receipt.py\<close>, \<^verbatim>\<open>workflows/corrections.py\<close> and
  \<^verbatim>\<open>workflows/scheduled_digest.py\<close>: each asks an agent, checks the transition against the table and says where
  the workflow goes, which commands to execute and what to wait for. They change no state.
\<close>

section \<open>Step results\<close>

record executable_command =
  xc_command :: agent_command
  xc_agent :: string
  xc_proposal :: agent_proposal

record step_result =
  st_next :: workflow_state
  st_run :: run_status
  st_events :: "event_write list"
  st_commands :: "executable_command list"
  st_wait :: "(string \<times> json) list"
  st_deadline :: "string option"
  st_patch :: "(string \<times> json) list"
  st_reason :: "string option"

record step_outcome =
  so_step :: step_result
  so_proposal :: agent_proposal
  so_validation :: validation_result
  so_packet :: "review_packet option"
  so_sufficiency :: "evidence_sufficiency option"

definition step_to :: "workflow_state \<Rightarrow> step_result" where
  "step_to s = \<lparr>st_next = s, st_run = default_run_status s, st_events = [], st_commands = [], st_wait = [],
     st_deadline = None, st_patch = [], st_reason = None\<rparr>"

definition step_of :: "step_result \<Rightarrow> agent_proposal \<Rightarrow> validation_result \<Rightarrow> step_outcome" where
  "step_of s p v = \<lparr>so_step = s, so_proposal = p, so_validation = v, so_packet = None, so_sufficiency = None\<rparr>"

definition changed_to :: "workflow_state \<Rightarrow> (string \<times> json) list \<Rightarrow> event_write" where
  "changed_to s extras = event EV_STATE_CHANGED ((''to'', JStr (workflow_state_value s)) # extras)"

definition validation_ok :: "validation_result \<Rightarrow> bool" where
  "validation_ok v \<longleftrightarrow> val_status v = V_ACCEPTED"

definition joined_reasons :: "validation_result \<Rightarrow> string" where
  "joined_reasons v = join_with '';'' (val_reasons v)"

text \<open>\<^verbatim>\<open>freeze_command\<close>\<close>

definition freeze_command :: "agent_command \<Rightarrow> string \<Rightarrow> string \<Rightarrow> frozen_command" where
  "freeze_command c pid agent =
     \<lparr>fz_type = cmd_type c, fz_tenant = cmd_tenant c, fz_payload = cmd_payload c, fz_key = cmd_key c,
      fz_expires = cmd_expires c, fz_required = authority_value (cmd_required c), fz_proposal = pid, fz_agent = agent\<rparr>"

text \<open>\<^verbatim>\<open>assert_transition(a, b); assert_transition(b, c)\<close> along a path.\<close>

fun assert_path :: "transition_table option \<Rightarrow> workflow_state list \<Rightarrow> unit outcome" where
  "assert_path table (s # t # rest) =
     (case assert_transition table s t of Inl e \<Rightarrow> Inl e | Inr _ \<Rightarrow> assert_path table (t # rest))"
| "assert_path table _ = Inr ()"

section \<open>Intake\<close>

definition step_intake :: "runtime_env \<Rightarrow> nat \<Rightarrow> agent_context \<Rightarrow> json list \<Rightarrow> workflow_state \<Rightarrow> step_outcome outcome" where
  "step_intake R n cx rows current =
     (let batch = make_command (sha256_hex (re_env R)) ''ingest_expense_batch'' (cx_tenant cx)
            [(''expenses'', JList rows), (''input_refs'', JList [JStr ''fixture_batch''])] L2_REVERSIBLE [] None
      in case intake_evaluate R n cx batch of Inl e \<Rightarrow> Inl e | Inr p \<Rightarrow>
         let v = intake_validate R (Suc n) cx p in
         if \<not> validation_ok v then
           (case assert_transition None current BLOCKED of Inl e \<Rightarrow> Inl e | Inr _ \<Rightarrow>
            Inr (step_of ((step_to BLOCKED)\<lparr>st_reason := Some (joined_reasons v),
              st_events := [changed_to BLOCKED [(''reason'', JStr ''intake_validation_failed'')]]\<rparr>) p v))
         else
           (case assert_transition None current NORMALIZED of Inl e \<Rightarrow> Inl e | Inr _ \<Rightarrow>
            Inr (step_of ((step_to NORMALIZED)\<lparr>
              st_commands := map (\<lambda>c. \<lparr>xc_command = c, xc_agent = ''expense_intake'', xc_proposal = p\<rparr>) (prop_commands p),
              st_events := [event EV_PROPOSAL [(''agent'', JStr ''expense_intake''), (''proposal_id'', JStr (prop_id p))],
                changed_to NORMALIZED []],
              st_patch := [(''import_command_count'', JInt (int (length (prop_commands p))))]\<rparr>) p v)))"

section \<open>Evidence\<close>

definition sufficiencies :: "evidence_sufficiency list" where
  "sufficiencies = [ES_MISSING, ES_PARTIAL, ES_SUFFICIENT, ES_CONTRADICTORY, ES_EXPIRED, ES_REDACTION]"

text \<open>The assessment of the agent replaces that of the policy when it warns.\<close>

definition reassessed :: "agent_proposal \<Rightarrow> evidence_sufficiency \<Rightarrow> evidence_sufficiency" where
  "reassessed p s =
     (case prop_warnings p of
        [] \<Rightarrow> s
      | w # _ \<Rightarrow> (case find (\<lambda>x. sufficiency_value x = w) sufficiencies of None \<Rightarrow> s | Some x \<Rightarrow> x))"

definition evidence_next :: "validation_result \<Rightarrow> evidence_sufficiency \<Rightarrow> workflow_state" where
  "evidence_next v s =
     (if \<not> validation_ok v \<or> s \<in> {ES_CONTRADICTORY, ES_EXPIRED} then BLOCKED
      else if s \<in> {ES_MISSING, ES_PARTIAL, ES_REDACTION} then NEEDS_INFORMATION
      else WF_CLASSIFICATION_PENDING)"

definition step_evidence ::
  "runtime_env \<Rightarrow> nat \<Rightarrow> agent_context \<Rightarrow> string \<Rightarrow> json list \<Rightarrow> (string \<times> json) list \<Rightarrow> json list \<Rightarrow> bool \<Rightarrow>
     workflow_state \<Rightarrow> step_outcome outcome" where
  "step_evidence R n cx eid items flags kinds require_visible current =
     (case assess items flags kinds require_visible of Inl e \<Rightarrow> Inl e | Inr s0 \<Rightarrow>
      let flags1 = (if s0 = ES_CONTRADICTORY then dset ''contradictory'' (JBool True) flags else flags);
          cmd = make_command (sha256_hex (re_env R)) ''assess_evidence'' (cx_tenant cx)
            [(''expense_id'', JStr eid), (''evidence'', JList items), (''flags'', JObj flags1)] L0_OBSERVE [] None
      in case evidence_evaluate R n cx cmd of Inl e \<Rightarrow> Inl e | Inr p \<Rightarrow>
         let v = evidence_validate p; s = reassessed p s0; nxt = evidence_next v s in
         case assert_path None (if current = NORMALIZED then [current, EVIDENCE_PENDING, nxt] else [current, nxt]) of
           Inl e \<Rightarrow> Inl e
         | Inr _ \<Rightarrow>
             Inr ((step_of ((step_to nxt)\<lparr>
               st_events := [changed_to nxt [(''evidence_sufficiency'', JStr (sufficiency_value s))]],
               st_patch := [(''expense_id'', JStr eid), (''evidence_sufficiency'', JStr (sufficiency_value s))],
               st_reason := (if nxt = WF_CLASSIFICATION_PENDING then None else Some (sufficiency_value s))\<rparr>) p v)
               \<lparr>so_sufficiency := Some s\<rparr>))"

section \<open>Classification\<close>

definition step_classify ::
  "runtime_env \<Rightarrow> nat \<Rightarrow> agent_context \<Rightarrow> string \<Rightarrow> json \<Rightarrow> json \<Rightarrow> string list \<Rightarrow> workflow_state \<Rightarrow>
     step_outcome outcome" where
  "step_classify R n cx eid alloc amount refs current =
     (let sha = sha256_hex (re_env R);
          cmd = make_command sha ''classify_expense'' (cx_tenant cx)
            [(''expense_id'', JStr eid), (''allocation_id'', alloc), (''amount'', amount),
             (''confidence'', JStr ''0.92''), (''evidence_refs'', JList (map JStr refs))] L1_PROPOSE [] None
      in case classify_evaluate R n cx cmd of Inl e \<Rightarrow> Inl e | Inr p \<Rightarrow>
         case classify_validate cx p of Inl e \<Rightarrow> Inl e | Inr v \<Rightarrow>
         if \<not> validation_ok v then
           (case assert_transition None current NEEDS_INFORMATION of Inl e \<Rightarrow> Inl e | Inr _ \<Rightarrow>
            Inr (step_of ((step_to NEEDS_INFORMATION)\<lparr>st_reason := Some (joined_reasons v),
              st_events := [changed_to NEEDS_INFORMATION []]\<rparr>) p v))
         else
           (case assert_transition None current REVIEW_PENDING of Inl e \<Rightarrow> Inl e | Inr _ \<Rightarrow>
            Inr (step_of ((step_to REVIEW_PENDING)\<lparr>
              st_commands := map (\<lambda>c. \<lparr>xc_command = make_command sha (cmd_type c) (cmd_tenant c) (cmd_payload c)
                  L2_REVERSIBLE (cmd_key c) (cmd_expires c), xc_agent = ''allocation_classifier'', xc_proposal = p\<rparr>)
                (prop_commands p),
              st_events := [event EV_PROPOSAL [(''agent'', JStr ''allocation_classifier'')], changed_to REVIEW_PENDING []],
              st_patch := [(''allocation_id'', alloc), (''expense_id'', JStr eid)]\<rparr>) p v)))"

section \<open>Review\<close>

text \<open>What the review packet shows of the expense.\<close>

record review_facts =
  rv_vendor :: json
  rv_amount :: json
  rv_currency :: json
  rv_purchase_date :: json
  rv_category :: json
  rv_description :: json
  rv_allocation :: json
  rv_sufficiency :: string
  rv_summaries :: "json list"
  rv_confidence :: "rat option"
  rv_warnings :: "string list"
  rv_contradictions :: "string list"

definition review_payload :: "string \<Rightarrow> review_facts \<Rightarrow> (string \<times> json) list" where
  "review_payload eid f =
     [(''expense_id'', JStr eid), (''vendor'', rv_vendor f), (''amount'', rv_amount f), (''currency'', rv_currency f),
      (''purchase_date'', rv_purchase_date f), (''category'', rv_category f), (''description'', rv_description f),
      (''allocation_id'', rv_allocation f), (''evidence_sufficiency'', JStr (rv_sufficiency f)),
      (''evidence_summaries'', JList (rv_summaries f)), (''confidence'', float_json (rv_confidence f)),
      (''warnings'', JList (map JStr (rv_warnings f))), (''contradictions'', JList (map JStr (rv_contradictions f)))]"

text \<open>The command proposed carries the identifier of the agent's own packet, which the packet shown takes over.\<close>

definition review_packet_of ::
  "runtime_env \<Rightarrow> nat \<Rightarrow> agent_context \<Rightarrow> string \<Rightarrow> review_facts \<Rightarrow> agent_proposal \<Rightarrow> review_packet" where
  "review_packet_of R n cx eid f p =
     \<lparr>pk_id = (case prop_commands p of
               c # _ \<Rightarrow> str_get (cmd_payload c) ''packet_id'' (draw_id R n ''pkt'')
             | [] \<Rightarrow> draw_id R n ''pkt''),
      pk_tenant = cx_tenant cx, pk_expense = JStr eid, pk_vendor = rv_vendor f,
      pk_amount = (if truthy (rv_amount f) then json_str (rv_amount f) else []), pk_currency = rv_currency f,
      pk_purchase_date = rv_purchase_date f, pk_category = rv_category f, pk_description = rv_description f,
      pk_allocation = rv_allocation f, pk_sufficiency = JStr (rv_sufficiency f), pk_summaries = rv_summaries f,
      pk_confidence = float_json (rv_confidence f), pk_warnings = prop_warnings p,
      pk_contradictions = prop_contradictions p, pk_state = workflow_state_value REVIEW_PENDING,
      pk_policy_version = cx_policy_version cx, pk_created = now_iso (re_env R) n\<rparr>"

definition step_review ::
  "runtime_env \<Rightarrow> nat \<Rightarrow> agent_context \<Rightarrow> string \<Rightarrow> review_facts \<Rightarrow> workflow_state \<Rightarrow> step_outcome outcome" where
  "step_review R n cx eid f current =
     (let cmd = make_command (sha256_hex (re_env R)) ''assemble_review_packet'' (cx_tenant cx) (review_payload eid f)
            L1_PROPOSE [] None
      in case review_evaluate R n cx cmd of Inl e \<Rightarrow> Inl e | Inr p \<Rightarrow>
         let v = review_validate p; k = review_packet_of R (Suc (Suc n)) cx eid f p in
         if \<not> validation_ok v then
           (case assert_transition None current BLOCKED of Inl e \<Rightarrow> Inl e | Inr _ \<Rightarrow>
            Inr ((step_of ((step_to (if val_status v = V_BLOCKED then BLOCKED else REVIEW_PENDING))\<lparr>
              st_run := default_run_status BLOCKED, st_reason := Some (joined_reasons v)\<rparr>) p v)\<lparr>so_packet := Some k\<rparr>))
         else
           case prop_commands p of [] \<Rightarrow> Inl (KeyError ''list index out of range'') | l3 # _ \<Rightarrow>
           let frozen = JObj (frozen_to_dict (freeze_command l3 (prop_id p) ''finance_review'')) in
           (case assert_transition None current REVIEW_PENDING of Inl e \<Rightarrow> Inl e | Inr _ \<Rightarrow>
            Inr ((step_of ((step_to REVIEW_PENDING)\<lparr>st_run := WAITING_SIGNAL,
              st_wait := [(''frozen_command'', frozen), (''proposal_id'', JStr (prop_id p)),
                (''command_idempotency_key'', JStr (cmd_key l3))],
              st_deadline := Some (in_hours R (Suc (Suc n)) 168),
              st_events := [event EV_PROPOSAL [(''agent'', JStr ''finance_review''), (''proposal_id'', JStr (prop_id p))],
                changed_to REVIEW_PENDING [(''wait'', JStr ''APPROVAL'')]],
              st_patch := [(''wait'', JObj [(''signal_type'', JStr ''APPROVAL''), (''proposal_id'', JStr (prop_id p)),
                  (''command_type'', JStr (cmd_type l3)), (''command_idempotency_key'', JStr (cmd_key l3)),
                  (''frozen_command'', frozen)]), (''packet_id'', JStr (pk_id k))]\<rparr>) p v)\<lparr>so_packet := Some k\<rparr>)))"

section \<open>Sending\<close>

definition step_compose_send ::
  "runtime_env \<Rightarrow> nat \<Rightarrow> agent_context \<Rightarrow> (string \<times> json) list \<Rightarrow> workflow_state \<Rightarrow> step_outcome outcome" where
  "step_compose_send R n cx preview current =
     (let cmd = make_command (sha256_hex (re_env R)) ''compose_send_proposal'' (cx_tenant cx)
            [(''preview'', JObj preview)] L1_PROPOSE [] None
      in case compose_evaluate R n cx cmd of Inl e \<Rightarrow> Inl e | Inr p \<Rightarrow>
         let v = compose_validate cx p in
         case assert_transition None current NOTIFICATION_PENDING of Inl e \<Rightarrow> Inl e | Inr _ \<Rightarrow>
         (case prop_commands p of
            c # _ \<Rightarrow>
              if \<not> validation_ok v
              then Inr (step_of ((step_to NOTIFICATION_PENDING)\<lparr>st_reason :=
                     Some (if joined_reasons v = [] then ''no send command'' else joined_reasons v)\<rparr>) p v)
              else
                let frozen = JObj (frozen_to_dict (freeze_command c (prop_id p) ''notification_composer'')) in
                Inr (step_of ((step_to NOTIFICATION_PENDING)\<lparr>st_run := WAITING_SIGNAL,
                  st_wait := [(''frozen_command'', frozen), (''proposal_id'', JStr (prop_id p))],
                  st_deadline := Some (in_hours R (Suc n) 168),
                  st_patch := [(''wait'', JObj [(''signal_type'', JStr ''APPROVAL''), (''proposal_id'', JStr (prop_id p)),
                      (''command_type'', JStr (cmd_type c)), (''command_idempotency_key'', JStr (cmd_key c)),
                      (''frozen_command'', frozen)])],
                  st_events := [changed_to NOTIFICATION_PENDING [(''wait'', JStr ''APPROVAL'')]]\<rparr>) p v)
          | [] \<Rightarrow> Inr (step_of ((step_to NOTIFICATION_PENDING)\<lparr>st_reason :=
                     Some (if joined_reasons v = [] then ''no send command'' else joined_reasons v)\<rparr>) p v)))"

section \<open>Corrections\<close>

definition build_reverse_command :: "runtime_env \<Rightarrow> nat \<Rightarrow> string \<Rightarrow> string \<Rightarrow> string \<Rightarrow> agent_command" where
  "build_reverse_command R n tenant eid reason =
     make_command (sha256_hex (re_env R)) ''reverse_expense'' tenant
       [(''expense_id'', JStr eid), (''reason'', JStr reason)] L3_HUMAN_APPROVAL
       (''reverse:'' @ eid @ '':'' @ take 48 reason) (Some (in_hours R n 72))"

definition build_supersede_command ::
  "runtime_env \<Rightarrow> nat \<Rightarrow> string \<Rightarrow> string \<Rightarrow> string \<Rightarrow> (string \<times> json) list \<Rightarrow> json list \<Rightarrow> agent_command" where
  "build_supersede_command R n tenant eid reason repl splits =
     make_command (sha256_hex (re_env R)) ''supersede_expense'' tenant
       [(''expense_id'', JStr eid), (''reason'', JStr reason), (''replacement'', JObj repl), (''splits'', JList splits)]
       L3_HUMAN_APPROVAL
       (''supersede:'' @ eid @ '':'' @ json_str (jor (obj_get repl ''id'') (jor (obj_get repl ''expense_id'') (JStr ''new''))))
       (Some (in_hours R n 72))"

definition correction_wait ::
  "runtime_env \<Rightarrow> nat \<Rightarrow> string \<Rightarrow> string \<Rightarrow> string \<Rightarrow> json \<Rightarrow> json \<Rightarrow> agent_command \<Rightarrow> step_result" where
  "correction_wait R n kind eid reason repl splits cmd =
     (let pid = draw_id R n ''prop_corr'';
          wait = [(''signal_type'', JStr ''APPROVAL''), (''command_idempotency_key'', JStr (cmd_key cmd)),
            (''proposal_id'', JStr pid),
            (''frozen_command'', JObj (frozen_to_dict (freeze_command cmd pid ''CorrectionWorkflow''))),
            (''correction_kind'', JStr kind), (''expense_id'', JStr eid)]
      in (step_to REVIEW_PENDING)\<lparr>st_run := WAITING_SIGNAL, st_wait := wait, st_deadline := Some (in_hours R n 168),
           st_events := [event EV_PROPOSAL [(''proposal_id'', JStr pid), (''command_type'', JStr (cmd_type cmd)),
               (''expense_id'', JStr eid), (''kind'', JStr kind)], changed_to REVIEW_PENDING []],
           st_patch := [(''wait'', JObj wait), (''correction_kind'', JStr kind), (''expense_id'', JStr eid),
             (''reason'', JStr reason), (''proposal_id'', JStr pid),
             (''replacement'', if truthy repl then repl else JNull), (''splits'', if truthy splits then splits else JNull)]\<rparr>)"

definition step_propose_correction ::
  "runtime_env \<Rightarrow> nat \<Rightarrow> string \<Rightarrow> string \<Rightarrow> string \<Rightarrow> string \<Rightarrow> json \<Rightarrow> json \<Rightarrow> workflow_state \<Rightarrow> step_result outcome" where
  "step_propose_correction R n tenant kind eid reason repl splits current =
     (case assert_transition (Some CORRECTION_TRANSITIONS) current REVIEW_PENDING of Inl e \<Rightarrow> Inl e | Inr _ \<Rightarrow>
      if kind = ''REVERSE''
      then Inr (correction_wait R (Suc n) kind eid reason repl splits (build_reverse_command R n tenant eid reason))
      else if kind = ''SUPERSEDE'' then
        (if \<not> truthy repl \<or> \<not> truthy splits
         then Inr ((step_to NEEDS_INFORMATION)\<lparr>st_run := WAITING_SIGNAL,
             st_events := [event EV_ERROR [(''error'', JStr ''supersede_requires_replacement_and_splits'')]],
             st_patch := [(''needs'', JStr ''replacement_and_splits'')]\<rparr>)
         else case (repl, splits) of
           (JObj r, JList ss) \<Rightarrow>
             Inr (correction_wait R (Suc n) kind eid reason repl splits (build_supersede_command R n tenant eid reason r ss))
         | _ \<Rightarrow> Inl (TypeError ''replacement is not a mapping or splits not a list''))
      else Inr ((step_to BLOCKED)\<lparr>st_run := FAILED_TERMINAL,
             st_events := [event EV_ERROR [(''error'', JStr (''unknown_correction_kind:'' @ kind))]],
             st_reason := Some (''unknown_correction_kind:'' @ kind)\<rparr>))"

definition step_after_ledger_correction :: "workflow_state \<Rightarrow> step_result outcome" where
  "step_after_ledger_correction current =
     (case assert_transition (Some CORRECTION_TRANSITIONS) current DELIVERED of Inl e \<Rightarrow> Inl e | Inr _ \<Rightarrow>
      Inr ((step_to DELIVERED)\<lparr>st_run := COMPLETED, st_events := [changed_to DELIVERED []]\<rparr>))"

section \<open>Digests\<close>

text \<open>The events document of the context, or the file at the path; reading a file is the argument \<open>load\<close>.\<close>

definition events_document ::
  "(json \<Rightarrow> (string \<times> json) list outcome) \<Rightarrow> json \<Rightarrow> json \<Rightarrow> (string \<times> json) list outcome" where
  "events_document load doc path =
     (case doc of
        JNull \<Rightarrow> (case load path of
                    Inl e \<Rightarrow> Inl e
                  | Inr d \<Rightarrow> (case assert_no_forbidden (JObj d) of Inl e \<Rightarrow> Inl e | Inr _ \<Rightarrow> Inr d))
      | JObj d \<Rightarrow> Inr d
      | _ \<Rightarrow> Inl (AttributeError ''object has no attribute get''))"

definition digests_for ::
  "runtime_env \<Rightarrow> nat \<Rightarrow> (json \<Rightarrow> (string \<times> json) list outcome) \<Rightarrow> json \<Rightarrow> json \<Rightarrow> string option \<Rightarrow>
     (string \<times> json) list outcome" where
  "digests_for R n load doc path source =
     (case events_document load doc path of Inl e \<Rightarrow> Inl e | Inr d \<Rightarrow>
      assemble_digests (sha256_hex (re_env R)) (take 10 (now_iso (re_env R) n)) d source)"

definition ack_command :: "runtime_env \<Rightarrow> nat \<Rightarrow> json \<Rightarrow> json \<Rightarrow> string \<Rightarrow> json" where
  "ack_command R n period events_n key = JObj
     [(''command_type'', JStr ''ack_public_digest''), (''tenant_id'', JStr []),
      (''payload'', JObj [(''period_key'', period), (''event_count'', events_n)]),
      (''idempotency_key'', JStr key), (''expires_at'', JNull), (''required_authority'', JStr ''L3''),
      (''proposal_id'', JStr (draw_id R n ''prop_dig'')), (''agent_name'', JStr ''ScheduledDigestWorkflow'')]"

definition digest_failed :: "py_exn \<Rightarrow> step_result" where
  "digest_failed e =
     (step_to BLOCKED)\<lparr>st_run := FAILED_TERMINAL,
       st_events := [event EV_ERROR [(''error'', JStr ''digest_privacy_or_assemble_failed''), (''detail'', JStr (exn_str e))]],
       st_reason := Some (exn_str e), st_patch := [(''assemble_error'', JStr (exn_str e))]\<rparr>"

definition digest_ready ::
  "runtime_env \<Rightarrow> nat \<Rightarrow> bool \<Rightarrow> json \<Rightarrow> (string \<times> json) list \<Rightarrow> workflow_state \<Rightarrow> step_result outcome" where
  "digest_ready R n require_approval period digests current =
     (let summary = get_or digests ''summary'' (JObj []);
          events_n = (case jget summary ''eventCount'' of None \<Rightarrow> JNull | Some j \<Rightarrow> j);
          total = (case jget summary ''totalAttendancePublic'' of None \<Rightarrow> JNull | Some j \<Rightarrow> j);
          patch = [(''digests'', JObj digests), (''digest_summary'', summary), (''period_key'', period),
            (''privacy_ok'', JBool True)]
      in if require_approval then
           (case assert_transition (Some DIGEST_TRANSITIONS) current PUBLICATION_PENDING of Inl e \<Rightarrow> Inl e | Inr _ \<Rightarrow>
            let key = ''ack_digest:'' @ json_str (jor period (jor (obj_get digests ''updatedAt'') (JStr (draw_id R n ''p''))));
                wait = JObj [(''signal_type'', JStr ''APPROVAL''), (''command_idempotency_key'', JStr key),
                  (''digest_ack'', JBool True), (''proposal_id'', JStr (draw_id R (Suc n) ''prop_dig'')),
                  (''frozen_command'', ack_command R (Suc (Suc n)) period events_n key)]
            in Inr ((step_to PUBLICATION_PENDING)\<lparr>st_run := WAITING_SIGNAL,
                 st_events := [changed_to PUBLICATION_PENDING [(''eventCount'', events_n)]],
                 st_deadline := Some (in_hours R n 72), st_patch := patch @ [(''wait'', wait)]\<rparr>))
         else
           (case assert_transition (Some DIGEST_TRANSITIONS) current PUBLISHED of Inl e \<Rightarrow> Inl e | Inr _ \<Rightarrow>
            Inr ((step_to PUBLISHED)\<lparr>st_run := PENDING,
              st_events := [changed_to PUBLISHED [(''eventCount'', events_n), (''totalAttendancePublic'', total)]],
              st_patch := patch\<rparr>)))"

text \<open>Digest and privacy errors end the workflow; any other exception is raised.\<close>

definition step_assemble_and_privacy ::
  "runtime_env \<Rightarrow> nat \<Rightarrow> (json \<Rightarrow> (string \<times> json) list outcome) \<Rightarrow> json \<Rightarrow> json \<Rightarrow> string option \<Rightarrow> bool \<Rightarrow> json \<Rightarrow>
     workflow_state \<Rightarrow> step_result outcome" where
  "step_assemble_and_privacy R n load doc path source require_approval period current =
     (let blocked = (\<lambda>e. case assert_transition (Some DIGEST_TRANSITIONS) current BLOCKED of
            Inl x \<Rightarrow> Inl x | Inr _ \<Rightarrow> Inr (digest_failed e))
      in case digests_for R n load doc path source of
           Inl (DigestError m) \<Rightarrow> blocked (DigestError m)
         | Inl (PrivacySentinelError m) \<Rightarrow> blocked (PrivacySentinelError m)
         | Inl e \<Rightarrow> Inl e
         | Inr digests \<Rightarrow> digest_ready R (Suc n) require_approval period digests current)"

definition step_complete_digest :: "workflow_state \<Rightarrow> step_result outcome" where
  "step_complete_digest current =
     (case assert_transition (Some DIGEST_TRANSITIONS) current DELIVERED of Inl e \<Rightarrow> Inl e | Inr _ \<Rightarrow>
      Inr ((step_to DELIVERED)\<lparr>st_run := COMPLETED, st_events := [changed_to DELIVERED []]\<rparr>))"

end
