(* ===== verification/Runtime.thy ===== *)
theory Runtime
  imports Workflow_Steps
begin

text \<open>
  \<^verbatim>\<open>WorkflowRuntime\<close> of \<^verbatim>\<open>workflows/runtime.py\<close>: starting workflows, signalling, and advancing one by one step.
  A step works on the engine of \<^verbatim>\<open>Gate\<close>; the runtime keeps the store and, with the in-memory ledger binding, one
  workspace per tenant. Where a step changes the instance and may raise before it commits, the stored instance
  has changed too, as the in-memory store hands out its own object: \<open>hold\<close> writes it there.
\<close>

section \<open>Executing and holding\<close>

definition spend :: "nat \<Rightarrow> 'x engine \<Rightarrow> 'x engine" where
  "spend k X = X\<lparr>ex_clock := ex_clock X + k\<rparr>"

definition hold :: "workflow_instance \<Rightarrow> 'x engine \<Rightarrow> 'x engine" where
  "hold i X = snd (in_store (\<lambda>S. (Inr (), put_instance (wi_id i) i S)) X)"

definition dupdate :: "(string \<times> json) list \<Rightarrow> (string \<times> json) list \<Rightarrow> (string \<times> json) list" where
  "dupdate d kvs = fold (\<lambda>(k, v) d. dset k v d) kvs d"

definition with_context :: "(string \<times> json) list \<Rightarrow> workflow_instance \<Rightarrow> workflow_instance" where
  "with_context kvs i = i\<lparr>wi_context := dupdate (wi_context i) kvs\<rparr>"

text \<open>The receipt of an execution is put in the store once more; a failure to do so is ignored.\<close>

definition record_receipt :: "execution_receipt \<Rightarrow> 'x engine \<Rightarrow> 'x engine" where
  "record_receipt r X =
     (case ex_workflow X of
        None \<Rightarrow> X
      | Some w \<Rightarrow> if storable_status (exe_status r) then snd (in_store (\<lambda>S. put_execution_receipt S r w) X) else X)"

fun execute_list ::
  "runtime_env \<Rightarrow> 'x adapter_api \<Rightarrow> ('x \<Rightarrow> bool) \<Rightarrow> executable_command list \<Rightarrow> 'x engine \<Rightarrow>
     execution_receipt list outcome \<times> 'x engine" where
  "execute_list R A boot [] X = (Inr [], X)"
| "execute_list R A boot (x # xs) X =
     and_then (execute (re_env R) memory_index (dispatch_command (re_env R) A boot) (xc_command x) None
         (Some (xc_agent x)) (Some (xc_proposal x)) X) (\<lambda>r X1.
     and_then (execute_list R A boot xs (record_receipt r X1)) (\<lambda>rs X2. (Inr (r # rs), X2)))"

definition context_for :: "runtime_env \<Rightarrow> workflow_instance \<Rightarrow> ledger \<Rightarrow> agent_context" where
  "context_for R i L =
     \<lparr>cx_tenant = wi_tenant i, cx_policy_version = wi_policy_version i, cx_prompt_version = None,
      cx_facts = [(''default_allocation_id'', case allocations L of [] \<Rightarrow> JNull | (k, _) # _ \<Rightarrow> JStr k)],
      cx_now = None,
      cx_policy = (case obj_get (wi_context i) ''policy'' of
          JObj d \<Rightarrow> if d = [] then re_policy R (wi_tenant i) (wi_policy_version i) else d
        | _ \<Rightarrow> re_policy R (wi_tenant i) (wi_policy_version i))\<rparr>"

section \<open>Intake\<close>

definition expense_from_source :: "json \<Rightarrow> ledger \<Rightarrow> expense option" where
  "expense_from_source ext L = find (\<lambda>e. opt_str (exp_external e) = ext) (dvalues (expenses L))"

definition imported_id :: "workflow_instance \<Rightarrow> (string \<times> json) list \<Rightarrow> execution_receipt list \<Rightarrow> ledger \<Rightarrow> string" where
  "imported_id i row outs L =
     (let found = (case outs of r # _ \<Rightarrow> (case exe_refs r of x # _ \<Rightarrow> Some x | [] \<Rightarrow> None) | [] \<Rightarrow> None);
          known = (case found of
            Some x \<Rightarrow> Some x
          | None \<Rightarrow> if wi_simulation i then None
                    else map_option exp_id (expense_from_source (obj_get row ''external_source_id'') L))
      in case known of Some x \<Rightarrow> x | None \<Rightarrow> ''sim_'' @ str_get row ''external_source_id'' ''x'')"

definition advance_received ::
  "runtime_env \<Rightarrow> 'x adapter_api \<Rightarrow> ('x \<Rightarrow> bool) \<Rightarrow> workflow_instance \<Rightarrow> agent_context \<Rightarrow> 'x engine \<Rightarrow>
     workflow_instance option outcome \<times> 'x engine" where
  "advance_received R A boot i cx X =
     (case or_empty (obj_get (wi_context i) ''expense_row'') of Inl e \<Rightarrow> (Inl e, X) | Inr row \<Rightarrow>
      case step_intake R (ex_clock X) cx [JObj row] RECEIVED of Inl e \<Rightarrow> (Inl e, X) | Inr out \<Rightarrow>
      and_then (execute_list R A boot (st_commands (so_step out)) (spend 2 X)) (\<lambda>outs X1.
        let i1 = with_context [(''expense_id'', JStr (imported_id i row outs (xd_ledger (ex_domain X1))))] i;
            i2 = (if st_next (so_step out) = BLOCKED
              then i1\<lparr>wi_state := BLOCKED, wi_run_status := WAITING_SIGNAL\<rparr>
              else i1\<lparr>wi_state := NORMALIZED, wi_run_status := PENDING, wi_next_run := Some (now_text R X1)\<rparr>)
        in commit R i2 (st_events (so_step out)) outs [] X1))"

section \<open>Evidence, classification and review\<close>

definition evidence_item :: "evidence_record \<Rightarrow> json" where
  "evidence_item v = JObj [(''id'', JStr (ev_id v)), (''kind'', JStr (ev_kind v)), (''summary'', JStr (ev_summary v)),
     (''donor_visible'', JBool (ev_donor_visible v))]"

text \<open>The expense as the ledger has it, or else, and always in a simulation, as the row describes it.\<close>

definition expense_view ::
  "workflow_instance \<Rightarrow> (string \<times> json) list \<Rightarrow> string \<Rightarrow> ledger \<Rightarrow> (json list \<times> (string \<times> json) list) outcome" where
  "expense_view i row eid L =
     (case (if wi_simulation i then None else dget (expenses L) eid) of
        Some x \<Rightarrow> Inr
          (map evidence_item (filter (\<lambda>v. ev_expense v = eid) (dvalues (evidence L))),
           [(''amount'', JStr (money_str (exp_amount x))), (''vendor'', JStr (exp_vendor x)),
            (''purchase_date'', JStr (exp_purchase_date x)), (''category'', JStr (exp_category x)),
            (''description'', JStr (exp_description x)), (''currency'', JStr (exp_currency x))])
      | None \<Rightarrow>
          (case list_field (JObj row) ''evidence'' of Inl e \<Rightarrow> Inl e | Inr items \<Rightarrow> Inr
             (items,
              [(''amount'', JStr (case obj_get row ''amount'' of JNull \<Rightarrow> [] | j \<Rightarrow> json_str j)),
               (''vendor'', get_or row ''vendor'' (JStr [])), (''purchase_date'', get_or row ''purchase_date'' (JStr [])),
               (''category'', get_or row ''category'' (JStr [])), (''description'', get_or row ''description'' (JStr [])),
               (''currency'', get_or row ''currency'' (JStr ''USD''))])))"

text \<open>The evidence policy of the context: the kinds that suffice and whether the donor must see the item.\<close>

definition evidence_policy :: "(string \<times> json) list \<Rightarrow> (json list \<times> bool) outcome" where
  "evidence_policy ctx =
     (case or_empty (obj_get ctx ''policy'') of Inl e \<Rightarrow> Inl e | Inr pol \<Rightarrow>
      case or_empty (obj_get pol ''evidence'') of Inl e \<Rightarrow> Inl e | Inr evid \<Rightarrow>
      case list_field (JObj evid) ''sufficient_kinds'' of Inl e \<Rightarrow> Inl e | Inr kinds \<Rightarrow>
      Inr (if kinds = [] then DEFAULT_KINDS else kinds, bool_default (JObj evid) ''require_donor_visible'' True))"

definition item_text :: "string \<Rightarrow> json \<Rightarrow> json" where
  "item_text k x = (case jget x k of None \<Rightarrow> JStr [] | Some j \<Rightarrow> j)"

definition present_ids :: "json list \<Rightarrow> string list" where
  "present_ids items = map json_str (filter truthy (map (item_text ''id'') items))"

definition facts_for_review ::
  "(string \<times> json) list \<Rightarrow> json list \<Rightarrow> json \<Rightarrow> evidence_sufficiency \<Rightarrow> agent_proposal \<Rightarrow> review_facts" where
  "facts_for_review view items alloc s p =
     \<lparr>rv_vendor = obj_get view ''vendor'', rv_amount = obj_get view ''amount'', rv_currency = obj_get view ''currency'',
      rv_purchase_date = obj_get view ''purchase_date'', rv_category = obj_get view ''category'',
      rv_description = obj_get view ''description'', rv_allocation = alloc, rv_sufficiency = sufficiency_value s,
      rv_summaries = map (item_text ''summary'') items, rv_confidence = prop_confidence p,
      rv_warnings = prop_warnings p, rv_contradictions = prop_contradictions p\<rparr>"

text \<open>Parking the instance at a gate with what it waits for.\<close>

definition wait_of_step :: "step_result \<Rightarrow> (string \<times> json) list" where
  "wait_of_step s = (case obj_get (st_patch s) ''wait'' of JObj (w # ws) \<Rightarrow> w # ws | _ \<Rightarrow> st_wait s)"

definition descriptor_of :: "(string \<times> json) list \<Rightarrow> bool \<Rightarrow> (string \<times> json) list outcome" where
  "descriptor_of wait with_proposal =
     (case wait_key wait of
        Inl e \<Rightarrow> Inl e
      | Inr k \<Rightarrow> Inr ([(''signal_type'', JStr ''APPROVAL''), (''command_idempotency_key'', k)] @
          (if with_proposal then [(''proposal_id'', obj_get wait ''proposal_id'')] else [])))"

definition move_to :: "workflow_state \<Rightarrow> workflow_instance \<Rightarrow> workflow_instance" where
  "move_to s i = i\<lparr>wi_state := s, wi_run_status := default_run_status s\<rparr>"

definition park_for_review ::
  "runtime_env \<Rightarrow> workflow_instance \<Rightarrow> step_outcome \<Rightarrow> event_write list \<Rightarrow> execution_receipt list \<Rightarrow> 'x engine \<Rightarrow>
     workflow_instance option outcome \<times> 'x engine" where
  "park_for_review R i out events outs X =
     (let wait = wait_of_step (so_step out);
          packet = (case so_packet out of None \<Rightarrow> [] | Some k \<Rightarrow>
            [(''packet'', packet_doc k), (''proposal_id'', JStr (prop_id (so_proposal out)))]);
          i1 = with_context (packet @ [(''wait'', JObj wait)]) i
      in case descriptor_of wait True of Inl e \<Rightarrow> (Inl e, hold i1 X) | Inr d \<Rightarrow>
         commit R (i1\<lparr>wi_wait_descriptor := Some d,
             wi_wait_deadline := (if present (st_deadline (so_step out)) then st_deadline (so_step out) else None),
             wi_state := REVIEW_PENDING, wi_run_status := WAITING_SIGNAL,
             wi_lease_owner := None, wi_lease_expires := None\<rparr>)
           (events @ st_events (so_step out)) outs [] X)"

definition classify_and_park ::
  "runtime_env \<Rightarrow> 'x adapter_api \<Rightarrow> ('x \<Rightarrow> bool) \<Rightarrow> workflow_instance \<Rightarrow> agent_context \<Rightarrow> string \<Rightarrow>
     (string \<times> json) list \<Rightarrow> json list \<Rightarrow> json \<Rightarrow> evidence_sufficiency \<Rightarrow> event_write list \<Rightarrow> 'x engine \<Rightarrow>
     workflow_instance option outcome \<times> 'x engine" where
  "classify_and_park R A boot i cx eid view items alloc s events X =
     (case step_classify R (ex_clock X) cx eid alloc (obj_get view ''amount'') (present_ids items)
             WF_CLASSIFICATION_PENDING of
        Inl e \<Rightarrow> (Inl e, X) | Inr out \<Rightarrow>
      and_then (execute_list R A boot (st_commands (so_step out)) (spend 1 X)) (\<lambda>outs X1.
        let events1 = events @ st_events (so_step out) in
        if st_next (so_step out) \<noteq> REVIEW_PENDING
        then commit R (move_to (st_next (so_step out)) i) events1 outs [] X1
        else
          case step_review R (ex_clock X1) cx eid (facts_for_review view items alloc s (so_proposal out))
                 WF_CLASSIFICATION_PENDING of
            Inl e \<Rightarrow> (Inl e, X1)
          | Inr rev_out \<Rightarrow> park_for_review R i rev_out events1 outs (spend 3 X1)))"

definition advance_normalized ::
  "runtime_env \<Rightarrow> 'x adapter_api \<Rightarrow> ('x \<Rightarrow> bool) \<Rightarrow> workflow_instance \<Rightarrow> agent_context \<Rightarrow> 'x engine \<Rightarrow>
     workflow_instance option outcome \<times> 'x engine" where
  "advance_normalized R A boot i cx X =
     (let eid = obj_get (wi_context i) ''expense_id'' in
      case or_empty (obj_get (wi_context i) ''expense_row'') of Inl e \<Rightarrow> (Inl e, X) | Inr row \<Rightarrow>
      if \<not> truthy eid
      then commit R (i\<lparr>wi_state := BLOCKED, wi_run_status := FAILED_TERMINAL,
             wi_last_error := Some ''missing expense_id''\<rparr>) [] [] [] X
      else
        case as_str eid of Inl e \<Rightarrow> (Inl e, X) | Inr eid \<Rightarrow>
        case expense_view i row eid (xd_ledger (ex_domain X)) of Inl e \<Rightarrow> (Inl e, X) | Inr (items, view) \<Rightarrow>
        let alloc = jor (obj_get row ''allocation_id'') (jor (obj_get row ''proposed_allocation_id'')
              (obj_get (cx_facts cx) ''default_allocation_id''));
            i1 = with_context (view @ [(''evidence_items'', JList items), (''allocation_id'', alloc)]) i;
            X1 = hold i1 X
        in case evidence_policy (wi_context i) of Inl e \<Rightarrow> (Inl e, X1) | Inr (kinds, visible) \<Rightarrow>
           case or_empty (obj_get (wi_context i) ''evidence_flags'') of Inl e \<Rightarrow> (Inl e, X1) | Inr flags \<Rightarrow>
           case step_evidence R (ex_clock X1) cx eid items flags kinds visible NORMALIZED of
             Inl e \<Rightarrow> (Inl e, X1) | Inr out \<Rightarrow>
           let s = (case so_sufficiency out of None \<Rightarrow> ES_MISSING | Some s \<Rightarrow> s);
               i2 = with_context [(''evidence_sufficiency'', JStr (sufficiency_value s))] i1;
               events = st_events (so_step out)
           in if st_next (so_step out) \<noteq> WF_CLASSIFICATION_PENDING
              then commit R (move_to (st_next (so_step out)) i2) events [] [] (spend 1 X1)
              else classify_and_park R A boot i2 cx eid view items alloc s events (hold i2 (spend 1 X1)))"

section \<open>After the ledger commit\<close>

definition publish_payload :: "workflow_instance \<Rightarrow> (string \<times> json) list \<Rightarrow> (string \<times> json) list outcome" where
  "publish_payload i spec =
     (let s = JObj spec in
      case jfield s ''donor_id'' of Inl e \<Rightarrow> Inl e | Inr donor \<Rightarrow>
      case jfield s ''donation_id'' of Inl e \<Rightarrow> Inl e | Inr donation \<Rightarrow>
      case jfield s ''attribution_method'' of Inl e \<Rightarrow> Inl e | Inr method \<Rightarrow>
      case jfield s ''attributed_amount'' of Inl e \<Rightarrow> Inl e | Inr amount \<Rightarrow>
      Inr [(''donor_id'', donor), (''donation_id'', donation), (''expense_id'', obj_get (wi_context i) ''expense_id''),
           (''allocation_id'', jor (obj_get spec ''allocation_id'') (obj_get (wi_context i) ''allocation_id'')),
           (''attribution_method'', method), (''attributed_amount'', amount), (''created_at'', obj_get spec ''created_at''),
           (''actor'', jor (obj_get spec ''actor'') (JStr ''finance.operator@fixture''))])"

definition publish_frozen :: "runtime_env \<Rightarrow> nat \<Rightarrow> workflow_instance \<Rightarrow> (string \<times> json) list \<Rightarrow> frozen_command" where
  "publish_frozen R n i payload =
     (let c = make_command (sha256_hex (re_env R)) ''publish_use_of_funds_receipt'' (wi_tenant i) payload L3_HUMAN_APPROVAL
            (''publish:'' @ json_str (obj_get payload ''expense_id'') @ '':'' @ json_str (obj_get payload ''donation_id'')) None;
          pid = obj_get (wi_context i) ''proposal_id''
      in \<lparr>fz_type = cmd_type c, fz_tenant = cmd_tenant c, fz_payload = cmd_payload c, fz_key = cmd_key c,
          fz_expires = cmd_expires c, fz_required = ''L3'',
          fz_proposal = (if truthy pid then json_str pid else draw_id R n ''prop''), fz_agent = ''finance_review''\<rparr>)"

definition advance_after_ledger ::
  "runtime_env \<Rightarrow> workflow_instance \<Rightarrow> 'x engine \<Rightarrow> workflow_instance option outcome \<times> 'x engine" where
  "advance_after_ledger R i X =
     (case obj_get (wi_context i) ''publish_spec'' of
        JObj (kv # kvs) \<Rightarrow>
          (case publish_payload i (kv # kvs) of Inl e \<Rightarrow> (Inl e, X) | Inr payload \<Rightarrow>
           let f = publish_frozen R (ex_clock X) i payload; X1 = spend 2 X;
               i1 = with_context [(''wait'', JObj [(''signal_type'', JStr ''APPROVAL''),
                 (''command_idempotency_key'', JStr (fz_key f)), (''frozen_command'', JObj (frozen_to_dict f)),
                 (''proposal_id'', JStr (fz_proposal f))])] i
           in commit R (i1\<lparr>wi_wait_descriptor := Some [(''signal_type'', JStr ''APPROVAL''),
                  (''command_idempotency_key'', JStr (fz_key f))],
                wi_state := PUBLICATION_PENDING, wi_run_status := WAITING_SIGNAL,
                wi_wait_deadline := Some (iso_of (re_times R) (re_now R (Suc (ex_clock X)) + 604800000000))\<rparr>)
              [changed_to PUBLICATION_PENDING [(''wait'', JStr ''APPROVAL'')]] [] [] X1)
      | j \<Rightarrow> if truthy j then (Inl (TypeError ''publish_spec is not a mapping''), X)
              else commit R (i\<lparr>wi_run_status := COMPLETED\<rparr>) [] [] [] X)"

section \<open>After publication\<close>

definition last_receipt_for :: "json \<Rightarrow> ledger \<Rightarrow> use_of_funds_receipt option" where
  "last_receipt_for eid L =
     (case filter (\<lambda>r. JStr (r_expense r) = eid) (dvalues (receipts L)) of [] \<Rightarrow> None | rs \<Rightarrow> dget (receipts L) (r_id (last rs)))"

definition advance_published ::
  "runtime_env \<Rightarrow> workflow_instance \<Rightarrow> agent_context \<Rightarrow> 'x engine \<Rightarrow> workflow_instance option outcome \<times> 'x engine" where
  "advance_published R i cx X =
     (if \<not> truthy (obj_get (wi_context i) ''send_email'')
      then commit R (i\<lparr>wi_run_status := COMPLETED\<rparr>) [] [] [] X
      else case last_receipt_for (obj_get (wi_context i) ''expense_id'') (xd_ledger (ex_domain X)) of
        None \<Rightarrow> commit R (i\<lparr>wi_run_status := COMPLETED\<rparr>) [] [] [] X
      | Some r \<Rightarrow>
          let pv = compose_email_from_uof R (ex_clock X) ''uof_email_v1'' r in
          case assert_preview_matches_receipt pv r of Inl e \<Rightarrow> (Inl e, spend 1 X) | Inr _ \<Rightarrow>
          let i1 = with_context [(''email_preview'', JObj (preview_doc pv))] i;
              X1 = hold i1 (spend 1 (X\<lparr>ex_domain := register_preview pv (ex_domain X)\<rparr>))
          in case step_compose_send R (ex_clock X1) cx (preview_doc pv) PUBLISHED of Inl e \<Rightarrow> (Inl e, X1) | Inr out \<Rightarrow>
             let wait = wait_of_step (so_step out); i2 = with_context [(''wait'', JObj wait)] i1 in
             case descriptor_of wait False of Inl e \<Rightarrow> (Inl e, hold i2 X1) | Inr d \<Rightarrow>
             commit R (i2\<lparr>wi_wait_descriptor := Some d, wi_state := NOTIFICATION_PENDING,
                 wi_run_status := WAITING_SIGNAL\<rparr>) (st_events (so_step out)) [] [] (spend 2 X1))"

section \<open>Corrections\<close>

definition upper_text :: "string \<Rightarrow> string" where
  "upper_text s = map upper_char s"

definition apply_step :: "step_result \<Rightarrow> workflow_instance \<Rightarrow> workflow_instance" where
  "apply_step s i = i\<lparr>wi_state := st_next s, wi_run_status := st_run s\<rparr>"

definition park_correction ::
  "runtime_env \<Rightarrow> workflow_instance \<Rightarrow> step_result \<Rightarrow> 'x engine \<Rightarrow> workflow_instance option outcome \<times> 'x engine" where
  "park_correction R i out X =
     (let i1 = with_context (st_patch out) i; wait = wait_of_step out;
          i2 = (if wait = [] then i1 else with_context [(''wait'', JObj wait)] i1)
      in case (if wait = [] then Inr (wi_wait_descriptor i2)
               else case descriptor_of wait True of Inl e \<Rightarrow> Inl e | Inr d \<Rightarrow> Inr (Some d)) of
           Inl e \<Rightarrow> (Inl e, hold i2 X)
         | Inr d \<Rightarrow>
             commit R ((apply_step out i2)\<lparr>wi_wait_descriptor := d,
                 wi_wait_deadline := (if present (st_deadline out) then st_deadline out else None),
                 wi_lease_owner := None, wi_lease_expires := None\<rparr>) (st_events out) [] [] X)"

definition propose_correction ::
  "runtime_env \<Rightarrow> workflow_instance \<Rightarrow> 'x engine \<Rightarrow> workflow_instance option outcome \<times> 'x engine" where
  "propose_correction R i X =
     (let ctx = wi_context i;
          kind = upper_text (json_str (jor (obj_get ctx ''correction_kind'') (JStr ''REVERSE'')));
          eid = obj_get ctx ''expense_id''; reason = jor (obj_get ctx ''reason'') (JStr [])
      in if \<not> truthy eid \<or> \<not> truthy reason
         then commit R (i\<lparr>wi_state := NEEDS_INFORMATION, wi_run_status := WAITING_SIGNAL,
                wi_last_error := Some ''correction requires expense_id and reason''\<rparr>) [] [] [] X
         else if \<not> wi_simulation i \<and> \<not> list_ex (\<lambda>(k, _). JStr k = eid) (expenses (xd_ledger (ex_domain X)))
         then commit R (i\<lparr>wi_state := BLOCKED, wi_run_status := FAILED_TERMINAL,
                wi_last_error := Some (''expense not found: '' @ json_str eid)\<rparr>) [] [] [] X
         else
           case step_propose_correction R (ex_clock X) (wi_tenant i) kind (json_str eid) (json_str reason)
                  (obj_get ctx ''replacement'') (obj_get ctx ''splits'') RECEIVED of
             Inl e \<Rightarrow> (Inl e, X)
           | Inr out \<Rightarrow> park_correction R i out (spend 2 X))"

definition advance_correction ::
  "runtime_env \<Rightarrow> 'x adapter_api \<Rightarrow> ('x \<Rightarrow> bool) \<Rightarrow> workflow_instance \<Rightarrow> 'x engine \<Rightarrow>
     workflow_instance option outcome \<times> 'x engine" where
  "advance_correction R A boot i X =
     (if wi_run_status i \<in> set TERMINAL_RUN_STATUSES then (Inr (Some i), X)
      else if is_human_gate (wi_state i) then advance_human_gate R A boot i X
      else if wi_state i = RECEIVED then propose_correction R i X
      else if wi_state i = LEDGER_COMMITTED then
        (case step_after_ledger_correction LEDGER_COMMITTED of
           Inl e \<Rightarrow> (Inl e, X) | Inr out \<Rightarrow> commit R (apply_step out i) (st_events out) [] [] X)
      else if wi_state i = NEEDS_INFORMATION then commit R (repark i) [] [] [] X
      else commit R (i\<lparr>wi_run_status := PENDING, wi_next_run := Some (now_text R X)\<rparr>) [] [] [] X)"

section \<open>Digests\<close>

definition fill_tenant :: "string \<Rightarrow> json \<Rightarrow> json" where
  "fill_tenant tenant wait =
     (case wait of
        JObj w \<Rightarrow> (case obj_get w ''frozen_command'' of
            JObj f \<Rightarrow> JObj (dset ''frozen_command'' (JObj (dset ''tenant_id'' (JStr tenant) f)) w)
          | _ \<Rightarrow> wait)
      | _ \<Rightarrow> wait)"

definition advance_digest_received ::
  "runtime_env \<Rightarrow> (json \<Rightarrow> (string \<times> json) list outcome) \<Rightarrow> workflow_instance \<Rightarrow> 'x engine \<Rightarrow>
     workflow_instance option outcome \<times> 'x engine" where
  "advance_digest_received R load i X =
     (let ctx = wi_context i; get = obj_get ctx in
      case opt_field (JObj ctx) ''source'' of Inl e \<Rightarrow> (Inl e, X) | Inr source \<Rightarrow>
      case step_assemble_and_privacy R (ex_clock X) load (get ''events_doc'') (get ''events_path'') source
             (truthy (get ''require_approval'')) (get ''period_key'') RECEIVED of
        Inl e \<Rightarrow> (Inl e, X)
      | Inr out \<Rightarrow>
          let wait = fill_tenant (wi_tenant i) (obj_get (st_patch out) ''wait'');
              i1 = with_context (st_patch out @ (if truthy wait then [(''wait'', wait)] else [])) i;
              i2 = (if truthy wait then i1\<lparr>wi_wait_descriptor := Some [(''signal_type'', JStr ''APPROVAL''),
                  (''command_idempotency_key'', case jget wait ''command_idempotency_key'' of None \<Rightarrow> JNull | Some k \<Rightarrow> k),
                  (''digest_ack'', JBool True)]\<rparr> else i1);
              i3 = (apply_step out i2)\<lparr>wi_wait_deadline := (if present (st_deadline out) then st_deadline out else None),
                wi_lease_owner := None, wi_lease_expires := None\<rparr>;
              X1 = spend 4 X
          in commit R (if st_run out = PENDING then i3\<lparr>wi_next_run := Some (now_text R X1)\<rparr> else i3) (st_events out) [] [] X1)"

definition advance_digest ::
  "runtime_env \<Rightarrow> (json \<Rightarrow> (string \<times> json) list outcome) \<Rightarrow> workflow_instance \<Rightarrow> 'x engine \<Rightarrow>
     workflow_instance option outcome \<times> 'x engine" where
  "advance_digest R load i X =
     (if wi_run_status i \<in> set TERMINAL_RUN_STATUSES then (Inr (Some i), X)
      else if wi_state i = PUBLICATION_PENDING then advance_digest_approval R i X
      else if wi_state i = RECEIVED then advance_digest_received R load i X
      else if wi_state i = PUBLISHED then
        (case step_complete_digest PUBLISHED of
           Inl e \<Rightarrow> (Inl e, X) | Inr out \<Rightarrow> commit R (apply_step out i) (st_events out) [] [] X)
      else commit R (i\<lparr>wi_run_status := PENDING, wi_next_run := Some (now_text R X)\<rparr>) [] [] [] X)"

section \<open>One step\<close>

definition advance_step ::
  "runtime_env \<Rightarrow> 'x adapter_api \<Rightarrow> ('x \<Rightarrow> bool) \<Rightarrow> (json \<Rightarrow> (string \<times> json) list outcome) \<Rightarrow> workflow_instance \<Rightarrow>
     'x engine \<Rightarrow> workflow_instance option outcome \<times> 'x engine" where
  "advance_step R A boot load i X =
     (let cx = context_for R i (xd_ledger (ex_domain X)) in
      if wi_type i = WF_CORRECTION then advance_correction R A boot i X
      else if wi_type i = SCHEDULED_DIGEST then advance_digest R load i X
      else if is_human_gate (wi_state i) then advance_human_gate R A boot i X
      else if wi_state i = RECEIVED then advance_received R A boot i cx X
      else if wi_state i = NORMALIZED then advance_normalized R A boot i cx X
      else if wi_state i = WF_CLASSIFICATION_PENDING then advance_normalized R A boot i cx X
      else if wi_state i = LEDGER_COMMITTED then advance_after_ledger R i X
      else if wi_state i = PUBLISHED then advance_published R i cx X
      else if wi_state i = EVIDENCE_PENDING then advance_normalized R A boot i cx X
      else if wi_run_status i \<in> set TERMINAL_RUN_STATUSES then (Inr (Some i), X)
      else
        let i1 = i\<lparr>wi_run_status := PENDING, wi_next_run := Some (now_text R X)\<rparr>
        in and_then (in_store (update_instance i1) (spend 1 X)) (\<lambda>_ X1. (Inr (Some i1), X1)))"

record 'x runtime =
  rt_store :: workflow_store
  rt_workspaces :: "(string, 'x tenant_workspace) dict"

text \<open>The in-memory binding makes a workspace on an empty ledger for a tenant it does not know.\<close>

definition bound_workspace :: "string \<Rightarrow> 'x runtime \<Rightarrow> 'x tenant_workspace" where
  "bound_workspace t T =
     (case dget (rt_workspaces T) t of
        Some W \<Rightarrow> W
      | None \<Rightarrow> empty_workspace (empty_ledger \<lparr>org_id = t, org_name = t, org_policy_version = ''v1.0''\<rparr>))"

definition open_engine :: "workflow_instance \<Rightarrow> 'x runtime \<Rightarrow> 'x engine" where
  "open_engine i T =
     \<lparr>ex_simulation = wi_simulation i, ex_seen = [], ex_receipts = [], ex_index = Some (rt_store T),
      ex_workflow = Some (wi_id i), ex_block_below = 3/4,
      ex_domain = new_exec_domain (bound_workspace (wi_tenant i) T) True, ex_clock = ws_clock (rt_store T)\<rparr>"

definition close_engine :: "string \<Rightarrow> 'x engine \<Rightarrow> 'x runtime \<Rightarrow> 'x runtime" where
  "close_engine t X T =
     T\<lparr>rt_store := engine_store X, rt_workspaces := dset t (xd_ws (ex_domain X)) (rt_workspaces T)\<rparr>"

definition advance_once ::
  "runtime_env \<Rightarrow> 'x adapter_api \<Rightarrow> ('x \<Rightarrow> bool) \<Rightarrow> (json \<Rightarrow> (string \<times> json) list outcome) \<Rightarrow> workflow_instance \<Rightarrow>
     'x runtime \<Rightarrow> workflow_instance option outcome \<times> 'x runtime" where
  "advance_once R A boot load i T =
     (case get_instance (rt_store T) (wi_tenant i) (wi_id i) of
        None \<Rightarrow> (Inl (WorkflowNotFoundError (wi_id i)), T)
      | Some j \<Rightarrow>
          let (v, X) = advance_step R A boot load j (open_engine j T) in (v, close_engine (wi_tenant i) X T))"

text \<open>The pump; \<open>n\<close> is \<^verbatim>\<open>max_steps\<close>.\<close>

definition PUMP_STOPS :: "run_status list" where
  "PUMP_STOPS = WAITING_SIGNAL # TERMINAL_RUN_STATUSES"

fun pump ::
  "runtime_env \<Rightarrow> 'x adapter_api \<Rightarrow> ('x \<Rightarrow> bool) \<Rightarrow> (json \<Rightarrow> (string \<times> json) list outcome) \<Rightarrow> nat \<Rightarrow>
     workflow_instance \<Rightarrow> 'x runtime \<Rightarrow> workflow_instance option outcome \<times> 'x runtime" where
  "pump R A boot load 0 i T = (Inr (Some i), T)"
| "pump R A boot load (Suc n) i T =
     (if wi_run_status i \<in> set PUMP_STOPS then (Inr (Some i), T)
      else
        let i1 = (if wi_run_status i = RETRY_SCHEDULED then i\<lparr>wi_run_status := PENDING\<rparr> else i);
            T1 = (if wi_run_status i = RETRY_SCHEDULED then T\<lparr>rt_store := put_instance (wi_id i) i1 (rt_store T)\<rparr> else T)
        in and_then (advance_once R A boot load i1 T1) (\<lambda>_ T2.
             case get_instance (rt_store T2) (wi_tenant i) (wi_id i) of
               None \<Rightarrow> (Inr None, T2) | Some j \<Rightarrow> pump R A boot load n j T2))"

definition run_until_wait_or_terminal ::
  "runtime_env \<Rightarrow> 'x adapter_api \<Rightarrow> ('x \<Rightarrow> bool) \<Rightarrow> (json \<Rightarrow> (string \<times> json) list outcome) \<Rightarrow> string \<Rightarrow> string \<Rightarrow> nat \<Rightarrow>
     'x runtime \<Rightarrow> workflow_instance option outcome \<times> 'x runtime" where
  "run_until_wait_or_terminal R A boot load tenant w steps T =
     (case get_instance (rt_store T) tenant w of
        None \<Rightarrow> (Inl (WorkflowNotFoundError w), T)
      | Some i \<Rightarrow> pump R A boot load steps i T)"

section \<open>Starting and signalling\<close>

definition policy_or_default :: "runtime_env \<Rightarrow> string \<Rightarrow> (string \<times> json) list option \<Rightarrow> (string \<times> json) list" where
  "policy_or_default R tenant given = (case given of Some p \<Rightarrow> p | None \<Rightarrow> re_policy R tenant ''v1.0'')"

definition new_instance ::
  "runtime_env \<Rightarrow> nat \<Rightarrow> string \<Rightarrow> string \<Rightarrow> workflow_type \<Rightarrow> string \<Rightarrow> workflow_state \<Rightarrow> (string \<times> json) list \<Rightarrow> bool \<Rightarrow>
     string \<Rightarrow> string \<Rightarrow> workflow_instance" where
  "new_instance R n w tenant ty bk st ctx simulation next_run version =
     (let now = now_iso (re_env R) n in
      \<lparr>wi_id = w, wi_tenant = tenant, wi_type = ty, wi_business_key = bk, wi_state = st, wi_run_status = PENDING,
       wi_context = ctx, wi_simulation = simulation, wi_attempts = 0, wi_next_run = Some next_run,
       wi_wait_deadline = None, wi_wait_descriptor = None, wi_lease_owner = None, wi_lease_expires = None,
       wi_last_error = None, wi_timeout_applied = None, wi_created = now, wi_updated = now,
       wi_policy_version = version, wi_event_seq = 0\<rparr>)"

text \<open>\<^verbatim>\<open>create\<close>, \<^verbatim>\<open>append_events\<close> and \<^verbatim>\<open>get\<close>.\<close>

definition launch ::
  "runtime_env \<Rightarrow> workflow_instance \<Rightarrow> (string \<times> json) list \<Rightarrow> workflow_store \<Rightarrow>
     workflow_instance option outcome \<times> workflow_store" where
  "launch R i payload S =
     and_then (create i S) (\<lambda>_ S1.
     and_then (append_events (re_env R) (wi_tenant i) (wi_id i) [Inl (event EV_CREATED payload)] S1) (\<lambda>_ S2.
       (Inr (get_instance S2 (wi_tenant i) (wi_id i)), S2)))"

definition on_store ::
  "(workflow_store \<Rightarrow> 'a outcome \<times> workflow_store) \<Rightarrow> 'x runtime \<Rightarrow> 'a outcome \<times> 'x runtime" where
  "on_store f T = (let (v, S) = f (rt_store T) in (v, T\<lparr>rt_store := S\<rparr>))"

definition later :: "nat \<Rightarrow> workflow_store \<Rightarrow> workflow_store" where
  "later k S = S\<lparr>ws_clock := ws_clock S + k\<rparr>"

definition start_expense_to_receipt ::
  "runtime_env \<Rightarrow> string \<Rightarrow> (string \<times> json) list \<Rightarrow> json \<Rightarrow> bool \<Rightarrow> bool \<Rightarrow> (string \<times> json) list option \<Rightarrow>
     string option \<Rightarrow> string option \<Rightarrow> workflow_store \<Rightarrow> workflow_instance option outcome \<times> workflow_store" where
  "start_expense_to_receipt R tenant row publish_spec send_email simulation policy given_key pre_imported S =
     (let n = ws_clock S; pol = policy_or_default R tenant policy; version = str_get pol ''version'' [];
          bk = (if present given_key then the given_key
                else json_str (jor (obj_get row ''external_source_id'') (jor (obj_get row ''id'') (JStr (draw_id R n ''bk'')))));
          st = (if present pre_imported then NORMALIZED else RECEIVED);
          ctx = [(''expense_row'', JObj row), (''publish_spec'', publish_spec), (''send_email'', JBool send_email),
            (''policy'', JObj pol), (''policy_version'', JStr version), (''evidence_flags'', JObj [])] @
            (if present pre_imported then [(''expense_id'', JStr (the pre_imported))] else []);
          i = new_instance R n (draw_id R (Suc n) ''wf'') tenant EXPENSE_TO_RECEIPT bk st ctx simulation
            (now_iso (re_env R) n) version
      in launch R i [(''business_key'', JStr bk), (''state'', JStr (workflow_state_value st))] (later 2 S))"

definition start_scheduled_digest ::
  "runtime_env \<Rightarrow> string \<Rightarrow> string option \<Rightarrow> json \<Rightarrow> json \<Rightarrow> string option \<Rightarrow> bool \<Rightarrow> (int + string) option \<Rightarrow> bool \<Rightarrow>
     (string \<times> json) list option \<Rightarrow> string option \<Rightarrow> workflow_store \<Rightarrow>
     workflow_instance option outcome \<times> workflow_store" where
  "start_scheduled_digest R tenant period events_doc events_path source require_approval next_run simulation policy
       given_key S =
     (let n = ws_clock S; pol = policy_or_default R tenant policy; version = str_get pol ''version'' [];
          pk = (if present period then the period else take 10 (now_iso (re_env R) n));
          bk = (if present given_key then the given_key else ''digest:'' @ pk);
          nxt = (case next_run of
              None \<Rightarrow> now_iso (re_env R) (Suc n)
            | Some (Inl t) \<Rightarrow> iso_of (re_times R) (whole_seconds t)
            | Some (Inr s) \<Rightarrow> s);
          ctx = [(''period_key'', JStr pk), (''events_doc'', events_doc), (''events_path'', events_path),
            (''source'', opt_str source), (''require_approval'', JBool require_approval), (''policy'', JObj pol),
            (''policy_version'', JStr version)];
          i = new_instance R (Suc n) (draw_id R n ''wf_dig'') tenant SCHEDULED_DIGEST bk RECEIVED ctx simulation nxt version
      in launch R i [(''business_key'', JStr bk), (''period_key'', JStr pk), (''require_approval'', JBool require_approval),
           (''next_run_at'', JStr nxt)] (later 2 S))"

definition start_correction ::
  "runtime_env \<Rightarrow> string \<Rightarrow> string \<Rightarrow> string \<Rightarrow> string \<Rightarrow> json \<Rightarrow> json \<Rightarrow> bool \<Rightarrow> (string \<times> json) list option \<Rightarrow>
     string option \<Rightarrow> workflow_store \<Rightarrow> workflow_instance option outcome \<times> workflow_store" where
  "start_correction R tenant eid kind reason repl splits simulation policy given_key S =
     (let n = ws_clock S; pol = policy_or_default R tenant policy; version = str_get pol ''version'' [];
          kind_u = upper_text kind;
          bk = (if present given_key then the given_key else ''corr:'' @ map lower_char kind_u @ '':'' @ eid);
          ctx = [(''correction_kind'', JStr kind_u), (''expense_id'', JStr eid), (''reason'', JStr reason),
            (''replacement'', repl), (''splits'', splits), (''policy'', JObj pol), (''policy_version'', JStr version)];
          i = new_instance R n (draw_id R n ''wf_corr'') tenant WF_CORRECTION bk RECEIVED ctx simulation
            (now_iso (re_env R) n) version
      in if kind_u \<notin> {''REVERSE'', ''SUPERSEDE''} then (Inl (WorkflowStateError (''unknown correction kind: '' @ kind)), S)
         else launch R i [(''business_key'', JStr bk), (''kind'', JStr kind_u), (''expense_id'', JStr eid)] (later 1 S))"

definition approval_doc :: "approval_receipt \<Rightarrow> (string \<times> json) list" where
  "approval_doc a =
     [(''approval_id'', JStr (app_id a)), (''tenant_id'', JStr (app_tenant a)), (''proposal_id'', JStr (app_proposal a)),
      (''command_idempotency_key'', JStr (app_key a)), (''decision'', JStr (app_decision a)),
      (''approver_id'', JStr (app_approver a)), (''approver_role'', JStr (app_role a)), (''approved_at'', JStr (app_at a)),
      (''rationale'', JStr (app_rationale a)), (''policy_version'', JStr (app_policy_version a))]"

definition operator_signal ::
  "runtime_env \<Rightarrow> nat \<Rightarrow> string \<Rightarrow> string \<Rightarrow> signal_type \<Rightarrow> (string \<times> json) list \<Rightarrow> workflow_signal" where
  "operator_signal R n tenant w ty payload =
     \<lparr>sig_id = draw_id R n ''sig'', sig_workflow = w, sig_tenant = tenant, sig_type = ty, sig_payload = payload,
      sig_created = now_iso (re_env R) n, sig_consumed = False, sig_result = None\<rparr>"

definition wake_with ::
  "runtime_env \<Rightarrow> string \<Rightarrow> string \<Rightarrow> signal_type \<Rightarrow> (string \<times> json) list \<Rightarrow> workflow_store \<Rightarrow> unit outcome \<times> workflow_store" where
  "wake_with R tenant w ty payload S =
     (let n = ws_clock S in
      enqueue_signal_and_wake (re_env R) (re_times R) tenant w (operator_signal R n tenant w ty payload) PENDING
        (Inl (re_now R (Suc n))) True (later 2 S))"

definition signal_approval ::
  "runtime_env \<Rightarrow> string \<Rightarrow> string \<Rightarrow> approval_receipt \<Rightarrow> workflow_store \<Rightarrow> unit outcome \<times> workflow_store" where
  "signal_approval R tenant w a S =
     (if starts_with ''agent:'' (app_approver a)
      then (Inl (AuthorityError ''approver_id must be a human operator identity''), S)
      else if get_instance S tenant w = None then (Inl (WorkflowNotFoundError w), S)
      else wake_with R tenant w SIG_APPROVAL (approval_doc a) S)"

end
