(* ===== verification/Worker.thy ===== *)
theory Worker
  imports Runtime
begin

text \<open>
  The worker of \<^verbatim>\<open>workflows/worker.py\<close>, which claims due workflows and advances them, with its retries and
  dead letters, and the operator's view of \<^verbatim>\<open>workflows/ops.py\<close>: cases by bucket and the signals an operator
  sends. \<open>rnd\<close> is \<^verbatim>\<open>random.random()\<close> of the n-th reading; the arithmetic of delays is taken as exact. The logs,
  the sleeping and the command line of the worker are left out.
\<close>

section \<open>Configuration and results\<close>

record worker_config =
  wc_id :: string
  wc_lease :: int
  wc_batch :: int
  wc_max :: int
  wc_retry :: retry_policy
  wc_sweep :: bool

definition worker_defaults :: "string \<Rightarrow> worker_config" where
  "worker_defaults w = \<lparr>wc_id = w, wc_lease = 60000000, wc_batch = 10, wc_max = 5, wc_retry = default_retry_policy,
     wc_sweep = True\<rparr>"

record tick_result =
  tk_claimed :: nat
  tk_advanced :: nat
  tk_dead :: nat
  tk_timed_out :: nat
  tk_errors :: "string list"

definition no_ticks :: tick_result where
  "no_ticks = \<lparr>tk_claimed = 0, tk_advanced = 0, tk_dead = 0, tk_timed_out = 0, tk_errors = []\<rparr>"

section \<open>Dead letters and retries\<close>

text \<open>\<^verbatim>\<open>_dead_letter\<close>: the business state stays; a failure to append the event is ignored.\<close>

definition dead_letter :: "runtime_env \<Rightarrow> workflow_instance \<Rightarrow> string \<Rightarrow> workflow_store \<Rightarrow> unit outcome \<times> workflow_store" where
  "dead_letter R i reason S =
     (let j = i\<lparr>wi_run_status := DEAD_LETTER, wi_last_error := Some reason, wi_lease_owner := None,
            wi_lease_expires := None, wi_updated := now_iso (re_env R) (ws_clock S)\<rparr>
      in and_then (update_instance j (later 1 S)) (\<lambda>_ S1.
           (Inr (), snd (append_events (re_env R) (wi_tenant i) (wi_id i)
              [Inl (event EV_DEAD_LETTERED [(''reason'', JStr reason), (''attempts'', JInt (wi_attempts i))])] S1))))"

definition due_after :: "runtime_env \<Rightarrow> nat \<Rightarrow> rat \<Rightarrow> string" where
  "due_after R n delay = iso_of (re_times R) (whole_seconds (re_now R n + round_half_even (delay * 1000000)))"

definition back_off :: "runtime_env \<Rightarrow> (nat \<Rightarrow> rat) \<Rightarrow> retry_policy \<Rightarrow> nat \<Rightarrow> workflow_instance \<Rightarrow> workflow_instance" where
  "back_off R rnd p n i =
     (let delay = delay_for_attempt p (max 1 (wi_attempts i))
      in i\<lparr>wi_next_run := Some (due_after R n (if jitter p then delay * (1/2 + rnd n) else delay))\<rparr>)"

text \<open>What follows an advance that returned.\<close>

definition after_advance ::
  "runtime_env \<Rightarrow> (nat \<Rightarrow> rat) \<Rightarrow> worker_config \<Rightarrow> workflow_instance \<Rightarrow> tick_result \<Rightarrow> workflow_store \<Rightarrow>
     unit outcome \<times> tick_result \<times> workflow_store" where
  "after_advance R rnd cfg i res S =
     (case get_instance S (wi_tenant i) (wi_id i) of
        None \<Rightarrow> (Inr (), res, S)
      | Some j \<Rightarrow>
          if wi_run_status j \<noteq> RETRY_SCHEDULED then (Inr (), res, S)
          else if wi_attempts j \<ge> wc_max cfg then
            (case dead_letter R j ''max_attempts_exceeded_after_retry'' S of
               (Inl e, S1) \<Rightarrow> (Inl e, res, S1) | (Inr _, S1) \<Rightarrow> (Inr (), res\<lparr>tk_dead := tk_dead res + 1\<rparr>, S1))
          else
            let (v, S1) = update_instance (back_off R rnd (wc_retry cfg) (ws_clock S) j) (later 1 S) in (v, res, S1))"

definition process_one ::
  "runtime_env \<Rightarrow> 'x adapter_api \<Rightarrow> ('x \<Rightarrow> bool) \<Rightarrow> (json \<Rightarrow> (string \<times> json) list outcome) \<Rightarrow> (nat \<Rightarrow> rat) \<Rightarrow>
     worker_config \<Rightarrow> workflow_instance \<Rightarrow> tick_result \<Rightarrow> 'x runtime \<Rightarrow> unit outcome \<times> tick_result \<times> 'x runtime" where
  "process_one R A boot load rnd cfg i res T =
     (if wi_attempts i \<ge> wc_max cfg then
        (case on_store (dead_letter R i ''max_attempts_exceeded'') T of
           (Inl e, T1) \<Rightarrow> (Inl e, res, T1) | (Inr _, T1) \<Rightarrow> (Inr (), res\<lparr>tk_dead := tk_dead res + 1\<rparr>, T1))
      else
        (case advance_once R A boot load i T of
           (Inl e, T1) \<Rightarrow> (Inl e, res, T1)
         | (Inr None, T1) \<Rightarrow>
             (Inl (AttributeError ''object has no attribute tenant_id''), res\<lparr>tk_advanced := tk_advanced res + 1\<rparr>, T1)
         | (Inr (Some j), T1) \<Rightarrow>
             let (v, res1, S) = after_advance R rnd cfg j (res\<lparr>tk_advanced := tk_advanced res + 1\<rparr>) (rt_store T1)
             in (v, res1, T1\<lparr>rt_store := S\<rparr>)))"

definition handle_process_error ::
  "runtime_env \<Rightarrow> worker_config \<Rightarrow> workflow_instance \<Rightarrow> py_exn \<Rightarrow> tick_result \<Rightarrow> workflow_store \<Rightarrow>
     unit outcome \<times> tick_result \<times> workflow_store" where
  "handle_process_error R cfg i e res S =
     (let (cls, reason) = classify_error (fst (exn_type e)) (snd (exn_type e)) (exn_str e);
          i0 = (case get_instance S (wi_tenant i) (wi_id i) of Some j \<Rightarrow> j | None \<Rightarrow> i);
          cur = i0\<lparr>wi_attempts := wi_attempts i0 + 1, wi_last_error := Some (exn_str e)\<rparr>
      in if cls \<noteq> RETRYABLE \<or> wi_attempts cur \<ge> wc_max cfg then
           (case dead_letter R cur (''worker_error:'' @ reason) S of
              (Inl x, S1) \<Rightarrow> (Inl x, res, S1) | (Inr _, S1) \<Rightarrow> (Inr (), res\<lparr>tk_dead := tk_dead res + 1\<rparr>, S1))
         else
           let due = due_after R (ws_clock S) (delay_for_attempt (wc_retry cfg) (wi_attempts cur));
               (v, S1) = update_instance (cur\<lparr>wi_run_status := RETRY_SCHEDULED, wi_next_run := Some due,
                 wi_lease_owner := None, wi_lease_expires := None\<rparr>) (later 1 S)
           in (v, res, S1))"

section \<open>Ticks\<close>

text \<open>The claimed workflows in order; an error of one is handled, an error of the handling ends the tick.\<close>

fun process_all ::
  "runtime_env \<Rightarrow> 'x adapter_api \<Rightarrow> ('x \<Rightarrow> bool) \<Rightarrow> (json \<Rightarrow> (string \<times> json) list outcome) \<Rightarrow> (nat \<Rightarrow> rat) \<Rightarrow>
     worker_config \<Rightarrow> workflow_instance list \<Rightarrow> tick_result \<Rightarrow> 'x runtime \<Rightarrow> tick_result outcome \<times> 'x runtime" where
  "process_all R A boot load rnd cfg [] res T = (Inr res, T)"
| "process_all R A boot load rnd cfg (i # is) res T =
     (case process_one R A boot load rnd cfg i res T of
        (Inr _, res1, T1) \<Rightarrow> process_all R A boot load rnd cfg is res1 T1
      | (Inl e, res1, T1) \<Rightarrow>
          (case handle_process_error R cfg i e
                  (res1\<lparr>tk_errors := tk_errors res1 @ [wi_id i @ '': '' @ exn_str e]\<rparr>) (rt_store T1) of
             (Inl x, res2, S) \<Rightarrow> (Inl x, T1\<lparr>rt_store := S\<rparr>)
           | (Inr _, res2, S) \<Rightarrow> process_all R A boot load rnd cfg is res2 (T1\<lparr>rt_store := S\<rparr>)))"

definition tick ::
  "runtime_env \<Rightarrow> 'x adapter_api \<Rightarrow> ('x \<Rightarrow> bool) \<Rightarrow> (json \<Rightarrow> (string \<times> json) list outcome) \<Rightarrow> (nat \<Rightarrow> rat) \<Rightarrow>
     worker_config \<Rightarrow> int \<Rightarrow> 'x runtime \<Rightarrow> tick_result outcome \<times> 'x runtime" where
  "tick R A boot load rnd cfg now T =
     and_then (on_store (claim (re_times R) (wc_id cfg) (wc_batch cfg) now (wc_lease cfg)) T) (\<lambda>claimed T1.
     and_then (process_all R A boot load rnd cfg claimed (no_ticks\<lparr>tk_claimed := length claimed\<rparr>) T1) (\<lambda>res T2.
       if \<not> wc_sweep cfg then (Inr res, T2)
       else and_then (on_store (sweep_approval_timeouts (re_times R) now) T2) (\<lambda>ids T3.
              (Inr (res\<lparr>tk_timed_out := length ids\<rparr>), T3))))"

text \<open>A tick at the time of the clock, and the loop of at most \<open>n\<close> ticks.\<close>

definition tick_now ::
  "runtime_env \<Rightarrow> 'x adapter_api \<Rightarrow> ('x \<Rightarrow> bool) \<Rightarrow> (json \<Rightarrow> (string \<times> json) list outcome) \<Rightarrow> (nat \<Rightarrow> rat) \<Rightarrow>
     worker_config \<Rightarrow> 'x runtime \<Rightarrow> tick_result outcome \<times> 'x runtime" where
  "tick_now R A boot load rnd cfg T =
     tick R A boot load rnd cfg (re_now R (ws_clock (rt_store T))) (T\<lparr>rt_store := later 1 (rt_store T)\<rparr>)"

fun run_worker ::
  "runtime_env \<Rightarrow> 'x adapter_api \<Rightarrow> ('x \<Rightarrow> bool) \<Rightarrow> (json \<Rightarrow> (string \<times> json) list outcome) \<Rightarrow> (nat \<Rightarrow> rat) \<Rightarrow>
     worker_config \<Rightarrow> bool \<Rightarrow> nat \<Rightarrow> 'x runtime \<Rightarrow> tick_result list outcome \<times> 'x runtime" where
  "run_worker R A boot load rnd cfg idle 0 T = (Inr [], T)"
| "run_worker R A boot load rnd cfg idle (Suc n) T =
     and_then (tick_now R A boot load rnd cfg T) (\<lambda>r T1.
       if idle \<and> tk_claimed r = 0 \<and> tk_timed_out r = 0 then (Inr [r], T1)
       else and_then (run_worker R A boot load rnd cfg idle n T1) (\<lambda>rs T2. (Inr (r # rs), T2)))"

section \<open>Operator cases\<close>

definition CASE_FILTERS :: "string list" where
  "CASE_FILTERS = [''all'', ''waiting'', ''blocked'', ''dead_letter'', ''failed'', ''needs_information'', ''active'']"

definition bucket :: "workflow_instance \<Rightarrow> string" where
  "bucket i =
     (if wi_run_status i = DEAD_LETTER then ''dead_letter''
      else if wi_run_status i = FAILED_TERMINAL then ''failed''
      else if wi_state i = BLOCKED then ''blocked''
      else if wi_state i = NEEDS_INFORMATION then ''needs_information''
      else if wi_run_status i = WAITING_SIGNAL then ''waiting''
      else if wi_run_status i \<in> {PENDING, RUNNING, RETRY_SCHEDULED} then ''active''
      else ''other'')"

record operator_case =
  oc_workflow :: string
  oc_tenant :: string
  oc_business_key :: string
  oc_state :: string
  oc_run_status :: string
  oc_attempts :: int
  oc_last_error :: "string option"
  oc_deadline :: "string option"
  oc_key :: json
  oc_bucket :: string

definition case_key :: "workflow_instance \<Rightarrow> json outcome" where
  "case_key i =
     (case or_empty (obj_get (wi_context i) ''wait'') of Inl e \<Rightarrow> Inl e | Inr wait \<Rightarrow>
      let k = obj_get wait ''command_idempotency_key'' in
      if truthy k then Inr (JStr (json_str k))
      else
        case or_empty (obj_get wait ''frozen_command'') of Inl e \<Rightarrow> Inl e | Inr fz \<Rightarrow>
        let k = obj_get fz ''idempotency_key''; d = (case wi_wait_descriptor i of None \<Rightarrow> [] | Some d \<Rightarrow> d) in
        if truthy k then Inr (JStr (json_str k))
        else Inr (jor (obj_get d ''command_idempotency_key'') (obj_get d ''prior_command_idempotency_key'')))"

definition instance_to_case :: "workflow_instance \<Rightarrow> operator_case outcome" where
  "instance_to_case i =
     (case case_key i of Inl e \<Rightarrow> Inl e | Inr k \<Rightarrow>
      Inr \<lparr>oc_workflow = wi_id i, oc_tenant = wi_tenant i, oc_business_key = wi_business_key i,
           oc_state = workflow_state_value (wi_state i), oc_run_status = run_status_value (wi_run_status i),
           oc_attempts = wi_attempts i, oc_last_error = wi_last_error i, oc_deadline = wi_wait_deadline i,
           oc_key = k, oc_bucket = bucket i\<rparr>)"

definition wanted_buckets :: "string list option \<Rightarrow> string list" where
  "wanted_buckets filters =
     (let raw = map (\<lambda>f. map lower_char (strip f)) (case filters of
            Some (f # fs) \<Rightarrow> f # fs
          | _ \<Rightarrow> [''waiting'', ''blocked'', ''dead_letter'', ''needs_information'', ''failed'']);
          known = filter (\<lambda>f. f \<in> set CASE_FILTERS) raw
      in if ''all'' \<in> set raw then ''other'' # removeAll ''all'' CASE_FILTERS
         else if known = [] then [''waiting'', ''blocked'', ''dead_letter''] else known)"

fun case_loop :: "string list \<Rightarrow> int \<Rightarrow> operator_case list \<Rightarrow> workflow_instance list \<Rightarrow> operator_case list outcome" where
  "case_loop want limit acc [] = Inr acc"
| "case_loop want limit acc (i # is) =
     (case instance_to_case i of Inl e \<Rightarrow> Inl e | Inr c \<Rightarrow>
      let acc1 = (if oc_bucket c \<in> set want then acc @ [c] else acc) in
      if limit \<le> int (length acc1) then Inr acc1 else case_loop want limit acc1 is)"

definition bucket_order :: "string \<Rightarrow> nat" where
  "bucket_order b =
     (case dget [(''dead_letter'', 0), (''failed'', 1), (''blocked'', 2), (''needs_information'', 3), (''waiting'', 4),
        (''active'', 5), (''other'', 6)] b of None \<Rightarrow> 9 | Some n \<Rightarrow> n)"

text \<open>Sorted by bucket and then identifier: two stable sorts, the second key first.\<close>

definition list_operator_cases ::
  "workflow_store \<Rightarrow> string \<Rightarrow> string list option \<Rightarrow> int \<Rightarrow> operator_case list outcome" where
  "list_operator_cases S tenant filters limit =
     (case case_loop (wanted_buckets filters) limit [] (list_instances S tenant None None (max limit 500)) of
        Inl e \<Rightarrow> Inl e
      | Inr cs \<Rightarrow> Inr (sort_key (\<lambda>c. bucket_order (oc_bucket c)) (sort_key oc_workflow cs)))"

definition list_blocked :: "workflow_store \<Rightarrow> string \<Rightarrow> operator_case list outcome" where
  "list_blocked S tenant =
     list_operator_cases S tenant (Some [''blocked'', ''dead_letter'', ''needs_information'', ''failed'']) 200"

section \<open>Operator signals\<close>

text \<open>An approval an operator wrote by hand: whatever is missing has a default, the decision too.\<close>

definition approval_from_dict :: "env \<Rightarrow> nat \<Rightarrow> (string \<times> json) list \<Rightarrow> string option \<Rightarrow> approval_receipt outcome" where
  "approval_from_dict E n d tenant =
     (let tid = str_or d ''tenant_id'' (case tenant of None \<Rightarrow> [] | Some t \<Rightarrow> t) in
      if tid = [] then Inl (ValueError ''approval JSON requires tenant_id'')
      else
        case str_field d ''command_idempotency_key'' of Inl e \<Rightarrow> Inl e | Inr key \<Rightarrow>
        case str_field d ''approver_id'' of Inl e \<Rightarrow> Inl e | Inr who \<Rightarrow>
        make_approval
          \<lparr>app_id = str_or d ''approval_id'' (''op_'' @ now_iso E n), app_tenant = tid,
           app_proposal = str_or d ''proposal_id'' ''operator'', app_key = key,
           app_decision = str_or d ''decision'' ''APPROVE'', app_approver = who,
           app_role = str_or d ''approver_role'' ''finance_approver'',
           app_at = str_or d ''approved_at'' (now_iso E (Suc n)),
           app_rationale = str_or d ''rationale'' ''operator CLI approval'',
           app_policy_version = str_or d ''policy_version'' ''v1.0''\<rparr>)"

text \<open>At most \<open>n\<close> ticks, until the workflow waits or is done.\<close>

fun tick_until_wait ::
  "runtime_env \<Rightarrow> 'x adapter_api \<Rightarrow> ('x \<Rightarrow> bool) \<Rightarrow> (json \<Rightarrow> (string \<times> json) list outcome) \<Rightarrow> (nat \<Rightarrow> rat) \<Rightarrow>
     worker_config \<Rightarrow> string \<Rightarrow> string \<Rightarrow> nat \<Rightarrow> 'x runtime \<Rightarrow> unit outcome \<times> 'x runtime" where
  "tick_until_wait R A boot load rnd cfg tenant w 0 T = (Inr (), T)"
| "tick_until_wait R A boot load rnd cfg tenant w (Suc n) T =
     and_then (tick_now R A boot load rnd cfg T) (\<lambda>_ T1.
       case get_instance (rt_store T1) tenant w of
         None \<Rightarrow> (Inr (), T1)
       | Some i \<Rightarrow>
           if wi_run_status i \<in> set PUMP_STOPS then (Inr (), T1)
           else tick_until_wait R A boot load rnd cfg tenant w n T1)"

definition signal_approval_and_pump ::
  "runtime_env \<Rightarrow> 'x adapter_api \<Rightarrow> ('x \<Rightarrow> bool) \<Rightarrow> (json \<Rightarrow> (string \<times> json) list outcome) \<Rightarrow> (nat \<Rightarrow> rat) \<Rightarrow>
     string \<Rightarrow> string \<Rightarrow> approval_receipt \<Rightarrow> nat \<Rightarrow> 'x runtime \<Rightarrow> workflow_instance option outcome \<times> 'x runtime" where
  "signal_approval_and_pump R A boot load rnd tenant w a ticks T =
     and_then (on_store (signal_approval R tenant w a) T) (\<lambda>_ T1.
     and_then (tick_until_wait R A boot load rnd (worker_defaults ''ops-signal'') tenant w (max 1 ticks) T1) (\<lambda>_ T2.
       (Inr (get_instance (rt_store T2) tenant w), T2)))"

fun signal_type_of :: "string \<Rightarrow> signal_type" where
  "signal_type_of s =
     (if s = ''APPROVAL'' then SIG_APPROVAL else if s = ''UNBLOCK'' then SIG_UNBLOCK
      else if s = ''CANCEL'' then SIG_CANCEL else SIG_RESUBMIT)"

text \<open>\<^verbatim>\<open>runtime.signal_operator\<close>: any payload with a command key is taken as an approval.\<close>

definition signal_operator ::
  "runtime_env \<Rightarrow> 'x adapter_api \<Rightarrow> ('x \<Rightarrow> bool) \<Rightarrow> (json \<Rightarrow> (string \<times> json) list outcome) \<Rightarrow> (nat \<Rightarrow> rat) \<Rightarrow>
     string \<Rightarrow> string \<Rightarrow> string \<Rightarrow> (string \<times> json) list \<Rightarrow> 'x runtime \<Rightarrow> unit outcome \<times> 'x runtime" where
  "signal_operator R A boot load rnd tenant w kind payload T =
     (let st = upper_text kind in
      if st = ''APPROVAL'' \<or> dhas payload ''command_idempotency_key'' then
        (case approval_from_dict (re_env R) (ws_clock (rt_store T)) payload (Some tenant) of
           Inl e \<Rightarrow> (Inl e, T)
         | Inr a \<Rightarrow> and_then (signal_approval_and_pump R A boot load rnd tenant w a 20
                     (T\<lparr>rt_store := later 2 (rt_store T)\<rparr>)) (\<lambda>_ T1. (Inr (), T1)))
      else on_store (wake_with R tenant w (signal_type_of st) payload) T)"

end
