(* ===== verification/Engine_Frames.thy ===== *)
theory Engine_Frames
  imports Worker Gate_Properties
begin

text \<open>What the parts of an engine leave alone, shared by the proofs about the runtime.\<close>

section \<open>The index of an executor\<close>

text \<open>A view of the store that storing a receipt does not change is not changed by an execution.\<close>

lemma store_receipt_view:
  assumes "\<And>S r w. p (snd (put_execution_receipt S r w)) = p S"
  shows "map_option p (ex_index (snd (store_exec_receipt memory_index r X))) = map_option p (ex_index X)"
  using assms by (auto simp: store_exec_receipt_def memory_index_def Let_def split_beta split: option.split)

lemma run_command_view:
  assumes "\<And>S r w. p (snd (put_execution_receipt S r w)) = p S"
  shows "map_option p (ex_index (snd (run_command E memory_index dispatch c ap X))) = map_option p (ex_index X)"
  by (auto simp: run_command_def Let_def split_beta store_receipt_view [OF assms] split: sum.split)

lemma execute_view:
  assumes "\<And>S r w. p (snd (put_execution_receipt S r w)) = p S"
  shows "map_option p (ex_index (snd (execute E memory_index dispatch c ap ag pr X))) = map_option p (ex_index X)"
proof -
  obtain v X0 where g: "execute_guard E c ap ag pr X = (v, X0)" by fastforce
  have s0: "ex_index X0 = ex_index X" using execute_guard_frame [OF g] by simp
  have st: "map_option p (ex_index (snd (and_then (store_exec_receipt memory_index r Y) (\<lambda>_ X1. (Inr q, X1))))) =
      map_option p (ex_index Y)" for r q Y
    using store_receipt_view [OF assms, of r Y]
    by (cases "store_exec_receipt memory_index r Y"; cases "fst (store_exec_receipt memory_index r Y)") simp_all
  show ?thesis
    by (cases v) (auto simp: execute_def g Let_def st split_beta s0 run_command_view [OF assms] split: option.split)
qed

lemma put_receipt_frame [simp]:
  "ws_signals (snd (put_execution_receipt S r w)) = ws_signals S"
  "ws_instances (snd (put_execution_receipt S r w)) = ws_instances S"
  by (simp_all add: put_execution_receipt_def)

lemma engine_views:
  "ws_signals (engine_store X) = case_option [] id (map_option ws_signals (ex_index X))"
  "ws_instances (engine_store X) = case_option [] id (map_option ws_instances (ex_index X))"
  by (simp_all add: engine_store_def empty_store_def split: option.split)

lemma execute_frame [simp]:
  "ws_signals (engine_store (snd (execute E memory_index dispatch c ap ag pr X))) = ws_signals (engine_store X)"
  "ws_instances (engine_store (snd (execute E memory_index dispatch c ap ag pr X))) = ws_instances (engine_store X)"
  by (simp_all add: engine_views execute_view del: option.map_sel)

lemma engine_upd_frame [simp]:
  "ws_signals (engine_store (X\<lparr>ex_domain := d\<rparr>)) = ws_signals (engine_store X)"
  "ws_signals (engine_store (spend k X)) = ws_signals (engine_store X)"
  "ws_instances (engine_store (X\<lparr>ex_domain := d\<rparr>)) = ws_instances (engine_store X)"
  "ws_instances (engine_store (spend k X)) = ws_instances (engine_store X)"
  "ws_signals (engine_store (register_context_preview R i c X)) = ws_signals (engine_store X)"
  "ws_instances (engine_store (register_context_preview R i c X)) = ws_instances (engine_store X)"
  by (simp_all add: engine_views spend_def)

lemma record_receipt_frame [simp]:
  "ws_signals (engine_store (record_receipt r X)) = ws_signals (engine_store X)"
  "ws_instances (engine_store (record_receipt r X)) = ws_instances (engine_store X)"
  "ex_domain (record_receipt r X) = ex_domain X"
  by (simp_all add: record_receipt_def split: option.split)

section \<open>Branches on documents and lists\<close>

lemma post_case_json:
  assumes "j = JNull \<Longrightarrow> post Q a" and "\<And>b. j = JBool b \<Longrightarrow> post Q (f b)" and "\<And>i. j = JInt i \<Longrightarrow> post Q (g i)"
    and "\<And>s. j = JStr s \<Longrightarrow> post Q (h s)" and "\<And>l. j = JList l \<Longrightarrow> post Q (k l)" and "\<And>d. j = JObj d \<Longrightarrow> post Q (m d)"
  shows "post Q (case j of JNull \<Rightarrow> a | JBool b \<Rightarrow> f b | JInt i \<Rightarrow> g i | JStr s \<Rightarrow> h s | JList l \<Rightarrow> k l | JObj d \<Rightarrow> m d)"
  using assms by (cases j) simp_all

lemma post_case_list:
  "(l = [] \<Longrightarrow> post Q a) \<Longrightarrow> (\<And>x xs. l = x # xs \<Longrightarrow> post Q (f x xs)) \<Longrightarrow>
     post Q (case l of [] \<Rightarrow> a | x # xs \<Rightarrow> f x xs)"
  by (cases l) simp_all

lemmas post_cases = post_branch post_case_json post_case_list

text \<open>In sequence: what held after the first part holds through the second, or ends there.\<close>

lemma post_then:
  assumes "post (\<lambda>_. P) r" "\<And>Y. P Y \<Longrightarrow> Q Y" "\<And>a Y. P Y \<Longrightarrow> post (\<lambda>_. Q) (f a Y)"
  shows "post (\<lambda>_. Q) (and_then r f)"
  using assms by (cases r; cases "fst r") (auto simp: post_def)

section \<open>Runtimes\<close>

lemma bound_store [simp]: "bound_workspace t (T\<lparr>rt_store := S\<rparr>) = bound_workspace t T"
  by (simp add: bound_workspace_def)

lemma open_engine_fields [simp]:
  "engine_store (open_engine i T) = rt_store T" "xd_ws (ex_domain (open_engine i T)) = bound_workspace (wi_tenant i) T"
  by (simp_all add: open_engine_def engine_store_def new_exec_domain_def)

lemma close_engine_fields [simp]:
  "rt_store (close_engine t X T) = engine_store X"
  "bound_workspace s (close_engine t X T) = (if s = t then xd_ws (ex_domain X) else bound_workspace s T)"
  by (simp_all add: close_engine_def bound_workspace_def)

end
