(* ===== verification/Runtime_Safety.thy ===== *)
theory Runtime_Safety
  imports Engine_Frames
begin

text \<open>
  The safety of the workflow runtime over whole histories: as long as no operator approves, the starts, the
  pumps, the worker's ticks and the other signals spend and send nothing. The relation \<open>idle\<close> follows the
  code of every advance, \<open>thrifty\<close> the calls on the runtime.
\<close>

section \<open>Without an approval signal nothing is spent\<close>

text \<open>No signal of the store is an approval still to be taken.\<close>

definition settled_signals :: "workflow_signal list \<Rightarrow> bool" where
  "settled_signals ss \<longleftrightarrow> (\<forall>s \<in> set ss. sig_type s = SIG_APPROVAL \<longrightarrow> sig_consumed s)"

definition no_approvals :: "workflow_store \<Rightarrow> bool" where
  "no_approvals S \<longleftrightarrow> dall (\<lambda>_. settled_signals) (ws_signals S)"

lemma settled_signals_simps [simp]:
  "settled_signals []" "settled_signals (s # ss) \<longleftrightarrow> (sig_type s = SIG_APPROVAL \<longrightarrow> sig_consumed s) \<and> settled_signals ss"
  "settled_signals (ss @ ts) \<longleftrightarrow> settled_signals ss \<and> settled_signals ts"
  by (auto simp: settled_signals_def)

lemma consumed_as_simps [simp]:
  "sig_type (consumed_as r s) = sig_type s" "sig_consumed (consumed_as r s)" "sig_id (consumed_as r s) = sig_id s"
  by (simp_all add: consumed_as_def)

lemma settled_consume: "settled_signals ss \<Longrightarrow> settled_signals (consume_matching c ss)"
  by (auto simp: consume_matching_def settled_signals_def)

lemma settled_consume_all: "settled_signals ss \<Longrightarrow> settled_signals (fold consume_matching cs ss)"
  by (induction cs arbitrary: ss) (auto intro: settled_consume)

lemma settled_mark: "mark_first P r ss = Some ss' \<Longrightarrow> settled_signals ss \<Longrightarrow> settled_signals ss'"
  by (induction ss arbitrary: ss') (auto split: if_splits option.splits)

lemma settled_mark_in: "dall (\<lambda>_. settled_signals) d \<Longrightarrow> dall (\<lambda>_. settled_signals) (mark_in P r d)"
  by (induction P r d rule: mark_in.induct) (auto split: option.split intro: settled_mark)

lemma no_approvals_of: "no_approvals S \<Longrightarrow> settled_signals (signals_of S w)"
  by (auto simp: no_approvals_def signals_of_def split: option.split dest: dall_dget)

lemma same_signals: "ws_signals S' = ws_signals S \<Longrightarrow> no_approvals S' = no_approvals S"
  by (simp add: no_approvals_def)

lemma no_approvals_commit: "no_approvals S \<Longrightarrow> no_approvals (snd (commit_advance E b S))"
proof -
  assume S: "no_approvals S"
  have d: "dall (\<lambda>_. settled_signals) (dset w (fold consume_matching cs (signals_of S w)) (ws_signals S))" for w cs
    using S settled_consume_all [OF no_approvals_of [OF S]] by (auto simp: no_approvals_def)
  have "signals_of (S'\<lparr>ws_events := es, ws_clock := t\<rparr>) w = signals_of S w" if "ws_signals S' = ws_signals S" for S' es t w
    using that by (simp add: signals_of_def)
  then show ?thesis
    using S d by (auto simp: commit_advance_def Let_def split_beta no_approvals_def put_instance_frame split: option.split)
qed

lemma no_approvals_mark: "no_approvals S \<Longrightarrow> no_approvals (mark_signal_consumed t sid r S)"
  by (simp add: no_approvals_def mark_signal_consumed_def settled_mark_in)

lemma update_signals [simp]: "ws_signals (snd (update_instance i S)) = ws_signals S"
  by (simp add: update_instance_def split: option.split)

lemma append_signals [simp]: "ws_signals (snd (append_events E t w evs S)) = ws_signals S"
  by (simp add: append_events_def split_beta Let_def split: option.split)

section \<open>Engines\<close>

definition spares :: "'x exec_domain \<Rightarrow> 'x exec_domain \<Rightarrow> bool" where
  "spares D D' \<longleftrightarrow> unspent (xd_ledger D) (xd_ledger D') \<and> tw_deliveries (xd_ws D') = tw_deliveries (xd_ws D)"

text \<open>Starting without approvals, the engine ends without approvals and has spent and sent nothing.\<close>

definition idle :: "'x engine \<Rightarrow> 'x engine \<Rightarrow> bool" where
  "idle X X' \<longleftrightarrow> (no_approvals (engine_store X) \<longrightarrow>
     no_approvals (engine_store X') \<and> spares (ex_domain X) (ex_domain X'))"

lemma idle_refl [simp]: "idle X X"
  by (simp add: idle_def spares_def)

lemma idle_trans: "idle X Y \<Longrightarrow> idle Y Z \<Longrightarrow> idle X Z"
  by (auto simp: idle_def spares_def intro: unspent_trans)

lemma idleI: "ws_signals (engine_store X') = ws_signals (engine_store X) \<Longrightarrow>
    spares (ex_domain X) (ex_domain X') \<Longrightarrow> idle X X'"
  by (simp add: idle_def no_approvals_def)

lemma idle_in_store: "(\<And>S. no_approvals S \<Longrightarrow> no_approvals (snd (f S))) \<Longrightarrow> idle X (snd (in_store f X))"
  by (simp add: idle_def spares_def)

lemma idle_commit [simp]: "idle X (snd (commit R i evs rs cons X))"
proof -
  have "no_approvals (snd (and_then (commit_advance E b S) (\<lambda>_ S'. (Inr (g S'), S'))))"
    if "no_approvals S" for E b S and g :: "workflow_store \<Rightarrow> workflow_instance option"
    using no_approvals_commit [OF that, of E b] by (cases "commit_advance E b S"; cases "fst (commit_advance E b S)") simp_all
  then show ?thesis
    unfolding commit_def Let_def by (intro idle_in_store) (simp add: no_approvals_def)
qed

lemma idle_then:
  "idle X (snd r) \<Longrightarrow> (\<And>a Y. r = (Inr a, Y) \<Longrightarrow> idle Y (snd (f a Y))) \<Longrightarrow> idle X (snd (and_then r f))"
  by (cases r; cases "fst r") (auto intro: idle_trans)

lemma idle_execute:
  "idle X (snd (execute E memory_index (dispatch_command E A boot) c None ag p X))"
proof (rule idleI [OF execute_frame(1)])
  let ?r = "execute E memory_index (dispatch_command E A boot) c None ag p X"
  show "spares (ex_domain X) (ex_domain (snd ?r))"
  proof (cases "requires_human_approval c")
    case True
    then have "assert_execution_authorized c None ag \<noteq> Inr ()" by (simp add: assert_execution_authorized_def)
    then show ?thesis
      using execute_unauthorized(2) [of c None ag E memory_index "dispatch_command E A boot" p X]
      by (simp add: spares_def)
  next
    case False
    then have "cmd_type c \<notin> set L3_COMMAND_TYPES" by (simp add: requires_human_approval_def)
    then show ?thesis
      using dispatch_unapproved [of c "ex_domain X" E A boot]
        execute_domain [of E memory_index "dispatch_command E A boot" c None ag p X] by (auto simp: spares_def)
  qed
qed


lemma idle_spend: "idle X Y \<Longrightarrow> idle X (spend k Y)"
  by (simp add: idle_def no_approvals_def spares_def) (simp add: spend_def)

lemma idle_hold: "idle X Y \<Longrightarrow> idle X (hold i Y)"
proof -
  assume "idle X Y"
  moreover have "idle Y (hold i Y)"
    unfolding hold_def by (rule idle_in_store) (simp add: no_approvals_def put_instance_def)
  ultimately show ?thesis by (rule idle_trans)
qed

lemma idle_record: "idle X Y \<Longrightarrow> idle X (record_receipt r Y)"
proof -
  assume "idle X Y"
  moreover have "idle Y (record_receipt r Y)"
    by (auto simp: record_receipt_def put_execution_receipt_def no_approvals_def intro!: idle_in_store split: option.split)
  ultimately show ?thesis by (rule idle_trans)
qed

lemma post_idle: "idle X (snd r) \<Longrightarrow> post (\<lambda>_. idle X) r"
  by (simp add: post_def)

lemma post_commit: "idle X Y \<Longrightarrow> post (\<lambda>_. idle X) (commit R i evs rs cons Y)"
  using idle_trans [OF _ idle_commit] by (simp add: post_def)

lemma post_idle_then:
  "post (\<lambda>_. idle X) r \<Longrightarrow> (\<And>a Y. idle X Y \<Longrightarrow> post (\<lambda>_. idle X) (f a Y)) \<Longrightarrow> post (\<lambda>_. idle X) (and_then r f)"
  by (rule post_then [where P = "idle X"]) auto

lemma post_execute:
  "idle X Y \<Longrightarrow> post (\<lambda>_. idle X) (execute E memory_index (dispatch_command E A boot) c None ag p Y)"
  using idle_trans [OF _ idle_execute] by (simp add: post_def)

lemma post_execute_list: "idle X Y \<Longrightarrow> post (\<lambda>_. idle X) (execute_list R A boot xs Y)"
proof (induction xs arbitrary: Y)
  case (Cons x xs)
  show ?case
    unfolding execute_list.simps
    by (intro post_idle_then post_execute Cons.IH idle_record post_pair Cons.prems)
qed (simp add: post_def)

lemmas idle_intros = post_cases post_idle_then post_commit post_pair
  idle_spend idle_hold idle_refl

section \<open>Every advance\<close>

lemma no_matching:
  assumes "no_approvals S" "matching_approvals now want (take_unconsumed_signals S t w) = Inr ms"
  shows "ms = []"
proof (rule ccontr)
  assume "ms \<noteq> []"
  then obtain s a where "(s, a) \<in> set ms" by (cases ms) auto
  from matching_approvals_sound [OF assms(2) this]
  have s: "s \<in> set (take_unconsumed_signals S t w)" "approval_of_signal now s = Inr (Some a)" by blast+
  then have "sig_type s = SIG_APPROVAL" by (auto simp: approval_of_signal_def Let_def split: if_splits)
  moreover have "\<not> sig_consumed s" "s \<in> set (signals_of S w)"
    using s(1) by (auto simp: take_unconsumed_signals_def split: option.splits)
  ultimately show False using no_approvals_of [OF assms(1), of w] by (auto simp: settled_signals_def)
qed

lemma idle_human_gate: "idle X (snd (advance_human_gate R A boot i X))"
proof (cases "no_approvals (engine_store X)")
  case True
  let ?ss = "take_unconsumed_signals (engine_store X) (wi_tenant i) (wi_id i)"
  have "post (\<lambda>_. idle X) (advance_human_gate R A boot i X)"
    unfolding advance_human_gate_def Let_def gate_after_timeout_def
    by (rule post_branch | rule post_pair idle_refl | rule post_commit)+
       (auto dest!: no_matching [OF True] simp: post_def)
  then show ?thesis by (simp add: post_def)
qed (simp add: idle_def)

lemma idle_digest_gate: "idle X (snd (advance_digest_approval R i X))"
proof -
  have "post (\<lambda>_. idle X) (advance_digest_approval R i X)"
    unfolding advance_digest_approval_def Let_def by (intro idle_intros)
  then show ?thesis by (simp add: post_def)
qed

lemma idle_received: "idle X (snd (advance_received R A boot i cx X))"
proof -
  have "post (\<lambda>_. idle X) (advance_received R A boot i cx X)"
    unfolding advance_received_def Let_def by (intro idle_intros post_execute_list)
  then show ?thesis by (simp add: post_def)
qed

lemma post_classify: "idle X Y \<Longrightarrow> post (\<lambda>_. idle X) (classify_and_park R A boot i cx eid view items alloc s evs Y)"
  unfolding classify_and_park_def park_for_review_def Let_def by (intro idle_intros post_execute_list; assumption)

lemma idle_normalized: "idle X (snd (advance_normalized R A boot i cx X))"
proof -
  have "post (\<lambda>_. idle X) (advance_normalized R A boot i cx X)"
    unfolding advance_normalized_def Let_def by (intro idle_intros post_classify)
  then show ?thesis by (simp add: post_def)
qed

lemma idle_after_ledger: "idle X (snd (advance_after_ledger R i X))"
proof -
  have "post (\<lambda>_. idle X) (advance_after_ledger R i X)"
    unfolding advance_after_ledger_def Let_def by (intro idle_intros)
  then show ?thesis by (simp add: post_def)
qed

lemma idle_preview: "idle X (X\<lparr>ex_domain := register_preview pv (ex_domain X)\<rparr>)"
  by (rule idleI) (simp_all add: spares_def register_preview_def xd_ledger_def)

lemma idle_published: "idle X (snd (advance_published R i cx X))"
proof -
  have "post (\<lambda>_. idle X) (advance_published R i cx X)"
    unfolding advance_published_def Let_def by (intro idle_intros idle_preview)
  then show ?thesis by (simp add: post_def)
qed

lemma idle_correction: "idle X (snd (advance_correction R A boot i X))"
proof -
  have "post (\<lambda>_. idle X) (propose_correction R i X)"
    unfolding propose_correction_def park_correction_def Let_def by (intro idle_intros)
  then have "post (\<lambda>_. idle X) (advance_correction R A boot i X)"
    unfolding advance_correction_def Let_def by (intro idle_intros post_idle idle_human_gate; simp add: post_def)
  then show ?thesis by (simp add: post_def)
qed

lemma idle_digest: "idle X (snd (advance_digest R load i X))"
proof -
  have "post (\<lambda>_. idle X) (advance_digest_received R load i X)"
    unfolding advance_digest_received_def Let_def by (intro idle_intros)
  then have "post (\<lambda>_. idle X) (advance_digest R load i X)"
    unfolding advance_digest_def Let_def by (intro idle_intros post_idle idle_digest_gate; simp add: post_def)
  then show ?thesis by (simp add: post_def)
qed

lemma idle_step: "idle X (snd (advance_step R A boot load i X))"
proof -
  have st: "idle X (snd (in_store (update_instance j) (spend 1 X)))" for j
    by (rule idle_trans [OF idle_spend [OF idle_refl] idle_in_store]) (simp add: no_approvals_def)
  have "post (\<lambda>_. idle X) (advance_step R A boot load i X)"
    unfolding advance_step_def Let_def
    by (intro post_branch post_idle_then post_pair post_idle idle_refl st idle_correction idle_digest idle_human_gate
        idle_received idle_normalized idle_after_ledger idle_published; assumption)
  then show ?thesis by (simp add: post_def)
qed


section \<open>Runtimes\<close>

definition rt_ledger :: "string \<Rightarrow> 'x runtime \<Rightarrow> ledger" where
  "rt_ledger t T = tw_ledger (bound_workspace t T)"

definition rt_deliveries :: "string \<Rightarrow> 'x runtime \<Rightarrow> (string, notification_delivery) dict" where
  "rt_deliveries t T = tw_deliveries (bound_workspace t T)"

definition thrifty :: "'x runtime \<Rightarrow> 'x runtime \<Rightarrow> bool" where
  "thrifty T T' \<longleftrightarrow> (no_approvals (rt_store T) \<longrightarrow> no_approvals (rt_store T') \<and>
     (\<forall>t. unspent (rt_ledger t T) (rt_ledger t T') \<and> rt_deliveries t T' = rt_deliveries t T))"

lemma thrifty_refl [simp]: "thrifty T T"
  by (simp add: thrifty_def)

lemma thrifty_trans: "thrifty T T1 \<Longrightarrow> thrifty T1 T2 \<Longrightarrow> thrifty T T2"
  by (auto simp: thrifty_def intro: unspent_trans)

lemma thrifty_store: "(no_approvals (rt_store T) \<Longrightarrow> no_approvals S) \<Longrightarrow> thrifty T (T\<lparr>rt_store := S\<rparr>)"
  by (simp add: thrifty_def rt_ledger_def rt_deliveries_def)

lemma thrifty_advance: "thrifty T (snd (advance_once R A boot load i T))"
proof (cases "get_instance (rt_store T) (wi_tenant i) (wi_id i)")
  case (Some j)
  then have j: "wi_tenant j = wi_tenant i" by (auto simp: get_instance_def split: option.splits if_splits)
  obtain v X where x: "advance_step R A boot load j (open_engine j T) = (v, X)" by fastforce
  then have "idle (open_engine j T) X" using idle_step [of "open_engine j T" R A boot load j] by simp
  then show ?thesis
    using j by (auto simp: advance_once_def Some x thrifty_def idle_def spares_def rt_ledger_def rt_deliveries_def xd_ledger_def)
qed (simp add: advance_once_def)

text \<open>A call on the runtime, step by step.\<close>

lemma thrifty_then:
  "thrifty T (snd r) \<Longrightarrow> (\<And>a U. r = (Inr a, U) \<Longrightarrow> thrifty U (snd (f a U))) \<Longrightarrow> thrifty T (snd (and_then r f))"
  by (cases r; cases "fst r") (auto intro: thrifty_trans)

lemma thrifty_on_store:
  "(\<And>S. no_approvals S \<Longrightarrow> no_approvals (snd (f S))) \<Longrightarrow> thrifty T (snd (on_store f T))"
  by (auto simp: on_store_def split_beta intro: thrifty_store)

lemma no_approvals_later [simp]: "no_approvals (later k S) = no_approvals S"
  by (simp add: no_approvals_def later_def)

lemma thrifty_pump: "thrifty T (snd (pump R A boot load n i T))"
proof (induction n arbitrary: i T)
  case (Suc n)
  let ?i = "if wi_run_status i = RETRY_SCHEDULED then i\<lparr>wi_run_status := PENDING\<rparr> else i"
  let ?T = "if wi_run_status i = RETRY_SCHEDULED then T\<lparr>rt_store := put_instance (wi_id i) ?i (rt_store T)\<rparr> else T"
  have "thrifty T ?T" by (auto intro!: thrifty_store simp: no_approvals_def)
  moreover have "thrifty ?T (snd (and_then (advance_once R A boot load ?i ?T) (\<lambda>_ T2.
      case get_instance (rt_store T2) (wi_tenant i) (wi_id i) of
        None \<Rightarrow> (Inr None, T2) | Some j \<Rightarrow> pump R A boot load n j T2)))"
    by (rule thrifty_then [OF thrifty_advance]) (auto simp: Suc.IH split: option.split)
  ultimately show ?case using thrifty_trans by (auto simp: Let_def)
qed simp

lemma no_approvals_dead_letter: "no_approvals S \<Longrightarrow> no_approvals (snd (dead_letter R i reason S))"
proof -
  assume S: "no_approvals S"
  obtain v S1 where u: "update_instance (i\<lparr>wi_run_status := DEAD_LETTER, wi_last_error := Some reason,
      wi_lease_owner := None, wi_lease_expires := None, wi_updated := now_iso (re_env R) (ws_clock S)\<rparr>) (later 1 S) = (v, S1)"
    by fastforce
  have "ws_signals S1 = ws_signals S" using arg_cong [OF u, of "\<lambda>r. ws_signals (snd r)"] by (simp add: later_def)
  then show ?thesis using S unfolding dead_letter_def Let_def u by (cases v) (simp_all add: no_approvals_def)
qed

lemma dead_letter_eq: "dead_letter R i reason S = (v, S') \<Longrightarrow> no_approvals S \<Longrightarrow> no_approvals S'"
  using no_approvals_dead_letter [of S R i reason] by simp

lemma update_eq: "update_instance i S = (v, S') \<Longrightarrow> no_approvals S' = no_approvals S"
  using update_signals [of i S] by (simp add: no_approvals_def)

lemma after_advance_signals: "after_advance R rnd cfg i res S = (v, r, S') \<Longrightarrow> no_approvals S \<Longrightarrow> no_approvals S'"
  by (auto simp: after_advance_def Let_def split: option.splits if_splits sum.splits prod.splits
      dest: dead_letter_eq update_eq)

lemma handle_error_signals: "handle_process_error R cfg i e res S = (v, r, S') \<Longrightarrow> no_approvals S \<Longrightarrow> no_approvals S'"
  by (auto simp: handle_process_error_def Let_def split: option.splits if_splits sum.splits prod.splits
      dest: dead_letter_eq update_eq)

lemma thrifty_process_one: "process_one R A boot load rnd cfg i res T = (v, r, T') \<Longrightarrow> thrifty T T'"
proof -
  assume p: "process_one R A boot load rnd cfg i res T = (v, r, T')"
  show ?thesis
  proof (cases "wi_attempts i \<ge> wc_max cfg")
    case True
    have "thrifty T (snd (on_store (dead_letter R i ''max_attempts_exceeded'') T))"
      by (rule thrifty_on_store) (rule no_approvals_dead_letter)
    then show ?thesis using p True by (auto simp: process_one_def split: prod.splits sum.splits)
  next
    case False
    obtain w U where a: "advance_once R A boot load i T = (w, U)" by fastforce
    then have "thrifty T U" using thrifty_advance [of T R A boot load i] by simp
    moreover have "thrifty U T'"
      using p False a by (auto simp: process_one_def Let_def split: sum.splits option.splits prod.splits
          intro!: thrifty_store dest: after_advance_signals)
    ultimately show ?thesis by (rule thrifty_trans)
  qed
qed

lemma thrifty_process_all: "thrifty T (snd (process_all R A boot load rnd cfg is res T))"
proof (induction "is" arbitrary: res T)
  case (Cons i "is")
  obtain v r U where p: "process_one R A boot load rnd cfg i res T = (v, r, U)" using prod_cases3 by blast
  note TU = thrifty_process_one [OF p]
  show ?case
  proof (cases v)
    case (Inr u)
    then show ?thesis using p thrifty_trans [OF TU Cons.IH] by simp
  next
    case (Inl e)
    obtain w r2 S where h: "handle_process_error R cfg i e
        (r\<lparr>tk_errors := tk_errors r @ [wi_id i @ '': '' @ exn_str e]\<rparr>) (rt_store U) = (w, r2, S)" using prod_cases3 by blast
    have "thrifty U (U\<lparr>rt_store := S\<rparr>)" using handle_error_signals [OF h] by (rule thrifty_store)
    then show ?thesis
      using p Inl h thrifty_trans [OF TU] thrifty_trans [OF _ Cons.IH] by (cases w) auto
  qed
qed simp

lemma claim_signals [simp]: "ws_signals (snd (claim C w l now ttl S)) = ws_signals S"
proof -
  have "ws_signals (snd (claim_all f cs S)) = ws_signals S" for f cs S
    by (induction cs arbitrary: S) (auto simp: Let_def split_beta)
  then show ?thesis by (simp add: claim_def Let_def split_beta split: sum.split)
qed

lemma sweep_signals [simp]: "ws_signals (snd (sweep_approval_timeouts C now S)) = ws_signals S"
proof -
  have t: "ws_signals (snd (time_out C now k i S)) = ws_signals S" for k i S
    by (simp add: time_out_def Let_def split: sum.split)
  have "ws_signals (snd (sweep_loop C now xs S)) = ws_signals S" for xs S
  proof (induction xs arbitrary: S)
    case (Cons ki xs)
    obtain k i where ki: "ki = (k, i)" by fastforce
    obtain v S1 where o: "time_out C now k i S = (v, S1)" by fastforce
    have S1: "ws_signals S1 = ws_signals S" using t [of k i S] o by simp
    obtain w S2 where l: "sweep_loop C now xs S1 = (w, S2)" by fastforce
    have S2: "ws_signals S2 = ws_signals S1" using Cons.IH [of S1] l by simp
    show ?case using Cons.IH [of S] S1 S2 by (cases v; cases w) (simp_all add: ki o l split: sum.split)
  qed simp
  then show ?thesis by (simp add: sweep_approval_timeouts_def)
qed

lemma thrifty_tick: "thrifty T (snd (tick R A boot load rnd cfg now T))"
  unfolding tick_def
  by (intro thrifty_then thrifty_process_all thrifty_on_store)
     (auto simp: no_approvals_def intro!: thrifty_then thrifty_on_store)

lemma thrifty_tick_now: "thrifty T (snd (tick_now R A boot load rnd cfg T))"
  unfolding tick_now_def by (rule thrifty_trans [OF thrifty_store thrifty_tick]) simp


lemma thrifty_run_worker: "thrifty T (snd (run_worker R A boot load rnd cfg stop n T))"
proof (induction n arbitrary: T)
  case (Suc n)
  have "thrifty U (snd (if stop \<and> tk_claimed r = 0 \<and> tk_timed_out r = 0 then (Inr [r], U)
      else and_then (run_worker R A boot load rnd cfg stop n U) (\<lambda>rs T2. (Inr (r # rs), T2))))" for r U
    by (auto intro!: thrifty_then Suc.IH)
  then show ?case unfolding run_worker.simps by (intro thrifty_then thrifty_tick_now)
qed simp

lemma no_approvals_create: "no_approvals S \<Longrightarrow> no_approvals (snd (create i S))"
  by (auto simp: create_def no_approvals_def default_list_def)

lemma no_approvals_launch: "no_approvals S \<Longrightarrow> no_approvals (snd (launch R i p S))"
proof -
  assume S: "no_approvals S"
  obtain v S1 where c: "create i S = (v, S1)" by fastforce
  have S1: "no_approvals S1" using no_approvals_create [OF S, of i] c by simp
  obtain w S2 where a: "append_events (re_env R) (wi_tenant i) (wi_id i) [Inl (event EV_CREATED p)] S1 = (w, S2)"
    by fastforce
  have "no_approvals S2"
    using S1 append_signals [of "re_env R" "wi_tenant i" "wi_id i" "[Inl (event EV_CREATED p)]" S1] a
    by (simp add: no_approvals_def)
  then show ?thesis using S1 by (cases v; cases w) (simp_all add: launch_def c a)
qed

lemma no_approvals_wake:
  "ty \<noteq> SIG_APPROVAL \<Longrightarrow> no_approvals S \<Longrightarrow> no_approvals (snd (wake_with R t w ty p S))"
  using no_approvals_of [of S w]
  by (auto simp: wake_with_def Let_def enqueue_signal_and_wake_def operator_signal_def no_approvals_def later_def
      signals_of_def split: option.split)

section \<open>Histories of a runtime\<close>

datatype runtime_cmd =
    StartExpense string "(string \<times> json) list" json bool bool "(string \<times> json) list option" "string option" "string option"
  | StartDigest string "string option" json json "string option" bool "(int + string) option" bool
      "(string \<times> json) list option" "string option"
  | StartCorrection string string string string json json bool "(string \<times> json) list option" "string option"
  | SignalApproval string string approval_receipt
  | SignalOperator string string string "(string \<times> json) list"
  | PumpWorkflow string string nat
  | WorkerTick worker_config int

fun runtime_step ::
  "runtime_env \<Rightarrow> 'x adapter_api \<Rightarrow> ('x \<Rightarrow> bool) \<Rightarrow> (json \<Rightarrow> (string \<times> json) list outcome) \<Rightarrow> (nat \<Rightarrow> rat) \<Rightarrow>
     'x runtime \<Rightarrow> runtime_cmd \<Rightarrow> 'x runtime" where
  "runtime_step R A boot load rnd T (StartExpense t row spec email sim pol bk pre) =
     snd (on_store (start_expense_to_receipt R t row spec email sim pol bk pre) T)"
| "runtime_step R A boot load rnd T (StartDigest t period doc path src appr nxt sim pol bk) =
     snd (on_store (start_scheduled_digest R t period doc path src appr nxt sim pol bk) T)"
| "runtime_step R A boot load rnd T (StartCorrection t eid kind why repl splits sim pol bk) =
     snd (on_store (start_correction R t eid kind why repl splits sim pol bk) T)"
| "runtime_step R A boot load rnd T (SignalApproval t w a) = snd (on_store (signal_approval R t w a) T)"
| "runtime_step R A boot load rnd T (SignalOperator t w kind p) = snd (signal_operator R A boot load rnd t w kind p T)"
| "runtime_step R A boot load rnd T (PumpWorkflow t w n) = snd (run_until_wait_or_terminal R A boot load t w n T)"
| "runtime_step R A boot load rnd T (WorkerTick cfg now) = snd (tick R A boot load rnd cfg now T)"

text \<open>The commands by which an operator approves.\<close>

fun approves :: "runtime_cmd \<Rightarrow> bool" where
  "approves (SignalApproval _ _ _) = True"
| "approves (SignalOperator _ _ kind p) = (upper_text kind = ''APPROVAL'' \<or> dhas p ''command_idempotency_key'')"
| "approves _ = False"

lemma thrifty_runtime_step: "\<not> approves c \<Longrightarrow> thrifty T (runtime_step R A boot load rnd T c)"
proof (cases c)
  case (StartExpense t row spec email sim pol bk pre)
  then show ?thesis
    by (auto intro!: thrifty_on_store no_approvals_launch simp: start_expense_to_receipt_def Let_def)
next
  case (StartDigest t period doc path src appr nxt sim pol bk)
  then show ?thesis
    by (auto intro!: thrifty_on_store no_approvals_launch simp: start_scheduled_digest_def Let_def)
next
  case (StartCorrection t eid kind why repl splits sim pol bk)
  then show ?thesis
    by (auto intro!: thrifty_on_store no_approvals_launch simp: start_correction_def Let_def)
next
  case (SignalOperator t w kind p)
  moreover assume "\<not> approves c"
  ultimately show ?thesis
    by (auto simp: signal_operator_def Let_def intro!: thrifty_on_store no_approvals_wake split: if_splits)
next
  case (PumpWorkflow t w n)
  then show ?thesis by (auto simp: run_until_wait_or_terminal_def thrifty_pump split: option.split)
next
  case (WorkerTick cfg now)
  then show ?thesis using thrifty_tick by auto
qed simp

text \<open>C3. While no operator approves, a runtime spends nothing: in every history of starts, pumps, worker
  ticks and other signals, interleaved over any number of workflows and tenants, no tenant's ledger gains a receipt, an
  attribution, a donation or an approval, what was approved before stays as it was, and no message is delivered.\<close>

theorem no_approval_no_spending:
  assumes "no_approvals (rt_store T)" and "\<forall>c \<in> set cs. \<not> approves c"
  shows "\<forall>t. unspent (rt_ledger t T) (rt_ledger t (run (runtime_step R A boot load rnd) T cs)) \<and>
    rt_deliveries t (run (runtime_step R A boot load rnd) T cs) = rt_deliveries t T"
proof -
  have "thrifty T (run (runtime_step R A boot load rnd) T cs)"
    using assms(2)
  proof (induction cs arbitrary: T)
    case (Cons c cs)
    have "thrifty T (runtime_step R A boot load rnd T c)" using Cons.prems by (simp add: thrifty_runtime_step)
    moreover have "thrifty (runtime_step R A boot load rnd T c) (run (runtime_step R A boot load rnd) T (c # cs))"
      using Cons.IH Cons.prems by simp
    ultimately show ?case by (rule thrifty_trans)
  qed simp
  then show ?thesis using assms(1) by (simp add: thrifty_def)
qed

definition demo_host :: "in_process_adapter runtime" where
  "demo_host = \<lparr>rt_store = demo_store REVIEW_PENDING WAITING_SIGNAL, rt_workspaces = [(''o'', empty_workspace demo6)]\<rparr>"

lemma demo_host_ledger: "rt_ledger ''o'' demo_host = demo6"
  by (simp add: demo_host_def rt_ledger_def bound_workspace_def empty_workspace_def)

lemma demo_host_quiet: "no_approvals (rt_store demo_host)"
  by (simp add: demo_host_def no_approvals_def demo_store_def empty_store_def create_def default_list_def)

definition demo_day :: "runtime_cmd list" where
  "demo_day = [StartExpense ''o'' [(''external_source_id'', JStr ''x'')] JNull False False None None None,
     SignalOperator ''o'' ''w'' ''UNBLOCK'' [], WorkerTick (worker_defaults ''k'') 0, PumpWorkflow ''o'' ''w'' 50,
     WorkerTick (worker_defaults ''k'') 90000000]"

lemma demo_day_unapproved: "\<forall>c \<in> set demo_day. \<not> approves c"
  by (simp add: demo_day_def upper_text_def upper_char_def)

theorem no_approval_no_spending_witness:
  "unspent demo6 (rt_ledger ''o'' (run (runtime_step demo_runtime in_process_api (\<lambda>_. True) (\<lambda>_. Inr []) (\<lambda>_. 0))
     demo_host demo_day))"
  using no_approval_no_spending [OF demo_host_quiet demo_day_unapproved, of demo_runtime in_process_api "\<lambda>_. True"
      "\<lambda>_. Inr []" "\<lambda>_. 0"] demo_host_ledger
  by metis

end
