(* ===== verification/Runtime_Machine.thy ===== *)
theory Runtime_Machine
  imports Runtime_Safety
begin

text \<open>
  The runtime refines its transition tables: whatever is started, signalled, pumped, swept or worked on, every
  stored workflow moves along the machine of its type. The invariant \<open>store_ok\<close> says which states occur and
  that the command frozen at a gate is one of the gate's own commands.
\<close>

section \<open>The machines and the invariant\<close>

fun machine_of :: "workflow_type \<Rightarrow> transition_table" where
  "machine_of EXPENSE_TO_RECEIPT = EXPENSE_TO_RECEIPT_TRANSITIONS"
| "machine_of WF_CORRECTION = CORRECTION_TRANSITIONS"
| "machine_of SCHEDULED_DIGEST = DIGEST_TRANSITIONS"

text \<open>Legal transitions, one after the other.\<close>

abbreviation moves :: "workflow_type \<Rightarrow> workflow_state \<Rightarrow> workflow_state \<Rightarrow> bool" where
  "moves ty \<equiv> rtranclp (can_transition (Some (machine_of ty)))"

fun states_of :: "workflow_type \<Rightarrow> workflow_state list" where
  "states_of EXPENSE_TO_RECEIPT = [RECEIVED, NORMALIZED, BLOCKED, REVIEW_PENDING, NEEDS_INFORMATION, LEDGER_COMMITTED,
     PUBLICATION_PENDING, PUBLISHED, NOTIFICATION_PENDING, DELIVERED, WF_REJECTED]"
| "states_of WF_CORRECTION = [RECEIVED, REVIEW_PENDING, BLOCKED, NEEDS_INFORMATION, LEDGER_COMMITTED, DELIVERED, WF_REJECTED]"
| "states_of SCHEDULED_DIGEST =
     [RECEIVED, PUBLICATION_PENDING, PUBLISHED, BLOCKED, NEEDS_INFORMATION, WF_REJECTED, DELIVERED]"

definition gate_commands :: "workflow_type \<Rightarrow> workflow_state \<Rightarrow> string list" where
  "gate_commands ty s =
     (if ty = EXPENSE_TO_RECEIPT then
        (if s = REVIEW_PENDING then [''approve_expense'']
         else if s = PUBLICATION_PENDING then [''publish_use_of_funds_receipt'']
         else if s = NOTIFICATION_PENDING then [''send_notification''] else [])
      else if ty = WF_CORRECTION \<and> s = REVIEW_PENDING then [''reverse_expense'', ''supersede_expense''] else [])"

text \<open>The command frozen in a wait, when one can be read.\<close>

definition frozen_in :: "json \<Rightarrow> frozen_command \<Rightarrow> bool" where
  "frozen_in wait f \<longleftrightarrow> (\<exists>w fz. wait = JObj w \<and> obj_get w ''frozen_command'' = JObj fz \<and> frozen_from_dict fz = Inr f)"

definition wait_fits :: "workflow_type \<Rightarrow> workflow_state \<Rightarrow> json \<Rightarrow> bool" where
  "wait_fits ty s wait \<longleftrightarrow>
     (ty \<noteq> SCHEDULED_DIGEST \<and> is_human_gate s \<longrightarrow> (\<forall>f. frozen_in wait f \<longrightarrow> fz_type f \<in> set (gate_commands ty s)))"

definition instance_ok :: "workflow_instance \<Rightarrow> bool" where
  "instance_ok i \<longleftrightarrow> wi_state i \<in> set (states_of (wi_type i)) \<and>
     wait_fits (wi_type i) (wi_state i) (obj_get (wi_context i) ''wait'')"

definition store_ok :: "workflow_store \<Rightarrow> bool" where
  "store_ok S \<longleftrightarrow> dict_ok (ws_instances S) \<and> dall (\<lambda>k i. wi_id i = k \<and> instance_ok i) (ws_instances S)"

text \<open>An instance after it moved legally.\<close>

definition advanced :: "workflow_instance \<Rightarrow> workflow_instance \<Rightarrow> bool" where
  "advanced i j \<longleftrightarrow> wi_type j = wi_type i \<and> wi_tenant j = wi_tenant i \<and> moves (wi_type i) (wi_state i) (wi_state j)"

lemma advanced_refl [simp]: "advanced i i"
  by (simp add: advanced_def)

lemma advanced_trans: "advanced i j \<Longrightarrow> advanced j k \<Longrightarrow> advanced i k"
  by (auto simp: advanced_def)

lemma no_gate_fits [simp]: "\<not> is_human_gate s \<Longrightarrow> wait_fits ty s w"
  by (simp add: wait_fits_def)

section \<open>Within one advance\<close>

text \<open>While instance \<open>i\<close> of the store \<open>S\<close> is advanced, only its own entry changes: \<open>held\<close> before the
  state moves, \<open>landed\<close> at the end.\<close>

definition landed :: "workflow_instance \<Rightarrow> workflow_store \<Rightarrow> workflow_store \<Rightarrow> bool" where
  "landed i S S' \<longleftrightarrow> store_ok S' \<and> (\<forall>v. v \<noteq> wi_id i \<longrightarrow> dget (ws_instances S') v = dget (ws_instances S) v) \<and>
     (\<exists>j. dget (ws_instances S') (wi_id i) = Some j \<and> advanced i j)"

definition held :: "workflow_instance \<Rightarrow> workflow_store \<Rightarrow> 'x engine \<Rightarrow> bool" where
  "held i S X \<longleftrightarrow> store_ok (engine_store X) \<and>
     (\<forall>v. v \<noteq> wi_id i \<longrightarrow> dget (ws_instances (engine_store X)) v = dget (ws_instances S) v) \<and>
     (\<exists>j. dget (ws_instances (engine_store X)) (wi_id i) = Some j \<and> wi_type j = wi_type i \<and>
        wi_tenant j = wi_tenant i \<and> wi_state j = wi_state i)"

lemma get_instance_entry:
  "get_instance S t w = Some i \<Longrightarrow> dget (ws_instances S) w = Some i \<and> wi_tenant i = t"
  by (auto simp: get_instance_def split: option.splits if_splits)

text \<open>The advance returns the workflow it advanced.\<close>

definition returns :: "workflow_instance \<Rightarrow> workflow_instance option outcome \<Rightarrow> bool" where
  "returns i v \<longleftrightarrow> (\<forall>j. v = Inr (Some j) \<longrightarrow> wi_id j = wi_id i)"

abbreviation lands :: "workflow_instance \<Rightarrow> workflow_store \<Rightarrow> workflow_instance option outcome \<times> 'x engine \<Rightarrow> bool" where
  "lands i S \<equiv> post (\<lambda>v Z. landed i S (engine_store Z) \<and> returns i v)"

lemma held_landed: "held i S X \<Longrightarrow> landed i S (engine_store X)"
  by (auto simp: held_def landed_def advanced_def)

lemma same_instances_ok: "ws_instances S' = ws_instances S \<Longrightarrow> store_ok S' = store_ok S"
  by (simp add: store_ok_def)

lemma held_same: "ws_instances (engine_store Y) = ws_instances (engine_store X) \<Longrightarrow> held i S X \<Longrightarrow> held i S Y"
  by (simp add: held_def store_ok_def)

lemma store_ok_put: "store_ok S \<Longrightarrow> wi_id i = k \<Longrightarrow> instance_ok i \<Longrightarrow> store_ok (put_instance k i S)"
  by (auto simp: store_ok_def)

lemma store_ok_get: "store_ok S \<Longrightarrow> dget (ws_instances S) k = Some i \<Longrightarrow> wi_id i = k \<and> instance_ok i"
  by (auto simp: store_ok_def dest: dall_dget)

text \<open>What an instance may become: the same workflow, moved legally.\<close>

definition may_become :: "workflow_instance \<Rightarrow> workflow_instance \<Rightarrow> bool" where
  "may_become i j \<longleftrightarrow> wi_id j = wi_id i \<and> advanced i j \<and> instance_ok j"

lemma commit_instances:
  assumes "dget (ws_instances (engine_store X)) (wi_id i) = Some k" "wi_tenant k = wi_tenant i"
  obtains seq u where "ws_instances (engine_store (snd (commit R i evs rs cons X))) =
      dset (wi_id i) (i\<lparr>wi_event_seq := seq, wi_updated := u\<rparr>) (ws_instances (engine_store X))"
proof -
  let ?S = "engine_store X"
  let ?i = "i\<lparr>wi_updated := now_iso (re_env R) (ws_clock ?S)\<rparr>"
  let ?b = "\<lparr>ab_tenant = wi_tenant i, ab_workflow = wi_id i, ab_instance = ?i, ab_events = map Inl evs,
    ab_receipts = rs, ab_consume = cons\<rparr>"
  let ?S1 = "?S\<lparr>ws_clock := Suc (ws_clock ?S)\<rparr>"
  have g: "get_instance ?S1 (wi_tenant i) (wi_id i) = Some k" using assms by (simp add: get_instance_def)
  let ?S2 = "fold (commit_receipt (wi_id i)) rs ?S1"
  let ?es0 = "events_of ?S2 (wi_id i)"
  let ?seq0 = "if ?es0 = [] then wi_event_seq ?i else max (wi_event_seq ?i) (we_seq (last ?es0))"
  obtain seq es t where a: "add_events (re_env R) (wi_tenant i) (wi_id i) (map Inl evs) (?seq0, ?es0, ws_clock ?S2) = (seq, es, t)"
    using prod_cases3 by blast
  have "ws_instances (snd (commit_advance (re_env R) ?b ?S1)) =
      dset (wi_id i) (?i\<lparr>wi_event_seq := seq, wi_updated := now_iso (re_env R) t\<rparr>) (ws_instances ?S)"
    using a by (simp add: commit_advance_def g Let_def)
  moreover have "fst (commit_advance (re_env R) ?b ?S1) = Inr ()"
    using a by (simp add: commit_advance_def g Let_def)
  ultimately have "ws_instances (engine_store (snd (commit R i evs rs cons X))) =
      dset (wi_id i) (i\<lparr>wi_event_seq := seq, wi_updated := now_iso (re_env R) t\<rparr>) (ws_instances ?S)"
    by (cases "commit_advance (re_env R) ?b ?S1") (simp add: commit_def Let_def)
  then show ?thesis using that by blast
qed

lemma instance_ok_stamp [simp]:
  "instance_ok (j\<lparr>wi_event_seq := s, wi_updated := u\<rparr>) = instance_ok j" by (simp add: instance_ok_def)

lemma lands_post_commit:
  assumes "held i S X" "may_become i j"
  shows "lands i S (commit R j evs rs cons X)"
proof -
  obtain k where k: "dget (ws_instances (engine_store X)) (wi_id i) = Some k" "wi_tenant k = wi_tenant i"
    using assms(1) by (auto simp: held_def)
  then have "dget (ws_instances (engine_store X)) (wi_id j) = Some k" "wi_tenant k = wi_tenant j"
    using assms(2) by (auto simp: may_become_def advanced_def)
  then obtain seq u where "ws_instances (engine_store (snd (commit R j evs rs cons X))) =
      dset (wi_id j) (j\<lparr>wi_event_seq := seq, wi_updated := u\<rparr>) (ws_instances (engine_store X))"
    by (rule commit_instances)
  then have c: "ws_instances (engine_store (snd (commit R j evs rs cons X))) =
      dset (wi_id i) (j\<lparr>wi_event_seq := seq, wi_updated := u\<rparr>) (ws_instances (engine_store X))"
    using assms(2) by (simp add: may_become_def)
  have "store_ok (put_instance (wi_id i) (j\<lparr>wi_event_seq := seq, wi_updated := u\<rparr>) (engine_store X))"
    using assms by (intro store_ok_put) (auto simp: held_def may_become_def)
  then have "store_ok (engine_store (snd (commit R j evs rs cons X)))"
    using same_instances_ok c by (metis put_instance_frame(6))
  moreover have "returns i (fst (commit R j evs rs cons X))"
  proof -
    have "fst (commit R j evs rs cons X) = Inr (get_instance (engine_store (snd (commit R j evs rs cons X))) (wi_tenant j) (wi_id j))
        \<or> (\<exists>e. fst (commit R j evs rs cons X) = Inl e)"
      by (auto simp: commit_def Let_def and_then_def split: prod.splits sum.splits)
    then show ?thesis
      using calculation assms(2) by (auto simp: returns_def may_become_def dest!: get_instance_entry store_ok_get)
  qed
  ultimately show ?thesis
    using assms c by (auto simp: post_def landed_def held_def may_become_def advanced_def)
qed

lemma post_held:
  "held i S X \<Longrightarrow> lands i S (Inl e, X)" "held i S X \<Longrightarrow> lands i S (Inr (Some i), X)"
  by (simp_all add: post_def held_landed returns_def)

lemma held_spend: "held i S X \<Longrightarrow> held i S (spend k X)"
  by (rule held_same [of _ X]) simp

lemma held_hold: "held i S X \<Longrightarrow> wi_id j = wi_id i \<Longrightarrow> wi_type j = wi_type i \<Longrightarrow> wi_tenant j = wi_tenant i \<Longrightarrow>
    wi_state j = wi_state i \<Longrightarrow> instance_ok j \<Longrightarrow> held i S (hold j X)"
  by (auto simp: held_def hold_def intro: store_ok_put)

lemma held_execute: "held i S X \<Longrightarrow> post (\<lambda>_. held i S) (execute E memory_index dispatch c ap ag p X)"
  by (simp add: post_def held_same [OF execute_frame(2)])

lemma held_record: "held i S X \<Longrightarrow> held i S (record_receipt r X)"
  by (rule held_same [of _ X]) simp

lemma held_execute_list: "held i S X \<Longrightarrow> post (\<lambda>_. held i S) (execute_list R A boot xs X)"
proof (induction xs arbitrary: X)
  case (Cons x xs)
  show ?case
    unfolding execute_list.simps
    by (intro post_then [OF held_execute [OF Cons.prems]] post_then [OF Cons.IH] held_record post_pair)
qed (simp add: post_def)


section \<open>Moves\<close>

lemma moves1: "can_transition (Some (machine_of ty)) s t \<Longrightarrow> moves ty s t"
  by (rule r_into_rtranclp)

lemma normalized_moves:
  "moves EXPENSE_TO_RECEIPT NORMALIZED BLOCKED" "moves EXPENSE_TO_RECEIPT NORMALIZED NEEDS_INFORMATION"
  "moves EXPENSE_TO_RECEIPT NORMALIZED REVIEW_PENDING"
proof -
  let ?m = "can_transition (Some EXPENSE_TO_RECEIPT_TRANSITIONS)"
  have ev: "?m NORMALIZED EVIDENCE_PENDING" and cl: "?m EVIDENCE_PENDING WF_CLASSIFICATION_PENDING"
    and ni: "?m EVIDENCE_PENDING NEEDS_INFORMATION" and rp: "?m WF_CLASSIFICATION_PENDING REVIEW_PENDING"
    by (simp_all add: machine_tables)
  show "moves EXPENSE_TO_RECEIPT NORMALIZED BLOCKED" by (rule moves1) (simp add: machine_tables)
  show "moves EXPENSE_TO_RECEIPT NORMALIZED NEEDS_INFORMATION"
    using ev ni by (simp add: converse_rtranclp_into_rtranclp)
  show "moves EXPENSE_TO_RECEIPT NORMALIZED REVIEW_PENDING"
    using ev cl rp by (simp add: converse_rtranclp_into_rtranclp)
qed

lemma gate_moves:
  assumes "is_human_gate s" "s \<in> set (states_of ty)"
  shows "moves ty s NEEDS_INFORMATION" "moves ty s WF_REJECTED"
  using assms by (cases ty; auto simp: is_human_gate_def HUMAN_GATE_STATES_def machine_tables intro!: moves1)+

lemma common_states [simp]:
  "NEEDS_INFORMATION \<in> set (states_of ty)" "WF_REJECTED \<in> set (states_of ty)" "BLOCKED \<in> set (states_of ty)"
  "DELIVERED \<in> set (states_of ty)"
  by (cases ty; simp)+

lemma no_human_gates [simp]:
  "\<not> is_human_gate NEEDS_INFORMATION" "\<not> is_human_gate WF_REJECTED" "\<not> is_human_gate BLOCKED"
  "\<not> is_human_gate DELIVERED" "\<not> is_human_gate NORMALIZED" "\<not> is_human_gate RECEIVED"
  "\<not> is_human_gate LEDGER_COMMITTED" "\<not> is_human_gate PUBLISHED"
  by (simp_all add: is_human_gate_def HUMAN_GATE_STATES_def)

text \<open>The same workflow in the same state.\<close>

definition sibling :: "workflow_instance \<Rightarrow> workflow_instance \<Rightarrow> bool" where
  "sibling i j \<longleftrightarrow> wi_id j = wi_id i \<and> wi_type j = wi_type i \<and> wi_tenant j = wi_tenant i \<and> wi_state j = wi_state i"

lemma sibling_context [simp]: "sibling i (with_context kvs j) = sibling i j" "sibling i i"
  by (simp_all add: sibling_def with_context_def)

lemma sibling_ok: "sibling i j \<Longrightarrow> instance_ok i \<Longrightarrow> \<not> is_human_gate (wi_state i) \<Longrightarrow> instance_ok j"
  by (simp add: sibling_def instance_ok_def)

lemma held_hold_sibling:
  "held i S X \<Longrightarrow> sibling i j \<Longrightarrow> instance_ok i \<Longrightarrow> \<not> is_human_gate (wi_state i) \<Longrightarrow> held i S (hold j X)"
  using sibling_ok [of i j] by (auto simp: sibling_def intro: held_hold)

lemma becomes_plain:
  "sibling i k \<Longrightarrow> wi_id j = wi_id k \<Longrightarrow> wi_type j = wi_type k \<Longrightarrow> wi_tenant j = wi_tenant k \<Longrightarrow>
   moves (wi_type i) (wi_state i) (wi_state j) \<Longrightarrow> \<not> is_human_gate (wi_state j) \<Longrightarrow>
   wi_state j \<in> set (states_of (wi_type i)) \<Longrightarrow> may_become i j"
  by (simp add: sibling_def may_become_def advanced_def instance_ok_def)

lemma becomes_waiting:
  "sibling i k \<Longrightarrow> wi_id j = wi_id k \<Longrightarrow> wi_type j = wi_type k \<Longrightarrow> wi_tenant j = wi_tenant k \<Longrightarrow>
   moves (wi_type i) (wi_state i) (wi_state j) \<Longrightarrow> wi_state j \<in> set (states_of (wi_type i)) \<Longrightarrow>
   wait_fits (wi_type i) (wi_state j) (obj_get (wi_context j) ''wait'') \<Longrightarrow> may_become i j"
  by (simp add: sibling_def may_become_def advanced_def instance_ok_def)

lemma becomes_same:
  "instance_ok i \<Longrightarrow> wi_id j = wi_id i \<Longrightarrow> wi_type j = wi_type i \<Longrightarrow> wi_tenant j = wi_tenant i \<Longrightarrow>
   wi_state j = wi_state i \<Longrightarrow> wi_context j = wi_context i \<Longrightarrow> may_become i j"
  by (simp add: may_become_def advanced_def instance_ok_def)

section \<open>What is frozen at a gate\<close>

lemma frozen_type: "frozen_from_dict (frozen_to_dict f) = Inr g \<Longrightarrow> fz_type g = fz_type f"
  by (auto simp: frozen_from_dict_def frozen_to_dict_def str_field_def split: sum.splits)

lemma frozen_in_dict:
  "frozen_in (JObj w) g \<Longrightarrow> obj_get w ''frozen_command'' = JObj (frozen_to_dict f) \<Longrightarrow> fz_type g = fz_type f"
  by (auto simp: frozen_in_def dest: frozen_type)

lemma not_frozen_in [simp]: "\<not> frozen_in (JObj []) g" "\<not> frozen_in JNull g"
  by (simp_all add: frozen_in_def obj_get_def)

lemma make_command_type [simp]: "cmd_type (make_command sha ty t p lv k e) = ty"
  by (simp add: make_command_def Let_def)

lemma review_proposes: "review_evaluate R n cx c = Inr p \<Longrightarrow> x \<in> set (prop_commands p) \<Longrightarrow> cmd_type x = ''approve_expense''"
  unfolding review_evaluate_def Let_def by (auto split: sum.splits if_splits)

lemma compose_proposes: "compose_evaluate R n cx c = Inr p \<Longrightarrow> x \<in> set (prop_commands p) \<Longrightarrow> cmd_type x = ''send_notification''"
  unfolding compose_evaluate_def Let_def by (auto split: sum.splits if_splits)

lemma freeze_type [simp]: "fz_type (freeze_command c pid ag) = cmd_type c"
  by (simp add: freeze_command_def)

lemma evidence_next_range: "evidence_next v s \<in> {BLOCKED, NEEDS_INFORMATION, WF_CLASSIFICATION_PENDING}"
  by (simp add: evidence_next_def)

lemma evidence_moves:
  assumes "step_evidence R n cx eid items flags kinds vis cur = Inr out"
  shows "st_next (so_step out) \<in> {BLOCKED, NEEDS_INFORMATION, WF_CLASSIFICATION_PENDING}"
proof -
  have "\<exists>v s. st_next (so_step out) = evidence_next v s"
    using assms unfolding step_evidence_def Let_def by (auto simp: step_of_def step_to_def split: sum.splits) blast
  then show ?thesis using evidence_next_range by metis
qed

lemma classify_moves: "step_classify R n cx eid alloc amount refs cur = Inr out \<Longrightarrow>
    st_next (so_step out) \<in> {NEEDS_INFORMATION, REVIEW_PENDING}"
  unfolding step_classify_def Let_def by (auto simp: step_of_def step_to_def split: sum.splits if_splits)

lemma intake_moves: "step_intake R n cx rows cur = Inr out \<Longrightarrow> st_next (so_step out) \<in> {BLOCKED, NORMALIZED}"
  unfolding step_intake_def Let_def by (auto simp: step_of_def step_to_def split: sum.splits if_splits)

lemma review_wait:
  assumes "step_review R n cx eid f cur = Inr out" "frozen_in (JObj (wait_of_step (so_step out))) g"
  shows "fz_type g = ''approve_expense''"
proof -
  let ?c = "make_command (sha256_hex (re_env R)) ''assemble_review_packet'' (cx_tenant cx) (review_payload eid f) L1_PROPOSE [] None"
  obtain p where p: "review_evaluate R n cx ?c = Inr p"
    using assms(1) by (auto simp: step_review_def Let_def split: sum.splits)
  show ?thesis
  proof (cases "validation_ok (review_validate p)")
    case False
    then have "wait_of_step (so_step out) = []"
      using assms(1) p by (auto simp: step_review_def Let_def step_of_def step_to_def wait_of_step_def obj_get_def
          split: sum.splits)
    then show ?thesis using assms(2) by simp
  next
    case True
    obtain l3 rest where l3: "prop_commands p = l3 # rest"
      using assms(1) p True by (auto simp: step_review_def Let_def split: list.splits)
    have "obj_get (wait_of_step (so_step out)) ''frozen_command'' =
        JObj (frozen_to_dict (freeze_command l3 (prop_id p) ''finance_review''))"
      using assms(1) p True l3
      by (auto simp: step_review_def Let_def step_of_def step_to_def wait_of_step_def obj_get_def split: sum.splits)
    from frozen_in_dict [OF assms(2) this] show ?thesis using review_proposes [OF p] l3 by simp
  qed
qed

lemma compose_wait:
  assumes "step_compose_send R n cx pv cur = Inr out" "frozen_in (JObj (wait_of_step (so_step out))) g"
  shows "fz_type g = ''send_notification''"
proof -
  let ?c = "make_command (sha256_hex (re_env R)) ''compose_send_proposal'' (cx_tenant cx) [(''preview'', JObj pv)] L1_PROPOSE [] None"
  obtain p where p: "compose_evaluate R n cx ?c = Inr p"
    using assms(1) by (auto simp: step_compose_send_def Let_def split: sum.splits)
  show ?thesis
  proof (cases "prop_commands p = [] \<or> \<not> validation_ok (compose_validate cx p)")
    case True
    then have "wait_of_step (so_step out) = []"
      using assms(1) p by (auto simp: step_compose_send_def Let_def step_of_def step_to_def wait_of_step_def obj_get_def
          split: sum.splits list.splits)
    then show ?thesis using assms(2) by simp
  next
    case False
    then obtain c rest where c: "prop_commands p = c # rest" by (cases "prop_commands p") auto
    have "obj_get (wait_of_step (so_step out)) ''frozen_command'' =
        JObj (frozen_to_dict (freeze_command c (prop_id p) ''notification_composer''))"
      using assms(1) p False c
      by (auto simp: step_compose_send_def Let_def step_of_def step_to_def wait_of_step_def obj_get_def split: sum.splits)
    from frozen_in_dict [OF assms(2) this] show ?thesis using compose_proposes [OF p] c by simp
  qed
qed

lemma dget_dupdate_last [simp]: "dget (dupdate d (kvs @ [(k, v)])) k = Some v" "dget (dupdate d [(k, v)]) k = Some v"
  by (simp_all add: dupdate_def)

lemma context_wait [simp]:
  "obj_get (wi_context (with_context (kvs @ [(k, v)]) i)) k = v" "obj_get (wi_context (with_context [(k, v)] i)) k = v"
  by (simp_all add: with_context_def obj_get_def)


section \<open>Every advance\<close>

lemma lands_then:
  assumes "post (\<lambda>_. held i S) r" "\<And>a Y. held i S Y \<Longrightarrow> lands i S (f a Y)"
  shows "lands i S (and_then r f)"
  using assms by (cases r; cases "fst r") (auto simp: post_def returns_def intro: held_landed)

lemma lands_received:
  assumes "held i S X" "wi_type i = EXPENSE_TO_RECEIPT" "wi_state i = RECEIVED"
  shows "lands i S (advance_received R A boot i cx X)"
proof -
  have m: "moves EXPENSE_TO_RECEIPT RECEIVED BLOCKED" "moves EXPENSE_TO_RECEIPT RECEIVED NORMALIZED"
    by (rule moves1; simp add: machine_tables)+
  have j: "may_become i (if b then (with_context kvs i)\<lparr>wi_state := BLOCKED, wi_run_status := WAITING_SIGNAL\<rparr>
      else (with_context kvs i)\<lparr>wi_state := NORMALIZED, wi_run_status := PENDING, wi_next_run := t\<rparr>)" for b kvs t
    using assms(2,3) m by (auto intro!: becomes_plain [of i "with_context kvs i"])
  show ?thesis
    unfolding advance_received_def Let_def
    by (intro post_cases post_held lands_then held_execute_list held_spend assms(1) lands_post_commit j)
qed

lemma lands_review:
  assumes "held i S X" "sibling i k" "wi_type i = EXPENSE_TO_RECEIPT" "wi_state i = NORMALIZED" "instance_ok i"
    and "step_review R n cx eid f cur = Inr out"
  shows "lands i S (park_for_review R k out evs rs X)"
proof -
  have fits: "wait_fits EXPENSE_TO_RECEIPT REVIEW_PENDING (JObj (wait_of_step (so_step out)))"
    using review_wait [OF assms(6)] by (auto simp: wait_fits_def gate_commands_def)
  let ?k = "\<lambda>p. with_context (p @ [(''wait'', JObj (wait_of_step (so_step out)))]) k"
  have j: "may_become i ((?k p)\<lparr>wi_wait_descriptor := d, wi_wait_deadline := dl, wi_state := REVIEW_PENDING,
      wi_run_status := WAITING_SIGNAL, wi_lease_owner := None, wi_lease_expires := None\<rparr>)" for p d dl
    using assms(2-4) fits normalized_moves(3) by (intro becomes_waiting [of i "?k p"]) simp_all
  show ?thesis
    unfolding park_for_review_def Let_def
    by (intro post_cases post_held lands_post_commit j held_hold_sibling assms(1,5)) (simp_all add: assms(2,4))
qed

lemma lands_classify:
  assumes "held i S X" "sibling i k" "wi_type i = EXPENSE_TO_RECEIPT" "wi_state i = NORMALIZED" "instance_ok i"
  shows "lands i S (classify_and_park R A boot k cx eid view items alloc s evs X)"
proof -
  have j: "may_become i (move_to NEEDS_INFORMATION k)"
    using assms(2-4) normalized_moves(2) by (intro becomes_plain [of i k]) (simp_all add: move_to_def)
  have c: "lands i S (if st_next (so_step out) \<noteq> REVIEW_PENDING
        then commit R (move_to (st_next (so_step out)) k) e1 rs [] Y else r)"
    if "held i S Y" "st_next (so_step out) \<in> {NEEDS_INFORMATION, REVIEW_PENDING}" "lands i S r"
    for out e1 rs Y and r :: "workflow_instance option outcome \<times> 'x engine"
    using that lands_post_commit [OF that(1) j] by auto
  show ?thesis
    unfolding classify_and_park_def Let_def
    by (intro post_case_sum post_held lands_then held_execute_list held_spend assms(1) c; (intro post_cases post_held
        lands_review [OF held_spend])?) (use assms classify_moves in auto)
qed

lemma lands_normalized:
  assumes "held i S X" "wi_type i = EXPENSE_TO_RECEIPT" "wi_state i = NORMALIZED" "instance_ok i"
  shows "lands i S (advance_normalized R A boot i cx X)"
proof -
  have b: "may_become i (i\<lparr>wi_state := BLOCKED, wi_run_status := r, wi_last_error := e\<rparr>)" for r e
    using assms(2,3) normalized_moves(1) by (intro becomes_plain [of i i]) simp_all
  have m: "may_become i (move_to s k)" if "sibling i k" "s \<in> {BLOCKED, NEEDS_INFORMATION}" for s k
    using that assms(2,3) normalized_moves by (intro becomes_plain [of i k]) (auto simp: move_to_def)
  have h: "held i S (hold (with_context kvs i) X)" for kvs
    by (rule held_hold_sibling [OF assms(1) _ assms(4)]) (simp_all add: assms(3))
  have h2: "held i S (hold (with_context kvs' (with_context kvs i)) (spend 1 (hold (with_context kvs i) X)))" for kvs kvs'
    by (rule held_hold_sibling [OF held_spend [OF h] _ assms(4)]) (simp_all add: assms(3))
  have e: "lands i S (if st_next (so_step out) \<noteq> WF_CLASSIFICATION_PENDING
        then commit R (move_to (st_next (so_step out)) k) e1 rs [] Y else r)"
    if "held i S Y" "sibling i k" "st_next (so_step out) \<in> {BLOCKED, NEEDS_INFORMATION, WF_CLASSIFICATION_PENDING}" "lands i S r"
    for out e1 rs Y k and r :: "workflow_instance option outcome \<times> 'x engine"
    using that lands_post_commit [OF that(1) m] by auto
  show ?thesis
    unfolding advance_normalized_def Let_def
    by (intro post_case_sum post_if post_case_prod post_held lands_post_commit b h assms(1) e held_spend lands_classify h2)
       (use assms(2-4) evidence_moves in auto)
qed


lemma lands_after_ledger:
  assumes "held i S X" "wi_type i = EXPENSE_TO_RECEIPT" "wi_state i = LEDGER_COMMITTED"
  shows "lands i S (advance_after_ledger R i X)"
proof -
  have m: "moves EXPENSE_TO_RECEIPT LEDGER_COMMITTED PUBLICATION_PENDING" by (rule moves1) (simp add: machine_tables)
  let ?w = "\<lambda>f. [(''signal_type'', JStr ''APPROVAL''), (''command_idempotency_key'', JStr (fz_key f)),
    (''frozen_command'', JObj (frozen_to_dict f)), (''proposal_id'', JStr (fz_proposal f))]"
  let ?f = "\<lambda>p. publish_frozen R (ex_clock X) i p"
  have fits: "wait_fits EXPENSE_TO_RECEIPT PUBLICATION_PENDING (JObj (?w (?f p)))" for p
  proof -
    have "obj_get (?w (?f p)) ''frozen_command'' = JObj (frozen_to_dict (?f p))" by (simp add: obj_get_def)
    from frozen_in_dict [OF _ this] have "frozen_in (JObj (?w (?f p))) g \<Longrightarrow> fz_type g = ''publish_use_of_funds_receipt''" for g
      by (auto simp: publish_frozen_def Let_def)
    then show ?thesis by (auto simp: wait_fits_def gate_commands_def)
  qed
  have w: "may_become i ((with_context [(''wait'', JObj (?w (?f p)))] i)\<lparr>wi_wait_descriptor := d,
      wi_state := PUBLICATION_PENDING, wi_run_status := WAITING_SIGNAL, wi_wait_deadline := t\<rparr>)" for p d t
    using assms(2,3) m fits by (intro becomes_waiting [of i "with_context [(''wait'', JObj (?w (?f p)))] i"]) simp_all
  have c: "may_become i (i\<lparr>wi_run_status := COMPLETED\<rparr>)"
    using assms(2,3) by (intro becomes_plain [of i i]) simp_all
  show ?thesis
    unfolding advance_after_ledger_def Let_def
    by (intro post_cases post_held lands_post_commit w c held_spend assms(1))
qed

lemma lands_published:
  assumes "held i S X" "wi_type i = EXPENSE_TO_RECEIPT" "wi_state i = PUBLISHED" "instance_ok i"
  shows "lands i S (advance_published R i cx X)"
proof -
  have m: "moves EXPENSE_TO_RECEIPT PUBLISHED NOTIFICATION_PENDING" by (rule moves1) (simp add: machine_tables)
  have c: "may_become i (i\<lparr>wi_run_status := COMPLETED\<rparr>)"
    using assms(2,3) by (intro becomes_plain [of i i]) simp_all
  let ?k = "\<lambda>out kvs. with_context [(''wait'', JObj (wait_of_step (so_step out)))] (with_context kvs i)"
  have w: "may_become i ((?k out kvs)\<lparr>wi_wait_descriptor := d, wi_state := NOTIFICATION_PENDING,
      wi_run_status := WAITING_SIGNAL\<rparr>)"
    if o: "step_compose_send R n cx pv PUBLISHED = Inr out" for n pv out d kvs
  proof -
    have "wait_fits EXPENSE_TO_RECEIPT NOTIFICATION_PENDING (JObj (wait_of_step (so_step out)))"
      using compose_wait [OF o] by (auto simp: wait_fits_def gate_commands_def)
    then show ?thesis using assms(2,3) m by (intro becomes_waiting [of i "?k out kvs"]) simp_all
  qed
  have d: "held i S (X\<lparr>ex_domain := e\<rparr>)" for e
    by (rule held_same [OF _ assms(1)]) simp
  have h: "held i S (hold (with_context kvs i) (spend 1 (X\<lparr>ex_domain := e\<rparr>)))" for kvs e
    by (rule held_hold_sibling [OF held_spend [OF d] _ assms(4)]) (simp_all add: assms(3))
  have h2: "held i S (hold (?k out kvs) (hold (with_context kvs i) (spend 1 (X\<lparr>ex_domain := e\<rparr>))))" for out kvs e
    by (rule held_hold_sibling [OF h _ assms(4)]) (simp_all add: assms(3))
  show ?thesis
    unfolding advance_published_def Let_def
    by (intro post_if post_case_option post_case_sum post_held lands_post_commit c w h h2 held_spend assms(1))
qed

section \<open>Corrections and digests\<close>

lemma correction_wait_facts:
  "st_next (correction_wait R m k eid why repl splits c) = REVIEW_PENDING"
  "wait_of_step (correction_wait R m k eid why repl splits c) \<noteq> []"
  "cmd_type (build_reverse_command R m t eid why) = ''reverse_expense''"
  "cmd_type (build_supersede_command R m t eid why rp sp) = ''supersede_expense''"
  by (simp_all add: correction_wait_def Let_def step_to_def wait_of_step_def obj_get_def build_reverse_command_def
      build_supersede_command_def)

lemma correction_wait_frozen:
  assumes "frozen_in (JObj (wait_of_step (correction_wait R m k eid why repl splits c))) g"
  shows "fz_type g = cmd_type c"
proof -
  have "obj_get (wait_of_step (correction_wait R m k eid why repl splits c)) ''frozen_command'' =
      JObj (frozen_to_dict (freeze_command c (draw_id R m ''prop_corr'') ''CorrectionWorkflow''))"
    by (simp add: correction_wait_def Let_def step_to_def wait_of_step_def obj_get_def)
  from frozen_in_dict [OF assms this] show ?thesis by simp
qed

lemma correction_moves:
  assumes "step_propose_correction R n t kind eid why repl splits RECEIVED = Inr out"
  shows "st_next out \<in> {REVIEW_PENDING, NEEDS_INFORMATION, BLOCKED}"
    and "st_next out = REVIEW_PENDING \<Longrightarrow> wait_of_step out \<noteq> [] \<and>
      (\<forall>g. frozen_in (JObj (wait_of_step out)) g \<longrightarrow> fz_type g \<in> {''reverse_expense'', ''supersede_expense''})"
proof -
  have "st_next out \<in> {REVIEW_PENDING, NEEDS_INFORMATION, BLOCKED} \<and> (st_next out = REVIEW_PENDING \<longrightarrow>
      wait_of_step out \<noteq> [] \<and>
      (\<forall>g. frozen_in (JObj (wait_of_step out)) g \<longrightarrow> fz_type g \<in> {''reverse_expense'', ''supersede_expense''}))"
    using assms unfolding step_propose_correction_def
    by (auto simp: step_to_def correction_wait_facts dest!: correction_wait_frozen split: sum.splits if_splits json.splits)
  then show "st_next out \<in> {REVIEW_PENDING, NEEDS_INFORMATION, BLOCKED}"
    and "st_next out = REVIEW_PENDING \<Longrightarrow> wait_of_step out \<noteq> [] \<and>
      (\<forall>g. frozen_in (JObj (wait_of_step out)) g \<longrightarrow> fz_type g \<in> {''reverse_expense'', ''supersede_expense''})"
    by blast+
qed

lemma received_moves:
  "moves WF_CORRECTION RECEIVED REVIEW_PENDING" "moves WF_CORRECTION RECEIVED NEEDS_INFORMATION"
  "moves WF_CORRECTION RECEIVED BLOCKED"
  by (rule moves1; simp add: machine_tables)+

lemma lands_park_correction:
  assumes "held i S X" "wi_type i = WF_CORRECTION" "wi_state i = RECEIVED" "instance_ok i"
    and "step_propose_correction R n t kind eid why repl splits RECEIVED = Inr out"
  shows "lands i S (park_correction R i out X)"
proof -
  note mv = correction_moves [OF assms(5)]
  let ?w = "wait_of_step out" and ?i1 = "with_context (st_patch out) i"
  let ?i2 = "if ?w = [] then ?i1 else with_context [(''wait'', JObj ?w)] ?i1"
  have sib: "sibling i ?i2" by simp
  have h: "held i S (hold ?i2 X)"
    by (rule held_hold_sibling [OF assms(1) sib assms(4)]) (simp add: assms(3))
  have j: "may_become i ((apply_step out ?i2)\<lparr>wi_wait_descriptor := d, wi_wait_deadline := dl,
      wi_lease_owner := None, wi_lease_expires := None\<rparr>)" for d dl
  proof (cases "st_next out = REVIEW_PENDING")
    case True
    then have "?w \<noteq> []" "wait_fits WF_CORRECTION REVIEW_PENDING (JObj ?w)"
      using mv(2) by (auto simp: wait_fits_def gate_commands_def)
    then show ?thesis
      using True assms(2,3) received_moves by (intro becomes_waiting [OF sib]) (simp_all add: apply_step_def)
  next
    case False
    then show ?thesis
      using mv(1) assms(2,3) received_moves by (intro becomes_plain [OF sib]) (auto simp: apply_step_def)
  qed
  show ?thesis
    unfolding park_correction_def Let_def by (intro post_case_sum post_held h lands_post_commit j assms(1))
qed

lemma lands_propose:
  assumes "held i S X" "wi_type i = WF_CORRECTION" "wi_state i = RECEIVED" "instance_ok i"
  shows "lands i S (propose_correction R i X)"
proof -
  have j: "may_become i (i\<lparr>wi_state := s, wi_run_status := r, wi_last_error := e\<rparr>)" if "s \<in> {NEEDS_INFORMATION, BLOCKED}" for s r e
    using that assms(2,3) received_moves by (intro becomes_plain [of i i]) auto
  show ?thesis
    unfolding propose_correction_def Let_def
    by (intro post_if post_case_sum post_held lands_post_commit j assms(1)
        lands_park_correction [OF held_spend [OF assms(1)] assms(2-4)]; simp?)
qed


section \<open>The human gate\<close>

lemma after_command_keeps [simp]:
  "wi_type (clear_wait (after_command now c r i)) = wi_type i"
  "wi_type (after_command now c r i) = wi_type i" "wi_state (clear_wait k) = wi_state k"
  by (simp_all add: clear_wait_def after_command_def Let_def)

lemma command_moves:
  assumes "cmd_type c \<in> set (gate_commands (wi_type i) (wi_state i))"
  shows "moves (wi_type i) (wi_state i) (wi_state (after_command now c r i)) \<and>
    \<not> is_human_gate (wi_state (after_command now c r i)) \<and>
    wi_state (after_command now c r i) \<in> set (states_of (wi_type i))"
proof -
  have e: "moves EXPENSE_TO_RECEIPT REVIEW_PENDING LEDGER_COMMITTED"
    "moves EXPENSE_TO_RECEIPT PUBLICATION_PENDING PUBLISHED" "moves EXPENSE_TO_RECEIPT NOTIFICATION_PENDING DELIVERED"
    "moves WF_CORRECTION REVIEW_PENDING LEDGER_COMMITTED"
    by (rule moves1; simp add: machine_tables)+
  consider "wi_type i = EXPENSE_TO_RECEIPT" "wi_state i = REVIEW_PENDING" "cmd_type c = ''approve_expense''"
    | "wi_type i = EXPENSE_TO_RECEIPT" "wi_state i = PUBLICATION_PENDING" "cmd_type c = ''publish_use_of_funds_receipt''"
    | "wi_type i = EXPENSE_TO_RECEIPT" "wi_state i = NOTIFICATION_PENDING" "cmd_type c = ''send_notification''"
    | "wi_type i = WF_CORRECTION" "wi_state i = REVIEW_PENDING" "cmd_type c \<in> {''reverse_expense'', ''supersede_expense''}"
    using assms by (auto simp: gate_commands_def split: if_splits)
  then show ?thesis
    by cases (use e in \<open>auto simp: after_command_def Let_def\<close>)
qed

lemma lands_execute:
  assumes "held i S X" "cmd_type c \<in> set (gate_commands (wi_type i) (wi_state i))" "instance_ok i"
  shows "lands i S (gate_execute R A boot i s a ag c X)"
proof -
  have X: "held i S (register_context_preview R i c X)" by (rule held_same [OF _ assms(1)]) simp
  let ?e = "execute (re_env R) memory_index (dispatch_command (re_env R) A boot) c (Some a) (Some ag) None
    (register_context_preview R i c X)"
  have E: "held i S (snd ?e)" using held_execute [OF X] by (simp add: post_def)
  have same: "may_become i (retry_later t er i)" "may_become i (fail_terminal er i)" for t er
    by (rule becomes_same [OF assms(3)]; simp add: retry_later_def fail_terminal_def)+
  have j: "may_become i (clear_wait (after_command now c r i))" for now r
    using command_moves [OF assms(2)] by (intro becomes_plain [of i i]) simp_all
  show ?thesis
    unfolding gate_execute_def Let_def by (intro post_cases lands_post_commit E same j)
qed

lemma lands_decision:
  assumes "held i S X" "instance_ok i" "is_human_gate (wi_state i)"
    and "fz_type f \<in> set (gate_commands (wi_type i) (wi_state i))"
  shows "lands i S (gate_decision R A boot i s a f X)"
proof -
  have st: "wi_state i \<in> set (states_of (wi_type i))" using assms(2) by (simp add: instance_ok_def)
  have same: "may_become i (i\<lparr>wi_last_error := e, wi_run_status := r\<rparr>)" for e r
    by (rule becomes_same [OF assms(2)]) simp_all
  have out: "may_become i (i\<lparr>wi_state := NEEDS_INFORMATION, wi_run_status := r\<rparr>)"
    "may_become i (i\<lparr>wi_state := WF_REJECTED, wi_run_status := r\<rparr>)" for r
    using gate_moves [OF assms(3) st] by (intro becomes_plain [of i i]; simp)+
  show ?thesis
  proof (cases "authorized_command (re_env R) f a")
    case (Inl e)
    then obtain m where "e = AuthorityError m" using authorized_command_error by blast
    then show ?thesis using lands_post_commit [OF assms(1) same] by (simp add: gate_decision_def Inl)
  next
    case (Inr c)
    have "lands i S (gate_execute R A boot i s a (fz_agent f) c X)"
      using lands_execute [OF assms(1) _ assms(2)] assms(4) authorized_commandD(7) [OF Inr] by simp
    then show ?thesis
      unfolding gate_decision_def Inr sum.case by (intro post_if lands_post_commit assms(1) out)
  qed
qed

lemma lands_gate:
  assumes "held i S X" "instance_ok i" "is_human_gate (wi_state i)" "wi_type i \<noteq> SCHEDULED_DIGEST"
  shows "lands i S (advance_human_gate R A boot i X)"
proof -
  have same: "may_become i (repark i)" "may_become i i" "may_become i (i\<lparr>wi_run_status := r\<rparr>)" for r
    by (rule becomes_same [OF assms(2)]; simp add: repark_def)+
  have gate: "lands i S (gate_decision R A boot i s a f X)"
    if "or_empty (obj_get (wi_context i) ''wait'') = Inr w" "obj_get w ''frozen_command'' = JObj fz"
      "fz = kv # kvs" "frozen_from_dict (kv # kvs) = Inr f" for s a f w fz kv kvs
  proof -
    have "w \<noteq> []" using that(2) by (auto simp: obj_get_def)
    then have "obj_get (wi_context i) ''wait'' = JObj w"
      using that(1) by (auto simp: or_empty_def split: if_splits json.splits)
    then have "frozen_in (obj_get (wi_context i) ''wait'') f" using that(2-4) by (simp add: frozen_in_def)
    then have "fz_type f \<in> set (gate_commands (wi_type i) (wi_state i))"
      using assms(2-4) by (simp add: instance_ok_def wait_fits_def)
    then show ?thesis by (rule lands_decision [OF assms(1-3)])
  qed
  have m: "post (\<lambda>_. held i S) (in_store (\<lambda>S. (Inr (), mark_signal_consumed t sid r S)) X)" for t sid r
    using assms(1) by (simp add: post_def held_def mark_signal_consumed_def store_ok_def)
  show ?thesis
    unfolding advance_human_gate_def gate_after_timeout_def Let_def
    by (intro post_cases post_held lands_post_commit same assms(1) gate lands_then [OF m]; assumption)
qed

lemma lands_correction:
  assumes "held i S X" "wi_type i = WF_CORRECTION" "instance_ok i"
  shows "lands i S (advance_correction R A boot i X)"
proof -
  have same: "may_become i (repark i)" "may_become i (i\<lparr>wi_run_status := r, wi_next_run := t\<rparr>)" for r t
    by (rule becomes_same [OF assms(3)]; simp add: repark_def)+
  have m: "moves WF_CORRECTION LEDGER_COMMITTED DELIVERED" by (rule moves1) (simp add: machine_tables)
  have fin: "may_become i (apply_step out i)" if "step_after_ledger_correction cur = Inr out" "wi_state i = LEDGER_COMMITTED"
    for out cur
    using that assms(2) m
    by (intro becomes_plain [of i i])
       (auto simp: step_after_ledger_correction_def step_to_def apply_step_def split: sum.splits)
  show ?thesis
    unfolding advance_correction_def Let_def
    by (intro post_if post_case_sum post_held lands_post_commit same fin lands_gate lands_propose assms)
       (simp_all add: assms(2))
qed

section \<open>Digests\<close>

lemma digest_moves:
  "step_assemble_and_privacy R n load doc path src ra pk RECEIVED = Inr out \<Longrightarrow>
     moves SCHEDULED_DIGEST RECEIVED (st_next out) \<and> st_next out \<in> set (states_of SCHEDULED_DIGEST)"
  by (auto simp: step_assemble_and_privacy_def digest_ready_def digest_failed_def assert_transition_def step_to_def Let_def
      intro!: moves1 split: sum.splits if_splits py_exn.splits)

lemma lands_digest:
  assumes "held i S X" "wi_type i = SCHEDULED_DIGEST" "instance_ok i"
  shows "lands i S (advance_digest R load i X)"
proof -
  have st: "wi_state i \<in> set (states_of SCHEDULED_DIGEST)" using assms(2,3) by (simp add: instance_ok_def)
  have becomes: "may_become i j" if "wi_id j = wi_id i" "wi_type j = wi_type i" "wi_tenant j = wi_tenant i"
    "moves SCHEDULED_DIGEST (wi_state i) (wi_state j)" "wi_state j \<in> set (states_of SCHEDULED_DIGEST)" for j
    using that assms(2) by (simp add: may_become_def advanced_def instance_ok_def wait_fits_def)
  have mv: "moves SCHEDULED_DIGEST PUBLICATION_PENDING PUBLISHED" "moves SCHEDULED_DIGEST PUBLICATION_PENDING WF_REJECTED"
    "moves SCHEDULED_DIGEST PUBLICATION_PENDING NEEDS_INFORMATION" "moves SCHEDULED_DIGEST PUBLISHED DELIVERED"
    by (rule moves1; simp add: machine_tables)+
  have gate: "lands i S (advance_digest_approval R i X)" if "wi_state i = PUBLICATION_PENDING"
    unfolding advance_digest_approval_def Let_def
    by (intro post_cases post_held lands_post_commit assms(1) becomes; use that st mv in \<open>simp add: repark_def clear_wait_def\<close>)
  have recv: "lands i S (advance_digest_received R load i X)" if "wi_state i = RECEIVED"
    unfolding advance_digest_received_def Let_def
    by (intro post_case_sum post_held lands_post_commit held_spend assms(1) becomes)
       (use that digest_moves in \<open>auto simp: apply_step_def with_context_def\<close>)
  show ?thesis
    unfolding advance_digest_def Let_def
    by (intro post_if post_case_sum post_held lands_post_commit assms(1) becomes gate recv)
       (use st mv in \<open>auto simp: apply_step_def step_complete_digest_def step_to_def split: sum.splits\<close>)
qed

section \<open>One step\<close>

lemma lands_step:
  assumes "store_ok (engine_store X)" "dget (ws_instances (engine_store X)) (wi_id i) = Some i"
  shows "lands i (engine_store X) (advance_step R A boot load i X)"
proof -
  let ?S = "engine_store X"
  have h: "held i ?S X" using assms by (simp add: held_def)
  have ok: "instance_ok i" using assms by (blast dest: store_ok_get)
  have idle: "lands i ?S (and_then (in_store (update_instance (i\<lparr>wi_run_status := r, wi_next_run := t\<rparr>)) (spend 1 X))
      (\<lambda>_ X1. (Inr (Some (i\<lparr>wi_run_status := r, wi_next_run := t\<rparr>)), X1)))" for r t
  proof (rule lands_then)
    have "store_ok (put_instance (wi_id i) (i\<lparr>wi_run_status := r, wi_next_run := t\<rparr>) (engine_store (spend 1 X)))"
      using h held_spend [OF h, of 1] ok by (intro store_ok_put) (auto simp: held_def instance_ok_def)
    then show "post (\<lambda>_. held i ?S) (in_store (update_instance (i\<lparr>wi_run_status := r, wi_next_run := t\<rparr>)) (spend 1 X))"
      using held_spend [OF h, of 1] by (auto simp: post_def held_def update_instance_def split: option.split)
  qed (auto simp: post_def returns_def intro: held_landed)
  have st: "wi_state i \<in> set (states_of (wi_type i))" using ok by (simp add: instance_ok_def)
  show ?thesis
  proof (cases "wi_type i")
    case EXPENSE_TO_RECEIPT
    then have no: "wi_state i \<noteq> WF_CLASSIFICATION_PENDING" "wi_state i \<noteq> EVIDENCE_PENDING" using st by auto
    show ?thesis
      unfolding advance_step_def Let_def
      by (intro post_if post_held h idle lands_gate lands_received lands_normalized lands_after_ledger lands_published ok;
          use EXPENSE_TO_RECEIPT no in simp)
  next
    case WF_CORRECTION
    then show ?thesis using lands_correction [OF h _ ok] by (simp add: advance_step_def Let_def)
  next
    case SCHEDULED_DIGEST
    then show ?thesis using lands_digest [OF h _ ok] by (simp add: advance_step_def Let_def)
  qed
qed

end
