(* ===== verification/Runtime_Histories.thy ===== *)
theory Runtime_Histories
  imports Runtime_Machine
begin

text \<open>
  The machines over whole histories: every call on the store, the worker and the runtime keeps the invariant
  and moves the stored workflows along their tables.
\<close>

section \<open>Stores\<close>

text \<open>From one store to a later one every workflow is kept and has moved legally; the second relation says
  in addition that only one entry changed.\<close>

definition evolves :: "workflow_store \<Rightarrow> workflow_store \<Rightarrow> bool" where
  "evolves S S' \<longleftrightarrow> (store_ok S \<longrightarrow> store_ok S' \<and>
     (\<forall>w i. dget (ws_instances S) w = Some i \<longrightarrow> (\<exists>j. dget (ws_instances S') w = Some j \<and> advanced i j)))"

definition evolves_at :: "string \<Rightarrow> workflow_store \<Rightarrow> workflow_store \<Rightarrow> bool" where
  "evolves_at w S S' \<longleftrightarrow> (store_ok S \<longrightarrow> store_ok S' \<and>
     (\<forall>v. v \<noteq> w \<longrightarrow> dget (ws_instances S') v = dget (ws_instances S) v) \<and>
     (\<forall>i. dget (ws_instances S) w = Some i \<longrightarrow> (\<exists>j. dget (ws_instances S') w = Some j \<and> advanced i j)))"

lemma history_evolves_refl [simp]: "evolves S S" "evolves_at w S S"
  using advanced_refl by (auto simp: evolves_def evolves_at_def)

lemma history_evolves_trans: "evolves S S1 \<Longrightarrow> evolves S1 S2 \<Longrightarrow> evolves S S2"
  unfolding evolves_def by (meson advanced_trans)

lemma evolves_at_trans:
  assumes "evolves_at w S S1" "evolves_at w S1 S2"
  shows "evolves_at w S S2"
  unfolding evolves_at_def
proof (intro impI conjI allI)
  assume S: "store_ok S"
  note a = assms(1) [unfolded evolves_at_def, rule_format, OF S]
  then have S1: "store_ok S1" by blast
  note b = assms(2) [unfolded evolves_at_def, rule_format, OF S1]
  show "store_ok S2" using b by blast
  show "dget (ws_instances S2) v = dget (ws_instances S) v" if "v \<noteq> w" for v using a b that by simp
  fix i assume "dget (ws_instances S) w = Some i"
  then obtain j where j: "dget (ws_instances S1) w = Some j" "advanced i j" using a by blast
  then obtain k where "dget (ws_instances S2) w = Some k" "advanced j k" using b by blast
  then show "\<exists>k. dget (ws_instances S2) w = Some k \<and> advanced i k" using j(2) advanced_trans by blast
qed

lemma evolves_atD:
  assumes "evolves_at w S S'"
  shows "evolves S S'"
  unfolding evolves_def
proof (intro impI conjI allI)
  assume S: "store_ok S"
  note a = assms [unfolded evolves_at_def, rule_format, OF S]
  then show "store_ok S'" by blast
  fix v i assume i: "dget (ws_instances S) v = Some i"
  show "\<exists>j. dget (ws_instances S') v = Some j \<and> advanced i j"
  proof (cases "v = w")
    case True
    then show ?thesis using a i by blast
  next
    case False
    then have "dget (ws_instances S') v = Some i" using a i by simp
    then show ?thesis using advanced_refl by blast
  qed
qed

lemma evolves_same: "ws_instances S' = ws_instances S \<Longrightarrow> evolves_at w S S'"
  using advanced_refl by (auto simp: evolves_at_def store_ok_def)

lemma evolves_later: "evolves_at w S (later k S)"
  by (rule evolves_same) (simp add: later_def)

lemma evolves_put:
  assumes "ws_instances S' = dset w j (ws_instances S)"
    and "store_ok S \<Longrightarrow> dget (ws_instances S) w = Some i \<and> may_become i j"
  shows "evolves_at w S S'"
  unfolding evolves_at_def
proof (intro impI conjI)
  assume S: "store_ok S"
  note i = assms(2) [OF S]
  have "wi_id j = w" using i store_ok_get [OF S] by (auto simp: may_become_def)
  then have "store_ok (put_instance w j S)" using i by (intro store_ok_put S) (simp_all add: may_become_def)
  then show "store_ok S'" using same_instances_ok [of S' "put_instance w j S"] assms(1) by simp
  show "\<forall>v. v \<noteq> w \<longrightarrow> dget (ws_instances S') v = dget (ws_instances S) v" using assms(1) by simp
  show "\<forall>k. dget (ws_instances S) w = Some k \<longrightarrow> (\<exists>l. dget (ws_instances S') w = Some l \<and> advanced k l)"
    using i assms(1) by (simp add: may_become_def)
qed

lemma may_become_refl: "store_ok S \<Longrightarrow> dget (ws_instances S) w = Some i \<Longrightarrow> may_become i i"
  using store_ok_get [of S w i] by (simp add: may_become_def)

lemma may_become_stamps [simp]:
  "may_become k (i\<lparr>wi_run_status := r\<rparr>) = may_become k i" "may_become k (i\<lparr>wi_last_error := e\<rparr>) = may_become k i"
  "may_become k (i\<lparr>wi_lease_owner := o1\<rparr>) = may_become k i" "may_become k (i\<lparr>wi_lease_expires := e\<rparr>) = may_become k i"
  "may_become k (i\<lparr>wi_updated := u\<rparr>) = may_become k i" "may_become k (i\<lparr>wi_next_run := t\<rparr>) = may_become k i"
  "may_become k (i\<lparr>wi_attempts := a\<rparr>) = may_become k i" "may_become k (i\<lparr>wi_event_seq := n\<rparr>) = may_become k i"
  by (simp_all add: may_become_def advanced_def instance_ok_def)

lemma evolves_update:
  assumes "\<And>k. store_ok S \<Longrightarrow> get_instance S (wi_tenant j) (wi_id j) = Some k \<Longrightarrow> may_become k j"
  shows "evolves_at (wi_id j) S (snd (update_instance j S))"
proof (cases "get_instance S (wi_tenant j) (wi_id j)")
  case (Some k)
  then show ?thesis
    using assms get_instance_entry [OF Some] by (intro evolves_put [of _ _ j _ k]) (simp_all add: update_instance_def)
qed (simp add: update_instance_def)

lemma evolves_append: "evolves_at w S (snd (append_events E t w evs S))"
proof (cases "get_instance S t w")
  case (Some i)
  obtain seq es c where a: "add_events E t w evs (wi_event_seq i, events_of S w, ws_clock S) = (seq, es, c)"
    using prod_cases3 by blast
  show ?thesis
    using get_instance_entry [OF Some] may_become_refl [of S w i]
    by (intro evolves_put [of _ _ "i\<lparr>wi_event_seq := seq, wi_updated := now_iso E c\<rparr>" _ i])
       (auto simp: append_events_def Some a)
qed (simp add: append_events_def)

section \<open>The worker\<close>

lemma advance_returns:
  assumes "advance_once R A boot load i T = (Inr (Some k), T')" "store_ok (rt_store T)"
  shows "wi_id k = wi_id i"
proof -
  obtain j where g: "get_instance (rt_store T) (wi_tenant i) (wi_id i) = Some j"
    using assms(1) by (auto simp: advance_once_def split: option.splits)
  have id: "wi_id j = wi_id i" using get_instance_entry [OF g] store_ok_get [OF assms(2)] by blast
  have "lands j (engine_store (open_engine j T)) (advance_step R A boot load j (open_engine j T))"
    using get_instance_entry [OF g] assms(2) id by (intro lands_step) simp_all
  moreover obtain v X where x: "advance_step R A boot load j (open_engine j T) = (v, X)" by fastforce
  moreover have "v = Inr (Some k)" using assms(1) by (simp add: advance_once_def g x)
  ultimately show ?thesis using id by (simp add: post_def returns_def)
qed

lemma evolves_advance:
  "evolves_at (wi_id i) (rt_store T) (rt_store (snd (advance_once R A boot load i T)))"
proof (cases "get_instance (rt_store T) (wi_tenant i) (wi_id i)")
  case (Some j)
  let ?S = "rt_store T"
  note j = get_instance_entry [OF Some, THEN conjunct1]
  obtain v X where x: "advance_step R A boot load j (open_engine j T) = (v, X)" by fastforce
  have r: "rt_store (snd (advance_once R A boot load i T)) = engine_store X"
    by (simp add: advance_once_def Some x)
  show ?thesis
    unfolding evolves_at_def r
  proof (intro impI)
    assume S: "store_ok ?S"
    have id: "wi_id j = wi_id i" using store_ok_get [OF S j] by simp
    have "lands j (engine_store (open_engine j T)) (advance_step R A boot load j (open_engine j T))"
      by (rule lands_step) (simp_all add: S id j)
    then have "landed j ?S (engine_store X)" using x by (simp add: post_def)
    then show "store_ok (engine_store X) \<and>
        (\<forall>v. v \<noteq> wi_id i \<longrightarrow> dget (ws_instances (engine_store X)) v = dget (ws_instances ?S) v) \<and>
        (\<forall>k. dget (ws_instances ?S) (wi_id i) = Some k \<longrightarrow>
          (\<exists>l. dget (ws_instances (engine_store X)) (wi_id i) = Some l \<and> advanced k l))"
      using id j by (simp add: landed_def)
  qed
qed (simp add: advance_once_def)

lemma evolves_dead_letter:
  assumes "\<And>k. store_ok S \<Longrightarrow> get_instance S (wi_tenant i) (wi_id i) = Some k \<Longrightarrow> may_become k i"
  shows "evolves_at (wi_id i) S (snd (dead_letter R i reason S))"
proof -
  let ?j = "i\<lparr>wi_run_status := DEAD_LETTER, wi_last_error := Some reason, wi_lease_owner := None,
    wi_lease_expires := None, wi_updated := now_iso (re_env R) (ws_clock S)\<rparr>"
  obtain v S1 where u: "update_instance ?j (later 1 S) = (v, S1)" by fastforce
  have g: "get_instance (later n S) t w = get_instance S t w" "store_ok (later n S) = store_ok S" for n t w
    by (simp_all add: later_def get_instance_def store_ok_def)
  have "evolves_at (wi_id ?j) (later 1 S) (snd (update_instance ?j (later 1 S)))"
    using assms by (intro evolves_update) (simp add: g)
  then have S1: "evolves_at (wi_id i) S S1" using evolves_at_trans [OF evolves_later] u by fastforce
  show ?thesis
    unfolding dead_letter_def Let_def u using S1 evolves_at_trans [OF S1 evolves_append] by (cases v) simp_all
qed


lemma dead_letter_at:
  "dead_letter R i reason S = (v, S') \<Longrightarrow>
   (\<And>k. store_ok S \<Longrightarrow> get_instance S (wi_tenant i) (wi_id i) = Some k \<Longrightarrow> may_become k i) \<Longrightarrow> evolves_at (wi_id i) S S'"
  using evolves_dead_letter [of S i R reason] by simp

lemma update_at:
  assumes "update_instance j (later 1 S) = (v, S')"
    and "\<And>k. store_ok S \<Longrightarrow> get_instance S (wi_tenant j) (wi_id j) = Some k \<Longrightarrow> may_become k j"
  shows "evolves_at (wi_id j) S S'"
proof -
  have "evolves_at (wi_id j) (later 1 S) (snd (update_instance j (later 1 S)))"
    using assms(2) by (intro evolves_update) (simp add: later_def get_instance_def store_ok_def)
  then show ?thesis using evolves_at_trans [OF evolves_later] assms(1) by fastforce
qed

text \<open>The instance just read from the store.\<close>

lemma read_instance:
  assumes "get_instance S t w = Some j" "store_ok S"
  shows "wi_id j = w" "wi_tenant j = t" "get_instance S (wi_tenant j) (wi_id j) = Some k \<Longrightarrow> may_become k j"
  using get_instance_entry [OF assms(1)] store_ok_get [OF assms(2)] may_become_refl [OF assms(2)] assms(1) by auto

lemma evolves_if_ok: "(store_ok S \<Longrightarrow> evolves_at w S S') \<Longrightarrow> evolves_at w S S'"
  by (simp add: evolves_at_def)

lemma evolves_after_advance:
  assumes "after_advance R rnd cfg i res S = (v, r, S')"
  shows "evolves_at (wi_id i) S S'"
proof (rule evolves_if_ok)
  assume S: "store_ok S"
  show "evolves_at (wi_id i) S S'"
  proof (cases "get_instance S (wi_tenant i) (wi_id i)")
    case (Some j)
    note rd = read_instance [OF Some S]
    let ?b = "back_off R rnd (wc_retry cfg) (ws_clock S) j"
    have "evolves_at (wi_id j) S S1" if "dead_letter R j reason S = (v1, S1)" for reason v1 S1
      using dead_letter_at [OF that] rd(3) by blast
    moreover have "evolves_at (wi_id j) S S1" if "update_instance ?b (later 1 S) = (v1, S1)" for v1 S1
      using update_at [OF that] rd(3) by (simp add: back_off_def Let_def)
    ultimately show ?thesis
      using assms rd(1) by (auto simp: after_advance_def Some split: if_splits prod.splits sum.splits)
  qed (use assms in \<open>simp add: after_advance_def\<close>)
qed

lemma evolves_handle_error:
  assumes "handle_process_error R cfg i e res S = (v, r, S')"
  shows "evolves_at (wi_id i) S S'"
proof (rule evolves_if_ok)
  assume S: "store_ok S"
  let ?i0 = "case get_instance S (wi_tenant i) (wi_id i) of Some j \<Rightarrow> j | None \<Rightarrow> i"
  let ?c = "?i0\<lparr>wi_attempts := wi_attempts ?i0 + 1, wi_last_error := Some (exn_str e)\<rparr>"
  have id: "wi_id ?c = wi_id i" using read_instance(1) [OF _ S] by (auto split: option.split)
  have ok: "get_instance S (wi_tenant ?c) (wi_id ?c) = Some k \<Longrightarrow> may_become k ?c" for k
    using read_instance [OF _ S] by (cases "get_instance S (wi_tenant i) (wi_id i)") auto
  have "evolves_at (wi_id i) S S1" if "dead_letter R ?c reason S = (v1, S1)" for reason v1 S1
    using dead_letter_at [OF that] ok id by metis
  moreover have "evolves_at (wi_id i) S S1"
    if "update_instance (?c\<lparr>wi_run_status := rs, wi_next_run := t, wi_lease_owner := o1, wi_lease_expires := o2\<rparr>)
      (later 1 S) = (v1, S1)" for rs t o1 o2 v1 S1
    using update_at [OF that] ok id by simp
  ultimately show "evolves_at (wi_id i) S S'"
    using assms unfolding handle_process_error_def Let_def by (auto split: if_splits prod.splits sum.splits)
qed

lemma evolves_process_one:
  assumes "process_one R A boot load rnd cfg i res T = (v, r, T')"
    and "store_ok (rt_store T) \<Longrightarrow> dget (ws_instances (rt_store T)) (wi_id i) = Some i"
  shows "evolves_at (wi_id i) (rt_store T) (rt_store T')"
proof (rule evolves_if_ok)
  assume S: "store_ok (rt_store T)"
  show "evolves_at (wi_id i) (rt_store T) (rt_store T')"
  proof (cases "wi_attempts i \<ge> wc_max cfg")
    case True
    have "may_become k i" if "get_instance (rt_store T) (wi_tenant i) (wi_id i) = Some k" for k
      using get_instance_entry [OF that] assms(2) [OF S] may_become_refl [OF S] by simp
    then have "evolves_at (wi_id i) (rt_store T) (snd (dead_letter R i ''max_attempts_exceeded'' (rt_store T)))"
      by (intro evolves_dead_letter)
    then show ?thesis
      using assms(1) True by (auto simp: process_one_def on_store_def split_beta split: prod.splits sum.splits)
  next
    case False
    obtain w U where a: "advance_once R A boot load i T = (w, U)" by fastforce
    then have TU: "evolves_at (wi_id i) (rt_store T) (rt_store U)" using evolves_advance [of i T R A boot load] by simp
    show ?thesis
    proof (cases "\<exists>j. w = Inr (Some j)")
      case True
      then obtain j where j: "w = Inr (Some j)" by blast
      obtain v1 r1 S1 where aa: "after_advance R rnd cfg j (res\<lparr>tk_advanced := tk_advanced res + 1\<rparr>) (rt_store U) = (v1, r1, S1)"
        using prod_cases3 by blast
      have id: "wi_id j = wi_id i" using advance_returns [OF a [unfolded j] S] .
      show ?thesis
        using assms(1) False a j aa evolves_at_trans [OF TU] evolves_after_advance [OF aa] id
        by (auto simp: process_one_def Let_def)
    next
      case False2: False
      then show ?thesis
        using assms(1) False a TU by (auto simp: process_one_def split: sum.splits option.splits)
    qed
  qed
qed


text \<open>The claimed workflows: distinct, and stored as claimed until their turn comes.\<close>

definition all_stored :: "workflow_instance list \<Rightarrow> workflow_store \<Rightarrow> bool" where
  "all_stored is S \<longleftrightarrow> distinct (map wi_id is) \<and> (\<forall>i \<in> set is. dget (ws_instances S) (wi_id i) = Some i)"

lemma all_stored_rest:
  assumes "all_stored (i # is) S" "evolves_at (wi_id i) S S'" "store_ok S"
  shows "all_stored is S'" "store_ok S'"
proof -
  note a = assms(2) [unfolded evolves_at_def, rule_format, OF assms(3)]
  show "store_ok S'" using a by blast
  have "wi_id k \<noteq> wi_id i" if "k \<in> set is" for k
    using assms(1) that unfolding all_stored_def by (metis distinct.simps(2) image_eqI list.set_map list.simps(9))
  moreover have "dget (ws_instances S') v = dget (ws_instances S) v" if "v \<noteq> wi_id i" for v using a that by blast
  moreover have "dget (ws_instances S) (wi_id k) = Some k" if "k \<in> set is" for k
    using assms(1) [unfolded all_stored_def, THEN conjunct2] that by simp
  ultimately have "\<forall>k \<in> set is. dget (ws_instances S') (wi_id k) = Some k" by metis
  moreover have "distinct (map wi_id is)" using assms(1) [unfolded all_stored_def, THEN conjunct1] by simp
  ultimately show "all_stored is S'" unfolding all_stored_def by blast
qed

lemma evolves_process_all:
  "(store_ok (rt_store T) \<Longrightarrow> all_stored is (rt_store T)) \<Longrightarrow>
     evolves (rt_store T) (rt_store (snd (process_all R A boot load rnd cfg is res T)))"
proof (induction "is" arbitrary: res T)
  case (Cons i "is")
  obtain v r U where p: "process_one R A boot load rnd cfg i res T = (v, r, U)" using prod_cases3 by blast
  have TU: "evolves_at (wi_id i) (rt_store T) (rt_store U)"
    using evolves_process_one [OF p] Cons.prems by (simp add: all_stored_def)
  have rest: "evolves (rt_store T) (rt_store (snd (process_all R A boot load rnd cfg is r2 V)))"
    if "evolves_at (wi_id i) (rt_store T) (rt_store V)" for r2 and V :: "'a runtime"
  proof (cases "store_ok (rt_store T)")
    case True
    have "all_stored is (rt_store V)" using all_stored_rest(1) [OF Cons.prems [OF True] that True] .
    then show ?thesis using history_evolves_trans [OF evolves_atD [OF that] Cons.IH] by simp
  qed (simp add: evolves_def)
  show ?case
  proof (cases v)
    case (Inr u)
    then show ?thesis using p rest [OF TU] by simp
  next
    case (Inl e)
    obtain w r2 S where h: "handle_process_error R cfg i e
        (r\<lparr>tk_errors := tk_errors r @ [wi_id i @ '': '' @ exn_str e]\<rparr>) (rt_store U) = (w, r2, S)" using prod_cases3 by blast
    have "evolves_at (wi_id i) (rt_store T) (rt_store (U\<lparr>rt_store := S\<rparr>))"
      using evolves_at_trans [OF TU evolves_handle_error [OF h]] by simp
    then show ?thesis using p Inl h rest [of "U\<lparr>rt_store := S\<rparr>"] evolves_atD by (cases w) auto
  qed
qed simp

lemma evolves_if_ok2: "(store_ok S \<Longrightarrow> evolves S S') \<Longrightarrow> evolves S S'"
  by (simp add: evolves_def)

lemma entries_rest:
  assumes "distinct (map fst ((k, i) # cs))" "\<forall>(l, j) \<in> set ((k, i) # cs). dget d l = Some j"
    and "\<And>l. l \<noteq> k \<Longrightarrow> dget d' l = dget d l"
  shows "\<forall>(l, j) \<in> set cs. dget d' l = Some j"
proof clarify
  fix l j assume lj: "(l, j) \<in> set cs"
  then have "l \<noteq> k" using assms(1) by force
  then show "dget d' l = Some j" using assms(2,3) lj by auto
qed

lemma evolves_claim_all:
  assumes "distinct (map fst cs)" "\<And>i. may_become i i \<Longrightarrow> may_become i (f i)"
    and "store_ok S \<Longrightarrow> \<forall>(k, i) \<in> set cs. dget (ws_instances S) k = Some i"
  shows "evolves S (snd (claim_all f cs S))"
  using assms(1,3)
proof (induction cs arbitrary: S)
  case (Cons c cs)
  obtain k i where c: "c = (k, i)" by fastforce
  have e: "evolves_at k S (put_instance k (f i) S)"
    using Cons.prems(2) assms(2) may_become_refl [of S k i] by (intro evolves_put [of _ _ "f i" _ i]) (auto simp: c)
  have "evolves (put_instance k (f i) S) (snd (claim_all f cs (put_instance k (f i) S)))"
    if S: "store_ok S"
  proof (rule Cons.IH)
    show "distinct (map fst cs)" using Cons.prems(1) by simp
    show "\<forall>(l, j) \<in> set cs. dget (ws_instances (put_instance k (f i) S)) l = Some j"
      by (rule entries_rest [OF Cons.prems(1) [unfolded c] Cons.prems(2) [OF S, unfolded c]]) simp
  qed
  moreover have "snd (claim_all f (c # cs) S) = snd (claim_all f cs (put_instance k (f i) S))" by (simp add: c split_beta)
  ultimately show ?case using evolves_if_ok2 [OF history_evolves_trans [OF evolves_atD [OF e]]] by metis
qed simp

lemma evolves_claim:
  assumes "claim C worker limit now ttl S = (v, S')"
  shows "evolves S S'" and "v = Inr out \<Longrightarrow> store_ok S \<Longrightarrow> all_stored out S'"
proof -
  let ?f = "claimed_by C worker now ttl" and ?t = "claim_taken C limit now S"
  have f: "may_become i (?f i)" if "may_become i i" for i using that by (simp add: claimed_by_def)
  have tk: "distinct (map fst ?t)" "(k, i) \<in> set ?t \<Longrightarrow> dget (ws_instances S) k = Some i" if "store_ok S" "v = Inr out" for out k i
    using claim_taken_props(1,2) [of S C worker limit now ttl out S'] assms that by (auto simp: store_ok_def)
  show "v = Inr out \<Longrightarrow> store_ok S \<Longrightarrow> all_stored out S'"
  proof -
    assume v: "v = Inr out" and S: "store_ok S"
    have d: "dict_ok (ws_instances S)" using S by (simp add: store_ok_def)
    note pr = claim_taken_props [OF d assms [unfolded v]]
    have id: "wi_id (?f i) = k \<and> dget (ws_instances S') k = Some (?f i)" if "(k, i) \<in> set ?t" for k i
    proof -
      have "dget ?t k = Some i" using that pr(1) by simp
      then show ?thesis using pr(4) [of k] store_ok_get [OF S] pr(2) [OF that] by (auto simp: claimed_by_def)
    qed
    have m: "map wi_id out = map fst ?t" unfolding pr(3) by (auto simp: id)
    show "all_stored out S'" unfolding all_stored_def m using pr(1) id by (auto simp: pr(3))
  qed
  show "evolves S S'"
  proof (cases v)
    case (Inl e)
    then show ?thesis using assms by (auto simp: claim_def Let_def split: sum.splits prod.splits)
  next
    case (Inr out)
    show ?thesis
    proof (cases "store_ok S")
      case True
      have "S' = snd (claim_all ?f ?t S)"
        using assms Inr by (auto simp: claim_def claim_taken_def Let_def split_beta split: sum.splits)
      moreover have "evolves S (snd (claim_all ?f ?t S))"
        by (rule evolves_claim_all) (use tk [OF True Inr] f in auto)
      ultimately show ?thesis by simp
    qed (simp add: evolves_def)
  qed
qed

lemma timeout_becomes:
  assumes "store_ok S" "dget (ws_instances S) k = Some i" "overdue C now i = Inr True"
  shows "may_become i (timed_out_instance t key pid seq i)"
proof -
  have "is_human_gate (wi_state i)"
    using assms(3) by (auto simp: overdue_def is_human_gate_def HUMAN_GATE_STATES_def TIMEOUT_GATE_STATES_def split: if_splits)
  then have "moves (wi_type i) (wi_state i) NEEDS_INFORMATION"
    using gate_moves(1) store_ok_get [OF assms(1,2)] by (simp add: instance_ok_def)
  then show ?thesis by (intro becomes_plain [of i i]) (simp_all add: timed_out_instance_def)
qed

lemma evolves_sweep_loop:
  assumes "distinct (map fst xs)" "store_ok S \<Longrightarrow> \<forall>(k, i) \<in> set xs. dget (ws_instances S) k = Some i"
  shows "evolves S (snd (sweep_loop C now xs S))"
  using assms
proof (induction xs arbitrary: S)
  case (Cons x xs)
  obtain k i where x: "x = (k, i)" by fastforce
  show ?case
  proof (cases "overdue C now i = Inr True")
    case True
    obtain v S1 where t: "time_out C now k i S = (v, S1)" by fastforce
    have e: "evolves_at k S S1"
    proof (cases v)
      case (Inl e)
      then show ?thesis using t by (auto simp: time_out_def Let_def split: sum.splits)
    next
      case (Inr u)
      then obtain t0 key pid seq where "ws_instances S1 = dset k (timed_out_instance t0 key pid seq i) (ws_instances S)"
        using t by (auto simp: time_out_def Let_def split: sum.splits)
      then show ?thesis
        using timeout_becomes [OF _ _ True] Cons.prems(2) by (intro evolves_put) (auto simp: x)
    qed
    have r: "evolves S1 (snd (sweep_loop C now xs S1))" if S: "store_ok S"
    proof (rule Cons.IH)
      show "distinct (map fst xs)" using Cons.prems(1) by simp
      have "dget (ws_instances S1) l = dget (ws_instances S) l" if "l \<noteq> k" for l
        using e [unfolded evolves_at_def, rule_format, OF S] that by blast
      then show "\<forall>(l, j) \<in> set xs. dget (ws_instances S1) l = Some j"
        by (rule entries_rest [OF Cons.prems(1) [unfolded x] Cons.prems(2) [OF S, unfolded x]])
    qed
    have "snd (sweep_loop C now (x # xs) S) = (case v of Inl e \<Rightarrow> S1 | Inr _ \<Rightarrow> snd (sweep_loop C now xs S1))"
      by (cases v) (auto simp: x True t snd_and_then_return)
    then show ?thesis
      using history_evolves_trans [OF evolves_atD [OF e] r] evolves_atD [OF e] by (cases v) (auto simp: evolves_def)
  next
    case False
    then show ?thesis using Cons by (auto simp: x split: sum.split)
  qed
qed simp

lemma evolves_sweep: "evolves S (snd (sweep_approval_timeouts C now S))"
proof (cases "store_ok S")
  case True
  then have "distinct (map fst (ws_instances S))" "\<forall>(k, i) \<in> set (ws_instances S). dget (ws_instances S) k = Some i"
    by (auto simp: store_ok_def dict_ok_def)
  then show ?thesis unfolding sweep_approval_timeouts_def by (intro evolves_sweep_loop)
qed (simp add: evolves_def)


section \<open>Calls on the runtime\<close>

abbreviation rt_evolves :: "'x runtime \<Rightarrow> 'x runtime \<Rightarrow> bool" where
  "rt_evolves T T' \<equiv> evolves (rt_store T) (rt_store T')"

lemma rt_then:
  assumes "rt_evolves T (snd r)"
    and "\<And>a U. r = (Inr a, U) \<Longrightarrow> store_ok (rt_store T) \<Longrightarrow> rt_evolves U (snd (f a U))"
  shows "rt_evolves T (snd (and_then r f))"
proof (cases "store_ok (rt_store T)")
  case True
  obtain v U where r: "r = (v, U)" by fastforce
  show ?thesis using assms True history_evolves_trans by (cases v) (auto simp: r)
qed (simp add: evolves_def)

lemma rt_on_store: "evolves (rt_store T) (snd (f (rt_store T))) \<Longrightarrow> rt_evolves T (snd (on_store f T))"
  by (simp add: on_store_def split_beta)

lemma evolves_tick: "rt_evolves T (snd (tick R A boot load rnd cfg now T))"
  unfolding tick_def
proof (rule rt_then)
  let ?c = "claim (re_times R) (wc_id cfg) (wc_batch cfg) now (wc_lease cfg)"
  have c: "evolves S (snd (?c S))" for S by (rule evolves_claim(1)) (rule surjective_pairing)
  then show "rt_evolves T (snd (on_store ?c T))" by (rule rt_on_store)
  fix claimed U
  assume o: "on_store ?c T = (Inr claimed, U)" and S: "store_ok (rt_store T)"
  have "all_stored claimed (rt_store U)"
    using o S by (auto simp: on_store_def split: prod.splits dest: evolves_claim(2))
  then have pa: "rt_evolves U (snd (process_all R A boot load rnd cfg claimed r U))" for r by (rule evolves_process_all)
  have sw: "rt_evolves V (snd (if \<not> wc_sweep cfg then (Inr r, V)
      else and_then (on_store (sweep_approval_timeouts (re_times R) now) V) (\<lambda>ids T3.
        (Inr (r\<lparr>tk_timed_out := length ids\<rparr>), T3))))" for r and V :: "'a runtime"
    by (auto intro!: rt_then rt_on_store evolves_sweep)
  show "rt_evolves U (snd (and_then (process_all R A boot load rnd cfg claimed (no_ticks\<lparr>tk_claimed := length claimed\<rparr>) U)
      (\<lambda>res T2. if \<not> wc_sweep cfg then (Inr res, T2)
         else and_then (on_store (sweep_approval_timeouts (re_times R) now) T2) (\<lambda>ids T3.
           (Inr (res\<lparr>tk_timed_out := length ids\<rparr>), T3)))))"
    by (intro rt_then pa sw)
qed

lemma evolves_tick_now: "rt_evolves T (snd (tick_now R A boot load rnd cfg T))"
  unfolding tick_now_def
proof (rule history_evolves_trans [OF evolves_atD [OF evolves_later [of undefined _ 1]]])
  show "evolves (later 1 (rt_store T)) (rt_store (snd (tick R A boot load rnd cfg (re_now R (ws_clock (rt_store T)))
      (T\<lparr>rt_store := later 1 (rt_store T)\<rparr>))))"
    using evolves_tick [of "T\<lparr>rt_store := later 1 (rt_store T)\<rparr>"] by simp
qed

lemma evolves_tick_until: "rt_evolves T (snd (tick_until_wait R A boot load rnd cfg t w n T))"
proof (induction n arbitrary: T)
  case (Suc n)
  show ?case
    unfolding tick_until_wait.simps by (intro rt_then evolves_tick_now) (auto simp: Suc.IH split: option.split)
qed simp

lemma evolves_pump:
  "(store_ok (rt_store T) \<Longrightarrow> dget (ws_instances (rt_store T)) (wi_id i) = Some i) \<Longrightarrow>
     rt_evolves T (snd (pump R A boot load n i T))"
proof (induction n arbitrary: i T)
  case (Suc n)
  let ?i = "if wi_run_status i = RETRY_SCHEDULED then i\<lparr>wi_run_status := PENDING\<rparr> else i"
  let ?T = "if wi_run_status i = RETRY_SCHEDULED then T\<lparr>rt_store := put_instance (wi_id i) ?i (rt_store T)\<rparr> else T"
  have T: "evolves_at (wi_id i) (rt_store T) (rt_store ?T)"
  proof (cases "wi_run_status i = RETRY_SCHEDULED")
    case True
    have "evolves_at (wi_id i) (rt_store T) (put_instance (wi_id i) (i\<lparr>wi_run_status := PENDING\<rparr>) (rt_store T))"
      using Suc.prems may_become_refl
      by (intro evolves_put [of _ _ "i\<lparr>wi_run_status := PENDING\<rparr>" _ i]) auto
    then show ?thesis using True by simp
  qed simp
  have "rt_evolves ?T (snd (and_then (advance_once R A boot load ?i ?T) (\<lambda>_ T2.
      case get_instance (rt_store T2) (wi_tenant i) (wi_id i) of
        None \<Rightarrow> (Inr None, T2) | Some j \<Rightarrow> pump R A boot load n j T2)))"
  proof (rule rt_then)
    show "rt_evolves ?T (snd (advance_once R A boot load ?i ?T))" by (rule evolves_atD [OF evolves_advance])
    fix a U
    show "rt_evolves U (snd (case get_instance (rt_store U) (wi_tenant i) (wi_id i) of
        None \<Rightarrow> (Inr None, U) | Some j \<Rightarrow> pump R A boot load n j U))"
    proof (cases "get_instance (rt_store U) (wi_tenant i) (wi_id i)")
      case (Some j)
      have "rt_evolves U (snd (pump R A boot load n j U))"
        using get_instance_entry [OF Some] store_ok_get [of "rt_store U" "wi_id i" j] by (intro Suc.IH) auto
      then show ?thesis using Some by simp
    qed simp
  qed
  from history_evolves_trans [OF evolves_atD [OF T] this] show ?case by (simp add: Let_def)
qed simp

lemma evolves_run: "rt_evolves T (snd (run_until_wait_or_terminal R A boot load t w n T))"
proof (cases "get_instance (rt_store T) t w")
  case (Some i)
  have "rt_evolves T (snd (pump R A boot load n i T))"
    using get_instance_entry [OF Some] store_ok_get [of "rt_store T" w i] by (intro evolves_pump) auto
  then show ?thesis by (simp add: run_until_wait_or_terminal_def Some)
qed (simp add: run_until_wait_or_terminal_def)

section \<open>Starts and signals\<close>

lemma evolves_create:
  assumes "instance_ok i"
  shows "evolves S (snd (create i S))"
  using assms advanced_refl by (auto simp: create_def evolves_def store_ok_def)

lemma evolves_launch: "instance_ok i \<Longrightarrow> evolves S (snd (launch R i p S))"
proof -
  assume i: "instance_ok i"
  obtain v S1 where c: "create i S = (v, S1)" by fastforce
  have S1: "evolves S S1" using evolves_create [OF i, of S] c by simp
  obtain w S2 where a: "append_events (re_env R) (wi_tenant i) (wi_id i) [Inl (event EV_CREATED p)] S1 = (w, S2)"
    by fastforce
  have "evolves S1 (snd (append_events (re_env R) (wi_tenant i) (wi_id i) [Inl (event EV_CREATED p)] S1))"
    by (rule evolves_atD [OF evolves_append])
  then have "evolves S1 S2" using a by simp
  then show ?thesis using S1 history_evolves_trans by (cases v; cases w) (auto simp: launch_def c a)
qed

lemma new_instance_ok:
  "st \<in> {RECEIVED, NORMALIZED} \<Longrightarrow> ty = EXPENSE_TO_RECEIPT \<or> st = RECEIVED \<Longrightarrow>
     instance_ok (new_instance R n w t ty bk st ctx sim nxt ver)"
  by (cases ty) (auto simp: new_instance_def instance_ok_def Let_def)

lemma evolves_start: "instance_ok i \<Longrightarrow> evolves S (snd (launch R i p (later k S)))"
  using history_evolves_trans [OF evolves_atD [OF evolves_later] evolves_launch] .

lemma evolves_wake: "evolves S (snd (wake_with R t w ty p S))"
proof -
  let ?S = "later 2 S"
  have "evolves_at w ?S (snd (enqueue_signal_and_wake E C t w sig rs nr cl ?S))" for E C sig rs nr cl
  proof (cases "get_instance ?S t w")
    case (Some i)
    let ?r = "enqueue_signal_and_wake E C t w sig rs nr cl ?S"
    show ?thesis
    proof (cases "ws_instances (snd ?r) = ws_instances ?S")
      case False
      then obtain j where j: "ws_instances (snd ?r) = dset w j (ws_instances ?S)" "\<And>k. may_become k j = may_become k i"
        by (auto simp: enqueue_signal_and_wake_def Some Let_def split: if_splits)
      show ?thesis
        using get_instance_entry [OF Some] may_become_refl [of ?S w i] j(2)
        by (intro evolves_put [OF j(1), of i]) auto
    qed (rule evolves_same)
  qed (simp add: enqueue_signal_and_wake_def)
  then show ?thesis
    unfolding wake_with_def Let_def using history_evolves_trans [OF evolves_atD [OF evolves_later] evolves_atD] by metis
qed

lemma evolves_signal: "evolves S (snd (signal_approval R t w a S))"
  by (simp add: signal_approval_def evolves_wake)

lemma evolves_signal_operator: "rt_evolves T (snd (signal_operator R A boot load rnd t w kind p T))"
proof -
  have pump: "rt_evolves U (snd (signal_approval_and_pump R A boot load rnd t w a n U))" for a n and U :: "'a runtime"
    unfolding signal_approval_and_pump_def by (intro rt_then rt_on_store evolves_signal evolves_tick_until) simp
  have "rt_evolves T (snd (and_then (signal_approval_and_pump R A boot load rnd t w a 20
      (T\<lparr>rt_store := later 2 (rt_store T)\<rparr>)) (\<lambda>_ T1. (Inr (), T1))))" for a
  proof -
    have "rt_evolves (T\<lparr>rt_store := later 2 (rt_store T)\<rparr>) (snd (and_then (signal_approval_and_pump R A boot load rnd t w a 20
      (T\<lparr>rt_store := later 2 (rt_store T)\<rparr>)) (\<lambda>_ T1. (Inr (), T1))))" by (intro rt_then pump) simp
    then show ?thesis using history_evolves_trans [OF evolves_atD [OF evolves_later]] by simp
  qed
  then show ?thesis
    unfolding signal_operator_def Let_def
    by (auto intro!: rt_on_store evolves_wake split: sum.split)
qed

lemma evolves_runtime_step: "rt_evolves T (runtime_step R A boot load rnd T c)"
proof (cases c)
  case (StartExpense t row spec email sim pol bk pre)
  then show ?thesis
    by (auto intro!: rt_on_store evolves_start new_instance_ok simp: start_expense_to_receipt_def Let_def)
next
  case (StartDigest t period doc path src appr nxt sim pol bk)
  then show ?thesis
    by (auto intro!: rt_on_store evolves_start new_instance_ok simp: start_scheduled_digest_def Let_def)
next
  case (StartCorrection t eid kind why repl splits sim pol bk)
  then show ?thesis
    by (auto intro!: rt_on_store evolves_start new_instance_ok simp: start_correction_def Let_def)
next
  case (SignalApproval t w a)
  then show ?thesis by (simp add: rt_on_store evolves_signal)
next
  case (SignalOperator t w kind p)
  then show ?thesis by (simp add: evolves_signal_operator)
next
  case (PumpWorkflow t w n)
  then show ?thesis by (simp add: evolves_run)
next
  case (WorkerTick cfg now)
  then show ?thesis by (simp add: evolves_tick)
qed

lemma evolves_history: "rt_evolves T (run (runtime_step R A boot load rnd) T cs)"
proof (induction cs arbitrary: T)
  case (Cons c cs)
  show ?case using history_evolves_trans [OF evolves_runtime_step Cons.IH] by simp
qed simp

lemma store_ok_empty [simp]: "store_ok empty_store"
  by (simp add: store_ok_def empty_store_def)

lemma store_ok_history:
  "rt_store T = empty_store \<Longrightarrow> store_ok (rt_store (run (runtime_step R A boot load rnd) T cs))"
  using evolves_history [of T R A boot load rnd cs] by (simp add: evolves_def)


section \<open>The machines\<close>


definition demo_start :: "in_process_adapter runtime" where
  "demo_start = \<lparr>rt_store = empty_store, rt_workspaces = []\<rparr>"

abbreviation demo_run :: "runtime_cmd list \<Rightarrow> in_process_adapter runtime" where
  "demo_run \<equiv> run (runtime_step demo_runtime in_process_api (\<lambda>_. True) (\<lambda>_. Inr []) (\<lambda>_. 0)) demo_start"

definition demo_reversal :: runtime_cmd where
  "demo_reversal = StartCorrection ''o'' ''e'' ''REVERSE'' ''x'' JNull JNull True (Some []) None"

lemma demo_started:
  "\<exists>i. dget (ws_instances (rt_store (demo_run [demo_reversal]))) ''wf_corr_'' = Some i \<and> wi_type i = WF_CORRECTION \<and>
    wi_state i = RECEIVED \<and> wi_tenant i = ''o'' \<and> wi_id i = ''wf_corr_'' \<and> wi_run_status i = PENDING \<and> wi_simulation i \<and>
    obj_get (wi_context i) ''correction_kind'' = JStr ''REVERSE'' \<and> obj_get (wi_context i) ''expense_id'' = JStr ''e'' \<and>
    obj_get (wi_context i) ''reason'' = JStr ''x''"
  by (simp add: demo_reversal_def start_correction_def on_store_def demo_start_def empty_store_def upper_text_def
      upper_char_def str_get_def policy_or_default_def launch_def create_def later_def new_instance_def draw_id_def
      demo_runtime_def demo_env_def Let_def append_events_def get_instance_def add_events_def event_def business_key_def
      events_of_def default_list_def obj_get_def)



lemma freeze_round:
  "frozen_from_dict (frozen_to_dict (freeze_command c pid ag)) = Inr (freeze_command c pid ag)"
  by (cases "cmd_required c"; cases "cmd_expires c")
     (simp_all add: frozen_from_dict_def frozen_to_dict_def freeze_command_def str_field_def str_or_def opt_str_def)

text \<open>The first advance of a reversal in a simulation parks it at the review, with the reversal frozen.\<close>

lemma reversal_parks:
  assumes "get_instance (rt_store T) t w = Some i" "wi_id i = w" "wi_type i = WF_CORRECTION" "wi_state i = RECEIVED"
    and "wi_run_status i = PENDING" "wi_simulation i"
    and "obj_get (wi_context i) ''correction_kind'' = JStr ''REVERSE''" "obj_get (wi_context i) ''expense_id'' = JStr e"
    and "obj_get (wi_context i) ''reason'' = JStr why" "e \<noteq> []" "why \<noteq> []"
  shows "\<exists>j f. dget (ws_instances (rt_store (snd (run_until_wait_or_terminal R A boot load t w (Suc 0) T)))) w = Some j \<and>
    wi_type j = WF_CORRECTION \<and> wi_state j = REVIEW_PENDING \<and> frozen_in (obj_get (wi_context j) ''wait'') f"
proof -
  let ?X = "open_engine i T"
  let ?c = "\<lambda>n. build_reverse_command R n (wi_tenant i) e why"
  let ?out = "correction_wait R (Suc (ex_clock ?X)) ''REVERSE'' e why (obj_get (wi_context i) ''replacement'')
    (obj_get (wi_context i) ''splits'') (?c (ex_clock ?X))"
  have t: "wi_tenant i = t" using get_instance_entry [OF assms(1)] by simp
  have "assert_transition (Some CORRECTION_TRANSITIONS) RECEIVED REVIEW_PENDING = Inr ()"
    by (simp add: assert_transition_def machine_tables)
  then have p: "step_propose_correction R (ex_clock ?X) (wi_tenant i) ''REVERSE'' e why
      (obj_get (wi_context i) ''replacement'') (obj_get (wi_context i) ''splits'') RECEIVED = Inr ?out"
    by (simp add: step_propose_correction_def)
  let ?w = "wait_of_step ?out"
  let ?i2 = "with_context [(''wait'', JObj ?w)] (with_context (st_patch ?out) i)"
  have "\<exists>d. descriptor_of ?w True = Inr d"
    by (simp add: descriptor_of_def wait_key_def wait_of_step_def correction_wait_def step_to_def Let_def obj_get_def
        or_empty_def frozen_to_dict_def)
  then obtain d where d: "descriptor_of ?w True = Inr d" by blast
  let ?j = "(apply_step ?out ?i2)\<lparr>wi_wait_descriptor := Some d,
    wi_wait_deadline := (if present (st_deadline ?out) then st_deadline ?out else None),
    wi_lease_owner := None, wi_lease_expires := None\<rparr>"
  have u: "upper_text ''REVERSE'' = ''REVERSE''" by (simp add: upper_text_def upper_char_def)
  have "advance_step R A boot load i ?X = commit R ?j (st_events ?out) [] [] (spend 2 ?X)"
    using assms p d correction_wait_facts(2) u
    by (simp add: advance_step_def advance_correction_def TERMINAL_RUN_STATUSES_def propose_correction_def Let_def jor_def
        park_correction_def is_human_gate_def HUMAN_GATE_STATES_def)
  moreover obtain seq u X' where
    "ws_instances (engine_store (snd (commit R ?j (st_events ?out) [] [] (spend 2 ?X)))) =
      dset (wi_id ?j) (?j\<lparr>wi_event_seq := seq, wi_updated := u\<rparr>) (ws_instances (engine_store (spend 2 ?X)))"
    by (rule commit_instances [of "spend 2 ?X" ?j i])
       (use get_instance_entry [OF assms(1)] assms(2) in \<open>simp_all add: apply_step_def with_context_def\<close>)
  ultimately have dg: "dget (ws_instances (engine_store (snd (advance_step R A boot load i ?X)))) w =
      Some (?j\<lparr>wi_event_seq := seq, wi_updated := u\<rparr>)"
    using assms(2) by (simp add: apply_step_def with_context_def)
  then have "dget (ws_instances (rt_store (snd (run_until_wait_or_terminal R A boot load t w (Suc 0) T)))) w =
      Some (?j\<lparr>wi_event_seq := seq, wi_updated := u\<rparr>)"
  proof -
    have "rt_store (snd (run_until_wait_or_terminal R A boot load t w (Suc 0) T)) =
        rt_store (snd (advance_once R A boot load i T))"
    proof -
      obtain v U where a: "advance_once R A boot load i T = (v, U)" by fastforce
      show ?thesis
        using assms(1,5) a by (cases v)
          (simp_all add: run_until_wait_or_terminal_def PUMP_STOPS_def TERMINAL_RUN_STATUSES_def split: option.split)
    qed
    also have "\<dots> = engine_store (snd (advance_step R A boot load i ?X))"
      using assms(1,2) t by (simp add: advance_once_def split_beta)
    finally show ?thesis using dg by simp
  qed
  moreover have "\<exists>f. frozen_in (JObj ?w) f"
    by (simp add: frozen_in_def wait_of_step_def correction_wait_def step_to_def Let_def obj_get_def freeze_round)
  ultimately show ?thesis using assms(3) correction_wait_facts(1)
    by (auto simp: apply_step_def with_context_def obj_get_def)
qed




end
