(* ===== verification/Runtime_Properties.thy ===== *)
theory Runtime_Properties
  imports Runtime_Safety
begin

text \<open>
  Single behaviours of the runtime and the worker: what becomes of an operator's approval, of evidence under a
  tenant's policy, of a failed import, of repeated errors, and of a workflow that is woken without a way on.
\<close>

section \<open>Approvals reach the gate\<close>

lemma approval_round_trip:
  assumes "make_approval a = Inr a" "app_role a \<noteq> []" "app_at a \<noteq> []" "app_policy_version a \<noteq> []"
  shows "approval_of_signal now (operator_signal R n t w SIG_APPROVAL (approval_doc a)) = Inr (Some a)"
  using assms
  by (cases a) (auto simp: approval_of_signal_def operator_signal_def approval_doc_def str_field_def str_or_def Let_def)

text \<open>C18. An approval reaches the gate as it was given: when the runtime accepts a human's decision, the workflow is
  claimable at once without a lease, and the last unconsumed signal the gate will read decodes to exactly that decision.\<close>

theorem approval_is_delivered:
  assumes "signal_approval R t w a S = (Inr (), S')" and "make_approval a = Inr a"
    and "app_role a \<noteq> []" "app_at a \<noteq> []" "app_policy_version a \<noteq> []"
  shows "\<exists>s i. last (take_unconsumed_signals S' t w) = s \<and> s \<in> set (take_unconsumed_signals S' t w) \<and>
    (\<forall>now. approval_of_signal now s = Inr (Some a)) \<and> \<not> starts_with ''agent:'' (app_approver a) \<and>
    get_instance S' t w = Some i \<and> wi_run_status i = PENDING \<and> wi_lease_owner i = None"
proof -
  let ?s = "operator_signal R (ws_clock S) t w SIG_APPROVAL (approval_doc a)"
  have ag: "\<not> starts_with ''agent:'' (app_approver a)"
    and wk: "wake_with R t w SIG_APPROVAL (approval_doc a) S = (Inr (), S')"
    using assms(1) by (auto simp: signal_approval_def split: if_splits)
  obtain i where i: "get_instance S t w = Some i" using wk assms(1) by (auto simp: signal_approval_def split: if_splits)
  have l: "get_instance (later 2 S) t w = Some i" "signals_of (later 2 S) w = signals_of S w"
    using i by (simp_all add: get_instance_def later_def signals_of_def)
  have "signals_of S' w = signals_of S w @ [?s]" "\<exists>j. get_instance S' t w = Some j \<and> wi_run_status j = PENDING \<and> wi_lease_owner j = None"
    using wk l by (auto simp: wake_with_def Let_def enqueue_signal_and_wake_def signals_of_def get_instance_def
        split: if_splits option.splits)
  then have ss: "\<exists>j. get_instance S' t w = Some j \<and> wi_run_status j = PENDING \<and> wi_lease_owner j = None"
    "take_unconsumed_signals S' t w = filter (\<lambda>s. \<not> sig_consumed s) (signals_of S w) @ [?s]"
    by (auto simp: take_unconsumed_signals_def operator_signal_def)
  show ?thesis using ss ag approval_round_trip [OF assms(2-5)] by auto
qed

theorem approval_is_delivered_witness:
  "\<exists>s. last (take_unconsumed_signals (snd (signal_approval demo_runtime ''o'' ''w'' demo_approval
      (demo_store REVIEW_PENDING WAITING_SIGNAL))) ''o'' ''w'') = s \<and>
    (\<forall>now. approval_of_signal now s = Inr (Some demo_approval))"
proof -
  let ?S = "demo_store REVIEW_PENDING WAITING_SIGNAL"
  have "fst (signal_approval demo_runtime ''o'' ''w'' demo_approval ?S) = Inr ()"
    by (simp add: signal_approval_def wake_with_def enqueue_signal_and_wake_def get_instance_def later_def
        demo_instance_def demo_approval_def Let_def)
  then obtain S' where s: "signal_approval demo_runtime ''o'' ''w'' demo_approval ?S = (Inr (), S')"
    by (metis prod.collapse)
  have "make_approval demo_approval = Inr demo_approval" "app_role demo_approval \<noteq> []" "app_at demo_approval \<noteq> []"
    "app_policy_version demo_approval \<noteq> []" by (simp_all add: make_approval_def demo_approval_def)
  from approval_is_delivered [OF s this] show ?thesis unfolding s by auto
qed

section \<open>Evidence\<close>

lemma evidence_evaluate_warns:
  assumes "evidence_evaluate R n cx (make_command sha ty t [(''expense_id'', e), (''evidence'', JList items),
      (''flags'', JObj flags)] lv k x) = Inr p"
  obtains st where "assess items flags [] True = Inr st"
    and "prop_warnings p = (if st = ES_SUFFICIENT then [] else [sufficiency_value st])"
proof -
  have "list_field (JObj (cmd_payload (make_command sha ty t [(''expense_id'', e), (''evidence'', JList items),
      (''flags'', JObj flags)] lv k x))) ''evidence'' = Inr items"
    "or_empty (obj_get (cmd_payload (make_command sha ty t [(''expense_id'', e), (''evidence'', JList items),
      (''flags'', JObj flags)] lv k x)) ''flags'') = Inr flags"
    by (simp_all add: make_command_def Let_def list_field_def or_empty_def obj_get_def)
  then show ?thesis using assms that by (auto simp: evidence_evaluate_def Let_def split: sum.splits)
qed

lemma reassessed_warning: "prop_warnings p = [sufficiency_value st] \<Longrightarrow> reassessed p s = st"
  by (cases st) (simp_all add: reassessed_def sufficiencies_def)

text \<open>C20. A tenant's evidence policy cannot admit more than the default: whatever kinds of documents the
  policy declares sufficient and whether or not it asks for donor-visible ones, an expense leaves the evidence step
  for classification only if the built-in kinds, donor-visible, suffice as well.\<close>

theorem evidence_policy_cannot_widen:
  assumes "step_evidence R n cx eid items flags kinds visible current = Inr out"
    and "st_next (so_step out) = WF_CLASSIFICATION_PENDING"
  shows "assess items flags [] True = Inr ES_SUFFICIENT \<and> assess items flags kinds visible = Inr ES_SUFFICIENT"
proof -
  let ?fl = "\<lambda>s0. if s0 = ES_CONTRADICTORY then dset ''contradictory'' (JBool True) flags else flags"
  let ?c = "\<lambda>s0. make_command (sha256_hex (re_env R)) ''assess_evidence'' (cx_tenant cx)
    [(''expense_id'', JStr eid), (''evidence'', JList items), (''flags'', JObj (?fl s0))] L0_OBSERVE [] None"
  obtain s0 where s0: "assess items flags kinds visible = Inr s0"
    using assms(1) by (auto simp: step_evidence_def split: sum.splits)
  obtain p where p: "evidence_evaluate R n cx (?c s0) = Inr p"
    using assms(1) s0 by (auto simp: step_evidence_def Let_def split: sum.splits)
  have nx: "st_next (so_step out) = evidence_next (evidence_validate p) (reassessed p s0)"
    using assms(1) s0 p by (auto simp: step_evidence_def Let_def step_of_def step_to_def split: sum.splits)
  then have suff: "reassessed p s0 = ES_SUFFICIENT"
    using assms(2) by (cases "reassessed p s0") (auto simp: evidence_next_def split: if_splits)
  obtain st where st: "assess items (?fl s0) [] True = Inr st"
    "prop_warnings p = (if st = ES_SUFFICIENT then [] else [sufficiency_value st])"
    using evidence_evaluate_warns [OF p] by blast
  have "st = ES_SUFFICIENT" using st(2) reassessed_warning [of p st s0] suff by (cases "st = ES_SUFFICIENT") auto
  moreover from this have "s0 = ES_SUFFICIENT" using st(2) suff by (simp add: reassessed_def)
  ultimately show ?thesis using s0 st(1) by simp
qed

definition demo_context :: agent_context where
  "demo_context = \<lparr>cx_tenant = ''o'', cx_policy_version = ''v1.0'', cx_prompt_version = None, cx_facts = [], cx_now = None,
     cx_policy = []\<rparr>"

definition demo_invoice :: json where
  "demo_invoice = JObj [(''kind'', JStr ''invoice''), (''donor_visible'', JBool True)]"

theorem evidence_policy_cannot_widen_witness:
  "assess [demo_invoice] [] [] True = Inr ES_SUFFICIENT \<and> assess [demo_invoice] [] [JStr ''invoice''] False = Inr ES_SUFFICIENT"
proof -
  have it: "item_get demo_invoice ''donor_visible'' d = Inr (JBool True)" "kind_of_item demo_invoice = Inr (JStr ''invoice'')"
    "item_get demo_invoice ''id'' d = Inr d" for d
    by (simp_all add: demo_invoice_def kind_of_item_def item_get_def obj_get_def)
  have as: "assess [demo_invoice] [] [] True = Inr ES_SUFFICIENT"
    "assess [demo_invoice] [] [JStr ''invoice''] False = Inr ES_SUFFICIENT"
    by (simp_all add: assess_def obj_get_def it judge_kinds_def DEFAULT_KINDS_def)
  obtain p where p: "evidence_evaluate demo_runtime 0 demo_context (make_command (sha256_hex demo_env) ''assess_evidence'' ''o''
      [(''expense_id'', JStr ''e''), (''evidence'', JList [demo_invoice]), (''flags'', JObj [])] L0_OBSERVE [] None) = Inr p"
    and pr: "prop_warnings p = []" "prop_commands p = []" "prop_contradictions p = []"
    by (simp add: evidence_evaluate_def make_command_def Let_def list_field_def or_empty_def obj_get_def as
        enumerate_eq_zip evidence_ref_def it)
  have "\<exists>out. step_evidence demo_runtime 0 demo_context ''e'' [demo_invoice] [] [JStr ''invoice''] False EVIDENCE_PENDING = Inr out \<and>
    st_next (so_step out) = WF_CLASSIFICATION_PENDING"
    using as p pr by (simp add: step_evidence_def Let_def step_of_def step_to_def assert_transition_def machine_tables
        reassessed_def evidence_validate_def evidence_next_def validation_ok_def accepted_def demo_context_def)
  then show ?thesis using evidence_policy_cannot_widen by blast
qed

section \<open>Workflows without a way on\<close>

text \<open>One advance of an expense workflow in a state the runtime has no handler for.\<close>

lemma unhandled_advance:
  assumes "get_instance (rt_store T) (wi_tenant i) (wi_id i) = Some i" "wi_type i = EXPENSE_TO_RECEIPT"
    and "wi_state i \<in> {NEEDS_INFORMATION, BLOCKED}" "wi_run_status i = PENDING"
  obtains d U where "advance_once R A boot load i T = (Inr (Some (i\<lparr>wi_next_run := d\<rparr>)), U)"
    and "get_instance (rt_store U) (wi_tenant i) (wi_id i) = Some (i\<lparr>wi_next_run := d\<rparr>)"
    and "ws_signals (rt_store U) = ws_signals (rt_store T)" and "\<And>s. bound_workspace s U = bound_workspace s T"
proof -
  let ?X = "open_engine i T"
  let ?i = "i\<lparr>wi_run_status := PENDING, wi_next_run := Some (now_text R ?X)\<rparr>"
  have same: "?i = i\<lparr>wi_next_run := Some (now_text R ?X)\<rparr>" using assms(4) by simp
  let ?Y = "snd (in_store (update_instance ?i) (spend 1 ?X))"
  have g: "get_instance (engine_store (spend 1 ?X)) (wi_tenant i) (wi_id i) = Some i"
    using assms(1) by (simp add: get_instance_def)
  then have u: "update_instance ?i (engine_store (spend 1 ?X)) = (Inr (), put_instance (wi_id i) ?i (engine_store (spend 1 ?X)))"
    by (simp add: update_instance_def)
  have "advance_step R A boot load i ?X = (Inr (Some ?i), ?Y)"
  proof -
    obtain v Y where y: "in_store (update_instance ?i) (spend 1 ?X) = (v, Y)" by fastforce
    have "v = Inr ()" using arg_cong [OF y, of fst] u by simp
    then show ?thesis
      using assms(2-4) y
      by (auto simp: advance_step_def Let_def is_human_gate_def HUMAN_GATE_STATES_def TERMINAL_RUN_STATUSES_def)
  qed
  then have a: "advance_once R A boot load i T = (Inr (Some ?i), close_engine (wi_tenant i) ?Y T)"
    using assms(1) by (simp add: advance_once_def)
  have "get_instance (engine_store ?Y) (wi_tenant i) (wi_id i) = Some ?i"
    "ws_signals (engine_store ?Y) = ws_signals (rt_store T)" "xd_ws (ex_domain ?Y) = bound_workspace (wi_tenant i) T"
    using u by (simp_all add: get_instance_def) (simp add: spend_def)
  then show ?thesis using that [OF a [unfolded same]] same by simp
qed

text \<open>A woken workflow that lacks information or is blocked never waits again: after any signal made it
  PENDING, the pump runs all its steps and leaves it PENDING in the same state with the same context, every signal
  still unconsumed and no workspace changed, however many steps it is given; it neither acts on the signal nor
  returns to waiting.\<close>

theorem woken_workflow_never_waits:
  assumes "get_instance (rt_store T) t w = Some i" "wi_id i = w" "wi_type i = EXPENSE_TO_RECEIPT"
    and "wi_state i \<in> {NEEDS_INFORMATION, BLOCKED}" "wi_run_status i = PENDING"
  shows "\<exists>j U. run_until_wait_or_terminal R A boot load t w n T = (Inr (Some j), U) \<and>
    wi_state j = wi_state i \<and> wi_run_status j = PENDING \<and> wi_context j = wi_context i \<and>
    take_unconsumed_signals (rt_store U) t w = take_unconsumed_signals (rt_store T) t w \<and>
    (\<forall>s. bound_workspace s U = bound_workspace s T)"
proof -
  have "\<exists>j U. pump R A boot load n i T = (Inr (Some j), U) \<and>
    wi_state j = wi_state i \<and> wi_run_status j = PENDING \<and> wi_context j = wi_context i \<and>
    get_instance (rt_store U) (wi_tenant i) (wi_id i) \<noteq> None \<and>
    ws_signals (rt_store U) = ws_signals (rt_store T) \<and> (\<forall>s. bound_workspace s U = bound_workspace s T)"
    if "get_instance (rt_store T) (wi_tenant i) (wi_id i) = Some i" "wi_type i = EXPENSE_TO_RECEIPT"
      "wi_state i \<in> {NEEDS_INFORMATION, BLOCKED}" "wi_run_status i = PENDING" for i and T :: "'a runtime"
    using that
  proof (induction n arbitrary: i T)
    case (Suc n)
    obtain d U where a: "advance_once R A boot load i T = (Inr (Some (i\<lparr>wi_next_run := d\<rparr>)), U)"
      "get_instance (rt_store U) (wi_tenant i) (wi_id i) = Some (i\<lparr>wi_next_run := d\<rparr>)"
      "ws_signals (rt_store U) = ws_signals (rt_store T)" "\<And>s. bound_workspace s U = bound_workspace s T"
      using unhandled_advance [OF Suc.prems] by metis
    have p: "pump R A boot load (Suc n) i T = pump R A boot load n (i\<lparr>wi_next_run := d\<rparr>) U"
      using Suc.prems(4) a(1,2) by (simp add: PUMP_STOPS_def TERMINAL_RUN_STATUSES_def)
    show ?case
      unfolding p using Suc.IH [of U "i\<lparr>wi_next_run := d\<rparr>"] Suc.prems(2-4) a(2-4) by simp
  qed simp
  moreover have "wi_tenant i = t" using assms(1) by (auto simp: get_instance_def split: option.splits if_splits)
  ultimately obtain j U where u: "pump R A boot load n i T = (Inr (Some j), U)" "wi_state j = wi_state i"
    "wi_run_status j = PENDING" "wi_context j = wi_context i" "get_instance (rt_store U) t w \<noteq> None"
    "ws_signals (rt_store U) = ws_signals (rt_store T)" "\<forall>s. bound_workspace s U = bound_workspace s T"
    using assms by blast
  have "take_unconsumed_signals (rt_store U) t w = take_unconsumed_signals (rt_store T) t w"
    using u(5,6) assms(1) by (auto simp: take_unconsumed_signals_def signals_of_def)
  then show ?thesis using assms(1) u by (simp add: run_until_wait_or_terminal_def)
qed

theorem woken_workflow_never_waits_witness:
  "\<exists>j U. run_until_wait_or_terminal demo_runtime in_process_api (\<lambda>_. True) (\<lambda>_. Inr []) ''o'' ''w'' 50
      \<lparr>rt_store = demo_store BLOCKED PENDING, rt_workspaces = []\<rparr> = (Inr (Some j), U) \<and>
    wi_state j = BLOCKED \<and> wi_run_status j = PENDING"
proof -
  have "get_instance (rt_store \<lparr>rt_store = demo_store BLOCKED PENDING, rt_workspaces = []\<rparr>) ''o'' ''w'' =
    Some (demo_instance BLOCKED PENDING)" by (simp add: get_instance_def demo_instance_def)
  from woken_workflow_never_waits [OF this, of demo_runtime in_process_api "\<lambda>_. True" "\<lambda>_. Inr []" 50]
  show ?thesis by (auto simp: demo_instance_def)
qed

section \<open>Errors\<close>

text \<open>The store after the worker handled errors of one workflow, one after the other.\<close>

fun after_errors :: "runtime_env \<Rightarrow> worker_config \<Rightarrow> workflow_instance \<Rightarrow> py_exn list \<Rightarrow> workflow_store \<Rightarrow> workflow_store" where
  "after_errors R cfg i [] S = S"
| "after_errors R cfg i (e # es) S = after_errors R cfg i es (snd (snd (handle_process_error R cfg i e no_ticks S)))"

lemma update_stored:
  "get_instance S (wi_tenant j) (wi_id j) \<noteq> None \<Longrightarrow>
     get_instance (snd (update_instance j (later k S))) (wi_tenant j) (wi_id j) = Some j"
  by (auto simp: update_instance_def later_def get_instance_def split: option.splits if_splits)

lemma dead_never_claimed: "wi_run_status j = DEAD_LETTER \<Longrightarrow> claimable C now j \<noteq> Inr True"
  by (auto simp: claimable_def CLAIMABLE_RUN_STATUSES_def split: option.splits sum.splits)

lemma append_events_stored:
  assumes "get_instance S t w = Some i"
  shows "\<exists>j. get_instance (snd (append_events E t w evs S)) t w = Some j \<and> wi_id j = wi_id i \<and>
    wi_state j = wi_state i \<and> wi_context j = wi_context i \<and> wi_run_status j = wi_run_status i"
  using assms
  by (auto simp: append_events_def split: prod.splits)
    (auto simp: get_instance_def put_instance_def split: option.splits if_splits)

lemma dead_letter_stored:
  assumes "get_instance S (wi_tenant i) (wi_id i) \<noteq> None"
  shows "\<exists>S1 j. dead_letter R i r S = (Inr (), S1) \<and> get_instance S1 (wi_tenant i) (wi_id i) = Some j \<and>
    wi_id j = wi_id i \<and> wi_state j = wi_state i \<and> wi_context j = wi_context i \<and> wi_run_status j = DEAD_LETTER"
proof -
  let ?j = "i\<lparr>wi_run_status := DEAD_LETTER, wi_last_error := Some r, wi_lease_owner := None,
            wi_lease_expires := None, wi_updated := now_iso (re_env R) (ws_clock S)\<rparr>"
  let ?S = "put_instance (wi_id i) ?j (later 1 S)"
  have "update_instance ?j (later 1 S) = (Inr (), ?S)"
    using assms by (auto simp: update_instance_def later_def get_instance_def split: option.splits if_splits)
  then obtain evs where d: "dead_letter R i r S = (Inr (), snd (append_events (re_env R) (wi_tenant i) (wi_id i) evs ?S))"
    by (simp add: dead_letter_def Let_def)
  have "get_instance ?S (wi_tenant i) (wi_id i) = Some ?j" by (simp add: get_instance_def put_instance_def later_def)
  then show ?thesis unfolding d using append_events_stored [of ?S _ _ ?j "re_env R" evs] by auto
qed

lemma error_handled:
  assumes "get_instance S (wi_tenant i) (wi_id i) = Some i0" "wi_id i0 = wi_id i"
  obtains j where "get_instance (snd (snd (handle_process_error R cfg i e res S))) (wi_tenant i) (wi_id i) = Some j"
    and "wi_id j = wi_id i" "wi_state j = wi_state i0" "wi_context j = wi_context i0"
    and "wi_run_status j = DEAD_LETTER \<or>
      wi_run_status j = RETRY_SCHEDULED \<and> wi_attempts j = wi_attempts i0 + 1 \<and> wi_attempts j < wc_max cfg"
proof -
  have t: "wi_tenant i0 = wi_tenant i" using assms(1) by (auto simp: get_instance_def split: option.splits if_splits)
  let ?c = "i0\<lparr>wi_attempts := wi_attempts i0 + 1, wi_last_error := Some (exn_str e)\<rparr>"
  obtain cls reason where cr: "classify_error (fst (exn_type e)) (snd (exn_type e)) (exn_str e) = (cls, reason)"
    by fastforce
  show ?thesis
  proof (cases "cls \<noteq> RETRYABLE \<or> wi_attempts i0 + 1 \<ge> wc_max cfg")
    case True
    have "get_instance S (wi_tenant ?c) (wi_id ?c) \<noteq> None" using assms t by simp
    then obtain S1 j where d: "dead_letter R ?c (''worker_error:'' @ reason) S = (Inr (), S1)"
      "get_instance S1 (wi_tenant ?c) (wi_id ?c) = Some j" "wi_id j = wi_id ?c" "wi_state j = wi_state ?c"
      "wi_context j = wi_context ?c" "wi_run_status j = DEAD_LETTER" using dead_letter_stored by blast
    have "snd (snd (handle_process_error R cfg i e res S)) = S1"
      using True cr assms(1) d(1) by (simp add: handle_process_error_def)
    then show ?thesis using that d(2-6) t assms(2) by simp
  next
    case False
    let ?d = "?c\<lparr>wi_run_status := RETRY_SCHEDULED, wi_next_run := Some (due_after R (ws_clock S)
      (delay_for_attempt (wc_retry cfg) (wi_attempts ?c))), wi_lease_owner := None, wi_lease_expires := None\<rparr>"
    have "snd (snd (handle_process_error R cfg i e res S)) = snd (update_instance ?d (later 1 S))"
      using False cr assms(1) by (simp add: handle_process_error_def Let_def split: prod.splits)
    then show ?thesis using that update_stored [of S ?d 1] t assms False by simp
  qed
qed



end
