(* ===== verification/Sql_Store.thy ===== *)
theory Sql_Store
  imports Workflow_Store Payload
begin

text \<open>
  The durable workflow store of \<^verbatim>\<open>workflows/store_sql.py\<close> on SQLite: four tables as lists of rows in the order of
  insertion, one definition per statement with the constraints of the schema, and one per method. A method is one
  transaction: what it changed is rolled back when it raises. A JSON column is the value its text reads back as,
  that is with its keys sorted. A query visits the rows in insertion order and \<^verbatim>\<open>ORDER BY\<close> is stable; text is
  compared byte by byte. PostgreSQL, connections and migration are left out.
\<close>

section \<open>Tables\<close>

record workflow_row =
  wr_id :: string
  wr_tenant :: string
  wr_type :: string
  wr_business_key :: string
  wr_state :: string
  wr_run_status :: string
  wr_simulation :: int
  wr_policy_version :: string
  wr_context :: json
  wr_descriptor :: "json option"
  wr_deadline :: "string option"
  wr_timeout_applied :: "string option"
  wr_attempts :: int
  wr_next_run :: string
  wr_lease_owner :: "string option"
  wr_lease_expires :: "string option"
  wr_last_error :: "string option"
  wr_created :: string
  wr_updated :: string
  wr_event_seq :: int

record event_row =
  er_id :: string
  er_workflow :: string
  er_tenant :: string
  er_seq :: int
  er_type :: string
  er_payload :: json
  er_created :: string

record signal_row =
  sr_id :: string
  sr_workflow :: string
  sr_tenant :: string
  sr_type :: string
  sr_payload :: json
  sr_created :: string
  sr_consumed_at :: "string option"
  sr_result :: "string option"

record receipt_row =
  rr_tenant :: string
  rr_key :: string
  rr_execution :: string
  rr_workflow :: string
  rr_type :: string
  rr_status :: string
  rr_receipt :: json
  rr_created :: string

record sql_store =
  sq_workflows :: "workflow_row list"
  sq_events :: "event_row list"
  sq_signals :: "signal_row list"
  sq_receipts :: "receipt_row list"
  sq_clock :: nat

definition empty_tables :: sql_store where
  "empty_tables = \<lparr>sq_workflows = [], sq_events = [], sq_signals = [], sq_receipts = [], sq_clock = 0\<rparr>"

text \<open>\<^verbatim>\<open>with self._conn()\<close>: commit at the end, roll back on an exception; the clock goes on either way.\<close>

definition transact :: "(sql_store \<Rightarrow> 'a outcome \<times> sql_store) \<Rightarrow> sql_store \<Rightarrow> 'a outcome \<times> sql_store" where
  "transact f S = (case f S of (Inl e, S1) \<Rightarrow> (Inl e, S\<lparr>sq_clock := sq_clock S1\<rparr>) | (Inr a, S1) \<Rightarrow> (Inr a, S1))"

section \<open>Columns\<close>

definition column_json :: "json \<Rightarrow> json" where
  "column_json j = sort_keys (if j = JNull then JObj [] else j)"

definition read_object :: "json option \<Rightarrow> (string \<times> json) list" where
  "read_object c = (case c of Some (JObj d) \<Rightarrow> d | _ \<Rightarrow> [])"

definition descriptor_column :: "(string \<times> json) list option \<Rightarrow> json option" where
  "descriptor_column d = (case d of Some (kv # kvs) \<Rightarrow> Some (column_json (JObj (kv # kvs))) | _ \<Rightarrow> None)"

definition workflow_states :: "workflow_state list" where
  "workflow_states = [RECEIVED, NORMALIZED, WF_CLASSIFICATION_PENDING, EVIDENCE_PENDING, REVIEW_PENDING, WF_APPROVED,
     LEDGER_COMMITTED, RECEIPT_DRAFTED, PUBLICATION_PENDING, PUBLISHED, NOTIFICATION_PENDING, DELIVERED, BLOCKED,
     WF_REJECTED, DUPLICATE, NEEDS_INFORMATION]"

definition run_statuses :: "run_status list" where
  "run_statuses = [PENDING, RUNNING, WAITING_SIGNAL, RETRY_SCHEDULED, COMPLETED, FAILED_TERMINAL, DEAD_LETTER, CANCELLED]"

definition workflow_types :: "workflow_type list" where
  "workflow_types = [EXPENSE_TO_RECEIPT, WF_CORRECTION, SCHEDULED_DIGEST]"

definition event_types :: "workflow_event_type list" where
  "event_types = [EV_CREATED, EV_STATE_CHANGED, EV_PROPOSAL, EV_SIGNAL_RECEIVED, EV_SIGNAL_CONSUMED, EV_EXECUTION,
     EV_APPROVAL, EV_RETRY_SCHEDULED, EV_APPROVAL_TIMEOUT, EV_DEAD_LETTERED, EV_ERROR]"

fun signal_type_value :: "signal_type \<Rightarrow> string" where
  "signal_type_value SIG_APPROVAL = ''APPROVAL''"
| "signal_type_value SIG_RESUBMIT = ''RESUBMIT''"
| "signal_type_value SIG_UNBLOCK = ''UNBLOCK''"
| "signal_type_value SIG_CANCEL = ''CANCEL''"

definition signal_types :: "signal_type list" where
  "signal_types = [SIG_APPROVAL, SIG_RESUBMIT, SIG_UNBLOCK, SIG_CANCEL]"

text \<open>\<^verbatim>\<open>try: Enum(text) except ValueError: fallback\<close>\<close>

definition value_or :: "('e \<Rightarrow> string) \<Rightarrow> 'e list \<Rightarrow> 'e \<Rightarrow> string \<Rightarrow> 'e" where
  "value_or val xs fallback s = (case of_value val xs s of Inl _ \<Rightarrow> fallback | Inr x \<Rightarrow> x)"

section \<open>Rows and records\<close>

text \<open>The row of a workflow; \<open>next_run\<close> is given apart, because its column may not be null.\<close>

definition instance_row :: "workflow_instance \<Rightarrow> string \<Rightarrow> workflow_row" where
  "instance_row i next_run =
     \<lparr>wr_id = wi_id i, wr_tenant = wi_tenant i, wr_type = workflow_type_value (wi_type i),
      wr_business_key = wi_business_key i, wr_state = workflow_state_value (wi_state i),
      wr_run_status = run_status_value (wi_run_status i), wr_simulation = (if wi_simulation i then 1 else 0),
      wr_policy_version = wi_policy_version i, wr_context = column_json (JObj (wi_context i)),
      wr_descriptor = descriptor_column (wi_wait_descriptor i), wr_deadline = wi_wait_deadline i,
      wr_timeout_applied = wi_timeout_applied i, wr_attempts = wi_attempts i, wr_next_run = next_run,
      wr_lease_owner = wi_lease_owner i, wr_lease_expires = wi_lease_expires i, wr_last_error = wi_last_error i,
      wr_created = wi_created i, wr_updated = wi_updated i, wr_event_seq = wi_event_seq i\<rparr>"

definition text_or :: "string \<Rightarrow> string \<Rightarrow> string" where
  "text_or s dflt = (if s = [] then dflt else s)"

definition row_to_instance :: "string \<Rightarrow> workflow_row \<Rightarrow> workflow_instance outcome" where
  "row_to_instance now r =
     (case of_value workflow_state_value workflow_states (wr_state r) of Inl e \<Rightarrow> Inl e | Inr st \<Rightarrow>
      case of_value run_status_value run_statuses (wr_run_status r) of Inl e \<Rightarrow> Inl e | Inr rs \<Rightarrow>
      Inr \<lparr>wi_id = wr_id r, wi_tenant = wr_tenant r,
           wi_type = value_or workflow_type_value workflow_types EXPENSE_TO_RECEIPT (wr_type r),
           wi_business_key = wr_business_key r, wi_state = st, wi_run_status = rs,
           wi_context = read_object (Some (wr_context r)), wi_simulation = (wr_simulation r \<noteq> 0),
           wi_attempts = wr_attempts r, wi_next_run = Some (wr_next_run r), wi_wait_deadline = wr_deadline r,
           wi_wait_descriptor = Some (read_object (wr_descriptor r)), wi_lease_owner = wr_lease_owner r,
           wi_lease_expires = wr_lease_expires r, wi_last_error = wr_last_error r,
           wi_timeout_applied = wr_timeout_applied r, wi_created = text_or (wr_created r) now,
           wi_updated = text_or (wr_updated r) now, wi_policy_version = text_or (wr_policy_version r) ''v1.0'',
           wi_event_seq = wr_event_seq r\<rparr>)"

definition event_row_of :: "workflow_event \<Rightarrow> event_row" where
  "event_row_of ev = \<lparr>er_id = we_id ev, er_workflow = we_workflow ev, er_tenant = we_tenant ev, er_seq = we_seq ev,
     er_type = event_type_value (we_type ev), er_payload = column_json (we_payload ev), er_created = we_at ev\<rparr>"

definition row_to_event :: "event_row \<Rightarrow> workflow_event" where
  "row_to_event r = \<lparr>we_id = er_id r, we_workflow = er_workflow r, we_tenant = er_tenant r, we_seq = er_seq r,
     we_type = value_or event_type_value event_types EV_ERROR (er_type r), we_payload = er_payload r,
     we_at = er_created r\<rparr>"

definition row_to_signal :: "signal_row \<Rightarrow> workflow_signal" where
  "row_to_signal r = \<lparr>sig_id = sr_id r, sig_workflow = sr_workflow r, sig_tenant = sr_tenant r,
     sig_type = value_or signal_type_value signal_types SIG_RESUBMIT (sr_type r),
     sig_payload = read_object (Some (sr_payload r)), sig_created = sr_created r, sig_consumed = False,
     sig_result = sr_result r\<rparr>"

definition receipt_columns :: "execution_receipt \<Rightarrow> json" where
  "receipt_columns r =
     JObj [(''execution_id'', JStr (exe_id r)), (''tenant_id'', JStr (exe_tenant r)), (''command_type'', JStr (exe_type r)),
       (''idempotency_key'', JStr (exe_key r)), (''status'', JStr (exe_status r)),
       (''output_refs'', JList (map JStr (exe_refs r))), (''output_hash'', JStr (exe_hash r)),
       (''executed_at'', JStr (exe_at r)), (''simulated'', JBool (exe_simulated r)), (''error'', opt_str (exe_error r)),
       (''approval_id'', opt_str (exe_approval r))]"

definition receipt_row_of :: "execution_receipt \<Rightarrow> string \<Rightarrow> receipt_row" where
  "receipt_row_of r w = \<lparr>rr_tenant = exe_tenant r, rr_key = exe_key r, rr_execution = exe_id r, rr_workflow = w,
     rr_type = exe_type r, rr_status = exe_status r, rr_receipt = column_json (receipt_columns r), rr_created = exe_at r\<rparr>"

text \<open>The receipt column as \<^verbatim>\<open>get_execution_receipt\<close> reads it.\<close>

definition receipt_of_columns :: "string \<Rightarrow> json \<Rightarrow> execution_receipt outcome" where
  "receipt_of_columns now j =
     bind_o (need_str j ''execution_id'') (\<lambda>eid.
     bind_o (need_str j ''tenant_id'') (\<lambda>tenant.
     bind_o (need_str j ''command_type'') (\<lambda>ty.
     bind_o (need_str j ''idempotency_key'') (\<lambda>key.
     bind_o (need_str j ''status'') (\<lambda>status.
     let d = read_object (Some j);
         refs = (case obj_get d ''output_refs'' of JList xs \<Rightarrow> map json_str xs | _ \<Rightarrow> []);
         text = (\<lambda>k. case obj_get d k of JStr s \<Rightarrow> Some s | _ \<Rightarrow> None)
     in Inr \<lparr>exe_id = eid, exe_tenant = tenant, exe_type = ty, exe_key = key, exe_status = status, exe_refs = refs,
             exe_hash = (case text ''output_hash'' of None \<Rightarrow> [] | Some s \<Rightarrow> s),
             exe_at = text_or (case text ''executed_at'' of None \<Rightarrow> [] | Some s \<Rightarrow> s) now,
             exe_simulated = truthy (obj_get d ''simulated''), exe_error = text ''error'',
             exe_approval = text ''approval_id''\<rparr>)))))"

section \<open>Statements\<close>

text \<open>\<^verbatim>\<open>INSERT INTO workflows\<close>: the primary key and the unique business key.\<close>

definition insert_workflow :: "workflow_row \<Rightarrow> sql_store \<Rightarrow> unit outcome \<times> sql_store" where
  "insert_workflow r S =
     (if list_ex (\<lambda>q. wr_id q = wr_id r) (sq_workflows S)
      then (Inl (IntegrityError ''UNIQUE constraint failed: workflows.workflow_id''), S)
      else if list_ex (\<lambda>q. wr_tenant q = wr_tenant r \<and> wr_type q = wr_type r \<and> wr_business_key q = wr_business_key r)
                (sq_workflows S)
      then (Inl (IntegrityError
        ''UNIQUE constraint failed: workflows.tenant_id, workflows.workflow_type, workflows.business_key''), S)
      else (Inr (), S\<lparr>sq_workflows := sq_workflows S @ [r]\<rparr>))"

definition has_workflow :: "string \<Rightarrow> sql_store \<Rightarrow> bool" where
  "has_workflow w S \<longleftrightarrow> list_ex (\<lambda>q. wr_id q = w) (sq_workflows S)"

definition insert_event :: "event_row \<Rightarrow> sql_store \<Rightarrow> unit outcome \<times> sql_store" where
  "insert_event r S =
     (if list_ex (\<lambda>q. er_id q = er_id r) (sq_events S)
      then (Inl (IntegrityError ''UNIQUE constraint failed: workflow_events.event_id''), S)
      else if list_ex (\<lambda>q. er_workflow q = er_workflow r \<and> er_seq q = er_seq r) (sq_events S)
      then (Inl (IntegrityError ''UNIQUE constraint failed: workflow_events.workflow_id, workflow_events.seq''), S)
      else if \<not> has_workflow (er_workflow r) S
      then (Inl (IntegrityError ''FOREIGN KEY constraint failed''), S)
      else (Inr (), S\<lparr>sq_events := sq_events S @ [r]\<rparr>))"

definition insert_signal :: "signal_row \<Rightarrow> sql_store \<Rightarrow> unit outcome \<times> sql_store" where
  "insert_signal r S =
     (if list_ex (\<lambda>q. sr_id q = sr_id r) (sq_signals S)
      then (Inl (IntegrityError ''UNIQUE constraint failed: workflow_signals.signal_id''), S)
      else if \<not> has_workflow (sr_workflow r) S
      then (Inl (IntegrityError ''FOREIGN KEY constraint failed''), S)
      else (Inr (), S\<lparr>sq_signals := sq_signals S @ [r]\<rparr>))"

text \<open>\<^verbatim>\<open>INSERT OR REPLACE\<close>: a row with the same key goes, the new one comes last.\<close>

definition replace_receipt :: "receipt_row \<Rightarrow> sql_store \<Rightarrow> sql_store" where
  "replace_receipt r S = S\<lparr>sq_receipts :=
     filter (\<lambda>q. \<not> (rr_tenant q = rr_tenant r \<and> rr_key q = rr_key r)) (sq_receipts S) @ [r]\<rparr>"

definition update_workflows :: "(workflow_row \<Rightarrow> bool) \<Rightarrow> (workflow_row \<Rightarrow> workflow_row) \<Rightarrow> sql_store \<Rightarrow> sql_store" where
  "update_workflows P f S = S\<lparr>sq_workflows := map (\<lambda>r. if P r then f r else r) (sq_workflows S)\<rparr>"

definition consume_signals :: "string \<Rightarrow> string \<Rightarrow> string \<Rightarrow> string \<Rightarrow> sql_store \<Rightarrow> sql_store" where
  "consume_signals now tenant sid result S = S\<lparr>sq_signals :=
     map (\<lambda>r. if sr_id r = sid \<and> sr_tenant r = tenant
              then r\<lparr>sr_consumed_at := Some now, sr_result := Some result\<rparr> else r) (sq_signals S)\<rparr>"

text \<open>A negative \<^verbatim>\<open>LIMIT\<close> is no limit.\<close>

definition limit_rows :: "int \<Rightarrow> 'a list \<Rightarrow> 'a list" where
  "limit_rows n xs = (if n < 0 then xs else take (nat n) xs)"

definition draw_time :: "env \<Rightarrow> sql_store \<Rightarrow> string \<times> sql_store" where
  "draw_time E S = (now_iso E (sq_clock S), S\<lparr>sq_clock := Suc (sq_clock S)\<rparr>)"

text \<open>\<^verbatim>\<open>text or utc_now_iso()\<close>\<close>

definition given_or_now :: "env \<Rightarrow> string option \<Rightarrow> sql_store \<Rightarrow> string \<times> sql_store" where
  "given_or_now E s S = (if present s then (the s, S) else draw_time E S)"

section \<open>Creating and reading\<close>

definition sql_create :: "env \<Rightarrow> workflow_instance \<Rightarrow> sql_store \<Rightarrow> unit outcome \<times> sql_store" where
  "sql_create E i =
     transact (\<lambda>S.
       let (next_run, S1) = given_or_now E (wi_next_run i) S in
       case insert_workflow (instance_row i next_run) S1 of
         (Inl e, S2) \<Rightarrow>
           (if has_substring ''unique'' (map lower_char (exn_str e)) \<or> has_substring ''duplicate'' (map lower_char (exn_str e))
            then (Inl (WorkflowConflictError (''workflow or business_key conflict: '' @ wi_id i)), S2)
            else (Inl e, S2))
       | (Inr _, S2) \<Rightarrow> (Inr (), S2))"

definition row_of :: "sql_store \<Rightarrow> string \<Rightarrow> string \<Rightarrow> workflow_row option" where
  "row_of S tenant w = find (\<lambda>r. wr_id r = w \<and> wr_tenant r = tenant) (sq_workflows S)"

definition sql_get :: "env \<Rightarrow> sql_store \<Rightarrow> string \<Rightarrow> string \<Rightarrow> workflow_instance option outcome" where
  "sql_get E S tenant w =
     (case row_of S tenant w of
        None \<Rightarrow> Inr None | Some r \<Rightarrow> bind_o (row_to_instance (now_iso E (sq_clock S)) r) (\<lambda>i. Inr (Some i)))"

definition sql_get_by_business_key ::
  "env \<Rightarrow> sql_store \<Rightarrow> string \<Rightarrow> string \<Rightarrow> string \<Rightarrow> workflow_instance option outcome" where
  "sql_get_by_business_key E S tenant wtype key =
     (case find (\<lambda>r. wr_tenant r = tenant \<and> wr_type r = wtype \<and> wr_business_key r = key) (sq_workflows S) of
        None \<Rightarrow> Inr None | Some r \<Rightarrow> bind_o (row_to_instance (now_iso E (sq_clock S)) r) (\<lambda>i. Inr (Some i)))"

fun read_rows :: "string \<Rightarrow> workflow_row list \<Rightarrow> workflow_instance list outcome" where
  "read_rows now [] = Inr []"
| "read_rows now (r # rs) = bind_o (row_to_instance now r) (\<lambda>i. bind_o (read_rows now rs) (\<lambda>is. Inr (i # is)))"

definition in_or_all :: "string list option \<Rightarrow> string \<Rightarrow> bool" where
  "in_or_all xs s \<longleftrightarrow> (case xs of Some (y # ys) \<Rightarrow> s \<in> set (y # ys) | _ \<Rightarrow> True)"

definition sql_list ::
  "env \<Rightarrow> sql_store \<Rightarrow> string \<Rightarrow> string list option \<Rightarrow> string list option \<Rightarrow> int \<Rightarrow> workflow_instance list outcome" where
  "sql_list E S tenant states statuses limit =
     read_rows (now_iso E (sq_clock S))
       (limit_rows limit (sort_key wr_created (filter
          (\<lambda>r. wr_tenant r = tenant \<and> in_or_all states (wr_state r) \<and> in_or_all statuses (wr_run_status r))
          (sq_workflows S))))"

section \<open>Claiming work\<close>

text \<open>Times are compared as text.\<close>

definition row_claimable :: "string \<Rightarrow> workflow_row \<Rightarrow> bool" where
  "row_claimable now r \<longleftrightarrow>
     wr_next_run r \<le> now \<and>
     (wr_run_status r \<in> {''PENDING'', ''RETRY_SCHEDULED''} \<or>
      wr_run_status r = ''RUNNING'' \<and> (case wr_lease_expires r of None \<Rightarrow> False | Some s \<Rightarrow> s < now))"

definition claimed_row :: "string \<Rightarrow> string \<Rightarrow> string \<Rightarrow> workflow_row \<Rightarrow> workflow_row" where
  "claimed_row worker lease now r = r\<lparr>wr_run_status := ''RUNNING'', wr_lease_owner := Some worker,
     wr_lease_expires := Some lease, wr_updated := now\<rparr>"

fun claim_rows ::
  "env \<Rightarrow> string \<Rightarrow> string \<Rightarrow> string \<Rightarrow> workflow_row list \<Rightarrow> sql_store \<Rightarrow> workflow_instance list outcome \<times> sql_store" where
  "claim_rows E worker lease now [] S = (Inr [], S)"
| "claim_rows E worker lease now (r # rs) S =
     (let S1 = update_workflows (\<lambda>q. wr_id q = wr_id r) (claimed_row worker lease now) S in
      case row_to_instance (now_iso E (sq_clock S)) r of
        Inl e \<Rightarrow> (Inl e, S1)
      | Inr i \<Rightarrow>
          and_then (claim_rows E worker lease now rs S1) (\<lambda>is S2.
            (Inr (i\<lparr>wi_run_status := RUNNING, wi_lease_owner := Some worker, wi_lease_expires := Some lease,
                    wi_updated := now\<rparr> # is), S2)))"

definition sql_claim ::
  "env \<Rightarrow> clock_api \<Rightarrow> string \<Rightarrow> int \<Rightarrow> int \<Rightarrow> int \<Rightarrow> sql_store \<Rightarrow> workflow_instance list outcome \<times> sql_store" where
  "sql_claim E C worker limit now ttl =
     transact (\<lambda>S.
       let now_text = iso_of C (whole_seconds now) in
       claim_rows E worker (iso_of C (whole_seconds (now + ttl))) now_text
         (limit_rows limit (sort_key wr_next_run (filter (row_claimable now_text) (sq_workflows S)))) S)"

section \<open>Updating\<close>

text \<open>The columns both an update and a commit set; the time of the next run may not be null.\<close>

definition set_columns :: "workflow_instance \<Rightarrow> string \<Rightarrow> string \<Rightarrow> workflow_row \<Rightarrow> workflow_row" where
  "set_columns i next_run updated r =
     r\<lparr>wr_state := workflow_state_value (wi_state i), wr_run_status := run_status_value (wi_run_status i),
       wr_policy_version := wi_policy_version i, wr_context := column_json (JObj (wi_context i)),
       wr_descriptor := descriptor_column (wi_wait_descriptor i), wr_deadline := wi_wait_deadline i,
       wr_timeout_applied := wi_timeout_applied i, wr_attempts := wi_attempts i, wr_next_run := next_run,
       wr_lease_owner := wi_lease_owner i, wr_lease_expires := wi_lease_expires i,
       wr_last_error := wi_last_error i, wr_updated := updated, wr_event_seq := wi_event_seq i\<rparr>"

definition write_instance ::
  "env \<Rightarrow> (workflow_row \<Rightarrow> workflow_row) \<Rightarrow> workflow_instance \<Rightarrow> sql_store \<Rightarrow> unit outcome \<times> sql_store" where
  "write_instance E extra i S =
     (let (updated, S1) = given_or_now E (Some (wi_updated i)) S in
      if row_of S (wi_tenant i) (wi_id i) = None then (Inl (WorkflowNotFoundError (wi_id i)), S1)
      else case wi_next_run i of
        None \<Rightarrow> (Inl (IntegrityError ''NOT NULL constraint failed: workflows.next_run_at''), S1)
      | Some next_run \<Rightarrow>
          (Inr (), update_workflows (\<lambda>r. wr_id r = wi_id i \<and> wr_tenant r = wi_tenant i)
             (\<lambda>r. extra (set_columns i next_run updated r)) S1))"

definition sql_update_instance :: "env \<Rightarrow> workflow_instance \<Rightarrow> sql_store \<Rightarrow> unit outcome \<times> sql_store" where
  "sql_update_instance E i =
     transact (write_instance E (\<lambda>r. r\<lparr>wr_simulation := (if wi_simulation i then 1 else 0)\<rparr>) i)"

section \<open>Events\<close>

text \<open>Events are numbered from \<open>seq\<close>; the result is the last number.\<close>

fun sql_add_events ::
  "env \<Rightarrow> string \<Rightarrow> string \<Rightarrow> (event_write + workflow_event) list \<Rightarrow> int \<Rightarrow> sql_store \<Rightarrow> int outcome \<times> sql_store" where
  "sql_add_events E tenant w [] seq S = (Inr seq, S)"
| "sql_add_events E tenant w (Inr ev # evs) seq S =
     and_then (insert_event (event_row_of ev) S) (\<lambda>_. sql_add_events E tenant w evs (max seq (we_seq ev)))"
| "sql_add_events E tenant w (Inl ew # evs) seq S =
     (let (time, S1) = given_or_now E (ew_at ew) S in
      and_then (insert_event (event_row_of
          \<lparr>we_id = ''evt_'' @ w @ ''_'' @ str_of_int (seq + 1), we_workflow = w, we_tenant = tenant, we_seq = seq + 1,
           we_type = ew_type ew, we_payload = ew_payload ew, we_at = time\<rparr>) S1)
        (\<lambda>_. sql_add_events E tenant w evs (seq + 1)))"

definition sql_append_events ::
  "env \<Rightarrow> string \<Rightarrow> string \<Rightarrow> (event_write + workflow_event) list \<Rightarrow> sql_store \<Rightarrow> unit outcome \<times> sql_store" where
  "sql_append_events E tenant w evs =
     transact (\<lambda>S.
       case row_of S tenant w of
         None \<Rightarrow> (Inl (WorkflowNotFoundError w), S)
       | Some r \<Rightarrow>
           and_then (sql_add_events E tenant w evs (wr_event_seq r) S) (\<lambda>seq S1.
             let (now, S2) = draw_time E S1 in
             (Inr (), update_workflows (\<lambda>q. wr_id q = w) (\<lambda>q. q\<lparr>wr_event_seq := seq, wr_updated := now\<rparr>) S2)))"

definition sql_list_events :: "sql_store \<Rightarrow> string \<Rightarrow> string \<Rightarrow> workflow_event list" where
  "sql_list_events S tenant w =
     map row_to_event (sort_key er_seq (filter (\<lambda>r. er_workflow r = w \<and> er_tenant r = tenant) (sq_events S)))"

section \<open>Signals\<close>

text \<open>Unlike the in-memory store, the row's status is not looked at.\<close>

definition sql_enqueue_signal_and_wake ::
  "env \<Rightarrow> clock_api \<Rightarrow> string \<Rightarrow> string \<Rightarrow> workflow_signal \<Rightarrow> run_status \<Rightarrow> int + string \<Rightarrow> bool \<Rightarrow> sql_store \<Rightarrow>
     unit outcome \<times> sql_store" where
  "sql_enqueue_signal_and_wake E C tenant w sig new_status next_run clear_lease =
     transact (\<lambda>S.
       let next_at = (case next_run of Inl t \<Rightarrow> iso_of C (whole_seconds t) | Inr s \<Rightarrow> s) in
       if row_of S tenant w = None then (Inl (WorkflowNotFoundError w), S)
       else and_then (insert_signal \<lparr>sr_id = sig_id sig, sr_workflow = w, sr_tenant = tenant,
                 sr_type = signal_type_value (sig_type sig), sr_payload = column_json (JObj (sig_payload sig)),
                 sr_created = sig_created sig, sr_consumed_at = None, sr_result = None\<rparr> S) (\<lambda>_ S1.
         let (now, S2) = draw_time E S1;
             wake = (\<lambda>q. q\<lparr>wr_run_status := run_status_value new_status, wr_next_run := next_at, wr_updated := now\<rparr>)
         in (Inr (), update_workflows (\<lambda>q. wr_id q = w)
               (\<lambda>q. if clear_lease then (wake q)\<lparr>wr_lease_owner := None, wr_lease_expires := None\<rparr> else wake q) S2)))"

definition sql_take_unconsumed_signals :: "sql_store \<Rightarrow> string \<Rightarrow> string \<Rightarrow> workflow_signal list" where
  "sql_take_unconsumed_signals S tenant w =
     map row_to_signal (sort_key sr_created (filter
       (\<lambda>r. sr_workflow r = w \<and> sr_tenant r = tenant \<and> sr_consumed_at r = None) (sq_signals S)))"

definition sql_mark_signal_consumed :: "env \<Rightarrow> string \<Rightarrow> string \<Rightarrow> string \<Rightarrow> sql_store \<Rightarrow> sql_store" where
  "sql_mark_signal_consumed E tenant sid result S =
     (let (now, S1) = draw_time E S in consume_signals now tenant sid result S1)"

section \<open>Execution receipts\<close>

definition sql_put_execution_receipt ::
  "sql_store \<Rightarrow> execution_receipt \<Rightarrow> string \<Rightarrow> unit outcome \<times> sql_store" where
  "sql_put_execution_receipt S r w =
     (if \<not> storable_status (exe_status r)
      then (Inl (WorkflowStateError (''must not store FAILED receipt for idempotency: '' @ exe_status r)), S)
      else (Inr (), replace_receipt (receipt_row_of r w) S))"

definition sql_get_execution_receipt ::
  "env \<Rightarrow> sql_store \<Rightarrow> string \<Rightarrow> string \<Rightarrow> execution_receipt option outcome" where
  "sql_get_execution_receipt E S tenant key =
     (case find (\<lambda>r. rr_tenant r = tenant \<and> rr_key r = key) (sq_receipts S) of
        None \<Rightarrow> Inr None
      | Some r \<Rightarrow> bind_o (receipt_of_columns (now_iso E (sq_clock S)) (rr_receipt r)) (\<lambda>x. Inr (Some x)))"

section \<open>Committing an advance\<close>

definition sql_store_receipts :: "string \<Rightarrow> execution_receipt list \<Rightarrow> sql_store \<Rightarrow> sql_store" where
  "sql_store_receipts w rs S =
     fold (\<lambda>r. replace_receipt (receipt_row_of r w)) (filter (\<lambda>r. storable_status (exe_status r)) rs) S"

fun sql_consume :: "env \<Rightarrow> string \<Rightarrow> (string \<times> signal_consume_result) list \<Rightarrow> sql_store \<Rightarrow> sql_store" where
  "sql_consume E tenant [] S = S"
| "sql_consume E tenant ((sid, res) # rest) S =
     sql_consume E tenant rest (sql_mark_signal_consumed E tenant sid (consume_result_value res) S)"

definition sql_commit_advance :: "env \<Rightarrow> advance_bundle \<Rightarrow> sql_store \<Rightarrow> unit outcome \<times> sql_store" where
  "sql_commit_advance E b =
     transact (\<lambda>S.
       and_then (write_instance E id (ab_instance b) S) (\<lambda>_ S1.
       and_then (sql_add_events E (ab_tenant b) (ab_workflow b) (ab_events b) (wi_event_seq (ab_instance b)) S1) (\<lambda>seq S2.
         (Inr (), sql_consume E (ab_tenant b) (ab_consume b)
            (sql_store_receipts (ab_workflow b) (ab_receipts b)
              (update_workflows (\<lambda>q. wr_id q = ab_workflow b) (\<lambda>q. q\<lparr>wr_event_seq := seq\<rparr>) S2))))))"

section \<open>Approval timeouts\<close>

definition row_overdue :: "string \<Rightarrow> workflow_row \<Rightarrow> bool" where
  "row_overdue now r \<longleftrightarrow>
     wr_run_status r = ''WAITING_SIGNAL'' \<and> (case wr_deadline r of None \<Rightarrow> False | Some d \<Rightarrow> d < now) \<and>
     wr_timeout_applied r = None \<and>
     wr_state r \<in> {''REVIEW_PENDING'', ''PUBLICATION_PENDING'', ''NOTIFICATION_PENDING''}"

definition timed_out_row :: "string \<Rightarrow> json \<Rightarrow> workflow_instance \<Rightarrow> workflow_row \<Rightarrow> workflow_row" where
  "timed_out_row now key i r =
     r\<lparr>wr_state := ''NEEDS_INFORMATION'', wr_run_status := ''WAITING_SIGNAL'',
       wr_last_error := Some ''approval_timeout'', wr_deadline := None, wr_timeout_applied := Some now,
       wr_descriptor := Some (column_json (JObj [(''signal_type'', JStr ''RESUBMIT''),
         (''reason'', JStr ''approval_timeout''), (''prior_command_idempotency_key'', key)])),
       wr_context := column_json (JObj (expire_context (wi_context i))),
       wr_event_seq := wi_event_seq i + 1, wr_updated := now\<rparr>"

definition sql_time_out :: "string \<Rightarrow> workflow_instance \<Rightarrow> sql_store \<Rightarrow> unit outcome \<times> sql_store" where
  "sql_time_out now i S =
     (case or_empty (obj_get (wi_context i) ''wait'') of Inl e \<Rightarrow> (Inl e, S) | Inr prior_wait \<Rightarrow>
      case prior_wait_key (case wi_wait_descriptor i of None \<Rightarrow> [] | Some d \<Rightarrow> d) prior_wait of
        Inl e \<Rightarrow> (Inl e, S)
      | Inr key \<Rightarrow>
          insert_event (event_row_of
            \<lparr>we_id = ''evt_'' @ wi_id i @ ''_'' @ str_of_int (wi_event_seq i + 1), we_workflow = wi_id i,
             we_tenant = wi_tenant i, we_seq = wi_event_seq i + 1, we_type = EV_APPROVAL_TIMEOUT,
             we_payload = JObj [(''reason'', JStr ''approval_timeout''), (''prior_command_idempotency_key'', key)],
             we_at = now\<rparr>)
            (update_workflows (\<lambda>q. wr_id q = wi_id i) (timed_out_row now key i) S))"

fun sql_sweep_rows :: "env \<Rightarrow> string \<Rightarrow> workflow_row list \<Rightarrow> sql_store \<Rightarrow> string list outcome \<times> sql_store" where
  "sql_sweep_rows E now [] S = (Inr [], S)"
| "sql_sweep_rows E now (r # rs) S =
     (case row_to_instance (now_iso E (sq_clock S)) r of
        Inl e \<Rightarrow> (Inl e, S)
      | Inr i \<Rightarrow> and_then (sql_time_out now i S) (\<lambda>_ S1.
                   and_then (sql_sweep_rows E now rs S1) (\<lambda>ids S2. (Inr (wi_id i # ids), S2))))"

definition sql_sweep_approval_timeouts :: "env \<Rightarrow> clock_api \<Rightarrow> int \<Rightarrow> sql_store \<Rightarrow> string list outcome \<times> sql_store" where
  "sql_sweep_approval_timeouts E C now =
     transact (\<lambda>S.
       let now_text = iso_of C (whole_seconds now)
       in sql_sweep_rows E now_text (filter (row_overdue now_text) (sq_workflows S)) S)"

section \<open>Histories\<close>

text \<open>The same methods as of the in-memory store, on the tables.\<close>

fun sql_step :: "env \<Rightarrow> clock_api \<Rightarrow> sql_store \<Rightarrow> store_cmd \<Rightarrow> sql_store" where
  "sql_step E C S (Create i) = snd (sql_create E i S)"
| "sql_step E C S (Claim worker limit now ttl) = snd (sql_claim E C worker limit now ttl S)"
| "sql_step E C S (UpdateInstance i) = snd (sql_update_instance E i S)"
| "sql_step E C S (AppendEvents t w evs) = snd (sql_append_events E t w evs S)"
| "sql_step E C S (EnqueueSignal t w sig st nr cl) = snd (sql_enqueue_signal_and_wake E C t w sig st nr cl S)"
| "sql_step E C S (MarkSignalConsumed t sid res) = sql_mark_signal_consumed E t sid res S"
| "sql_step E C S (PutReceipt r w) = snd (sql_put_execution_receipt S r w)"
| "sql_step E C S (CommitAdvance b) = snd (sql_commit_advance E b S)"
| "sql_step E C S (Sweep now) = snd (sql_sweep_approval_timeouts E C now S)"

end
