(* ===== verification/Sql_Base.thy ===== *)
theory Sql_Base
  imports Sql_Store Workflow_Scheduling
begin

text \<open>
  Facts about the columns and the statements of the SQL store: what a row reads back as, what an insertion needs,
  and which methods a raised exception leaves without effect.
\<close>

section \<open>Columns\<close>

lemma dget_sort_key: "dict_ok d \<Longrightarrow> dget (sort_key fst d) k = dget d k"
proof -
  assume "dict_ok d"
  then have "distinct (map fst d)" by (simp add: dict_ok_def)
  moreover from this have "distinct (map fst (sort_key fst d))" by (simp add: distinct_map)
  ultimately have "dget (sort_key fst d) = dget d" by (simp add: map_of_inject_set)
  then show ?thesis by simp
qed

lemma dget_map_prod: "dget (map (map_prod id f) d) k = map_option f (dget d k)"
  by (induction d) auto

lemma dict_ok_map_prod [simp]: "dict_ok (map (map_prod id f) d) = dict_ok d"
  by (simp add: dict_ok_def)

text \<open>A document as its column reads back.\<close>

definition stored_doc :: "(string \<times> json) list \<Rightarrow> (string \<times> json) list" where
  "stored_doc d = read_object (Some (column_json (JObj d)))"

lemma stored_doc_eq: "stored_doc d = sort_key fst (map (map_prod id sort_keys) d)"
  by (simp add: stored_doc_def read_object_def column_json_def)

lemma dget_stored_doc: "dict_ok d \<Longrightarrow> dget (stored_doc d) k = map_option sort_keys (dget d k)"
  by (simp add: stored_doc_eq dget_sort_key dget_map_prod)

lemma read_descriptor [simp]: "read_object (descriptor_column d) = (case d of None \<Rightarrow> [] | Some d \<Rightarrow> stored_doc d)"
  by (cases d; cases "the d") (simp_all add: descriptor_column_def stored_doc_def read_object_def column_json_def)

text \<open>Every member of an enumeration is read back from its value.\<close>

lemma state_value_read [simp]: "of_value workflow_state_value workflow_states (workflow_state_value s) = Inr s"
  by (cases s) (simp_all add: of_value_def workflow_states_def)

lemma status_value_read [simp]: "of_value run_status_value run_statuses (run_status_value s) = Inr s"
  by (cases s) (simp_all add: of_value_def run_statuses_def)

lemma type_value_read [simp]: "value_or workflow_type_value workflow_types f (workflow_type_value t) = t"
  by (cases t) (simp_all add: value_or_def of_value_def workflow_types_def)

lemma event_value_read [simp]: "value_or event_type_value event_types f (event_type_value t) = t"
  by (cases t) (simp_all add: value_or_def of_value_def event_types_def)

lemma signal_value_read [simp]: "value_or signal_type_value signal_types f (signal_type_value t) = t"
  by (cases t) (simp_all add: value_or_def of_value_def signal_types_def)

lemma run_status_value_eq [simp]: "run_status_value s = run_status_value t \<longleftrightarrow> s = t"
  by (cases s; cases t) simp_all

lemma workflow_type_value_eq [simp]: "workflow_type_value s = workflow_type_value t \<longleftrightarrow> s = t"
  by (cases s; cases t) simp_all

lemma run_status_value_is [simp]:
  "run_status_value s = ''PENDING'' \<longleftrightarrow> s = PENDING" "run_status_value s = ''RETRY_SCHEDULED'' \<longleftrightarrow> s = RETRY_SCHEDULED"
  "run_status_value s = ''RUNNING'' \<longleftrightarrow> s = RUNNING" "run_status_value s = ''WAITING_SIGNAL'' \<longleftrightarrow> s = WAITING_SIGNAL"
  by (cases s; simp)+

text \<open>An instance as the table gives it back.\<close>

definition stored_form :: "workflow_instance \<Rightarrow> workflow_instance" where
  "stored_form i = i\<lparr>wi_context := stored_doc (wi_context i),
     wi_wait_descriptor := Some (case wi_wait_descriptor i of None \<Rightarrow> [] | Some d \<Rightarrow> stored_doc d)\<rparr>"

lemma instance_round_trip:
  assumes "wi_next_run i = Some n" "wi_created i \<noteq> []" "wi_policy_version i \<noteq> []"
  shows "row_to_instance now (instance_row i n) = Inr ((stored_form i)\<lparr>wi_updated := text_or (wi_updated i) now\<rparr>)"
  using assms by (cases i) (simp add: row_to_instance_def instance_row_def stored_form_def text_or_def stored_doc_def)

lemma receipt_round_trip:
  assumes "exe_at r \<noteq> []"
  shows "receipt_of_columns now (column_json (receipt_columns r)) = Inr r"
proof -
  let ?d = "sort_key fst (map (map_prod id sort_keys) (case receipt_columns r of JObj d \<Rightarrow> d))"
  have c: "column_json (receipt_columns r) = JObj ?d" by (simp add: column_json_def receipt_columns_def)
  have g: "dget ?d k = map_option sort_keys (dget (case receipt_columns r of JObj d \<Rightarrow> d) k)" for k
    by (subst dget_sort_key) (simp_all add: dget_map_prod receipt_columns_def dict_ok_def)
  have refs: "json_str \<circ> (sort_keys \<circ> JStr) = id" by (simp add: fun_eq_iff)
  have opt: "sort_keys (opt_str x) = opt_str x" "(case opt_str x of JStr s \<Rightarrow> Some s | _ \<Rightarrow> None) = x" for x
    by (cases x; simp add: opt_str_def)+
  show ?thesis
    unfolding c receipt_of_columns_def need_str_def jfield_JObj g using assms
    by (simp add: receipt_columns_def as_str_def bind_o_def read_object_def obj_get_def dget_sort_key dict_ok_def
        dget_map_prod Let_def text_or_def refs opt)
qed

section \<open>Statements\<close>

lemma transact_Inr: "f S = (Inr a, S1) \<Longrightarrow> transact f S = (Inr a, S1)"
  by (simp add: transact_def)

lemma transact_error: "fst (transact f S) = Inl e \<Longrightarrow> sq_workflows (snd (transact f S)) = sq_workflows S \<and>
    sq_events (snd (transact f S)) = sq_events S \<and> sq_signals (snd (transact f S)) = sq_signals S \<and>
    sq_receipts (snd (transact f S)) = sq_receipts S"
  by (cases "f S"; cases "fst (f S)") (auto simp: transact_def)

lemma draw_time_frame [simp]:
  "sq_workflows (snd (draw_time E S)) = sq_workflows S" "sq_events (snd (draw_time E S)) = sq_events S"
  "sq_signals (snd (draw_time E S)) = sq_signals S" "sq_receipts (snd (draw_time E S)) = sq_receipts S"
  by (simp_all add: draw_time_def)

lemma given_or_now_frame [simp]:
  "sq_workflows (snd (given_or_now E s S)) = sq_workflows S" "sq_events (snd (given_or_now E s S)) = sq_events S"
  "sq_signals (snd (given_or_now E s S)) = sq_signals S" "sq_receipts (snd (given_or_now E s S)) = sq_receipts S"
  by (simp_all add: given_or_now_def)

lemma update_workflows_frame [simp]:
  "sq_events (update_workflows P f S) = sq_events S" "sq_signals (update_workflows P f S) = sq_signals S"
  "sq_receipts (update_workflows P f S) = sq_receipts S"
  "sq_workflows (update_workflows P f S) = map (\<lambda>r. if P r then f r else r) (sq_workflows S)"
  by (simp_all add: update_workflows_def)

end
