(* ===== verification/Sql_Refinement.thy ===== *)
theory Sql_Refinement
  imports Sql_Base
begin

text \<open>
  The tables refine the in-memory store: \<open>represents M T\<close> relates a store to tables, and every method that the
  in-memory store accepts, under the conditions of \<open>fits\<close>, leads related states to related states. Times
  that the stores stamp themselves may differ, and everything that is read back agrees.
\<close>

section \<open>Event identifiers\<close>

definition event_key :: "string \<Rightarrow> int \<Rightarrow> string" where
  "event_key w n = ''evt_'' @ w @ ''_'' @ str_of_int n"

lemma str_of_int_chars: "CHR ''_'' \<notin> set (str_of_int n)"
proof -
  have d: "\<not> is_digit CHR ''_''" by (simp add: is_digit_def)
  have "CHR ''_'' \<notin> set (str_of_nat m)" for m
    using str_of_nat_digits [of m] d by (auto simp: list_all_iff)
  then show ?thesis by (simp add: str_of_int_def)
qed

lemma str_of_int_inject: "str_of_int m = str_of_int n \<longleftrightarrow> m = n"
proof
  assume eq: "str_of_int m = str_of_int n"
  have nat: "i = j" if "str_of_nat i = str_of_nat j" for i j
    using that str_of_nat_digits [of i] str_of_nat_digits [of j] by metis
  have minus: "str_of_nat i \<noteq> ''-'' @ str_of_nat j" for i j
    using str_of_nat_digits [of i] by (metis append_Cons list.sel(1))
  show "m = n"
    using eq minus nat by (auto simp: str_of_int_def split: if_splits dest!: nat) (metis append_Cons append_Nil minus)+
qed simp

lemma append_sep_inject:
  assumes "c \<notin> set ys" "c \<notin> set ys'" "xs @ c # ys = xs' @ c # ys'"
  shows "xs = xs' \<and> ys = ys'"
proof -
  have "takeWhile (\<lambda>x. x \<noteq> c) (rev (xs @ c # ys)) = rev ys" "takeWhile (\<lambda>x. x \<noteq> c) (rev (xs' @ c # ys')) = rev ys'"
    using assms(1,2) by (auto simp: takeWhile_tail takeWhile_append2)
  then have "ys = ys'" using assms(3) by (metis rev_rev_ident)
  then show ?thesis using assms(3) by simp
qed

lemma event_key_inject: "event_key w m = event_key w' n \<longleftrightarrow> w = w' \<and> m = n"
proof
  assume "event_key w m = event_key w' n"
  then have "w @ CHR ''_'' # str_of_int m = w' @ CHR ''_'' # str_of_int n" by (simp add: event_key_def)
  then show "w = w' \<and> m = n"
    using append_sep_inject [OF str_of_int_chars str_of_int_chars] str_of_int_inject by metis
qed simp

section \<open>The relation\<close>

definition row_for :: "workflow_instance \<Rightarrow> workflow_row \<Rightarrow> bool" where
  "row_for i r \<longleftrightarrow> wi_next_run i = Some (wr_next_run r) \<and>
     r\<lparr>wr_updated := []\<rparr> = (instance_row i (wr_next_run r))\<lparr>wr_updated := []\<rparr> \<and>
     wi_created i \<noteq> [] \<and> wi_policy_version i \<noteq> []"

definition entry_for :: "string \<times> workflow_instance \<Rightarrow> workflow_row \<Rightarrow> bool" where
  "entry_for ki r \<longleftrightarrow> fst ki = wi_id (snd ki) \<and> row_for (snd ki) r"

definition event_for :: "workflow_event \<Rightarrow> event_row \<Rightarrow> bool" where
  "event_for e r \<longleftrightarrow> r\<lparr>er_created := []\<rparr> = (event_row_of e)\<lparr>er_created := []\<rparr>"

definition signal_for :: "workflow_signal \<Rightarrow> signal_row \<Rightarrow> bool" where
  "signal_for s r \<longleftrightarrow> sr_id r = sig_id s \<and> sr_workflow r = sig_workflow s \<and> sr_tenant r = sig_tenant s \<and>
     sr_type r = signal_type_value (sig_type s) \<and> sr_payload r = column_json (JObj (sig_payload s)) \<and>
     sr_created r = sig_created s \<and> sr_result r = sig_result s \<and> (sr_consumed_at r \<noteq> None \<longleftrightarrow> sig_consumed s)"

definition rows_agree :: "workflow_store \<Rightarrow> sql_store \<Rightarrow> bool" where
  "rows_agree M T \<longleftrightarrow> list_all2 entry_for (ws_instances M) (sq_workflows T) \<and> dict_ok (ws_instances M) \<and>
     (\<forall>(k, i) \<in> set (ws_instances M). dhas (ws_by_business M) (business_key i))"

definition events_agree :: "workflow_store \<Rightarrow> sql_store \<Rightarrow> bool" where
  "events_agree M T \<longleftrightarrow>
     (\<forall>w. list_all2 event_for (events_of M w) (filter (\<lambda>r. er_workflow r = w) (sq_events T))) \<and>
     (\<forall>r \<in> set (sq_events T). er_id r = event_key (er_workflow r) (er_seq r) \<and>
        (\<exists>i. dget (ws_instances M) (er_workflow r) = Some i \<and> er_seq r \<le> wi_event_seq i \<and> er_tenant r = wi_tenant i)) \<and>
     (\<forall>w. sorted (map er_seq (filter (\<lambda>r. er_workflow r = w) (sq_events T))))"

definition signals_agree :: "workflow_store \<Rightarrow> sql_store \<Rightarrow> bool" where
  "signals_agree M T \<longleftrightarrow>
     (\<forall>w. list_all2 signal_for (signals_of M w) (filter (\<lambda>r. sr_workflow r = w) (sq_signals T))) \<and>
     distinct (map sr_id (sq_signals T)) \<and> dict_ok (ws_signals M) \<and>
     (\<forall>r \<in> set (sq_signals T). \<exists>i. dget (ws_instances M) (sr_workflow r) = Some i \<and> sr_tenant r = wi_tenant i)"

definition receipts_agree :: "workflow_store \<Rightarrow> sql_store \<Rightarrow> bool" where
  "receipts_agree M T \<longleftrightarrow> (\<forall>t k.
     map_option (\<lambda>r. column_json (receipt_columns r)) (dget (ws_receipts M) (t, k)) =
     map_option rr_receipt (find (\<lambda>r. rr_tenant r = t \<and> rr_key r = k) (sq_receipts T)))"

definition represents :: "workflow_store \<Rightarrow> sql_store \<Rightarrow> bool" where
  "represents M T \<longleftrightarrow> rows_agree M T \<and> events_agree M T \<and> signals_agree M T \<and> receipts_agree M T"

section \<open>Looking up and updating workflows\<close>

lemma row_for_fields:
  assumes "row_for i r"
  shows "wr_id r = wi_id i" "wr_tenant r = wi_tenant i" "wr_type r = workflow_type_value (wi_type i)"
    "wr_business_key r = wi_business_key i" "wr_run_status r = run_status_value (wi_run_status i)"
    "wr_lease_expires r = wi_lease_expires i" "wr_event_seq r = wi_event_seq i" "wi_next_run i = Some (wr_next_run r)"
proof -
  let ?q = "instance_row i (wr_next_run r)"
  have eq: "r\<lparr>wr_updated := []\<rparr> = ?q\<lparr>wr_updated := []\<rparr>" using assms by (simp add: row_for_def)
  show "wr_id r = wi_id i" using arg_cong [OF eq, of wr_id] by (simp add: instance_row_def)
  show "wr_tenant r = wi_tenant i" using arg_cong [OF eq, of wr_tenant] by (simp add: instance_row_def)
  show "wr_type r = workflow_type_value (wi_type i)" using arg_cong [OF eq, of wr_type] by (simp add: instance_row_def)
  show "wr_business_key r = wi_business_key i" using arg_cong [OF eq, of wr_business_key] by (simp add: instance_row_def)
  show "wr_run_status r = run_status_value (wi_run_status i)" using arg_cong [OF eq, of wr_run_status] by (simp add: instance_row_def)
  show "wr_lease_expires r = wi_lease_expires i" using arg_cong [OF eq, of wr_lease_expires] by (simp add: instance_row_def)
  show "wr_event_seq r = wi_event_seq i" using arg_cong [OF eq, of wr_event_seq] by (simp add: instance_row_def)
  show "wi_next_run i = Some (wr_next_run r)" using assms by (simp add: row_for_def)
qed

lemma entries_lookup:
  assumes "list_all2 entry_for d rs" "dict_ok d"
  shows "case dget d w of
      None \<Rightarrow> \<forall>r \<in> set rs. wr_id r \<noteq> w
    | Some i \<Rightarrow> \<exists>r. find (\<lambda>r. wr_id r = w \<and> wr_tenant r = wi_tenant i) rs = Some r \<and> row_for i r \<and> wi_id i = w \<and>
        (\<forall>q \<in> set rs. wr_id q = w \<longrightarrow> q = r)"
  using assms
proof (induction rule: list_all2_induct)
  case (Cons ki d r rs)
  have ok: "dict_ok d" using Cons.prems by (simp add: dict_ok_def)
  have hd: "fst ki = wi_id (snd ki)" "row_for (snd ki) r" using Cons.hyps(1) by (simp_all add: entry_for_def)
  note f = row_for_fields [OF hd(2)]
  show ?case
  proof (cases "fst ki = w")
    case True
    then have "dget d w = None" using Cons.prems by (auto simp: dict_ok_def map_of_eq_None_iff)
    then have "\<forall>q \<in> set rs. wr_id q \<noteq> w" using Cons.IH [OF ok] by simp
    then show ?thesis using True hd f by (cases ki) auto
  next
    case False
    then have "wr_id r \<noteq> w" using hd f by simp
    then show ?thesis using Cons.IH [OF ok] False by (cases ki) (auto split: option.splits)
  qed
qed simp

lemma row_lookup:
  assumes "rows_agree M T"
  shows "get_instance M t w = None \<Longrightarrow> row_of T t w = None"
    and "get_instance M t w = Some i \<Longrightarrow> \<exists>r. row_of T t w = Some r \<and> row_for i r"
    and "dget (ws_instances M) w = None \<Longrightarrow> \<not> has_workflow w T"
    and "dget (ws_instances M) w = Some i \<Longrightarrow> has_workflow w T \<and> wi_id i = w"
proof -
  have e: "list_all2 entry_for (ws_instances M) (sq_workflows T)" "dict_ok (ws_instances M)"
    using assms by (simp_all add: rows_agree_def)
  note look = entries_lookup [OF e, of w]
  show "get_instance M t w = Some i \<Longrightarrow> \<exists>r. row_of T t w = Some r \<and> row_for i r"
    using look by (auto simp: get_instance_def row_of_def split: option.splits if_splits)
  show "get_instance M t w = None \<Longrightarrow> row_of T t w = None"
  proof -
    assume none: "get_instance M t w = None"
    show "row_of T t w = None"
    proof (cases "dget (ws_instances M) w")
      case None
      then show ?thesis using look by (auto simp: row_of_def find_None_iff)
    next
      case (Some i)
      then obtain r where "row_for i r" "\<forall>q \<in> set (sq_workflows T). wr_id q = w \<longrightarrow> q = r" using look by auto
      then show ?thesis using none Some row_for_fields(2) [of i r]
        by (auto simp: get_instance_def row_of_def find_None_iff split: if_splits)
    qed
  qed
  show "dget (ws_instances M) w = None \<Longrightarrow> \<not> has_workflow w T"
    using look by (auto simp: has_workflow_def list_ex_iff)
  show "dget (ws_instances M) w = Some i \<Longrightarrow> has_workflow w T \<and> wi_id i = w"
    using look by (auto simp: has_workflow_def list_ex_iff find_Some_iff intro!: bexI [OF _ nth_mem])
qed

lemma entries_update:
  assumes "list_all2 entry_for d rs" "dict_ok d" "dget d w = Some i0" "wi_id i = w"
    and "\<And>r. row_for i0 r \<Longrightarrow> P r \<and> row_for i (f r)" "\<And>r. wr_id r \<noteq> w \<Longrightarrow> \<not> P r"
  shows "list_all2 entry_for (dset w i d) (map (\<lambda>r. if P r then f r else r) rs)"
  using assms(1-3)
proof (induction rule: list_all2_induct)
  case (Cons ki d r rs)
  have hd: "fst ki = wi_id (snd ki)" "row_for (snd ki) r" using Cons.hyps(1) by (simp_all add: entry_for_def)
  have id: "wr_id r = fst ki" using hd row_for_fields by metis
  show ?case
  proof (cases "fst ki = w")
    case True
    then have i0: "snd ki = i0" using Cons.prems by (cases ki) simp
    have "dget d w = None" using Cons.prems True by (auto simp: dict_ok_def map_of_eq_None_iff)
    then have "\<forall>q \<in> set rs. wr_id q \<noteq> w"
      using entries_lookup [OF Cons.hyps(2), of w] Cons.prems(1) by (simp add: dict_ok_def)
    then have same: "map (\<lambda>r. if P r then f r else r) rs = rs" using assms(6) by (auto intro: map_idI)
    have "P r" "entry_for (w, i) (f r)" using assms(4,5) hd(2) i0 by (simp_all add: entry_for_def)
    then show ?thesis using True Cons.hyps(2) same by (cases ki) simp
  next
    case False
    then have "\<not> P r" using id assms(6) by simp
    moreover have "list_all2 entry_for (dset w i d) (map (\<lambda>r. if P r then f r else r) rs)"
      using Cons.IH Cons.prems False by (cases ki) (simp add: dict_ok_def)
    ultimately show ?thesis using False Cons.hyps(1) by (cases ki) simp
  qed
qed simp

lemma in_dset: "kv \<in> set (dset k v d) \<Longrightarrow> kv = (k, v) \<or> kv \<in> set d"
  by (induction d) (auto split: if_splits)

lemma represents_put:
  assumes "represents M T" "dget (ws_instances M) w = Some i0" "wi_id i = w" "business_key i = business_key i0"
    and "wi_event_seq i0 \<le> wi_event_seq i"
    and "\<And>r. row_for i0 r \<Longrightarrow> P r \<and> row_for i (f r)" "\<And>r. wr_id r \<noteq> w \<Longrightarrow> \<not> P r"
  shows "represents (put_instance w i M) (update_workflows P f T)"
proof -
  have r: "rows_agree M T" and e: "events_agree M T" and s: "signals_agree M T" and x: "receipts_agree M T"
    using assms(1) by (simp_all add: represents_def)
  have ten: "wi_tenant i = wi_tenant i0" using assms(4) by (simp add: business_key_def)
  have biz: "dhas (ws_by_business M) (business_key i0)"
    using r assms(2) by (auto simp: rows_agree_def dest: map_of_SomeD)
  have "rows_agree (put_instance w i M) (update_workflows P f T)"
    using r biz entries_update [OF _ _ assms(2,3,6,7), of "sq_workflows T"] assms(4)
    by (auto simp: rows_agree_def put_instance_def dest!: in_dset)
  moreover have "events_agree (put_instance w i M) (update_workflows P f T)"
    using e assms(2,5) ten by (fastforce simp: events_agree_def events_of_def put_instance_def)
  moreover have "signals_agree (put_instance w i M) (update_workflows P f T)"
    using s assms(2) ten by (fastforce simp: signals_agree_def signals_of_def put_instance_def)
  ultimately show ?thesis using x by (simp add: represents_def receipts_agree_def put_instance_def)
qed

text \<open>The clocks do not matter.\<close>

lemma represents_clock [simp]:
  "represents (M\<lparr>ws_clock := c\<rparr>) T = represents M T" "represents M (T\<lparr>sq_clock := d\<rparr>) = represents M T"
  "represents M (snd (draw_time E T)) = represents M T" "represents M (snd (given_or_now E u T)) = represents M T"
  by (simp_all add: represents_def rows_agree_def events_agree_def signals_agree_def receipts_agree_def
      events_of_def signals_of_def)

section \<open>Creating and updating\<close>

lemma create_simulated:
  assumes "represents M T" "fst (create i M) = Inr ()"
    and "present (wi_next_run i)" "wi_created i \<noteq> []" "wi_policy_version i \<noteq> []"
  shows "represents (snd (create i M)) (snd (sql_create E i T))" "fst (sql_create E i T) = Inr ()"
proof -
  have r: "rows_agree M T" and e: "events_agree M T" and s: "signals_agree M T" and x: "receipts_agree M T"
    using assms(1) by (simp_all add: represents_def)
  let ?n = "the (wi_next_run i)"
  have new: "dget (ws_instances M) (wi_id i) = None" "dget (ws_by_business M) (business_key i) = None"
    and M': "snd (create i M) = M\<lparr>ws_instances := dset (wi_id i) i (ws_instances M),
              ws_by_business := dset (business_key i) (wi_id i) (ws_by_business M),
              ws_events := default_list (wi_id i) (ws_events M),
              ws_signals := default_list (wi_id i) (ws_signals M)\<rparr>"
    using assms(2) by (auto simp: create_def split: if_splits)
  have key: "wi_id i \<notin> fst ` set (ws_instances M)" using new(1) by (simp add: map_of_eq_None_iff)
  have rows: "list_all2 entry_for (ws_instances M) (sq_workflows T)" using r by (simp add: rows_agree_def)
  have noid: "\<not> has_workflow (wi_id i) T" by (rule row_lookup(3) [OF r new(1)])
  have nobiz: "\<not> list_ex (\<lambda>q. wr_tenant q = wi_tenant i \<and> wr_type q = workflow_type_value (wi_type i) \<and>
      wr_business_key q = wi_business_key i) (sq_workflows T)"
  proof
    assume "list_ex (\<lambda>q. wr_tenant q = wi_tenant i \<and> wr_type q = workflow_type_value (wi_type i) \<and>
      wr_business_key q = wi_business_key i) (sq_workflows T)"
    then obtain q where q: "q \<in> set (sq_workflows T)" "wr_tenant q = wi_tenant i"
      "wr_type q = workflow_type_value (wi_type i)" "wr_business_key q = wi_business_key i" by (auto simp: list_ex_iff)
    then obtain k j where "(k, j) \<in> set (ws_instances M)" "row_for j q"
      using rows by (auto simp: list_all2_conv_all_nth in_set_conv_nth entry_for_def) (metis prod.collapse)
    moreover from this have "business_key j = business_key i"
      using q row_for_fields by (auto simp: business_key_def)
    ultimately show False using r new(2) by (auto simp: rows_agree_def)
  qed
  have row: "row_for i (instance_row i ?n)" using assms(3-5) by (cases "wi_next_run i") (auto simp: row_for_def instance_row_def)
  have ins: "insert_workflow (instance_row i ?n) T = (Inr (), T\<lparr>sq_workflows := sq_workflows T @ [instance_row i ?n]\<rparr>)"
    using noid nobiz by (simp add: insert_workflow_def has_workflow_def instance_row_def)
  then have t: "sql_create E i T = (Inr (), T\<lparr>sq_workflows := sq_workflows T @ [instance_row i ?n]\<rparr>)"
    using assms(3) by (simp add: sql_create_def transact_def given_or_now_def)
  then show "fst (sql_create E i T) = Inr ()" by simp
  have "rows_agree (snd (create i M)) (snd (sql_create E i T))"
    using r row new(1) key by (auto simp: t M' rows_agree_def dset_fresh list_all2_appendI entry_for_def dict_ok_def)
  moreover have "events_agree (snd (create i M)) (snd (sql_create E i T))"
  proof -
    have "events_of (snd (create i M)) w = events_of M w" for w by (simp add: M' events_of_def default_list_def)
    moreover have "dget (ws_instances (snd (create i M))) w = Some j" if "dget (ws_instances M) w = Some j" for w j
      using that new(1) by (auto simp: M')
    ultimately show ?thesis using e by (fastforce simp: t events_agree_def)
  qed
  moreover have "signals_agree (snd (create i M)) (snd (sql_create E i T))"
  proof -
    have "signals_of (snd (create i M)) w = signals_of M w" for w by (simp add: M' signals_of_def default_list_def)
    moreover have "dict_ok (ws_signals (snd (create i M)))" using s by (simp add: M' signals_agree_def default_list_def)
    moreover have "dget (ws_instances (snd (create i M))) w = Some j" if "dget (ws_instances M) w = Some j" for w j
      using that new(1) by (auto simp: M')
    ultimately show ?thesis using s by (fastforce simp: t signals_agree_def)
  qed
  ultimately show "represents (snd (create i M)) (snd (sql_create E i T))"
    using x by (simp add: represents_def receipts_agree_def t M')
qed

text \<open>What may not change in an update.\<close>

definition same_identity :: "workflow_instance \<Rightarrow> workflow_instance \<Rightarrow> bool" where
  "same_identity j i \<longleftrightarrow> wi_id i = wi_id j \<and> wi_tenant i = wi_tenant j \<and> wi_type i = wi_type j \<and>
     wi_business_key i = wi_business_key j \<and> wi_created i = wi_created j \<and> wi_event_seq i = wi_event_seq j \<and>
     wi_next_run i \<noteq> None \<and> wi_policy_version i \<noteq> []"

lemma get_instanceD: "get_instance M t w = Some i \<Longrightarrow> dget (ws_instances M) w = Some i \<and> wi_tenant i = t"
  by (auto simp: get_instance_def split: option.splits if_splits)

lemma row_for_set:
  assumes "row_for j r" "same_identity j i" "wi_next_run i = Some n"
    and "g (set_columns i n u r) = (set_columns i n u r)\<lparr>wr_simulation := (if wi_simulation i then 1 else 0)\<rparr>"
  shows "row_for i (g (set_columns i n u r))"
proof -
  have eq: "r\<lparr>wr_updated := []\<rparr> = (instance_row j (wr_next_run r))\<lparr>wr_updated := []\<rparr>" using assms(1) by (simp add: row_for_def)
  have "wr_created r = wi_created j" using arg_cong [OF eq, of wr_created] by (simp add: instance_row_def)
  then show ?thesis
    using assms row_for_fields [OF assms(1)]
    by (cases r) (auto simp: row_for_def set_columns_def instance_row_def same_identity_def)
qed

lemma write_simulated:
  assumes "represents M T" "get_instance M (wi_tenant i) (wi_id i) = Some j" "same_identity j i"
    and "\<And>r n u. row_for j r \<Longrightarrow> g (set_columns i n u r) =
      (set_columns i n u r)\<lparr>wr_simulation := (if wi_simulation i then 1 else 0)\<rparr>"
  obtains T' where "write_instance E g i T = (Inr (), T')" "represents (put_instance (wi_id i) i M) T'"
proof -
  obtain n where n: "wi_next_run i = Some n" using assms(3) by (auto simp: same_identity_def)
  obtain u T1 where u: "given_or_now E (Some (wi_updated i)) T = (u, T1)" by fastforce
  have T1: "represents M T1" using assms(1) represents_clock(4) [of M E "Some (wi_updated i)" T] u by simp
  have wf: "sq_workflows T1 = sq_workflows T" using given_or_now_frame(1) [of E "Some (wi_updated i)" T] u by simp
  have "row_of T (wi_tenant i) (wi_id i) \<noteq> None"
    using row_lookup(2) [of M T, OF _ assms(2)] assms(1) by (auto simp: represents_def)
  then have w: "write_instance E g i T = (Inr (), update_workflows (\<lambda>r. wr_id r = wi_id i \<and> wr_tenant r = wi_tenant i)
      (\<lambda>r. g (set_columns i n u r)) T1)"
    using u n by (simp add: write_instance_def)
  have j: "dget (ws_instances M) (wi_id i) = Some j" "wi_tenant j = wi_tenant i" using assms(2) get_instanceD by auto
  have "represents (put_instance (wi_id i) i M) (update_workflows (\<lambda>r. wr_id r = wi_id i \<and> wr_tenant r = wi_tenant i)
      (\<lambda>r. g (set_columns i n u r)) T1)"
  proof (rule represents_put [OF T1 j(1) refl])
    show "business_key i = business_key j" "wi_event_seq j \<le> wi_event_seq i"
      using assms(3) by (simp_all add: same_identity_def business_key_def)
    fix r assume r: "row_for j r"
    have "row_for i (g (set_columns i n u r))" by (rule row_for_set [where g = g, OF r assms(3) n assms(4) [OF r]])
    then show "(wr_id r = wi_id i \<and> wr_tenant r = wi_tenant i) \<and> row_for i (g (set_columns i n u r))"
      using row_for_fields [OF r] assms(3) by (simp add: same_identity_def)
  qed simp
  then show ?thesis using that w by blast
qed

lemma update_simulated:
  assumes "represents M T" "get_instance M (wi_tenant i) (wi_id i) = Some j" "same_identity j i"
  shows "represents (snd (update_instance i M)) (snd (sql_update_instance E i T))"
proof -
  obtain T' where "write_instance E (\<lambda>r. r\<lparr>wr_simulation := (if wi_simulation i then 1 else 0)\<rparr>) i T = (Inr (), T')"
    "represents (put_instance (wi_id i) i M) T'" using write_simulated [OF assms] by blast
  then show ?thesis using assms(2) by (simp add: sql_update_instance_def transact_def update_instance_def)
qed

end
