(* ===== verification/Sql_Simulation.thy ===== *)
theory Sql_Simulation
  imports Sql_Refinement
begin

text \<open>
  The simulation of the remaining methods, the conditions of each of them, and histories: two stores that took the
  same commands answer alike.
\<close>

section \<open>Events\<close>

definition numbered :: "string \<Rightarrow> string \<Rightarrow> int \<Rightarrow> sql_store \<Rightarrow> bool" where
  "numbered t w n T \<longleftrightarrow> (\<forall>r \<in> set (sq_events T). er_id r = event_key (er_workflow r) (er_seq r) \<and>
     (er_workflow r = w \<longrightarrow> er_seq r \<le> n \<and> er_tenant r = t)) \<and>
     sorted (map er_seq (filter (\<lambda>r. er_workflow r = w) (sq_events T)))"

lemma insert_next:
  assumes "numbered t w n T" "has_workflow w T" "er_workflow r = w" "er_tenant r = t" "er_seq r = n + 1" "er_id r = event_key w (n + 1)"
  shows "insert_event r T = (Inr (), T\<lparr>sq_events := sq_events T @ [r]\<rparr>)"
    and "numbered t w (n + 1) (T\<lparr>sq_events := sq_events T @ [r]\<rparr>)"
proof -
  have "er_id q \<noteq> event_key w (n + 1)" "\<not> (er_workflow q = w \<and> er_seq q = n + 1)" if "q \<in> set (sq_events T)" for q
    using assms(1) that by (force simp: numbered_def event_key_inject)+
  then show "insert_event r T = (Inr (), T\<lparr>sq_events := sq_events T @ [r]\<rparr>)"
    using assms(2-6) by (auto simp: insert_event_def list_ex_iff)
  have "er_seq q \<le> n + 1" if "q \<in> set (sq_events T)" "er_workflow q = w" for q
    using assms(1) that by (fastforce simp: numbered_def)
  then show "numbered t w (n + 1) (T\<lparr>sq_events := sq_events T @ [r]\<rparr>)"
    using assms by (auto simp: numbered_def sorted_append)
qed

text \<open>Only events changed.\<close>

definition events_only :: "string \<Rightarrow> sql_store \<Rightarrow> sql_store \<Rightarrow> bool" where
  "events_only w T T' \<longleftrightarrow> sq_workflows T' = sq_workflows T \<and> sq_signals T' = sq_signals T \<and>
     sq_receipts T' = sq_receipts T \<and> (\<forall>v. v \<noteq> w \<longrightarrow>
       filter (\<lambda>r. er_workflow r = v) (sq_events T') = filter (\<lambda>r. er_workflow r = v) (sq_events T))"

lemma events_only_has [simp]: "events_only w T T' \<Longrightarrow> has_workflow v T' = has_workflow v T"
  by (simp add: events_only_def has_workflow_def)

lemma add_events_simulated:
  assumes "list_all2 event_for es (filter (\<lambda>r. er_workflow r = w) (sq_events T))"
    and "numbered t w n T" "has_workflow w T" "list_all isl evs"
  shows "\<exists>m T'. sql_add_events E t w evs n T = (Inr m, T') \<and> n \<le> m \<and> fst (add_events E t w evs (n, es, c)) = m \<and>
    events_only w T T' \<and> numbered t w m T' \<and>
    list_all2 event_for (fst (snd (add_events E t w evs (n, es, c)))) (filter (\<lambda>r. er_workflow r = w) (sq_events T'))"
  using assms
proof (induction evs arbitrary: es n T c)
  case Nil
  then show ?case by (simp add: add_events_def events_only_def)
next
  case (Cons ev evs)
  obtain ew where ev: "ev = Inl ew" using Cons.prems(4) by (cases ev) simp_all
  obtain u T1 where u: "given_or_now E (ew_at ew) T = (u, T1)" by fastforce
  have fr: "sq_workflows T1 = sq_workflows T" "sq_events T1 = sq_events T" "sq_signals T1 = sq_signals T"
    "sq_receipts T1 = sq_receipts T"
    using given_or_now_frame [of E "ew_at ew" T] u by simp_all
  let ?e = "\<lambda>s. \<lparr>we_id = ''evt_'' @ w @ ''_'' @ str_of_int (n + 1), we_workflow = w, we_tenant = t, we_seq = n + 1,
           we_type = ew_type ew, we_payload = ew_payload ew, we_at = s\<rparr>"
  let ?r = "event_row_of (?e u)"
  let ?T = "T1\<lparr>sq_events := sq_events T1 @ [?r]\<rparr>"
  have num: "numbered t w n T1" "has_workflow w T1" using Cons.prems(2,3) fr by (simp_all add: numbered_def has_workflow_def)
  have ins: "insert_event ?r T1 = (Inr (), ?T)" "numbered t w (n + 1) ?T"
    using insert_next [OF num, of ?r] by (simp_all add: event_row_of_def event_key_def)
  obtain s d where s: "add_event E t w (Inl ew) (n, es, c) = (n + 1, es @ [?e s], d)" by (simp add: Let_def)
  have l: "list_all2 event_for (es @ [?e s]) (filter (\<lambda>r. er_workflow r = w) (sq_events ?T))"
  proof -
    have "event_for (?e s) ?r" "er_workflow ?r = w" by (simp_all add: event_for_def event_row_of_def)
    then show ?thesis using Cons.prems(1) fr by (simp add: list_all2_appendI)
  qed
  have hw: "has_workflow w ?T" and isl: "list_all isl evs" using num Cons.prems(4) by (simp_all add: has_workflow_def)
  obtain m T' where ih: "sql_add_events E t w evs (n + 1) ?T = (Inr m, T')" "n + 1 \<le> m"
    "fst (add_events E t w evs (n + 1, es @ [?e s], d)) = m" "events_only w ?T T'" "numbered t w m T'"
    "list_all2 event_for (fst (snd (add_events E t w evs (n + 1, es @ [?e s], d)))) (filter (\<lambda>r. er_workflow r = w) (sq_events T'))"
    using Cons.IH [OF l ins(2) hw isl, of d] by (elim exE conjE) (rule that)
  have "events_only w T T'" using ih(4) fr by (auto simp: events_only_def event_row_of_def)
  moreover have "sql_add_events E t w (ev # evs) n T = (Inr m, T')" using u ins(1) ih(1) by (simp add: ev)
  moreover have "add_events E t w (ev # evs) (n, es, c) = add_events E t w evs (n + 1, es @ [?e s], d)"
    by (simp only: ev add_events_def fold_simps s)
  ultimately show ?case using ih by (intro exI [of _ m] exI [of _ T']) simp
qed

lemma represents_events:
  assumes "represents M T" "events_only w T T'" "dget (ws_instances M) w = Some i" "numbered (wi_tenant i) w m T'" "m \<le> wi_event_seq i"
    and "list_all2 event_for es (filter (\<lambda>r. er_workflow r = w) (sq_events T'))"
  shows "represents (M\<lparr>ws_events := dset w es (ws_events M)\<rparr>) T'"
proof -
  let ?M = "M\<lparr>ws_events := dset w es (ws_events M)\<rparr>"
  have parts: "rows_agree M T" "events_agree M T" "signals_agree M T" "receipts_agree M T"
    using assms(1) by (simp_all add: represents_def)
  note o = assms(2) [unfolded events_only_def]
  have evs: "events_of ?M v = (if v = w then es else events_of M v)" for v by (simp add: events_of_def)
  have "list_all2 event_for (events_of ?M v) (filter (\<lambda>r. er_workflow r = v) (sq_events T'))" for v
    using parts(2) assms(6) o by (auto simp: evs events_agree_def)
  moreover have "\<exists>j. dget (ws_instances M) (er_workflow r) = Some j \<and> er_seq r \<le> wi_event_seq j \<and> er_tenant r = wi_tenant j" if r: "r \<in> set (sq_events T')" for r
  proof (cases "er_workflow r = w")
    case True
    then show ?thesis using assms(3-5) r by (force simp: numbered_def)
  next
    case False
    have "r \<in> set (filter (\<lambda>q. er_workflow q = er_workflow r) (sq_events T'))" using r by simp
    moreover have "filter (\<lambda>q. er_workflow q = er_workflow r) (sq_events T') = filter (\<lambda>q. er_workflow q = er_workflow r) (sq_events T)"
      using o False by simp
    ultimately have "r \<in> set (sq_events T)" by (metis filter_is_subset subsetD)
    then show ?thesis using parts(2) by (simp add: events_agree_def)
  qed
  moreover have "sorted (map er_seq (filter (\<lambda>r. er_workflow r = v) (sq_events T')))" for v
    using parts(2) assms(4) o by (cases "v = w") (auto simp: numbered_def events_agree_def)
  ultimately have "events_agree ?M T'" using assms(4) by (simp add: events_agree_def numbered_def)
  moreover have "rows_agree ?M T'" "signals_agree ?M T'" "receipts_agree ?M T'"
    using parts o by (simp_all add: rows_agree_def signals_agree_def receipts_agree_def signals_of_def)
  ultimately show ?thesis by (simp add: represents_def)
qed

text \<open>Events are added and the instance takes their last number.\<close>

lemma log_simulated:
  assumes "represents M T" "dget (ws_instances M) w = Some j" "wi_tenant j = t" "list_all isl evs"
    and "add_events E t w evs (wi_event_seq j, events_of M w, c) = (n, es, c')"
    and "wi_id i = w" "business_key i = business_key j" "wi_event_seq i = n"
    and "\<And>r. row_for j r \<Longrightarrow> P r \<and> row_for i (f r)" "\<And>r. wr_id r \<noteq> w \<Longrightarrow> \<not> P r"
  obtains T' where "sql_add_events E t w evs (wi_event_seq j) T = (Inr n, T')"
    "represents ((put_instance w i M)\<lparr>ws_events := dset w es (ws_events M)\<rparr>) (update_workflows P f T')"
proof -
  have parts: "rows_agree M T" "events_agree M T" using assms(1) by (simp_all add: represents_def)
  have l: "list_all2 event_for (events_of M w) (filter (\<lambda>r. er_workflow r = w) (sq_events T))"
    using parts(2) by (simp add: events_agree_def)
  have num: "numbered t w (wi_event_seq j) T" using parts(2) assms(2,3) by (force simp: events_agree_def numbered_def)
  have has: "has_workflow w T" using row_lookup(4) [OF parts(1) assms(2)] by simp
  obtain m T' where add: "sql_add_events E t w evs (wi_event_seq j) T = (Inr m, T')" "wi_event_seq j \<le> m"
    "fst (add_events E t w evs (wi_event_seq j, events_of M w, c)) = m" "events_only w T T'" "numbered t w m T'"
    "list_all2 event_for (fst (snd (add_events E t w evs (wi_event_seq j, events_of M w, c))))
       (filter (\<lambda>r. er_workflow r = w) (sq_events T'))"
    using add_events_simulated [OF l num has assms(4), of E c] by (elim exE conjE) (rule that)
  have m: "m = n" "list_all2 event_for es (filter (\<lambda>r. er_workflow r = w) (sq_events T'))" using add(3,6) assms(5) by simp_all
  have "represents (put_instance w i M) (update_workflows P f T)"
    using represents_put [OF assms(1,2,6,7) _ assms(9,10)] add(2) m(1) assms(8) by simp
  moreover have "events_only w (update_workflows P f T) (update_workflows P f T')" using add(4) by (simp add: events_only_def)
  moreover have "dget (ws_instances (put_instance w i M)) w = Some i" by (simp add: put_instance_def)
  moreover have "numbered (wi_tenant i) w n (update_workflows P f T')"
    using add(5) m assms(3,7) by (simp add: numbered_def business_key_def)
  moreover have "list_all2 event_for es (filter (\<lambda>r. er_workflow r = w) (sq_events (update_workflows P f T')))" using m by simp
  ultimately have "represents ((put_instance w i M)\<lparr>ws_events := dset w es (ws_events (put_instance w i M))\<rparr>) (update_workflows P f T')"
    using represents_events assms(8) by blast
  then show ?thesis using that add(1) m by (simp add: put_instance_def)
qed

lemma row_for_seq:
  "row_for j r \<Longrightarrow> row_for (j\<lparr>wi_event_seq := n, wi_updated := u\<rparr>) (r\<lparr>wr_event_seq := n, wr_updated := v\<rparr>)"
  "row_for j r \<Longrightarrow> row_for (j\<lparr>wi_event_seq := n, wi_updated := u\<rparr>) (r\<lparr>wr_event_seq := n\<rparr>)"
  by (cases r; auto simp: row_for_def instance_row_def)+

lemma append_simulated:
  assumes "represents M T" "get_instance M t w = Some j" "list_all isl evs"
  shows "represents (snd (append_events E t w evs M)) (snd (sql_append_events E t w evs T))"
proof -
  obtain n es c where a: "add_events E t w evs (wi_event_seq j, events_of M w, ws_clock M) = (n, es, c)"
    using prod_cases3 by blast
  have j: "dget (ws_instances M) w = Some j" "wi_tenant j = t" using assms(2) get_instanceD by auto
  obtain r where r: "row_of T t w = Some r" "row_for j r"
    using row_lookup(2) [of M T, OF _ assms(2)] assms(1) by (auto simp: represents_def)
  have id: "wi_id j = w" using row_lookup(4) [of M T, OF _ j(1)] assms(1) by (simp add: represents_def)
  let ?i = "j\<lparr>wi_event_seq := n, wi_updated := now_iso E c\<rparr>"
  have step: "\<exists>T'. sql_add_events E t w evs (wi_event_seq j) T = (Inr n, T') \<and>
      represents ((put_instance w ?i M)\<lparr>ws_events := dset w es (ws_events M)\<rparr>)
        (update_workflows (\<lambda>q. wr_id q = w) (\<lambda>q. q\<lparr>wr_event_seq := n, wr_updated := now\<rparr>) T')" for now
  proof (rule log_simulated [OF assms(1) j assms(3) a, where i = ?i and P = "\<lambda>q. wr_id q = w"
        and f = "\<lambda>q. q\<lparr>wr_event_seq := n, wr_updated := now\<rparr>"])
    show "wi_id ?i = w" "business_key ?i = business_key j" "wi_event_seq ?i = n" using id by (simp_all add: business_key_def)
  qed (use row_for_fields(1) id row_for_seq(1) in auto)
  obtain T' where T': "sql_add_events E t w evs (wi_event_seq j) T = (Inr n, T')" using step by blast
  obtain now T2 where d: "draw_time E T' = (now, T2)" by fastforce
  have s: "snd (sql_append_events E t w evs T) =
      update_workflows (\<lambda>q. wr_id q = w) (\<lambda>q. q\<lparr>wr_event_seq := n, wr_updated := now\<rparr>) T2"
    using r T' d row_for_fields(7) [OF r(2)] by (simp add: sql_append_events_def transact_def)
  have m: "snd (append_events E t w evs M) =
      ((put_instance w ?i M)\<lparr>ws_events := dset w es (ws_events M)\<rparr>)\<lparr>ws_clock := Suc c\<rparr>"
    using assms(2) a by (simp add: append_events_def)
  have "update_workflows P f T2 = (update_workflows P f T')\<lparr>sq_clock := sq_clock T2\<rparr>" for P f
    using d by (auto simp: draw_time_def update_workflows_def)
  then show ?thesis using step [of now] T' unfolding s m represents_clock by simp
qed

section \<open>Signals\<close>

lemma list_all2_right: "list_all2 R xs ys \<Longrightarrow> y \<in> set ys \<Longrightarrow> \<exists>x \<in> set xs. R x y"
  by (induction rule: list_all2_induct) auto

lemma list_all2_left: "list_all2 R xs ys \<Longrightarrow> x \<in> set xs \<Longrightarrow> \<exists>y \<in> set ys. R x y"
  by (induction rule: list_all2_induct) auto

lemma update_signals_swap: "update_workflows P f (T\<lparr>sq_signals := ss\<rparr>) = (update_workflows P f T)\<lparr>sq_signals := ss\<rparr>"
  and update_clock_swap: "update_workflows P f (T\<lparr>sq_clock := n\<rparr>) = (update_workflows P f T)\<lparr>sq_clock := n\<rparr>"
  by (cases T; simp add: update_workflows_def)+

lemma represents_signal:
  assumes "represents M T" "signal_for s q" "sr_workflow q = w" "\<And>p. p \<in> set (sq_signals T) \<Longrightarrow> sr_id p \<noteq> sr_id q"
    and "dget (ws_instances M) w = Some i" "sr_tenant q = wi_tenant i"
  shows "represents (M\<lparr>ws_signals := dset w (signals_of M w @ [s]) (ws_signals M)\<rparr>) (T\<lparr>sq_signals := sq_signals T @ [q]\<rparr>)"
proof -
  let ?M = "M\<lparr>ws_signals := dset w (signals_of M w @ [s]) (ws_signals M)\<rparr>"
  let ?T = "T\<lparr>sq_signals := sq_signals T @ [q]\<rparr>"
  have g: "signals_agree M T" using assms(1) by (simp add: represents_def)
  have sg: "signals_of ?M v = (if v = w then signals_of M w @ [s] else signals_of M v)" for v by (simp add: signals_of_def)
  have "list_all2 signal_for (signals_of ?M v) (filter (\<lambda>r. sr_workflow r = v) (sq_signals ?T))" for v
    using g assms(2,3) by (auto simp: sg signals_agree_def list_all2_appendI)
  moreover have "sr_id q \<notin> set (map sr_id (sq_signals T))" using assms(4) by (metis imageE set_map)
  then have "distinct (map sr_id (sq_signals ?T))" using g by (simp add: signals_agree_def)
  moreover have "dict_ok (ws_signals ?M)" using g by (simp add: signals_agree_def)
  moreover have "\<forall>r \<in> set (sq_signals ?T). \<exists>i. dget (ws_instances ?M) (sr_workflow r) = Some i \<and> sr_tenant r = wi_tenant i"
    using g assms(3,5,6) by (simp add: signals_agree_def)
  ultimately have "signals_agree ?M ?T" by (simp add: signals_agree_def)
  then show ?thesis using assms(1)
    by (simp add: represents_def rows_agree_def events_agree_def events_of_def receipts_agree_def)
qed

lemma enqueue_simulated:
  assumes "represents M T" "fst (enqueue_signal_and_wake E C t w sig st nr cl M) = Inr ()"
    and "sig_workflow sig = w" "sig_tenant sig = t" "\<not> sig_consumed sig" "sig_result sig = None"
    and "\<And>v s. s \<in> set (signals_of M v) \<Longrightarrow> sig_id s \<noteq> sig_id sig"
  shows "represents (snd (enqueue_signal_and_wake E C t w sig st nr cl M)) (snd (sql_enqueue_signal_and_wake E C t w sig st nr cl T))"
proof -
  obtain j where j: "get_instance M t w = Some j" using assms(2) by (auto simp: enqueue_signal_and_wake_def split: option.splits)
  then have jd: "dget (ws_instances M) w = Some j" "wi_tenant j = t" using get_instanceD by auto
  have parts: "rows_agree M T" "signals_agree M T" using assms(1) by (simp_all add: represents_def)
  have id: "wi_id j = w" "has_workflow w T" using row_lookup(4) [OF parts(1) jd(1)] by simp_all
  obtain r where r: "row_of T t w = Some r" using row_lookup(2) [OF parts(1) j] by auto
  let ?n = "case nr of Inl x \<Rightarrow> iso_of C (whole_seconds x) | Inr s \<Rightarrow> s"
  let ?w = "j\<lparr>wi_run_status := st, wi_next_run := Some ?n\<rparr>"
  let ?i = "(if cl then ?w\<lparr>wi_lease_owner := None, wi_lease_expires := None\<rparr> else ?w)\<lparr>wi_updated := now_iso E (ws_clock M)\<rparr>"
  let ?q = "\<lparr>sr_id = sig_id sig, sr_workflow = w, sr_tenant = t, sr_type = signal_type_value (sig_type sig),
     sr_payload = column_json (JObj (sig_payload sig)), sr_created = sig_created sig, sr_consumed_at = None, sr_result = None\<rparr>"
  let ?M = "(put_instance w ?i M)\<lparr>ws_signals := dset w (signals_of M w @ [sig]) (ws_signals M)\<rparr>"
  let ?T = "T\<lparr>sq_signals := sq_signals T @ [?q]\<rparr>"
  obtain now where now: "draw_time E ?T = (now, ?T\<lparr>sq_clock := Suc (sq_clock T)\<rparr>)" by (simp add: draw_time_def)
  let ?k = "\<lambda>q. q\<lparr>wr_run_status := run_status_value st, wr_next_run := ?n, wr_updated := now\<rparr>"
  let ?f = "\<lambda>q. if cl then (?k q)\<lparr>wr_lease_owner := None, wr_lease_expires := None\<rparr> else ?k q"
  have m: "snd (enqueue_signal_and_wake E C t w sig st nr cl M) = ?M\<lparr>ws_clock := Suc (ws_clock M)\<rparr>"
    using j assms(2) by (auto simp: enqueue_signal_and_wake_def Let_def split: if_splits)
  have fresh: "sr_id q \<noteq> sig_id sig" if q: "q \<in> set (sq_signals T)" for q
  proof -
    have "list_all2 signal_for (signals_of M (sr_workflow q)) (filter (\<lambda>p. sr_workflow p = sr_workflow q) (sq_signals T))"
      using parts(2) by (simp add: signals_agree_def)
    then obtain s where "s \<in> set (signals_of M (sr_workflow q))" "signal_for s q" using q by (auto dest!: list_all2_right)
    then show ?thesis using assms(7) by (auto simp: signal_for_def)
  qed
  then have "insert_signal ?q T = (Inr (), ?T)" using id by (auto simp: insert_signal_def list_ex_iff)
  then have s: "snd (sql_enqueue_signal_and_wake E C t w sig st nr cl T) =
      update_workflows (\<lambda>q. wr_id q = w) ?f (?T\<lparr>sq_clock := Suc (sq_clock T)\<rparr>)"
    using r now by (simp add: sql_enqueue_signal_and_wake_def transact_def Let_def)
  have "represents (put_instance w ?i M) (update_workflows (\<lambda>q. wr_id q = w) ?f T)"
  proof (rule represents_put [OF assms(1) jd(1)])
    show "wi_id ?i = w" "business_key ?i = business_key j" "wi_event_seq j \<le> wi_event_seq ?i" using id by (simp_all add: business_key_def)
    fix q assume q: "row_for j q"
    have "row_for ?i (?f q)" using q by (cases q) (auto simp: row_for_def instance_row_def)
    then show "wr_id q = w \<and> row_for ?i (?f q)" using q id row_for_fields(1) by auto
  qed simp
  then have "represents ((put_instance w ?i M)\<lparr>ws_signals := dset w (signals_of (put_instance w ?i M) w @ [sig])
        (ws_signals (put_instance w ?i M))\<rparr>)
      ((update_workflows (\<lambda>q. wr_id q = w) ?f T)\<lparr>sq_signals := sq_signals (update_workflows (\<lambda>q. wr_id q = w) ?f T) @ [?q]\<rparr>)"
  proof (rule represents_signal)
    show "signal_for sig ?q" using assms(3-6) by (simp add: signal_for_def)
    show "sr_id p \<noteq> sr_id ?q" if "p \<in> set (sq_signals (update_workflows (\<lambda>q. wr_id q = w) ?f T))" for p
      using fresh that by simp
    show "dget (ws_instances (put_instance w ?i M)) w = Some ?i" "sr_tenant ?q = wi_tenant ?i"
      using jd by (simp_all add: put_instance_def)
  qed simp
  then have "represents ?M (update_workflows (\<lambda>q. wr_id q = w) ?f ?T)"
    by (simp add: put_instance_def signals_of_def update_signals_swap split del: if_split)
  then have "represents (?M\<lparr>ws_clock := Suc (ws_clock M)\<rparr>) ((update_workflows (\<lambda>q. wr_id q = w) ?f ?T)\<lparr>sq_clock := Suc (sq_clock T)\<rparr>)"
    unfolding represents_clock .
  then show ?thesis unfolding s m update_clock_swap .
qed


text \<open>Marking the signals with an identifier and a tenant, wherever they are.\<close>

definition marked :: "string \<Rightarrow> string \<Rightarrow> string \<Rightarrow> workflow_signal list \<Rightarrow> workflow_signal list" where
  "marked t sid res = map (\<lambda>s. if sig_id s = sid \<and> sig_tenant s = t then consumed_as res s else s)"

lemma consume_simulated:
  assumes "represents M T" "\<And>v. signals_of M' v = marked t sid res (signals_of M v)" "dict_ok (ws_signals M')"
    and "ws_instances M' = ws_instances M" "ws_by_business M' = ws_by_business M" "ws_events M' = ws_events M"
    and "ws_receipts M' = ws_receipts M"
  shows "represents M' (consume_signals now t sid res T)"
proof -
  let ?g = "\<lambda>r. if sr_id r = sid \<and> sr_tenant r = t then r\<lparr>sr_consumed_at := Some now, sr_result := Some res\<rparr> else r"
  have T': "consume_signals now t sid res T = T\<lparr>sq_signals := map ?g (sq_signals T)\<rparr>" by (simp add: consume_signals_def)
  have flt: "filter (\<lambda>r. sr_workflow r = w) (map ?g rs) = map ?g (filter (\<lambda>r. sr_workflow r = w) rs)" for w rs
    by (induction rs) auto
  have l: "list_all2 signal_for (marked t sid res ss) (map ?g rs)" if "list_all2 signal_for ss rs" for ss rs
    using that by (induction rule: list_all2_induct) (auto simp: marked_def signal_for_def consumed_as_def)
  have s: "signals_agree M T" using assms(1) by (simp add: represents_def)
  have ids: "map sr_id (map ?g (sq_signals T)) = map sr_id (sq_signals T)" by simp
  have d: "distinct (map sr_id (map ?g (sq_signals T)))" unfolding ids using s by (simp add: signals_agree_def)
  have "signals_agree M' (consume_signals now t sid res T)"
    unfolding signals_agree_def T'
  proof (intro conjI ballI allI)
    fix w
    show "list_all2 signal_for (signals_of M' w) (filter (\<lambda>r. sr_workflow r = w)
        (sq_signals (T\<lparr>sq_signals := map ?g (sq_signals T)\<rparr>)))"
      using s l assms(2) by (simp add: signals_agree_def flt)
    show "distinct (map sr_id (sq_signals (T\<lparr>sq_signals := map ?g (sq_signals T)\<rparr>)))"
      using d by simp
  next
    fix r
    assume "r \<in> set (sq_signals (T\<lparr>sq_signals := map ?g (sq_signals T)\<rparr>))"
    then show "\<exists>i. dget (ws_instances M') (sr_workflow r) = Some i \<and> sr_tenant r = wi_tenant i"
      using s assms(4) by (auto simp: signals_agree_def split: if_splits)
  qed (rule assms(3))
  then show ?thesis using assms
    by (simp add: represents_def rows_agree_def events_agree_def events_of_def receipts_agree_def T')
qed

text \<open>An identifier names at most one signal.\<close>

lemma signal_ids:
  assumes "signals_agree M T"
  shows "distinct (map sig_id (signals_of M w))"
    and "s \<in> set (signals_of M w) \<Longrightarrow> s' \<in> set (signals_of M w') \<Longrightarrow> sig_id s = sig_id s' \<Longrightarrow> w = w'"
    and "s \<in> set (signals_of M w) \<Longrightarrow> \<exists>i. dget (ws_instances M) w = Some i \<and> sig_tenant s = wi_tenant i"
proof -
  have l: "list_all2 signal_for (signals_of M w) (filter (\<lambda>r. sr_workflow r = w) (sq_signals T))" for w
    using assms by (simp add: signals_agree_def)
  have d: "distinct (map sr_id (sq_signals T))" using assms by (simp add: signals_agree_def)
  have "map sig_id ss = map sr_id rs" if "list_all2 signal_for ss rs" for ss rs
    using that by (induction rule: list_all2_induct) (simp_all add: signal_for_def)
  then have "map sig_id (signals_of M w) = map sr_id (filter (\<lambda>r. sr_workflow r = w) (sq_signals T))" using l by blast
  then show "distinct (map sig_id (signals_of M w))" using d by (simp add: distinct_map_filter)
  have row: "\<exists>r \<in> set (sq_signals T). sr_workflow r = w \<and> signal_for s r" if "s \<in> set (signals_of M w)" for s w
    using list_all2_left [OF l that] by auto
  show "s \<in> set (signals_of M w) \<Longrightarrow> s' \<in> set (signals_of M w') \<Longrightarrow> sig_id s = sig_id s' \<Longrightarrow> w = w'"
    using row [of s w] row [of s' w'] d by (auto simp: signal_for_def distinct_map inj_on_def)
  show "s \<in> set (signals_of M w) \<Longrightarrow> \<exists>i. dget (ws_instances M) w = Some i \<and> sig_tenant s = wi_tenant i"
    using row [of s w] assms by (fastforce simp: signal_for_def signals_agree_def)
qed

lemma unmarked: "\<not> (\<exists>s \<in> set ss. sig_id s = sid \<and> sig_tenant s = t) \<Longrightarrow> marked t sid res ss = ss"
  unfolding marked_def by (rule map_idI) auto

lemma mark_first_marked:
  "distinct (map sig_id ss) \<Longrightarrow>
   mark_first (\<lambda>s. sig_id s = sid \<and> sig_tenant s = t) res ss =
     (if \<exists>s \<in> set ss. sig_id s = sid \<and> sig_tenant s = t then Some (marked t sid res ss) else None)"
proof (induction ss)
  case (Cons s ss)
  show ?case
  proof (cases "sig_id s = sid \<and> sig_tenant s = t")
    case True
    then have "marked t sid res ss = ss" using Cons.prems by (intro unmarked) (metis distinct.simps(2) image_eqI list.simps(9) set_map)
    then show ?thesis using True by (simp add: marked_def)
  next
    case False
    then show ?thesis using Cons by (auto simp: marked_def)
  qed
qed simp

lemma mark_in_marked:
  assumes "dict_ok d" "\<And>w ss. dget d w = Some ss \<Longrightarrow> distinct (map sig_id ss)"
    and "\<And>w w' ss ss' s s'. dget d w = Some ss \<Longrightarrow> dget d w' = Some ss' \<Longrightarrow> s \<in> set ss \<Longrightarrow> s' \<in> set ss' \<Longrightarrow>
      sig_id s = sig_id s' \<Longrightarrow> w = w'"
  shows "map fst (mark_in (\<lambda>s. sig_id s = sid \<and> sig_tenant s = t) res d) = map fst d \<and>
    (\<forall>v. dget (mark_in (\<lambda>s. sig_id s = sid \<and> sig_tenant s = t) res d) v = map_option (marked t sid res) (dget d v))"
  using assms
proof (induction d)
  case (Cons p d)
  obtain w ss where p: "p = (w, ss)" by fastforce
  have w: "dget d w = None" using Cons.prems(1) p by (auto simp: dict_ok_def map_of_eq_None_iff)
  have dist: "distinct (map sig_id ss)" using Cons.prems(2) [of w ss] p by simp
  have sub: "dget (p # d) v = Some xs" if "dget d v = Some xs" for v xs using that w p by auto
  show ?case
  proof (cases "\<exists>s \<in> set ss. sig_id s = sid \<and> sig_tenant s = t")
    case True
    have "marked t sid res xs = xs" if "dget d v = Some xs" for v xs
    proof (rule unmarked, rule notI)
      assume "\<exists>s \<in> set xs. sig_id s = sid \<and> sig_tenant s = t"
      then have "v = w" using Cons.prems(3) [OF sub [OF that], of w ss] True p by auto
      then show False using that w by simp
    qed
    then have "map_option (marked t sid res) (dget d v) = dget d v" for v by (cases "dget d v") auto
    then show ?thesis using True p dist by (simp add: mark_first_marked)
  next
    case False
    have "dict_ok d" using Cons.prems(1) by (simp add: dict_ok_def)
    then have "map fst (mark_in (\<lambda>s. sig_id s = sid \<and> sig_tenant s = t) res d) = map fst d \<and>
      (\<forall>v. dget (mark_in (\<lambda>s. sig_id s = sid \<and> sig_tenant s = t) res d) v = map_option (marked t sid res) (dget d v))"
    proof (rule Cons.IH)
      show "distinct (map sig_id xs)" if "dget d v = Some xs" for v xs using Cons.prems(2) sub that by blast
      show "v = v'" if "dget d v = Some xs" "dget d v' = Some xs'" "s \<in> set xs" "s' \<in> set xs'" "sig_id s = sig_id s'" for v v' xs xs' s s'
        using Cons.prems(3) [OF sub [OF that(1)] sub [OF that(2)] that(3-5)] .
    qed
    moreover have "mark_first (\<lambda>s. sig_id s = sid \<and> sig_tenant s = t) res ss = None"
      by (simp only: mark_first_marked [OF dist] if_not_P [OF False])
    ultimately show ?thesis using p unmarked [OF False] by simp
  qed
qed simp

lemma mark_simulated:
  assumes "represents M T"
  shows "represents (mark_signal_consumed t sid res M) (sql_mark_signal_consumed E t sid res T)"
proof -
  have s: "signals_agree M T" using assms by (simp add: represents_def)
  have of: "signals_of M w = ss" if "dget (ws_signals M) w = Some ss" for w ss using that by (simp add: signals_of_def)
  let ?d = "mark_in (\<lambda>s. sig_id s = sid \<and> sig_tenant s = t) res (ws_signals M)"
  have d: "map fst ?d = map fst (ws_signals M)" "\<And>v. dget ?d v = map_option (marked t sid res) (dget (ws_signals M) v)"
    using mark_in_marked [of "ws_signals M" sid t res] s signal_ids [OF s] of by (auto simp: signals_agree_def) blast+
  have sg: "signals_of (mark_signal_consumed t sid res M) v = marked t sid res (signals_of M v)" for v
    using d(2) [of v] by (cases "dget (ws_signals M) v") (simp_all add: mark_signal_consumed_def signals_of_def marked_def)
  have ok: "dict_ok (ws_signals (mark_signal_consumed t sid res M))"
    using s d(1) by (simp add: mark_signal_consumed_def signals_agree_def dict_ok_def)
  have "represents M (snd (draw_time E T))" using assms by simp
  from consume_simulated [OF this sg ok] show ?thesis
    by (simp add: mark_signal_consumed_def sql_mark_signal_consumed_def split_beta)
qed

end
