(* ===== verification/Sql_Histories.thy ===== *)
theory Sql_Histories
  imports Sql_Simulation
begin

text \<open>
  Receipts, commits and claims on the tables, and histories: two stores that took the same commands answer alike.
\<close>

section \<open>Receipts\<close>

lemma find_filter: "(\<And>r. P r \<Longrightarrow> Q r) \<Longrightarrow> find P (filter Q rs) = find P rs"
  by (induction rs) auto

lemma find_append: "find P (xs @ ys) = (case find P xs of None \<Rightarrow> find P ys | Some x \<Rightarrow> Some x)"
  by (induction xs) auto

lemma receipt_simulated:
  assumes "represents M T"
  shows "represents (M\<lparr>ws_receipts := dset (exe_tenant r, exe_key r) r (ws_receipts M),
      ws_receipt_workflow := d\<rparr>) (replace_receipt (receipt_row_of r w) T)"
proof -
  let ?M = "M\<lparr>ws_receipts := dset (exe_tenant r, exe_key r) r (ws_receipts M), ws_receipt_workflow := d\<rparr>"
  let ?T = "replace_receipt (receipt_row_of r w) T"
  have x: "receipts_agree M T" using assms by (simp add: represents_def)
  have "map_option (\<lambda>r. column_json (receipt_columns r)) (dget (ws_receipts ?M) (t, k)) =
     map_option rr_receipt (find (\<lambda>r. rr_tenant r = t \<and> rr_key r = k) (sq_receipts ?T))" for t k
  proof (cases "exe_tenant r = t \<and> exe_key r = k")
    case True
    then have "find (\<lambda>r. rr_tenant r = t \<and> rr_key r = k)
        (filter (\<lambda>q. \<not> (rr_tenant q = t \<and> rr_key q = k)) (sq_receipts T)) = None"
      by (auto simp: find_None_iff)
    then show ?thesis using True by (simp add: replace_receipt_def receipt_row_of_def find_append)
  next
    case False
    then have "find (\<lambda>r. rr_tenant r = t \<and> rr_key r = k)
        (filter (\<lambda>q. \<not> (rr_tenant q = exe_tenant r \<and> rr_key q = exe_key r)) (sq_receipts T)) =
        find (\<lambda>r. rr_tenant r = t \<and> rr_key r = k) (sq_receipts T)"
      by (intro find_filter) auto
    then show ?thesis using False x by (auto simp: replace_receipt_def receipt_row_of_def find_append receipts_agree_def split: option.splits)
  qed
  then have "receipts_agree ?M ?T" by (simp add: receipts_agree_def)
  then show ?thesis using assms
    by (simp add: represents_def rows_agree_def events_agree_def events_of_def signals_agree_def signals_of_def replace_receipt_def)
qed

lemma put_receipt_simulated:
  assumes "represents M T"
  shows "represents (snd (put_execution_receipt M r w)) (snd (sql_put_execution_receipt T r w))"
  using assms receipt_simulated [OF assms] by (simp add: put_execution_receipt_def sql_put_execution_receipt_def)

lemma commit_receipts_simulated:
  "represents M T \<Longrightarrow> represents (fold (commit_receipt w) rs M) (sql_store_receipts w rs T)"
proof (induction rs arbitrary: M T)
  case (Cons r rs)
  show ?case
  proof (cases "storable_status (exe_status r)")
    case True
    then show ?thesis using Cons.IH [OF receipt_simulated [OF Cons.prems, where r = r and w = w]] by (simp add: commit_receipt_def sql_store_receipts_def)
  next
    case False
    then show ?thesis using Cons by (simp add: commit_receipt_def sql_store_receipts_def)
  qed
qed (simp add: sql_store_receipts_def)

section \<open>Commits\<close>

text \<open>The signals a commit consumes in the in-memory store.\<close>

definition consumed_store :: "string \<Rightarrow> (string \<times> signal_consume_result) list \<Rightarrow> workflow_store \<Rightarrow> workflow_store" where
  "consumed_store w cs M =
     (if cs = [] \<or> \<not> dhas (ws_signals M) w then M
      else M\<lparr>ws_signals := dset w (fold consume_matching cs (signals_of M w)) (ws_signals M)\<rparr>)"

definition only_of :: "string \<Rightarrow> string \<Rightarrow> workflow_store \<Rightarrow> bool" where
  "only_of w sid M \<longleftrightarrow> (\<forall>v. \<forall>s \<in> set (signals_of M v). sig_id s = sid \<longrightarrow> v = w)"

lemma dset_twice: "dset k v (dset k u d) = dset k v d"
  by (induction d) auto

lemma consumed_store_Cons:
  "consumed_store w (c # cs) M = consumed_store w cs (consumed_store w [c] M)"
  by (auto simp: consumed_store_def signals_of_def dset_twice)

lemma consumed_one:
  assumes "signals_agree M T" "only_of w sid M" "\<And>s. s \<in> set (signals_of M w) \<Longrightarrow> sig_tenant s = t"
  shows "signals_of (consumed_store w [(sid, res)] M) v = marked t sid (consume_result_value res) (signals_of M v)"
proof (cases "v = w")
  case True
  have "consume_matching (sid, res) (signals_of M w) = marked t sid (consume_result_value res) (signals_of M w)"
    using assms(3) by (simp add: consume_matching_def marked_def)
  then show ?thesis using True by (auto simp: consumed_store_def signals_of_def marked_def split: option.splits)
next
  case False
  then have "marked t sid (consume_result_value res) (signals_of M v) = signals_of M v"
    using assms(2) by (intro unmarked) (auto simp: only_of_def)
  then show ?thesis using False by (simp add: consumed_store_def signals_of_def)
qed

lemma commit_consumes:
  assumes "represents M T" "dget (ws_instances M) w = Some i" "wi_tenant i = t"
    and "\<forall>(sid, res) \<in> set cs. only_of w sid M"
  shows "represents (consumed_store w cs M) (sql_consume E t cs T)"
  using assms
proof (induction cs arbitrary: M T)
  case Nil
  then show ?case by (simp add: consumed_store_def)
next
  case (Cons c cs)
  obtain sid res where c: "c = (sid, res)" by fastforce
  let ?M = "consumed_store w [(sid, res)] M"
  have g: "signals_agree M T" using Cons.prems(1) by (simp add: represents_def)
  have ten: "sig_tenant s = t" if "s \<in> set (signals_of M w)" for s
    using signal_ids(3) [OF g that] Cons.prems(2,3) by simp
  have sg: "signals_of ?M v = marked t sid (consume_result_value res) (signals_of M v)" for v
    using consumed_one [OF g _ ten] Cons.prems(4) c by simp
  have ids: "set (map sig_id (signals_of ?M v)) = set (map sig_id (signals_of M v))" for v
    unfolding sg by (force simp: marked_def consumed_as_def)
  have ok: "dict_ok (ws_signals ?M)" using g by (simp add: consumed_store_def signals_agree_def)
  have "represents M (snd (draw_time E T))" using Cons.prems(1) by simp
  from consume_simulated [OF this sg ok] have r: "represents ?M (sql_mark_signal_consumed E t sid (consume_result_value res) T)"
    by (simp add: sql_mark_signal_consumed_def split_beta consumed_store_def)
  have i: "dget (ws_instances ?M) w = Some i" using Cons.prems(2) by (simp add: consumed_store_def)
  have "only_of w x ?M" if "only_of w x M" for x
  proof -
    have "v = w" if "s \<in> set (signals_of ?M v)" "sig_id s = x" for v s
    proof -
      have "x \<in> set (map sig_id (signals_of M v))" using that ids [of v] by (metis image_eqI set_map)
      then show ?thesis using \<open>only_of w x M\<close> by (auto simp: only_of_def)
    qed
    then show ?thesis by (auto simp: only_of_def)
  qed
  then have "\<forall>(sid, res) \<in> set cs. only_of w sid ?M" using Cons.prems(4) by auto
  from Cons.IH [OF r i Cons.prems(3) this] show ?case
    unfolding c consumed_store_Cons [of w "(sid, res)" cs] by simp
qed

lemma commit_receipt_swap:
  "commit_receipt w r (M\<lparr>ws_instances := a, ws_events := b\<rparr>) = (commit_receipt w r M)\<lparr>ws_instances := a, ws_events := b\<rparr>"
  by (cases M) (simp add: commit_receipt_def)

lemma commit_receipts_swap:
  "fold (commit_receipt w) rs (M\<lparr>ws_instances := a, ws_events := b\<rparr>) = (fold (commit_receipt w) rs M)\<lparr>ws_instances := a, ws_events := b\<rparr>"
  by (induction rs arbitrary: M) (simp_all add: commit_receipt_swap)

lemma commit_receipts_keep [simp]:
  "ws_instances (fold (commit_receipt w) rs M) = ws_instances M" "ws_events (fold (commit_receipt w) rs M) = ws_events M"
  "ws_signals (fold (commit_receipt w) rs M) = ws_signals M" "ws_clock (fold (commit_receipt w) rs M) = ws_clock M"
  by (induction rs arbitrary: M) (simp_all add: commit_receipt_def)

lemma events_below:
  assumes "events_agree M T" "dget (ws_instances M) w = Some i" "e \<in> set (events_of M w)"
  shows "we_seq e \<le> wi_event_seq i"
proof -
  have "list_all2 event_for (events_of M w) (filter (\<lambda>r. er_workflow r = w) (sq_events T))"
    using assms(1) by (simp add: events_agree_def)
  then obtain r where r: "r \<in> set (sq_events T)" "er_workflow r = w" "event_for e r"
    using assms(3) by (auto dest!: list_all2_left)
  have "er_seq r = we_seq e" using arg_cong [of _ _ er_seq, OF r(3) [unfolded event_for_def]] by (simp add: event_row_of_def)
  then show ?thesis using assms(1,2) r by (force simp: events_agree_def)
qed

lemma signals_of_in: "s \<in> set (signals_of M v) \<Longrightarrow> \<exists>ss. (v, ss) \<in> set (ws_signals M) \<and> s \<in> set ss"
  using map_of_SomeD [of "ws_signals M" v] by (cases "dget (ws_signals M) v") (auto simp: signals_of_def)

definition own_signal :: "string \<Rightarrow> string \<Rightarrow> workflow_store \<Rightarrow> bool" where
  "own_signal w sid M \<longleftrightarrow> (\<forall>(v, ss) \<in> set (ws_signals M). v \<noteq> w \<longrightarrow> (\<forall>s \<in> set ss. sig_id s \<noteq> sid))"

lemma own_only: "own_signal w sid M \<Longrightarrow> only_of w sid M"
  using signals_of_in by (fastforce simp: own_signal_def only_of_def)

text \<open>What a bundle must satisfy: its cursor is the stored instance, its events are new, its signals are the workflow's own.\<close>

definition bundle_fits :: "advance_bundle \<Rightarrow> workflow_store \<Rightarrow> bool" where
  "bundle_fits b M \<longleftrightarrow>
     (case get_instance M (ab_tenant b) (ab_workflow b) of None \<Rightarrow> False
      | Some j \<Rightarrow> same_identity j (ab_instance b) \<and> wi_simulation (ab_instance b) = wi_simulation j) \<and>
     list_all isl (ab_events b) \<and> (\<forall>(sid, res) \<in> set (ab_consume b). own_signal (ab_workflow b) sid M)"

lemma commit_simulated:
  assumes "represents M T" "bundle_fits b M"
  shows "represents (snd (commit_advance E b M)) (snd (sql_commit_advance E b T))"
proof -
  let ?w = "ab_workflow b" and ?i = "ab_instance b"
  obtain j where j: "get_instance M (ab_tenant b) ?w = Some j" "same_identity j ?i" "wi_simulation ?i = wi_simulation j"
    and isl: "list_all isl (ab_events b)" using assms(2) by (auto simp: bundle_fits_def split: option.splits)
  have own: "\<forall>(sid, res) \<in> set (ab_consume b). only_of ?w sid M"
    using assms(2) own_only by (fastforce simp: bundle_fits_def)
  have parts: "rows_agree M T" "events_agree M T" using assms(1) by (simp_all add: represents_def)
  have jd: "dget (ws_instances M) ?w = Some j" "wi_tenant j = ab_tenant b" using get_instanceD [OF j(1)] by simp_all
  have id: "wi_id ?i = ?w" "wi_tenant ?i = ab_tenant b" "wi_event_seq ?i = wi_event_seq j"
    using row_lookup(4) [OF parts(1) jd(1)] j(2) jd(2) by (simp_all add: same_identity_def)
  have get: "get_instance M (wi_tenant ?i) (wi_id ?i) = Some j" using j(1) id by simp
  have sim: "id (set_columns ?i n u r) = (set_columns ?i n u r)\<lparr>wr_simulation := (if wi_simulation ?i then 1 else 0)\<rparr>"
    if "row_for j r" for r n u
    using that j(3) by (cases r) (auto simp: row_for_def instance_row_def set_columns_def)
  obtain T1 where T1: "write_instance E id ?i T = (Inr (), T1)" "represents (put_instance ?w ?i M) T1"
    using write_simulated [OF assms(1) get j(2) sim] id(1) by metis
  obtain n es c where a: "add_events E (ab_tenant b) ?w (ab_events b) (wi_event_seq ?i, events_of M ?w, ws_clock M) = (n, es, c)"
    using prod_cases3 by blast
  let ?k = "?i\<lparr>wi_event_seq := n, wi_updated := now_iso E c\<rparr>"
  let ?M = "(put_instance ?w ?k M)\<lparr>ws_events := dset ?w es (ws_events M)\<rparr>"
  let ?M' = "fold (commit_receipt ?w) (ab_receipts b) ?M"
  have put: "put_instance ?w ?k (put_instance ?w ?i M) = put_instance ?w ?k M" by (simp add: put_instance_def dset_twice)
  obtain T2 where T2: "sql_add_events E (ab_tenant b) ?w (ab_events b) (wi_event_seq ?i) T1 = (Inr n, T2)"
    "represents ?M (update_workflows (\<lambda>q. wr_id q = ?w) (\<lambda>q. q\<lparr>wr_event_seq := n\<rparr>) T2)"
  proof (rule log_simulated [OF T1(2) _ id(2) isl, where i = ?k and P = "\<lambda>q. wr_id q = ?w" and f = "\<lambda>q. q\<lparr>wr_event_seq := n\<rparr>"
        and n = n and es = es and c' = c])
    show "dget (ws_instances (put_instance ?w ?i M)) ?w = Some ?i" by (simp add: put_instance_def)
    show "add_events E (ab_tenant b) ?w (ab_events b) (wi_event_seq ?i, events_of (put_instance ?w ?i M) ?w, ws_clock M) = (n, es, c)"
      using a by (simp add: put_instance_def events_of_def)
    show "wi_id ?k = ?w" "business_key ?k = business_key ?i" "wi_event_seq ?k = n" using id by (simp_all add: business_key_def)
  qed (use row_for_fields(1) id(1) row_for_seq(2) that put in \<open>auto simp: put_instance_def\<close>)
  let ?T = "sql_store_receipts ?w (ab_receipts b) (update_workflows (\<lambda>q. wr_id q = ?w) (\<lambda>q. q\<lparr>wr_event_seq := n\<rparr>) T2)"
  have rec: "represents (?M'\<lparr>ws_clock := Suc c\<rparr>) ?T" using commit_receipts_simulated [OF T2(2)] by simp
  have "represents (consumed_store ?w (ab_consume b) (?M'\<lparr>ws_clock := Suc c\<rparr>)) (sql_consume E (ab_tenant b) (ab_consume b) ?T)"
  proof (rule commit_consumes [OF rec])
    show "dget (ws_instances (?M'\<lparr>ws_clock := Suc c\<rparr>)) ?w = Some ?k" "wi_tenant ?k = ab_tenant b"
      using id by (simp_all add: put_instance_def)
    show "\<forall>(sid, res) \<in> set (ab_consume b). only_of ?w sid (?M'\<lparr>ws_clock := Suc c\<rparr>)"
      using own by (simp add: only_of_def signals_of_def put_instance_def)
  qed
  moreover have "snd (sql_commit_advance E b T) = sql_consume E (ab_tenant b) (ab_consume b) ?T"
    using T1(1) T2(1) by (simp add: sql_commit_advance_def transact_def)
  moreover have "snd (commit_advance E b M) = consumed_store ?w (ab_consume b) (?M'\<lparr>ws_clock := Suc c\<rparr>)"
  proof -
    have seq: "(if events_of M ?w = [] then wi_event_seq ?i else max (wi_event_seq ?i) (we_seq (last (events_of M ?w)))) = wi_event_seq ?i"
      using events_below [OF parts(2) jd(1), of "last (events_of M ?w)"] id(3) by (simp add: max_absorb1)
    have ev: "events_of (fold (commit_receipt ?w) (ab_receipts b) M) v = events_of M v" for v by (simp add: events_of_def)
    have "?M' = (fold (commit_receipt ?w) (ab_receipts b) M)\<lparr>ws_instances := dset ?w ?k (ws_instances M), ws_events := dset ?w es (ws_events M)\<rparr>"
      by (simp add: put_instance_def commit_receipts_swap)
    then have "?M'\<lparr>ws_clock := Suc c\<rparr> = (put_instance ?w ?k (fold (commit_receipt ?w) (ab_receipts b) M))
        \<lparr>ws_events := dset ?w es (ws_events M), ws_clock := Suc c\<rparr>"
      by (simp add: put_instance_def)
    then show ?thesis
      by (simp add: commit_advance_def j(1) ev seq a consumed_store_def Let_def split del: if_split cong: if_cong)
  qed
  ultimately show ?thesis by simp
qed

section \<open>Claims\<close>

lemma row_reads:
  assumes "row_for i r"
  shows "row_to_instance now r = Inr ((stored_form i)\<lparr>wi_updated := text_or (wr_updated r) now\<rparr>)"
proof -
  let ?i = "i\<lparr>wi_updated := wr_updated r\<rparr>"
  have "r = (r\<lparr>wr_updated := []\<rparr>)\<lparr>wr_updated := wr_updated r\<rparr>" by simp
  also have "\<dots> = instance_row ?i (wr_next_run r)" using assms by (simp add: row_for_def instance_row_def)
  finally have "row_to_instance now r = row_to_instance now (instance_row ?i (wr_next_run r))" by metis
  also have "\<dots> = Inr ((stored_form ?i)\<lparr>wi_updated := text_or (wi_updated ?i) now\<rparr>)"
    using assms by (intro instance_round_trip) (simp_all add: row_for_def)
  finally show ?thesis by (simp add: stored_form_def)
qed

text \<open>A time whose text compares with a moment's text as the time with the moment.\<close>

definition text_time :: "clock_api \<Rightarrow> int \<Rightarrow> string \<Rightarrow> bool" where
  "text_time C now s \<longleftrightarrow>
     (case parse_iso C s of None \<Rightarrow> False
      | Some t \<Rightarrow> (t \<le> now \<longleftrightarrow> s \<le> iso_of C (whole_seconds now)) \<and> (t < now \<longleftrightarrow> s < iso_of C (whole_seconds now)))"

definition times_fit :: "clock_api \<Rightarrow> int \<Rightarrow> workflow_store \<Rightarrow> bool" where
  "times_fit C now M \<longleftrightarrow>
     (\<forall>(k, i) \<in> set (ws_instances M). (case wi_next_run i of None \<Rightarrow> False | Some s \<Rightarrow> text_time C now s) \<and>
        (case wi_lease_expires i of None \<Rightarrow> True | Some s \<Rightarrow> text_time C now s))"

lemma claimable_row:
  assumes "row_for i r" "text_time C now (wr_next_run r)"
    and "case wi_lease_expires i of None \<Rightarrow> True | Some s \<Rightarrow> text_time C now s"
  shows "claimable C now i = Inr (row_claimable (iso_of C (whole_seconds now)) r)"
  using assms row_for_fields [OF assms(1)]
  by (auto simp: claimable_def row_claimable_def text_time_def parse_time_def CLAIMABLE_RUN_STATUSES_def split: option.splits)

lemma candidates_agree:
  assumes "list_all2 entry_for d rs"
    and "\<forall>(k, i) \<in> set d. (case wi_next_run i of None \<Rightarrow> False | Some s \<Rightarrow> text_time C now s) \<and>
        (case wi_lease_expires i of None \<Rightarrow> True | Some s \<Rightarrow> text_time C now s)"
  shows "\<exists>cs. claim_candidates C now d = Inr cs \<and>
    list_all2 entry_for cs (filter (row_claimable (iso_of C (whole_seconds now))) rs) \<and> set cs \<subseteq> set d \<and>
    (distinct (map fst d) \<longrightarrow> distinct (map fst cs))"
  using assms
proof (induction rule: list_all2_induct)
  case (Cons ki d r rs)
  then obtain cs where cs: "claim_candidates C now d = Inr cs" "set cs \<subseteq> set d" "distinct (map fst d) \<longrightarrow> distinct (map fst cs)"
    "list_all2 entry_for cs (filter (row_claimable (iso_of C (whole_seconds now))) rs)" by auto
  have r: "row_for (snd ki) r" using Cons.hyps(1) by (simp add: entry_for_def)
  have "claimable C now (snd ki) = Inr (row_claimable (iso_of C (whole_seconds now)) r)"
    using Cons.prems row_for_fields(8) [OF r] by (intro claimable_row [OF r]) (auto split: prod.splits)
  then show ?case using cs Cons.hyps(1) by auto
qed simp

lemma list_all2_insort:
  assumes "list_all2 R xs ys" "R x y" "\<And>a b. R a b \<Longrightarrow> f a = g b"
  shows "list_all2 R (insort_key f x xs) (insort_key g y ys)"
  using assms(1) by (induction rule: list_all2_induct) (use assms(2,3) in auto)

lemma list_all2_sort:
  assumes "list_all2 R xs ys" "\<And>a b. R a b \<Longrightarrow> f a = g b"
  shows "list_all2 R (sort_key f xs) (sort_key g ys)"
  using assms(1)
proof (induction rule: list_all2_induct)
  case (Cons x xs y ys)
  then show ?case using list_all2_insort [OF Cons.IH Cons.hyps(1), of f g] assms(2) by (simp add: sort_key_def)
qed simp

lemma claim_loop_simulated:
  assumes "represents M T" "list_all2 entry_for cs rs" "distinct (map fst cs)"
    and "\<forall>(k, i) \<in> set cs. dget (ws_instances M) k = Some i"
  shows "\<exists>out T'. claim_rows E worker (iso_of C (whole_seconds (now + ttl))) (iso_of C (whole_seconds now)) rs T = (Inr out, T') \<and>
    represents (snd (claim_all (claimed_by C worker now ttl) cs M)) T'"
  using assms(2,1,3,4)
proof (induction arbitrary: M T rule: list_all2_induct)
  case (Cons ki cs r rs)
  obtain k i where ki: "ki = (k, i)" by fastforce
  let ?f = "claimed_row worker (iso_of C (whole_seconds (now + ttl))) (iso_of C (whole_seconds now))"
  have r: "row_for i r" "k = wi_id i" using Cons.hyps(1) ki by (simp_all add: entry_for_def)
  have d: "dget (ws_instances M) k = Some i" using Cons.prems(3) ki by simp
  have "represents (put_instance k (claimed_by C worker now ttl i) M) (update_workflows (\<lambda>q. wr_id q = k) ?f T)"
  proof (rule represents_put [OF Cons.prems(1) d])
    show "wi_id (claimed_by C worker now ttl i) = k" "wi_event_seq i \<le> wi_event_seq (claimed_by C worker now ttl i)"
      "business_key (claimed_by C worker now ttl i) = business_key i"
      using r(2) by (simp_all add: claimed_by_def business_key_def)
    fix q assume q: "row_for i q"
    have "row_for (claimed_by C worker now ttl i) (?f q)"
      using q by (cases q) (auto simp: row_for_def instance_row_def claimed_by_def claimed_row_def)
    then show "wr_id q = k \<and> row_for (claimed_by C worker now ttl i) (?f q)" using q r(2) row_for_fields(1) by auto
  qed simp
  moreover have "\<forall>(j, x) \<in> set cs. dget (ws_instances (put_instance k (claimed_by C worker now ttl i) M)) j = Some x"
    using Cons.prems(2,3) ki by (force simp: put_instance_def)
  moreover have "distinct (map fst cs)" using Cons.prems(2) by simp
  ultimately obtain out T' where "claim_rows E worker (iso_of C (whole_seconds (now + ttl))) (iso_of C (whole_seconds now)) rs
        (update_workflows (\<lambda>q. wr_id q = k) ?f T) = (Inr out, T')"
      "represents (snd (claim_all (claimed_by C worker now ttl) cs (put_instance k (claimed_by C worker now ttl i) M))) T'"
    using Cons.IH by blast
  then show ?case using row_reads [OF r(1)] row_for_fields(1) [OF r(1)] ki r(2) by (simp add: Let_def split_beta)
qed simp

lemma claim_simulated:
  assumes "represents M T" "0 \<le> limit" "times_fit C now M"
  shows "represents (snd (claim C worker limit now ttl M)) (snd (sql_claim E C worker limit now ttl T))"
proof -
  have rows: "list_all2 entry_for (ws_instances M) (sq_workflows T)" "dict_ok (ws_instances M)"
    using assms(1) by (simp_all add: represents_def rows_agree_def)
  let ?now = "iso_of C (whole_seconds now)"
  let ?due = "\<lambda>(k, i). case wi_next_run i of None \<Rightarrow> [] | Some s \<Rightarrow> s"
  obtain cs where cs: "claim_candidates C now (ws_instances M) = Inr cs" "set cs \<subseteq> set (ws_instances M)" "distinct (map fst cs)"
    "list_all2 entry_for cs (filter (row_claimable ?now) (sq_workflows T))"
    using candidates_agree [OF rows(1), of C now] assms(3) rows(2) by (auto simp: times_fit_def dict_ok_def)
  let ?cs = "take (nat limit) (sort_key ?due cs)"
  let ?rs = "take (nat limit) (sort_key wr_next_run (filter (row_claimable ?now) (sq_workflows T)))"
  have "list_all2 entry_for (sort_key ?due cs) (sort_key wr_next_run (filter (row_claimable ?now) (sq_workflows T)))"
    using row_for_fields(8) by (intro list_all2_sort [OF cs(4)]) (auto simp: entry_for_def split: prod.splits)
  then have l: "list_all2 entry_for ?cs ?rs" by (rule list_all2_takeI)
  have "distinct (map fst (sort_key ?due cs))" using cs(3) by (simp add: distinct_map)
  then have dist: "distinct (map fst ?cs)" by (metis distinct_take take_map)
  have "dget (ws_instances M) k = Some i" if "(k, i) \<in> set ?cs" for k i
    using in_set_takeD [OF that] cs(2) rows(2) by (auto simp: dict_ok_def)
  then have "\<forall>(k, i) \<in> set ?cs. dget (ws_instances M) k = Some i" by blast
  from claim_loop_simulated [OF assms(1) l dist this]
  obtain out T' where "claim_rows E worker (iso_of C (whole_seconds (now + ttl))) ?now ?rs T = (Inr out, T')"
    "represents (snd (claim_all (claimed_by C worker now ttl) ?cs M)) T'" by blast
  then show ?thesis using cs(1) assms(2)
    by (simp add: claim_def sql_claim_def slice_to_def limit_rows_def transact_def Let_def split_beta)
qed

section \<open>Histories\<close>

text \<open>A command the in-memory store accepts and that both stores take in the same way; the sweep is left out.\<close>

fun fits :: "env \<Rightarrow> clock_api \<Rightarrow> workflow_store \<Rightarrow> store_cmd \<Rightarrow> bool" where
  "fits E C M (Create i) \<longleftrightarrow>
     fst (create i M) = Inr () \<and> present (wi_next_run i) \<and> wi_created i \<noteq> [] \<and> wi_policy_version i \<noteq> []"
| "fits E C M (Claim worker limit now ttl) \<longleftrightarrow> 0 \<le> limit \<and> times_fit C now M"
| "fits E C M (UpdateInstance i) \<longleftrightarrow>
     (case get_instance M (wi_tenant i) (wi_id i) of None \<Rightarrow> False | Some j \<Rightarrow> same_identity j i)"
| "fits E C M (AppendEvents t w evs) \<longleftrightarrow> get_instance M t w \<noteq> None \<and> list_all isl evs"
| "fits E C M (EnqueueSignal t w sig st nr cl) \<longleftrightarrow>
     fst (enqueue_signal_and_wake E C t w sig st nr cl M) = Inr () \<and> sig_workflow sig = w \<and> sig_tenant sig = t \<and>
     \<not> sig_consumed sig \<and> sig_result sig = None \<and>
     (\<forall>(v, ss) \<in> set (ws_signals M). \<forall>s \<in> set ss. sig_id s \<noteq> sig_id sig)"
| "fits E C M (MarkSignalConsumed t sid res) \<longleftrightarrow> True"
| "fits E C M (PutReceipt r w) \<longleftrightarrow> True"
| "fits E C M (CommitAdvance b) \<longleftrightarrow> bundle_fits b M"
| "fits E C M (Sweep now) \<longleftrightarrow> False"

lemma step_simulated:
  assumes "represents M T" "fits E C M c"
  shows "represents (store_step E C M c) (sql_step E C T c)"
proof (cases c)
  case (Create i)
  then show ?thesis using create_simulated(1) [OF assms(1)] assms(2) by simp
next
  case (Claim worker limit now ttl)
  then show ?thesis using claim_simulated [OF assms(1)] assms(2) by simp
next
  case (UpdateInstance i)
  then show ?thesis using update_simulated [OF assms(1)] assms(2) by (simp split: option.splits)
next
  case (AppendEvents t w evs)
  then show ?thesis using append_simulated [OF assms(1)] assms(2) by auto
next
  case (EnqueueSignal t w sig st nr cl)
  have "sig_id s \<noteq> sig_id sig" if "s \<in> set (signals_of M v)" for v s
    using signals_of_in [OF that] assms(2) EnqueueSignal by auto
  then show ?thesis using enqueue_simulated [OF assms(1)] assms(2) EnqueueSignal by simp
next
  case (MarkSignalConsumed t sid res)
  then show ?thesis using mark_simulated [OF assms(1)] by simp
next
  case (PutReceipt r w)
  then show ?thesis using put_receipt_simulated [OF assms(1)] by simp
next
  case (CommitAdvance b)
  then show ?thesis using commit_simulated [OF assms(1)] assms(2) by simp
next
  case (Sweep now)
  then show ?thesis using assms(2) by simp
qed

text \<open>Two systems that take the same commands: a relation both keep, as long as the first meets the side condition.\<close>

locale simulation =
  fixes rel :: "'s \<Rightarrow> 't \<Rightarrow> bool"
    and step :: "'s \<Rightarrow> 'c \<Rightarrow> 's"
    and step' :: "'t \<Rightarrow> 'c \<Rightarrow> 't"
    and ok :: "'s \<Rightarrow> 'c \<Rightarrow> bool"
  assumes step_related: "rel s t \<Longrightarrow> ok s c \<Longrightarrow> rel (step s c) (step' t c)"
begin

lemma run_related: "rel s t \<Longrightarrow> run_ok step ok s cs \<Longrightarrow> rel (run step s cs) (run step' t cs)"
  by (induction cs arbitrary: s t) (auto intro: step_related)

end

interpretation tables: simulation represents "store_step E C" "sql_step E C" "fits E C" for E C
  by unfold_locales (rule step_simulated)

lemma empty_represents: "represents empty_store empty_tables"
  by (simp add: represents_def rows_agree_def events_agree_def signals_agree_def receipts_agree_def empty_store_def
      empty_tables_def events_of_def signals_of_def dict_ok_def)

section \<open>What is read\<close>

lemma get_agrees:
  assumes "represents M T"
  shows "case get_instance M t w of None \<Rightarrow> sql_get E T t w = Inr None
    | Some i \<Rightarrow> \<exists>u. sql_get E T t w = Inr (Some ((stored_form i)\<lparr>wi_updated := u\<rparr>))"
proof (cases "get_instance M t w")
  case None
  then show ?thesis using row_lookup(1) [of M T t w] assms by (simp add: represents_def sql_get_def)
next
  case (Some i)
  then obtain r where "row_of T t w = Some r" "row_for i r" using row_lookup(2) [of M T t w i] assms by (auto simp: represents_def)
  then show ?thesis using Some row_reads [of i r] by (auto simp: sql_get_def)
qed

lemma event_reads:
  "event_for e r \<Longrightarrow> (row_to_event r)\<lparr>we_at := []\<rparr> = e\<lparr>we_payload := column_json (we_payload e), we_at := []\<rparr>"
proof -
  assume "event_for e r"
  then have eq: "r\<lparr>er_created := []\<rparr> = (event_row_of e)\<lparr>er_created := []\<rparr>" by (simp add: event_for_def)
  have "(row_to_event r)\<lparr>we_at := []\<rparr> = row_to_event (r\<lparr>er_created := []\<rparr>)" by (simp add: row_to_event_def)
  also have "\<dots> = e\<lparr>we_payload := column_json (we_payload e), we_at := []\<rparr>"
    unfolding eq by (simp add: row_to_event_def event_row_of_def)
  finally show ?thesis .
qed

lemma events_read:
  assumes "represents M T" "get_instance M t w = Some i"
  shows "map (\<lambda>e. e\<lparr>we_at := []\<rparr>) (sql_list_events T t w) =
    map (\<lambda>e. e\<lparr>we_payload := column_json (we_payload e), we_at := []\<rparr>) (list_events M t w)"
proof -
  have e: "events_agree M T" using assms(1) by (simp add: represents_def)
  have i: "dget (ws_instances M) w = Some i" "wi_tenant i = t" using get_instanceD [OF assms(2)] by simp_all
  let ?rs = "filter (\<lambda>r. er_workflow r = w) (sq_events T)"
  have "filter (\<lambda>r. er_workflow r = w \<and> er_tenant r = t) (sq_events T) = ?rs"
    using e i by (intro filter_cong refl) (auto simp: events_agree_def)
  moreover have "sort_key er_seq ?rs = ?rs" using e by (intro sort_key_id_if_sorted) (simp add: events_agree_def)
  moreover have "list_all2 event_for (events_of M w) ?rs" using e by (simp add: events_agree_def)
  moreover have "map (\<lambda>e. e\<lparr>we_at := []\<rparr>) (map row_to_event rs) = map (\<lambda>e. e\<lparr>we_payload := column_json (we_payload e), we_at := []\<rparr>) es"
    if "list_all2 event_for es rs" for es rs
    using that by (induction rule: list_all2_induct) (simp_all add: event_reads)
  ultimately show ?thesis using assms(2) by (simp only: sql_list_events_def list_events_def option.case) 
qed

lemma signals_read:
  assumes "represents M T" "get_instance M t w = Some i"
  shows "sql_take_unconsumed_signals T t w =
    map (\<lambda>s. s\<lparr>sig_payload := stored_doc (sig_payload s)\<rparr>) (sort_key sig_created (take_unconsumed_signals M t w))"
proof -
  have g: "signals_agree M T" using assms(1) by (simp add: represents_def)
  have i: "dget (ws_instances M) w = Some i" "wi_tenant i = t" using get_instanceD [OF assms(2)] by simp_all
  have "list_all2 signal_for (signals_of M w) (filter (\<lambda>r. sr_workflow r = w) (sq_signals T))"
    using g by (simp add: signals_agree_def)
  then have "list_all2 (\<lambda>s r. signal_for s r \<and> \<not> sig_consumed s) (filter (\<lambda>s. \<not> sig_consumed s) (signals_of M w))
      (filter (\<lambda>r. sr_consumed_at r = None) (filter (\<lambda>r. sr_workflow r = w) (sq_signals T)))"
    by (induction rule: list_all2_induct) (auto simp: signal_for_def)
  moreover have "filter (\<lambda>r. sr_consumed_at r = None) (filter (\<lambda>r. sr_workflow r = w) (sq_signals T)) =
      filter (\<lambda>r. sr_workflow r = w \<and> sr_tenant r = t \<and> sr_consumed_at r = None) (sq_signals T)"
    using g i unfolding filter_filter by (intro filter_cong refl) (auto simp: signals_agree_def)
  ultimately have "list_all2 (\<lambda>s r. signal_for s r \<and> \<not> sig_consumed s) (sort_key sig_created (filter (\<lambda>s. \<not> sig_consumed s) (signals_of M w)))
      (sort_key sr_created (filter (\<lambda>r. sr_workflow r = w \<and> sr_tenant r = t \<and> sr_consumed_at r = None) (sq_signals T)))"
    by (intro list_all2_sort) (auto simp: signal_for_def)
  moreover have "map row_to_signal rs = map (\<lambda>s. s\<lparr>sig_payload := stored_doc (sig_payload s)\<rparr>) ss"
    if "list_all2 (\<lambda>s r. signal_for s r \<and> \<not> sig_consumed s) ss rs" for ss rs
    using that by (induction rule: list_all2_induct) (auto simp: row_to_signal_def signal_for_def stored_doc_def)
  ultimately show ?thesis using assms(2) by (simp add: sql_take_unconsumed_signals_def take_unconsumed_signals_def)
qed

lemma receipts_read:
  assumes "represents M T"
  shows "case get_execution_receipt M t k of None \<Rightarrow> sql_get_execution_receipt E T t k = Inr None
    | Some r \<Rightarrow> exe_at r \<noteq> [] \<longrightarrow> sql_get_execution_receipt E T t k = Inr (Some r)"
proof -
  have "map_option (\<lambda>r. column_json (receipt_columns r)) (dget (ws_receipts M) (t, k)) =
      map_option rr_receipt (find (\<lambda>r. rr_tenant r = t \<and> rr_key r = k) (sq_receipts T))"
    using assms by (simp add: represents_def receipts_agree_def)
  then show ?thesis
    by (auto simp: get_execution_receipt_def sql_get_execution_receipt_def receipt_round_trip split: option.splits dest: sym)
qed

end
