(* ===== verification/Sql_Properties.thy ===== *)
theory Sql_Properties
  imports Sql_Histories
begin

text \<open>
  The properties of the SQL store: it refines the in-memory store, its constraints hold in every history, its
  leases exclude other workers, and the two methods in which it does not behave as the in-memory store does.
\<close>

section \<open>Refinement\<close>

text \<open>C7. The SQL store refines the in-memory store: after any history of commands that the in-memory store accepts
  and that meet its side conditions, both started empty, a workflow reads back from its row as the in-memory instance with its
  JSON columns in stored form, up to the time of the last update; its event log reads back as the in-memory log, up to
  times of recording; its unconsumed signals come back in order of creation; and a stored execution receipt reads
  back unchanged.\<close>

theorem sql_refines_memory:
  assumes "run_ok (store_step E C) (fits E C) empty_store cs"
    and "M = run (store_step E C) empty_store cs" "T = run (sql_step E C) empty_tables cs"
  shows "(case get_instance M t w of
      None \<Rightarrow> sql_get E T t w = Inr None
    | Some i \<Rightarrow> (\<exists>u. sql_get E T t w = Inr (Some ((stored_form i)\<lparr>wi_updated := u\<rparr>))) \<and>
        map (\<lambda>e. e\<lparr>we_at := []\<rparr>) (sql_list_events T t w) =
          map (\<lambda>e. e\<lparr>we_payload := column_json (we_payload e), we_at := []\<rparr>) (list_events M t w) \<and>
        sql_take_unconsumed_signals T t w =
          map (\<lambda>s. s\<lparr>sig_payload := stored_doc (sig_payload s)\<rparr>) (sort_key sig_created (take_unconsumed_signals M t w))) \<and>
    (case get_execution_receipt M t k of
      None \<Rightarrow> sql_get_execution_receipt E T t k = Inr None
    | Some r \<Rightarrow> exe_at r = [] \<or> sql_get_execution_receipt E T t k = Inr (Some r))"
proof -
  have r: "represents M T" unfolding assms(2,3) by (rule tables.run_related [OF empty_represents assms(1)])
  have "case get_execution_receipt M t k of None \<Rightarrow> sql_get_execution_receipt E T t k = Inr None
    | Some r \<Rightarrow> exe_at r = [] \<or> sql_get_execution_receipt E T t k = Inr (Some r)"
    using receipts_read [OF r, where t = t and k = k and E = E] by (auto split: option.splits)
  then show ?thesis using get_agrees [OF r, where t = t and w = w and E = E] events_read [OF r, where t = t and w = w] signals_read [OF r, where t = t and w = w]
    by (cases "get_instance M t w") simp_all
qed

definition sql_instance :: workflow_instance where
  "sql_instance = (demo_instance REVIEW_PENDING PENDING)\<lparr>wi_next_run := Some ''x''\<rparr>"

definition sql_signal :: "string \<Rightarrow> workflow_signal" where
  "sql_signal sid = \<lparr>sig_id = sid, sig_workflow = ''w'', sig_tenant = ''o'', sig_type = SIG_APPROVAL, sig_payload = [],
     sig_created = ''t'', sig_consumed = False, sig_result = None\<rparr>"

definition sql_history :: "store_cmd list" where
  "sql_history = [Create sql_instance, EnqueueSignal ''o'' ''w'' (sql_signal ''s'') PENDING (Inr ''xx'') True,
     Claim ''a'' 1 3000000 5000000, PutReceipt demo_exec ''w'']"

theorem sql_refines_memory_witness:
  "\<exists>u. sql_get demo_env (run (sql_step demo_env demo_clock) empty_tables sql_history) ''o'' ''w'' =
     Inr (Some ((stored_form (claimed_by demo_clock ''a'' 3000000 5000000
       (sql_instance\<lparr>wi_next_run := Some ''xx''\<rparr>)))\<lparr>wi_updated := u\<rparr>))"
proof -
  note run_simps = sql_history_def sql_instance_def demo_instance_def sql_signal_def create_def empty_store_def default_list_def
    business_key_def enqueue_signal_and_wake_def get_instance_def put_instance_def signals_of_def times_fit_def text_time_def
    demo_clock_def whole_seconds_def claim_def claimable_def CLAIMABLE_RUN_STATUSES_def parse_time_def slice_to_def
    claimed_by_def put_execution_receipt_def present_def
  have text3: "replicate 3 CHR ''x'' = ''xxx''" by (simp add: numeral_eq_Suc)
  have ok: "run_ok (store_step demo_env demo_clock) (fits demo_env demo_clock) empty_store sql_history"
    by (simp add: run_simps Let_def text3)
  have "get_instance (run (store_step demo_env demo_clock) empty_store sql_history) ''o'' ''w'' =
     Some (claimed_by demo_clock ''a'' 3000000 5000000 (sql_instance\<lparr>wi_next_run := Some ''xx''\<rparr>))"
    by (simp add: run_simps Let_def text3)
  then show ?thesis using sql_refines_memory [OF ok refl refl, where t = "''o''" and w = "''w''"] by simp
qed

section \<open>Constraints\<close>

text \<open>The primary keys, the unique and the foreign keys of the schema.\<close>

definition tables_ok :: "sql_store \<Rightarrow> bool" where
  "tables_ok T \<longleftrightarrow>
     distinct (map wr_id (sq_workflows T)) \<and>
     distinct (map (\<lambda>r. (wr_tenant r, wr_type r, wr_business_key r)) (sq_workflows T)) \<and>
     distinct (map er_id (sq_events T)) \<and> distinct (map (\<lambda>r. (er_workflow r, er_seq r)) (sq_events T)) \<and>
     distinct (map sr_id (sq_signals T)) \<and> distinct (map (\<lambda>r. (rr_tenant r, rr_key r)) (sq_receipts T)) \<and>
     er_workflow ` set (sq_events T) \<subseteq> wr_id ` set (sq_workflows T) \<and>
     sr_workflow ` set (sq_signals T) \<subseteq> wr_id ` set (sq_workflows T)"

lemma ok_clock [simp]: "tables_ok (T\<lparr>sq_clock := c\<rparr>) = tables_ok T"
  by (simp add: tables_ok_def)

lemma ok_draw [simp]: "tables_ok (snd (draw_time E T)) = tables_ok T" "tables_ok (snd (given_or_now E u T)) = tables_ok T"
  by (simp_all add: draw_time_def given_or_now_def)

lemma ok_update:
  assumes "tables_ok T"
    and "\<And>r. wr_id (f r) = wr_id r \<and> wr_tenant (f r) = wr_tenant r \<and> wr_type (f r) = wr_type r \<and>
      wr_business_key (f r) = wr_business_key r"
  shows "tables_ok (update_workflows P f T)"
proof -
  have "map g (map (\<lambda>r. if P r then f r else r) rs) = map g rs" if "\<And>r. g (f r) = g r" for g :: "workflow_row \<Rightarrow> 'b" and rs
    using that by simp
  from this [of wr_id] this [of "\<lambda>r. (wr_tenant r, wr_type r, wr_business_key r)"] assms
  have m: "map wr_id (sq_workflows (update_workflows P f T)) = map wr_id (sq_workflows T)"
    "map (\<lambda>r. (wr_tenant r, wr_type r, wr_business_key r)) (sq_workflows (update_workflows P f T)) =
     map (\<lambda>r. (wr_tenant r, wr_type r, wr_business_key r)) (sq_workflows T)" by simp_all
  then show ?thesis using assms(1) unfolding tables_ok_def m set_map [symmetric] by simp
qed

lemma ok_insert:
  "tables_ok T \<Longrightarrow> tables_ok (snd (insert_workflow r T))" "tables_ok T \<Longrightarrow> tables_ok (snd (insert_event e T))"
  "tables_ok T \<Longrightarrow> tables_ok (snd (insert_signal s T))" "tables_ok T \<Longrightarrow> tables_ok (replace_receipt q T)"
proof -
  show "tables_ok T \<Longrightarrow> tables_ok (snd (insert_workflow r T))"
    by (auto simp: tables_ok_def insert_workflow_def list_ex_iff)
  show "tables_ok T \<Longrightarrow> tables_ok (snd (insert_event e T))"
    by (auto simp: tables_ok_def insert_event_def list_ex_iff has_workflow_def image_iff) metis
  show "tables_ok T \<Longrightarrow> tables_ok (snd (insert_signal s T))"
    by (auto simp: tables_ok_def insert_signal_def list_ex_iff has_workflow_def image_iff) metis
  show "tables_ok T \<Longrightarrow> tables_ok (replace_receipt q T)"
    by (auto simp: tables_ok_def replace_receipt_def distinct_map_filter)
qed

lemma ok_consume: "tables_ok T \<Longrightarrow> tables_ok (consume_signals now t sid res T)"
proof -
  have "map g (map (\<lambda>r. if sr_id r = sid \<and> sr_tenant r = t then r\<lparr>sr_consumed_at := Some now, sr_result := Some res\<rparr> else r) rs) = map g rs"
    if "\<And>r. g (r\<lparr>sr_consumed_at := Some now, sr_result := Some res\<rparr>) = g r" for g :: "signal_row \<Rightarrow> string" and rs
    using that by simp
  from this [of sr_id] this [of sr_workflow]
  have m: "map sr_id (sq_signals (consume_signals now t sid res T)) = map sr_id (sq_signals T)"
    "map sr_workflow (sq_signals (consume_signals now t sid res T)) = map sr_workflow (sq_signals T)"
    by (simp_all add: consume_signals_def)
  have "sr_workflow ` set (sq_signals (consume_signals now t sid res T)) = sr_workflow ` set (sq_signals T)"
    using m(2) by (metis set_map)
  then show "tables_ok T \<Longrightarrow> tables_ok (consume_signals now t sid res T)"
    using m(1) by (simp add: tables_ok_def) (simp add: consume_signals_def)
qed

lemma ok_transact: "(\<And>S. tables_ok S \<Longrightarrow> tables_ok (snd (f S))) \<Longrightarrow> tables_ok T \<Longrightarrow> tables_ok (snd (transact f T))"
  by (cases "f T"; cases "fst (f T)") (auto simp: transact_def, metis snd_conv)

lemma ok_and_then: "tables_ok (snd x) \<Longrightarrow> (\<And>a S. tables_ok S \<Longrightarrow> tables_ok (snd (k a S))) \<Longrightarrow> tables_ok (snd (and_then x k))"
  by (cases x; cases "fst x") auto

lemma ok_add_events: "tables_ok T \<Longrightarrow> tables_ok (snd (sql_add_events E t w evs n T))"
proof (induction evs arbitrary: n T)
  case (Cons ev evs)
  then show ?case by (cases ev) (auto simp: ok_insert split_beta intro!: ok_and_then)
qed simp

lemma ok_write:
  assumes "tables_ok T" "\<And>r. wr_id (g r) = wr_id r \<and> wr_tenant (g r) = wr_tenant r \<and> wr_type (g r) = wr_type r \<and>
      wr_business_key (g r) = wr_business_key r"
  shows "tables_ok (snd (write_instance E g i T))"
  using assms by (auto simp: write_instance_def split_beta set_columns_def intro!: ok_update split: option.splits)

lemma ok_claim_rows: "tables_ok T \<Longrightarrow> tables_ok (snd (claim_rows E worker lease now rs T))"
proof (induction rs arbitrary: T)
  case (Cons r rs)
  have "tables_ok (update_workflows (\<lambda>q. wr_id q = wr_id r) (claimed_row worker lease now) T)"
    by (rule ok_update [OF Cons.prems]) (simp add: claimed_row_def)
  then show ?case using Cons.IH by (auto simp: Let_def intro!: ok_and_then split: sum.splits)
qed simp

lemma ok_store_receipts: "tables_ok T \<Longrightarrow> tables_ok (sql_store_receipts w rs T)"
  unfolding sql_store_receipts_def by (rule fold_invariant [where Q = "\<lambda>_. True"]) (simp_all add: ok_insert(4))

lemma ok_mark: "tables_ok T \<Longrightarrow> tables_ok (sql_mark_signal_consumed E t sid res T)"
  by (simp add: sql_mark_signal_consumed_def split_beta ok_consume)

lemma ok_consume_all: "tables_ok T \<Longrightarrow> tables_ok (sql_consume E t cs T)"
  by (induction E t cs T rule: sql_consume.induct) (simp_all add: ok_mark)

lemma ok_time_out: "tables_ok T \<Longrightarrow> tables_ok (snd (sql_time_out now i T))"
proof -
  assume "tables_ok T"
  then have "tables_ok (update_workflows P (timed_out_row now key i) T)" for P key
    by (rule ok_update) (simp add: timed_out_row_def)
  from ok_insert(2) [OF this] show ?thesis using \<open>tables_ok T\<close> by (simp add: sql_time_out_def split: sum.split)
qed

lemma ok_sweep: "tables_ok T \<Longrightarrow> tables_ok (snd (sql_sweep_rows E now rs T))"
proof (induction rs arbitrary: T)
  case (Cons r rs)
  then show ?case by (cases "row_to_instance (now_iso E (sq_clock T)) r") (simp_all add: ok_time_out ok_and_then)
qed simp

lemma ok_step: "tables_ok T \<Longrightarrow> tables_ok (sql_step E C T c)"
proof (induction c)
  case (Create i)
  have "tables_ok (snd (insert_workflow r (snd (given_or_now E u S))))" if "tables_ok S" for r u S
    using that by (intro ok_insert(1)) simp
  then show ?case using Create
    by (auto simp: sql_create_def case_prod_beta intro!: ok_transact split: sum.split)
next
  case (Claim worker limit now ttl)
  then show ?case by (auto simp: sql_claim_def Let_def intro!: ok_transact ok_claim_rows)
next
  case (UpdateInstance i)
  then show ?case by (auto simp: sql_update_instance_def intro!: ok_transact ok_write)
next
  case (AppendEvents t w evs)
  then show ?case
    by (auto simp: sql_append_events_def split_beta intro!: ok_transact ok_and_then ok_add_events ok_update split: option.splits)
next
  case (EnqueueSignal t w sig st nr cl)
  then show ?case
    by (auto simp: sql_enqueue_signal_and_wake_def Let_def split_beta intro!: ok_transact ok_and_then ok_insert ok_update)
next
  case (CommitAdvance b)
  then show ?case
    by (auto simp: sql_commit_advance_def intro!: ok_transact ok_and_then ok_write ok_add_events ok_consume_all ok_store_receipts ok_update)
next
  case (Sweep now)
  then show ?case by (auto simp: sql_sweep_approval_timeouts_def Let_def intro!: ok_transact ok_sweep)
qed (simp_all add: ok_mark sql_put_execution_receipt_def ok_insert(4))

interpretation constraints: kept_invariant "sql_step E C" "\<lambda>_ _. True" tables_ok for E C
  by unfold_locales (rule ok_step)


section \<open>Leases\<close>

lemma claim_rows_effect:
  assumes "claim_rows E worker lease now rs T = (Inr out, T')"
  shows "map wi_id out = map wr_id rs \<and>
    sq_workflows T' = map (\<lambda>q. if wr_id q \<in> set (map wr_id rs) then claimed_row worker lease now q else q) (sq_workflows T)"
  using assms
proof (induction rs arbitrary: T out T')
  case Nil
  then show ?case by simp
next
  case (Cons r rs)
  let ?T = "update_workflows (\<lambda>q. wr_id q = wr_id r) (claimed_row worker lease now) T"
  obtain i where i: "row_to_instance (now_iso E (sq_clock T)) r = Inr i"
    using Cons.prems by (auto simp: Let_def split: sum.splits)
  then obtain js where js: "claim_rows E worker lease now rs ?T = (Inr js, T')"
    "out = i\<lparr>wi_run_status := RUNNING, wi_lease_owner := Some worker, wi_lease_expires := Some lease, wi_updated := now\<rparr> # js"
    using Cons.prems by (auto simp: Let_def elim!: and_then_InrE)
  have "wi_id i = wr_id r" using i by (auto simp: row_to_instance_def split: sum.splits)
  then show ?case using Cons.IH [OF js(1)] js(2) by (auto simp: claimed_row_def)
qed

lemma claim_effect:
  assumes "sql_claim E C worker limit now ttl T = (Inr out, T')"
  shows "\<exists>rs. set rs \<subseteq> set (filter (row_claimable (iso_of C (whole_seconds now))) (sq_workflows T)) \<and>
    map wi_id out = map wr_id rs \<and> sq_workflows T' = map (\<lambda>q. if wr_id q \<in> set (map wr_id rs)
       then claimed_row worker (iso_of C (whole_seconds (now + ttl))) (iso_of C (whole_seconds now)) q else q) (sq_workflows T)"
proof -
  let ?rs = "limit_rows limit (sort_key wr_next_run (filter (row_claimable (iso_of C (whole_seconds now))) (sq_workflows T)))"
  have "claim_rows E worker (iso_of C (whole_seconds (now + ttl))) (iso_of C (whole_seconds now)) ?rs T = (Inr out, T')"
    using assms by (auto simp: sql_claim_def transact_def Let_def split: prod.splits sum.splits)
  note e = claim_rows_effect [OF this]
  have "set ?rs \<subseteq> set (filter (row_claimable (iso_of C (whole_seconds now))) (sq_workflows T))"
    by (auto simp: limit_rows_def dest: in_set_takeD)
  then show ?thesis using e by blast
qed

text \<open>A lease of the SQL store excludes other workers: what one claim returned, no claim returns whose moment, as
  text, is not after the text of the lease's end.\<close>

theorem sql_lease_excludes:
  assumes "sql_claim E C w1 l1 t1 ttl T = (Inr out1, T1)" "sql_claim E C w2 l2 t2 ttl2 T1 = (Inr out2, T2)"
    and "iso_of C (whole_seconds t2) \<le> iso_of C (whole_seconds (t1 + ttl))"
  shows "set (map wi_id out1) \<inter> set (map wi_id out2) = {}"
proof -
  obtain rs1 :: "workflow_row list" where c1: "map wi_id out1 = map wr_id rs1" "sq_workflows T1 = map (\<lambda>q. if wr_id q \<in> set (map wr_id rs1)
     then claimed_row w1 (iso_of C (whole_seconds (t1 + ttl))) (iso_of C (whole_seconds t1)) q else q) (sq_workflows T)"
    using claim_effect [OF assms(1)] by (elim exE conjE) (rule that)
  obtain rs2 where c2: "map wi_id out2 = map wr_id rs2"
    "set rs2 \<subseteq> set (filter (row_claimable (iso_of C (whole_seconds t2))) (sq_workflows T1))"
    using claim_effect [OF assms(2)] by (elim exE conjE) (rule that)
  have "wr_id q \<notin> set (map wr_id rs1)" if "q \<in> set rs2" for q
  proof
    assume id: "wr_id q \<in> set (map wr_id rs1)"
    have "q \<in> set (sq_workflows T1)" "row_claimable (iso_of C (whole_seconds t2)) q" using that c2(2) by auto
    then obtain p where "q = claimed_row w1 (iso_of C (whole_seconds (t1 + ttl))) (iso_of C (whole_seconds t1)) p"
      using id unfolding c1(2) by (auto simp: claimed_row_def split: if_splits)
    then show False using \<open>row_claimable (iso_of C (whole_seconds t2)) q\<close> assms(3)
      by (auto simp: row_claimable_def claimed_row_def dest: leD)
  qed
  then have "set (map wr_id rs1) \<inter> set (map wr_id rs2) = {}" by (auto simp del: set_map simp: set_map [of wr_id rs2])
  then show ?thesis unfolding c1(1) c2(1) .
qed

lemma sql_row_exists: "\<exists>(T::sql_store) r. sq_workflows T = [r] \<and> row_for sql_instance r"
proof -
  have r: "row_for sql_instance (instance_row sql_instance ''x'')"
    by (simp add: row_for_def instance_row_def) (simp add: sql_instance_def demo_instance_def)
  have "sq_workflows (snd (insert_workflow (instance_row sql_instance ''x'') empty_tables)) = [instance_row sql_instance ''x'']"
    by (simp add: insert_workflow_def empty_tables_def)
  with r show ?thesis by blast
qed

theorem sql_lease_excludes_witness:
  "\<exists>T1 out2 T2. sql_claim demo_env demo_clock ''b'' 1 4000000 5000000 T1 = (Inr out2, T2) \<and> has_workflow ''w'' T1 \<and>
     ''w'' \<notin> set (map wi_id out2)"
proof -
  obtain T :: sql_store and r where T: "sq_workflows T = [r]" and r: "row_for sql_instance r" using sql_row_exists by blast
  note f = row_for_fields [OF r]
  have texts: "replicate 3 CHR ''x'' = ''xxx''" "replicate 4 CHR ''x'' = ''xxxx''" "replicate 8 CHR ''x'' = ''xxxxxxxx''"
    by (simp_all add: numeral_eq_Suc)
  have now: "iso_of demo_clock (whole_seconds 3000000) = ''xxx''" "iso_of demo_clock (whole_seconds 8000000) = ''xxxxxxxx''"
    "iso_of demo_clock (whole_seconds 4000000) = ''xxxx''"
    by (simp_all add: demo_clock_def whole_seconds_def texts)
  have id: "wr_id r = ''w''" "wr_next_run r = ''x''" "wr_run_status r = ''PENDING''"
    using f by (simp_all add: sql_instance_def demo_instance_def)
  then have c: "row_claimable ''xxx'' r" by (simp add: row_claimable_def)
  let ?q = "claimed_row ''a'' ''xxxxxxxx'' ''xxx'' r"
  obtain out1 T1 where c1: "sql_claim demo_env demo_clock ''a'' 1 3000000 5000000 T = (Inr out1, T1)"
    "sq_workflows T1 = [?q]" "map wi_id out1 = [''w'']"
    using row_reads [OF r] by (simp add: sql_claim_def now T c id limit_rows_def transact_def Let_def stored_form_def)
      (simp add: sql_instance_def demo_instance_def)
  have "\<not> row_claimable ''xxxx'' ?q" by (simp add: row_claimable_def claimed_row_def)
  then obtain out2 T2 where c2: "sql_claim demo_env demo_clock ''b'' 1 4000000 5000000 T1 = (Inr out2, T2)"
    by (simp add: sql_claim_def now c1(2) limit_rows_def transact_def Let_def)
  have "iso_of demo_clock (whole_seconds 4000000) \<le> iso_of demo_clock (whole_seconds (3000000 + 5000000))" by (simp add: now)
  from sql_lease_excludes [OF c1(1) c2 this] have "''w'' \<notin> set (map wi_id out2)" using c1(3) by auto
  moreover have "has_workflow ''w'' T1" using c1(2) id by (simp add: has_workflow_def claimed_row_def)
  ultimately show ?thesis using c2 by blast
qed

section \<open>Where the stores differ\<close>

lemma signal_stored:
  assumes "represents M T" "get_instance M t w = Some i" "\<not> list_ex (\<lambda>q. sr_id q = sig_id sig) (sq_signals T)"
  shows "\<exists>T' u. sql_enqueue_signal_and_wake E C t w sig st (Inr s) cl T = (Inr (), T') \<and> sql_get E T' t w = Inr (Some ((stored_form
    ((if cl then i\<lparr>wi_lease_owner := None, wi_lease_expires := None\<rparr> else i)\<lparr>wi_run_status := st, wi_next_run := Some s\<rparr>))\<lparr>wi_updated := u\<rparr>))"
proof -
  have rows: "rows_agree M T" using assms(1) by (simp add: represents_def)
  obtain r where r: "row_of T t w = Some r" "row_for i r" using row_lookup(2) [OF rows assms(2)] by blast
  have has: "has_workflow w T" using row_lookup(4) [OF rows] get_instanceD [OF assms(2)] by blast
  let ?q = "\<lparr>sr_id = sig_id sig, sr_workflow = w, sr_tenant = t, sr_type = signal_type_value (sig_type sig),
     sr_payload = column_json (JObj (sig_payload sig)), sr_created = sig_created sig, sr_consumed_at = None, sr_result = None\<rparr>"
  let ?T = "T\<lparr>sq_signals := sq_signals T @ [?q]\<rparr>"
  obtain now where now: "draw_time E ?T = (now, ?T\<lparr>sq_clock := Suc (sq_clock T)\<rparr>)" by (simp add: draw_time_def)
  let ?k = "\<lambda>q. q\<lparr>wr_run_status := run_status_value st, wr_next_run := s, wr_updated := now\<rparr>"
  let ?f = "\<lambda>q. if cl then (?k q)\<lparr>wr_lease_owner := None, wr_lease_expires := None\<rparr> else ?k q"
  let ?i = "(if cl then i\<lparr>wi_lease_owner := None, wi_lease_expires := None\<rparr> else i)\<lparr>wi_run_status := st, wi_next_run := Some s\<rparr>"
  let ?T' = "update_workflows (\<lambda>q. wr_id q = w) ?f (?T\<lparr>sq_clock := Suc (sq_clock T)\<rparr>)"
  have e: "sql_enqueue_signal_and_wake E C t w sig st (Inr s) cl T = (Inr (), ?T')"
    using assms(3) has r(1) now by (simp add: sql_enqueue_signal_and_wake_def transact_def insert_signal_def has_workflow_def Let_def)
  have "find (\<lambda>r. wr_id r = w \<and> wr_tenant r = t) (map (\<lambda>q. if wr_id q = w then ?f q else q) rs) =
      map_option ?f (find (\<lambda>r. wr_id r = w \<and> wr_tenant r = t) rs)" for rs :: "workflow_row list"
    by (induction rs) auto
  then have "row_of ?T' t w = Some (?f r)" using r(1) by (simp add: row_of_def split del: if_split)
  moreover have "row_for ?i (?f r)" using r(2) by (cases r) (auto simp: row_for_def instance_row_def)
  ultimately show ?thesis using e row_reads [of ?i "?f r"] by (auto simp: sql_get_def)
qed

text \<open>C23. A signal for a workflow that is running, completed, dead-lettered or cancelled is refused by the in-memory
  store, and accepted by the SQL store: the workflow becomes PENDING again without a lease, in the state it was in.\<close>

theorem sql_signal_revives:
  assumes "run_ok (store_step E C) (fits E C) empty_store cs"
    and "M = run (store_step E C) empty_store cs" "T = run (sql_step E C) empty_tables cs"
    and "get_instance M t w = Some i" "wi_run_status i \<in> {RUNNING, COMPLETED, FAILED_TERMINAL, DEAD_LETTER, CANCELLED}"
    and "\<not> list_ex (\<lambda>q. sr_id q = sig_id sig) (sq_signals T)"
  shows "enqueue_signal_and_wake E C t w sig PENDING (Inr s) True M =
      (Inl (WorkflowStateError (''workflow not accepting signals in '' @ run_status_value (wi_run_status i))), M) \<and>
    (\<exists>T' j. sql_enqueue_signal_and_wake E C t w sig PENDING (Inr s) True T = (Inr (), T') \<and>
      sql_get E T' t w = Inr (Some j) \<and> wi_run_status j = PENDING \<and> wi_lease_owner j = None \<and> wi_state j = wi_state i)"
proof -
  have r: "represents M T" unfolding assms(2,3) by (rule tables.run_related [OF empty_represents assms(1)])
  have "enqueue_signal_and_wake E C t w sig PENDING (Inr s) True M =
      (Inl (WorkflowStateError (''workflow not accepting signals in '' @ run_status_value (wi_run_status i))), M)"
    using assms(4,5) by (auto simp: enqueue_signal_and_wake_def)
  then show ?thesis using signal_stored [OF r assms(4,6), of E C PENDING s True] by (auto simp: stored_form_def)
qed

definition dead_history :: "store_cmd list" where
  "dead_history = [Create (sql_instance\<lparr>wi_run_status := DEAD_LETTER\<rparr>)]"

lemma dead_history_simps:
  "run_ok (store_step E C) (fits E C) empty_store dead_history"
  "get_instance (run (store_step E C) empty_store dead_history) ''o'' ''w'' = Some (sql_instance\<lparr>wi_run_status := DEAD_LETTER\<rparr>)"
  "sq_signals (run (sql_step E C) empty_tables dead_history) = []"
  by (simp_all add: dead_history_def create_def sql_instance_def demo_instance_def empty_store_def present_def get_instance_def
      sql_create_def transact_def given_or_now_def insert_workflow_def empty_tables_def instance_row_def)

theorem sql_signal_revives_witness:
  "\<exists>(T'::sql_store) j. sql_get demo_env T' ''o'' ''w'' = Inr (Some j) \<and> wi_run_status j = PENDING"
proof -
  have "wi_run_status (sql_instance\<lparr>wi_run_status := DEAD_LETTER\<rparr>) \<in> {RUNNING, COMPLETED, FAILED_TERMINAL, DEAD_LETTER, CANCELLED}"
    by simp
  moreover have "\<not> list_ex (\<lambda>q. sr_id q = sig_id (sql_signal ''s'')) (sq_signals (run (sql_step demo_env demo_clock) empty_tables dead_history))"
    by (simp add: dead_history_simps(3))
  ultimately show ?thesis
    using sql_signal_revives [OF dead_history_simps(1) refl refl dead_history_simps(2)] by metis
qed

lemma claim_rows_read: "\<forall>r \<in> set rs. \<exists>j. row_for j r \<Longrightarrow> \<exists>out T'. claim_rows E worker lease moment rs T = (Inr out, T')"
proof (induction rs arbitrary: T)
  case (Cons p rs)
  obtain j where j: "row_for j p" using Cons.prems by auto
  obtain out T' where "claim_rows E worker lease moment rs (update_workflows (\<lambda>q. wr_id q = wr_id p) (claimed_row worker lease moment) T) = (Inr out, T')"
    using Cons.IH Cons.prems by fastforce
  then show ?case using row_reads [OF j] by (simp add: Let_def)
qed simp

text \<open>The SQL store compares times as text: a workflow whose next run, written with an offset, comes later than
  the moment but before it as text, is claimed by the SQL store and is no candidate of the in-memory store.\<close>

theorem sql_claims_early:
  assumes "run_ok (store_step E C) (fits E C) empty_store cs"
    and "M = run (store_step E C) empty_store cs" "T = run (sql_step E C) empty_tables cs"
    and "get_instance M t w = Some i" "wi_run_status i \<in> {PENDING, RETRY_SCHEDULED}" "wi_next_run i = Some s"
    and "parse_iso C s = Some due" "now < due" "s \<le> iso_of C (whole_seconds now)"
    and "int (length (sq_workflows T)) \<le> limit"
  shows "w \<notin> set (map fst (case claim_candidates C now (ws_instances M) of Inl e \<Rightarrow> [] | Inr ks \<Rightarrow> ks)) \<and>
    (\<exists>out T'. sql_claim E C worker limit now ttl T = (Inr out, T') \<and> w \<in> set (map wi_id out))"
proof -
  have r: "represents M T" unfolding assms(2,3) by (rule tables.run_related [OF empty_represents assms(1)])
  then have rows: "rows_agree M T" by (simp add: represents_def)
  have i: "dget (ws_instances M) w = Some i" using get_instanceD [OF assms(4)] by simp
  have no: "claimable C now i = Inr False" using assms(6-8) by (simp add: claimable_def parse_time_def)
  have cand: "(k, j) \<in> set d \<and> claimable C now j = Inr True" if "claim_candidates C now d = Inr ks" "(k, j) \<in> set ks" for d ks k j
    using that by (induction d arbitrary: ks) (auto split: sum.splits if_splits)
  have "dict_ok (ws_instances M)" using rows by (simp add: rows_agree_def)
  then have "j = i" if "(w, j) \<in> set (ws_instances M)" for j using that i by (simp add: dict_ok_def)
  then have "(w, j) \<notin> set ks" if "claim_candidates C now (ws_instances M) = Inr ks" for ks j
    using cand [OF that, of w j] no by auto
  then have "w \<notin> set (map fst (case claim_candidates C now (ws_instances M) of Inl e \<Rightarrow> [] | Inr ks \<Rightarrow> ks))"
    by (auto split: sum.splits)
  moreover have "\<exists>out T'. sql_claim E C worker limit now ttl T = (Inr out, T') \<and> w \<in> set (map wi_id out)"
  proof -
    let ?rs = "sort_key wr_next_run (filter (row_claimable (iso_of C (whole_seconds now))) (sq_workflows T))"
    obtain q where q: "row_of T t w = Some q" "row_for i q" using row_lookup(2) [OF rows assms(4)] by blast
    have "row_claimable (iso_of C (whole_seconds now)) q"
      using row_for_fields [OF q(2)] assms(5,6,9) by (auto simp: row_claimable_def)
    then have "q \<in> set ?rs" "wr_id q = w" using q(1) by (auto simp: row_of_def find_Some_iff)
    have "\<forall>r \<in> set ?rs. \<exists>j. row_for j r"
      using rows by (auto simp: rows_agree_def entry_for_def dest!: list_all2_right)
    then obtain out T' where o: "claim_rows E worker (iso_of C (whole_seconds (now + ttl))) (iso_of C (whole_seconds now)) ?rs T = (Inr out, T')"
      using claim_rows_read by blast
    then have "map wi_id out = map wr_id ?rs" using claim_rows_effect by blast
    moreover have "w \<in> wr_id ` set ?rs" using \<open>q \<in> set ?rs\<close> \<open>wr_id q = w\<close> by blast
    ultimately have "w \<in> set (map wi_id out)" by simp
    moreover have "length ?rs \<le> length (sq_workflows T)" by simp
    then have "\<not> limit < 0" "length ?rs \<le> nat limit" using assms(10) by linarith+
    then have "limit_rows limit ?rs = ?rs" by (simp add: limit_rows_def)
    ultimately show ?thesis using o by (simp add: sql_claim_def transact_def Let_def)
  qed
  ultimately show ?thesis by blast
qed

text \<open>Eight in the morning at \<^verbatim>\<open>-05:00\<close>, read at nine in the morning of \<^verbatim>\<open>+00:00\<close>: four hours early.\<close>

definition offset_clock :: clock_api where
  "offset_clock = \<lparr>parse_iso = (\<lambda>s. if s = ''2026-01-01T08:00:00-05:00'' then Some 18000000000 else Some 3600000000),
     iso_of = (\<lambda>t. ''2026-01-01T09:00:00+00:00'')\<rparr>"

definition early_instance :: workflow_instance where
  "early_instance = (demo_instance RECEIVED PENDING)\<lparr>wi_next_run := Some ''2026-01-01T08:00:00-05:00''\<rparr>"

theorem sql_claims_early_witness:
  "\<exists>(T::sql_store) out T'. sql_claim demo_env offset_clock ''a'' 1 3600000000 60000000 T = (Inr out, T') \<and> ''w'' \<in> set (map wi_id out)"
proof -
  let ?cs = "[Create early_instance]"
  have ok: "run_ok (store_step demo_env offset_clock) (fits demo_env offset_clock) empty_store ?cs"
    and get: "get_instance (run (store_step demo_env offset_clock) empty_store ?cs) ''o'' ''w'' = Some early_instance"
    and len: "length (sq_workflows (run (sql_step demo_env offset_clock) empty_tables ?cs)) = 1"
    by (simp_all add: create_def early_instance_def demo_instance_def empty_store_def present_def get_instance_def
      sql_create_def transact_def given_or_now_def insert_workflow_def empty_tables_def)
  have i: "wi_run_status early_instance \<in> {PENDING, RETRY_SCHEDULED}" "wi_next_run early_instance = Some ''2026-01-01T08:00:00-05:00''"
    by (simp_all add: early_instance_def demo_instance_def)
  have c: "parse_iso offset_clock ''2026-01-01T08:00:00-05:00'' = Some 18000000000" "(3600000000::int) < 18000000000"
    "''2026-01-01T08:00:00-05:00'' \<le> iso_of offset_clock (whole_seconds 3600000000)"
    by (simp_all add: offset_clock_def)
  have l: "int (length (sq_workflows (run (sql_step demo_env offset_clock) empty_tables ?cs))) \<le> 1" unfolding len by simp
  from sql_claims_early [OF ok refl refl get i c l, THEN conjunct2] show ?thesis by (rule exI)
qed

end
