(* ===== verification/Donor_Views.thy ===== *)
theory Donor_Views
  imports Notifications Payload
begin

text \<open>
  What a donor may read: \<^verbatim>\<open>DonorReadService\<close> of \<^verbatim>\<open>domain/donor_views.py\<close>, projections of the ledger and of the impact
  receipts for one donor. Documents are JSON values; a balance and an event of the timeline are records with
  their documents.
\<close>

section \<open>Records\<close>

record allocation_balance_view =
  bv_allocation :: string
  bv_name :: string
  bv_restriction :: string
  bv_designated :: cents
  bv_used :: cents
  bv_remaining :: cents
  bv_pending :: cents

definition balance_to_dict :: "allocation_balance_view \<Rightarrow> json" where
  "balance_to_dict b = JObj
     [(''allocation_id'', JStr (bv_allocation b)), (''allocation_name'', JStr (bv_name b)),
      (''restriction_type'', JStr (bv_restriction b)), (''designated_total'', JStr (money_str (bv_designated b))),
      (''used'', JStr (money_str (bv_used b))), (''remaining'', JStr (money_str (bv_remaining b))),
      (''pending_unreconciled'', JStr (money_str (bv_pending b)))]"

record timeline_event =
  te_at :: string
  te_kind :: string
  te_summary :: string
  te_refs :: "(string \<times> json) list"

definition event_to_dict :: "timeline_event \<Rightarrow> json" where
  "event_to_dict e = JObj [(''at'', JStr (te_at e)), (''kind'', JStr (te_kind e)), (''summary'', JStr (te_summary e)),
     (''refs'', JObj (te_refs e))]"

section \<open>The donor's records\<close>

definition check_donor :: "ledger \<Rightarrow> string \<Rightarrow> unit outcome" where
  "check_donor L d =
     (case dget (donors L) d of
        None \<Rightarrow> Inl (NotFoundError (''donor not found: '' @ d))
      | Some x \<Rightarrow> if donor_org x \<noteq> org_id (organization L) then Inl (NotFoundError (''donor not found: '' @ d)) else Inr ())"

definition donor_donations :: "ledger \<Rightarrow> string \<Rightarrow> donation list" where
  "donor_donations L d = filter (\<lambda>don. don_donor don = d) (dvalues (donations L))"

definition shares_of :: "ledger \<Rightarrow> donation \<Rightarrow> donation_allocation list" where
  "shares_of L don = filter (\<lambda>da. da_donation da = don_id don) (dvalues (donation_allocations L))"

definition fund_of :: "ledger \<Rightarrow> string \<Rightarrow> allocation outcome" where
  "fund_of L a = (case dget (allocations L) a of None \<Rightarrow> Inl (KeyError a) | Some x \<Rightarrow> Inr x)"

section \<open>Balances\<close>

definition add_amount :: "donation_allocation \<Rightarrow> (string, cents) dict \<Rightarrow> (string, cents) dict" where
  "add_amount da m = dset (da_allocation da)
     ((case dget m (da_allocation da) of None \<Rightarrow> 0 | Some c \<Rightarrow> c) + da_amount da) m"

definition designated_by_fund :: "ledger \<Rightarrow> string \<Rightarrow> (string, cents) dict" where
  "designated_by_fund L d = fold (\<lambda>don. fold add_amount (shares_of L don)) (donor_donations L d) []"

text \<open>One attribution: what is used, and what waits for its expense to be approved.\<close>

definition add_usage :: "ledger \<Rightarrow> string \<Rightarrow> string \<Rightarrow> donor_expense_attribution \<Rightarrow> cents \<times> cents \<Rightarrow> cents \<times> cents" where
  "add_usage L d a t up =
     (if at_donor t \<noteq> d \<or> at_allocation t \<noteq> a then up
      else case dget (expenses L) (at_expense t) of
        None \<Rightarrow> up
      | Some e \<Rightarrow>
          if verified_state (exp_state e) then (fst up + at_amount t, snd up)
          else if corrected_state (exp_state e) \<or> exp_state e = REJECTED then up
          else (fst up, snd up + at_amount t))"

definition fund_usage :: "ledger \<Rightarrow> string \<Rightarrow> string \<Rightarrow> cents \<times> cents" where
  "fund_usage L d a = fold (add_usage L d a) (dvalues (attributions L)) (0, 0)"

definition balance_view :: "ledger \<Rightarrow> string \<Rightarrow> string \<times> cents \<Rightarrow> allocation_balance_view outcome" where
  "balance_view L d fund =
     bind_o (fund_of L (fst fund)) (\<lambda>alloc.
     let (used, pending) = fund_usage L d (fst fund) in
     bind_o (quantize_cents (snd fund - used)) (\<lambda>remaining.
     bind_o (quantize_cents (snd fund)) (\<lambda>total.
     bind_o (quantize_cents used) (\<lambda>u.
     bind_o (quantize_cents pending) (\<lambda>p.
     Inr \<lparr>bv_allocation = fst fund, bv_name = alloc_name alloc, bv_restriction = restriction_value (alloc_restriction alloc),
          bv_designated = total, bv_used = u, bv_remaining = remaining, bv_pending = p\<rparr>)))))"

fun map_outcome :: "('a \<Rightarrow> 'b outcome) \<Rightarrow> 'a list \<Rightarrow> 'b list outcome" where
  "map_outcome f [] = Inr []"
| "map_outcome f (x # xs) = bind_o (f x) (\<lambda>y. bind_o (map_outcome f xs) (\<lambda>ys. Inr (y # ys)))"

definition allocation_balances :: "ledger \<Rightarrow> string \<Rightarrow> allocation_balance_view list outcome" where
  "allocation_balances L d =
     bind_o (check_donor L d) (\<lambda>_. map_outcome (balance_view L d) (sort_key fst (designated_by_fund L d)))"

section \<open>The timeline\<close>

definition share_event :: "ledger \<Rightarrow> donation \<Rightarrow> donation_allocation \<Rightarrow> timeline_event outcome" where
  "share_event L don da =
     bind_o (fund_of L (da_allocation da)) (\<lambda>alloc.
     Inr \<lparr>te_at = don_received_at don, te_kind = ''ALLOCATION_ASSIGNED'',
          te_summary = ''Assigned '' @ money_str (da_amount da) @ '' to '' @ alloc_name alloc,
          te_refs = [(''donation_id'', JStr (don_id don)), (''allocation_id'', JStr (da_allocation da)),
            (''amount'', JStr (money_str (da_amount da)))]\<rparr>)"

definition donation_events :: "ledger \<Rightarrow> donation \<Rightarrow> timeline_event list outcome" where
  "donation_events L don =
     bind_o (map_outcome (share_event L don) (shares_of L don)) (\<lambda>es.
     Inr (\<lparr>te_at = don_received_at don, te_kind = ''DONATION_RECEIVED'',
           te_summary = ''Donation '' @ don_id don @ '' received ('' @ money_str (don_amount don) @ '' '' @ don_currency don @ '')'',
           te_refs = [(''donation_id'', JStr (don_id don)), (''amount'', JStr (money_str (don_amount don)))]\<rparr> # es))"

definition text_else :: "string \<Rightarrow> string \<Rightarrow> string" where
  "text_else a b = (if a = [] then b else a)"

definition receipt_event :: "use_of_funds_receipt \<Rightarrow> timeline_event" where
  "receipt_event r =
     (if r_corrected r
      then \<lparr>te_at = r_created_at r, te_kind = ''CORRECTION'',
            te_summary = ''Correction ('' @ (case r_correction_kind r of None \<Rightarrow> ''None'' | Some k \<Rightarrow> k) @ '') for prior receipt'',
            te_refs = [(''receipt_id'', JStr (r_id r)), (''corrects_receipt_id'', opt_str (r_corrects r)),
              (''kind'', opt_str (r_correction_kind r))]\<rparr>
      else \<lparr>te_at = text_else (r_created_at r) (r_purchase_date r), te_kind = ''USE_OF_FUNDS'',
            te_summary = ''Purchase: '' @ r_description r @ '' ('' @ money_str (r_attributed r) @ '' '' @ r_currency r @ '')'',
            te_refs = [(''receipt_id'', JStr (r_id r)), (''expense_id'', JStr (r_expense r)),
              (''allocation_id'', JStr (r_allocation r)), (''verification_state'', JStr (r_verification r))]\<rparr>)"

text \<open>The dash of the summary lies outside the characters of the model; an unused character stands for it.\<close>

definition summary_dash :: string where
  "summary_dash = [CHR 0x97]"

definition impact_timeline_event :: "impact_receipt \<Rightarrow> timeline_event" where
  "impact_timeline_event r =
     \<lparr>te_at = text_else (ir_created_at r) (ir_event_date r), te_kind = ''IMPACT'',
      te_summary = ''Impact: '' @ ir_program_name r @ '' '' @ summary_dash @ '' '' @ ir_event_type r @ '' ('' @
        str_of_int (ir_participants r) @ '' participants)'',
      te_refs = [(''receipt_id'', JStr (ir_id r)), (''impact_event_id'', JStr (ir_event r)),
        (''program_id'', JStr (ir_program r))]\<rparr>"

definition own_receipts :: "ledger \<Rightarrow> string \<Rightarrow> use_of_funds_receipt list" where
  "own_receipts L d = filter (\<lambda>r. r_donor r = d) (dvalues (receipts L))"

definition own_impacts :: "'x tenant_workspace \<Rightarrow> string \<Rightarrow> impact_receipt list" where
  "own_impacts W d = filter (\<lambda>r. ir_donor r = d) (dvalues (tw_impact_receipts W))"

definition fund_timeline :: "'x tenant_workspace \<Rightarrow> string \<Rightarrow> timeline_event list outcome" where
  "fund_timeline W d =
     (let L = tw_ledger W in
      bind_o (check_donor L d) (\<lambda>_.
      bind_o (map_outcome (donation_events L) (donor_donations L d)) (\<lambda>des.
      Inr (sort_key te_at (concat des @ map receipt_event (own_receipts L d) @
        map impact_timeline_event (own_impacts W d))))))"

section \<open>Receipts\<close>

definition created_at_of :: "json \<Rightarrow> string" where
  "created_at_of j =
     (case jget j ''provenance'' of
        None \<Rightarrow> []
      | Some p \<Rightarrow> (case jget p ''created_at'' of Some (JStr s) \<Rightarrow> s | _ \<Rightarrow> []))"

definition list_receipts :: "'x tenant_workspace \<Rightarrow> string \<Rightarrow> json list outcome" where
  "list_receipts W d =
     bind_o (check_donor (tw_ledger W) d) (\<lambda>_.
     Inr (sort_key created_at_of (map uof_to_dict (own_receipts (tw_ledger W) d) @ map impact_to_dict (own_impacts W d))))"

definition correction_entry :: "use_of_funds_receipt \<Rightarrow> string \<times> json" where
  "correction_entry r =
     (r_created_at r, JObj
       [(''receipt_id'', JStr (r_id r)), (''correction_kind'', opt_str (r_correction_kind r)),
        (''corrects_receipt_id'', opt_str (r_corrects r)), (''attributed_amount'', JStr (money_str (r_attributed r))),
        (''created_at'', JStr (r_created_at r)), (''verification_state'', JStr (r_verification r)),
        (''receipt_hash'', JStr (r_hash r))])"

definition original_entry :: "use_of_funds_receipt \<Rightarrow> string \<times> json" where
  "original_entry r =
     (r_created_at r, JObj
       [(''receipt_id'', JStr (r_id r)), (''correction_kind'', JNull), (''corrects_receipt_id'', JNull),
        (''attributed_amount'', JStr (money_str (r_attributed r))), (''created_at'', JStr (r_created_at r)),
        (''verification_state'', JStr (r_verification r)), (''receipt_hash'', JStr (r_hash r)),
        (''role'', JStr ''original'')])"

text \<open>The receipt a correction corrects, when it is the donor's.\<close>

definition prior_entries :: "ledger \<Rightarrow> string \<Rightarrow> string \<Rightarrow> (string \<times> json) list" where
  "prior_entries L d rid =
     (case dget (receipts L) rid of
        None \<Rightarrow> []
      | Some given \<Rightarrow>
          if \<not> present (r_corrects given) then []
          else case dget (receipts L) (the (r_corrects given)) of
            None \<Rightarrow> []
          | Some prior \<Rightarrow> if r_donor prior = d then [original_entry prior] else [])"

definition correction_history :: "ledger \<Rightarrow> string \<Rightarrow> string \<Rightarrow> json list outcome" where
  "correction_history L d rid =
     bind_o (check_donor L d) (\<lambda>_.
     Inr (map snd (sort_key fst (prior_entries L d rid @
       map correction_entry (filter (\<lambda>r. r_corrects r = Some rid \<or> r_corrected r \<and> r_id r = rid) (own_receipts L d))))))"

definition attachment :: "evidence_record \<Rightarrow> json" where
  "attachment ev = JObj
     [(''id'', JStr (ev_id ev)), (''kind'', JStr (ev_kind ev)), (''summary'', JStr (ev_summary ev)),
      (''donor_visible'', JBool True), (''object_key'', JStr (''evidence/'' @ ev_id ev))]"

definition evidence_safe_attachments :: "ledger \<Rightarrow> string \<Rightarrow> string \<Rightarrow> json list outcome" where
  "evidence_safe_attachments L d rid =
     bind_o (check_donor L d) (\<lambda>_.
     case dget (receipts L) rid of
       None \<Rightarrow> Inr []
     | Some r \<Rightarrow>
         if r_donor r \<noteq> d then Inr []
         else
           let out = map attachment (filter (\<lambda>ev. ev_expense ev = r_expense r \<and> ev_donor_visible ev)
                 (dvalues (evidence L)))
           in Inr (if present (r_evidence_summary r) \<and> out = []
                   then [JObj [(''id'', JNull), (''kind'', JStr ''summary''),
                          (''summary'', opt_str (r_evidence_summary r)), (''donor_visible'', JBool True),
                          (''object_key'', JNull)]]
                   else out))"

section \<open>Attribution explained\<close>

definition ATTRIBUTION_EXPLANATIONS :: "(string, string) dict" where
  "ATTRIBUTION_EXPLANATIONS =
     [(''DIRECT_RESTRICTED'', ''Your gift was restricted to this fund and this purchase used that designation directly.''),
      (''PRO_RATA_POOL'', ''Your gift shared a pool with other donors. The amount shown is your proportional '' @
         ''share of the pool used for this purchase.''),
      (''FIFO_ALLOCATION'', ''Gifts to this fund are used first-in, first-out. This purchase drew from the '' @
         ''oldest remaining designated balance, including yours as applicable.''),
      (''COHORT_ALLOCATION'', ''Your gift was part of a cohort that jointly funded this activity. The amount '' @
         ''reflects the cohort allocation rules.''),
      (''ASSET_SPONSORSHIP'', ''Your gift is linked to a funded asset (equipment or facility). This receipt '' @
         ''shows use associated with that asset.''),
      (''EXPENSE_BACKED'', ''This amount is backed by a verified expense recorded in the organization ledger.''),
      (''MANUAL_APPROVED'', ''Finance staff approved a manual attribution under organization policy.''),
      (''NONE'', ''No individual donor attribution applies to this item.'')]"

definition attribution_explanation :: "string \<Rightarrow> string" where
  "attribution_explanation m =
     (case dget ATTRIBUTION_EXPLANATIONS m of
        None \<Rightarrow> ''Attributed using method '' @ m @ '' under organization policy.'' | Some s \<Rightarrow> s)"

section \<open>Details and the dashboard\<close>

definition get_receipt_detail :: "'x tenant_workspace \<Rightarrow> string \<Rightarrow> string \<Rightarrow> json outcome" where
  "get_receipt_detail W d rid =
     (let L = tw_ledger W; missing = NotFoundError (''receipt not found: '' @ rid) in
      bind_o (check_donor L d) (\<lambda>_.
      case dget (receipts L) rid of
        Some r \<Rightarrow>
          if r_donor r \<noteq> d then Inl missing
          else bind_o (correction_history L d rid) (\<lambda>hist.
               bind_o (evidence_safe_attachments L d rid) (\<lambda>att.
               bind_o (allocation_balances L d) (\<lambda>bals.
               Inr (JObj (obj_merge (json_dict (uof_to_dict r))
                 [(''attribution_explanation'', JStr (attribution_explanation (r_method r))),
                  (''remaining_designated_balance'', JStr (money_str (r_remaining r))),
                  (''correction_history'', JList hist), (''evidence_attachments'', JList att),
                  (''balances_for_allocation'',
                     JList (map balance_to_dict (filter (\<lambda>b. bv_allocation b = r_allocation r) bals)))])))))
      | None \<Rightarrow>
        (case dget (tw_impact_receipts W) rid of
           Some r \<Rightarrow>
             if ir_donor r \<noteq> d then Inl missing
             else Inr (JObj (obj_merge (json_dict (impact_to_dict r))
               [(''attribution_explanation'', JStr (attribution_explanation (ir_method r))),
                (''correction_history'', JList []), (''evidence_attachments'', JList [])]))
         | None \<Rightarrow> Inl missing)))"

definition donor_dashboard :: "'x tenant_workspace \<Rightarrow> string \<Rightarrow> json outcome" where
  "donor_dashboard W d =
     (let L = tw_ledger W in
      bind_o (check_donor L d) (\<lambda>_.
      bind_o (allocation_balances L d) (\<lambda>bals.
      bind_o (fund_timeline W d) (\<lambda>tl.
      bind_o (list_receipts W d) (\<lambda>rs.
      Inr (JObj
        [(''organization_id'', JStr (org_id (organization L))), (''donor_id'', JStr d),
         (''allocations'', JList (map balance_to_dict bals)), (''timeline'', JList (map event_to_dict tl)),
         (''receipts'', JList rs),
         (''attribution_methods_explained'', JObj (map (map_prod id JStr) ATTRIBUTION_EXPLANATIONS))]))))))"

end
