(* ===== verification/Access.thy ===== *)
theory Access
  imports Donor_Views Digest
begin

text \<open>
  Roles and permissions (\<^verbatim>\<open>auth/roles.py\<close>), the principal of a request (\<^verbatim>\<open>auth/principal.py\<close>), permission checks and
  separation of duties (\<^verbatim>\<open>auth/rbac.py\<close>), the mapping of host roles (\<^verbatim>\<open>auth/role_map.py\<close>), and the donor API built on
  them (\<^verbatim>\<open>donor/api.py\<close>). A frozen set is a list whose order is not used.
\<close>

section \<open>Roles and permissions\<close>

datatype role =
  DONOR_ROLE | FINANCE_REVIEWER | FINANCE_APPROVER | PROGRAM_VERIFIER | COMMUNICATIONS_APPROVER | AUDITOR | TENANT_ADMIN

datatype permission =
  WORKFLOW_LIST | WORKFLOW_SEED | WORKFLOW_APPROVE_EXPENSE | WORKFLOW_APPROVE_PUBLISH | WORKFLOW_APPROVE_SEND
  | WORKFLOW_APPROVE_CORRECTION | EXPENSE_READ | RECEIPT_READ | AUDIT_READ | TENANT_ADMINISTER | OBJECT_WRITE

fun role_value :: "role \<Rightarrow> string" where
  "role_value DONOR_ROLE = ''donor''"
| "role_value FINANCE_REVIEWER = ''finance_reviewer''"
| "role_value FINANCE_APPROVER = ''finance_approver''"
| "role_value PROGRAM_VERIFIER = ''program_verifier''"
| "role_value COMMUNICATIONS_APPROVER = ''communications_approver''"
| "role_value AUDITOR = ''auditor''"
| "role_value TENANT_ADMIN = ''tenant_admin''"

definition all_roles :: "role list" where
  "all_roles = [DONOR_ROLE, FINANCE_REVIEWER, FINANCE_APPROVER, PROGRAM_VERIFIER, COMMUNICATIONS_APPROVER, AUDITOR, TENANT_ADMIN]"

fun permission_value :: "permission \<Rightarrow> string" where
  "permission_value WORKFLOW_LIST = ''workflow.list''"
| "permission_value WORKFLOW_SEED = ''workflow.seed''"
| "permission_value WORKFLOW_APPROVE_EXPENSE = ''workflow.approve_expense''"
| "permission_value WORKFLOW_APPROVE_PUBLISH = ''workflow.approve_publish''"
| "permission_value WORKFLOW_APPROVE_SEND = ''workflow.approve_send''"
| "permission_value WORKFLOW_APPROVE_CORRECTION = ''workflow.approve_correction''"
| "permission_value EXPENSE_READ = ''expense.read''"
| "permission_value RECEIPT_READ = ''receipt.read''"
| "permission_value AUDIT_READ = ''audit.read''"
| "permission_value TENANT_ADMINISTER = ''tenant.admin''"
| "permission_value OBJECT_WRITE = ''object.write''"

definition all_permissions :: "permission list" where
  "all_permissions = [WORKFLOW_LIST, WORKFLOW_SEED, WORKFLOW_APPROVE_EXPENSE, WORKFLOW_APPROVE_PUBLISH, WORKFLOW_APPROVE_SEND,
     WORKFLOW_APPROVE_CORRECTION, EXPENSE_READ, RECEIPT_READ, AUDIT_READ, TENANT_ADMINISTER, OBJECT_WRITE]"

fun role_permissions :: "role \<Rightarrow> permission list" where
  "role_permissions DONOR_ROLE = [RECEIPT_READ]"
| "role_permissions FINANCE_REVIEWER = [WORKFLOW_LIST, EXPENSE_READ, RECEIPT_READ, AUDIT_READ]"
| "role_permissions FINANCE_APPROVER = [WORKFLOW_LIST, WORKFLOW_APPROVE_EXPENSE, WORKFLOW_APPROVE_CORRECTION, EXPENSE_READ,
     RECEIPT_READ, AUDIT_READ]"
| "role_permissions PROGRAM_VERIFIER = [WORKFLOW_LIST, EXPENSE_READ, AUDIT_READ]"
| "role_permissions COMMUNICATIONS_APPROVER = [WORKFLOW_LIST, WORKFLOW_APPROVE_PUBLISH, WORKFLOW_APPROVE_SEND, RECEIPT_READ]"
| "role_permissions AUDITOR = [WORKFLOW_LIST, EXPENSE_READ, RECEIPT_READ, AUDIT_READ]"
| "role_permissions TENANT_ADMIN = all_permissions"

definition permissions_for_roles :: "role list \<Rightarrow> permission list" where
  "permissions_for_roles rs = concat (map role_permissions rs)"

section \<open>Principals\<close>

record principal =
  pr_subject :: string
  pr_tenant :: string
  pr_email :: string
  pr_roles :: "role list"
  pr_display_name :: string
  pr_issuer :: "string option"
  pr_claims :: "(string \<times> json) list"

definition approver_id :: "principal \<Rightarrow> string" where
  "approver_id p = text_else (pr_email p) (pr_subject p)"

text \<open>\<^verbatim>\<open>principal.raw_claims.get(k)\<close>.\<close>

definition raw_claim :: "principal \<Rightarrow> string \<Rightarrow> json" where
  "raw_claim p k = (case dget (pr_claims p) k of None \<Rightarrow> JNull | Some j \<Rightarrow> j)"

definition has_role :: "principal \<Rightarrow> role \<Rightarrow> bool" where
  "has_role p r \<longleftrightarrow> r \<in> set (pr_roles p)"

fun read_roles :: "string list \<Rightarrow> role list outcome" where
  "read_roles [] = Inr []"
| "read_roles (s # ss) = bind_o (of_value role_value all_roles s) (\<lambda>r. bind_o (read_roles ss) (\<lambda>rs. Inr (r # rs)))"

definition principal_from_fixture ::
  "string \<Rightarrow> string \<Rightarrow> string list \<Rightarrow> string option \<Rightarrow> string \<Rightarrow> string option \<Rightarrow> principal outcome" where
  "principal_from_fixture tenant email roles subject display_name donor =
     (if starts_with ''agent:'' email then Inl (ValueError ''fixture principal cannot be agent:*'')
      else bind_o (read_roles roles) (\<lambda>rs.
        Inr \<lparr>pr_subject = (if present subject then the subject else ''fixture:'' @ email), pr_tenant = tenant, pr_email = email,
             pr_roles = rs, pr_display_name = text_else display_name email, pr_issuer = Some ''fixture://local'',
             pr_claims = (case donor of None \<Rightarrow> [] | Some d \<Rightarrow> [(''donor_id'', JStr d)])\<rparr>))"

definition campaign_role_map :: "(string, role list) dict" where
  "campaign_role_map =
     [(''director'', [TENANT_ADMIN, FINANCE_APPROVER]), (''campaign_lead'', [FINANCE_APPROVER, FINANCE_REVIEWER]),
      (''development'', [FINANCE_APPROVER, FINANCE_REVIEWER]), (''data_steward'', [FINANCE_REVIEWER]),
      (''auditor'', [AUDITOR]), (''board_viewer'', [AUDITOR])]"

definition roles_for_campaign_role :: "string \<Rightarrow> role list" where
  "roles_for_campaign_role s =
     (case dget campaign_role_map (map lower_char (strip s)) of None \<Rightarrow> [] | Some rs \<Rightarrow> rs)"

definition principal_from_host_headers ::
  "string \<Rightarrow> string option \<Rightarrow> string option \<Rightarrow> string \<Rightarrow> string \<Rightarrow> string list \<Rightarrow> principal outcome" where
  "principal_from_host_headers email campaign subject tenant display_name impact_roles =
     (if starts_with ''agent:'' email then Inl (ValueError ''agents cannot be host principals'')
      else bind_o (if impact_roles \<noteq> [] then read_roles impact_roles
                   else if present campaign then Inr (roles_for_campaign_role (the campaign)) else Inr []) (\<lambda>rs.
        if rs = [] then Inl (ValueError (''no Impact Relay roles for email='' @ repr_str email @ '' campaign_role='' @
          (case campaign of None \<Rightarrow> ''None'' | Some c \<Rightarrow> repr_str c)))
        else Inr \<lparr>pr_subject = (if present subject then the subject else ''host:'' @ email), pr_tenant = tenant, pr_email = email,
             pr_roles = rs, pr_display_name = text_else display_name email, pr_issuer = Some ''host://hacker-dojo'',
             pr_claims = [(''campaign_role'', opt_str campaign), (''impact_roles'', JList (map (JStr \<circ> role_value) rs))]\<rparr>))"

section \<open>Permission checks\<close>

definition has_permission :: "principal \<Rightarrow> permission \<Rightarrow> bool" where
  "has_permission p perm \<longleftrightarrow> perm \<in> set (permissions_for_roles (pr_roles p))"

definition is_agent_identity :: "principal \<Rightarrow> bool" where
  "is_agent_identity p \<longleftrightarrow> starts_with ''agent:'' (pr_email p) \<or> starts_with ''agent:'' (pr_subject p)"

text \<open>The tenant is checked when one is given.\<close>

definition assert_permission :: "principal \<Rightarrow> permission \<Rightarrow> string option \<Rightarrow> unit outcome" where
  "assert_permission p perm tenant =
     (if tenant \<noteq> None \<and> Some (pr_tenant p) \<noteq> tenant
      then Inl (AuthorizationError (''principal tenant '' @ repr_str (pr_tenant p) @ '' does not match '' @ repr_str (the tenant)))
      else if is_agent_identity p then Inl (AuthorizationError ''agents cannot act as human principals'')
      else if \<not> has_permission p perm
      then Inl (AuthorizationError (''principal '' @ repr_str (pr_email p) @ '' lacks permission '' @ permission_value perm @
        '' (roles='' @ py_repr (JList (map (JStr \<circ> role_value) (pr_roles p))) @ '')''))
      else Inr ())"

section \<open>Separation of duties\<close>

definition DUAL_CONTROL_ACTIONS :: "string list" where
  "DUAL_CONTROL_ACTIONS = [''approve_publish'', ''approve_send'']"

definition identities :: "principal \<Rightarrow> string list" where
  "identities p = [pr_email p, pr_subject p, approver_id p]"

definition violates_dual_control :: "principal \<Rightarrow> string \<Rightarrow> string option \<Rightarrow> bool" where
  "violates_dual_control p action prior \<longleftrightarrow>
     present prior \<and> action \<in> set DUAL_CONTROL_ACTIONS \<and> the prior \<in> set (identities p)"

definition assert_separation_of_duties ::
  "principal \<Rightarrow> string \<Rightarrow> string option \<Rightarrow> string option \<Rightarrow> bool \<Rightarrow> bool \<Rightarrow> unit outcome" where
  "assert_separation_of_duties p action proposer prior hard dual =
     (if is_agent_identity p then Inl (AuthorizationError ''agents cannot satisfy SoD as approvers'')
      else if \<not> hard then Inr ()
      else if present proposer \<and> the proposer \<in> set (identities p)
      then Inl (AuthorizationError (''separation of duties: '' @ repr_str (pr_email p) @ '' cannot approve own proposal '' @
        ''(proposer_id='' @ repr_str (the proposer) @ '', action='' @ action @ '')''))
      else if violates_dual_control p action prior \<and> dual
      then Inl (AuthorizationError (''dual control: '' @ repr_str (pr_email p) @ '' already approved an earlier step '' @
        ''(prior_approver_id='' @ repr_str (the prior) @ '') and cannot also sign '' @ action @ ''; a second approver is required''))
      else Inr ())"

section \<open>The donor API\<close>

definition staff_roles :: "role list" where
  "staff_roles = [FINANCE_APPROVER, FINANCE_REVIEWER, AUDITOR, TENANT_ADMIN, COMMUNICATIONS_APPROVER, PROGRAM_VERIFIER]"

text \<open>No principal is a trusted caller in the process.\<close>

definition assert_donor_access :: "'x notification_service \<Rightarrow> string \<Rightarrow> principal option \<Rightarrow> unit outcome" where
  "assert_donor_access N d who =
     (case who of
        None \<Rightarrow> Inr ()
      | Some p \<Rightarrow>
          bind_o (assert_permission p RECEIPT_READ (Some (org_id (tw_org (ns_ws N))))) (\<lambda>_.
          if list_ex (has_role p) staff_roles then Inr ()
          else case raw_claim p ''donor_id'' of
            JNull \<Rightarrow> Inl (AuthorizationError (''donor principal '' @ repr_str (pr_email p) @ '' has no donor_id claim; '' @
              ''the host must bind claims.donor_id at login''))
          | claim \<Rightarrow> if claim \<noteq> JStr d
              then Inl (AuthorizationError (''donor principal cannot access donor_id='' @ repr_str d)) else Inr ()))"

datatype donor_read =
    ReadReceipt string | ReadReceipts | ReadTimeline | ReadBalances | ReadCorrections string | ReadEvidence string
  | ReadDashboard | ReadPreferences

text \<open>The reads of the API, each behind the same check.\<close>

fun donor_answer :: "'x notification_service \<Rightarrow> string \<Rightarrow> donor_read \<Rightarrow> json outcome" where
  "donor_answer N d (ReadReceipt rid) = get_receipt_detail (ns_ws N) d rid"
| "donor_answer N d ReadReceipts = bind_o (list_receipts (ns_ws N) d) (\<lambda>js. Inr (JList js))"
| "donor_answer N d ReadTimeline = bind_o (fund_timeline (ns_ws N) d) (\<lambda>es. Inr (JList (map event_to_dict es)))"
| "donor_answer N d ReadBalances =
     bind_o (allocation_balances (tw_ledger (ns_ws N)) d) (\<lambda>bs. Inr (JList (map balance_to_dict bs)))"
| "donor_answer N d (ReadCorrections rid) = bind_o (correction_history (tw_ledger (ns_ws N)) d rid) (\<lambda>js. Inr (JList js))"
| "donor_answer N d (ReadEvidence rid) =
     bind_o (evidence_safe_attachments (tw_ledger (ns_ws N)) d rid) (\<lambda>js. Inr (JList js))"
| "donor_answer N d ReadDashboard = donor_dashboard (ns_ws N) d"
| "donor_answer N d ReadPreferences = bind_o (get_preferences N d) (\<lambda>js. Inr (JList js))"

definition donor_api_read :: "'x notification_service \<Rightarrow> string \<Rightarrow> principal option \<Rightarrow> donor_read \<Rightarrow> json outcome" where
  "donor_api_read N d who q = bind_o (assert_donor_access N d who) (\<lambda>_. donor_answer N d q)"

definition all_channels :: "notification_channel list" where
  "all_channels = [PUSH, EMAIL, SMS]"

definition set_notification_preference ::
  "string \<Rightarrow> string \<Rightarrow> bool \<Rightarrow> string list \<Rightarrow> string \<Rightarrow> string option \<Rightarrow> string option \<Rightarrow> principal option \<Rightarrow>
     'x notification_service \<Rightarrow> json outcome \<times> 'x notification_service" where
  "set_notification_preference d channel enabled topics cadence quiet_start quiet_end who N =
     (case assert_donor_access N d who of
        Inl e \<Rightarrow> (Inl e, N)
      | Inr _ \<Rightarrow>
      case of_value channel_value all_channels channel of
        Inl e \<Rightarrow> (Inl e, N)
      | Inr ch \<Rightarrow>
          and_then (set_preference \<lparr>pref_donor = d, pref_org = org_id (tw_org (ns_ws N)), pref_channel = ch, pref_enabled = enabled,
              pref_topics = topics, pref_cadence = cadence, pref_quiet_start = quiet_start, pref_quiet_end = quiet_end\<rparr> N)
            (\<lambda>p N1. (Inr (JObj
              [(''donor_id'', JStr (pref_donor p)), (''channel'', JStr (channel_value (pref_channel p))),
               (''enabled'', JBool (pref_enabled p)), (''topics'', JList (map JStr (pref_topics p))),
               (''cadence'', JStr (pref_cadence p)), (''quiet_hours_start'', opt_str (pref_quiet_start p)),
               (''quiet_hours_end'', opt_str (pref_quiet_end p))]), N1)))"

end
