(* ===== verification/Identity.thy ===== *)
theory Identity
  imports Access Workflow_Store
begin

text \<open>
  From a token or the headers of a request to a principal: the claims of an identity provider (\<^verbatim>\<open>auth/oidc.py\<close>), token
  validation against published keys (\<^verbatim>\<open>auth/jwt_oidc.py\<close>), memberships (\<^verbatim>\<open>auth/supabase.py\<close>), and the resolution of a
  request (\<^verbatim>\<open>resolve_principal_from_request\<close> of \<^verbatim>\<open>console_server.py\<close>). The JWT library is a parameter: it verifies a
  token and gives its payload, or raises, and then the text \<open>Type: message\<close> stands for what it raised. The token errors
  of the code are value errors. Claims that are texts in every token are texts here; another value is a type error.
\<close>

section \<open>Claims\<close>

record oidc_claims =
  cl_sub :: string
  cl_email :: "string option"
  cl_name :: "string option"
  cl_iss :: "string option"
  cl_aud :: json
  cl_roles :: "string list"
  cl_tenant :: "string option"
  cl_raw :: "(string \<times> json) list"

definition claims_to_dict :: "oidc_claims \<Rightarrow> (string \<times> json) list" where
  "claims_to_dict c =
     [(''sub'', JStr (cl_sub c)), (''email'', opt_str (cl_email c)), (''name'', opt_str (cl_name c)),
      (''iss'', opt_str (cl_iss c)), (''aud'', cl_aud c), (''roles'', JList (map JStr (cl_roles c))),
      (''tenant_id'', opt_str (cl_tenant c))]"

definition directory_roles :: "(string, string list) dict \<Rightarrow> string \<Rightarrow> string list" where
  "directory_roles m k = (case dget m k of None \<Rightarrow> [] | Some rs \<Rightarrow> rs)"

definition first_list :: "'a list \<Rightarrow> 'a list \<Rightarrow> 'a list" where
  "first_list a b = (if a = [] then b else a)"

text \<open>The roles of the token, else of the directory by email and then by subject, else the defaults.\<close>

definition role_names :: "oidc_claims \<Rightarrow> string \<Rightarrow> (string, string list) dict \<Rightarrow> string list \<Rightarrow> string list" where
  "role_names c email role_map defaults =
     first_list (cl_roles c) (first_list (first_list (directory_roles role_map email) (directory_roles role_map (cl_sub c))) defaults)"

definition principal_from_claims ::
  "oidc_claims \<Rightarrow> string \<Rightarrow> (string, string list) dict \<Rightarrow> string list \<Rightarrow> principal outcome" where
  "principal_from_claims c tenant role_map defaults =
     (let email = strip (if present (cl_email c) then the (cl_email c) else cl_sub c) in
      if email = [] \<or> starts_with ''agent:'' email then Inl (ValueError ''OIDC claims missing usable human email/sub'')
      else
        let names = role_names c email role_map defaults in
        if names = [] then Inl (ValueError (''no roles for subject '' @ repr_str (cl_sub c) @ '' email '' @ repr_str email))
        else bind_o (read_roles names) (\<lambda>rs.
          Inr \<lparr>pr_subject = cl_sub c, pr_tenant = (if present (cl_tenant c) then the (cl_tenant c) else tenant),
               pr_email = email, pr_roles = rs,
               pr_display_name = (if present (cl_name c) then the (cl_name c) else email), pr_issuer = cl_iss c,
               pr_claims = first_list (cl_raw c) (claims_to_dict c)\<rparr>))"

section \<open>The fixture provider\<close>

record fixture_mapper =
  fx_tenant :: string
  fx_roles :: "(string, string list) dict"
  fx_issuer :: string

definition fixture_claims :: "fixture_mapper \<Rightarrow> string \<Rightarrow> oidc_claims outcome" where
  "fixture_claims F token =
     (let t = strip token; raw = (if starts_with ''Bearer '' t then strip (drop 7 t) else t);
          email = (if starts_with ''email:'' raw then drop 6 raw else raw)
      in if email = [] \<or> CHR ''@'' \<notin> set email
         then Inl (ValueError ''fixture token must be email:user@domain or user@domain'')
         else Inr \<lparr>cl_sub = ''fixture|'' @ email, cl_email = Some email, cl_name = Some email, cl_iss = Some (fx_issuer F),
                   cl_aud = JNull, cl_roles = directory_roles (fx_roles F) email, cl_tenant = Some (fx_tenant F),
                   cl_raw = [(''token'', JStr token)]\<rparr>)"

definition fixture_principal :: "fixture_mapper \<Rightarrow> string \<Rightarrow> principal outcome" where
  "fixture_principal F token =
     bind_o (fixture_claims F token) (\<lambda>c. principal_from_claims c (fx_tenant F) (fx_roles F) [])"

definition CANONICAL_PILOT_TENANT_ID :: string where
  "CANONICAL_PILOT_TENANT_ID = ''org_hacker_dojo''"

definition HACKER_DOJO_FIXTURE_ROLE_MAP :: "(string, string list) dict" where
  "HACKER_DOJO_FIXTURE_ROLE_MAP =
     [(''finance.approver@hackersdojo.example'', [''finance_approver'']),
      (''finance.reviewer@hackersdojo.example'', [''finance_reviewer'']),
      (''finance@hackersdojo.org'', [''finance_approver'']),
      (''comms.approver@hackersdojo.example'', [''communications_approver'']),
      (''auditor@hackersdojo.example'', [''auditor'']),
      (''admin@hackersdojo.example'', [''tenant_admin''])]"

definition hacker_dojo_fixture_oidc :: fixture_mapper where
  "hacker_dojo_fixture_oidc =
     \<lparr>fx_tenant = CANONICAL_PILOT_TENANT_ID, fx_roles = HACKER_DOJO_FIXTURE_ROLE_MAP, fx_issuer = ''fixture://oidc''\<rparr>"

section \<open>Signed tokens\<close>

record jwks_provider =
  jp_issuer :: string
  jp_audience :: "string list"
  jp_tenant :: string
  jp_role_map :: "(string, string list) dict"
  jp_defaults :: "string list"
  jp_algorithms :: "string list"
  jp_leeway :: int
  jp_roles_claim :: string

definition FORBIDDEN_ALGORITHMS :: "string list" where
  "FORBIDDEN_ALGORITHMS = [''none'', ''HS256'', ''HS384'', ''HS512'']"

definition DEFAULT_ALGORITHMS :: "string list" where
  "DEFAULT_ALGORITHMS = [''RS256'', ''RS384'', ''RS512'', ''ES256'', ''ES384'', ''ES512'', ''PS256'']"

text \<open>The constructor; \<open>has_keys\<close> when a key address or a resolver is given.\<close>

definition make_jwks_provider :: "jwks_provider \<Rightarrow> bool \<Rightarrow> jwks_provider outcome" where
  "make_jwks_provider P has_keys =
     (let bad = filter (\<lambda>a. a \<in> set (jp_algorithms P)) FORBIDDEN_ALGORITHMS in
      if \<not> has_keys then Inl (ValueError ''provide jwks_url or key_resolver'')
      else if bad \<noteq> [] then Inl (ValueError (''refusing symmetric/unsigned algorithms: '' @ py_repr (JList (map JStr (sort bad)))))
      else if jp_issuer P = [] then Inl (ValueError ''issuer is required'')
      else if jp_audience P = [] then Inl (ValueError ''audience is required'')
      else Inr P)"

text \<open>\<^verbatim>\<open>s.split(c)\<close>.\<close>

fun split_on :: "char \<Rightarrow> string \<Rightarrow> string \<Rightarrow> string list" where
  "split_on x acc [] = [rev acc]"
| "split_on x acc (c # cs) = (if c = x then rev acc # split_on x [] cs else split_on x (c # acc) cs)"

definition comma_list :: "string \<Rightarrow> string list" where
  "comma_list s = filter (\<lambda>r. r \<noteq> []) (map strip (split_on (CHR '','') [] s))"

fun claimed_roles :: "json \<Rightarrow> string list outcome" where
  "claimed_roles (JStr s) = Inr (comma_list s)"
| "claimed_roles (JList js) = Inr (map json_str js)"
| "claimed_roles (JObj kvs) = Inr (map fst kvs)"
| "claimed_roles j = (if truthy j then Inl (TypeError ''object is not iterable'') else Inr [])"

definition text_claim :: "(string \<times> json) list \<Rightarrow> string \<Rightarrow> string option outcome" where
  "text_claim payload k = (case obj_get payload k of JNull \<Rightarrow> Inr None | j \<Rightarrow> bind_o (as_str j) (\<lambda>s. Inr (Some s)))"

definition validate_access_token ::
  "(jwks_provider \<Rightarrow> string \<Rightarrow> string + (string \<times> json) list) \<Rightarrow> jwks_provider \<Rightarrow> string \<Rightarrow> oidc_claims outcome" where
  "validate_access_token decode P token =
     (let t = strip token; raw = (if starts_with ''bearer '' (map lower_char t) then strip (drop 7 t) else t) in
      if raw = [] then Inl (ValueError ''empty bearer token'')
      else case decode P raw of
        Inl m \<Rightarrow> Inl (ValueError (''token rejected: '' @ m))
      | Inr payload \<Rightarrow>
          let sub = json_str (jor (obj_get payload ''sub'') (JStr [])) in
          if sub = [] then Inl (ValueError ''token has no sub claim'')
          else bind_o (claimed_roles (jor (obj_get payload (jp_roles_claim P)) (JList []))) (\<lambda>roles.
            bind_o (text_claim payload ''email'') (\<lambda>email. bind_o (text_claim payload ''name'') (\<lambda>name.
            bind_o (text_claim payload ''iss'') (\<lambda>iss. bind_o (text_claim payload ''tenant_id'') (\<lambda>tenant.
              Inr \<lparr>cl_sub = sub, cl_email = email, cl_name = name, cl_iss = iss, cl_aud = obj_get payload ''aud'',
                   cl_roles = roles, cl_tenant = Some (if present tenant then the tenant else jp_tenant P),
                   cl_raw = payload\<rparr>))))))"

text \<open>One active membership of the tenant, whose campaign role gives the roles.\<close>

definition membership_of :: "string \<Rightarrow> json \<Rightarrow> bool" where
  "membership_of tenant j = (case j of JObj kvs \<Rightarrow> obj_get kvs ''client_id'' = JStr tenant | _ \<Rightarrow> False)"

definition principal_from_supabase_claims :: "oidc_claims \<Rightarrow> string \<Rightarrow> principal outcome" where
  "principal_from_supabase_claims c tenant =
     (case jor (obj_get (cl_raw c) ''client_memberships'') (JList []) of
        JList ms \<Rightarrow>
          (case filter (membership_of tenant) ms of
             [JObj kvs] \<Rightarrow>
               let campaign = json_str (jor (obj_get kvs ''role'') (JStr [])); rs = roles_for_campaign_role campaign;
                   email = strip (case cl_email c of None \<Rightarrow> [] | Some e \<Rightarrow> e)
               in if rs = [] then Inl (ValueError (''membership role '' @ repr_str campaign @ '' has no Impact Relay roles''))
                  else if email = [] then Inl (ValueError ''Supabase token is missing email'')
                  else Inr \<lparr>pr_subject = cl_sub c, pr_tenant = tenant, pr_email = email, pr_roles = rs,
                            pr_display_name = (if present (cl_name c) then the (cl_name c) else email),
                            pr_issuer = cl_iss c, pr_claims = cl_raw c\<rparr>
           | _ \<Rightarrow> Inl (ValueError (''token has no unique active membership for '' @ tenant)))
      | _ \<Rightarrow> Inl (ValueError ''client_memberships claim must be a list''))"

text \<open>\<^verbatim>\<open>rstrip("/")\<close> and the issuer of a Supabase project.\<close>

definition rstrip_slash :: "string \<Rightarrow> string" where
  "rstrip_slash s = rev (dropWhile (\<lambda>c. c = CHR ''/'') (rev s))"

definition supabase_provider :: "string \<Rightarrow> string \<Rightarrow> string \<Rightarrow> jwks_provider" where
  "supabase_provider url tenant audience =
     \<lparr>jp_issuer = rstrip_slash url @ ''/auth/v1'', jp_audience = [audience], jp_tenant = tenant, jp_role_map = [],
      jp_defaults = [], jp_algorithms = DEFAULT_ALGORITHMS, jp_leeway = 60, jp_roles_claim = ''roles''\<rparr>"

datatype identity_provider = Jwks jwks_provider | Supabase jwks_provider

fun principal_for_token ::
  "(jwks_provider \<Rightarrow> string \<Rightarrow> string + (string \<times> json) list) \<Rightarrow> identity_provider \<Rightarrow> string \<Rightarrow> principal outcome" where
  "principal_for_token decode (Jwks P) token =
     bind_o (validate_access_token decode P token) (\<lambda>c. principal_from_claims c (jp_tenant P) (jp_role_map P) (jp_defaults P))"
| "principal_for_token decode (Supabase P) token =
     bind_o (validate_access_token decode P token) (\<lambda>c. principal_from_supabase_claims c (jp_tenant P))"

section \<open>The identity of a request\<close>

definition header_text :: "(string, string) dict \<Rightarrow> string \<Rightarrow> string" where
  "header_text h k = strip (case dget h k of None \<Rightarrow> [] | Some v \<Rightarrow> v)"

text \<open>\<^verbatim>\<open>replace("Bearer ", "")\<close>.\<close>

fun drop_bearer :: "string \<Rightarrow> string" where
  "drop_bearer [] = []"
| "drop_bearer (c # cs) = (if starts_with ''Bearer '' (c # cs) then drop_bearer (drop 6 cs) else c # drop_bearer cs)"

definition some_text :: "string \<Rightarrow> string option" where
  "some_text s = (if s = [] then None else Some s)"

text \<open>A value error of the provider means nobody.\<close>

definition nobody_on_value_error :: "principal outcome \<Rightarrow> principal option outcome" where
  "nobody_on_value_error v =
     (case v of Inr p \<Rightarrow> Inr (Some p) | Inl (ValueError m) \<Rightarrow> Inr None | Inl e \<Rightarrow> Inl e)"

definition resolve_principal_from_request ::
  "(jwks_provider \<Rightarrow> string \<Rightarrow> string + (string \<times> json) list) \<Rightarrow> (string, string) dict \<Rightarrow> string \<Rightarrow> bool \<Rightarrow>
     identity_provider option \<Rightarrow> bool \<Rightarrow> principal option outcome" where
  "resolve_principal_from_request decode h tenant trusted_proxy provider allow_fixture =
     (let email = header_text h ''X-Impact-Email''; campaign = header_text h ''X-HD-Campaign-Role'';
          roles = header_text h ''X-Impact-Roles''; subject = header_text h ''X-Impact-Subject'';
          display = header_text h ''X-Impact-Display-Name'';
          auth = strip (drop_bearer (case dget h ''Authorization'' of None \<Rightarrow> [] | Some v \<Rightarrow> v))
      in if trusted_proxy \<and> email \<noteq> [] \<and> (campaign \<noteq> [] \<or> roles \<noteq> []) then
           (case principal_from_host_headers email (some_text campaign)
                   (Some (if subject \<noteq> [] then subject else ''supabase:'' @ email)) tenant display (comma_list roles) of
              Inr p \<Rightarrow> Inr (Some p)
            | Inl (ValueError m) \<Rightarrow> Inl (AuthorizationError m)
            | Inl e \<Rightarrow> Inl e)
         else if auth = [] then Inr None
         else case provider of
           Some P \<Rightarrow> nobody_on_value_error (principal_for_token decode P auth)
         | None \<Rightarrow> if allow_fixture then nobody_on_value_error (fixture_principal hacker_dojo_fixture_oidc auth) else Inr None)"

end
