(* ===== verification/Host_Session.thy ===== *)
theory Host_Session
  imports Worker Identity
begin

text \<open>
  The session of a host application (\<^verbatim>\<open>host/session.py\<close>) and the screens on it (\<^verbatim>\<open>host/console.py\<close>), with the durable
  operations they call (\<^verbatim>\<open>durable_seed\<close>, \<^verbatim>\<open>durable_list\<close>, \<^verbatim>\<open>durable_approve\<close> of \<^verbatim>\<open>workflows/durable.py\<close>) on the
  runtime. Files are left out: the command log beside the runtime is the subject of the theory Durable, the rows of a seed
  and the ledger of the fixture are arguments, and the answers lack the entries that are paths or counts of
  the entity snapshot.
\<close>

section \<open>Durable operations\<close>

text \<open>What the operations of a workspace depend on: the runtime's environment, the delivery adapters, the boot flag,
  the reader of event files and the source of random numbers.\<close>

record 'x host_env =
  he_rt :: runtime_env
  he_api :: "'x adapter_api"
  he_boot :: "'x \<Rightarrow> bool"
  he_load :: "json \<Rightarrow> (string \<times> json) list outcome"
  he_rnd :: "nat \<Rightarrow> rat"

record 'x durable_workspace =
  dw_runtime :: "'x runtime"
  dw_tenant :: string

definition case_to_dict :: "operator_case \<Rightarrow> (string \<times> json) list" where
  "case_to_dict c =
     [(''workflow_id'', JStr (oc_workflow c)), (''tenant_id'', JStr (oc_tenant c)), (''business_key'', JStr (oc_business_key c)),
      (''workflow_state'', JStr (oc_state c)), (''run_status'', JStr (oc_run_status c)), (''attempt_count'', JInt (oc_attempts c)),
      (''last_error'', opt_str (oc_last_error c)), (''wait_deadline'', opt_str (oc_deadline c)),
      (''command_idempotency_key'', oc_key c), (''bucket'', JStr (oc_bucket c))]"

definition refusal :: "string \<Rightarrow> (string \<times> json) list \<Rightarrow> (string \<times> json) list" where
  "refusal err rest = [(''ok'', JBool False), (''error'', JStr err)] @ rest"

definition durable_list :: "string list \<Rightarrow> 'x durable_workspace \<Rightarrow> (string \<times> json) list outcome" where
  "durable_list filters D =
     bind_o (list_operator_cases (rt_store (dw_runtime D)) (dw_tenant D) (Some filters) 200) (\<lambda>cs.
       Inr [(''ok'', JBool True), (''tenant_id'', JStr (dw_tenant D)), (''count'', JInt (int (length cs))),
            (''cases'', JList (map (\<lambda>c. JObj (case_to_dict c)) cs))])"

text \<open>The approval a host signs for a waiting case, whatever the case waits for.\<close>

definition operator_approval :: "'x host_env \<Rightarrow> nat \<Rightarrow> string \<Rightarrow> operator_case \<Rightarrow> string \<Rightarrow> approval_receipt" where
  "operator_approval H n tenant c approver =
     \<lparr>app_id = ''op_'' @ now_iso (re_env (he_rt H)) n, app_tenant = tenant, app_proposal = ''operator'',
      app_key = json_str (oc_key c), app_decision = ''APPROVE'', app_approver = approver, app_role = ''finance_approver'',
      app_at = now_iso (re_env (he_rt H)) (Suc n), app_rationale = ''durable CLI approve'', app_policy_version = ''v1.0''\<rparr>"

definition pick_case :: "string option \<Rightarrow> operator_case list \<Rightarrow> operator_case option" where
  "pick_case w cs = (if present w then find (\<lambda>c. oc_workflow c = the w) cs else Some (hd cs))"

definition expense_state_of :: "'x durable_workspace \<Rightarrow> json \<Rightarrow> json" where
  "expense_state_of D j =
     (case j of
        JStr e \<Rightarrow> (case dget (expenses (tw_ledger (bound_workspace (dw_tenant D) (dw_runtime D)))) e of
            None \<Rightarrow> JNull | Some x \<Rightarrow> JStr (expense_state_value (exp_state x)))
      | _ \<Rightarrow> JNull)"

definition approved_answer :: "string \<Rightarrow> workflow_instance option \<Rightarrow> 'x durable_workspace \<Rightarrow> (string \<times> json) list" where
  "approved_answer w i D =
     (let e = (case i of None \<Rightarrow> JNull | Some j \<Rightarrow> obj_get (wi_context j) ''expense_id'') in
      [(''ok'', JBool True), (''workflow_id'', JStr w),
       (''workflow_state'', opt_str (map_option (\<lambda>j. workflow_state_value (wi_state j)) i)),
       (''run_status'', opt_str (map_option (\<lambda>j. run_status_value (wi_run_status j)) i)),
       (''expense_id'', e), (''expense_state'', expense_state_of D e), (''same_ids_after_rehydrate'', JBool True)])"

text \<open>A change of the runtime of a workspace.\<close>

definition on_runtime ::
  "('x runtime \<Rightarrow> 'a outcome \<times> 'x runtime) \<Rightarrow> 'x durable_workspace \<Rightarrow> 'a outcome \<times> 'x durable_workspace" where
  "on_runtime f D = (let (v, T) = f (dw_runtime D) in (v, D\<lparr>dw_runtime := T\<rparr>))"

text \<open>The approval is signalled and the workflow pumped; the two readings of the clock are the approval's.\<close>

definition sign_and_pump ::
  "'x host_env \<Rightarrow> operator_case \<Rightarrow> approval_receipt \<Rightarrow> 'x durable_workspace \<Rightarrow>
     (string \<times> json) list outcome \<times> 'x durable_workspace" where
  "sign_and_pump H c a D =
     and_then (on_runtime (\<lambda>T. signal_approval_and_pump (he_rt H) (he_api H) (he_boot H) (he_load H) (he_rnd H) (dw_tenant D)
         (oc_workflow c) a 20 (T\<lparr>rt_store := later 2 (rt_store T)\<rparr>)) D)
       (\<lambda>i D1. (Inr (approved_answer (oc_workflow c) i D1), D1))"

definition durable_approve ::
  "'x host_env \<Rightarrow> string option \<Rightarrow> string \<Rightarrow> 'x durable_workspace \<Rightarrow> (string \<times> json) list outcome \<times> 'x durable_workspace" where
  "durable_approve H w approver D =
     (let S = rt_store (dw_runtime D); t = dw_tenant D in
      case list_operator_cases S t (Some [''waiting'']) 200 of
        Inl e \<Rightarrow> (Inl e, D)
      | Inr cs \<Rightarrow>
      if cs = []
      then (Inr (refusal ''nothing_waiting'' [(''hint'', JStr ''python -m impact_relay durable seed'')]), D)
      else case pick_case w cs of
        None \<Rightarrow> (Inr (refusal ''workflow_not_waiting'' [(''workflow_id'', opt_str w)]), D)
      | Some c \<Rightarrow>
      if \<not> truthy (oc_key c) then (Inr (refusal ''no_wait_key'' [(''workflow_id'', JStr (oc_workflow c))]), D)
      else if starts_with ''agent:'' approver then (Inr (refusal ''approver_must_be_human'' []), D)
      else
        let n = ws_clock S; a = operator_approval H n t c approver in
        case make_approval a of
          Inl e \<Rightarrow> (Inl e, D)
        | Inr _ \<Rightarrow> sign_and_pump H c a D)"

text \<open>A seed forgets the workspace: the files are deleted, a workflow is started for every row, and the worker runs
  until it is idle, for at most \<open>n\<close> ticks.\<close>

fun start_rows ::
  "'x host_env \<Rightarrow> string \<Rightarrow> (string \<times> json) list list \<Rightarrow> 'x runtime \<Rightarrow> string list outcome \<times> 'x runtime" where
  "start_rows H tenant [] T = (Inr [], T)"
| "start_rows H tenant (row # rows) T =
     and_then (on_store (start_expense_to_receipt (he_rt H) tenant row JNull False False None None None) T) (\<lambda>i T1.
     case i of
       None \<Rightarrow> (Inl (AttributeError ''workflow_id''), T1)
     | Some j \<Rightarrow> and_then (start_rows H tenant rows T1) (\<lambda>ids T2. (Inr (wi_id j # ids), T2)))"

fun drain :: "'x host_env \<Rightarrow> worker_config \<Rightarrow> nat \<Rightarrow> 'x runtime \<Rightarrow> unit outcome \<times> 'x runtime" where
  "drain H cfg 0 T = (Inr (), T)"
| "drain H cfg (Suc n) T =
     and_then (tick_now (he_rt H) (he_api H) (he_boot H) (he_load H) (he_rnd H) cfg T) (\<lambda>r T1.
       if tk_claimed r = 0 then (Inr (), T1) else drain H cfg n T1)"

definition fresh_runtime :: "string \<Rightarrow> ledger \<Rightarrow> 'x runtime" where
  "fresh_runtime tenant base = \<lparr>rt_store = empty_store, rt_workspaces = [(tenant, empty_workspace base)]\<rparr>"

definition durable_seed ::
  "'x host_env \<Rightarrow> (string \<times> json) list list \<Rightarrow> ledger \<Rightarrow> nat \<Rightarrow> (string \<times> json) list outcome \<times> 'x durable_workspace" where
  "durable_seed H rows base ticks =
     (let t = org_id (organization base) in
      and_then (on_runtime (start_rows H t rows) \<lparr>dw_runtime = fresh_runtime t base, dw_tenant = t\<rparr>) (\<lambda>started D1.
      and_then (on_runtime (drain H (worker_defaults ''durable-seed'') ticks) D1) (\<lambda>_ D2.
        case list_operator_cases (rt_store (dw_runtime D2)) t (Some [''waiting'', ''all'']) 200 of
          Inl e \<Rightarrow> (Inl e, D2)
        | Inr cs \<Rightarrow> (Inr [(''ok'', JBool True), (''tenant_id'', JStr t), (''started'', JList (map JStr started)),
              (''waiting'', JList (map (\<lambda>c. JObj (case_to_dict c)) (filter (\<lambda>c. oc_bucket c = ''waiting'') cs)))], D2))))"

section \<open>The session\<close>

record host_session =
  hs_tenant :: string
  hs_display :: string
  hs_principal :: "principal option"
  hs_require :: bool
  hs_last_proposer :: "string option"

definition open_host_session :: "string \<Rightarrow> string \<Rightarrow> bool \<Rightarrow> principal option \<Rightarrow> host_session" where
  "open_host_session tenant display require who =
     \<lparr>hs_tenant = tenant,
      hs_display = text_else display (if tenant = CANONICAL_PILOT_TENANT_ID then ''Hacker Dojo'' else tenant),
      hs_principal = who, hs_require = require, hs_last_proposer = None\<rparr>"

definition with_principal :: "principal \<Rightarrow> host_session \<Rightarrow> host_session outcome" where
  "with_principal p s =
     (if pr_tenant p \<noteq> hs_tenant s
      then Inl (AuthorizationError (''principal tenant '' @ repr_str (pr_tenant p) @ '' != session '' @ repr_str (hs_tenant s)))
      else Inr (s\<lparr>hs_principal := Some p\<rparr>))"

definition require_principal :: "host_session \<Rightarrow> principal outcome" where
  "require_principal s =
     (case hs_principal s of
        None \<Rightarrow> Inl (AuthorizationError (''no principal bound '' @ summary_dash @ '' host must call with_principal() after OIDC login''))
      | Some p \<Rightarrow> Inr p)"

text \<open>\<^verbatim>\<open>_gate\<close>: the refusal, if there is one; a session without a principal is not checked.\<close>

definition gate :: "host_session \<Rightarrow> permission \<Rightarrow> (string \<times> json) list option" where
  "gate s perm =
     (case hs_principal s of
        None \<Rightarrow> None
      | Some p \<Rightarrow> (case assert_permission p perm (Some (hs_tenant s)) of
          Inl e \<Rightarrow> Some (refusal ''forbidden'' [(''message'', JStr (exn_str e))])
        | Inr _ \<Rightarrow> None))"

definition may_seed :: "principal \<Rightarrow> bool" where
  "may_seed p \<longleftrightarrow> has_permission p WORKFLOW_SEED \<or> has_permission p TENANT_ADMINISTER \<or> has_permission p WORKFLOW_APPROVE_EXPENSE"

definition seed_refusal :: "host_session \<Rightarrow> (string \<times> json) list option" where
  "seed_refusal s =
     (case hs_principal s of
        Some p \<Rightarrow> if may_seed p then None
          else Some (refusal ''forbidden'' [(''message'', JStr (repr_str (pr_email p) @ '' cannot seed workflows''))])
      | None \<Rightarrow> None)"

definition list_waiting :: "host_session \<Rightarrow> string \<Rightarrow> 'x durable_workspace \<Rightarrow> (string \<times> json) list outcome" where
  "list_waiting s filters D =
     (case gate s WORKFLOW_LIST of Some body \<Rightarrow> Inr body | None \<Rightarrow> durable_list (comma_list filters) D)"

text \<open>What stops an approval before a case is looked at, and the identity that signs.\<close>

definition default_approver :: string where
  "default_approver = ''finance.approver@hackersdojo.example''"

definition approval_refusal :: "host_session \<Rightarrow> string option \<Rightarrow> (string \<times> json) list option" where
  "approval_refusal s proposer =
     (case hs_principal s of
        None \<Rightarrow> if hs_require s
          then Some (refusal ''principal_required'' [(''message'', JStr ''bind Principal via with_principal() before approve'')])
          else None
      | Some p \<Rightarrow>
          (case gate s WORKFLOW_APPROVE_EXPENSE of
             Some body \<Rightarrow> Some body
           | None \<Rightarrow>
               (case assert_separation_of_duties p ''approve_expense'' (or_else proposer (hs_last_proposer s)) None True True of
                  Inl e \<Rightarrow> Some (refusal ''separation_of_duties'' [(''message'', JStr (exn_str e))])
                | Inr _ \<Rightarrow> None)))"

definition session_actor :: "host_session \<Rightarrow> string option \<Rightarrow> string" where
  "session_actor s approver =
     (case hs_principal s of
        Some p \<Rightarrow> approver_id p
      | None \<Rightarrow> if present approver then the approver else default_approver)"

definition host_approve ::
  "'x host_env \<Rightarrow> host_session \<Rightarrow> string option \<Rightarrow> string option \<Rightarrow> string option \<Rightarrow> 'x durable_workspace \<Rightarrow>
     (string \<times> json) list outcome \<times> 'x durable_workspace" where
  "host_approve H s w approver proposer D =
     (case approval_refusal s proposer of
        Some body \<Rightarrow> (Inr body, D)
      | None \<Rightarrow>
          let actor = session_actor s approver in
          if starts_with ''agent:'' actor then (Inr (refusal ''approver_must_be_human'' []), D)
          else durable_approve H w actor D)"

text \<open>The donor API of a session stands on a new workspace around the snapshot of the tenant's ledger, if there is one,
  or the ledger the runtime is bound to.\<close>

definition session_donor_service ::
  "'x host_env \<Rightarrow> host_session \<Rightarrow> ledger option \<Rightarrow> 'x durable_workspace \<Rightarrow> 'x notification_service" where
  "session_donor_service H s snapshot D =
     notifications (he_api H) (empty_workspace
       (case snapshot of Some L \<Rightarrow> L | None \<Rightarrow> tw_ledger (bound_workspace (hs_tenant s) (dw_runtime D))))"

section \<open>Screens\<close>

definition gate_list :: "host_session \<Rightarrow> unit outcome" where
  "gate_list s =
     (case hs_principal s of None \<Rightarrow> Inr () | Some p \<Rightarrow> assert_permission p WORKFLOW_LIST (Some (hs_tenant s)))"

definition packet_summary :: "(string \<times> json) list \<Rightarrow> (string \<times> json) list outcome" where
  "packet_summary ctx =
     bind_o (or_empty (obj_get ctx ''packet'')) (\<lambda>packet.
       let pick = (\<lambda>k. jor (obj_get packet k) (obj_get ctx k)) in
       Inr [(''vendor'', pick ''vendor''), (''amount'', pick ''amount''), (''currency'', jor (pick ''currency'') (JStr ''USD'')),
            (''category'', pick ''category''), (''description'', pick ''description''),
            (''expense_id'', jor (obj_get ctx ''expense_id'') (obj_get packet ''expense_id'')),
            (''evidence_sufficiency'', jor (obj_get ctx ''evidence_sufficiency'') (obj_get packet ''evidence_sufficiency''))])"

definition enrich_case :: "host_session \<Rightarrow> 'x durable_workspace \<Rightarrow> string \<Rightarrow> (string \<times> json) list \<Rightarrow> (string \<times> json) list outcome" where
  "enrich_case s D w doc =
     (case get_instance (rt_store (dw_runtime D)) (hs_tenant s) w of
        None \<Rightarrow> Inr doc
      | Some i \<Rightarrow> bind_o (packet_summary (wi_context i)) (\<lambda>sm.
          Inr (dset ''workflow_type'' (JStr (workflow_type_value (wi_type i)))
              (dset ''wait_deadline'' (opt_str (wi_wait_deadline i)) (dset ''packet_summary'' (JObj sm) doc)))))"

definition finance_queue :: "host_session \<Rightarrow> string \<Rightarrow> 'x durable_workspace \<Rightarrow> (string \<times> json) list outcome" where
  "finance_queue s filters D =
     bind_o (gate_list s) (\<lambda>_.
     case gate s WORKFLOW_LIST of
       Some body \<Rightarrow> Inr body
     | None \<Rightarrow>
         bind_o (list_operator_cases (rt_store (dw_runtime D)) (dw_tenant D) (Some (comma_list filters)) 200) (\<lambda>cs.
         bind_o (map_outcome (\<lambda>c. enrich_case s D (oc_workflow c) (case_to_dict c)) cs) (\<lambda>docs.
           Inr [(''ok'', JBool True), (''tenant_id'', JStr (hs_tenant s)), (''count'', JInt (int (length docs))),
                (''cases'', JList (map JObj docs))])))"

definition principal_doc :: "principal \<Rightarrow> (string \<times> json) list" where
  "principal_doc p =
     [(''subject'', JStr (pr_subject p)), (''tenant_id'', JStr (pr_tenant p)), (''email'', JStr (pr_email p)),
      (''roles'', JList (map JStr (sort (remdups (map role_value (pr_roles p)))))), (''display_name'', JStr (pr_display_name p)),
      (''issuer'', opt_str (pr_issuer p))]"

definition finance_metrics :: "host_session \<Rightarrow> 'x durable_workspace \<Rightarrow> (string \<times> json) list outcome" where
  "finance_metrics s D =
     bind_o (gate_list s) (\<lambda>_.
     let count = (\<lambda>filters. bind_o (list_waiting s filters D) (\<lambda>r. Inr (case dget r ''count'' of None \<Rightarrow> JInt 0 | Some n \<Rightarrow> n))) in
     bind_o (count ''waiting'') (\<lambda>waiting. bind_o (count ''blocked,dead_letter,needs_information,failed'') (\<lambda>attention.
       Inr [(''tenant_id'', JStr (hs_tenant s)), (''waiting_count'', waiting), (''attention_count'', attention),
            (''expenses_in_ledger'', JInt (int (length (expenses (tw_ledger (bound_workspace (dw_tenant D) (dw_runtime D))))))),
            (''principal'', (case hs_principal s of None \<Rightarrow> JNull | Some p \<Rightarrow> JObj (principal_doc p)))])))"

definition case_detail :: "host_session \<Rightarrow> string \<Rightarrow> 'x durable_workspace \<Rightarrow> (string \<times> json) list outcome" where
  "case_detail s w D =
     bind_o (gate_list s) (\<lambda>_.
     case get_instance (rt_store (dw_runtime D)) (hs_tenant s) w of
       None \<Rightarrow> Inr (refusal ''not_found'' [(''workflow_id'', JStr w)])
     | Some i \<Rightarrow>
         bind_o (enrich_case s D w
           [(''workflow_id'', JStr (wi_id i)), (''tenant_id'', JStr (wi_tenant i)), (''business_key'', JStr (wi_business_key i)),
            (''workflow_state'', JStr (workflow_state_value (wi_state i))),
            (''run_status'', JStr (run_status_value (wi_run_status i))),
            (''context'', JObj (filter (\<lambda>kv. fst kv \<noteq> ''policy'') (wi_context i))),
            (''wait_descriptor'', (case wi_wait_descriptor i of None \<Rightarrow> JNull | Some d \<Rightarrow> JObj d)),
            (''wait_deadline'', opt_str (wi_wait_deadline i)), (''last_error'', opt_str (wi_last_error i)),
            (''events'', JList (map (\<lambda>e. JObj [(''seq'', JInt (we_seq e)), (''event_type'', JStr (event_type_value (we_type e))),
               (''payload'', we_payload e), (''at'', JStr (we_at e))])
               (list_events (rt_store (dw_runtime D)) (hs_tenant s) w)))])
           (\<lambda>doc. Inr [(''ok'', JBool True), (''case'', JObj doc)]))"

text \<open>The donor's screens.\<close>

definition donor_console ::
  "'x host_env \<Rightarrow> host_session \<Rightarrow> string \<Rightarrow> donor_read \<Rightarrow> ledger option \<Rightarrow> 'x durable_workspace \<Rightarrow> json outcome" where
  "donor_console H s d q snapshot D = donor_api_read (session_donor_service H s snapshot D) d (hs_principal s) q"

end
