(* ===== verification/Console.thy ===== *)
theory Console
  imports Host_Session
begin

text \<open>
  The HTTP API of the console (\<^verbatim>\<open>console_server.py\<close>): identity of a request, routes, and the answer for everything a
  route may raise. A request is its headers, its path, its query and what its body decodes to; the workspace is \<open>None\<close>
  when the data directory holds none. Sockets, address and command line are left out, and so are the entries of an answer
  that name files. The registry of tenants is an argument: what looking up the configured tenant gives.
\<close>

section \<open>Configuration and requests\<close>

record server_config =
  sc_tenant :: string
  sc_pilot :: bool
  sc_trusted :: bool
  sc_max_body :: int
  sc_origins :: "string list"
  sc_provider :: "identity_provider option"

definition cors_origin_for :: "server_config \<Rightarrow> string option \<Rightarrow> string option" where
  "cors_origin_for cfg origin =
     (if sc_origins cfg \<noteq> [] then
        (if present origin \<and> the origin \<in> set (sc_origins cfg) then origin
         else if ''*'' \<in> set (sc_origins cfg) then Some ''*'' else None)
      else if sc_pilot cfg then Some ''*'' else None)"

record request =
  rq_headers :: "(string, string) dict"
  rq_path :: string
  rq_query :: "(string, string list) dict"
  rq_json :: "json option"

datatype http_error = AuthenticationRequired string | PayloadTooLarge string | NoWorkspace | Raised py_exn

type_synonym 'a answer = "http_error + 'a"

definition raised :: "'a outcome \<Rightarrow> 'a answer" where
  "raised v = (case v of Inl e \<Rightarrow> Inl (Raised e) | Inr a \<Rightarrow> Inr a)"

definition bind_a :: "'a answer \<Rightarrow> ('a \<Rightarrow> 'b answer) \<Rightarrow> 'b answer" where
  "bind_a r f = (case r of Inl e \<Rightarrow> Inl e | Inr a \<Rightarrow> f a)"

lemma bind_a_simps [simp]: "bind_a (Inl e) f = Inl e" "bind_a (Inr a) f = f a"
  by (simp_all add: bind_a_def)

type_synonym token_decoder = "jwks_provider \<Rightarrow> string \<Rightarrow> string + (string \<times> json) list"

definition request_principal :: "token_decoder \<Rightarrow> server_config \<Rightarrow> request \<Rightarrow> bool \<Rightarrow> principal option outcome" where
  "request_principal decode cfg rq allow_fixture =
     resolve_principal_from_request decode (rq_headers rq) (sc_tenant cfg) (sc_trusted cfg) (sc_provider cfg) allow_fixture"

text \<open>The principal of a protected route; nobody only in the unauthenticated pilot.\<close>

definition require_login :: "token_decoder \<Rightarrow> server_config \<Rightarrow> request \<Rightarrow> principal option answer" where
  "require_login decode cfg rq =
     bind_a (raised (request_principal decode cfg rq True)) (\<lambda>who.
       if who = None \<and> \<not> sc_pilot cfg
       then Inl (AuthenticationRequired (''authentication required: send Authorization: Bearer <email>'' @
              (if sc_trusted cfg then '' or X-Impact-Email with a role header'' else [])))
       else Inr who)"

definition require_tenant_admin :: "token_decoder \<Rightarrow> server_config \<Rightarrow> request \<Rightarrow> principal answer" where
  "require_tenant_admin decode cfg rq =
     bind_a (raised (request_principal decode cfg rq False)) (\<lambda>who. case who of
         None \<Rightarrow> Inl (AuthenticationRequired ''admin endpoint requires authentication'')
       | Some p \<Rightarrow> bind_a (raised (assert_permission p TENANT_ADMINISTER (Some (sc_tenant cfg)))) (\<lambda>_. Inr p))"

definition finance_session :: "token_decoder \<Rightarrow> server_config \<Rightarrow> request \<Rightarrow> host_session answer" where
  "finance_session decode cfg rq =
     bind_a (require_login decode cfg rq) (\<lambda>who. Inr (open_host_session (sc_tenant cfg) [] (\<not> sc_pilot cfg) who))"

definition donor_session :: "token_decoder \<Rightarrow> server_config \<Rightarrow> request \<Rightarrow> host_session answer" where
  "donor_session decode cfg rq =
     bind_a (require_login decode cfg rq) (\<lambda>who. Inr (open_host_session (sc_tenant cfg) [] False who))"

text \<open>\<^verbatim>\<open>int(s)\<close> for a sign and digits.\<close>

definition parse_int :: "string \<Rightarrow> int option" where
  "parse_int s = (let (neg, t) = split_sign s in
     if t = [] \<or> \<not> list_all is_digit t then None else Some ((if neg then - 1 else 1) * int (digits_value t)))"

definition read_body :: "server_config \<Rightarrow> request \<Rightarrow> (string \<times> json) list answer" where
  "read_body cfg rq =
     (let raw = header_text (rq_headers rq) ''Content-Length'' in
      case (if raw = [] then Some 0 else parse_int raw) of
        None \<Rightarrow> Inl (Raised (ValueError ''invalid Content-Length''))
      | Some n \<Rightarrow>
          if n < 0 then Inl (Raised (ValueError ''invalid Content-Length''))
          else if sc_max_body cfg < n
          then Inl (PayloadTooLarge (''request body exceeds '' @ str_of_int (sc_max_body cfg) @ '' bytes''))
          else if n = 0 then Inr []
          else case rq_json rq of
            None \<Rightarrow> Inl (Raised (ValueError ''request body must be valid JSON''))
          | Some (JObj kvs) \<Rightarrow> Inr kvs
          | Some _ \<Rightarrow> Inl (Raised (ValueError ''request body must be a JSON object'')))"

section \<open>Answers\<close>

definition error_body :: "string \<Rightarrow> string \<Rightarrow> json" where
  "error_body err msg = JObj ([(''ok'', JBool False), (''error'', JStr err)] @ (if msg = [] then [] else [(''message'', JStr msg)]))"

definition RESULT_ERROR_STATUS :: "(string, int) dict" where
  "RESULT_ERROR_STATUS =
     [(''principal_required'', 401), (''forbidden'', 403), (''separation_of_duties'', 403), (''approver_must_be_human'', 403),
      (''not_found'', 404), (''no_workspace'', 404)]"

definition status_for_result :: "(string \<times> json) list \<Rightarrow> int" where
  "status_for_result r =
     (if dget r ''ok'' \<noteq> Some (JBool False) then 200
      else case dget RESULT_ERROR_STATUS (json_str (jor (obj_get r ''error'') (JStr []))) of None \<Rightarrow> 400 | Some n \<Rightarrow> n)"

definition result_answer :: "(string \<times> json) list \<Rightarrow> (int \<times> json) answer" where
  "result_answer r = Inr (status_for_result r, JObj r)"

text \<open>The value errors among the exceptions.\<close>

fun is_value_error :: "py_exn \<Rightarrow> bool" where
  "is_value_error (ValueError m) = True"
| "is_value_error (LedgerLogError m) = True"
| "is_value_error (PrivacySentinelError m) = True"
| "is_value_error (DigestError m) = True"
| "is_value_error (PolicyError m) = True"
| "is_value_error (ReconcileError m) = True"
| "is_value_error e = False"

fun http_of :: "(int \<times> json) answer \<Rightarrow> int \<times> json" where
  "http_of (Inr a) = a"
| "http_of (Inl (AuthenticationRequired m)) = (401, error_body ''authentication_required'' m)"
| "http_of (Inl (PayloadTooLarge m)) = (413, error_body ''payload_too_large'' m)"
| "http_of (Inl NoWorkspace) = (404, error_body ''no_workspace'' ''no durable workspace'')"
| "http_of (Inl (Raised e)) =
     (case e of
        AuthorizationError m \<Rightarrow> (403, error_body ''forbidden'' m)
      | NotFoundError m \<Rightarrow> (404, error_body ''not_found'' m)
      | _ \<Rightarrow> if is_value_error e then (400, error_body ''bad_request'' (exn_str e)) else (500, error_body ''internal_error'' []))"

section \<open>Tenant administration\<close>

definition tenant_id_ok :: "string \<Rightarrow> bool" where
  "tenant_id_ok t \<longleftrightarrow> starts_with ''org_'' t \<and> drop 4 t \<noteq> [] \<and>
     list_all (\<lambda>c. is_digit c \<or> c = CHR ''_'' \<or> (let n = of_char c :: nat in 97 \<le> n \<and> n \<le> 122)) (drop 4 t)"

type_synonym registry = "(string \<times> json) list option outcome"

definition list_tenants :: "registry \<Rightarrow> json answer" where
  "list_tenants reg =
     bind_a (raised reg) (\<lambda>rec. Inr (JObj [(''ok'', JBool True), (''scope'', JStr ''configured_tenant''),
       (''tenants'', JList (case rec of None \<Rightarrow> [] | Some r \<Rightarrow> [JObj r]))]))"

definition verify_tenant :: "server_config \<Rightarrow> registry \<Rightarrow> string \<Rightarrow> json answer" where
  "verify_tenant cfg reg t =
     (if \<not> tenant_id_ok t then Inl (Raised (ValueError ''invalid_tenant_id_format''))
      else if t \<noteq> sc_tenant cfg
      then Inl (Raised (AuthorizationError ''cross-tenant administration is not permitted''))
      else bind_a (raised reg) (\<lambda>rec.
        Inr (JObj (obj_merge (obj_merge [(''ok'', JBool True), (''tenant_id'', JStr t), (''registered'', JBool (rec \<noteq> None))]
            (case rec of None \<Rightarrow> [] | Some r \<Rightarrow> r))
          [(''storage_isolated'', JNull), (''cross_tenant_access'', JStr ''not_tested''),
           (''policy_source'', (case rec of None \<Rightarrow> JNull | Some r \<Rightarrow> obj_get r ''template_source'')), (''ready'', JBool False),
           (''message'', JStr ''Registry lookup only; onboarding readiness has not been verified'')]))))"

section \<open>Routes\<close>

text \<open>A path against a pattern of segments; a hole takes one non-empty segment.\<close>

fun path_args :: "string option list \<Rightarrow> string list \<Rightarrow> string list option" where
  "path_args [] [] = Some []"
| "path_args (Some l # ps) (s # ss) = (if s = l then path_args ps ss else None)"
| "path_args (None # ps) (s # ss) = (if s \<noteq> [] then map_option ((#) s) (path_args ps ss) else None)"
| "path_args _ _ = None"

definition path_of :: "request \<Rightarrow> string" where
  "path_of rq = text_else (rstrip_slash (rq_path rq)) ''/''"

definition match_path :: "request \<Rightarrow> string option list \<Rightarrow> string list option" where
  "match_path rq pat = path_args (Some [] # Some ''api'' # pat) (split_on (CHR ''/'') [] (path_of rq))"

definition in_workspace :: "'x durable_workspace option \<Rightarrow> ('x durable_workspace \<Rightarrow> 'a outcome) \<Rightarrow> 'a answer" where
  "in_workspace D f = (case D of None \<Rightarrow> Inl NoWorkspace | Some d \<Rightarrow> raised (f d))"

definition staff_screen :: "host_session \<Rightarrow> 'x durable_workspace option \<Rightarrow> ('x durable_workspace \<Rightarrow> 'a outcome) \<Rightarrow> 'a answer" where
  "staff_screen s D f = bind_a (raised (gate_list s)) (\<lambda>_. in_workspace D f)"

definition query_or :: "request \<Rightarrow> string \<Rightarrow> string \<Rightarrow> string" where
  "query_or rq k dflt = (case dget (rq_query rq) k of Some (v # vs) \<Rightarrow> v | _ \<Rightarrow> dflt)"

text \<open>The screens of a donor, by the last segment of the path.\<close>

definition donor_screens :: "(string, donor_read) dict" where
  "donor_screens = [(''dashboard'', ReadDashboard), (''timeline'', ReadTimeline), (''receipts'', ReadReceipts)]"

definition donor_route ::
  "'x host_env \<Rightarrow> token_decoder \<Rightarrow> server_config \<Rightarrow> ledger option \<Rightarrow> request \<Rightarrow> string \<Rightarrow> string \<Rightarrow> donor_read \<Rightarrow>
     'x durable_workspace option \<Rightarrow> (int \<times> json) answer" where
  "donor_route H decode cfg snap rq d k q D =
     bind_a (donor_session decode cfg rq) (\<lambda>s.
     bind_a (in_workspace D (donor_console H s d q snap)) (\<lambda>j. Inr (200, JObj [(''ok'', JBool True), (k, j)])))"

definition DEFAULT_FILTERS :: string where
  "DEFAULT_FILTERS = ''waiting,blocked,dead_letter,needs_information,failed''"

definition health :: "server_config \<Rightarrow> json" where
  "health cfg = JObj [(''ok'', JBool True), (''service'', JStr ''impact-relay-console''), (''tenant_id'', JStr (sc_tenant cfg)),
     (''auth'', JObj [(''allow_unauthenticated_pilot'', JBool (sc_pilot cfg)), (''trusted_proxy'', JBool (sc_trusted cfg)),
        (''jwt_validation'', JBool (sc_provider cfg \<noteq> None))])]"

definition route_get ::
  "'x host_env \<Rightarrow> token_decoder \<Rightarrow> server_config \<Rightarrow> registry \<Rightarrow> ledger option \<Rightarrow> request \<Rightarrow> 'x durable_workspace option \<Rightarrow>
     (int \<times> json) answer" where
  "route_get H decode cfg reg snap rq D =
     (if match_path rq [Some ''health''] = Some [] then Inr (200, health cfg)
      else if match_path rq [Some ''admin'', Some ''tenants''] = Some [] then
        bind_a (require_tenant_admin decode cfg rq) (\<lambda>_. bind_a (list_tenants reg) (\<lambda>j. Inr (200, j)))
      else if match_path rq [Some ''admin'', Some ''tenants'', Some ''verify''] = Some [] then
        bind_a (require_tenant_admin decode cfg rq) (\<lambda>_.
          let t = query_or rq ''tenant_id'' [] in
          if t = [] then Inr (400, error_body ''tenant_id_required'' [])
          else bind_a (verify_tenant cfg reg t) (\<lambda>j. Inr (200, j)))
      else if match_path rq [Some ''finance'', Some ''metrics''] = Some [] then
        bind_a (finance_session decode cfg rq) (\<lambda>s. bind_a (staff_screen s D (finance_metrics s)) (\<lambda>r. Inr (200, JObj r)))
      else if match_path rq [Some ''finance'', Some ''queue''] = Some [] then
        bind_a (finance_session decode cfg rq) (\<lambda>s.
        bind_a (staff_screen s D (finance_queue s (query_or rq ''filters'' DEFAULT_FILTERS))) result_answer)
      else case match_path rq [Some ''finance'', Some ''cases'', None] of
        Some ws \<Rightarrow>
          bind_a (finance_session decode cfg rq) (\<lambda>s.
          bind_a (case D of None \<Rightarrow> raised (bind_o (gate_list s) (\<lambda>_. Inr (refusal ''no_workspace'' [])))
                    | Some d \<Rightarrow> raised (case_detail s (hd ws) d)) result_answer)
      | None \<Rightarrow>
        case match_path rq [Some ''donors'', None, Some ''receipts'', None] of
          Some ds \<Rightarrow> donor_route H decode cfg snap rq (hd ds) ''receipt'' (ReadReceipt (hd (tl ds))) D
        | None \<Rightarrow>
          case match_path rq [Some ''donors'', None, None] of
            Some ds \<Rightarrow> (case dget donor_screens (hd (tl ds)) of
                Some q \<Rightarrow> donor_route H decode cfg snap rq (hd ds) (hd (tl ds)) q D
              | None \<Rightarrow> Inr (404, JObj [(''ok'', JBool False), (''error'', JStr ''not_found''), (''path'', JStr (path_of rq))]))
          | None \<Rightarrow> Inr (404, JObj [(''ok'', JBool False), (''error'', JStr ''not_found''), (''path'', JStr (path_of rq))]))"

text \<open>A seed reads its files by the names the body gives: the rows and the ledger of the fixture. The old files are
  deleted first, so a file that cannot be read leaves a new workspace.\<close>

definition SEED_KWARGS :: "string list" where
  "SEED_KWARGS = [''expense_batch'', ''fixture_path'']"

record seed_source =
  ss_rows :: "(string \<times> json) list \<Rightarrow> (string \<times> json) list list outcome"
  ss_base :: "(string \<times> json) list \<Rightarrow> ledger outcome"
  ss_default :: ledger

definition empty_seed :: "ledger \<Rightarrow> 'x durable_workspace" where
  "empty_seed base = \<lparr>dw_runtime = fresh_runtime (org_id (organization base)) base, dw_tenant = org_id (organization base)\<rparr>"

definition run_seed ::
  "'x host_env \<Rightarrow> host_session \<Rightarrow> seed_source \<Rightarrow> (string \<times> json) list \<Rightarrow> 'x durable_workspace option \<Rightarrow>
     (string \<times> json) list outcome \<times> 'x durable_workspace option" where
  "run_seed H s files body D =
     (let given = filter (\<lambda>kv. fst kv \<in> set SEED_KWARGS) body in
      case seed_refusal s of
        Some r \<Rightarrow> (Inr r, D)
      | None \<Rightarrow>
          (case ss_base files given of
             Inl e \<Rightarrow> (Inl e, Some (empty_seed (ss_default files)))
           | Inr base \<Rightarrow>
               (case ss_rows files given of
                  Inl e \<Rightarrow> (Inl e, Some (empty_seed base))
                | Inr rows \<Rightarrow> (let (v, d) = durable_seed H rows base 20 in (v, Some d)))))"

text \<open>A value of the body that is no text: as a proposer it names nobody, as an approver it has no \<^verbatim>\<open>startswith\<close>.\<close>

definition body_text :: "(string \<times> json) list \<Rightarrow> string \<Rightarrow> string option" where
  "body_text body k = (case obj_get body k of JStr s \<Rightarrow> Some s | _ \<Rightarrow> None)"

definition bad_approver :: "host_session \<Rightarrow> (string \<times> json) list \<Rightarrow> bool" where
  "bad_approver s body \<longleftrightarrow>
     hs_principal s = None \<and> truthy (obj_get body ''approver_id'') \<and> body_text body ''approver_id'' = None"

definition run_approve ::
  "'x host_env \<Rightarrow> host_session \<Rightarrow> string \<Rightarrow> (string \<times> json) list \<Rightarrow> 'x durable_workspace option \<Rightarrow>
     (string \<times> json) list answer \<times> 'x durable_workspace option" where
  "run_approve H s w body D =
     (let proposer = body_text body ''proposer_id''; approver = body_text body ''approver_id'' in
      case approval_refusal s proposer of
        Some r \<Rightarrow> (Inr r, D)
      | None \<Rightarrow>
          if bad_approver s body then (Inl (Raised (AttributeError ''startswith'')), D)
          else case D of
            Some d \<Rightarrow> (let (v, d') = host_approve H s (Some w) approver proposer d in (raised v, Some d'))
          | None \<Rightarrow>
              if starts_with ''agent:'' (session_actor s approver) then (Inr (refusal ''approver_must_be_human'' []), D)
              else (Inl NoWorkspace, D))"

definition route_post ::
  "'x host_env \<Rightarrow> token_decoder \<Rightarrow> server_config \<Rightarrow> seed_source \<Rightarrow> request \<Rightarrow> 'x durable_workspace option \<Rightarrow>
     (int \<times> json) answer \<times> 'x durable_workspace option" where
  "route_post H decode cfg files rq D =
     (if match_path rq [Some ''pilot'', Some ''seed''] = Some [] then
        (case bind_a (finance_session decode cfg rq) (\<lambda>s. bind_a (read_body cfg rq) (\<lambda>b. Inr (s, b))) of
           Inl e \<Rightarrow> (Inl e, D)
         | Inr (s, body) \<Rightarrow> (let (v, D') = run_seed H s files body D in (bind_a (raised v) result_answer, D')))
      else case match_path rq [Some ''finance'', Some ''cases'', None, Some ''approve''] of
        Some ws \<Rightarrow>
          (case bind_a (finance_session decode cfg rq) (\<lambda>s. bind_a (read_body cfg rq) (\<lambda>b. Inr (s, b))) of
             Inl e \<Rightarrow> (Inl e, D)
           | Inr (s, body) \<Rightarrow> (let (v, D') = run_approve H s (hd ws) body D in (bind_a v result_answer, D')))
      | None \<Rightarrow>
          if match_path rq [Some ''admin'', Some ''tenants'', Some ''clone''] = Some [] then
            (bind_a (require_tenant_admin decode cfg rq) (\<lambda>_. Inr (503, error_body ''tenant_provisioning_unavailable''
               ''Platform authorization and durable provisioning are not configured'')), D)
          else (Inr (404, error_body ''not_found'' []), D))"

definition do_get ::
  "'x host_env \<Rightarrow> token_decoder \<Rightarrow> server_config \<Rightarrow> registry \<Rightarrow> ledger option \<Rightarrow> request \<Rightarrow> 'x durable_workspace option \<Rightarrow>
     int \<times> json" where
  "do_get H decode cfg reg snap rq D = http_of (route_get H decode cfg reg snap rq D)"

definition do_post ::
  "'x host_env \<Rightarrow> token_decoder \<Rightarrow> server_config \<Rightarrow> seed_source \<Rightarrow> request \<Rightarrow> 'x durable_workspace option \<Rightarrow>
     (int \<times> json) \<times> 'x durable_workspace option" where
  "do_post H decode cfg files rq D = (let (v, D') = route_post H decode cfg files rq D in (http_of v, D'))"

end
