(* ===== verification/Donor_Books.thy ===== *)
theory Donor_Books
  imports Donor_Views Ledger_Properties Tenant_Properties
begin

text \<open>
  What the donor is shown agrees with the books: the balances are the ledger's own, and the whole view depends on
  the donor's records alone.
\<close>

section \<open>Designations by fund\<close>

definition amount_of :: "(string, cents) dict \<Rightarrow> string \<Rightarrow> cents" where
  "amount_of m a = (case dget m a of None \<Rightarrow> 0 | Some c \<Rightarrow> c)"

lemma add_amount_of: "amount_of (add_amount da m) a = amount_of m a + (if da_allocation da = a then da_amount da else 0)"
  by (simp add: add_amount_def amount_of_def)

lemma add_amounts_of: "amount_of (fold add_amount das m) a = amount_of m a + sum_list (map da_amount (filter (\<lambda>da. da_allocation da = a) das))"
  by (induction das arbitrary: m) (simp_all add: add_amount_of)

lemma add_amounts_ok: "dict_ok m \<Longrightarrow> dict_ok (fold add_amount das m)"
  by (induction das arbitrary: m) (simp_all add: add_amount_def)

lemma shares_sum:
  "sum_list (map da_amount (filter (\<lambda>da. da_allocation da = a) (shares_of L don))) = donor_designated L (don_id don) a"
  by (simp add: shares_of_def donor_designated_def sum_where_def filter_filter conj_commute)

lemma designated_sum:
  "amount_of (designated_by_fund L d) a = sum_list (map (\<lambda>don. donor_designated L (don_id don) a) (donor_donations L d))"
proof -
  have "amount_of (fold (\<lambda>don. fold add_amount (shares_of L don)) dons m) a =
      amount_of m a + sum_list (map (\<lambda>don. donor_designated L (don_id don) a) dons)" for dons m
    by (induction dons arbitrary: m) (simp_all add: add_amounts_of shares_sum)
  then show ?thesis by (simp add: designated_by_fund_def amount_of_def)
qed

lemma designated_ok: "dict_ok (designated_by_fund L d)"
proof -
  have "dict_ok m \<Longrightarrow> dict_ok (fold (\<lambda>don. fold add_amount (shares_of L don)) dons m)" for dons and m :: "(string, cents) dict"
    by (induction dons arbitrary: m) (simp_all add: add_amounts_ok)
  then show ?thesis by (simp add: designated_by_fund_def)
qed

section \<open>Usage\<close>

definition pending_state :: "ledger \<Rightarrow> string \<Rightarrow> bool" where
  "pending_state L e \<longleftrightarrow> expense_active L e \<and> \<not> expense_verified L e"

lemma usage_sums:
  "fund_usage L d a =
     (sum_where (\<lambda>t. at_donor t = d \<and> at_allocation t = a \<and> expense_verified L (at_expense t)) at_amount (attributions L),
      sum_where (\<lambda>t. at_donor t = d \<and> at_allocation t = a \<and> pending_state L (at_expense t)) at_amount (attributions L))"
proof -
  have step: "add_usage L d a t (u, p) =
      (u + (if at_donor t = d \<and> at_allocation t = a \<and> expense_verified L (at_expense t) then at_amount t else 0),
       p + (if at_donor t = d \<and> at_allocation t = a \<and> pending_state L (at_expense t) then at_amount t else 0))" for t u p
    by (auto simp: add_usage_def expense_verified_def pending_state_def expense_active_def verified_not_corrected split: option.split)
  have "fold (add_usage L d a) ts (u, p) =
      (u + sum_list (map at_amount (filter (\<lambda>t. at_donor t = d \<and> at_allocation t = a \<and> expense_verified L (at_expense t)) ts)),
       p + sum_list (map at_amount (filter (\<lambda>t. at_donor t = d \<and> at_allocation t = a \<and> pending_state L (at_expense t)) ts)))" for ts u p
    by (induction ts arbitrary: u p) (simp_all add: step)
  then show ?thesis by (simp add: fund_usage_def sum_where_def)
qed

text \<open>A sum over the attributions of a donor is the sum over the donor's donations.\<close>

lemma owned_sum:
  assumes "ledger_wf L"
  shows "sum_where (\<lambda>t. at_donor t = d \<and> P t) at_amount (attributions L) =
    sum_list (map (\<lambda>don. sum_where (\<lambda>t. at_donation t = don_id don \<and> P t) at_amount (attributions L)) (donor_donations L d))"
proof -
  have don: "dict_ok (donations L)" "dall (\<lambda>k x. don_id x = k) (donations L)"
    using assms by (auto simp: ledger_wf_def wf_stores_def wf_parties_def elim: dall_mono)
  have own: "owns_in L (at_donor t) (at_donation t)" if "t \<in> set (dvalues (attributions L))" for t
    using assms that by (auto simp: ledger_wf_def wf_links_def dest!: dall_dvalues)
  have dist: "distinct (map don_id (donor_donations L d))"
  proof -
    have "map don_id (dvalues D) = map fst D" if "dall (\<lambda>k x. don_id x = k) D" for D :: "(string, donation) dict"
      using that by (induction D) auto
    then have "distinct (map don_id (dvalues (donations L)))" using don by (simp add: dict_ok_def)
    then show ?thesis by (simp add: donor_donations_def distinct_map_filter)
  qed
  have mem: "at_donor t = d \<longleftrightarrow> at_donation t \<in> don_id ` set (donor_donations L d)" if t: "t \<in> set (dvalues (attributions L))" for t
  proof -
    obtain don where g: "dget (donations L) (at_donation t) = Some don" "don_donor don = at_donor t"
      using own [OF t] by (auto simp: owns_in_def)
    have id: "don_id don = at_donation t" using don(2) g(1) by (blast dest: dall_dget)
    have same: "don' = don" if "don' \<in> set (dvalues (donations L))" "don_id don' = at_donation t" for don'
      using that don g(1) by (auto simp: in_dvalues_iff dest: dall_dget)
    have mem: "don \<in> set (dvalues (donations L))" using g(1) by (rule dget_in_dvalues)
    show ?thesis
    proof
      assume "at_donor t = d"
      then have "don \<in> set (donor_donations L d)" using mem g(2) by (simp add: donor_donations_def)
      then show "at_donation t \<in> don_id ` set (donor_donations L d)" unfolding id [symmetric] by (rule imageI)
    next
      assume "at_donation t \<in> don_id ` set (donor_donations L d)"
      then obtain don' where "don' \<in> set (dvalues (donations L))" "don_id don' = at_donation t" "don_donor don' = d"
        by (auto simp: donor_donations_def)
      then show "at_donor t = d" using same g(2) by simp
    qed
  qed
  have "sum_list (map at_amount (filter (\<lambda>t. at_donation t \<in> set ids \<and> P t) ts)) =
      sum_list (map (\<lambda>i. sum_list (map at_amount (filter (\<lambda>t. at_donation t = i \<and> P t) ts))) ids)" if "distinct ids" for ids ts
    using that
  proof (induction ids)
    case (Cons i ids)
    have "sum_list (map at_amount (filter (\<lambda>t. at_donation t \<in> set (i # ids) \<and> P t) ts)) =
        sum_list (map at_amount (filter (\<lambda>t. at_donation t = i \<and> P t) ts)) +
        sum_list (map at_amount (filter (\<lambda>t. at_donation t \<in> set ids \<and> P t) ts))"
      using Cons.prems by (induction ts) auto
    then show ?case using Cons by simp
  qed simp
  from this [OF dist, of "dvalues (attributions L)"]
  have "sum_where (\<lambda>t. at_donation t \<in> don_id ` set (donor_donations L d) \<and> P t) at_amount (attributions L) =
    sum_list (map (\<lambda>don. sum_where (\<lambda>t. at_donation t = don_id don \<and> P t) at_amount (attributions L)) (donor_donations L d))"
    by (simp add: sum_where_def comp_def)
  moreover have "sum_where (\<lambda>t. at_donor t = d \<and> P t) at_amount (attributions L) =
      sum_where (\<lambda>t. at_donation t \<in> don_id ` set (donor_donations L d) \<and> P t) at_amount (attributions L)"
    using mem by (intro sum_where_cong) auto
  ultimately show ?thesis by simp
qed

section \<open>The balances are the ledger's\<close>

lemma map_outcome_in: "map_outcome f xs = Inr ys \<Longrightarrow> y \<in> set ys \<Longrightarrow> \<exists>x \<in> set xs. f x = Inr y"
  by (induction xs arbitrary: ys) (auto simp: bind_o_def split: sum.splits)

lemma balance_facts:
  assumes "allocation_balances L d = Inr bs" "b \<in> set bs"
  shows "bv_designated b = amount_of (designated_by_fund L d) (bv_allocation b) \<and>
    bv_used b = fst (fund_usage L d (bv_allocation b)) \<and> bv_pending b = snd (fund_usage L d (bv_allocation b)) \<and>
    bv_remaining b = bv_designated b - bv_used b"
proof -
  have "\<exists>fund \<in> set (sort_key fst (designated_by_fund L d)). balance_view L d fund = Inr b"
    using assms map_outcome_in by (fastforce simp: allocation_balances_def bind_o_def split: sum.splits)
  then obtain a c where f: "(a, c) \<in> set (designated_by_fund L d)" "balance_view L d (a, c) = Inr b" by auto
  have "amount_of (designated_by_fund L d) a = c"
    using f(1) designated_ok [of L d] by (simp add: amount_of_def dict_ok_def)
  then show ?thesis using f(2)
    by (auto simp: balance_view_def bind_o_def split_beta split: sum.splits dest!: quantize_cents_InrD)
qed

text \<open>C12. Over any disciplined history the balances a donor is shown are the ledger's: what is designated to a fund is
  the sum over the donor's donations, what remains the sum of what the ledger lets each donation still pay, and
  what is used and what is pending are together within the designation.\<close>

theorem donor_balances_match_ledger:
  assumes "disciplined_history E org cs" "L = ledger_after E org cs"
    and "allocation_balances L d = Inr bs" "b \<in> set bs"
  shows "bv_designated b = sum_list (map (\<lambda>don. donor_designated L (don_id don) (bv_allocation b)) (donor_donations L d)) \<and>
    bv_remaining b = sum_list (map (\<lambda>don. donor_designated L (don_id don) (bv_allocation b) -
      donor_consumed L (don_id don) (bv_allocation b)) (donor_donations L d)) \<and>
    0 \<le> bv_used b \<and> 0 \<le> bv_pending b \<and> bv_used b + bv_pending b \<le> bv_designated b \<and> bv_remaining b = bv_designated b - bv_used b"
proof -
  let ?a = "bv_allocation b" and ?dons = "donor_donations L d"
  have inv: "ledger_inv L" using history_inv [OF assms(1)] assms(2) by simp
  then have wf: "ledger_wf L" and cov: "donors_covered L" by (simp_all add: ledger_inv_def)
  note f = balance_facts [OF assms(3,4)]
  have des: "bv_designated b = sum_list (map (\<lambda>don. donor_designated L (don_id don) ?a) ?dons)" using f designated_sum by simp
  have owned: "sum_where (\<lambda>t. at_donor t = d \<and> at_allocation t = ?a \<and> Q (at_expense t)) at_amount (attributions L) =
      sum_list (map (\<lambda>don. sum_where (\<lambda>t. at_donation t = don_id don \<and> at_allocation t = ?a \<and> Q (at_expense t)) at_amount (attributions L)) ?dons)" for Q
    using owned_sum [OF wf, of d "\<lambda>t. at_allocation t = ?a \<and> Q (at_expense t)"] by simp
  have used: "bv_used b = sum_list (map (\<lambda>don. donor_consumed L (don_id don) ?a) ?dons)"
    using f owned [of "expense_verified L"] by (simp add: usage_sums donor_consumed_def)
  have pos: "0 \<le> at_amount t" if "t \<in> set (dvalues (attributions L))" for t
    using wf that by (auto simp: ledger_wf_def wf_links_def dest!: dall_dvalues)
  have nonneg: "0 \<le> bv_used b" "0 \<le> bv_pending b" using f pos by (simp_all add: usage_sums sum_where_nonneg)
  have "bv_used b + bv_pending b = sum_where (\<lambda>t. at_donor t = d \<and> at_allocation t = ?a \<and> expense_active L (at_expense t)) at_amount (attributions L)"
  proof -
    have "expense_verified L e \<Longrightarrow> expense_active L e" for e
      by (auto simp: expense_verified_def expense_active_def verified_not_corrected split: option.splits)
    then have "sum_where (\<lambda>t. (at_donor t = d \<and> at_allocation t = ?a \<and> expense_active L (at_expense t)) \<and> expense_verified L (at_expense t)) at_amount (attributions L) = bv_used b"
      using f unfolding usage_sums fst_conv by (simp only: conj_assoc) (intro sum_where_cong; auto)
    moreover have "sum_where (\<lambda>t. (at_donor t = d \<and> at_allocation t = ?a \<and> expense_active L (at_expense t)) \<and> \<not> expense_verified L (at_expense t)) at_amount (attributions L) = bv_pending b"
      using f by (simp add: usage_sums pending_state_def conj_assoc)
    ultimately show ?thesis
      by (subst sum_where_split [where Q = "\<lambda>t. expense_verified L (at_expense t)"]) simp
  qed
  also have "\<dots> = sum_list (map (\<lambda>don. active_attribution_total L (don_id don) ?a None) ?dons)"
    using owned [of "expense_active L"] by (simp add: active_attribution_total_def)
  also have "\<dots> \<le> bv_designated b" unfolding des using cov by (intro sum_list_mono) (simp add: donors_covered_def)
  finally have within: "bv_used b + bv_pending b \<le> bv_designated b" .
  have "bv_remaining b = sum_list (map (\<lambda>don. donor_designated L (don_id don) ?a - donor_consumed L (don_id don) ?a) ?dons)"
    using f des used by (simp add: sum_list_subtractf)
  then show ?thesis using des nonneg within f by blast
qed

definition demo_balance :: allocation_balance_view where
  "demo_balance = \<lparr>bv_allocation = ''f'', bv_name = ''Water'', bv_restriction = ''DONOR_RESTRICTED'', bv_designated = 10000,
     bv_used = 4000, bv_remaining = 6000, bv_pending = 0\<rparr>"

lemma demo_view: "allocation_balances demo9 ''d'' = Inr [demo_balance]"
  by (simp add: allocation_balances_def check_donor_def designated_by_fund_def donor_donations_def shares_of_def add_amount_def
      balance_view_def fund_of_def fund_usage_def add_usage_def demo_attribution_def quantize_cents_def bind_o_def demo_balance_def
      demo_fund_def)

theorem donor_balances_match_ledger_witness:
  "(4000::int) + 0 \<le> 10000 \<and>
   (10000::int) = sum_list (map (\<lambda>don. donor_designated demo9 (don_id don) ''f'') (donor_donations demo9 ''d''))"
  using donor_balances_match_ledger [OF demo_run_ok demo_run [symmetric] demo_view, of demo_balance]
  by (simp add: demo_balance_def)

section \<open>The view depends on the donor's records alone\<close>

text \<open>A workspace reduced to what one donor may see: the donor with the donations, shares, attributions and receipts
  under the donor's name, the evidence marked visible for the expenses of those receipts, funds and expenses.
  Other donors, charges, the audit log and the notification stores are gone.\<close>

definition own_share :: "ledger \<Rightarrow> string \<Rightarrow> donation_allocation \<Rightarrow> bool" where
  "own_share L d da \<longleftrightarrow> da_donation da \<in> don_id ` set (donor_donations L d)"

definition own_evidence :: "ledger \<Rightarrow> string \<Rightarrow> evidence_record \<Rightarrow> bool" where
  "own_evidence L d ev \<longleftrightarrow> ev_donor_visible ev \<and> ev_expense ev \<in> r_expense ` set (own_receipts L d)"

definition own_ledger :: "string \<Rightarrow> ledger \<Rightarrow> ledger" where
  "own_ledger d L = (empty_ledger (organization L))\<lparr>
     donors := filter (\<lambda>kv. fst kv = d) (donors L), donations := dfilter (\<lambda>x. don_donor x = d) (donations L),
     allocations := allocations L, donation_allocations := dfilter (own_share L d) (donation_allocations L),
     expenses := expenses L, evidence := dfilter (own_evidence L d) (evidence L),
     attributions := dfilter (\<lambda>x. at_donor x = d) (attributions L), receipts := dfilter (\<lambda>r. r_donor r = d) (receipts L)\<rparr>"

definition own_workspace :: "string \<Rightarrow> 'x tenant_workspace \<Rightarrow> 'x tenant_workspace" where
  "own_workspace d W = (empty_workspace (own_ledger d (tw_ledger W)))\<lparr>
     tw_impact_receipts := dfilter (\<lambda>r. ir_donor r = d) (tw_impact_receipts W)\<rparr>"

lemma own_stores [simp]:
  "organization (own_ledger d L) = organization L" "allocations (own_ledger d L) = allocations L" "expenses (own_ledger d L) = expenses L"
  "donations (own_ledger d L) = dfilter (\<lambda>x. don_donor x = d) (donations L)"
  "receipts (own_ledger d L) = dfilter (\<lambda>r. r_donor r = d) (receipts L)"
  "attributions (own_ledger d L) = dfilter (\<lambda>x. at_donor x = d) (attributions L)"
  "tw_ledger (own_workspace d W) = own_ledger d (tw_ledger W)"
  "tw_impact_receipts (own_workspace d W) = dfilter (\<lambda>r. ir_donor r = d) (tw_impact_receipts W)"
  by (simp_all add: own_ledger_def own_workspace_def empty_workspace_def empty_ledger_def)

lemma own_donor: "dget (donors (own_ledger d L)) d = dget (donors L) d"
proof -
  have "dget (filter (\<lambda>kv. fst kv = d) m) d = dget m d" for m :: "(string, donor) dict"
    by (induction m) auto
  then show ?thesis by (simp add: own_ledger_def)
qed

lemma own_check [simp]: "check_donor (own_ledger d L) d = check_donor L d"
  by (cases "dget (donors L) d") (simp_all add: check_donor_def own_donor)

lemma own_donations [simp]: "donor_donations (own_ledger d L) d = donor_donations L d"
  by (simp add: donor_donations_def)

lemma own_shares: "don \<in> set (donor_donations L d) \<Longrightarrow> shares_of (own_ledger d L) don = shares_of L don"
  by (auto simp: shares_of_def own_ledger_def own_share_def intro!: filter_cong)

lemma own_fund [simp]: "fund_of (own_ledger d L) = fund_of L"
  by (simp add: fund_of_def fun_eq_iff)

lemma own_usage [simp]: "fund_usage (own_ledger d L) d a = fund_usage L d a"
proof -
  have "add_usage (own_ledger d L) d a = add_usage L d a" by (simp add: add_usage_def fun_eq_iff)
  moreover have "fold (add_usage L d a) (filter (\<lambda>x. at_donor x = d) ts) up = fold (add_usage L d a) ts up" for ts up
    by (induction ts arbitrary: up) (simp_all add: add_usage_def)
  ultimately show ?thesis by (simp add: fund_usage_def)
qed

lemma own_designated [simp]: "designated_by_fund (own_ledger d L) d = designated_by_fund L d"
  by (simp add: designated_by_fund_def) (intro fold_cong refl; simp add: own_shares)

lemma own_view [simp]: "balance_view (own_ledger d L) d = balance_view L d"
  by (simp add: balance_view_def fun_eq_iff)

lemma own_balances [simp]: "allocation_balances (own_ledger d L) d = allocation_balances L d"
  by (simp add: allocation_balances_def)

lemma own_lists [simp]: "own_receipts (own_ledger d L) d = own_receipts L d" "own_impacts (own_workspace d W) d = own_impacts W d"
  by (simp_all add: own_receipts_def own_impacts_def)

lemma map_outcome_cong: "(\<And>x. x \<in> set xs \<Longrightarrow> f x = g x) \<Longrightarrow> map_outcome f xs = map_outcome g xs"
  by (induction xs) simp_all

lemma own_timeline [simp]: "fund_timeline (own_workspace d W) d = fund_timeline W d"
proof -
  have "map_outcome (donation_events (own_ledger d L)) (donor_donations L d) = map_outcome (donation_events L) (donor_donations L d)" for L
    by (rule map_outcome_cong) (simp add: donation_events_def own_shares share_event_def [abs_def])
  then show ?thesis by (simp add: fund_timeline_def Let_def)
qed

lemma own_list [simp]: "list_receipts (own_workspace d W) d = list_receipts W d"
  by (simp add: list_receipts_def)

lemma own_lookup: "dict_ok (receipts L) \<Longrightarrow>
    dget (receipts (own_ledger d L)) k = (case dget (receipts L) k of None \<Rightarrow> None | Some r \<Rightarrow> if r_donor r = d then Some r else None)"
  by (simp add: dget_dfilter)

lemma own_history:
  assumes "dict_ok (receipts L)" "dget (receipts L) rid = Some r" "r_donor r = d"
  shows "correction_history (own_ledger d L) d rid = correction_history L d rid"
proof -
  have "prior_entries (own_ledger d L) d rid = prior_entries L d rid"
    using assms own_lookup [OF assms(1), of d] by (simp add: prior_entries_def split: option.split)
  then show ?thesis by (simp add: correction_history_def)
qed

lemma own_attachments:
  assumes "dict_ok (receipts L)" "dget (receipts L) rid = Some r" "r_donor r = d"
  shows "evidence_safe_attachments (own_ledger d L) d rid = evidence_safe_attachments L d rid"
proof -
  have "r \<in> set (own_receipts L d)" using assms(2,3) by (auto simp: own_receipts_def dest: dget_in_dvalues)
  then have "filter (\<lambda>ev. ev_expense ev = r_expense r \<and> ev_donor_visible ev) (dvalues (evidence (own_ledger d L))) =
      filter (\<lambda>ev. ev_expense ev = r_expense r \<and> ev_donor_visible ev) (dvalues (evidence L))"
    by (auto simp: own_ledger_def own_evidence_def intro!: filter_cong)
  then show ?thesis using assms own_lookup [OF assms(1), of d rid]
    by (simp add: evidence_safe_attachments_def)
qed

interpretation workspace_base: kept_invariant "service_step E A" "\<lambda>_ _. True" "\<lambda>N. ledger_base_inv (tw_ledger (ns_ws N))" for E A
  by unfold_locales (blast intro: effects_keep [OF service_step_effects, of False] effect_base_inv)

lemma service_base_inv: "ledger_base_inv (tw_ledger (ns_ws (service_after E A org cs)))"
  by (rule workspace_base.run_keeps) (simp_all add: empty_workspace_def empty_ledger_base_inv)

text \<open>C13. What a donor is shown depends on nothing but the donor's own records, the funds, the expenses and the evidence
  marked visible: reduced to these, the workspace gives the same dashboard, and the same detail of every receipt
  for which a detail is given at all.\<close>

theorem donor_view_scoped:
  assumes "inj (uuid4_hex E)" "W = ns_ws (service_after E A org cs)"
  shows "donor_dashboard (own_workspace d W) d = donor_dashboard W d \<and>
    (get_receipt_detail W d rid = Inr doc \<longrightarrow> get_receipt_detail (own_workspace d W) d rid = Inr doc)"
proof -
  have ok: "dict_ok (receipts (tw_ledger W))" "dict_ok (tw_impact_receipts W)"
    using service_base_inv [of E A org cs] service_after_impact [OF assms(1), of A org cs] assms(2)
    by (auto simp: ledger_base_inv_def ledger_wf_def wf_stores_def impact_ok_def)
  have "donor_dashboard (own_workspace d W) d = donor_dashboard W d" by (simp add: donor_dashboard_def Let_def)
  moreover have "get_receipt_detail (own_workspace d W) d rid = Inr doc" if g: "get_receipt_detail W d rid = Inr doc"
  proof (cases "dget (receipts (tw_ledger W)) rid")
    case (Some r)
    then have "r_donor r = d" using g by (auto simp: get_receipt_detail_def Let_def bind_o_def split: if_splits sum.splits)
    then show ?thesis using g Some own_lookup [OF ok(1), of d rid] own_history [OF ok(1) Some] own_attachments [OF ok(1) Some]
      by (simp add: get_receipt_detail_def Let_def)
  next
    case None
    then show ?thesis using g own_lookup [OF ok(1), of d rid] ok(2)
      by (auto simp: get_receipt_detail_def Let_def bind_o_def dget_dfilter split: sum.splits option.splits if_splits)
  qed
  ultimately show ?thesis by blast
qed

lemma demo_detail: "\<exists>doc. get_receipt_detail (ns_ws demo_service) ''d'' (demo_id ''uof'' 11) = Inr doc"
proof -
  have L: "tw_ledger (ns_ws demo_service) = snd (read_clock demo_env demo9)" by (simp add: demo_service_eq empty_workspace_def)
  have b: "allocation_balances (snd (read_clock demo_env demo9)) ''d'' = allocation_balances demo9 ''d''"
  proof -
    have "balance_view (snd (read_clock demo_env demo9)) ''d'' = balance_view demo9 ''d''"
      by (simp add: fun_eq_iff read_clock_def balance_view_def fund_of_def fund_usage_def add_usage_def [abs_def])
    moreover have "designated_by_fund (snd (read_clock demo_env demo9)) ''d'' = designated_by_fund demo9 ''d''"
      by (simp add: read_clock_def designated_by_fund_def donor_donations_def shares_of_def)
    ultimately show ?thesis by (simp add: allocation_balances_def) (simp add: check_donor_def read_clock_def)
  qed
  show ?thesis
    by (simp add: get_receipt_detail_def L b [unfolded read_clock_def snd_conv] demo_view bind_o_def correction_history_def evidence_safe_attachments_def check_donor_def
        read_clock_def Let_def)
qed

theorem donor_view_scoped_witness:
  "\<exists>doc. get_receipt_detail (ns_ws demo_service) ''d'' (demo_id ''uof'' 11) = Inr doc \<and>
     get_receipt_detail (own_workspace ''d'' (ns_ws demo_service)) ''d'' (demo_id ''uof'' 11) = Inr doc"
  using donor_view_scoped [OF demo_env_inj demo_service_def [THEN arg_cong, of ns_ws], of "''d''" "demo_id ''uof'' 11"] demo_detail
  by blast

end
