(* ===== verification/Access_Properties.thy ===== *)
theory Access_Properties
  imports Access Donor_Books
begin

text \<open>
  What a principal can read and sign: the guard of the donor API in terms of tenant, identity, roles and the bound
  donor, and the rule that keeps the second signature of a chain from the person who gave the first.
\<close>

section \<open>Permissions of roles\<close>

lemma has_permission_iff: "has_permission p perm \<longleftrightarrow> (\<exists>r \<in> set (pr_roles p). perm \<in> set (role_permissions r))"
  by (simp add: has_permission_def permissions_for_roles_def)

lemma assert_permission_iff:
  "assert_permission p perm tenant = Inr () \<longleftrightarrow>
     (\<forall>t. tenant = Some t \<longrightarrow> pr_tenant p = t) \<and> \<not> is_agent_identity p \<and> has_permission p perm"
  by (cases tenant) (auto simp: assert_permission_def)

lemma assert_permission_tenant: "Inr u = assert_permission p perm tenant \<longleftrightarrow> assert_permission p perm tenant = Inr ()"
  by (metis (full_types) old.unit.exhaust)

text \<open>A role of the staff list.\<close>

definition is_staff :: "principal \<Rightarrow> bool" where
  "is_staff p \<longleftrightarrow> (\<exists>r \<in> set (pr_roles p). r \<noteq> DONOR_ROLE)"

lemma staff_iff: "list_ex (has_role p) staff_roles \<longleftrightarrow> is_staff p"
proof -
  have "r \<in> set staff_roles \<longleftrightarrow> r \<noteq> DONOR_ROLE" for r by (cases r) (simp_all add: staff_roles_def)
  then show ?thesis by (auto simp: is_staff_def has_role_def list_ex_iff)
qed

text \<open>The condition the guard decides.\<close>

definition may_read :: "principal \<Rightarrow> string \<Rightarrow> string \<Rightarrow> bool" where
  "may_read p org d \<longleftrightarrow> pr_tenant p = org \<and> \<not> is_agent_identity p \<and> has_permission p RECEIPT_READ \<and>
     (is_staff p \<or> raw_claim p ''donor_id'' = JStr d)"

lemma donor_access_iff:
  "assert_donor_access N d (Some p) = Inr () \<longleftrightarrow> may_read p (org_id (tw_org (ns_ws N))) d"
  by (cases "assert_permission p RECEIPT_READ (Some (org_id (tw_org (ns_ws N))))")
    (use assert_permission_iff [of p RECEIPT_READ "Some (org_id (tw_org (ns_ws N)))"] in
      \<open>auto simp: assert_donor_access_def bind_o_def may_read_def staff_iff split: json.splits\<close>)

lemma donor_access_refused:
  assumes "\<not> may_read p (org_id (tw_org (ns_ws N))) d"
  shows "\<exists>m. assert_donor_access N d (Some p) = Inl (AuthorizationError m)"
proof -
  have "\<exists>m. assert_permission p perm t = Inl (AuthorizationError m)" if "assert_permission p perm t \<noteq> Inr ()" for perm t
    using that by (auto simp: assert_permission_def split: if_splits)
  then show ?thesis using assms assert_permission_iff [of p RECEIPT_READ "Some (org_id (tw_org (ns_ws N)))"]
    by (cases "assert_permission p RECEIPT_READ (Some (org_id (tw_org (ns_ws N)))) = Inr ()")
      (fastforce simp: assert_donor_access_def bind_o_def may_read_def staff_iff split: json.splits)+
qed

section \<open>What the donor API lets through\<close>

definition demo_principal :: "role list \<Rightarrow> principal" where
  "demo_principal rs = \<lparr>pr_subject = ''sub'', pr_tenant = ''o'', pr_email = ''ann@example.org'', pr_roles = rs,
     pr_display_name = [], pr_issuer = None, pr_claims = [(''donor_id'', JStr ''d'')]\<rparr>"

text \<open>C14. The donor API answers a principal only within the principal's tenant, never an agent, and only about the donor
  bound to the principal unless the principal holds a role of the staff; a principal it refuses gets an authorization
  error, for a write the state is then unchanged, and an accepted write changes nothing but the one preference.\<close>

theorem donor_api_guarded:
  "let ok = may_read p (org_id (tw_org (ns_ws N))) d in
   (ok \<longrightarrow> donor_api_read N d (Some p) q = donor_answer N d q) \<and>
   (\<not> ok \<longrightarrow> (\<exists>m. donor_api_read N d (Some p) q = Inl (AuthorizationError m) \<and>
      set_notification_preference d ch on topics cadence qs qe (Some p) N = (Inl (AuthorizationError m), N))) \<and>
   (\<exists>prefs. snd (set_notification_preference d ch on topics cadence qs qe (Some p) N) =
        N\<lparr>ns_ws := (ns_ws N)\<lparr>tw_preferences := prefs\<rparr>\<rparr> \<and>
      (\<forall>d' c. d' \<noteq> d \<or> c \<noteq> ch \<longrightarrow> dget prefs (d', c) = dget (tw_preferences (ns_ws N)) (d', c)))"
proof -
  have *: "\<exists>prefs. snd (set_notification_preference d ch on topics cadence qs qe (Some p) N) =
        N\<lparr>ns_ws := (ns_ws N)\<lparr>tw_preferences := prefs\<rparr>\<rparr> \<and>
      (\<forall>d' c. d' \<noteq> d \<or> c \<noteq> ch \<longrightarrow> dget prefs (d', c) = dget (tw_preferences (ns_ws N)) (d', c))"
  proof -
    have keep: "N = N\<lparr>ns_ws := (ns_ws N)\<lparr>tw_preferences := tw_preferences (ns_ws N)\<rparr>\<rparr>" by simp
    have val: "channel_value c = ch" if "of_value channel_value all_channels ch = Inr c" for c
      using that by (auto simp: of_value_def find_Some_iff split: option.splits)
    show ?thesis
      by (cases "assert_donor_access N d (Some p)"; cases "of_value channel_value all_channels ch")
        (auto simp: set_notification_preference_def set_preference_def Let_def dest!: val
          intro: keep exI [of _ "tw_preferences (ns_ws N)"])
  qed
  show ?thesis
    using * donor_access_iff [of N d p] donor_access_refused [of p N d]
    by (auto simp: Let_def donor_api_read_def bind_o_def set_notification_preference_def)
qed

theorem donor_api_guarded_witness:
  "donor_api_read demo_service ''d'' (Some (demo_principal [DONOR_ROLE])) ReadPreferences = donor_answer demo_service ''d'' ReadPreferences \<and>
   (\<exists>m. donor_api_read demo_service ''e'' (Some (demo_principal [DONOR_ROLE])) ReadPreferences = Inl (AuthorizationError m))"
proof -
  have "may_read (demo_principal [DONOR_ROLE]) (org_id (tw_org (ns_ws demo_service))) ''d''"
    and "\<not> may_read (demo_principal [DONOR_ROLE]) (org_id (tw_org (ns_ws demo_service))) ''e''"
    by (simp_all add: may_read_def demo_principal_def is_agent_identity_def has_permission_iff is_staff_def raw_claim_def)
  note may = this
  show ?thesis
    using donor_api_guarded [of "demo_principal [DONOR_ROLE]" demo_service "''d''" ReadPreferences "''EMAIL''" True "[]" "[]" None None] may(1)
      donor_api_guarded [of "demo_principal [DONOR_ROLE]" demo_service "''e''" ReadPreferences "''EMAIL''" True "[]" "[]" None None] may(2)
    by (simp add: Let_def) blast
qed

text \<open>Permission and scope come from different roles: a program verifier may read no donor, a donor only the
  donor bound at login, but a program verifier who also gives is answered about every donor.\<close>

theorem roles_mix:
  "\<not> may_read (demo_principal [PROGRAM_VERIFIER]) ''o'' d \<and> (may_read (demo_principal [DONOR_ROLE]) ''o'' d \<longleftrightarrow> d = ''d'') \<and>
   may_read (demo_principal [DONOR_ROLE, PROGRAM_VERIFIER]) ''o'' d"
  by (auto simp: may_read_def demo_principal_def is_agent_identity_def has_permission_iff is_staff_def raw_claim_def)


text \<open>C31. Reading is enough to write: an auditor, whose role only lists and reads, sets any donor's notification preferences,
  and the notification service obeys them.\<close>

theorem reader_writes_preferences:
  assumes "pr_roles p = [AUDITOR]" "pr_tenant p = org_id (tw_org (ns_ws N))" "\<not> is_agent_identity p"
    and "dhas (donors (tw_ledger (ns_ws N))) d"
  shows "\<exists>doc N'. set_notification_preference d ''EMAIL'' False topics cadence qs qe (Some p) N = (Inr doc, N') \<and>
    \<not> pref_allows (ns_ws N') d EMAIL mc"
proof -
  have "may_read p (org_id (tw_org (ns_ws N))) d"
    using assms by (simp add: may_read_def has_permission_iff is_staff_def)
  then have "assert_donor_access N d (Some p) = Inr ()" using donor_access_iff by blast
  moreover have "of_value channel_value all_channels ''EMAIL'' = Inr EMAIL"
    by (simp add: of_value_def all_channels_def)
  ultimately show ?thesis using assms(4)
    by (simp add: set_notification_preference_def set_preference_def pref_allows_def Let_def)
qed

theorem reader_writes_preferences_witness:
  "\<exists>doc N'. set_notification_preference ''d'' ''EMAIL'' False [] ''immediate'' None None (Some (demo_principal [AUDITOR])) demo_service =
      (Inr doc, N') \<and> \<not> pref_allows (ns_ws N') ''d'' EMAIL MONEY_USED"
proof (rule reader_writes_preferences)
  show "pr_roles (demo_principal [AUDITOR]) = [AUDITOR]" by (simp add: demo_principal_def)
  show "pr_tenant (demo_principal [AUDITOR]) = org_id (tw_org (ns_ws demo_service))" by (simp add: demo_principal_def)
  show "\<not> is_agent_identity (demo_principal [AUDITOR])" by (simp add: demo_principal_def is_agent_identity_def)
  show "dhas (donors (tw_ledger (ns_ws demo_service))) ''d''" by simp
qed

end
