(* ===== verification/Console_Properties.thy ===== *)
theory Console_Properties
  imports Console Access_Properties Runtime_Safety
begin

text \<open>
  Who reaches what through the host: the routes of the console without a login, the conditions under which a request
  changes the workspace, and what the approval of a host does and does not check.
\<close>

section \<open>Nobody\<close>

lemma nobody_without_fixture:
  "request_principal decode cfg rq True = Inr None \<Longrightarrow> request_principal decode cfg rq False = Inr None"
  by (auto simp: request_principal_def resolve_principal_from_request_def Let_def split: if_splits option.splits)

lemma require_login_nobody:
  assumes "request_principal decode cfg rq True = Inr None" "\<not> sc_pilot cfg"
  shows "\<exists>m. require_login decode cfg rq = Inl (AuthenticationRequired m)"
  using assms by (simp add: require_login_def raised_def)

lemma require_tenant_admin_nobody:
  assumes "request_principal decode cfg rq True = Inr None"
  shows "require_tenant_admin decode cfg rq = Inl (AuthenticationRequired ''admin endpoint requires authentication'')"
  using nobody_without_fixture [OF assms] by (simp add: require_tenant_admin_def raised_def)

definition is_health :: "request \<Rightarrow> bool" where
  "is_health rq \<longleftrightarrow> match_path rq [Some ''health''] = Some []"

text \<open>C15. Outside the unauthenticated pilot a request without an identity gets nothing but the health report: every other
  route answers that authentication is required or that there is no such route, and nothing changes.\<close>

theorem console_default_deny:
  assumes "\<not> sc_pilot cfg" "request_principal decode cfg rq True = Inr None"
  shows "(\<not> is_health rq \<longrightarrow> fst (do_get H decode cfg reg snap rq D) \<in> {401, 404}) \<and>
    fst (fst (do_post H decode cfg files rq D)) \<in> {401, 404} \<and> snd (do_post H decode cfg files rq D) = D"
proof -
  obtain m where m: "require_login decode cfg rq = Inl (AuthenticationRequired m)"
    using require_login_nobody [OF assms(2,1)] by blast
  note no = m require_tenant_admin_nobody [OF assms(2)]
  have "fst (do_get H decode cfg reg snap rq D) \<in> {401, 404}" if "\<not> is_health rq"
    using that
    by (simp add: do_get_def route_get_def is_health_def finance_session_def donor_route_def donor_session_def no
        split: option.split)
  moreover have "fst (fst (do_post H decode cfg files rq D)) \<in> {401, 404} \<and> snd (do_post H decode cfg files rq D) = D"
    by (simp add: do_post_def route_post_def finance_session_def no split: option.split)
  ultimately show ?thesis by blast
qed

subsection \<open>A console to try it on\<close>

definition demo_host_env :: "in_process_adapter host_env" where
  "demo_host_env = \<lparr>he_rt = demo_runtime, he_api = in_process_api, he_boot = (\<lambda>_. True), he_load = (\<lambda>_. Inr []), he_rnd = (\<lambda>_. 0)\<rparr>"

definition demo_config :: server_config where
  "demo_config = \<lparr>sc_tenant = ''org_hacker_dojo'', sc_pilot = False, sc_trusted = False, sc_max_body = 1048576, sc_origins = [],
     sc_provider = None\<rparr>"

definition no_tokens :: token_decoder where
  "no_tokens = (\<lambda>_ _. Inl ''DecodeError: Not enough segments'')"

definition demo_request :: "(string, string) dict \<Rightarrow> string \<Rightarrow> request" where
  "demo_request h path = \<lparr>rq_headers = h, rq_path = path, rq_query = [], rq_json = None\<rparr>"

definition demo_files :: seed_source where
  "demo_files = \<lparr>ss_rows = (\<lambda>_. Inr []), ss_base = (\<lambda>_. Inr (empty_ledger demo_org)), ss_default = empty_ledger demo_org\<rparr>"

lemma demo_anonymous: "request_principal no_tokens demo_config (demo_request [] path) True = Inr None"
  by (simp add: request_principal_def resolve_principal_from_request_def demo_request_def demo_config_def header_text_def strip_def Let_def)

theorem console_default_deny_witness:
  "fst (do_get demo_host_env no_tokens demo_config (Inr None) None (demo_request [] ''/api/finance/queue'') None) \<in> {401, 404}"
proof -
  have "\<not> is_health (demo_request [] ''/api/finance/queue'')" by code_simp
  moreover have "\<not> sc_pilot demo_config" by (simp add: demo_config_def)
  ultimately show ?thesis using console_default_deny [OF _ demo_anonymous] by blast
qed

section \<open>Writes\<close>

text \<open>What the principal of an approval must be.\<close>

definition may_approve :: "principal \<Rightarrow> string \<Rightarrow> string option \<Rightarrow> bool" where
  "may_approve p tenant proposer \<longleftrightarrow> pr_tenant p = tenant \<and> \<not> is_agent_identity p \<and>
     has_permission p WORKFLOW_APPROVE_EXPENSE \<and> \<not> (present proposer \<and> the proposer \<in> set (identities p))"

lemma separation_iff:
  "assert_separation_of_duties p action proposer prior hard dual = Inr () \<longleftrightarrow>
     \<not> is_agent_identity p \<and> (hard \<longrightarrow> \<not> (present proposer \<and> the proposer \<in> set (identities p)) \<and>
       (dual \<longrightarrow> action \<in> set DUAL_CONTROL_ACTIONS \<longrightarrow> present prior \<longrightarrow> the prior \<notin> set (identities p)))"
  by (auto simp: assert_separation_of_duties_def violates_dual_control_def)

lemma approval_refusal_iff:
  assumes "hs_principal s = Some p"
  shows "approval_refusal s proposer = None \<longleftrightarrow> may_approve p (hs_tenant s) (or_else proposer (hs_last_proposer s))"
proof -
  have "gate s WORKFLOW_APPROVE_EXPENSE = None \<longleftrightarrow> assert_permission p WORKFLOW_APPROVE_EXPENSE (Some (hs_tenant s)) = Inr ()"
    using assms by (auto simp: gate_def split: sum.split)
  then show ?thesis
    using assms assert_permission_iff [of p WORKFLOW_APPROVE_EXPENSE "Some (hs_tenant s)"]
      separation_iff [of p "''approve_expense''" "or_else proposer (hs_last_proposer s)" None True True]
    by (auto simp: approval_refusal_def may_approve_def split: option.splits sum.splits)
qed

lemma actor_human:
  assumes "hs_principal s = Some p" "may_approve p t proposer"
  shows "session_actor s approver = approver_id p" "\<not> starts_with ''agent:'' (approver_id p)"
  using assms by (auto simp: session_actor_def may_approve_def is_agent_identity_def approver_id_def text_else_def)

lemma host_approve_allowed:
  assumes "hs_principal s = Some p" "may_approve p (hs_tenant s) (or_else proposer (hs_last_proposer s))"
  shows "host_approve H s w approver proposer D = durable_approve H w (approver_id p) D"
proof -
  have "approval_refusal s proposer = None" using assms approval_refusal_iff by simp
  then show ?thesis by (simp add: host_approve_def actor_human [OF assms])
qed

lemma finance_session_fields:
  assumes "finance_session decode cfg rq = Inr s"
  shows "request_principal decode cfg rq True = Inr (hs_principal s)" "hs_tenant s = sc_tenant cfg" "hs_last_proposer s = None"
    "\<not> sc_pilot cfg \<Longrightarrow> hs_principal s \<noteq> None"
  using assms
  by (auto simp: finance_session_def require_login_def raised_def bind_a_def open_host_session_def split: sum.splits if_splits)

definition approve_route :: "request \<Rightarrow> string option" where
  "approve_route rq = map_option hd (match_path rq [Some ''finance'', Some ''cases'', None, Some ''approve''])"

definition seed_route :: "request \<Rightarrow> bool" where
  "seed_route rq \<longleftrightarrow> match_path rq [Some ''pilot'', Some ''seed''] = Some []"

text \<open>C16. Outside the unauthenticated pilot a request changes the workspace only if it comes from a principal: one whose
  roles allow seeding, on the seed route, or, on the approval route, a human of the console's tenant who may approve expenses
  and is not the proposer the body names; the case is then approved under the principal's own identity, whatever approver
  the body names.\<close>

theorem console_writes_authorized:
  assumes "\<not> sc_pilot cfg" "snd (do_post H decode cfg files rq D) \<noteq> D"
  shows "\<exists>p. request_principal decode cfg rq True = Inr (Some p) \<and>
    (seed_route rq \<and> may_seed p \<or>
     (\<exists>w body d. approve_route rq = Some w \<and> read_body cfg rq = Inr body \<and> D = Some d \<and>
        may_approve p (sc_tenant cfg) (body_text body ''proposer_id'') \<and>
        snd (do_post H decode cfg files rq D) = Some (snd (durable_approve H (Some w) (approver_id p) d))))"
proof -
  consider (seed) "seed_route rq" | (approve) ws where "\<not> seed_route rq" "match_path rq [Some ''finance'', Some ''cases'', None, Some ''approve''] = Some ws"
    | (other) "\<not> seed_route rq" "match_path rq [Some ''finance'', Some ''cases'', None, Some ''approve''] = None" by blast
  then show ?thesis
  proof cases
    case seed
    then obtain s body where sb: "finance_session decode cfg rq = Inr s" "read_body cfg rq = Inr body"
      and ch: "snd (run_seed H s files body D) \<noteq> D"
      using assms(2) by (auto simp: do_post_def route_post_def seed_route_def bind_a_def split_beta split: sum.splits)
    obtain p where p: "hs_principal s = Some p" using finance_session_fields(4) [OF sb(1) assms(1)] by blast
    have "may_seed p" using ch p by (auto simp: run_seed_def seed_refusal_def Let_def split: if_splits)
    then show ?thesis using seed finance_session_fields(1) [OF sb(1)] p by auto
  next
    case approve
    then obtain s body where sb: "finance_session decode cfg rq = Inr s" "read_body cfg rq = Inr body"
      and eq: "snd (do_post H decode cfg files rq D) = snd (run_approve H s (hd ws) body D)"
      using assms(2) by (auto simp: do_post_def route_post_def seed_route_def bind_a_def split_beta split: sum.splits)
    have ch: "snd (run_approve H s (hd ws) body D) \<noteq> D" using assms(2) eq by simp
    obtain p where p: "hs_principal s = Some p" using finance_session_fields(4) [OF sb(1) assms(1)] by blast
    let ?by = "body_text body ''proposer_id''"
    have none: "approval_refusal s ?by = None" using ch by (auto simp: run_approve_def Let_def split: option.splits)
    then have may: "may_approve p (hs_tenant s) (or_else ?by (hs_last_proposer s))" using approval_refusal_iff [OF p] by simp
    then have may': "may_approve p (sc_tenant cfg) ?by" using finance_session_fields(2,3) [OF sb(1)]
      by (auto simp: may_approve_def or_else_def)
    obtain d where d: "D = Some d" using ch none by (cases D) (auto simp: run_approve_def Let_def split: if_splits)
    have "snd (run_approve H s (hd ws) body D) = Some (snd (durable_approve H (Some (hd ws)) (approver_id p) d))"
      using none d p by (simp add: run_approve_def Let_def bad_approver_def split_beta host_approve_allowed [OF p may])
    then show ?thesis using approve sb(2) d p may' eq finance_session_fields(1) [OF sb(1)]
      by (auto simp: approve_route_def)
  next
    case other
    then show ?thesis using assms(2) by (auto simp: do_post_def route_post_def seed_route_def split: if_splits)
  qed
qed

lemma demo_finance: "\<exists>p. request_principal no_tokens demo_config
    (demo_request [(''Authorization'', ''Bearer finance@hackersdojo.org'')] path) True = Inr (Some p) \<and> pr_roles p = [FINANCE_APPROVER]"
proof -
  have "drop_bearer ''Bearer finance@hackersdojo.org'' = ''finance@hackersdojo.org''" by code_simp
  moreover have "strip ''finance@hackersdojo.org'' = ''finance@hackersdojo.org''" by code_simp
  moreover have "fixture_principal hacker_dojo_fixture_oidc ''finance@hackersdojo.org'' = Inr
    \<lparr>pr_subject = ''fixture|finance@hackersdojo.org'', pr_tenant = ''org_hacker_dojo'', pr_email = ''finance@hackersdojo.org'',
     pr_roles = [FINANCE_APPROVER], pr_display_name = ''finance@hackersdojo.org'', pr_issuer = Some ''fixture://oidc'',
     pr_claims = [(''token'', JStr ''finance@hackersdojo.org'')]\<rparr>" by code_simp
  ultimately show ?thesis
    by (simp add: request_principal_def resolve_principal_from_request_def demo_request_def demo_config_def header_text_def
        strip_def Let_def nobody_on_value_error_def)
qed

definition seed_request :: request where
  "seed_request = demo_request [(''Authorization'', ''Bearer finance@hackersdojo.org'')] ''/api/pilot/seed''"

lemma demo_seeds: "snd (do_post demo_host_env no_tokens demo_config demo_files seed_request None) \<noteq> None"
proof -
  have route: "match_path seed_request [Some ''pilot'', Some ''seed''] = Some []" by code_simp
  obtain p where p: "request_principal no_tokens demo_config seed_request True = Inr (Some p)" "pr_roles p = [FINANCE_APPROVER]"
    using demo_finance unfolding seed_request_def by blast
  have "finance_session no_tokens demo_config seed_request = Inr (open_host_session ''org_hacker_dojo'' [] True (Some p))"
    using p by (simp add: finance_session_def require_login_def raised_def demo_config_def)
  moreover have "read_body demo_config seed_request = Inr []"
    by (simp add: read_body_def demo_config_def seed_request_def demo_request_def header_text_def strip_def Let_def)
  moreover have "snd (run_seed demo_host_env (open_host_session ''org_hacker_dojo'' [] True (Some p)) demo_files [] None) \<noteq> None"
    using p(2) by (simp add: run_seed_def seed_refusal_def open_host_session_def may_seed_def has_permission_iff demo_files_def
        Let_def split_beta)
  ultimately show ?thesis using route by (simp add: do_post_def route_post_def split_beta)
qed

theorem console_writes_authorized_witness:
  "\<exists>p. request_principal no_tokens demo_config seed_request True = Inr (Some p) \<and> seed_route seed_request \<and> may_seed p"
proof -
  have "approve_route seed_request = None" by code_simp
  moreover have "\<not> sc_pilot demo_config" by (simp add: demo_config_def)
  ultimately show ?thesis using console_writes_authorized [OF _ demo_seeds] by auto
qed

section \<open>Where an identity comes from\<close>

lemma read_roles_Nil: "read_roles ss = Inr [] \<Longrightarrow> ss = []"
  by (cases ss) (auto simp: bind_o_def split: sum.splits)

lemma claims_roles:
  assumes "principal_from_claims c t m df = Inr p"
  shows "pr_roles p \<noteq> [] \<and> pr_subject p = cl_sub c \<and>
    pr_email p = strip (if present (cl_email c) then the (cl_email c) else cl_sub c) \<and>
    read_roles (role_names c (pr_email p) m df) = Inr (pr_roles p)"
  using assms read_roles_Nil by (fastforce simp: principal_from_claims_def Let_def bind_o_def split: if_splits sum.splits)

lemma directory_keys:
  "dget HACKER_DOJO_FIXTURE_ROLE_MAP e = Some names \<Longrightarrow> strip e = e"
  "directory_roles HACKER_DOJO_FIXTURE_ROLE_MAP (''fixture|'' @ e) = []"
  by (auto simp: HACKER_DOJO_FIXTURE_ROLE_MAP_def directory_roles_def strip_def is_space_def split: if_splits)

lemma fixture_roles:
  assumes "fixture_principal hacker_dojo_fixture_oidc token = Inr p"
  shows "\<exists>names. dget HACKER_DOJO_FIXTURE_ROLE_MAP (pr_email p) = Some names \<and> read_roles names = Inr (pr_roles p)"
proof -
  obtain c where c: "fixture_claims hacker_dojo_fixture_oidc token = Inr c"
    and p: "principal_from_claims c CANONICAL_PILOT_TENANT_ID HACKER_DOJO_FIXTURE_ROLE_MAP [] = Inr p"
    using assms by (auto simp: fixture_principal_def bind_o_def hacker_dojo_fixture_oidc_def split: sum.splits)
  note r = claims_roles [OF p]
  obtain e where e: "cl_email c = Some e" "e \<noteq> []" "cl_sub c = ''fixture|'' @ e" "cl_roles c = directory_roles HACKER_DOJO_FIXTURE_ROLE_MAP e"
    using c by (auto simp: fixture_claims_def hacker_dojo_fixture_oidc_def Let_def split: if_splits)
  have email: "pr_email p = strip e" using r e by simp
  have "directory_roles HACKER_DOJO_FIXTURE_ROLE_MAP (strip e) \<noteq> [] \<and>
      role_names c (strip e) HACKER_DOJO_FIXTURE_ROLE_MAP [] = directory_roles HACKER_DOJO_FIXTURE_ROLE_MAP (strip e)"
  proof (cases "dget HACKER_DOJO_FIXTURE_ROLE_MAP e")
    case None
    have "role_names c (strip e) HACKER_DOJO_FIXTURE_ROLE_MAP [] = directory_roles HACKER_DOJO_FIXTURE_ROLE_MAP (strip e)"
      using None e directory_keys(2) by (simp add: role_names_def first_list_def directory_roles_def)
    then show ?thesis using r email by (auto dest!: sym [of "Inr _" "read_roles _"]) 
  next
    case (Some names)
    then have "strip e = e" by (rule directory_keys)
    then show ?thesis using r e email directory_keys(2) by (auto simp: role_names_def first_list_def)
  qed
  then show ?thesis using r email by (auto simp: directory_roles_def split: option.splits)
qed

fun keys_of :: "identity_provider \<Rightarrow> jwks_provider" where
  "keys_of (Jwks P) = P" | "keys_of (Supabase P) = P"

lemma validated:
  assumes "validate_access_token decode P token = Inr c"
  shows "\<exists>raw payload. decode P raw = Inr payload \<and> cl_sub c = json_str (obj_get payload ''sub'') \<and> cl_raw c = payload"
  using assms
  by (auto simp: validate_access_token_def Let_def bind_o_def jor_def split: if_splits sum.splits)

lemma token_verified:
  assumes "principal_for_token decode P token = Inr p"
  shows "pr_roles p \<noteq> [] \<and> (\<exists>raw payload. decode (keys_of P) raw = Inr payload \<and> pr_subject p = json_str (obj_get payload ''sub''))"
proof (cases P)
  case (Jwks Q)
  then obtain c where "validate_access_token decode Q token = Inr c" "principal_from_claims c (jp_tenant Q) (jp_role_map Q) (jp_defaults Q) = Inr p"
    using assms by (auto simp: bind_o_def split: sum.splits)
  then show ?thesis using claims_roles validated Jwks by fastforce
next
  case (Supabase Q)
  then obtain c where c: "validate_access_token decode Q token = Inr c" "principal_from_supabase_claims c (jp_tenant Q) = Inr p"
    using assms by (auto simp: bind_o_def split: sum.splits)
  then have "pr_roles p \<noteq> [] \<and> pr_subject p = cl_sub c"
    by (auto simp: principal_from_supabase_claims_def Let_def split: json.splits list.splits if_splits)
  then show ?thesis using validated [OF c(1)] Supabase by fastforce
qed


lemma header_principal:
  assumes "principal_from_host_headers email campaign subject tenant display roles = Inr p"
  shows "pr_roles p \<noteq> [] \<and> pr_email p = email \<and> pr_tenant p = tenant \<and> \<not> starts_with ''agent:'' email"
  using assms by (auto simp: principal_from_host_headers_def bind_o_def split: if_splits sum.splits)

text \<open>C17. An identity comes from where the configuration says: from the gateway's headers only behind a trusted proxy and then
  for the console's own tenant, with an identity provider only from a token whose payload it verified, and else only from
  the directory of the fixtures. Whoever is identified has a role.\<close>

theorem request_identity_sources:
  assumes "request_principal decode cfg rq fixture = Inr (Some p)"
  shows "pr_roles p \<noteq> [] \<and>
    (sc_trusted cfg \<and> pr_email p = header_text (rq_headers rq) ''X-Impact-Email'' \<and> pr_tenant p = sc_tenant cfg \<or>
     (\<exists>P raw payload. sc_provider cfg = Some P \<and> decode (keys_of P) raw = Inr payload \<and>
        pr_subject p = json_str (obj_get payload ''sub'')) \<or>
     sc_provider cfg = None \<and> fixture \<and>
       (\<exists>names. dget HACKER_DOJO_FIXTURE_ROLE_MAP (pr_email p) = Some names \<and> read_roles names = Inr (pr_roles p)))"
proof -
  let ?h = "rq_headers rq"
  let ?proxy = "sc_trusted cfg \<and> header_text ?h ''X-Impact-Email'' \<noteq> [] \<and>
    (header_text ?h ''X-HD-Campaign-Role'' \<noteq> [] \<or> header_text ?h ''X-Impact-Roles'' \<noteq> [])"
  have known: "v = Inr p" if "nobody_on_value_error v = Inr (Some p)" for v
    using that by (auto simp: nobody_on_value_error_def split: sum.splits py_exn.splits)
  show ?thesis
  proof (cases ?proxy)
    case True
    then show ?thesis using assms
      by (auto simp: request_principal_def resolve_principal_from_request_def Let_def
          dest!: header_principal split: sum.splits py_exn.splits)
  next
    case False
    then consider P token where "sc_provider cfg = Some P" "principal_for_token decode P token = Inr p"
      | token where "sc_provider cfg = None" fixture "fixture_principal hacker_dojo_fixture_oidc token = Inr p"
      using assms
      by (auto simp: request_principal_def resolve_principal_from_request_def Let_def dest!: known split: if_splits option.splits)
    then show ?thesis
    proof cases
      case 1
      then show ?thesis using token_verified by fastforce
    next
      case 2
      then show ?thesis using fixture_roles [OF 2(3)] by (auto simp: fixture_principal_def bind_o_def dest!: claims_roles split: sum.splits)
    qed
  qed
qed

theorem request_identity_sources_witness:
  "\<exists>p names. request_principal no_tokens demo_config
     (demo_request [(''Authorization'', ''Bearer finance@hackersdojo.org'')] ''/api/pilot/seed'') True = Inr (Some p) \<and>
   dget HACKER_DOJO_FIXTURE_ROLE_MAP (pr_email p) = Some names \<and> read_roles names = Inr (pr_roles p)"
proof -
  obtain p where p: "request_principal no_tokens demo_config
     (demo_request [(''Authorization'', ''Bearer finance@hackersdojo.org'')] ''/api/pilot/seed'') True = Inr (Some p)"
    using demo_finance by blast
  from request_identity_sources [OF p] show ?thesis using p by (auto simp: demo_config_def)
qed

end
