(* ===== verification/Console_Gaps.thy ===== *)
theory Console_Gaps
  imports Console_Properties
begin

text \<open>
  What the approval and the donor API of a host do not check: which gate an approval signs, who proposed the case, and
  whether a preference is kept.
\<close>

section \<open>A session and a waiting case\<close>

definition demo_session :: "principal \<Rightarrow> host_session" where
  "demo_session p = open_host_session ''o'' [] True (Some p)"

definition demo_workspace :: "workflow_state \<Rightarrow> in_process_adapter durable_workspace" where
  "demo_workspace st = \<lparr>dw_runtime = \<lparr>rt_store = demo_store st WAITING_SIGNAL, rt_workspaces = [(''o'', empty_workspace demo9)]\<rparr>,
     dw_tenant = ''o''\<rparr>"

definition demo_case :: "workflow_state \<Rightarrow> operator_case" where
  "demo_case st = \<lparr>oc_workflow = ''w'', oc_tenant = ''o'', oc_business_key = ''e'', oc_state = workflow_state_value st,
     oc_run_status = ''WAITING_SIGNAL'', oc_attempts = 0, oc_last_error = None, oc_deadline = Some ''xx'', oc_key = JStr ''k'',
     oc_bucket = ''waiting''\<rparr>"

lemma demo_cases:
  "list_operator_cases (rt_store (dw_runtime (demo_workspace PUBLICATION_PENDING))) (dw_tenant (demo_workspace PUBLICATION_PENDING))
     (Some [''waiting'']) 200 = Inr [demo_case PUBLICATION_PENDING]"
proof -
  have "wanted_buckets (Some [''waiting'']) = [''waiting'']" by code_simp
  moreover have "instance_to_case (demo_instance PUBLICATION_PENDING WAITING_SIGNAL) = Inr (demo_case PUBLICATION_PENDING)"
    by (simp add: instance_to_case_def case_key_def demo_instance_def demo_case_def or_empty_def obj_get_def bucket_def)
  moreover have "oc_bucket (demo_case PUBLICATION_PENDING) = ''waiting''" by (simp add: demo_case_def)
  ultimately show ?thesis
    by (simp add: list_operator_cases_def demo_workspace_def list_instances_def demo_instance_def)
qed

lemma demo_may_approve: "may_approve (demo_principal [FINANCE_APPROVER]) ''o'' None"
  by (simp add: may_approve_def demo_principal_def is_agent_identity_def has_permission_iff)

lemma demo_session_fields [simp]:
  "hs_principal (demo_session p) = Some p" "hs_tenant (demo_session p) = ''o''" "hs_last_proposer (demo_session p) = None"
  by (simp_all add: demo_session_def open_host_session_def)

section \<open>What the approval of a host does not check\<close>

text \<open>C28. A host signs every gate alike: whoever may approve expenses signs the waiting case, whatever state it waits in, with an
  approval in the role of a finance approver. A principal with that role alone thereby signs publications and messages,
  for which the role has no permission, and the same person signs every gate of a chain, where the rule of dual control
  would refuse the second signature.\<close>

theorem host_signs_every_gate:
  assumes "hs_principal s = Some p" "may_approve p (hs_tenant s) (or_else proposer (hs_last_proposer s))" "approver_id p \<noteq> []"
    and "list_operator_cases (rt_store (dw_runtime D)) (dw_tenant D) (Some [''waiting'']) 200 = Inr cs" "cs \<noteq> []"
    and "pick_case w cs = Some c" "truthy (oc_key c)"
  shows "(\<exists>a. app_decision a = ''APPROVE'' \<and> app_approver a = approver_id p \<and> app_role a = ''finance_approver'' \<and>
      host_approve H s w approver proposer D = sign_and_pump H c a D) \<and>
    (pr_roles p = [FINANCE_APPROVER] \<longrightarrow> \<not> has_permission p WORKFLOW_APPROVE_PUBLISH \<and> \<not> has_permission p WORKFLOW_APPROVE_SEND) \<and>
    assert_separation_of_duties p ''approve_publish'' None (Some (approver_id p)) True True \<noteq> Inr ()"
proof -
  let ?a = "operator_approval H (ws_clock (rt_store (dw_runtime D))) (dw_tenant D) c (approver_id p)"
  have "make_approval ?a = Inr ?a" using assms(3) by (simp add: make_approval_def operator_approval_def)
  moreover have "\<not> starts_with ''agent:'' (approver_id p)" by (rule actor_human [OF assms(1,2)])
  ultimately have "host_approve H s w approver proposer D = sign_and_pump H c ?a D"
    unfolding host_approve_allowed [OF assms(1,2)] using assms(4-7) by (simp add: durable_approve_def Let_def)
  moreover have "app_decision ?a = ''APPROVE'' \<and> app_approver ?a = approver_id p \<and> app_role ?a = ''finance_approver''"
    by (simp add: operator_approval_def)
  moreover have "assert_separation_of_duties p ''approve_publish'' None (Some (approver_id p)) True True \<noteq> Inr ()"
    using assms(3) by (simp add: separation_iff DUAL_CONTROL_ACTIONS_def identities_def)
  ultimately show ?thesis by (auto simp: has_permission_iff)
qed

theorem host_signs_every_gate_witness:
  "\<exists>a. app_role a = ''finance_approver'' \<and>
     host_approve demo_host_env (demo_session (demo_principal [FINANCE_APPROVER])) (Some ''w'') None None (demo_workspace PUBLICATION_PENDING) =
       sign_and_pump demo_host_env (demo_case PUBLICATION_PENDING) a (demo_workspace PUBLICATION_PENDING)"
proof -
  let ?p = "demo_principal [FINANCE_APPROVER]"
  have may: "may_approve ?p (hs_tenant (demo_session ?p)) (or_else None (hs_last_proposer (demo_session ?p)))"
    using demo_may_approve by (simp add: or_else_def)
  have id: "approver_id ?p \<noteq> []" by (simp add: approver_id_def demo_principal_def text_else_def)
  have pick: "pick_case (Some ''w'') [demo_case PUBLICATION_PENDING] = Some (demo_case PUBLICATION_PENDING)"
    by (simp add: pick_case_def demo_case_def)
  have key: "truthy (oc_key (demo_case PUBLICATION_PENDING))" by (simp add: demo_case_def)
  from host_signs_every_gate [OF demo_session_fields(1) may id demo_cases _ pick key, of demo_host_env None] show ?thesis by auto
qed

text \<open>C29. The proposer is whom the request names: a body that names the principal is refused, and the same principal's body that
  names nobody is accepted as if nobody had proposed the case.\<close>

theorem proposer_is_claimed:
  assumes "hs_principal s = Some p" "hs_last_proposer s = None" "approver_id p \<noteq> []"
    and "pr_tenant p = hs_tenant s" "\<not> is_agent_identity p" "has_permission p WORKFLOW_APPROVE_EXPENSE"
  shows "(\<exists>m. host_approve H s w approver (Some (approver_id p)) D = (Inr (refusal ''separation_of_duties'' m), D)) \<and>
    host_approve H s w approver None D = durable_approve H w (approver_id p) D"
proof
  have "may_approve p (hs_tenant s) (or_else None (hs_last_proposer s))" using assms by (simp add: may_approve_def or_else_def)
  then show "host_approve H s w approver None D = durable_approve H w (approver_id p) D" by (rule host_approve_allowed [OF assms(1)])
  have "gate s WORKFLOW_APPROVE_EXPENSE = None" using assms by (simp add: gate_def assert_permission_def)
  moreover have "\<exists>m. assert_separation_of_duties p ''approve_expense'' (Some (approver_id p)) None True True = Inl (AuthorizationError m)"
    using assms(3,5) by (simp add: assert_separation_of_duties_def identities_def)
  ultimately show "\<exists>m. host_approve H s w approver (Some (approver_id p)) D = (Inr (refusal ''separation_of_duties'' m), D)"
    using assms(1,3) by (auto simp: host_approve_def approval_refusal_def or_else_def)
qed

theorem proposer_is_claimed_witness:
  "host_approve demo_host_env (demo_session (demo_principal [FINANCE_APPROVER])) (Some ''w'') None None (demo_workspace REVIEW_PENDING) =
     durable_approve demo_host_env (Some ''w'') ''ann@example.org'' (demo_workspace REVIEW_PENDING)"
proof -
  let ?p = "demo_principal [FINANCE_APPROVER]"
  have "approver_id ?p = ''ann@example.org''" by (simp add: approver_id_def demo_principal_def text_else_def)
  moreover have "pr_tenant ?p = ''o''" "\<not> is_agent_identity ?p" "has_permission ?p WORKFLOW_APPROVE_EXPENSE"
    using demo_may_approve by (simp_all add: may_approve_def)
  ultimately show ?thesis
    using proposer_is_claimed [of "demo_session ?p" ?p demo_host_env "Some ''w''" None "demo_workspace REVIEW_PENDING"] by simp
qed



end
