(* ===== verification/Privacy_Ops.thy ===== *)
theory Privacy_Ops
  imports Donor_Views Tenant_Properties Digest
begin

text \<open>
  A donor's rights over the stored data: the portable export and the erasure of the notification state
  (\<^verbatim>\<open>privacy_ops.py\<close>). The channels of an erasure are a set in the code; here they are listed once each, so the order in
  which their revocations are stored is one of the possible ones.
\<close>

section \<open>Documents\<close>

definition donor_export_doc :: "donor \<Rightarrow> json" where
  "donor_export_doc x = JObj [(''id'', JStr (donor_id x)), (''organization_id'', JStr (donor_org x)),
     (''display_name'', JStr (donor_display_name x))]"

definition donation_export_doc :: "donation \<Rightarrow> json" where
  "donation_export_doc x = JObj
     [(''id'', JStr (don_id x)), (''organization_id'', JStr (don_org x)), (''donor_id'', JStr (don_donor x)),
      (''amount'', JStr (money_str (don_amount x))), (''currency'', JStr (don_currency x)), (''cleared'', JBool (don_cleared x)),
      (''external_source_id'', JStr (don_external x)), (''received_at'', JStr (don_received_at x))]"

definition share_doc :: "donation_allocation \<Rightarrow> json" where
  "share_doc x = JObj [(''id'', JStr (da_id x)), (''donation_id'', JStr (da_donation x)),
     (''allocation_id'', JStr (da_allocation x)), (''amount'', JStr (money_str (da_amount x)))]"

definition attribution_export_doc :: "donor_expense_attribution \<Rightarrow> json" where
  "attribution_export_doc x = JObj
     [(''id'', JStr (at_id x)), (''donor_id'', JStr (at_donor x)), (''donation_id'', JStr (at_donation x)),
      (''expense_id'', JStr (at_expense x)), (''allocation_id'', JStr (at_allocation x)),
      (''attributed_amount'', JStr (money_str (at_amount x))), (''method'', JStr (method_value (at_method x))),
      (''policy_version'', JStr (at_policy_version x)), (''confidence'', JStr (at_confidence x))]"

definition consent_doc :: "consent_record \<Rightarrow> json" where
  "consent_doc x = JObj
     [(''donor_id'', JStr (con_donor x)), (''organization_id'', JStr (con_org x)),
      (''channel'', JStr (channel_value (con_channel x))), (''granted'', JBool (con_granted x)),
      (''provenance'', JStr (con_provenance x)), (''recorded_at'', JStr (con_recorded_at x))]"

definition preference_doc :: "notification_preference \<Rightarrow> json" where
  "preference_doc x = JObj
     [(''donor_id'', JStr (pref_donor x)), (''organization_id'', JStr (pref_org x)),
      (''channel'', JStr (channel_value (pref_channel x))), (''enabled'', JBool (pref_enabled x)),
      (''topics'', JList (map JStr (pref_topics x))), (''cadence'', JStr (pref_cadence x)),
      (''quiet_hours_start'', opt_str (pref_quiet_start x)), (''quiet_hours_end'', opt_str (pref_quiet_end x))]"

definition intent_doc :: "notification_intent \<Rightarrow> json" where
  "intent_doc x = JObj
     [(''id'', JStr (ni_id x)), (''organization_id'', JStr (ni_org x)), (''donor_id'', JStr (ni_donor x)),
      (''channel'', JStr (channel_value (ni_channel x))), (''message_class'', JStr (class_value (ni_class x))),
      (''source_type'', JStr (ni_source_type x)), (''source_id'', JStr (ni_source_id x)), (''dedup_key'', JStr (ni_dedup x)),
      (''policy_version'', JStr (ni_policy_version x)), (''status'', JStr (intent_status_value (ni_status x))),
      (''template_version'', JStr (ni_template_version x)), (''payload'', JObj (ni_payload x)),
      (''created_at'', JStr (ni_created_at x))]"

definition delivery_doc :: "notification_delivery \<Rightarrow> json" where
  "delivery_doc x = JObj
     [(''id'', JStr (nd_id x)), (''intent_id'', JStr (nd_intent x)), (''organization_id'', JStr (nd_org x)),
      (''donor_id'', JStr (nd_donor x)), (''channel'', JStr (channel_value (nd_channel x))), (''success'', JBool (nd_success x)),
      (''provider'', JStr (nd_provider x)), (''provider_receipt'', JStr (nd_provider_receipt x)),
      (''attempted_at'', JStr (nd_attempted_at x)), (''detail'', JStr (nd_detail x))]"

section \<open>The donor's notification state\<close>

definition assert_donor :: "'x tenant_workspace \<Rightarrow> string \<Rightarrow> donor outcome" where
  "assert_donor W d =
     (case dget (donors (tw_ledger W)) d of
        None \<Rightarrow> Inl (NotFoundError (''donor not found: '' @ d))
      | Some x \<Rightarrow> if donor_org x \<noteq> org_id (tw_org W)
          then Inl (TenantIsolationError (''cross-tenant donor access denied: '' @ d)) else Inr x)"

definition own_keys :: "string \<Rightarrow> (string \<times> string, 'v) dict \<Rightarrow> (string \<times> string) list" where
  "own_keys d m = filter (\<lambda>k. fst k = d) (map fst m)"

definition own_entries :: "string \<Rightarrow> (string \<times> string, 'v) dict \<Rightarrow> 'v list" where
  "own_entries d m = map snd (filter (\<lambda>kv. fst (fst kv) = d) m)"

definition own_intents :: "'x tenant_workspace \<Rightarrow> string \<Rightarrow> (string, notification_intent) dict" where
  "own_intents W d = dfilter (\<lambda>i. ni_donor i = d) (tw_intents W)"

definition own_deliveries :: "'x tenant_workspace \<Rightarrow> string \<Rightarrow> string set \<Rightarrow> (string, notification_delivery) dict" where
  "own_deliveries W d ids = dfilter (\<lambda>x. nd_donor x = d \<or> nd_intent x \<in> ids) (tw_deliveries W)"

section \<open>Export\<close>

definition export_donor_data :: "env \<Rightarrow> string \<Rightarrow> 'x tenant_workspace \<Rightarrow> json outcome \<times> 'x tenant_workspace" where
  "export_donor_data E d W =
     (let L = tw_ledger W; org = tw_org W; dons = donor_donations L d;
          shares = filter (\<lambda>da. da_donation da \<in> don_id ` set dons) (dvalues (donation_allocations L));
          intents = dvalues (own_intents W d);
          deliveries = dvalues (own_deliveries W d (ni_id ` set intents)) in
      case (bind_o (assert_donor W d) (\<lambda>x. bind_o (donor_dashboard W d) (\<lambda>dash. bind_o (fund_timeline W d) (\<lambda>events.
            bind_o (allocation_balances L d) (\<lambda>bals. Inr (x, dash, events, bals)))))) of
        Inl e \<Rightarrow> (Inl e, W)
      | Inr (x, dash, events, bals) \<Rightarrow>
          let (t, W1) = tw_time_or_now E None W in
          (Inr (JObj
             [(''export_kind'', JStr ''donor_data_portable_export''), (''schema_version'', JStr ''v1.0''),
              (''organization'', JObj [(''id'', JStr (org_id org)), (''name'', JStr (org_name org)),
                 (''policy_version'', JStr (org_policy_version org))]),
              (''donor'', donor_export_doc x),
              (''ledger'', JObj
                 [(''donations'', JList (map donation_export_doc (sort_key don_id dons))),
                  (''donation_allocations'', JList (map share_doc (sort_key da_id shares))),
                  (''attributions'', JList (map attribution_export_doc
                     (sort_key at_id (filter (\<lambda>a. at_donor a = d) (dvalues (attributions L)))))),
                  (''use_of_funds_receipts'', JList (map uof_to_dict (sort_key r_id (own_receipts L d)))),
                  (''impact_receipts'', JList (map impact_to_dict (sort_key ir_id (own_impacts W d))))]),
              (''donor_experience'', JObj
                 [(''dashboard'', dash), (''timeline'', JList (map event_to_dict events)),
                  (''allocation_balances'', JList (map balance_to_dict bals))]),
              (''notifications'', JObj
                 [(''consents'', JList (map consent_doc (sort_key (\<lambda>c. channel_value (con_channel c)) (own_entries d (tw_consents W))))),
                  (''preferences'', JList (map preference_doc
                     (sort_key (\<lambda>c. channel_value (pref_channel c)) (own_entries d (tw_preferences W))))),
                  (''intents'', JList (map intent_doc (sort_key ni_id intents))),
                  (''deliveries'', JList (map delivery_doc (sort_key nd_id deliveries)))]),
              (''exported_at'', JStr t)]), W1))"

definition export_donor_data_json :: "env \<Rightarrow> string \<Rightarrow> 'x tenant_workspace \<Rightarrow> string outcome \<times> 'x tenant_workspace" where
  "export_donor_data_json E d W = and_then (export_donor_data E d W) (\<lambda>j W1. (Inr (dumps_canonical j), W1))"

section \<open>Erasure\<close>

record erase_receipt =
  er_donor :: string
  er_org :: string
  er_at :: string
  er_consents :: nat
  er_preferences :: nat
  er_intents :: nat
  er_deliveries :: nat

definition erase_receipt_doc :: "erase_receipt \<Rightarrow> json" where
  "erase_receipt_doc r = JObj
     [(''donor_id'', JStr (er_donor r)), (''organization_id'', JStr (er_org r)), (''erased_at'', JStr (er_at r)),
      (''revoked_consents'', JInt (int (er_consents r))), (''removed_preferences'', JInt (int (er_preferences r))),
      (''removed_intents'', JInt (int (er_intents r))), (''removed_deliveries'', JInt (int (er_deliveries r))),
      (''immutable_ledger_preserved'', JBool True)]"

definition drop_keys :: "'k set \<Rightarrow> ('k, 'v) dict \<Rightarrow> ('k, 'v) dict" where
  "drop_keys ks m = filter (\<lambda>kv. fst kv \<notin> ks) m"

text \<open>The channels on which the donor has a consent or a preference.\<close>

definition donor_channels :: "string \<Rightarrow> 'x tenant_workspace \<Rightarrow> notification_channel list" where
  "donor_channels d W = remdups (map con_channel (own_entries d (tw_consents W)) @ map pref_channel (own_entries d (tw_preferences W)))"

definition revoke :: "string \<Rightarrow> string \<Rightarrow> string \<Rightarrow> string \<Rightarrow> notification_channel \<Rightarrow>
    (string \<times> string, consent_record) dict \<Rightarrow> (string \<times> string, consent_record) dict" where
  "revoke d org why at_time ch m = dset (d, channel_value ch)
     \<lparr>con_donor = d, con_org = org, con_channel = ch, con_granted = False, con_provenance = why, con_recorded_at = at_time\<rparr> m"

definition supersede_entry :: "string \<times> notification_intent \<Rightarrow> 'x tenant_workspace \<Rightarrow> 'x tenant_workspace" where
  "supersede_entry ki W =
     (let i = (snd ki)\<lparr>ni_status := NI_SUPERSEDED\<rparr> in
      W\<lparr>tw_intents := dset (fst ki) i (tw_intents W), tw_by_dedup := dset (ni_dedup i) i (tw_by_dedup W)\<rparr>)"

definition erase_donor_notification_state ::
  "env \<Rightarrow> string \<Rightarrow> string \<Rightarrow> string \<Rightarrow> bool \<Rightarrow> string option \<Rightarrow> 'x tenant_workspace \<Rightarrow>
     erase_receipt outcome \<times> 'x tenant_workspace" where
  "erase_donor_notification_state E d actor provenance erase_history revoked_at W =
     (case assert_donor W d of Inl e \<Rightarrow> (Inl e, W) | Inr _ \<Rightarrow>
      if strip actor = [] then (Inl (ValueError ''actor is required''), W)
      else if strip provenance = [] then (Inl (ValueError ''provenance is required''), W)
      else
        let (t, W1) = tw_time_or_now E revoked_at W;
            own = own_intents W1 d; ids = set (map fst own); dels = own_deliveries W1 d ids;
            channels = donor_channels d W1;
            why = provenance @ ''; actor='' @ actor @ ''; privacy_erasure=true'';
            kept = (if erase_history then drop_keys (set (own_keys d (tw_consents W1))) (tw_consents W1) else tw_consents W1);
            W2 = W1\<lparr>tw_preferences := drop_keys (set (own_keys d (tw_preferences W1))) (tw_preferences W1),
                    tw_consents := fold (revoke d (org_id (tw_org W)) why t) channels kept\<rparr>;
            W3 = (if erase_history
              then W2\<lparr>tw_deliveries := drop_keys (set (map fst dels)) (tw_deliveries W2),
                      tw_intents := drop_keys ids (tw_intents W2),
                      tw_by_dedup := drop_keys (set (map ni_dedup (dvalues own))) (tw_by_dedup W2)\<rparr>
              else fold supersede_entry own W2)
        in (Inr \<lparr>er_donor = d, er_org = org_id (tw_org W), er_at = t, er_consents = length channels,
                 er_preferences = length (own_keys d (tw_preferences W1)),
                 er_intents = (if erase_history then length own else 0),
                 er_deliveries = (if erase_history then length dels else 0)\<rparr>, W3))"


section \<open>After an erasure\<close>

lemma dget_drop_keys [simp]: "dget (drop_keys ks m) k = (if k \<in> ks then None else dget m k)"
  by (induction m) (auto simp: drop_keys_def)

lemma revoked:
  "dget (fold (revoke d org why t) chs m) k =
     (if \<exists>ch \<in> set chs. k = (d, channel_value ch)
      then dget (fold (revoke d org why t) chs m) k else dget m k)"
  "k = (d, channel_value ch) \<Longrightarrow> ch \<in> set chs \<Longrightarrow> \<exists>c. dget (fold (revoke d org why t) chs m) k = Some c \<and> \<not> con_granted c"
proof -
  have other: "\<forall>ch \<in> set chs. k \<noteq> (d, channel_value ch) \<Longrightarrow> dget (fold (revoke d org why t) chs m) k = dget m k" for chs m
    by (induction chs arbitrary: m) (auto simp: revoke_def)
  then show "dget (fold (revoke d org why t) chs m) k =
     (if \<exists>ch \<in> set chs. k = (d, channel_value ch)
      then dget (fold (revoke d org why t) chs m) k else dget m k)" by simp
  show "\<exists>c. dget (fold (revoke d org why t) chs m) k = Some c \<and> \<not> con_granted c"
    if "k = (d, channel_value ch)" "ch \<in> set chs" for ch
    using that
  proof (induction chs arbitrary: m)
    case (Cons x xs)
    show ?case
    proof (cases "\<exists>y \<in> set xs. k = (d, channel_value y)")
      case True
      then obtain y where "y \<in> set xs" "k = (d, channel_value y)" by blast
      then show ?thesis using Cons.IH Cons.prems by (cases "ch \<in> set xs") auto
    next
      case False
      then have "ch = x" using Cons.prems by auto
      moreover have "dget (revoke d org why t x m) (d, channel_value x) = Some
          \<lparr>con_donor = d, con_org = org, con_channel = x, con_granted = False, con_provenance = why, con_recorded_at = t\<rparr>"
        by (simp add: revoke_def)
      moreover have "dget (fold (revoke d org why t) xs (revoke d org why t x m)) k = dget (revoke d org why t x m) k"
        using False by (intro other) auto
      ultimately show ?thesis using \<open>ch = x\<close> Cons.prems(1) by simp
    qed
  qed simp
qed


lemma own_entries_in: "dict_ok m \<Longrightarrow> dget m (d, x) = Some c \<Longrightarrow> c \<in> set (own_entries d m)"
  by (force simp: own_entries_def dict_ok_def)

text \<open>Every consent is stored under its donor and its channel.\<close>

definition consents_keyed :: "'x tenant_workspace \<Rightarrow> bool" where
  "consents_keyed W \<longleftrightarrow> dict_ok (tw_consents W) \<and>
     (\<forall>k c. dget (tw_consents W) k = Some c \<longrightarrow> k = (con_donor c, channel_value (con_channel c)))"

lemma service_step_consents:
  "consents_keyed (ns_ws N) \<Longrightarrow> consents_keyed (ns_ws (service_step E A N c))"
proof -
  assume k: "consents_keyed (ns_ws N)"
  have ev: "tw_consents (ns_ws (snd (evaluate_intent E A d ch mc st sid pl tpl t dlv N))) = tw_consents (ns_ws N)"
    for d ch mc st sid pl tpl t dlv
  proof -
    obtain v N' where e: "evaluate_intent E A d ch mc st sid pl tpl t dlv N = (v, N')" by fastforce
    show ?thesis using evaluate_books [OF e] e by (simp add: books_kept_def)
  qed
  have "tw_consents (ns_ws (service_step E A N c)) = tw_consents (ns_ws N)" if "\<forall>x. c \<noteq> RecordConsent x"
  proof (cases c)
    case (PublishImpactReceipts i actor created)
    then show ?thesis using publish_impact_frame [of E i actor created "ns_ws N"] by (auto simp: on_ws_def)
  qed (use that in \<open>auto simp: ev on_ws_def register_program_def register_funded_asset_def deploy_asset_def submit_impact_event_def
        verify_impact_event_def set_preference_def evaluate_for_use_of_funds_def evaluate_for_impact_def Let_def split_beta
        tw_time_or_now_def split: option.splits if_splits\<close>)
  then show ?thesis using k
    by (cases c) (auto simp: consents_keyed_def record_consent_def Let_def)
qed

interpretation consents: kept_invariant "service_step E A" "\<lambda>_ _. True" "\<lambda>N. consents_keyed (ns_ws N)" for E A
  by unfold_locales (rule service_step_consents)

lemma service_consents: "consents_keyed (ns_ws (service_after E A org cs))"
  by (rule consents.run_keeps) (simp_all add: empty_workspace_def consents_keyed_def)

lemma erase_cases:
  assumes "erase_donor_notification_state E d actor provenance history at_time W = (Inr r, W')"
  obtains t c why own where "own = own_intents W d"
    "tw_consents W' = fold (revoke d (org_id (tw_org W)) why t) (donor_channels d W)
       (if history then drop_keys (set (own_keys d (tw_consents W))) (tw_consents W) else tw_consents W)"
    "tw_preferences W' = drop_keys (set (own_keys d (tw_preferences W))) (tw_preferences W)"
    "tw_ledger W' = drew 0 c (tw_ledger W)" "tw_impact_receipts W' = tw_impact_receipts W"
    "history \<longrightarrow> tw_intents W' = drop_keys (set (map fst own)) (tw_intents W) \<and>
       tw_deliveries W' = drop_keys (set (map fst (own_deliveries W d (set (map fst own))))) (tw_deliveries W)"
proof -
  obtain c where W1: "snd (tw_time_or_now E at_time W) = W\<lparr>tw_ledger := drew 0 c (tw_ledger W)\<rparr>"
    using tw_time_or_now_snd by blast
  have sup: "tw_consents (fold supersede_entry own V) = tw_consents V \<and> tw_preferences (fold supersede_entry own V) = tw_preferences V \<and>
      tw_ledger (fold supersede_entry own V) = tw_ledger V \<and> tw_impact_receipts (fold supersede_entry own V) = tw_impact_receipts V"
    for own and V :: "'a tenant_workspace"
    by (induction own arbitrary: V) (simp_all add: supersede_entry_def Let_def)
  let ?t = "fst (tw_time_or_now E at_time W)" and ?why = "provenance @ ''; actor='' @ actor @ ''; privacy_erasure=true''"
  show thesis
    by (rule that [of "own_intents W d" ?why ?t c])
      (use assms W1 sup in \<open>auto simp: erase_donor_notification_state_def Let_def split_beta own_intents_def own_deliveries_def
        donor_channels_def tw_org_def split: sum.splits if_splits\<close>)
qed

lemma no_consent_no_send:
  assumes "\<not> has_consent (ns_ws N) d ch"
  shows "ns_adapters (snd (evaluate_intent E A d ch mc st sid pl tpl t dlv N)) = ns_adapters N"
proof -
  obtain v N' where e: "evaluate_intent E A d ch mc st sid pl tpl t dlv N = (v, N')" by fastforce
  then show ?thesis
  proof (cases rule: evaluate_cases)
    case (sent i created c w)
    then show ?thesis using assms by (simp add: gate_status_def split: if_splits)
  qed (use e in simp_all)
qed

text \<open>C32. An erasure silences the service towards the donor and touches nothing else of value: in every service history,
  with or without the history of messages, no channel has consent and no preference is left, so no message reaches a
  provider; with the history no message and no delivery of the donor is left; the ledger and the impact receipts
  are kept, and so are the consents and preferences of every other donor.\<close>

theorem erasure_silences:
  assumes "W = ns_ws (service_after E A org cs)"
    and "erase_donor_notification_state E' d actor provenance history at_time W = (Inr r, W')"
  shows "(\<forall>ch. \<not> has_consent W' d ch \<and> dget (tw_preferences W') (d, channel_value ch) = None) \<and>
    ns_adapters (snd (evaluate_intent E A d ch mc st sid pl tpl t dlv (N\<lparr>ns_ws := W'\<rparr>))) = ns_adapters N \<and>
    (history \<longrightarrow> own_intents W' d = [] \<and> own_deliveries W' d {} = []) \<and>
    only_draws (tw_ledger W) (tw_ledger W') \<and> tw_impact_receipts W' = tw_impact_receipts W \<and>
    (\<forall>d' x. d' \<noteq> d \<longrightarrow> dget (tw_consents W') (d', x) = dget (tw_consents W) (d', x) \<and>
      dget (tw_preferences W') (d', x) = dget (tw_preferences W) (d', x))"
  using assms(2)
proof (cases rule: erase_cases)
  case (1 tm cc why own)
  have keyed: "consents_keyed W" using service_consents assms(1) by simp
  let ?kept = "if history then drop_keys (set (own_keys d (tw_consents W))) (tw_consents W) else tw_consents W"
  have silent: "\<not> has_consent W' d ch" for ch
  proof (cases "ch \<in> set (donor_channels d W)")
    case True
    then obtain x where "dget (tw_consents W') (d, channel_value ch) = Some x" "\<not> con_granted x"
      unfolding 1(2) using revoked(2) [OF refl] by blast
    then show ?thesis by (simp add: has_consent_def)
  next
    case False
    have "dget (tw_consents W) (d, channel_value ch) = None"
    proof (cases "dget (tw_consents W) (d, channel_value ch)")
      case (Some x)
      then have "(d, channel_value ch) = (con_donor x, channel_value (con_channel x))"
        using keyed unfolding consents_keyed_def by blast
      then have "con_channel x = ch" by simp
      moreover have "x \<in> set (own_entries d (tw_consents W))" using Some keyed by (auto simp: consents_keyed_def own_entries_in)
      ultimately have "ch \<in> set (donor_channels d W)" by (auto simp: donor_channels_def)
      with False show ?thesis by simp
    qed
    then have "dget ?kept (d, channel_value ch) = None" by simp
    moreover have "dget (tw_consents W') (d, channel_value ch) = dget ?kept (d, channel_value ch)"
      unfolding 1(2) using False by (subst revoked(1)) auto
    ultimately show ?thesis by (simp add: has_consent_def)
  qed
  have keys: "k \<in> set (own_keys d m) \<longleftrightarrow> fst k = d \<and> dget m k \<noteq> None" for k and m :: "(string \<times> string, 'v) dict"
    by (induction m) (auto simp: own_keys_def)
  have "\<not> has_consent W' d ch \<and> dget (tw_preferences W') (d, channel_value ch) = None" for ch
    using silent 1(3) by (simp add: keys)
  moreover have "own_intents W' d = [] \<and> own_deliveries W' d {} = []" if history
  proof -
    have "tw_intents W' = drop_keys (set (map fst own)) (tw_intents W)"
      "tw_deliveries W' = drop_keys (set (map fst (own_deliveries W d (set (map fst own))))) (tw_deliveries W)"
      using 1(6) that by simp_all
    then show ?thesis using 1(1)
      by (force simp: own_intents_def own_deliveries_def drop_keys_def dfilter_def filter_empty_conv)
  qed
  moreover have "dget (tw_consents W') (d', x) = dget (tw_consents W) (d', x) \<and>
      dget (tw_preferences W') (d', x) = dget (tw_preferences W) (d', x)" if "d' \<noteq> d" for d' x
    unfolding 1(2,3) using that by (subst revoked(1)) (simp add: keys)
  moreover have "ns_adapters (snd (evaluate_intent E A d ch mc st sid pl tpl t dlv (N\<lparr>ns_ws := W'\<rparr>))) = ns_adapters N"
    using no_consent_no_send [of "N\<lparr>ns_ws := W'\<rparr>" d ch] silent by simp
  ultimately show ?thesis using 1(4,5) by simp
qed

theorem erasure_silences_witness:
  "has_consent (ns_ws demo_service) ''d'' EMAIL \<and>
   (\<exists>r W'. erase_donor_notification_state demo_env ''d'' ''dpo'' ''request'' True None (ns_ws demo_service) = (Inr r, W') \<and>
      \<not> has_consent W' ''d'' EMAIL \<and> own_intents W' ''d'' = [])"
proof -
  have "\<exists>r W'. erase_donor_notification_state demo_env ''d'' ''dpo'' ''request'' True None (ns_ws demo_service) = (Inr r, W')"
    by (simp add: erase_donor_notification_state_def assert_donor_def strip_def is_space_def Let_def split_beta)
  then obtain r W' where e: "erase_donor_notification_state demo_env ''d'' ''dpo'' ''request'' True None (ns_ws demo_service) = (Inr r, W')"
    by blast
  from erasure_silences [OF demo_service_def [THEN arg_cong, of ns_ws] e] e show ?thesis by auto
qed

end
