(* ===== verification/Spec2Isabelle.thy ===== *)
theory Spec2Isabelle
  imports Ledger_Properties Ledger_Operations Ledger_Gaps Workflow_Scheduling Tenant_Properties Durable
    Gate_Properties Runtime_Histories Runtime_Properties Sql_Properties Console_Gaps Privacy_Ops
begin

text \<open>
  \<^bold>\<open>Impact Relay, modelled\<close>

  Impact Relay tells donors what their money bought. Donations are assigned to funds, expenses are imported,
  charged to funds and approved, a donor's share of an approved expense is attributed, and a receipt is
  published for it; corrections reverse or supersede an expense and publish correction receipts. Agents propose
  commands; a human approves the consequential ones; an executor runs each once; workflows carry an expense
  through the steps over a durable store; a command log restores the ledger after a restart. Hosts put sessions, screens
  and an HTTP console before it; donors read their own part through an API.

  \<^bold>\<open>Theories and sources\<close> (paths under \<^verbatim>\<open>src/src/impact_relay/\<close>)

  \<^item> \<^verbatim>\<open>Prelude\<close>: exceptions as a datatype, outcomes as sums, dictionaries as insertion-ordered association lists,
    strings, and the locales \<^verbatim>\<open>kept_invariant\<close> and \<^verbatim>\<open>append_only_store\<close> that histories rest on.
  \<^item> \<^verbatim>\<open>Json\<close>, \<^verbatim>\<open>Money\<close>, \<^verbatim>\<open>Payload\<close>: JSON values with \<^verbatim>\<open>_stable_hash\<close>'s canonical text; \<^verbatim>\<open>money()\<close> as integer cents
    (half-even rounding, 28-digit context); decimal literals and typed reads of payload fields.
  \<^item> \<^verbatim>\<open>Domain_Types\<close>: the records, enumerations and receipt documents of \<^verbatim>\<open>domain/types.py\<close>.
  \<^item> \<^verbatim>\<open>Ledger\<close>: \<^verbatim>\<open>domain/ledger.py\<close>, one definition per method over the record \<^verbatim>\<open>ledger\<close> of its eleven stores, the audit
    log and the counts of identifiers and clock readings drawn; \<^verbatim>\<open>ledger_step\<close> is one public call.
  \<^item> \<^verbatim>\<open>Ledger_Effects\<close>: the step relation \<^verbatim>\<open>effect\<close> of primitive changes and the refinement that every call is a
    sequence of them; \<^verbatim>\<open>Ledger_Invariants\<close>: what every primitive change keeps; \<^verbatim>\<open>Ledger_Corrections\<close>: the correction
    loops in full; \<^verbatim>\<open>Scenario\<close>: a concrete history for the witnesses; \<^verbatim>\<open>Ledger_Properties\<close>, \<^verbatim>\<open>Ledger_Operations\<close>:
    properties of histories and of single calls; \<^verbatim>\<open>Ledger_Gaps\<close>: where the code breaks its own promise.
  \<^item> \<^verbatim>\<open>Ledger_Log\<close>, \<^verbatim>\<open>Ledger_Log_Properties\<close>: the snapshot document, its fold and the log file of
    \<^verbatim>\<open>domain/ledger_log.py\<close>; the round trip of every entity and of the whole ledger.
  \<^item> \<^verbatim>\<open>Agents\<close>: commands, proposals, approvals (\<^verbatim>\<open>agents/types.py\<close>), the gate (\<^verbatim>\<open>agents/authority.py\<close>), the executor over
    any dispatcher and receipt index (\<^verbatim>\<open>agents/base.py\<close>) and the rebuild of a frozen command
    (\<^verbatim>\<open>workflows/commands.py\<close>); the index's contract is the locale \<^verbatim>\<open>receipt_index_laws\<close>.
  \<^item> \<^verbatim>\<open>Privacy\<close>: \<^verbatim>\<open>agents/privacy.py\<close> and \<^verbatim>\<open>public_export.py\<close>.
  \<^item> \<^verbatim>\<open>Executor\<close>, \<^verbatim>\<open>Executor_Properties\<close>: \<^verbatim>\<open>LedgerCommandExecutor\<close> of \<^verbatim>\<open>agents/executor.py\<close>, every handler over ledger,
    workspace and notification service, and the preview check of \<^verbatim>\<open>agents/notification_composer.py\<close>.
  \<^item> \<^verbatim>\<open>Durable\<close>: the logged executor of \<^verbatim>\<open>workflows/durable.py\<close> and the refinement of the ledger by its log.
  \<^item> \<^verbatim>\<open>Workflow_Types\<close>, \<^verbatim>\<open>Workflow_Store\<close>, \<^verbatim>\<open>Workflow_Properties\<close>, \<^verbatim>\<open>Workflow_Scheduling\<close>: \<^verbatim>\<open>workflows/types.py\<close>,
    \<^verbatim>\<open>machine.py\<close>, \<^verbatim>\<open>exceptions.py\<close>, \<^verbatim>\<open>guards.py\<close> and the in-memory store of \<^verbatim>\<open>store_memory.py\<close>, which provides the
    receipt index the executor asks for.
  \<^item> \<^verbatim>\<open>Sql_Store\<close>: \<^verbatim>\<open>workflows/store_sql.py\<close> on SQLite, four tables as lists of rows, one definition per statement and per
    method; \<^verbatim>\<open>Sql_Base\<close>, \<^verbatim>\<open>Sql_Refinement\<close>, \<^verbatim>\<open>Sql_Simulation\<close>, \<^verbatim>\<open>Sql_Histories\<close>: columns that read back, the relation
    \<open>represents\<close> between the in-memory store and the tables, its simulation by every method, and the locale
    \<^verbatim>\<open>simulation\<close> that carries it to histories; \<^verbatim>\<open>Sql_Properties\<close>: refinement, constraints, leases, divergences.
  \<^item> \<^verbatim>\<open>Gate\<close>, \<^verbatim>\<open>Gate_Properties\<close>: the human gates of \<^verbatim>\<open>workflows/runtime.py\<close> over an engine, which is one advance's
    executor with the store as its receipt index, and what one visit of a gate can and cannot do.
  \<^item> \<^verbatim>\<open>Expense_Agents\<close>, \<^verbatim>\<open>Digest\<close>, \<^verbatim>\<open>Workflow_Steps\<close>: the agents of \<^verbatim>\<open>agents/expense_workflow.py\<close> and
    \<^verbatim>\<open>agents/notification_composer.py\<close>; \<^verbatim>\<open>digest.py\<close>; the steps of \<^verbatim>\<open>workflows/expense_to_receipt.py\<close>,
    \<^verbatim>\<open>corrections.py\<close> and \<^verbatim>\<open>scheduled_digest.py\<close>, each a function from its inputs to a step result.
  \<^item> \<^verbatim>\<open>Runtime\<close>, \<^verbatim>\<open>Worker\<close>: \<^verbatim>\<open>WorkflowRuntime\<close> as a whole (\<^verbatim>\<open>advance_once\<close> opens an engine on the tenant's workspace,
    makes one step and closes it; the pump; starting and signalling) and the worker and operator queries of
    \<^verbatim>\<open>workflows/worker.py\<close> and \<^verbatim>\<open>ops.py\<close>. The state is \<^verbatim>\<open>runtime\<close>: the store and the workspaces by tenant.
  \<^item> \<^verbatim>\<open>Engine_Frames\<close>: what each step leaves alone; \<^verbatim>\<open>Runtime_Safety\<close>: histories of runtime calls
    (\<^verbatim>\<open>runtime_step\<close>) without approvals; \<^verbatim>\<open>Runtime_Machine\<close>, \<^verbatim>\<open>Runtime_Histories\<close>: the refinement of the transition
    tables by every step and every history; \<^verbatim>\<open>Runtime_Properties\<close>: single behaviours of runtime and worker.
  \<^item> \<^verbatim>\<open>Workspace\<close>, \<^verbatim>\<open>Impact\<close>, \<^verbatim>\<open>Notifications\<close>, \<^verbatim>\<open>Tenant\<close>, \<^verbatim>\<open>Tenant_Properties\<close>: one organization's workspace, its
    impact and notification services, and the platform (\<^verbatim>\<open>domain/tenant.py\<close>, \<^verbatim>\<open>impact.py\<close>, \<^verbatim>\<open>notifications.py\<close>).
  \<^item> \<^verbatim>\<open>Donor_Views\<close>, \<^verbatim>\<open>Donor_Books\<close>: the reads of \<^verbatim>\<open>domain/donor_views.py\<close> over a workspace, and what they owe the ledger; the
    interpretation \<^verbatim>\<open>workspace_base\<close> carries the ledger's histories to workspaces.
  \<^item> \<^verbatim>\<open>Access\<close>, \<^verbatim>\<open>Access_Properties\<close>: roles, permissions, principals and separation of duties of \<^verbatim>\<open>auth/\<close>, and the guarded donor API of
    \<^verbatim>\<open>donor/api.py\<close>. \<^verbatim>\<open>Identity\<close>: tokens, memberships and principals (\<^verbatim>\<open>auth/oidc.py\<close>, \<^verbatim>\<open>jwt_oidc.py\<close>, \<^verbatim>\<open>supabase.py\<close>).
  \<^item> \<^verbatim>\<open>Host_Session\<close>: sessions and screens of \<^verbatim>\<open>host/\<close> over the durable workspace of \<^verbatim>\<open>workflows/durable.py\<close>. \<^verbatim>\<open>Console\<close>: the HTTP console of
    \<^verbatim>\<open>console_server.py\<close>, from a request to an answer and the next workspace. \<^verbatim>\<open>Console_Properties\<close>, \<^verbatim>\<open>Console_Gaps\<close>: who gets an
    answer and who changes anything; where hosts sign more than they check.
  \<^item> \<^verbatim>\<open>Privacy_Ops\<close>: export and erasure of \<^verbatim>\<open>privacy_ops.py\<close>; the interpretation \<^verbatim>\<open>consents\<close> keeps what service histories need.

  \<^bold>\<open>What the lemmas show\<close>

  Ledger: balances and coverage of donations, funds and donor designations; charges of approved expenses;
  receipts that are unique, backed, immutable and corrected one by one; an expense that only moves forward and
  whose life ends; references that resolve; audit entries that stay; what each call guarantees and when it is
  refused. Some hold for every history, others for disciplined ones, in which identifiers written are unused
  and an expense is charged once per fund; the gaps show the discipline is needed. Governance: no consequential
  command without a matching human approval, each key executed once, and, through the executor's handlers, no
  money moved and nothing published or sent without an approval. Durability: the log refines the ledger when
  nothing was replaced, and a replaced charge comes back otherwise. Workflows: claims, leases, receipts and
  transitions of the store; the SQL store answers as the in-memory one after every accepted history, up to times it
  stamps itself, and the two places where it does not: signals for finished workflows, and times with offsets. Runtime:
  no money moves and nothing is sent without a signalled approval, whatever is
  started, pumped, swept and worked on; a gate acts only on a matching human approval; states follow the
  transition tables; a gate holds a command of its own kind; an approval arrives as it was given; repeated errors
  end in the dead letters; and where the code departs from its intent: refusals that leave the gate open, refused
  commands that are retried, woken workflows that never wait, evidence policies without effect. Services: one
  delivery per message, none without consent, one impact receipt per
  donor, event and fund, and tenants that do not touch each other. Public documents: no banned key at any depth. Donor
  views: balances that are the ledger's sums, and nothing shown that is not the donor's own. Access: the donor API, the
  sessions and the console answer and change only what a principal's roles, tenant and donor allow, an identity comes only
  from where the configuration says, and an erasure silences the service; the gaps: hosts sign every gate with the right
  to approve expenses, take the proposer from the request, and forget the preferences set through a session.

  \<^bold>\<open>Modelling choices and bounds\<close>

  \<^item> Amounts are integer cents, exact; \<^verbatim>\<open>money()\<close> raises beyond \<open>10 ^ 28\<close> cents, the precision of the decimal
    context, and sums of that many digits are not rounded in the model. Decimal literals read from payloads have a
    sign, digits and a fraction.
  \<^item> \<^verbatim>\<open>env\<close> holds the sources a call draws from: the n-th \<^verbatim>\<open>uuid4\<close> text, the n-th clock text and SHA-256. Properties that
    need distinct identifiers assume \<^verbatim>\<open>uuid4\<close> injective or the drawn identifiers unused.
  \<^item> Strings are lists of characters below 256. Fields read as text raise \<^verbatim>\<open>TypeError\<close> for another JSON type, where
    Python would carry the value on.
  \<^item> A method under a lock is one step. Loops run over lists, so no fuel is needed; every definition is total.
  \<^item> Delivery adapters are an interface; configured adapters keep their state with the workspace, default ones live
    as long as the service. Returned instances are copies, as the callers treat them.
  \<^item> The log file is its list of JSON rows.
  \<^item> The JWT library, the tenant registry, the entity snapshot a host reads and the texts the operating system gives are
    parameters. Claims that are texts in every token are read as texts. A request is its parsed path, query, headers
    and body; an answer is its status and document.
  \<^item> \<^verbatim>\<open>runtime_env\<close> adds the worker's clock as microseconds, its parsing and printing, and \<^verbatim>\<open>uuid4\<close> by the reading it is
    drawn at; \<^verbatim>\<open>ws_clock\<close> counts the readings. The pump and the worker's loops take the number of rounds the code gives
    them, so they are structural recursions. A step that raises leaves the changes it made before.
  \<^item> Characters of documents outside the character type (dash, ellipsis) are unused characters that stand for them.

  \<^bold>\<open>Not modelled\<close>

  \<^verbatim>\<open>workflows/facade.py\<close>, which chooses between the runtime and an earlier linear driver, and that driver in
  \<^verbatim>\<open>agents/expense_workflow.py\<close>; the rule documents of \<^verbatim>\<open>policy.py\<close>; reconciliation with accounting exports; the queries of a session over the
  entity snapshot. The PostgreSQL statements of the SQL store, the files of SQL and object storage, the command line,
  the sockets and headers of the console, e-mail and SMS providers, public feeds and pilot scripts are input and output
  over services outside the repository.
\<close>

end
